(* ===== verification/Prelude.thy ===== *)
theory Prelude
  imports Main "HOL-Library.Word" "HOL-Library.Multiset"
begin

text \<open>
  Shared vocabulary of the development: the machine integers of the Rust sources as words,
  \<open>to_be_bytes\<close> and \<open>from_be_bytes\<close>, Rust's saturating arithmetic, results as sums, and
  the list, multiset and word facts that several components use.
\<close>

unbundle bit_operations_syntax

section \<open>Machine types\<close>

type_synonym u8 = "8 word"
type_synonym u16 = "16 word"
type_synonym u32 = "32 word"
type_synonym u64 = "64 word"
type_synonym u128 = "128 word"
type_synonym i64 = "64 word" \<comment> \<open>two's complement, read with \<open>sint\<close>\<close>
type_synonym bytes = "u8 list"

text \<open>Rust's \<open>Result<T, E>\<close>: \<open>Inl\<close> the error, \<open>Inr\<close> the value.\<close>

type_synonym ('a, 'e) result = "'e + 'a"

text \<open>The development's collections of rewrite rules and introduction rules.\<close>

named_theorems word_facts \<open>facts on machine words\<close>
named_theorems mim_simps \<open>laws of a multi-index map, as rewrite rules\<close>
named_theorems inv_intros \<open>preservation of component invariants\<close>

section \<open>Saturating arithmetic\<close>

definition saturating_add :: "'a::len word \<Rightarrow> 'a word \<Rightarrow> 'a word" where
  "saturating_add a b = (if unat a + unat b < 2 ^ LENGTH('a) then a + b else - 1)"

definition saturating_sub :: "'a::len word \<Rightarrow> 'a word \<Rightarrow> 'a word" where
  "saturating_sub a b = (if b \<le> a then a - b else 0)"

lemma unat_saturating_add [word_facts]:
  "unat (saturating_add a b) = min (unat a + unat b) (2 ^ LENGTH('a) - 1)"
  for a b :: "'a::len word"
proof (cases "unat a + unat b < 2 ^ LENGTH('a)")
  case True
  then show ?thesis
    by (simp add: saturating_add_def unat_word_ariths)
next
  case False
  then have "unat (saturating_add a b) = 2 ^ LENGTH('a) - 1"
    by (simp add: saturating_add_def unsigned_minus_1_eq_mask mask_eq_exp_minus_1)
  with False show ?thesis by simp
qed

lemma unat_saturating_sub [word_facts]:
  "unat (saturating_sub a b) = unat a - unat b"
  for a b :: "'a::len word"
  by (auto simp: saturating_sub_def unat_sub word_le_nat_alt)

lemma unat_Suc_word: "n < - 1 \<Longrightarrow> unat (n + 1) = Suc (unat n)" for n :: "'a::len word"
proof -
  assume "n < - 1"
  then have "unat n < unat (- 1 :: 'a word)" by (simp add: word_less_nat_alt)
  then have "Suc (unat n) < 2 ^ LENGTH('a)"
    by (simp add: unsigned_minus_1_eq_mask mask_eq_exp_minus_1)
  then show ?thesis by (simp add: unat_word_ariths)
qed

lemma word_less_Suc: "n < - 1 \<Longrightarrow> n < n + 1" for n :: "'a::len word"
  by (simp add: word_less_nat_alt unat_Suc_word)

section \<open>Big-endian bytes\<close>

text \<open>
  \<open>be_bytes n w\<close> is Rust's \<open>to_be_bytes\<close> of an \<open>n\<close>-byte integer: the most significant
  byte first. \<open>from_be_bytes\<close> reads such a list back.
\<close>

fun be_bytes :: "nat \<Rightarrow> 'a::len word \<Rightarrow> bytes" where
  "be_bytes 0 w = []"
| "be_bytes (Suc n) w = ucast (drop_bit (8 * n) w) # be_bytes n w"

fun from_be_nat :: "bytes \<Rightarrow> nat" where
  "from_be_nat [] = 0"
| "from_be_nat (b # bs) = unat b * 256 ^ length bs + from_be_nat bs"

definition from_be_bytes :: "bytes \<Rightarrow> 'a::len word" where
  "from_be_bytes bs = of_nat (from_be_nat bs)"

lemma length_be_bytes [simp]: "length (be_bytes n w) = n"
  by (induction n) simp_all

lemma drop_bit_nat_eq: "drop_bit (8 * n) (k :: nat) = k div 256 ^ n"
  by (simp add: drop_bit_eq_div power_mult)

lemma from_be_nat_be_bytes: "from_be_nat (be_bytes n w) = unat w mod 256 ^ n"
proof (induction n)
  case 0
  show ?case by simp
next
  case (Suc n)
  have byte: "unat (ucast (drop_bit (8 * n) w) :: u8) = unat w div 256 ^ n mod 256"
    by (simp only: unsigned_ucast_eq unsigned_drop_bit_eq)
      (simp add: take_bit_eq_mod drop_bit_nat_eq power_mult)
  have "unat w mod 256 ^ Suc n = 256 ^ n * (unat w div 256 ^ n mod 256) + unat w mod 256 ^ n"
    using mod_mult2_eq [of "unat w" "256 ^ n" 256] by (simp add: mult.commute)
  then show ?case
    by (simp only: be_bytes.simps from_be_nat.simps length_be_bytes Suc.IH byte) simp
qed

lemma from_be_bytes_be_bytes:
  assumes "LENGTH('a) \<le> 8 * n"
  shows "from_be_bytes (be_bytes n w) = (w :: 'a::len word)"
proof -
  have "unat w < 2 ^ LENGTH('a)" by simp
  also have "\<dots> \<le> 2 ^ (8 * n)" using assms by (intro power_increasing) simp_all
  finally have "unat w < 256 ^ n" by (simp add: power_mult)
  then show ?thesis
    by (simp add: from_be_bytes_def from_be_nat_be_bytes)
qed

lemma be_bytes_inject:
  assumes "LENGTH('a) \<le> 8 * n"
  shows "be_bytes n v = be_bytes n w \<longleftrightarrow> v = (w :: 'a::len word)"
  using from_be_bytes_be_bytes [OF assms] by metis

section \<open>Lists and multisets\<close>

lemma mset_eq_setD: "mset xs = mset ys \<Longrightarrow> set xs = set ys"
  by (metis set_mset_mset)

lemma mset_filter_set:
  "mset ys = filter_mset P (mset xs) \<Longrightarrow> set ys = {x \<in> set xs. P x}"
  by (metis mset_filter set_filter set_mset_mset)

end
