(* ===== verification/Decimal.thy ===== *)
theory Decimal
  imports Prelude
begin

text \<open>
  Integer formatting and parsing of the Rust standard library as the sources use them:
  \<open>to_string\<close> of an unsigned integer, \<open>{:016x}\<close>, and \<open>str::parse::<u32>\<close> (an optional
  \<open>+\<close>, at least one digit, digits only, an error on overflow).
\<close>

definition digit_char :: "nat \<Rightarrow> char" where
  "digit_char d = char_of (48 + d)"

definition char_digit :: "char \<Rightarrow> nat option" where
  "char_digit c = (let n = of_char c in if 48 \<le> n \<and> n \<le> 57 then Some (n - 48) else None)"

fun dec_string :: "nat \<Rightarrow> string" where
  "dec_string n =
    (if n < 10 then [digit_char n] else dec_string (n div 10) @ [digit_char (n mod 10)])"

declare dec_string.simps [simp del]

definition hex_char :: "nat \<Rightarrow> char" where
  "hex_char d = (if d < 10 then char_of (48 + d) else char_of (87 + d))"

fun hex_digits :: "nat \<Rightarrow> nat \<Rightarrow> string" where
  "hex_digits 0 v = []"
| "hex_digits (Suc n) v = hex_digits n (v div 16) @ [hex_char (v mod 16)]"

text \<open>\<open>format!("{:016x}", v)\<close>: a \<open>u64\<close> has at most sixteen hexadecimal digits.\<close>

definition hex16 :: "u64 \<Rightarrow> string" where
  "hex16 v = hex_digits 16 (unat v)"

fun parse_digits :: "nat \<Rightarrow> string \<Rightarrow> nat option" where
  "parse_digits acc [] = Some acc"
| "parse_digits acc (c # cs) =
    (case char_digit c of None \<Rightarrow> None | Some d \<Rightarrow> parse_digits (10 * acc + d) cs)"

definition parse_unsigned :: "nat \<Rightarrow> string \<Rightarrow> nat option" where
  "parse_unsigned bound s =
    (let digits = (case s of c # cs \<Rightarrow> if c = CHR ''+'' then cs else s | [] \<Rightarrow> s) in
     if digits = [] then None
     else case parse_digits 0 digits of
       None \<Rightarrow> None
     | Some n \<Rightarrow> if n < bound then Some n else None)"

definition parse_u32 :: "string \<Rightarrow> u32 option" where
  "parse_u32 s = map_option of_nat (parse_unsigned (2 ^ 32) s)"

definition parse_u8 :: "string \<Rightarrow> u8 option" where
  "parse_u8 s = map_option of_nat (parse_unsigned (2 ^ 8) s)"

text \<open>\<open>split_once(c)\<close> and \<open>split(c).next()\<close>.\<close>

fun split_once :: "char \<Rightarrow> string \<Rightarrow> (string \<times> string) option" where
  "split_once c [] = None"
| "split_once c (x # xs) =
    (if x = c then Some ([], xs)
     else map_option (\<lambda>(a, b). (x # a, b)) (split_once c xs))"

definition split_first :: "char \<Rightarrow> string \<Rightarrow> string" where
  "split_first c s = takeWhile (\<lambda>x. x \<noteq> c) s"

section \<open>Round trip\<close>

lemma char_digit_digit_char [simp]: "d < 10 \<Longrightarrow> char_digit (digit_char d) = Some d"
  by (simp add: char_digit_def digit_char_def Let_def)

lemma digit_char_ne_plus: "d < 10 \<Longrightarrow> digit_char d \<noteq> CHR ''+''"
  using char_digit_digit_char [of d] by (auto simp: char_digit_def)

lemma parse_digits_append:
  "parse_digits acc (xs @ ys) =
    (case parse_digits acc xs of None \<Rightarrow> None | Some n \<Rightarrow> parse_digits n ys)"
  by (induction xs arbitrary: acc) (auto split: option.splits)

lemma parse_digits_dec_string: "parse_digits 0 (dec_string n) = Some n"
proof (induction n rule: dec_string.induct)
  case (1 n)
  show ?case
  proof (cases "n < 10")
    case True
    then show ?thesis by (simp add: dec_string.simps [of n])
  next
    case False
    with 1 show ?thesis
      by (simp add: dec_string.simps [of n] parse_digits_append)
  qed
qed

lemma dec_string_hd: "\<exists>d cs. dec_string n = digit_char d # cs \<and> d < 10"
proof (induction n rule: dec_string.induct)
  case (1 n)
  show ?case
  proof (cases "n < 10")
    case True
    then show ?thesis by (auto simp: dec_string.simps [of n])
  next
    case False
    with 1 obtain d cs where "dec_string (n div 10) = digit_char d # cs" "d < 10" by blast
    with False show ?thesis by (auto simp: dec_string.simps [of n])
  qed
qed

lemma parse_unsigned_dec_string: "n < bound \<Longrightarrow> parse_unsigned bound (dec_string n) = Some n"
proof -
  assume n: "n < bound"
  obtain d cs where d: "dec_string n = digit_char d # cs" "d < 10" using dec_string_hd by blast
  have "parse_digits 0 (digit_char d # cs) = Some n"
    using parse_digits_dec_string [of n] d by simp
  with n d(2) show ?thesis
    by (simp add: parse_unsigned_def d(1) digit_char_ne_plus Let_def del: parse_digits.simps)
qed

lemma parse_u32_dec_string: "parse_u32 (dec_string (unat w)) = Some (w :: u32)"
proof -
  have "unat w < 2 ^ LENGTH(32)" by (rule unsigned_less)
  then show ?thesis by (simp add: parse_u32_def parse_unsigned_dec_string)
qed

lemma dec_string_inject: "dec_string a = dec_string b \<longleftrightarrow> a = b"
  using parse_digits_dec_string by (metis option.inject)

end
