(* ===== verification/NetAddr.thy ===== *)
theory NetAddr
  imports Decimal
begin

text \<open>
  Addresses of the Rust standard library as the server uses them: \<open>IpAddr\<close>, and the parsers
  behind \<open>str::parse::<IpAddr>\<close> and \<open>str::parse::<SocketAddr>\<close> (of a socket address only the
  IP part is used). A reader takes the rest of the input and returns what it read with the
  remaining input, or fails and leaves the input where it was.
\<close>

datatype ip_addr = V4 u32 | V6 u128

type_synonym 'a reader = "string \<Rightarrow> ('a \<times> string) option"

section \<open>Numbers\<close>

definition to_digit :: "int \<Rightarrow> char \<Rightarrow> int option" where
  "to_digit radix c =
    (let n = (of_char c :: nat);
         d = (if 48 \<le> n \<and> n \<le> 57 then Some (int n - 48)
              else if 97 \<le> n \<and> n \<le> 122 then Some (int n - 87)
              else if 65 \<le> n \<and> n \<le> 90 then Some (int n - 55)
              else None)
     in case d of Some v \<Rightarrow> if v < radix then Some v else None | None \<Rightarrow> None)"

text \<open>The digits at the front of the input: their value, how many there are, and the rest.\<close>

fun read_digits :: "int \<Rightarrow> int \<Rightarrow> nat \<Rightarrow> string \<Rightarrow> int \<times> nat \<times> string" where
  "read_digits radix acc n [] = (acc, n, [])"
| "read_digits radix acc n (c # cs) =
    (case to_digit radix c of
       Some d \<Rightarrow> read_digits radix (acc * radix + d) (n + 1) cs
     | None \<Rightarrow> (acc, n, c # cs))"

text \<open>
  \<open>read_number\<close>: a number below \<open>bound\<close> with at most \<open>max_digits\<close> digits if that is given;
  without \<open>zero_prefix\<close> a leading zero is only allowed alone.
\<close>

definition read_number :: "int \<Rightarrow> nat option \<Rightarrow> bool \<Rightarrow> int \<Rightarrow> int reader" where
  "read_number radix max_digits zero_prefix bound s =
    (let (v, n, rest) = read_digits radix 0 0 s in
     if (case max_digits of Some m \<Rightarrow> n > m | None \<Rightarrow> False) then None
     else if n = 0 then None
     else if \<not> zero_prefix \<and> hd s = CHR ''0'' \<and> n > 1 then None
     else if v < bound then Some (v, rest)
     else None)"

fun read_given_char :: "char \<Rightarrow> unit reader" where
  "read_given_char c [] = None"
| "read_given_char c (x # xs) = (if x = c then Some ((), xs) else None)"

text \<open>\<open>read_separator\<close>: every element but the first one follows the separator.\<close>

definition read_separator :: "char \<Rightarrow> nat \<Rightarrow> 'a reader \<Rightarrow> 'a reader" where
  "read_separator sep index inner s =
    (if index > 0
     then (case read_given_char sep s of Some (_, rest) \<Rightarrow> inner rest | None \<Rightarrow> None)
     else inner s)"

section \<open>IPv4\<close>

fun read_octets :: "nat \<Rightarrow> nat \<Rightarrow> int list reader" where
  "read_octets 0 i s = Some ([], s)"
| "read_octets (Suc k) i s =
    (case read_separator CHR ''.'' i (read_number 10 (Some 3) False 256) s of
       None \<Rightarrow> None
     | Some (v, rest) \<Rightarrow>
         (case read_octets k (i + 1) rest of
            None \<Rightarrow> None
          | Some (vs, rest') \<Rightarrow> Some (v # vs, rest')))"

definition read_ipv4_octets :: "int list reader" where
  "read_ipv4_octets = read_octets 4 0"

fun groups_value :: "int \<Rightarrow> int list \<Rightarrow> int" where
  "groups_value base [] = 0"
| "groups_value base (g # gs) = g * base ^ length gs + groups_value base gs"

definition read_ipv4_addr :: "u32 reader" where
  "read_ipv4_addr s = map_option (\<lambda>(os, rest). (of_int (groups_value 256 os), rest)) (read_ipv4_octets s)"

section \<open>IPv6\<close>

text \<open>
  \<open>read_groups\<close> reads at most \<open>limit\<close> groups of 16 bits, the last two of which may be written
  as an IPv4 address; the boolean says whether they were.
\<close>

function read_groups :: "nat \<Rightarrow> nat \<Rightarrow> string \<Rightarrow> (int list \<times> bool) \<times> string" where
  "read_groups limit i s =
    (if i \<ge> limit then (([], False), s)
     else
       let ipv4 = (if i + 1 < limit then read_separator CHR '':'' i read_ipv4_octets s else None) in
       case ipv4 of
         Some (os, rest) \<Rightarrow> (([os ! 0 * 256 + os ! 1, os ! 2 * 256 + os ! 3], True), rest)
       | None \<Rightarrow>
           (case read_separator CHR '':'' i (read_number 16 (Some 4) True 65536) s of
              None \<Rightarrow> (([], False), s)
            | Some (g, rest) \<Rightarrow>
                (case read_groups limit (i + 1) rest of
                   ((gs, v4), rest') \<Rightarrow> ((g # gs, v4), rest'))))"
  by pat_completeness auto
termination by (relation "measure (\<lambda>(limit, i, s). limit - i)") auto

declare read_groups.simps [simp del]

definition read_ipv6_addr :: "u128 reader" where
  "read_ipv6_addr s =
    (case read_groups 8 0 s of
       ((head, head_ipv4), rest) \<Rightarrow>
         if length head = 8 then Some (of_int (groups_value 65536 head), rest)
         else if head_ipv4 then None
         else
           (case read_given_char CHR '':'' rest of
              None \<Rightarrow> None
            | Some (_, rest) \<Rightarrow>
                (case read_given_char CHR '':'' rest of
                   None \<Rightarrow> None
                 | Some (_, rest) \<Rightarrow>
                     (case read_groups (8 - (length head + 1)) 0 rest of
                        ((tail, _), rest) \<Rightarrow>
                          Some (of_int (groups_value 65536
                            (head @ replicate (8 - length head - length tail) 0 @ tail)), rest)))))"

section \<open>Addresses\<close>

text \<open>A parse succeeds only if the whole input was read.\<close>

definition parse_with :: "'a reader \<Rightarrow> string \<Rightarrow> 'a option" where
  "parse_with p s = (case p s of Some (v, rest) \<Rightarrow> if rest = [] then Some v else None | None \<Rightarrow> None)"

definition read_ip_addr :: "ip_addr reader" where
  "read_ip_addr s =
    (case read_ipv4_addr s of
       Some (v, rest) \<Rightarrow> Some (V4 v, rest)
     | None \<Rightarrow> map_option (\<lambda>(v, rest). (V6 v, rest)) (read_ipv6_addr s))"

definition parse_ip_addr :: "string \<Rightarrow> ip_addr option" where
  "parse_ip_addr s = parse_with read_ip_addr s"

definition read_port :: "int reader" where
  "read_port s =
    (case read_given_char CHR '':'' s of
       Some (_, rest) \<Rightarrow> read_number 10 None True 65536 rest
     | None \<Rightarrow> None)"

definition read_socket_addr_v4 :: "u32 reader" where
  "read_socket_addr_v4 s =
    (case read_ipv4_addr s of
       None \<Rightarrow> None
     | Some (ip, rest) \<Rightarrow> map_option (\<lambda>(_, rest). (ip, rest)) (read_port rest))"

text \<open>An IPv6 address in brackets, with an optional scope id.\<close>

definition skip_scope_id :: "string \<Rightarrow> string" where
  "skip_scope_id s =
    (case read_given_char CHR ''%'' s of
       None \<Rightarrow> s
     | Some (_, rest) \<Rightarrow>
         (case read_number 10 None True (2 ^ 32) rest of Some (_, rest') \<Rightarrow> rest' | None \<Rightarrow> s))"

definition read_socket_addr_v6 :: "u128 reader" where
  "read_socket_addr_v6 s =
    (case read_given_char CHR ''['' s of
       None \<Rightarrow> None
     | Some (_, rest) \<Rightarrow>
         (case read_ipv6_addr rest of
            None \<Rightarrow> None
          | Some (ip, rest) \<Rightarrow>
              (case read_given_char CHR '']'' (skip_scope_id rest) of
                 None \<Rightarrow> None
               | Some (_, rest) \<Rightarrow> map_option (\<lambda>(_, rest). (ip, rest)) (read_port rest))))"

text \<open>\<open>parse::<SocketAddr>\<close> followed by \<open>ip()\<close>.\<close>

definition parse_socket_ip :: "string \<Rightarrow> ip_addr option" where
  "parse_socket_ip s = parse_with
    (\<lambda>s. case read_socket_addr_v4 s of
       Some (v, rest) \<Rightarrow> Some (V4 v, rest)
     | None \<Rightarrow> map_option (\<lambda>(v, rest). (V6 v, rest)) (read_socket_addr_v6 s)) s"

section \<open>Addresses as text\<close>

text \<open>\<open>Display\<close> of an IPv4 address.\<close>

definition ipv4_text :: "u32 \<Rightarrow> string" where
  "ipv4_text a = (case map (\<lambda>b. dec_string (unat b)) (be_bytes 4 a) of
     [p, q, r, s] \<Rightarrow> p @ ''.'' @ q @ ''.'' @ r @ ''.'' @ s | _ \<Rightarrow> [])"

lemma to_digit_digit_char [simp]: "d < 10 \<Longrightarrow> to_digit 10 (digit_char d) = Some (int d)"
  by (simp add: to_digit_def digit_char_def Let_def of_char_of)

lemma read_digits_dec_string:
  "read_digits 10 acc k (dec_string n @ ys) =
    read_digits 10 (acc * 10 ^ length (dec_string n) + int n) (k + length (dec_string n)) ys"
proof (induction n arbitrary: acc k ys rule: dec_string.induct)
  case (1 n)
  show ?case
  proof (cases "n < 10")
    case True
    then show ?thesis by (simp add: dec_string.simps [of n])
  next
    case False
    have v: "int n = int (n mod 10) + 10 * int (n div 10)"
      by (metis add.commute mult_div_mod_eq of_nat_add of_nat_mult of_nat_numeral)
    have "read_digits 10 acc k (dec_string n @ ys) =
      read_digits 10 acc k (dec_string (n div 10) @ digit_char (n mod 10) # ys)"
      using False by (simp add: dec_string.simps [of n])
    also have "\<dots> = read_digits 10
      ((acc * 10 ^ length (dec_string (n div 10)) + int (n div 10)) * 10 + int (n mod 10))
      (k + length (dec_string (n div 10)) + 1) ys"
      using 1 False by simp
    also have "(acc * 10 ^ length (dec_string (n div 10)) + int (n div 10)) * 10 + int (n mod 10) =
      acc * 10 ^ length (dec_string n) + int n"
      using False by (simp add: dec_string.simps [of n] algebra_simps v [symmetric])
    finally show ?thesis using False by (simp add: dec_string.simps [of n])
  qed
qed

lemma length_dec_string: "n < 10 ^ Suc k \<Longrightarrow> length (dec_string n) \<le> Suc k"
proof (induction k arbitrary: n)
  case 0
  then show ?case by (simp add: dec_string.simps [of n])
next
  case (Suc k)
  then have "n div 10 < 10 ^ Suc k" by (simp add: div_less_iff_less_mult mult.commute)
  from Suc.IH [OF this] show ?case by (simp add: dec_string.simps [of n])
qed

lemma dec_string_no_leading_zero: "0 < n \<Longrightarrow> hd (dec_string n) \<noteq> CHR ''0''"
proof (induction n rule: dec_string.induct)
  case (1 n)
  show ?case
  proof (cases "n < 10")
    case True
    have "char_digit (digit_char n) \<noteq> Some 0" using 1(2) True by simp
    moreover have "char_digit CHR ''0'' = Some 0" by (simp add: char_digit_def)
    ultimately have "digit_char n \<noteq> CHR ''0''" by metis
    with True show ?thesis by (simp add: dec_string.simps [of n])
  next
    case False
    moreover obtain d cs where "dec_string (n div 10) = digit_char d # cs"
      using dec_string_hd by blast
    ultimately show ?thesis using 1 by (simp add: dec_string.simps [of n])
  qed
qed

lemma dec_string_not_empty [simp]: "dec_string n \<noteq> []"
  using dec_string_hd [of n] by auto

definition no_digit_first :: "string \<Rightarrow> bool" where
  "no_digit_first s \<longleftrightarrow> (case s of [] \<Rightarrow> True | c # _ \<Rightarrow> to_digit 10 c = None)"

lemma read_digits_stop: "no_digit_first s \<Longrightarrow> read_digits 10 acc k s = (acc, k, s)"
  by (cases s) (auto simp: no_digit_first_def)

lemma read_number_dec_string:
  assumes "n < bound" and "no_digit_first rest"
    and "case max_digits of Some m \<Rightarrow> length (dec_string n) \<le> m | None \<Rightarrow> True"
  shows "read_number 10 max_digits zero_prefix (int bound) (dec_string n @ rest) = Some (int n, rest)"
proof -
  have r: "read_digits 10 0 0 (dec_string n @ rest) = (int n, length (dec_string n), rest)"
    by (simp add: read_digits_dec_string read_digits_stop assms(2))
  have z: "hd (dec_string n @ rest) \<noteq> CHR ''0'' \<or> length (dec_string n) \<le> 1"
    using dec_string_no_leading_zero [of n] by (cases "n = 0") (auto simp: dec_string.simps [of 0])
  from r z assms show ?thesis
    by (auto simp: read_number_def split: option.splits)
qed

lemma read_octet:
  "no_digit_first rest \<Longrightarrow>
    read_number 10 (Some 3) False 256 (dec_string (unat (b :: u8)) @ rest) = Some (uint b, rest)"
proof -
  assume r: "no_digit_first rest"
  have b: "unat b < 256" using unsigned_less [of b] by simp
  then have "length (dec_string (unat b)) \<le> 3" using length_dec_string [of "unat b" 2] by simp
  with read_number_dec_string [OF b r, of "Some 3" False] show ?thesis by simp
qed

lemma no_digit_first_simps [simp]:
  "no_digit_first []" "no_digit_first (CHR ''.'' # s)" "no_digit_first (CHR '':'' # s)"
  "no_digit_first (CHR ''/'' # s)"
  by (simp_all add: no_digit_first_def to_digit_def Let_def)

lemma groups_value_bytes: "groups_value 256 (map uint bs) = int (from_be_nat (bs :: bytes))"
  by (induction bs) simp_all

lemma read_octets_text:
  "no_digit_first rest \<Longrightarrow>
    read_octets (Suc (Suc (Suc (Suc 0)))) 0 (dec_string (unat (p :: u8)) @ ''.'' @
      dec_string (unat (q :: u8)) @ ''.'' @ dec_string (unat (r :: u8)) @ ''.'' @
      dec_string (unat (s :: u8)) @ rest) = Some ([uint p, uint q, uint r, uint s], rest)"
  by (simp add: read_separator_def read_octet)

lemma be_bytes_4: "be_bytes 4 (a :: u32) =
  [ucast (drop_bit 24 a), ucast (drop_bit 16 a), ucast (drop_bit 8 a), ucast a]"
  by (simp add: eval_nat_numeral)

lemma read_ipv4_text:
  assumes "no_digit_first rest"
  shows "read_ipv4_addr (ipv4_text a @ rest) = Some (a, rest)"
proof -
  define p q r s where b: "p = (ucast (drop_bit 24 a) :: u8)" "q = (ucast (drop_bit 16 a) :: u8)"
    "r = (ucast (drop_bit 8 a) :: u8)" "s = (ucast a :: u8)"
  have 4: "4 = Suc (Suc (Suc (Suc 0)))" by simp
  have bs: "be_bytes 4 a = [p, q, r, s]" by (simp only: be_bytes_4 b)
  have "groups_value 256 (map uint [p, q, r, s]) = uint a"
  proof -
    have "unat a < 2 ^ LENGTH(32)" by (rule unsigned_less)
    then have "from_be_nat [p, q, r, s] = unat a"
      using from_be_nat_be_bytes [of 4 a] by (simp add: bs)
    then show ?thesis by (simp only: groups_value_bytes) simp
  qed
  moreover have "read_ipv4_octets (ipv4_text a @ rest) = Some ([uint p, uint q, uint r, uint s], rest)"
  proof -
    have t: "ipv4_text a = dec_string (unat p) @ ''.'' @ dec_string (unat q) @ ''.'' @
      dec_string (unat r) @ ''.'' @ dec_string (unat s)"
      by (simp add: ipv4_text_def bs)
    show ?thesis
      using read_octets_text [OF assms, of p q r s]
      by (simp only: read_ipv4_octets_def t 4 append_assoc)
  qed
  ultimately show ?thesis by (simp add: read_ipv4_addr_def)
qed

lemma parse_ipv4_text: "parse_ip_addr (ipv4_text a) = Some (V4 a)"
  using read_ipv4_text [of "[]" a] by (simp add: parse_ip_addr_def parse_with_def read_ip_addr_def)

lemma parse_socket_ipv4_text:
  "port < 65536 \<Longrightarrow> parse_socket_ip (ipv4_text a @ '':'' @ dec_string port) = Some (V4 a)"
  using read_ipv4_text [of "CHR '':'' # dec_string port" a]
    read_number_dec_string [of port 65536 "[]" None True]
  by (simp add: parse_socket_ip_def parse_with_def read_socket_addr_v4_def read_port_def)

lemma dec_string_chars: "set (dec_string n) \<subseteq> {c. char_digit c \<noteq> None}"
  by (induction n rule: dec_string.induct) (subst dec_string.simps, auto)

lemma split_once_append: "c \<notin> set xs \<Longrightarrow> split_once c (xs @ c # ys) = Some (xs, ys)"
  by (induction xs) auto

lemma slash_not_in_text: "CHR ''/'' \<notin> set (ipv4_text a)"
proof -
  have "char_digit CHR ''/'' = None" by (simp add: char_digit_def)
  then have "CHR ''/'' \<notin> set (dec_string n)" for n using dec_string_chars [of n] by auto
  then show ?thesis by (auto simp: ipv4_text_def be_bytes_4)
qed

end
