(* ===== verification/Nfs4_Types.thy ===== *)
theory Nfs4_Types
  imports Prelude
begin

text \<open>
  The NFSv4 data types of \<open>proto/src/nfs4_proto.rs\<close> that requests and replies share: status
  codes, attributes, stateids. Structs are records whose fields carry the struct's name as a
  prefix; enums are datatypes, and a constructor that several enums share carries a prefix of
  its enum (\<open>FA_\<close> for \<open>FileAttr\<close>, \<open>FV_\<close> for \<open>FileAttrValue\<close>). Fixed-size byte
  arrays are byte lists.
\<close>

record stateid4 =
  stateid4_seqid :: "u32"
  stateid4_other :: "u8 list"

type_synonym count4 = "u32"

type_synonym offset4 = "u64"

type_synonym utf8str_cs = "string"

type_synonym component4 = "utf8str_cs"

type_synonym 'a attrlist4 = "'a list"

datatype (plugins only: size) file_attr =
    FA_SupportedAttrs
  | FA_Type
  | FA_FhExpireType
  | FA_Change
  | FA_Size
  | FA_LinkSupport
  | FA_SymlinkSupport
  | FA_NamedAttr
  | FA_Fsid
  | FA_UniqueHandles
  | FA_LeaseTime
  | FA_RdattrError
  | FA_Acl
  | FA_AclSupport
  | FA_Archive
  | FA_Cansettime
  | FA_CaseInsensitive
  | FA_CasePreserving
  | FA_ChownRestricted
  | FA_Filehandle
  | FA_Fileid
  | FA_FilesAvail
  | FA_FilesFree
  | FA_FilesTotal
  | FA_FsLocations
  | FA_Hidden
  | FA_Homogeneous
  | FA_Maxfilesize
  | FA_Maxlink
  | FA_Maxname
  | FA_Maxread
  | FA_Maxwrite
  | FA_Mimetype
  | FA_Mode
  | FA_NoTrunc
  | FA_Numlinks
  | FA_Owner
  | FA_OwnerGroup
  | FA_QuotaAvailHard
  | FA_QuotaAvailSoft
  | FA_QuotaUsed
  | FA_Rawdev
  | FA_SpaceAvail
  | FA_SpaceFree
  | FA_SpaceTotal
  | FA_SpaceUsed
  | FA_System
  | FA_TimeAccess
  | FA_TimeAccessSet
  | FA_TimeBackup
  | FA_TimeCreate
  | FA_TimeDelta
  | FA_TimeMetadata
  | FA_TimeModify
  | FA_TimeModifySet
  | FA_MountedOnFileid

datatype (plugins only: code size) nfs_ftype4 =
    Nf4Undef
  | Nf4reg
  | Nf4dir
  | Nf4blk
  | Nf4chr
  | Nf4lnk
  | Nf4sock
  | Nf4fifo
  | Nf4attrdir
  | Nf4namedattr

datatype (plugins only: size) nfs_stat4 =
    Nfs4Ok
  | Nfs4errPerm
  | Nfs4errNoent
  | Nfs4errIo
  | Nfs4errNxio
  | Nfs4errAccess
  | Nfs4errExist
  | Nfs4errXdev
  | Nfs4errNotdir
  | Nfs4errIsdir
  | Nfs4errInval
  | Nfs4errFbig
  | Nfs4errNospc
  | Nfs4errRofs
  | Nfs4errMlink
  | Nfs4errNametoolong
  | Nfs4errNotempty
  | Nfs4errDquot
  | Nfs4errStale
  | Nfs4errBadhandle
  | Nfs4errBadCookie
  | Nfs4errNotsupp
  | Nfs4errToosmall
  | Nfs4errServerfault
  | Nfs4errBadtype
  | Nfs4errDelay
  | Nfs4errSame
  | Nfs4errDenied
  | Nfs4errExpired
  | Nfs4errLocked
  | Nfs4errGrace
  | Nfs4errFhexpired
  | Nfs4errShareDenied
  | Nfs4errWrongsec
  | Nfs4errClidInuse
  | Nfs4errResource
  | Nfs4errMoved
  | Nfs4errNofilehandle
  | Nfs4errMinorVersMismatch
  | Nfs4errStaleClientid
  | Nfs4errStaleStateid
  | Nfs4errOldStateid
  | Nfs4errBadStateid
  | Nfs4errBadSeqid
  | Nfs4errNotSame
  | Nfs4errLockRange
  | Nfs4errSymlink
  | Nfs4errRestorefh
  | Nfs4errLeaseMoved
  | Nfs4errAttrnotsupp
  | Nfs4errNoGrace
  | Nfs4errReclaimBad
  | Nfs4errReclaimConflict
  | Nfs4errBadxdr
  | Nfs4errLocksHeld
  | Nfs4errOpenmode
  | Nfs4errBadOwner
  | Nfs4errBadchar
  | Nfs4errBadname
  | Nfs4errBadRange
  | Nfs4errLockNotsupp
  | Nfs4errOpIllegal
  | Nfs4errDeadlock
  | Nfs4errFileOpen
  | Nfs4errAdminRevoked
  | Nfs4errCbPathDown
  | Nfs4errBadIomode
  | Nfs4errBadLayout
  | Nfs4errBadSession
  | Nfs4errBadSlot
  | Nfs4errConnNotBoundToSession
  | Nfs4errLayoutTrylater
  | Nfs4errLayoutUnavailable
  | Nfs4errNomatchingLayout
  | Nfs4errRecallconflict
  | Nfs4errUnknownLayouttype
  | Nfs4errSeqMisordered
  | Nfs4errOpNotInSession
  | Nfs4errSeqFalseRetry

type_synonym changeid4 = "u64"

type_synonym nfs_fh4 = "u8 list"

type_synonym nfs_lease4 = "u32"

record nfstime4 =
  nfstime4_seconds :: "i64"
  nfstime4_nseconds :: "u32"

record fsid4 =
  fsid4_major :: "u64"
  fsid4_minor :: "u64"

type_synonym pathname4 = "component4 list"

type_synonym utf8str_cis = "string"

record fs_location4 =
  fs_location4_server :: "utf8str_cis list"
  fs_location4_rootpath :: "pathname4"

record fs_locations4 =
  fs_locations4_fs_root :: "pathname4"
  fs_locations4_locations :: "fs_location4 list"

type_synonym utf8str_mixed = "string"

type_synonym acetype4 = "u32"

type_synonym aceflag4 = "u32"

type_synonym acemask4 = "u32"

record nfsace4 =
  nfsace4_acetype :: "acetype4"
  nfsace4_flag :: "aceflag4"
  nfsace4_access_mask :: "acemask4"
  nfsace4_who :: "utf8str_mixed"

datatype (plugins only: size) file_attr_value =
    FV_SupportedAttrs "file_attr attrlist4"
  | FV_Type nfs_ftype4
  | FV_FhExpireType u32
  | FV_Change changeid4
  | FV_Size u64
  | FV_LinkSupport bool
  | FV_SymlinkSupport bool
  | FV_NamedAttr bool
  | FV_Fsid fsid4
  | FV_UniqueHandles bool
  | FV_LeaseTime nfs_lease4
  | FV_RdattrError nfs_stat4
  | FV_Acl "nfsace4 list"
  | FV_AclSupport u32
  | FV_Archive
  | FV_Cansettime bool
  | FV_CaseInsensitive bool
  | FV_CasePreserving bool
  | FV_ChownRestricted bool
  | FV_Filehandle nfs_fh4
  | FV_Fileid u64
  | FV_FilesAvail u64
  | FV_FilesFree u64
  | FV_FilesTotal u64
  | FV_FsLocations fs_locations4
  | FV_Hidden
  | FV_Homogeneous bool
  | FV_Maxfilesize u64
  | FV_Maxlink u32
  | FV_Maxname u32
  | FV_Maxread u64
  | FV_Maxwrite u64
  | FV_Mimetype string
  | FV_Mode u32
  | FV_NoTrunc bool
  | FV_Numlinks u32
  | FV_Owner string
  | FV_OwnerGroup string
  | FV_QuotaAvailHard u64
  | FV_QuotaAvailSoft u64
  | FV_QuotaUsed u64
  | FV_Rawdev
  | FV_SpaceAvail u64
  | FV_SpaceFree u64
  | FV_SpaceTotal u64
  | FV_SpaceUsed u64
  | FV_System
  | FV_TimeAccess nfstime4
  | FV_TimeAccessSet
  | FV_TimeBackup
  | FV_TimeCreate nfstime4
  | FV_TimeDelta nfstime4
  | FV_TimeMetadata nfstime4
  | FV_TimeModify nfstime4
  | FV_TimeModifySet
  | FV_MountedOnFileid u64

record fattr4 =
  fattr4_attrmask :: "file_attr attrlist4"
  fattr4_attr_vals :: "file_attr_value attrlist4"

type_synonym clientid4 = "u64"

type_synonym length4 = "u64"

datatype (plugins only: code size) nfs_lock_type4 =
    ReadLt
  | WriteLt
  | ReadwLt
  | WritewLt

record lock_owner4 =
  lock_owner4_clientid :: "clientid4"
  lock_owner4_owner :: "u8 list"

type_synonym nfs_cookie4 = "u64"

record client_addr4 =
  client_addr4_rnetid :: "string"
  client_addr4_raddr :: "string"

datatype (plugins only: code size) stable_how4 =
    Unstable4
  | DataSync4
  | FileSync4

record nfs_impl_id4 =
  nfs_impl_id4_nii_domain :: "string"
  nfs_impl_id4_nii_name :: "string"
  nfs_impl_id4_nii_date :: "nfstime4"

record channel_attrs4 =
  channel_attrs4_ca_headerpadsize :: "u32"
  channel_attrs4_ca_maxrequestsize :: "u32"
  channel_attrs4_ca_maxresponsesize :: "u32"
  channel_attrs4_ca_maxresponsesize_cached :: "u32"
  channel_attrs4_ca_maxoperations :: "u32"
  channel_attrs4_ca_maxrequests :: "u32"
  channel_attrs4_ca_rdma_ird :: "u32 list"

text \<open>The \<open>#[repr(u32)]\<close> discriminants of \<open>NfsStat4\<close>, its values on the wire.\<close>

primrec nfs_stat4_num :: "nfs_stat4 \<Rightarrow> u32" where
  "nfs_stat4_num Nfs4Ok = 0"
| "nfs_stat4_num Nfs4errPerm = 1"
| "nfs_stat4_num Nfs4errNoent = 2"
| "nfs_stat4_num Nfs4errIo = 5"
| "nfs_stat4_num Nfs4errNxio = 6"
| "nfs_stat4_num Nfs4errAccess = 13"
| "nfs_stat4_num Nfs4errExist = 17"
| "nfs_stat4_num Nfs4errXdev = 18"
| "nfs_stat4_num Nfs4errNotdir = 20"
| "nfs_stat4_num Nfs4errIsdir = 21"
| "nfs_stat4_num Nfs4errInval = 22"
| "nfs_stat4_num Nfs4errFbig = 27"
| "nfs_stat4_num Nfs4errNospc = 28"
| "nfs_stat4_num Nfs4errRofs = 30"
| "nfs_stat4_num Nfs4errMlink = 31"
| "nfs_stat4_num Nfs4errNametoolong = 63"
| "nfs_stat4_num Nfs4errNotempty = 66"
| "nfs_stat4_num Nfs4errDquot = 69"
| "nfs_stat4_num Nfs4errStale = 70"
| "nfs_stat4_num Nfs4errBadhandle = 10001"
| "nfs_stat4_num Nfs4errBadCookie = 10003"
| "nfs_stat4_num Nfs4errNotsupp = 10004"
| "nfs_stat4_num Nfs4errToosmall = 10005"
| "nfs_stat4_num Nfs4errServerfault = 10006"
| "nfs_stat4_num Nfs4errBadtype = 10007"
| "nfs_stat4_num Nfs4errDelay = 10008"
| "nfs_stat4_num Nfs4errSame = 10009"
| "nfs_stat4_num Nfs4errDenied = 10010"
| "nfs_stat4_num Nfs4errExpired = 10011"
| "nfs_stat4_num Nfs4errLocked = 10012"
| "nfs_stat4_num Nfs4errGrace = 10013"
| "nfs_stat4_num Nfs4errFhexpired = 10014"
| "nfs_stat4_num Nfs4errShareDenied = 10015"
| "nfs_stat4_num Nfs4errWrongsec = 10016"
| "nfs_stat4_num Nfs4errClidInuse = 10017"
| "nfs_stat4_num Nfs4errResource = 10018"
| "nfs_stat4_num Nfs4errMoved = 10019"
| "nfs_stat4_num Nfs4errNofilehandle = 10020"
| "nfs_stat4_num Nfs4errMinorVersMismatch = 10021"
| "nfs_stat4_num Nfs4errStaleClientid = 10022"
| "nfs_stat4_num Nfs4errStaleStateid = 10023"
| "nfs_stat4_num Nfs4errOldStateid = 10024"
| "nfs_stat4_num Nfs4errBadStateid = 10025"
| "nfs_stat4_num Nfs4errBadSeqid = 10026"
| "nfs_stat4_num Nfs4errNotSame = 10027"
| "nfs_stat4_num Nfs4errLockRange = 10028"
| "nfs_stat4_num Nfs4errSymlink = 10029"
| "nfs_stat4_num Nfs4errRestorefh = 10030"
| "nfs_stat4_num Nfs4errLeaseMoved = 10031"
| "nfs_stat4_num Nfs4errAttrnotsupp = 10032"
| "nfs_stat4_num Nfs4errNoGrace = 10033"
| "nfs_stat4_num Nfs4errReclaimBad = 10034"
| "nfs_stat4_num Nfs4errReclaimConflict = 10035"
| "nfs_stat4_num Nfs4errBadxdr = 10036"
| "nfs_stat4_num Nfs4errLocksHeld = 10037"
| "nfs_stat4_num Nfs4errOpenmode = 10038"
| "nfs_stat4_num Nfs4errBadOwner = 10039"
| "nfs_stat4_num Nfs4errBadchar = 10040"
| "nfs_stat4_num Nfs4errBadname = 10041"
| "nfs_stat4_num Nfs4errBadRange = 10042"
| "nfs_stat4_num Nfs4errLockNotsupp = 10043"
| "nfs_stat4_num Nfs4errOpIllegal = 10044"
| "nfs_stat4_num Nfs4errDeadlock = 10045"
| "nfs_stat4_num Nfs4errFileOpen = 10046"
| "nfs_stat4_num Nfs4errAdminRevoked = 10047"
| "nfs_stat4_num Nfs4errCbPathDown = 10048"
| "nfs_stat4_num Nfs4errBadIomode = 10049"
| "nfs_stat4_num Nfs4errBadLayout = 10050"
| "nfs_stat4_num Nfs4errBadSession = 10052"
| "nfs_stat4_num Nfs4errBadSlot = 10053"
| "nfs_stat4_num Nfs4errConnNotBoundToSession = 10055"
| "nfs_stat4_num Nfs4errLayoutTrylater = 10058"
| "nfs_stat4_num Nfs4errLayoutUnavailable = 10059"
| "nfs_stat4_num Nfs4errNomatchingLayout = 10060"
| "nfs_stat4_num Nfs4errRecallconflict = 10061"
| "nfs_stat4_num Nfs4errUnknownLayouttype = 10062"
| "nfs_stat4_num Nfs4errSeqMisordered = 10063"
| "nfs_stat4_num Nfs4errOpNotInSession = 10071"
| "nfs_stat4_num Nfs4errSeqFalseRetry = 10076"

definition nfs_stat4_all :: "nfs_stat4 list" where
  "nfs_stat4_all = [
    Nfs4Ok, Nfs4errPerm, Nfs4errNoent, Nfs4errIo,
    Nfs4errNxio, Nfs4errAccess, Nfs4errExist, Nfs4errXdev,
    Nfs4errNotdir, Nfs4errIsdir, Nfs4errInval, Nfs4errFbig,
    Nfs4errNospc, Nfs4errRofs, Nfs4errMlink, Nfs4errNametoolong,
    Nfs4errNotempty, Nfs4errDquot, Nfs4errStale, Nfs4errBadhandle,
    Nfs4errBadCookie, Nfs4errNotsupp, Nfs4errToosmall, Nfs4errServerfault,
    Nfs4errBadtype, Nfs4errDelay, Nfs4errSame, Nfs4errDenied,
    Nfs4errExpired, Nfs4errLocked, Nfs4errGrace, Nfs4errFhexpired,
    Nfs4errShareDenied, Nfs4errWrongsec, Nfs4errClidInuse, Nfs4errResource,
    Nfs4errMoved, Nfs4errNofilehandle, Nfs4errMinorVersMismatch, Nfs4errStaleClientid,
    Nfs4errStaleStateid, Nfs4errOldStateid, Nfs4errBadStateid, Nfs4errBadSeqid,
    Nfs4errNotSame, Nfs4errLockRange, Nfs4errSymlink, Nfs4errRestorefh,
    Nfs4errLeaseMoved, Nfs4errAttrnotsupp, Nfs4errNoGrace, Nfs4errReclaimBad,
    Nfs4errReclaimConflict, Nfs4errBadxdr, Nfs4errLocksHeld, Nfs4errOpenmode,
    Nfs4errBadOwner, Nfs4errBadchar, Nfs4errBadname, Nfs4errBadRange,
    Nfs4errLockNotsupp, Nfs4errOpIllegal, Nfs4errDeadlock, Nfs4errFileOpen,
    Nfs4errAdminRevoked, Nfs4errCbPathDown, Nfs4errBadIomode, Nfs4errBadLayout,
    Nfs4errBadSession, Nfs4errBadSlot, Nfs4errConnNotBoundToSession, Nfs4errLayoutTrylater,
    Nfs4errLayoutUnavailable, Nfs4errNomatchingLayout, Nfs4errRecallconflict, Nfs4errUnknownLayouttype,
    Nfs4errSeqMisordered, Nfs4errOpNotInSession, Nfs4errSeqFalseRetry]"

definition nfs_stat4_of_num :: "u32 \<Rightarrow> nfs_stat4 option" where
  "nfs_stat4_of_num n = find (\<lambda>s. nfs_stat4_num s = n) nfs_stat4_all"

lemma nfs_stat4_of_num_num: "nfs_stat4_of_num (nfs_stat4_num s) = Some s"
  by (cases s) (simp_all add: nfs_stat4_of_num_def nfs_stat4_all_def)

lemma nfs_stat4_num_inject: "nfs_stat4_num a = nfs_stat4_num b \<longleftrightarrow> a = b"
  using nfs_stat4_of_num_num by (metis option.inject)

instantiation nfs_stat4 :: equal
begin

definition equal_nfs_stat4 :: "nfs_stat4 \<Rightarrow> nfs_stat4 \<Rightarrow> bool" where
  "equal_nfs_stat4 a b \<longleftrightarrow> nfs_stat4_num a = nfs_stat4_num b"

instance
  by standard (simp add: equal_nfs_stat4_def nfs_stat4_num_inject)

end

text \<open>The \<open>#[repr(u32)]\<close> discriminants of \<open>FileAttr\<close>, its values on the wire.\<close>

primrec file_attr_num :: "file_attr \<Rightarrow> u32" where
  "file_attr_num FA_SupportedAttrs = 0"
| "file_attr_num FA_Type = 1"
| "file_attr_num FA_FhExpireType = 2"
| "file_attr_num FA_Change = 3"
| "file_attr_num FA_Size = 4"
| "file_attr_num FA_LinkSupport = 5"
| "file_attr_num FA_SymlinkSupport = 6"
| "file_attr_num FA_NamedAttr = 7"
| "file_attr_num FA_Fsid = 8"
| "file_attr_num FA_UniqueHandles = 9"
| "file_attr_num FA_LeaseTime = 10"
| "file_attr_num FA_RdattrError = 11"
| "file_attr_num FA_Acl = 12"
| "file_attr_num FA_AclSupport = 13"
| "file_attr_num FA_Archive = 14"
| "file_attr_num FA_Cansettime = 15"
| "file_attr_num FA_CaseInsensitive = 16"
| "file_attr_num FA_CasePreserving = 17"
| "file_attr_num FA_ChownRestricted = 18"
| "file_attr_num FA_Filehandle = 19"
| "file_attr_num FA_Fileid = 20"
| "file_attr_num FA_FilesAvail = 21"
| "file_attr_num FA_FilesFree = 22"
| "file_attr_num FA_FilesTotal = 23"
| "file_attr_num FA_FsLocations = 24"
| "file_attr_num FA_Hidden = 25"
| "file_attr_num FA_Homogeneous = 26"
| "file_attr_num FA_Maxfilesize = 27"
| "file_attr_num FA_Maxlink = 28"
| "file_attr_num FA_Maxname = 29"
| "file_attr_num FA_Maxread = 30"
| "file_attr_num FA_Maxwrite = 31"
| "file_attr_num FA_Mimetype = 32"
| "file_attr_num FA_Mode = 33"
| "file_attr_num FA_NoTrunc = 34"
| "file_attr_num FA_Numlinks = 35"
| "file_attr_num FA_Owner = 36"
| "file_attr_num FA_OwnerGroup = 37"
| "file_attr_num FA_QuotaAvailHard = 38"
| "file_attr_num FA_QuotaAvailSoft = 39"
| "file_attr_num FA_QuotaUsed = 40"
| "file_attr_num FA_Rawdev = 41"
| "file_attr_num FA_SpaceAvail = 42"
| "file_attr_num FA_SpaceFree = 43"
| "file_attr_num FA_SpaceTotal = 44"
| "file_attr_num FA_SpaceUsed = 45"
| "file_attr_num FA_System = 46"
| "file_attr_num FA_TimeAccess = 47"
| "file_attr_num FA_TimeAccessSet = 48"
| "file_attr_num FA_TimeBackup = 49"
| "file_attr_num FA_TimeCreate = 50"
| "file_attr_num FA_TimeDelta = 51"
| "file_attr_num FA_TimeMetadata = 52"
| "file_attr_num FA_TimeModify = 53"
| "file_attr_num FA_TimeModifySet = 54"
| "file_attr_num FA_MountedOnFileid = 55"

definition file_attr_all :: "file_attr list" where
  "file_attr_all = [
    FA_SupportedAttrs, FA_Type, FA_FhExpireType, FA_Change,
    FA_Size, FA_LinkSupport, FA_SymlinkSupport, FA_NamedAttr,
    FA_Fsid, FA_UniqueHandles, FA_LeaseTime, FA_RdattrError,
    FA_Acl, FA_AclSupport, FA_Archive, FA_Cansettime,
    FA_CaseInsensitive, FA_CasePreserving, FA_ChownRestricted, FA_Filehandle,
    FA_Fileid, FA_FilesAvail, FA_FilesFree, FA_FilesTotal,
    FA_FsLocations, FA_Hidden, FA_Homogeneous, FA_Maxfilesize,
    FA_Maxlink, FA_Maxname, FA_Maxread, FA_Maxwrite,
    FA_Mimetype, FA_Mode, FA_NoTrunc, FA_Numlinks,
    FA_Owner, FA_OwnerGroup, FA_QuotaAvailHard, FA_QuotaAvailSoft,
    FA_QuotaUsed, FA_Rawdev, FA_SpaceAvail, FA_SpaceFree,
    FA_SpaceTotal, FA_SpaceUsed, FA_System, FA_TimeAccess,
    FA_TimeAccessSet, FA_TimeBackup, FA_TimeCreate, FA_TimeDelta,
    FA_TimeMetadata, FA_TimeModify, FA_TimeModifySet, FA_MountedOnFileid]"

definition file_attr_of_num :: "u32 \<Rightarrow> file_attr option" where
  "file_attr_of_num n = find (\<lambda>s. file_attr_num s = n) file_attr_all"

lemma file_attr_of_num_num: "file_attr_of_num (file_attr_num s) = Some s"
  by (cases s) (simp_all add: file_attr_of_num_def file_attr_all_def)

lemma file_attr_num_inject: "file_attr_num a = file_attr_num b \<longleftrightarrow> a = b"
  using file_attr_of_num_num by (metis option.inject)

instantiation file_attr :: equal
begin

definition equal_file_attr :: "file_attr \<Rightarrow> file_attr \<Rightarrow> bool" where
  "equal_file_attr a b \<longleftrightarrow> file_attr_num a = file_attr_num b"

instance
  by standard (simp add: equal_file_attr_def file_attr_num_inject)

end

end
