(* ===== verification/Nfs4_Res.thy ===== *)
theory Nfs4_Res
  imports Nfs4_Types
begin

text \<open>
  The reply types of \<open>proto/src/nfs4_proto.rs\<close>: the result of every operation, the result
  array \<open>NfsResOp4\<close> (constructors with the prefix \<open>R_\<close>) and \<open>Compound4res\<close>.
\<close>

record access4resok =
  access4resok_supported :: "u32"
  access4resok_access :: "u32"

datatype (plugins only: code size) access4res =
    Access4res_Resok4 access4resok

datatype (plugins only: code size) close4res =
    Close4res_OpenStateid stateid4

record commit4resok =
  commit4resok_writeverf :: "u8 list"

datatype (plugins only: code size) commit4res =
    Commit4res_Resok4 commit4resok

record change_info4 =
  change_info4_atomic :: "bool"
  change_info4_before :: "changeid4"
  change_info4_after :: "changeid4"

record create4resok =
  create4resok_cinfo :: "change_info4"
  create4resok_attrset :: "file_attr attrlist4"

datatype (plugins only: code size) create4res =
    Create4res_Resok4 create4resok

record deleg_purge4res =
  deleg_purge4res_status :: "nfs_stat4"

record deleg_return4res =
  deleg_return4res_status :: "nfs_stat4"

record getattr4resok =
  getattr4resok_status :: "nfs_stat4"
  getattr4resok_obj_attributes :: "fattr4 option"

record get_fh4resok =
  get_fh4resok_object :: "nfs_fh4"

datatype (plugins only: code size) get_fh4res =
    GetFh4res_Resok4 get_fh4resok

record link4resok =
  link4resok_cinfo :: "change_info4"

datatype (plugins only: code size) link4res =
    Link4res_Resok4 link4resok

record lock4denied =
  lock4denied_offset :: "offset4"
  lock4denied_length :: "length4"
  lock4denied_locktype :: "nfs_lock_type4"
  lock4denied_owner :: "lock_owner4"

record lock4resok =
  lock4resok_lock_stateid :: "stateid4"

datatype (plugins only: code size) lock4res =
    Lock4res_Resok4 lock4resok
  | Lock4res_Denied lock4denied

datatype (plugins only: code size) lockt4res =
    Lockt4res_Denied lock4denied

datatype (plugins only: code size) locku4res =
    Locku4res_LockStateid stateid4

record lookup4res =
  lookup4res_status :: "nfs_stat4"

record lookupp4res =
  lookupp4res_status :: "nfs_stat4"

record readlink4res =
  readlink4res_status :: "nfs_stat4"
  readlink4res_link :: "string"

record nverify4res =
  nverify4res_status :: "nfs_stat4"

record open_read_delegation4 =
  open_read_delegation4_stateid :: "stateid4"
  open_read_delegation4_recall :: "bool"
  open_read_delegation4_permissions :: "nfsace4"

record nfs_modified_limit4 =
  nfs_modified_limit4_num_blocks :: "u32"
  nfs_modified_limit4_bytes_per_block :: "u32"

datatype (plugins only: code size) nfs_space_limit4 =
    Filesize u64
  | ModBlocks nfs_modified_limit4

record open_write_delegation4 =
  open_write_delegation4_stateid :: "stateid4"
  open_write_delegation4_recall :: "bool"
  open_write_delegation4_space_limit :: "nfs_space_limit4"
  open_write_delegation4_permissions :: "nfsace4"

datatype (plugins only: code size) open_delegation4 =
    OD_None
  | OD_Read open_read_delegation4
  | OD_Write open_write_delegation4

record open4resok =
  open4resok_stateid :: "stateid4"
  open4resok_cinfo :: "change_info4"
  open4resok_rflags :: "u32"
  open4resok_attrset :: "file_attr attrlist4"
  open4resok_delegation :: "open_delegation4"

datatype (plugins only: code size) open4res =
    Open4res_Resok4 open4resok

record open_attr4res =
  open_attr4res_status :: "nfs_stat4"

record open_confirm4resok =
  open_confirm4resok_open_stateid :: "stateid4"

datatype (plugins only: code size) open_confirm4res =
    OpenConfirm4res_Resok4 open_confirm4resok

record open_downgrade4resok =
  open_downgrade4resok_open_stateid :: "stateid4"

datatype (plugins only: code size) open_downgrade4res =
    OpenDowngrade4res_Resok4 open_downgrade4resok

record put_fh4res =
  put_fh4res_status :: "nfs_stat4"

record put_root_fh4res =
  put_root_fh4res_status :: "nfs_stat4"

record read4resok =
  read4resok_eof :: "bool"
  read4resok_data :: "u8 list"

datatype (plugins only: code size) read4res =
    Read4res_Resok4 read4resok

datatype (plugins only: code size) entry4 = Entry4
  (entry4_cookie: "nfs_cookie4")
  (entry4_name: "component4")
  (entry4_attrs: "fattr4")
  (entry4_nextentry: "entry4 option")

record dir_list4 =
  dir_list4_entries :: "entry4 option"
  dir_list4_eof :: "bool"

record read_dir4resok =
  read_dir4resok_cookieverf :: "u8 list"
  read_dir4resok_reply :: "dir_list4"

datatype (plugins only: code size) read_dir4res =
    ReadDir4res_Resok4 read_dir4resok

record remove4res =
  remove4res_status :: "nfs_stat4"
  remove4res_cinfo :: "change_info4"

record rename4resok =
  rename4resok_source_cinfo :: "change_info4"
  rename4resok_target_cinfo :: "change_info4"

datatype (plugins only: code size) rename4res =
    Rename4res_Resok4 rename4resok

record renew4res =
  renew4res_status :: "nfs_stat4"

record restore_fh4res =
  restore_fh4res_status :: "nfs_stat4"

record save_fh4res =
  save_fh4res_status :: "nfs_stat4"

type_synonym qop4 = "u32"

datatype (plugins only: code size) rpc_gss_svc =
    RpcGssSvcNone
  | RpcGssSvcIntegrity
  | RpcGssSvcPrivacy

record rpc_sec_gss_info =
  rpc_sec_gss_info_oid :: "u8 list"
  rpc_sec_gss_info_qop :: "qop4"
  rpc_sec_gss_info_service :: "rpc_gss_svc"

datatype (plugins only: code size) secinfo4 =
    SI_AuthNone
  | SI_AuthSys
  | SI_FlavorInfo rpc_sec_gss_info

type_synonym sec_info4resok = "secinfo4 list"

datatype (plugins only: code size) sec_info4res =
    SecInfo4res_Resok4 sec_info4resok

type_synonym secinfo_no_name4res = "sec_info4res"

record set_attr4res =
  set_attr4res_status :: "nfs_stat4"
  set_attr4res_attrsset :: "file_attr attrlist4"

record set_client_id4resok =
  set_client_id4resok_clientid :: "clientid4"
  set_client_id4resok_setclientid_confirm :: "u8 list"

datatype (plugins only: code size) set_client_id4res =
    SetClientId4res_Resok4 set_client_id4resok
  | SetClientId4res_ClientUsing client_addr4

record set_client_id_confirm4res =
  set_client_id_confirm4res_status :: "nfs_stat4"

record verify4res =
  verify4res_status :: "nfs_stat4"

record write4resok =
  write4resok_count :: "count4"
  write4resok_committed :: "stable_how4"
  write4resok_writeverf :: "u8 list"

datatype (plugins only: code size) write4res =
    Write4res_Resok4 write4resok

record release_lockowner4res =
  release_lockowner4res_status :: "nfs_stat4"

datatype (plugins only: code size) channel_dir_from_server4 =
    CDFS_Fore
  | CDFS_Back
  | CDFS_Both

record bind_conn_to_session4resok =
  bind_conn_to_session4resok_bctsr_sessid :: "u8 list"
  bind_conn_to_session4resok_bctsr_dir :: "channel_dir_from_server4"
  bind_conn_to_session4resok_bctsr_use_conn_in_rdma_mode :: "bool"

datatype (plugins only: code size) bind_conn_to_session4res =
    BindConnToSession4res_Resok4 bind_conn_to_session4resok

record server_owner4 =
  server_owner4_so_minor_id :: "u64"
  server_owner4_so_major_id :: "u8 list"

datatype (plugins only: code size) state_protect4r =
    SPr_SpNone

record exchange_id4resok =
  exchange_id4resok_eir_clientid :: "u64"
  exchange_id4resok_eir_sequenceid :: "u32"
  exchange_id4resok_eir_flags :: "u32"
  exchange_id4resok_eir_state_protect :: "state_protect4r"
  exchange_id4resok_eir_server_owner :: "server_owner4"
  exchange_id4resok_eir_server_scope :: "u8 list"
  exchange_id4resok_eir_server_impl_id :: "nfs_impl_id4 list"

datatype (plugins only: code size) exchange_id4res =
    ExchangeId4res_Resok4 exchange_id4resok

record create_session4resok =
  create_session4resok_csr_sessionid :: "u8 list"
  create_session4resok_csr_sequenceid :: "u32"
  create_session4resok_csr_flags :: "u32"
  create_session4resok_csr_fore_chan_attrs :: "channel_attrs4"
  create_session4resok_csr_back_chan_attrs :: "channel_attrs4"

datatype (plugins only: code size) create_session4res =
    CreateSession4res_Resok4 create_session4resok

record destroy_session4res =
  destroy_session4res_dsr_status :: "nfs_stat4"

record free_stateid4res =
  free_stateid4res_fsr_status :: "nfs_stat4"

record sequence4resok =
  sequence4resok_sr_sessionid :: "u8 list"
  sequence4resok_sr_sequenceid :: "u32"
  sequence4resok_sr_slotid :: "u32"
  sequence4resok_sr_highest_slotid :: "u32"
  sequence4resok_sr_target_highest_slotid :: "u32"
  sequence4resok_sr_status_flags :: "u32"

datatype (plugins only: code size) sequence4res =
    Sequence4res_Resok4 sequence4resok

record test_stateid4resok =
  test_stateid4resok_tsr_status_codes :: "u32 list"

datatype (plugins only: code size) test_stateid4res =
    TestStateid4res_Resok4 test_stateid4resok

record destroy_client_id4res =
  destroy_client_id4res_dcr_status :: "nfs_stat4"

record reclaim_complete4res =
  reclaim_complete4res_rcr_status :: "nfs_stat4"

record get_device_info4resok =
  get_device_info4resok_gdir_notification :: "u32"

datatype (plugins only: code size) get_device_info4res =
    GetDeviceInfo4res_Resok4 get_device_info4resok
  | GetDeviceInfo4res_Err nfs_stat4

record get_device_list4resok =
  get_device_list4resok_gdlr_cookie :: "u64"
  get_device_list4resok_gdlr_cookieverf :: "u8 list"
  get_device_list4resok_gdlr_eof :: "bool"

datatype (plugins only: code size) get_device_list4res =
    GetDeviceList4res_Resok4 get_device_list4resok
  | GetDeviceList4res_Err nfs_stat4

record layout_get4resok =
  layout_get4resok_logr_return_on_close :: "bool"
  layout_get4resok_logr_stateid :: "stateid4"

datatype (plugins only: code size) layout_get4res =
    LayoutGet4res_Resok4 layout_get4resok
  | LayoutGet4res_Err nfs_stat4

record layout_commit4resok =
  layout_commit4resok_locr_newsize :: "bool"

datatype (plugins only: code size) layout_commit4res =
    LayoutCommit4res_Resok4 layout_commit4resok
  | LayoutCommit4res_Err nfs_stat4

record layout_return4resok =
  layout_return4resok_lorr_present :: "bool"

datatype (plugins only: code size) layout_return4res =
    LayoutReturn4res_Resok4 layout_return4resok
  | LayoutReturn4res_Err nfs_stat4

record allocate4res =
  allocate4res_ar_status :: "nfs_stat4"

record write_response4 =
  write_response4_wr_callback_id :: "stateid4 list"
  write_response4_wr_count :: "u64"
  write_response4_wr_committed :: "stable_how4"
  write_response4_wr_writeverf :: "u8 list"

record copy_requirements4 =
  copy_requirements4_cr_consecutive :: "bool"
  copy_requirements4_cr_synchronous :: "bool"

record copy4resok =
  copy4resok_cr_response :: "write_response4"
  copy4resok_cr_requirements :: "copy_requirements4"

datatype (plugins only: code size) copy4res =
    Copy4res_Resok4 copy4resok

record seek_res4 =
  seek_res4_sr_eof :: "bool"
  seek_res4_sr_offset :: "u64"

datatype (plugins only: code size) seek4res =
    Seek4res_Resok4 seek_res4

datatype (plugins only: size) nfs_res_op4 =
    R_OpUndef0
  | R_OpUndef1
  | R_OpUndef2
  | R_OpAccess access4res
  | R_Opclose close4res
  | R_Opcommit commit4res
  | R_Opcreate create4res
  | R_Opdelegpurge deleg_purge4res
  | R_Opdelegreturn deleg_return4res
  | R_Opgetattr getattr4resok
  | R_Opgetfh get_fh4res
  | R_Oplink link4res
  | R_Oplock lock4res
  | R_Oplockt lockt4res
  | R_Oplocku locku4res
  | R_Oplookup lookup4res
  | R_Oplookupp lookupp4res
  | R_Opnverify nverify4res
  | R_Opopen open4res
  | R_Opopenattr open_attr4res
  | R_OpopenConfirm open_confirm4res
  | R_OpopenDowngrade open_downgrade4res
  | R_Opputfh put_fh4res
  | R_Opputpubfh unit
  | R_Opputrootfh put_root_fh4res
  | R_Opread read4res
  | R_Opreaddir read_dir4res
  | R_Opreadlink readlink4res
  | R_Opremove remove4res
  | R_Oprename rename4res
  | R_Oprenew renew4res
  | R_Oprestorefh restore_fh4res
  | R_Opsavefh save_fh4res
  | R_OpSecinfo sec_info4res
  | R_Opsetattr set_attr4res
  | R_Opsetclientid set_client_id4res
  | R_OpsetclientidConfirm set_client_id_confirm4res
  | R_Opverify verify4res
  | R_Opwrite write4res
  | R_OpreleaseLockOwner release_lockowner4res
  | R_OpbindConnToSession bind_conn_to_session4res
  | R_OpexchangeId exchange_id4res
  | R_OpcreateSession create_session4res
  | R_OpdestroySession destroy_session4res
  | R_OpfreeStateid free_stateid4res
  | R_OpgetdeviceInfo get_device_info4res
  | R_OpgetdeviceList get_device_list4res
  | R_OplayoutCommit layout_commit4res
  | R_OplayoutGet layout_get4res
  | R_OplayoutReturn layout_return4res
  | R_OpsecinfoNoName secinfo_no_name4res
  | R_Opsequence sequence4res
  | R_OptestStateid test_stateid4res
  | R_OpdestroyClientid destroy_client_id4res
  | R_OpreclaimComplete reclaim_complete4res
  | R_Opallocate allocate4res
  | R_Opcopy copy4res
  | R_Opseek seek4res
  | R_OpError u32 nfs_stat4

record compound4res =
  compound4res_status :: "nfs_stat4"
  compound4res_tag :: "string"
  compound4res_resarray :: "nfs_res_op4 list"

end
