(* ===== verification/AccessControl.thy ===== *)
theory AccessControl
  imports NetAddr Nfs4_Res
begin

text \<open>
  Access control of an export (\<open>AccessConfig\<close>, \<open>SecFlavor\<close>, \<open>IpNetwork\<close> and
  \<open>AccessControl\<close> of \<open>export_manager.rs\<close>): which client addresses may use the export, under
  which identity they act after squashing, and with which security flavours. Addresses are parsed as in
  \<open>NetAddr\<close>; the arithmetic on prefix lengths wraps, as in a release build.
\<close>

section \<open>Configuration\<close>

datatype squash_mode = Squash_None | RootSquash | AllSquash

datatype sec_flavor = Sys | Krb5 | Krb5i | Krb5p

record access_config =
  ac_clients :: "string list"
  ac_squash :: squash_mode
  ac_anon_uid :: u32
  ac_anon_gid :: u32
  ac_sec :: "sec_flavor list"

definition sec_flavor_parse :: "string \<Rightarrow> sec_flavor option" where
  "sec_flavor_parse s =
    (if s = ''sys'' then Some Sys
     else if s = ''krb5'' then Some Krb5
     else if s = ''krb5i'' then Some Krb5i
     else if s = ''krb5p'' then Some Krb5p
     else None)"

definition is_kerberos :: "sec_flavor \<Rightarrow> bool" where
  "is_kerberos f \<longleftrightarrow> f \<noteq> Sys"

definition from_gss_service :: "u32 \<Rightarrow> sec_flavor option" where
  "from_gss_service service =
    (if service = 1 then Some Krb5
     else if service = 2 then Some Krb5i
     else if service = 3 then Some Krb5p
     else None)"

definition KRB5_MECH_OID :: bytes where
  "KRB5_MECH_OID = [0x06, 0x09, 0x2a, 0x86, 0x48, 0x86, 0xf7, 0x12, 0x01, 0x02, 0x02]"

definition secinfo :: "sec_flavor \<Rightarrow> secinfo4" where
  "secinfo f =
    (let info = (\<lambda>service. SI_FlavorInfo \<lparr>rpc_sec_gss_info_oid = KRB5_MECH_OID,
                   rpc_sec_gss_info_qop = 0, rpc_sec_gss_info_service = service\<rparr>)
     in case f of
       Sys \<Rightarrow> SI_AuthSys
     | Krb5 \<Rightarrow> info RpcGssSvcNone
     | Krb5i \<Rightarrow> info RpcGssSvcIntegrity
     | Krb5p \<Rightarrow> info RpcGssSvcPrivacy)"

definition default_sec :: "sec_flavor list" where
  "default_sec = [Sys]"

definition DEFAULT_ANON_ID :: u32 where
  "DEFAULT_ANON_ID = 65534"

definition access_config_default :: access_config where
  "access_config_default = \<lparr>ac_clients = [], ac_squash = RootSquash, ac_anon_uid = DEFAULT_ANON_ID,
     ac_anon_gid = DEFAULT_ANON_ID, ac_sec = default_sec\<rparr>"

section \<open>Networks\<close>

record ip_network =
  net_addr :: ip_addr
  net_prefix_len :: u8

definition ip_network_parse :: "string \<Rightarrow> ip_network option" where
  "ip_network_parse s =
    (case split_once CHR ''/'' s of
       Some (addr_str, prefix_str) \<Rightarrow>
         (case parse_ip_addr addr_str of
            None \<Rightarrow> None
          | Some addr \<Rightarrow>
              map_option (\<lambda>p. \<lparr>net_addr = addr, net_prefix_len = p\<rparr>) (parse_u8 prefix_str))
     | None \<Rightarrow>
         map_option
           (\<lambda>addr. \<lparr>net_addr = addr,
                    net_prefix_len = (case addr of V4 _ \<Rightarrow> 32 | V6 _ \<Rightarrow> 128)\<rparr>)
           (parse_ip_addr s))"

text \<open>
  The subtraction \<open>32 - prefix_len\<close> is on \<open>u8\<close> and wraps; a shift takes its amount modulo
  the width.
\<close>

definition prefix_mask :: "u8 \<Rightarrow> u8 \<Rightarrow> 'a::len word" where
  "prefix_mask width prefix_len = push_bit (unat (width - prefix_len) mod LENGTH('a)) (- 1)"

definition ip_network_contains :: "ip_network \<Rightarrow> ip_addr \<Rightarrow> bool" where
  "ip_network_contains n ip =
    (case (net_addr n, ip) of
       (V4 net, V4 client) \<Rightarrow>
         net_prefix_len n = 0 \<or>
         net AND prefix_mask 32 (net_prefix_len n) = client AND prefix_mask 32 (net_prefix_len n)
     | (V6 net, V6 client) \<Rightarrow>
         net_prefix_len n = 0 \<or>
         net AND prefix_mask 128 (net_prefix_len n) = client AND prefix_mask 128 (net_prefix_len n)
     | _ \<Rightarrow> False)"

section \<open>Access control\<close>

record access_control =
  acl_config :: access_config
  acl_allowed :: "ip_network list"

definition access_control_new :: "access_config \<Rightarrow> access_control" where
  "access_control_new config =
    \<lparr>acl_config = config, acl_allowed = List.map_filter ip_network_parse (ac_clients config)\<rparr>"

definition access_update_config :: "access_control \<Rightarrow> access_config \<Rightarrow> access_control" where
  "access_update_config ac config =
    ac\<lparr>acl_allowed := List.map_filter ip_network_parse (ac_clients config), acl_config := config\<rparr>"

definition client_ip :: "string \<Rightarrow> ip_addr option" where
  "client_ip client_addr =
    (case parse_socket_ip client_addr of Some ip \<Rightarrow> Some ip | None \<Rightarrow> parse_ip_addr client_addr)"

definition check_client :: "access_control \<Rightarrow> string \<Rightarrow> bool" where
  "check_client ac client_addr =
    (if acl_allowed ac = [] then True
     else case client_ip client_addr of
       None \<Rightarrow> False
     | Some ip \<Rightarrow> list_ex (\<lambda>net. ip_network_contains net ip) (acl_allowed ac))"

definition squash_uid :: "access_control \<Rightarrow> u32 \<Rightarrow> u32" where
  "squash_uid ac uid =
    (case ac_squash (acl_config ac) of
       Squash_None \<Rightarrow> uid
     | RootSquash \<Rightarrow> if uid = 0 then ac_anon_uid (acl_config ac) else uid
     | AllSquash \<Rightarrow> ac_anon_uid (acl_config ac))"

definition squash_gid :: "access_control \<Rightarrow> u32 \<Rightarrow> u32" where
  "squash_gid ac gid =
    (case ac_squash (acl_config ac) of
       Squash_None \<Rightarrow> gid
     | RootSquash \<Rightarrow> if gid = 0 then ac_anon_gid (acl_config ac) else gid
     | AllSquash \<Rightarrow> ac_anon_gid (acl_config ac))"

definition allows_flavor :: "access_control \<Rightarrow> sec_flavor \<Rightarrow> bool" where
  "allows_flavor ac flavor =
    (if ac_sec (acl_config ac) = [] then flavor = Sys
     else flavor \<in> set (ac_sec (acl_config ac)))"

definition sec_flavors :: "access_control \<Rightarrow> sec_flavor list" where
  "sec_flavors ac = (if ac_sec (acl_config ac) = [] then default_sec else ac_sec (acl_config ac))"

definition anon_ids :: "access_control \<Rightarrow> u32 \<times> u32" where
  "anon_ids ac = (ac_anon_uid (acl_config ac), ac_anon_gid (acl_config ac))"

definition map_with ::
  "squash_mode \<Rightarrow> u32 \<Rightarrow> u32 \<Rightarrow> u32 \<Rightarrow> u32 \<Rightarrow> u32 list \<Rightarrow> u32 \<times> u32 \<times> u32 list" where
  "map_with squash anon_uid anon_gid uid gid gids =
    (case squash of
       Squash_None \<Rightarrow> (uid, gid, gids)
     | RootSquash \<Rightarrow>
         let g = (\<lambda>g. if g = 0 then anon_gid else g)
         in (if uid = 0 then anon_uid else uid, g gid, map g gids)
     | AllSquash \<Rightarrow> (anon_uid, anon_gid, []))"

definition map_ids :: "access_control \<Rightarrow> u32 \<Rightarrow> u32 \<Rightarrow> u32 list \<Rightarrow> u32 \<times> u32 \<times> u32 list" where
  "map_ids ac uid gid gids =
    map_with (ac_squash (acl_config ac)) (ac_anon_uid (acl_config ac)) (ac_anon_gid (acl_config ac))
      uid gid gids"

definition default_map_ids :: "u32 \<Rightarrow> u32 \<Rightarrow> u32 list \<Rightarrow> u32 \<times> u32 \<times> u32 list" where
  "default_map_ids uid gid gids = map_with RootSquash DEFAULT_ANON_ID DEFAULT_ANON_ID uid gid gids"

section \<open>What the access list admits\<close>

lemma parse_u8_dec_string: "parse_u8 (dec_string (unat p)) = Some p"
proof -
  have "unat p < 2 ^ LENGTH(8)" by (rule unsigned_less)
  then show ?thesis by (simp add: parse_u8_def parse_unsigned_dec_string)
qed

lemma parse_cidr_text:
  "ip_network_parse (ipv4_text a @ ''/'' @ dec_string (unat p)) =
    Some \<lparr>net_addr = V4 a, net_prefix_len = p\<rparr>"
  using split_once_append [OF slash_not_in_text, of a]
  by (simp add: ip_network_parse_def parse_ipv4_text parse_u8_dec_string)

lemma and_prefix_mask_eq_iff:
  "x AND push_bit n (- 1) = y AND push_bit n (- 1) \<longleftrightarrow> drop_bit n x = drop_bit n y"
  for x y :: "'a::len word"
proof
  assume eq: "x AND push_bit n (- 1) = y AND push_bit n (- 1)"
  show "drop_bit n x = drop_bit n y"
  proof (rule bit_word_eqI)
    fix k assume "k < LENGTH('a)"
    from eq have "bit (x AND push_bit n (- 1)) (n + k) = bit (y AND push_bit n (- 1)) (n + k)" by simp
    then show "bit (drop_bit n x) k = bit (drop_bit n y) k"
      by (auto simp: bit_simps dest: bit_imp_le_length)
  qed
next
  assume eq: "drop_bit n x = drop_bit n y"
  show "x AND push_bit n (- 1) = y AND push_bit n (- 1)"
  proof (rule bit_word_eqI)
    fix k assume "k < LENGTH('a)"
    have "bit (drop_bit n x) (k - n) = bit (drop_bit n y) (k - n)" using eq by simp
    then show "bit (x AND push_bit n (- 1)) k = bit (y AND push_bit n (- 1)) k"
      by (cases "n \<le> k") (auto simp: bit_simps)
  qed
qed

text \<open>Membership in a network: the addresses are of one family and agree in the leading bits.\<close>

definition addr_width :: "ip_addr \<Rightarrow> nat" where
  "addr_width a = (case a of V4 _ \<Rightarrow> 32 | V6 _ \<Rightarrow> 128)"

definition in_network :: "ip_network \<Rightarrow> ip_addr \<Rightarrow> bool" where
  "in_network n ip \<longleftrightarrow> (case (net_addr n, ip) of
     (V4 a, V4 b) \<Rightarrow> drop_bit (32 - unat (net_prefix_len n)) a = drop_bit (32 - unat (net_prefix_len n)) b
   | (V6 a, V6 b) \<Rightarrow> drop_bit (128 - unat (net_prefix_len n)) a = drop_bit (128 - unat (net_prefix_len n)) b
   | _ \<Rightarrow> False)"

lemma prefix_mask_agree:
  fixes x y :: "'a::len word"
  assumes "unat p \<le> unat width" and "LENGTH('a) = unat width"
  shows "p = 0 \<or> x AND prefix_mask width p = y AND prefix_mask width p \<longleftrightarrow>
    drop_bit (unat width - unat p) x = drop_bit (unat width - unat p) y"
proof (cases "p = 0")
  case True
  then show ?thesis using assms(2) by (simp add: drop_bit_word_beyond)
next
  case False
  then have "0 < unat p" by (simp add: unat_gt_0)
  with assms have "unat (width - p) mod LENGTH('a) = unat width - unat p"
    by (simp add: unat_sub word_le_nat_alt)
  then have "(prefix_mask width p :: 'a word) = push_bit (unat width - unat p) (- 1)"
    by (simp add: prefix_mask_def)
  with False and_prefix_mask_eq_iff [of x "unat width - unat p" y] show ?thesis by simp
qed

lemma ip_network_contains_iff:
  assumes "unat (net_prefix_len n) \<le> addr_width (net_addr n)"
  shows "ip_network_contains n ip \<longleftrightarrow> in_network n ip"
  using assms prefix_mask_agree [of "net_prefix_len n" 32, where 'a = 32]
    prefix_mask_agree [of "net_prefix_len n" 128, where 'a = 128]
  by (auto simp: ip_network_contains_def in_network_def addr_width_def split: ip_addr.splits)

definition cidr_text :: "u32 \<Rightarrow> u8 \<Rightarrow> string" where
  "cidr_text n p = ipv4_text n @ ''/'' @ dec_string (unat p)"

lemma split_once_None: "c \<notin> set s \<Longrightarrow> split_once c s = None"
  by (induction s) auto

lemma parse_bare_text: "ip_network_parse (ipv4_text a) = Some \<lparr>net_addr = V4 a, net_prefix_len = 32\<rparr>"
  using split_once_None [OF slash_not_in_text, of a] by (simp add: ip_network_parse_def parse_ipv4_text)

lemma client_ip_text: "port < 65536 \<Longrightarrow> client_ip (ipv4_text c @ '':'' @ dec_string port) = Some (V4 c)"
  by (simp add: client_ip_def parse_socket_ipv4_text [simplified])

lemma check_client_iff:
  "check_client (access_control_new config) client_addr \<longleftrightarrow>
    (\<forall>s \<in> set (ac_clients config). ip_network_parse s = None) \<or>
    (\<exists>s \<in> set (ac_clients config). \<exists>n ip. ip_network_parse s = Some n \<and> client_ip client_addr = Some ip \<and>
       ip_network_contains n ip)"
proof -
  have parsed: "set (List.map_filter ip_network_parse cs) = {n. \<exists>s \<in> set cs. ip_network_parse s = Some n}" for cs
    by (force simp: List.map_filter_def image_iff)
  have "List.map_filter ip_network_parse cs = [] \<longleftrightarrow> (\<forall>s \<in> set cs. ip_network_parse s = None)" for cs
    by (auto simp: List.map_filter_def filter_empty_conv)
  then show ?thesis
    by (auto simp: check_client_def access_control_new_def list_ex_iff parsed split: option.split)
qed

text \<open>
  C27: the clients list. Let no entry that parses have a prefix longer than its address. A client is
  admitted exactly if no entry of the list parses (so also if the list is empty), or if its own
  address parses and for some entry that parses, IPv4 or IPv6, it is of the same family and its
  address agrees with the entry's in the leading bits the prefix names. An entry \<open>a.b.c.d/len\<close>
  parses to that network, a bare \<open>a.b.c.d\<close> to the network of 32 bits, and a client that connects from
  \<open>a.b.c.d:port\<close> has that address.
\<close>

theorem check_client_decides:
  assumes "\<forall>s \<in> set (ac_clients config). \<forall>n. ip_network_parse s = Some n \<longrightarrow>
    unat (net_prefix_len n) \<le> addr_width (net_addr n)"
  shows "(check_client (access_control_new config) client_addr \<longleftrightarrow>
      (\<forall>s \<in> set (ac_clients config). ip_network_parse s = None) \<or>
      (\<exists>s \<in> set (ac_clients config). \<exists>n ip. ip_network_parse s = Some n \<and> client_ip client_addr = Some ip \<and>
         in_network n ip)) \<and>
    ip_network_parse (cidr_text a p) = Some \<lparr>net_addr = V4 a, net_prefix_len = p\<rparr> \<and>
    ip_network_parse (ipv4_text a) = Some \<lparr>net_addr = V4 a, net_prefix_len = 32\<rparr> \<and>
    (port < 65536 \<longrightarrow> client_ip (ipv4_text a @ '':'' @ dec_string port) = Some (V4 a))"
proof -
  have "(\<exists>s \<in> set (ac_clients config). \<exists>n ip. ip_network_parse s = Some n \<and> client_ip client_addr = Some ip \<and>
         ip_network_contains n ip) \<longleftrightarrow>
      (\<exists>s \<in> set (ac_clients config). \<exists>n ip. ip_network_parse s = Some n \<and> client_ip client_addr = Some ip \<and>
         in_network n ip)"
    using assms ip_network_contains_iff by blast
  then show ?thesis
    using parse_cidr_text [of a p] parse_bare_text [of a] client_ip_text [of port a]
    by (simp add: check_client_iff cidr_text_def)
qed

theorem check_client_decides_witness:
  "\<not> check_client (access_control_new (access_config_default\<lparr>ac_clients := [cidr_text 0x0A000000 8]\<rparr>))
      (ipv4_text 0x0B000001 @ '':'' @ dec_string 700)"
  (is "\<not> check_client (access_control_new ?config) ?addr")
proof -
  have net: "ip_network_parse (cidr_text 0x0A000000 8) = Some \<lparr>net_addr = V4 0x0A000000, net_prefix_len = 8\<rparr>"
    using parse_cidr_text [of "0x0A000000" 8] by (simp add: cidr_text_def)
  have ip: "client_ip ?addr = Some (V4 0x0B000001)"
    by (rule client_ip_text) simp
  have "\<not> in_network \<lparr>net_addr = V4 0x0A000000, net_prefix_len = 8\<rparr> (V4 0x0B000001)"
    by (simp add: in_network_def drop_bit_eq_div flip: take_bit_eq_mod)
  moreover have "\<forall>s \<in> set (ac_clients ?config). \<forall>n. ip_network_parse s = Some n \<longrightarrow>
      unat (net_prefix_len n) \<le> addr_width (net_addr n)"
    using net by (simp add: addr_width_def)
  note check_client_decides [OF this, of ?addr, THEN conjunct1]
  ultimately show ?thesis
    using net ip by (simp only: access_config.simps access_config.update_convs list.set) simp
qed

text \<open>
  Entries of the clients list that do not parse are dropped, and a list of which nothing is
  left admits every client: a list with only host names, say, protects nothing.
\<close>

lemma unparsable_clients_admit_everyone:
  assumes "\<forall>s \<in> set (ac_clients config). ip_network_parse s = None"
  shows "check_client (access_control_new config) client_addr"
  using assms by (simp add: check_client_iff)

lemma unparsable_clients_admit_everyone_example:
  "check_client (access_control_new (access_config_default\<lparr>ac_clients := [''trusted.lan'']\<rparr>)) ''6.6.6.6:1000''"
proof -
  have "ip_network_parse ''trusted.lan'' = None" by code_simp
  then show ?thesis
    using unparsable_clients_admit_everyone [of "access_config_default\<lparr>ac_clients := [''trusted.lan'']\<rparr>"]
    by simp
qed

end
