(* ===== verification/Qos.thy ===== *)
theory Qos
  imports Prelude Complex_Main
begin

text \<open>
  Per-export accounting of \<open>export_manager.rs\<close>: the token-bucket rate limiter (\<open>RateLimiter\<close>),
  the operation counters (\<open>ExportStats\<close>) and the space quota (\<open>QuotaManager\<close>). Token counts
  are \<open>f64\<close> in the sources; they are real numbers here, so rounding is not modelled. Times are
  seconds on the monotonic clock, and \<open>duration_since\<close> an earlier instant is zero. Counters are
  \<open>u64\<close> and wrap.
\<close>

section \<open>Rate limiter\<close>

record qos_config =
  max_ops_per_sec :: u64
  max_bytes_per_sec :: u64

definition qos_config_default :: qos_config where
  "qos_config_default = \<lparr>max_ops_per_sec = 0, max_bytes_per_sec = 0\<rparr>"

record rate_limiter =
  rl_ops_tokens :: real
  rl_bytes_tokens :: real
  rl_last_refill :: real
  rl_config :: qos_config

definition as_f64 :: "u64 \<Rightarrow> real" where
  "as_f64 n = real (unat n)"

definition rate_limiter_new :: "real \<Rightarrow> qos_config \<Rightarrow> rate_limiter" where
  "rate_limiter_new now config =
    \<lparr>rl_ops_tokens = as_f64 (max_ops_per_sec config),
     rl_bytes_tokens = as_f64 (max_bytes_per_sec config),
     rl_last_refill = now, rl_config = config\<rparr>"

text \<open>One bucket of \<open>refill\<close>: a limit of zero leaves the bucket alone.\<close>

definition refill_bucket :: "real \<Rightarrow> u64 \<Rightarrow> real \<Rightarrow> real" where
  "refill_bucket elapsed limit tokens =
    (if limit > 0
     then let tokens = tokens + elapsed * as_f64 limit
          in if tokens > as_f64 limit then as_f64 limit else tokens
     else tokens)"

definition refill :: "real \<Rightarrow> rate_limiter \<Rightarrow> rate_limiter" where
  "refill now rl =
    (let elapsed = max 0 (now - rl_last_refill rl) in
     rl\<lparr>rl_last_refill := now,
        rl_ops_tokens := refill_bucket elapsed (max_ops_per_sec (rl_config rl)) (rl_ops_tokens rl),
        rl_bytes_tokens := refill_bucket elapsed (max_bytes_per_sec (rl_config rl)) (rl_bytes_tokens rl)\<rparr>)"

definition try_consume_op :: "real \<Rightarrow> rate_limiter \<Rightarrow> bool \<times> rate_limiter" where
  "try_consume_op now rl =
    (if max_ops_per_sec (rl_config rl) = 0 then (True, rl)
     else let rl = refill now rl in
       if rl_ops_tokens rl \<ge> 1 then (True, rl\<lparr>rl_ops_tokens := rl_ops_tokens rl - 1\<rparr>)
       else (False, rl))"

definition try_consume_bytes :: "real \<Rightarrow> u64 \<Rightarrow> rate_limiter \<Rightarrow> bool \<times> rate_limiter" where
  "try_consume_bytes now nbytes rl =
    (if max_bytes_per_sec (rl_config rl) = 0 then (True, rl)
     else let rl = refill now rl; needed = as_f64 nbytes in
       if rl_bytes_tokens rl \<ge> needed
       then (True, rl\<lparr>rl_bytes_tokens := rl_bytes_tokens rl - needed\<rparr>)
       else (False, rl))"

definition try_consume :: "real \<Rightarrow> u64 \<Rightarrow> rate_limiter \<Rightarrow> bool \<times> rate_limiter" where
  "try_consume now nbytes rl =
    (let ops_limited = max_ops_per_sec (rl_config rl) > 0;
         bytes_limited = max_bytes_per_sec (rl_config rl) > 0 \<and> nbytes > 0
     in if \<not> ops_limited \<and> \<not> bytes_limited then (True, rl)
        else
          let rl = refill now rl; needed = as_f64 nbytes;
              capacity = as_f64 (max_bytes_per_sec (rl_config rl))
          in if ops_limited \<and> rl_ops_tokens rl < 1 then (False, rl)
             else if bytes_limited \<and> rl_bytes_tokens rl < min needed capacity then (False, rl)
             else
               let rl = (if bytes_limited
                         then rl\<lparr>rl_bytes_tokens := rl_bytes_tokens rl - needed\<rparr> else rl);
                   rl = (if ops_limited then rl\<lparr>rl_ops_tokens := rl_ops_tokens rl - 1\<rparr> else rl)
               in (True, rl))"

definition qos_update_config :: "real \<Rightarrow> qos_config \<Rightarrow> rate_limiter \<Rightarrow> rate_limiter" where
  "qos_update_config now config rl =
    (let ops = (if max_ops_per_sec config \<noteq> max_ops_per_sec (rl_config rl)
                then as_f64 (max_ops_per_sec config) else rl_ops_tokens rl);
         byts = (if max_bytes_per_sec config \<noteq> max_bytes_per_sec (rl_config rl)
                then as_f64 (max_bytes_per_sec config) else rl_bytes_tokens rl)
     in \<lparr>rl_ops_tokens = ops, rl_bytes_tokens = byts, rl_last_refill = now, rl_config = config\<rparr>)"

section \<open>Statistics\<close>

record export_stats =
  st_reads :: u64
  st_writes :: u64
  st_bytes_read :: u64
  st_bytes_written :: u64
  st_ops :: u64

definition export_stats_new :: export_stats where
  "export_stats_new = \<lparr>st_reads = 0, st_writes = 0, st_bytes_read = 0, st_bytes_written = 0, st_ops = 0\<rparr>"

section \<open>Quota\<close>

record quota_config =
  hard_limit_bytes :: u64
  soft_limit_bytes :: u64

record quota_manager =
  qm_config :: quota_config
  qm_bytes_used :: u64

definition quota_config_default :: quota_config where
  "quota_config_default = \<lparr>hard_limit_bytes = 0, soft_limit_bytes = 0\<rparr>"

definition quota_manager_new :: "quota_config \<Rightarrow> quota_manager" where
  "quota_manager_new config = \<lparr>qm_config = config, qm_bytes_used = 0\<rparr>"

definition check_write :: "quota_manager \<Rightarrow> u64 \<Rightarrow> bool" where
  "check_write qm additional =
    (if hard_limit_bytes (qm_config qm) = 0 then True
     else qm_bytes_used qm + additional \<le> hard_limit_bytes (qm_config qm))"

definition record_write :: "quota_manager \<Rightarrow> u64 \<Rightarrow> quota_manager" where
  "record_write qm n = qm\<lparr>qm_bytes_used := qm_bytes_used qm + n\<rparr>"

definition record_free :: "quota_manager \<Rightarrow> u64 \<Rightarrow> quota_manager" where
  "record_free qm n = qm\<lparr>qm_bytes_used := qm_bytes_used qm - min n (qm_bytes_used qm)\<rparr>"

definition quota_avail_hard :: "quota_manager \<Rightarrow> u64" where
  "quota_avail_hard qm =
    (if hard_limit_bytes (qm_config qm) = 0 then - 1
     else saturating_sub (hard_limit_bytes (qm_config qm)) (qm_bytes_used qm))"

definition quota_avail_soft :: "quota_manager \<Rightarrow> u64" where
  "quota_avail_soft qm =
    (if soft_limit_bytes (qm_config qm) = 0 then - 1
     else saturating_sub (soft_limit_bytes (qm_config qm)) (qm_bytes_used qm))"

definition quota_update_config :: "quota_manager \<Rightarrow> quota_config \<Rightarrow> quota_manager" where
  "quota_update_config qm config = qm\<lparr>qm_config := config\<rparr>"

section \<open>Properties of the rate limiter\<close>

lemma as_f64_nonneg [simp]: "0 \<le> as_f64 n"
  by (simp add: as_f64_def del: of_nat_unat)

lemma as_f64_0 [simp]: "as_f64 0 = 0"
  by (simp add: as_f64_def del: of_nat_unat)

lemma as_f64_ge_1: "0 < n \<Longrightarrow> 1 \<le> as_f64 n"
proof -
  assume "0 < n"
  then have "0 < unat n" by (simp add: unat_gt_0 word_gt_0)
  then show ?thesis by (simp add: as_f64_def del: of_nat_unat)
qed

lemma as_f64_mono: "m \<le> n \<Longrightarrow> as_f64 m \<le> as_f64 n"
  by (simp add: as_f64_def word_le_nat_alt del: of_nat_unat)

lemma refill_bucket_bounds:
  assumes "0 < limit" "0 \<le> elapsed"
  shows "refill_bucket elapsed limit tokens \<le> tokens + elapsed * as_f64 limit"
    and "lo \<le> tokens \<Longrightarrow> lo \<le> as_f64 limit \<Longrightarrow> lo \<le> refill_bucket elapsed limit tokens"
    and "c \<le> tokens + elapsed * as_f64 limit \<Longrightarrow> c \<le> as_f64 limit \<Longrightarrow>
      c \<le> refill_bucket elapsed limit tokens"
proof -
  obtain d where d: "elapsed * as_f64 limit = d" "0 \<le> d" using assms by simp
  show "refill_bucket elapsed limit tokens \<le> tokens + elapsed * as_f64 limit"
    "lo \<le> tokens \<Longrightarrow> lo \<le> as_f64 limit \<Longrightarrow> lo \<le> refill_bucket elapsed limit tokens"
    "c \<le> tokens + elapsed * as_f64 limit \<Longrightarrow> c \<le> as_f64 limit \<Longrightarrow>
      c \<le> refill_bucket elapsed limit tokens"
    using assms(1) d(2) by (auto simp: refill_bucket_def Let_def d(1))
qed

lemma refill_sel [simp]:
  "rl_config (refill now rl) = rl_config rl"
  "rl_last_refill (refill now rl) = now"
  by (simp_all add: refill_def Let_def)

lemma try_consume_config [simp]: "rl_config (snd (try_consume now n rl)) = rl_config rl"
  by (simp add: try_consume_def Let_def)

text \<open>One operation against the operation bucket, and against the byte bucket.\<close>

lemma try_consume_ops:
  assumes "rl_last_refill rl \<le> now" and R: "0 < max_ops_per_sec (rl_config rl)"
    and "0 \<le> rl_ops_tokens rl" and step: "try_consume now n rl = (ok, rl')"
  shows "rl_last_refill rl' = now" and "0 \<le> rl_ops_tokens rl'"
    and "rl_ops_tokens rl' + of_bool ok \<le>
      rl_ops_tokens rl + as_f64 (max_ops_per_sec (rl_config rl)) * (now - rl_last_refill rl)"
proof -
  let ?e = "now - rl_last_refill rl"
  have e: "0 \<le> ?e" using assms(1) by simp
  note b = refill_bucket_bounds [OF R e, where tokens = "rl_ops_tokens rl"]
  have t: "rl_ops_tokens (refill now rl) =
    refill_bucket ?e (max_ops_per_sec (rl_config rl)) (rl_ops_tokens rl)"
    using assms(1) by (simp add: refill_def Let_def)
  have "0 \<le> rl_ops_tokens (refill now rl)"
    using b(2) [of 0] assms(1,3) by (simp add: t)
  moreover have "rl_ops_tokens (refill now rl) \<le>
    rl_ops_tokens rl + as_f64 (max_ops_per_sec (rl_config rl)) * ?e"
    using b(1) assms(1) by (simp add: t mult.commute)
  ultimately show "rl_last_refill rl' = now" and "0 \<le> rl_ops_tokens rl'"
    "rl_ops_tokens rl' + of_bool ok \<le>
      rl_ops_tokens rl + as_f64 (max_ops_per_sec (rl_config rl)) * ?e"
    using step R by (auto simp: try_consume_def Let_def split: if_splits)
qed

lemma try_consume_byte_bucket:
  assumes "rl_last_refill rl \<le> now" and B: "0 < max_bytes_per_sec (rl_config rl)"
    and lo: "lo \<le> rl_bytes_tokens rl" "lo \<le> 0"
      "lo \<le> as_f64 (max_bytes_per_sec (rl_config rl)) - as_f64 n"
    and step: "try_consume now n rl = (ok, rl')"
  shows "rl_last_refill rl \<le> rl_last_refill rl' \<and> rl_last_refill rl' \<le> now"
    and "lo \<le> rl_bytes_tokens rl'"
    and "rl_bytes_tokens rl' + (if ok then as_f64 n else 0) \<le>
      rl_bytes_tokens rl + as_f64 (max_bytes_per_sec (rl_config rl)) *
        (rl_last_refill rl' - rl_last_refill rl)"
proof -
  let ?e = "now - rl_last_refill rl" and ?r = "refill now rl"
  have e: "0 \<le> ?e" using assms(1) by simp
  note b = refill_bucket_bounds [OF B e, where tokens = "rl_bytes_tokens rl"]
  have t: "rl_bytes_tokens ?r =
    refill_bucket ?e (max_bytes_per_sec (rl_config rl)) (rl_bytes_tokens rl)"
    using assms(1) by (simp add: refill_def Let_def)
  have "lo \<le> as_f64 (max_bytes_per_sec (rl_config rl))"
    using lo(2) as_f64_nonneg order_trans by blast
  then have low: "lo \<le> rl_bytes_tokens ?r" using b(2) lo(1) by (simp add: t)
  have high: "rl_bytes_tokens ?r \<le>
    rl_bytes_tokens rl + as_f64 (max_bytes_per_sec (rl_config rl)) * ?e"
    using b(1) by (simp add: t mult.commute)
  show "rl_last_refill rl \<le> rl_last_refill rl' \<and> rl_last_refill rl' \<le> now"
    using step assms(1) by (auto simp: try_consume_def Let_def split: if_splits)
  show "lo \<le> rl_bytes_tokens rl'"
    using step low lo by (auto simp: try_consume_def Let_def min_def split: if_splits)
  show "rl_bytes_tokens rl' + (if ok then as_f64 n else 0) \<le>
      rl_bytes_tokens rl + as_f64 (max_bytes_per_sec (rl_config rl)) *
        (rl_last_refill rl' - rl_last_refill rl)"
    using step high B by (auto simp: try_consume_def Let_def word_gt_0 split: if_splits)
qed

text \<open>The operations a limiter admits out of a sequence of attempts (time and bytes).\<close>

fun admitted :: "(real \<times> u64) list \<Rightarrow> rate_limiter \<Rightarrow> u64 list \<times> rate_limiter" where
  "admitted [] rl = ([], rl)"
| "admitted ((now, n) # cs) rl =
    (let (ok, rl) = try_consume now n rl; (ns, rl) = admitted cs rl
     in (if ok then n # ns else ns, rl))"

lemma admitted_ops:
  assumes "sorted (map fst cs)" and "\<forall>c \<in> set cs. rl_last_refill rl \<le> fst c"
    and "0 < max_ops_per_sec (rl_config rl)" and "0 \<le> rl_ops_tokens rl"
    and "\<forall>c \<in> set cs. fst c \<le> T" and "rl_last_refill rl \<le> T"
  shows "real (length (fst (admitted cs rl))) \<le>
    rl_ops_tokens rl + as_f64 (max_ops_per_sec (rl_config rl)) * (T - rl_last_refill rl)"
  using assms
proof (induction cs rl rule: admitted.induct)
  case (1 rl)
  then show ?case by simp
next
  case (2 now n cs rl)
  obtain ok rl' where s: "try_consume now n rl = (ok, rl')" by fastforce
  have cfg: "rl_config rl' = rl_config rl" using try_consume_config [of now n rl] s by simp
  have last: "rl_last_refill rl \<le> now" using 2(3) by simp
  note st = try_consume_ops [OF last 2(4,5) s]
  have "real (length (fst (admitted cs rl'))) \<le>
    rl_ops_tokens rl' + as_f64 (max_ops_per_sec (rl_config rl')) * (T - rl_last_refill rl')"
    using 2 s st cfg by (intro "2.IH" [OF s [symmetric]]) auto
  moreover have "length (fst (admitted ((now, n) # cs) rl)) = of_bool ok + length (fst (admitted cs rl'))"
    by (simp add: s case_prod_unfold Let_def)
  ultimately show ?case using st cfg by (simp add: algebra_simps)
qed

lemma admitted_bytes:
  assumes "sorted (map fst cs)" and "\<forall>c \<in> set cs. rl_last_refill rl \<le> fst c"
    and "0 < max_bytes_per_sec (rl_config rl)"
    and "lo \<le> rl_bytes_tokens rl" "lo \<le> 0"
    and "\<forall>c \<in> set cs. lo \<le> as_f64 (max_bytes_per_sec (rl_config rl)) - as_f64 (snd c)"
    and "\<forall>c \<in> set cs. fst c \<le> T" and "rl_last_refill rl \<le> T"
  shows "sum_list (map as_f64 (fst (admitted cs rl))) \<le>
    rl_bytes_tokens rl + as_f64 (max_bytes_per_sec (rl_config rl)) * (T - rl_last_refill rl) - lo"
  using assms
proof (induction cs rl rule: admitted.induct)
  case (1 rl)
  have "0 \<le> as_f64 (max_bytes_per_sec (rl_config rl)) * (T - rl_last_refill rl)"
    using 1(8) by simp
  with 1(4) have "lo \<le> rl_bytes_tokens rl +
    as_f64 (max_bytes_per_sec (rl_config rl)) * (T - rl_last_refill rl)" by linarith
  then show ?case by simp
next
  case (2 now n cs rl)
  obtain ok rl' where s: "try_consume now n rl = (ok, rl')" by fastforce
  have cfg: "rl_config rl' = rl_config rl" using try_consume_config [of now n rl] s by simp
  have last: "rl_last_refill rl \<le> now" and n: "lo \<le> as_f64 (max_bytes_per_sec (rl_config rl)) - as_f64 n"
    using 2(3,7) by simp_all
  note st = try_consume_byte_bucket [OF last 2(4,5,6) n s]
  have "sum_list (map as_f64 (fst (admitted cs rl'))) \<le>
    rl_bytes_tokens rl' + as_f64 (max_bytes_per_sec (rl_config rl')) * (T - rl_last_refill rl') - lo"
    using 2 s st cfg by (intro "2.IH" [OF s [symmetric]]) force+
  moreover have "sum_list (map as_f64 (fst (admitted ((now, n) # cs) rl))) =
    (if ok then as_f64 n else 0) + sum_list (map as_f64 (fst (admitted cs rl')))"
    by (simp add: s case_prod_unfold Let_def)
  ultimately show ?case using st cfg by (simp add: algebra_simps)
qed

lemma admitted_end:
  assumes "sorted (map fst cs)" and "\<forall>c \<in> set cs. rl_last_refill rl \<le> fst c"
    and "\<forall>c \<in> set cs. fst c \<le> T" and "rl_last_refill rl \<le> T"
  shows "rl_config (snd (admitted cs rl)) = rl_config rl \<and> rl_last_refill (snd (admitted cs rl)) \<le> T"
    and "0 < max_ops_per_sec (rl_config rl) \<Longrightarrow> 0 \<le> rl_ops_tokens rl \<Longrightarrow>
      0 \<le> rl_ops_tokens (snd (admitted cs rl))"
    and "0 < max_bytes_per_sec (rl_config rl) \<Longrightarrow> lo \<le> rl_bytes_tokens rl \<Longrightarrow> lo \<le> 0 \<Longrightarrow>
      \<forall>c \<in> set cs. lo \<le> as_f64 (max_bytes_per_sec (rl_config rl)) - as_f64 (snd c) \<Longrightarrow>
      lo \<le> rl_bytes_tokens (snd (admitted cs rl))"
  using assms
proof (induction cs rl rule: admitted.induct)
  case (1 rl)
  { case 1 then show ?case by simp next case 2 then show ?case by simp next case 3 then show ?case by simp }
next
  case (2 now n cs rl)
  obtain ok rl' where s: "try_consume now n rl = (ok, rl')" by fastforce
  have cfg: "rl_config rl' = rl_config rl" using try_consume_config [of now n rl] s by simp
  have fin: "snd (admitted ((now, n) # cs) rl) = snd (admitted cs rl')"
    by (simp add: s case_prod_unfold Let_def)
  have now: "rl_last_refill rl \<le> rl_last_refill rl' \<and> rl_last_refill rl' \<le> now"
    if "rl_last_refill rl \<le> now"
    using s that by (auto simp: try_consume_def Let_def split: if_splits)
  note IH = "2.IH" [OF s [symmetric]]
  { case 1
    then show ?case using now IH(1) cfg fin by force
  next
    case 2
    then have "0 \<le> rl_ops_tokens rl'" using try_consume_ops(2) [OF _ _ _ s] by simp
    with 2 show ?case using now IH(2) cfg fin by force
  next
    case 3
    then have "lo \<le> rl_bytes_tokens rl'" using try_consume_byte_bucket(2) [OF _ _ _ _ _ s] by simp
    with 3 show ?case using now IH(3) cfg fin by force
  }
qed

text \<open>
  C25: the rate limits hold over every time span that starts with a full bucket: up to time \<open>T\<close>
  at most \<open>max_ops_per_sec * (1 + (T - t0))\<close> operations are admitted, and their READ and WRITE
  bytes are at most \<open>max_bytes_per_sec * (T - t0)\<close> plus one full bucket or one largest operation,
  whichever is more.
\<close>

theorem rate_limiter_bound:
  assumes "sorted (t0 # map fst cs)" and "\<forall>c \<in> set cs. fst c \<le> T \<and> snd c \<le> M" and "t0 \<le> T"
    and "ns = fst (admitted cs (rate_limiter_new t0 config))"
  shows "(0 < max_ops_per_sec config \<longrightarrow>
      real (length ns) \<le> as_f64 (max_ops_per_sec config) * (1 + (T - t0)))
    \<and> (0 < max_bytes_per_sec config \<longrightarrow>
      sum_list (map as_f64 ns) \<le> as_f64 (max_bytes_per_sec config) * (T - t0) +
        max (as_f64 (max_bytes_per_sec config)) (as_f64 M))"
proof -
  let ?rl = "rate_limiter_new t0 config" and ?B = "as_f64 (max_bytes_per_sec config)"
  have rl: "rl_config ?rl = config" "rl_last_refill ?rl = t0"
    "rl_ops_tokens ?rl = as_f64 (max_ops_per_sec config)" "rl_bytes_tokens ?rl = ?B"
    by (simp_all add: rate_limiter_new_def)
  have lo: "?B - max ?B (as_f64 M) \<le> ?B - as_f64 (snd c)" if "c \<in> set cs" for c
    using as_f64_mono [of "snd c" M] assms(2) that by (simp add: max_def)
  have pos: "0 \<le> max ?B (as_f64 M)" by (simp add: le_max_iff_disj)
  have "0 < max_ops_per_sec config \<Longrightarrow>
      real (length ns) \<le> as_f64 (max_ops_per_sec config) * (1 + (T - t0))"
    using admitted_ops [of cs ?rl T] assms rl by (simp add: algebra_simps)
  moreover have "0 < max_bytes_per_sec config \<Longrightarrow>
      sum_list (map as_f64 ns) \<le> ?B * (T - t0) + max ?B (as_f64 M)"
    using admitted_bytes [of cs ?rl "?B - max ?B (as_f64 M)" T] assms rl lo pos by (simp add: algebra_simps)
  ultimately show ?thesis by blast
qed

theorem rate_limiter_bound_witness:
  "length (fst (admitted [(0, 0), (0, 0), (0, 0)]
      (rate_limiter_new 0 \<lparr>max_ops_per_sec = 2, max_bytes_per_sec = 0\<rparr>))) \<le> 2"
  using rate_limiter_bound [of 0 "[(0, 0), (0, 0), (0, 0)]" 0 0 _
      "\<lparr>max_ops_per_sec = 2, max_bytes_per_sec = 0\<rparr>", OF _ _ _ refl]
  by (simp add: as_f64_def)

text \<open>
  C26: no starvation. Whatever was admitted before time \<open>T\<close>, an operation that waits one second,
  and long enough for the byte bucket to refill by a full bucket or by one largest operation, is
  admitted, also if it is larger than the byte bucket.
\<close>

theorem rate_limiter_no_starvation:
  assumes "sorted (t0 # map fst cs)" and "\<forall>c \<in> set cs. fst c \<le> T \<and> snd c \<le> M" and "t0 \<le> T"
    and "n \<le> M" and "T + 1 \<le> now"
    and "max (as_f64 (max_bytes_per_sec config)) (as_f64 M) \<le>
      as_f64 (max_bytes_per_sec config) * (now - T) \<or> max_bytes_per_sec config = 0"
  shows "fst (try_consume now n (snd (admitted cs (rate_limiter_new t0 config))))"
proof -
  let ?B = "as_f64 (max_bytes_per_sec config)" and ?R = "as_f64 (max_ops_per_sec config)"
  let ?lo = "?B - max ?B (as_f64 M)"
  define rl where "rl = snd (admitted cs (rate_limiter_new t0 config))"
  have pre: "sorted (map fst cs)" "\<forall>c \<in> set cs. t0 \<le> fst c" "\<forall>c \<in> set cs. fst c \<le> T"
    using assms(1,2) by auto
  have new: "rl_config (rate_limiter_new t0 config) = config"
    "rl_last_refill (rate_limiter_new t0 config) = t0"
    "rl_ops_tokens (rate_limiter_new t0 config) = ?R"
    "rl_bytes_tokens (rate_limiter_new t0 config) = ?B"
    by (simp_all add: rate_limiter_new_def)
  note fin = admitted_end [of cs "rate_limiter_new t0 config" T, unfolded new, OF pre assms(3),
      folded rl_def]
  have cfg: "rl_config rl = config" and last: "rl_last_refill rl \<le> T" using fin(1) by simp_all
  let ?e = "now - rl_last_refill rl"
  have e: "1 \<le> ?e" "now - T \<le> ?e" "0 \<le> ?e" using last assms(5) by simp_all
  have ops: "1 \<le> rl_ops_tokens (refill now rl)" if R: "0 < max_ops_per_sec config"
  proof -
    have "?R \<le> ?e * ?R" using mult_right_mono [OF e(1), of ?R] by simp
    then have "?R \<le> rl_ops_tokens rl + ?e * ?R" using fin(2) [OF R] by simp
    then have "?R \<le> refill_bucket ?e (max_ops_per_sec config) (rl_ops_tokens rl)"
      using refill_bucket_bounds(3) [OF R e(3)] by simp
    with as_f64_ge_1 [OF R] e(3) show ?thesis by (simp add: refill_def Let_def cfg)
  qed
  have byt: "?B \<le> rl_bytes_tokens (refill now rl)" if B: "0 < max_bytes_per_sec config"
  proof -
    have "?lo \<le> rl_bytes_tokens rl"
      using fin(3) [OF B, of ?lo] as_f64_mono assms(2) by (force simp: max_def)
    moreover have "max ?B (as_f64 M) \<le> ?e * ?B"
      using assms(6) B mult_right_mono [OF e(2), of ?B] by (auto simp: mult.commute)
    ultimately have "?B \<le> rl_bytes_tokens rl + ?e * ?B" by linarith
    then have "?B \<le> refill_bucket ?e (max_bytes_per_sec config) (rl_bytes_tokens rl)"
      using refill_bucket_bounds(3) [OF B e(3)] by simp
    with e(3) show ?thesis by (simp add: refill_def Let_def cfg)
  qed
  show ?thesis
    using ops byt by (auto simp: rl_def [symmetric] try_consume_def Let_def cfg min_def)
qed

theorem rate_limiter_no_starvation_witness:
  "fst (try_consume 3 10 (snd (admitted [(0, 10)]
      (rate_limiter_new 0 \<lparr>max_ops_per_sec = 1, max_bytes_per_sec = 5\<rparr>))))"
  using rate_limiter_no_starvation [of 0 "[(0, 10)]" 0 10 10 3 "\<lparr>max_ops_per_sec = 1, max_bytes_per_sec = 5\<rparr>"]
  by (simp add: as_f64_def)

section \<open>Properties of the quota\<close>

text \<open>
  The quota check is exact while used and requested bytes sum up below \<open>2^64\<close>: a write is
  allowed if and only if it keeps the usage within the hard limit, and recording it keeps the
  count exact and within the limit. A request so large that the sum wraps is judged by the
  wrapped sum, so it can pass.
\<close>

lemma quota_check_exact:
  assumes "hard_limit_bytes (qm_config qm) \<noteq> 0"
  shows "(unat (qm_bytes_used qm) + unat n < 2 ^ 64 \<longrightarrow>
      (check_write qm n \<longleftrightarrow> unat (qm_bytes_used qm) + unat n \<le> unat (hard_limit_bytes (qm_config qm)))
      \<and> unat (qm_bytes_used (record_write qm n)) = unat (qm_bytes_used qm) + unat n)
    \<and> (unat (qm_bytes_used qm) + unat n \<ge> 2 ^ 64 \<longrightarrow>
      (check_write qm n \<longleftrightarrow>
        unat (qm_bytes_used qm) + unat n - 2 ^ 64 \<le> unat (hard_limit_bytes (qm_config qm))))"
proof -
  let ?u = "qm_bytes_used qm"
  have lt: "unat ?u < 2 ^ 64" "unat n < 2 ^ 64"
    using unsigned_less [of ?u] unsigned_less [of n] by simp_all
  have small: "unat (?u + n) = unat ?u + unat n" if "unat ?u + unat n < 2 ^ 64"
    using that by (simp add: unat_word_ariths)
  have big: "unat (?u + n) = unat ?u + unat n - 2 ^ 64" if "2 ^ 64 \<le> unat ?u + unat n"
    using that lt by (simp add: unat_word_ariths le_mod_geq)
  show ?thesis
    using assms small big
    by (auto simp: check_write_def record_write_def word_le_nat_alt)
qed

lemma quota_check_exact_example:
  "check_write \<lparr>qm_config = \<lparr>hard_limit_bytes = 100, soft_limit_bytes = 0\<rparr>, qm_bytes_used = 90\<rparr> (- 90)"
  using quota_check_exact [of "\<lparr>qm_config = \<lparr>hard_limit_bytes = 100, soft_limit_bytes = 0\<rparr>, qm_bytes_used = 90\<rparr>" "- 90"]
  by simp

end
