(* ===== verification/MultiIndex.thy ===== *)
theory MultiIndex
  imports Prelude
begin

text \<open>
  The interface of the \<open>multi_index_map\<close> crate (0.11) as the server uses it: a container of
  records with several hashed indexes, some of them unique. The crate is not part of the
  sources, so the container is a parameter of every definition that uses it, and the locales
  below state what the server relies on: \<open>insert\<close> of a record whose unique key is taken is
  refused (\<open>None\<close>: \<open>insert\<close> panics, \<open>try_insert\<close> returns \<open>Err\<close>), \<open>get_by_\<close> returns
  the records with a key in no particular order, \<open>remove_by_\<close> removes exactly them.
  The list-backed container at the end satisfies the laws.
\<close>

locale multi_index =
  fixes inv :: "'db \<Rightarrow> bool"
    and iter :: "'db \<Rightarrow> 'e list"
    and empty :: 'db
    and insert :: "'db \<Rightarrow> 'e \<Rightarrow> 'db option"
    and clash :: "'e \<Rightarrow> 'e \<Rightarrow> bool"
  assumes inv_empty: "inv empty"
    and iter_empty: "iter empty = []"
    and iter_distinct: "inv db \<Longrightarrow> distinct (iter db)"
    and clash_free: "inv db \<Longrightarrow> x \<in> set (iter db) \<Longrightarrow> y \<in> set (iter db) \<Longrightarrow> clash x y \<Longrightarrow> x = y"
    and insert_fresh: "inv db \<Longrightarrow> \<forall>x \<in> set (iter db). \<not> clash x e \<Longrightarrow>
      \<exists>db'. insert db e = Some db' \<and> inv db' \<and> set (iter db') = Set.insert e (set (iter db))"
    and insert_taken: "inv db \<Longrightarrow> x \<in> set (iter db) \<Longrightarrow> clash x e \<Longrightarrow> insert db e = None"
begin

lemma insert_SomeD:
  assumes "inv db" "insert db e = Some db'"
  shows "inv db'" "set (iter db') = Set.insert e (set (iter db))"
    "x \<in> set (iter db) \<Longrightarrow> \<not> clash x e"
proof -
  have free: "\<forall>x \<in> set (iter db). \<not> clash x e"
    using assms insert_taken by fastforce
  then show "x \<in> set (iter db) \<Longrightarrow> \<not> clash x e" by blast
  from insert_fresh [OF assms(1) free] assms(2)
  show "inv db'" "set (iter db') = Set.insert e (set (iter db))" by auto
qed

lemma insert_None_iff:
  "inv db \<Longrightarrow> insert db e = None \<longleftrightarrow> (\<exists>x \<in> set (iter db). clash x e)"
  using insert_fresh insert_taken by fastforce

end

locale nonunique_index = multi_index inv iter empty insert clash
  for inv :: "'db \<Rightarrow> bool" and iter :: "'db \<Rightarrow> 'e list" and empty insert clash +
  fixes key :: "'e \<Rightarrow> 'k"
    and get_by :: "'db \<Rightarrow> 'k \<Rightarrow> 'e list"
    and remove_by :: "'db \<Rightarrow> 'k \<Rightarrow> 'db"
  assumes get_by_set: "inv db \<Longrightarrow> set (get_by db k) = {x \<in> set (iter db). key x = k}"
    and get_by_distinct: "inv db \<Longrightarrow> distinct (get_by db k)"
    and remove_by_inv: "inv db \<Longrightarrow> inv (remove_by db k)"
    and remove_by_set: "inv db \<Longrightarrow> set (iter (remove_by db k)) = {x \<in> set (iter db). key x \<noteq> k}"
begin

lemma get_by_empty_iff: "inv db \<Longrightarrow> get_by db k = [] \<longleftrightarrow> (\<forall>x \<in> set (iter db). key x \<noteq> k)"
  using get_by_set [of db k] by (auto simp: set_empty [symmetric] simp del: set_empty)

end

locale unique_index = multi_index inv iter empty insert clash
  for inv :: "'db \<Rightarrow> bool" and iter :: "'db \<Rightarrow> 'e list" and empty insert clash +
  fixes key :: "'e \<Rightarrow> 'k"
    and get_by :: "'db \<Rightarrow> 'k \<Rightarrow> 'e option"
    and remove_by :: "'db \<Rightarrow> 'k \<Rightarrow> 'e option \<times> 'db"
  assumes key_clash: "key x = key y \<Longrightarrow> clash x y"
    and get_by_Some: "inv db \<Longrightarrow> get_by db k = Some e \<longleftrightarrow> e \<in> set (iter db) \<and> key e = k"
    and remove_by_fst: "inv db \<Longrightarrow> fst (remove_by db k) = get_by db k"
    and remove_by_inv: "inv db \<Longrightarrow> inv (snd (remove_by db k))"
    and remove_by_set:
      "inv db \<Longrightarrow> set (iter (snd (remove_by db k))) = {x \<in> set (iter db). key x \<noteq> k}"
begin

lemma get_by_None: "inv db \<Longrightarrow> get_by db k = None \<longleftrightarrow> (\<forall>x \<in> set (iter db). key x \<noteq> k)"
  using get_by_Some by (metis not_None_eq)

lemma key_inj: "inv db \<Longrightarrow> inj_on key (set (iter db))"
  by (auto simp: inj_on_def intro: clash_free key_clash)

lemma remove_by_Some:
  assumes "inv db" "remove_by db k = (Some e, db')"
  shows "e \<in> set (iter db)" "key e = k" "inv db'" "set (iter db') = set (iter db) - {e}"
proof -
  show e: "e \<in> set (iter db)" "key e = k"
    using remove_by_fst [OF assms(1), of k] get_by_Some [OF assms(1), of k e] assms(2) by auto
  show "inv db'" using remove_by_inv [OF assms(1), of k] assms(2) by simp
  show "set (iter db') = set (iter db) - {e}"
    using remove_by_set [OF assms(1), of k] assms(2) e key_inj [OF assms(1)]
    by (auto simp: inj_on_def)
qed

lemma remove_by_None:
  assumes "inv db" "remove_by db k = (None, db')"
  shows "\<forall>x \<in> set (iter db). key x \<noteq> k" "inv db'" "set (iter db') = set (iter db)"
proof -
  show none: "\<forall>x \<in> set (iter db). key x \<noteq> k"
    using remove_by_fst [OF assms(1), of k] get_by_None [OF assms(1), of k] assms(2) by simp
  show "inv db'" using remove_by_inv [OF assms(1), of k] assms(2) by simp
  show "set (iter db') = set (iter db)"
    using remove_by_set [OF assms(1), of k] assms(2) none by auto
qed

lemma remove_by_member:
  assumes "inv db" "e \<in> set (iter db)"
  shows "\<exists>db'. remove_by db (key e) = (Some e, db')"
proof -
  have "get_by db (key e) = Some e" using assms get_by_Some by blast
  then show ?thesis
    using remove_by_fst [OF assms(1), of "key e"] by (metis prod.collapse)
qed

text \<open>
  The \<open>remove, mutate, re-insert\<close> pattern of the sources: taking a record out and putting
  back an updated copy with the same unique keys replaces exactly that record.
\<close>

lemma replace_set:
  assumes "inv db" "e \<in> set (iter db)" "remove_by db (key e) = (Some e, db1)"
    and same: "\<And>x. clash x e' \<Longrightarrow> clash x e"
  shows "\<exists>db2. insert db1 e' = Some db2 \<and> inv db2 \<and>
    set (iter db2) = Set.insert e' (set (iter db) - {e})"
proof -
  note r = remove_by_Some [OF assms(1,3)]
  have "\<forall>x \<in> set (iter db1). \<not> clash x e'"
    using r(4) assms(1,2) same clash_free by blast
  from insert_fresh [OF r(3) this] show ?thesis by (simp add: r(4))
qed

end

section \<open>A list-backed container\<close>

definition list_clash_free :: "('e \<Rightarrow> 'e \<Rightarrow> bool) \<Rightarrow> 'e list \<Rightarrow> bool" where
  "list_clash_free clash xs \<longleftrightarrow> distinct xs \<and> (\<forall>x \<in> set xs. \<forall>y \<in> set xs. clash x y \<longrightarrow> x = y)"

definition list_insert :: "('e \<Rightarrow> 'e \<Rightarrow> bool) \<Rightarrow> 'e list \<Rightarrow> 'e \<Rightarrow> 'e list option" where
  "list_insert clash xs e = (if \<exists>x \<in> set xs. clash x e then None else Some (xs @ [e]))"

definition list_get_by :: "('e \<Rightarrow> 'k) \<Rightarrow> 'e list \<Rightarrow> 'k \<Rightarrow> 'e list" where
  "list_get_by key xs k = filter (\<lambda>x. key x = k) xs"

definition list_remove_by :: "('e \<Rightarrow> 'k) \<Rightarrow> 'e list \<Rightarrow> 'k \<Rightarrow> 'e list" where
  "list_remove_by key xs k = filter (\<lambda>x. key x \<noteq> k) xs"

definition list_get_unique :: "('e \<Rightarrow> 'k) \<Rightarrow> 'e list \<Rightarrow> 'k \<Rightarrow> 'e option" where
  "list_get_unique key xs k = find (\<lambda>x. key x = k) xs"

definition list_take_by :: "('e \<Rightarrow> 'k) \<Rightarrow> 'e list \<Rightarrow> 'k \<Rightarrow> 'e option \<times> 'e list" where
  "list_take_by key xs k = (list_get_unique key xs k, list_remove_by key xs k)"

lemmas list_mim_defs = list_clash_free_def list_insert_def list_get_by_def list_remove_by_def
  list_get_unique_def list_take_by_def

lemma list_multi_index:
  assumes "\<And>x. clash x x" "\<And>x y. clash x y \<Longrightarrow> clash y x"
  shows "multi_index (list_clash_free clash) (\<lambda>xs. xs) [] (list_insert clash) clash"
  by unfold_locales (use assms in \<open>auto simp: list_mim_defs\<close>)

lemma list_nonunique_index:
  assumes "\<And>x. clash x x" "\<And>x y. clash x y \<Longrightarrow> clash y x"
  shows "nonunique_index (list_clash_free clash) (\<lambda>xs. xs) [] (list_insert clash) clash
    key (list_get_by key) (list_remove_by key)"
proof (rule nonunique_index.intro)
  show "multi_index (list_clash_free clash) (\<lambda>xs. xs) [] (list_insert clash) clash"
    using assms by (rule list_multi_index)
  show "nonunique_index_axioms (list_clash_free clash) (\<lambda>xs. xs) key
      (list_get_by key) (list_remove_by key)"
    by (rule nonunique_index_axioms.intro) (auto simp: list_mim_defs)
qed

lemma list_unique_index:
  assumes "\<And>x. clash x x" "\<And>x y. clash x y \<Longrightarrow> clash y x"
    and "\<And>x y. key x = key y \<Longrightarrow> clash x y"
  shows "unique_index (list_clash_free clash) (\<lambda>xs. xs) [] (list_insert clash) clash
    key (list_get_unique key) (list_take_by key)"
proof (rule unique_index.intro)
  show "multi_index (list_clash_free clash) (\<lambda>xs. xs) [] (list_insert clash) clash"
    using assms(1,2) by (rule list_multi_index)
  have find: "(list_get_unique key xs k = Some e) = (e \<in> set xs \<and> key e = k)"
    (is "?l = ?r") if free: "list_clash_free clash xs" for xs e k
  proof
    assume ?l then show ?r by (auto simp: list_get_unique_def find_Some_iff)
  next
    assume r: ?r
    then obtain x where x: "find (\<lambda>x. key x = k) xs = Some x"
      by (metis (mono_tags, lifting) find_None_iff not_None_eq)
    then have "x \<in> set xs" "key x = k" by (auto simp: find_Some_iff)
    with r assms(3) free have "x = e" unfolding list_clash_free_def by metis
    with x show ?l by (simp add: list_get_unique_def)
  qed
  show "unique_index_axioms (list_clash_free clash) (\<lambda>xs. xs) clash key
      (list_get_unique key) (list_take_by key)"
    using assms(3) find
    by (intro unique_index_axioms.intro) (simp_all add: list_take_by_def list_remove_by_def list_clash_free_def)
qed

end
