(* ===== verification/Nfs4_Args.thy ===== *)
theory Nfs4_Args
  imports Nfs4_Types
begin

text \<open>
  The request types of \<open>proto/src/nfs4_proto.rs\<close>: the arguments of every operation, the
  operation array \<open>NfsArgOp\<close> (constructors with the prefix \<open>A_\<close>) and \<open>Compound4args\<close>.
\<close>

record access4args =
  access4args_access :: "u32"

type_synonym seqid4 = "u32"

record close4args =
  close4args_seqid :: "seqid4"
  close4args_open_stateid :: "stateid4"

record commit4args =
  commit4args_offset :: "offset4"
  commit4args_count :: "count4"

type_synonym linktext4 = "string"

record specdata4 =
  specdata4_specdata1 :: "u32"
  specdata4_specdata2 :: "u32"

datatype (plugins only: code size) createtype4 =
    CT_Nf4Undef
  | CT_Nf4reg
  | CT_Nf4dir
  | CT_Nf4blk
  | CT_Nf4chr specdata4
  | CT_Nf4lnk linktext4
  | CT_Nf4sock
  | CT_Nf4fifo
  | CT_Nf4attrdir
  | CT_Nf4namedattr

record create4args =
  create4args_objtype :: "createtype4"
  create4args_objname :: "component4"
  create4args_createattrs :: "fattr4"

record delegpurge4args =
  delegpurge4args_clientid :: "clientid4"

record deleg_return4args =
  deleg_return4args_deleg_stateid :: "stateid4"

record getattr4args =
  getattr4args_attr_request :: "file_attr attrlist4"

record link4args =
  link4args_newname :: "component4"

record open_to_lock_owner4 =
  open_to_lock_owner4_open_seqid :: "seqid4"
  open_to_lock_owner4_open_stateid :: "stateid4"
  open_to_lock_owner4_lock_seqid :: "seqid4"
  open_to_lock_owner4_lock_owner :: "lock_owner4"

record exist_lock_owner4 =
  exist_lock_owner4_lock_stateid :: "stateid4"
  exist_lock_owner4_lock_seqid :: "seqid4"

datatype (plugins only: code size) locker4 =
    Locker_OpenOwner open_to_lock_owner4
  | Locker_LockOwner exist_lock_owner4

record lock4args =
  lock4args_locktype :: "nfs_lock_type4"
  lock4args_reclaim :: "bool"
  lock4args_offset :: "offset4"
  lock4args_length :: "length4"
  lock4args_locker :: "locker4"

record lockt4args =
  lockt4args_locktype :: "nfs_lock_type4"
  lockt4args_offset :: "offset4"
  lockt4args_length :: "length4"
  lockt4args_owner :: "lock_owner4"

record locku4args =
  locku4args_locktype :: "nfs_lock_type4"
  locku4args_seqid :: "seqid4"
  locku4args_lock_stateid :: "stateid4"
  locku4args_offset :: "offset4"
  locku4args_length :: "length4"

record lookup4args =
  lookup4args_objname :: "component4"

record nverify4args =
  nverify4args_obj_attributes :: "fattr4"

record open_owner4 =
  open_owner4_clientid :: "clientid4"
  open_owner4_owner :: "u8 list"

datatype (plugins only: code size) create_how4 =
    UNCHECKED4 fattr4
  | GUARDED4 fattr4
  | EXCLUSIVE4 "u8 list"

datatype (plugins only: code size) open_flag4 =
    OF_Open4Nocreate
  | OF_How create_how4

datatype (plugins only: code size) open_delegation_type4 =
    OpenDelegateNone
  | OpenDelegateRead
  | OpenDelegateWrite

record open_claim_delegate_cur4 =
  open_claim_delegate_cur4_delegate_stateid :: "stateid4"
  open_claim_delegate_cur4_file :: "component4"

datatype (plugins only: code size) open_claim4 =
    ClaimNull component4
  | ClaimPrevious open_delegation_type4
  | ClaimDelegateCur open_claim_delegate_cur4
  | ClaimDelegatePrev component4

record open4args =
  open4args_seqid :: "seqid4"
  open4args_share_access :: "u32"
  open4args_share_deny :: "u32"
  open4args_owner :: "open_owner4"
  open4args_openhow :: "open_flag4"
  open4args_claim :: "open_claim4"

record open_attr4args =
  open_attr4args_createdir :: "bool"

record open_confirm4args =
  open_confirm4args_open_stateid :: "stateid4"
  open_confirm4args_seqid :: "seqid4"

record open_downgrade4args =
  open_downgrade4args_open_stateid :: "stateid4"
  open_downgrade4args_seqid :: "seqid4"
  open_downgrade4args_share_access :: "u32"
  open_downgrade4args_share_deny :: "u32"

record put_fh4args =
  put_fh4args_object :: "nfs_fh4"

record read4args =
  read4args_stateid :: "stateid4"
  read4args_offset :: "offset4"
  read4args_count :: "count4"

record readdir4args =
  readdir4args_cookie :: "nfs_cookie4"
  readdir4args_cookieverf :: "u8 list"
  readdir4args_dircount :: "count4"
  readdir4args_maxcount :: "count4"
  readdir4args_attr_request :: "file_attr attrlist4"

record remove4args =
  remove4args_target :: "component4"

record rename4args =
  rename4args_oldname :: "component4"
  rename4args_newname :: "component4"

record renew4args =
  renew4args_clientid :: "clientid4"

record sec_info4args =
  sec_info4args_name :: "component4"

datatype (plugins only: code size) secinfo_style4 =
    SecinfoStyle4CurrentFh
  | SecinfoStyle4Parent

record secinfo_no_name4args =
  secinfo_no_name4args_sina_style :: "secinfo_style4"

record set_attr4args =
  set_attr4args_stateid :: "stateid4"
  set_attr4args_obj_attributes :: "fattr4"

record cb_client4 =
  cb_client4_cb_program :: "u32"
  cb_client4_cb_location :: "client_addr4"

record nfs_client_id4 =
  nfs_client_id4_verifier :: "u8 list"
  nfs_client_id4_id :: "string"

record set_client_id4args =
  set_client_id4args_client :: "nfs_client_id4"
  set_client_id4args_callback :: "cb_client4"
  set_client_id4args_callback_ident :: "u32"

record set_client_id_confirm4args =
  set_client_id_confirm4args_clientid :: "clientid4"
  set_client_id_confirm4args_setclientid_confirm :: "u8 list"

record verify4args =
  verify4args_obj_attributes :: "fattr4"

record write4args =
  write4args_stateid :: "stateid4"
  write4args_offset :: "offset4"
  write4args_stable :: "stable_how4"
  write4args_data :: "u8 list"

record release_lockowner4args =
  release_lockowner4args_lock_owner :: "lock_owner4"

datatype (plugins only: code size) channel_dir_from_client4 =
    CDFC_Fore
  | CDFC_Back
  | CDFC_ForeOrBoth

record bind_conn_to_session4args =
  bind_conn_to_session4args_bctsa_sessid :: "u8 list"
  bind_conn_to_session4args_bctsa_dir :: "channel_dir_from_client4"
  bind_conn_to_session4args_bctsa_use_conn_in_rdma_mode :: "bool"

record client_owner4 =
  client_owner4_co_verifier :: "u8 list"
  client_owner4_co_ownerid :: "u8 list"

datatype (plugins only: code size) state_protect4a =
    SPa_SpNone

record exchange_id4args =
  exchange_id4args_eia_clientowner :: "client_owner4"
  exchange_id4args_eia_flags :: "u32"
  exchange_id4args_eia_state_protect :: "state_protect4a"
  exchange_id4args_eia_client_impl_id :: "nfs_impl_id4 list"

record authsys_parms4 =
  authsys_parms4_stamp :: "u32"
  authsys_parms4_machinename :: "string"
  authsys_parms4_uid :: "u32"
  authsys_parms4_gid :: "u32"
  authsys_parms4_gids :: "u32 list"

datatype (plugins only: code size) callback_sec_parms4 =
    CSP_AuthNone
  | CSP_AuthSys authsys_parms4

record create_session4args =
  create_session4args_csa_clientid :: "u64"
  create_session4args_csa_sequence :: "u32"
  create_session4args_csa_flags :: "u32"
  create_session4args_csa_fore_chan_attrs :: "channel_attrs4"
  create_session4args_csa_back_chan_attrs :: "channel_attrs4"
  create_session4args_csa_cb_program :: "u32"
  create_session4args_csa_sec_parms :: "callback_sec_parms4 list"

record destroy_session4args =
  destroy_session4args_dsa_sessionid :: "u8 list"

record free_stateid4args =
  free_stateid4args_fsa_stateid :: "stateid4"

record sequence4args =
  sequence4args_sa_sessionid :: "u8 list"
  sequence4args_sa_sequenceid :: "u32"
  sequence4args_sa_slotid :: "u32"
  sequence4args_sa_highest_slotid :: "u32"
  sequence4args_sa_cachethis :: "bool"

record test_stateid4args =
  test_stateid4args_ts_stateids :: "stateid4 list"

record destroy_client_id4args =
  destroy_client_id4args_dca_clientid :: "u64"

record reclaim_complete4args =
  reclaim_complete4args_rca_one_fs :: "bool"

datatype (plugins only: code size) layout_type4 =
    LayoutNfsv4Files
  | LayoutOsd2Objects
  | LayoutBlockVolume
  | LayoutFlexFiles

type_synonym device_id4 = "u8 list"

record get_device_info4args =
  get_device_info4args_gdia_device_id :: "device_id4"
  get_device_info4args_gdia_layout_type :: "layout_type4"
  get_device_info4args_gdia_maxcount :: "u32"

record get_device_list4args =
  get_device_list4args_gdla_layout_type :: "layout_type4"
  get_device_list4args_gdla_maxdevices :: "u32"
  get_device_list4args_gdla_cookie :: "u64"
  get_device_list4args_gdla_cookieverf :: "u8 list"

datatype (plugins only: code size) layout_iomode4 =
    LayoutiomodeRead
  | LayoutiomodeRw

record layout_get4args =
  layout_get4args_loga_signal_layout_avail :: "bool"
  layout_get4args_loga_layout_type :: "layout_type4"
  layout_get4args_loga_iomode :: "layout_iomode4"
  layout_get4args_loga_offset :: "u64"
  layout_get4args_loga_length :: "u64"
  layout_get4args_loga_minlength :: "u64"
  layout_get4args_loga_stateid :: "stateid4"
  layout_get4args_loga_maxcount :: "u32"

record layout_commit4args =
  layout_commit4args_loca_offset :: "u64"
  layout_commit4args_loca_length :: "u64"
  layout_commit4args_loca_reclaim :: "bool"
  layout_commit4args_loca_stateid :: "stateid4"
  layout_commit4args_loca_last_write_offset :: "bool"
  layout_commit4args_loca_layout_type :: "layout_type4"

datatype (plugins only: code size) layout_return_type4 =
    LRT_LayoutreturnFile
  | LRT_LayoutreturnFsid
  | LRT_LayoutreturnAll

record layout_return4args =
  layout_return4args_lora_reclaim :: "bool"
  layout_return4args_lora_layout_type :: "layout_type4"
  layout_return4args_lora_iomode :: "layout_iomode4"
  layout_return4args_lora_return_type :: "layout_return_type4"

record allocate4args =
  allocate4args_aa_stateid :: "stateid4"
  allocate4args_aa_offset :: "u64"
  allocate4args_aa_length :: "u64"

datatype (plugins only: code size) netloc4 =
    Netloc_Name string
  | Netloc_Url string

record copy4args =
  copy4args_ca_src_stateid :: "stateid4"
  copy4args_ca_dst_stateid :: "stateid4"
  copy4args_ca_src_offset :: "u64"
  copy4args_ca_dst_offset :: "u64"
  copy4args_ca_count :: "u64"
  copy4args_ca_consecutive :: "bool"
  copy4args_ca_synchronous :: "bool"
  copy4args_ca_source_server :: "netloc4 list"

datatype (plugins only: code size) data_content4 =
    DC_Data
  | DC_Hole

record seek4args =
  seek4args_sa_stateid :: "stateid4"
  seek4args_sa_offset :: "u64"
  seek4args_sa_what :: "data_content4"

datatype (plugins only: size) nfs_arg_op =
    A_OpUndef0
  | A_OpUndef1
  | A_OpUndef2
  | A_OpAccess access4args
  | A_Opclose close4args
  | A_Opcommit commit4args
  | A_Opcreate create4args
  | A_Opdelegpurge delegpurge4args
  | A_Opdelegreturn deleg_return4args
  | A_Opgetattr getattr4args
  | A_Opgetfh unit
  | A_Oplink link4args
  | A_Oplock lock4args
  | A_Oplockt lockt4args
  | A_Oplocku locku4args
  | A_Oplookup lookup4args
  | A_Oplookupp unit
  | A_Opnverify nverify4args
  | A_Opopen open4args
  | A_Opopenattr open_attr4args
  | A_OpopenConfirm open_confirm4args
  | A_OpopenDowngrade open_downgrade4args
  | A_Opputfh put_fh4args
  | A_Opputpubfh unit
  | A_Opputrootfh unit
  | A_Opread read4args
  | A_Opreaddir readdir4args
  | A_Opreadlink unit
  | A_Opremove remove4args
  | A_Oprename rename4args
  | A_Oprenew renew4args
  | A_Oprestorefh unit
  | A_Opsavefh unit
  | A_OpSecinfo sec_info4args
  | A_Opsetattr set_attr4args
  | A_Opsetclientid set_client_id4args
  | A_OpsetclientidConfirm set_client_id_confirm4args
  | A_Opverify verify4args
  | A_Opwrite write4args
  | A_OpreleaseLockOwner release_lockowner4args
  | A_OpbindConnToSession bind_conn_to_session4args
  | A_OpexchangeId exchange_id4args
  | A_OpcreateSession create_session4args
  | A_OpdestroySession destroy_session4args
  | A_OpfreeStateid free_stateid4args
  | A_OpgetdeviceInfo get_device_info4args
  | A_OpgetdeviceList get_device_list4args
  | A_OplayoutCommit layout_commit4args
  | A_OplayoutGet layout_get4args
  | A_OplayoutReturn layout_return4args
  | A_OpsecinfoNoName secinfo_no_name4args
  | A_Opsequence sequence4args
  | A_OptestStateid test_stateid4args
  | A_OpdestroyClientid destroy_client_id4args
  | A_OpreclaimComplete reclaim_complete4args
  | A_Opallocate allocate4args
  | A_Opcopy copy4args
  | A_Opseek seek4args

record compound4args =
  compound4args_tag :: "string"
  compound4args_minor_version :: "u32"
  compound4args_argarray :: "nfs_arg_op list"

end
