(* ===== verification/Locking.thy ===== *)
theory Locking
  imports MultiIndex Nfs4_Types Nfs4_Args
begin

text \<open>
  Lock and open state of one file (\<open>filemanager/locking.rs\<close>): the record \<open>LockingState\<close>,
  its two constructors, the conflict test between a held byte-range lock and a requested one,
  and the interface of the multi-index map that stores the records (\<open>LockingStateDb\<close>).
\<close>

section \<open>LockingState\<close>

datatype lock_type = Open | ByteRange

record locking_state =
  ls_stateid :: bytes
  ls_seqid :: u32
  ls_client_id :: u64
  ls_owner :: bytes
  ls_lock_type :: lock_type
  ls_filehandle_id :: nfs_fh4
  ls_start :: "u64 option"
  ls_length :: "u64 option"
  ls_share_access :: "u32 option"
  ls_share_deny :: "u32 option"
  ls_nfs_lock_type :: "nfs_lock_type4 option"

definition new_shared_reservation ::
  "nfs_fh4 \<Rightarrow> bytes \<Rightarrow> u64 \<Rightarrow> bytes \<Rightarrow> u32 \<Rightarrow> u32 \<Rightarrow> locking_state" where
  "new_shared_reservation filehandle_id stateid client_id owner share_access share_deny =
    \<lparr>ls_stateid = stateid, ls_seqid = 1, ls_client_id = client_id, ls_owner = owner,
     ls_lock_type = Open, ls_filehandle_id = filehandle_id, ls_start = None, ls_length = None,
     ls_share_access = Some share_access, ls_share_deny = Some share_deny,
     ls_nfs_lock_type = None\<rparr>"

definition new_byte_range_lock ::
  "nfs_fh4 \<Rightarrow> bytes \<Rightarrow> u64 \<Rightarrow> bytes \<Rightarrow> nfs_lock_type4 \<Rightarrow> u64 \<Rightarrow> u64 \<Rightarrow> locking_state" where
  "new_byte_range_lock filehandle_id stateid client_id owner lock_type offset len =
    \<lparr>ls_stateid = stateid, ls_seqid = 1, ls_client_id = client_id, ls_owner = owner,
     ls_lock_type = ByteRange, ls_filehandle_id = filehandle_id,
     ls_start = Some offset, ls_length = Some len,
     ls_share_access = None, ls_share_deny = None, ls_nfs_lock_type = Some lock_type\<rparr>"

section \<open>The conflict test\<close>

definition is_write_type :: "nfs_lock_type4 \<Rightarrow> bool" where
  "is_write_type t \<longleftrightarrow> (case t of WriteLt \<Rightarrow> True | WritewLt \<Rightarrow> True | _ \<Rightarrow> False)"

definition range_end :: "u64 \<Rightarrow> u64 \<Rightarrow> u64" where
  "range_end start len = (if len = 0 then - 1 else saturating_add start len)"

definition conflicts_with ::
  "locking_state \<Rightarrow> u64 \<Rightarrow> u64 \<Rightarrow> nfs_lock_type4 \<Rightarrow> bytes \<Rightarrow> u64 \<Rightarrow> bool" where
  "conflicts_with self offset len lock_type owner client_id =
    (case (ls_lock_type self, ls_start self, ls_length self) of
      (ByteRange, Some my_start, Some my_length) \<Rightarrow>
        if ls_client_id self = client_id \<and> ls_owner self = owner then False
        else
          let my_end = range_end my_start my_length;
              req_end = range_end offset len
          in
          if my_start \<ge> req_end \<or> offset \<ge> my_end then False
          else
            let my_is_write = (case ls_nfs_lock_type self of
                  Some t \<Rightarrow> is_write_type t | None \<Rightarrow> False);
                req_is_write = is_write_type lock_type
            in my_is_write \<or> req_is_write
    | _ \<Rightarrow> False)"

text \<open>
  The specification: a range is the set of byte offsets it covers (length 0 means to the end
  of the file), and two locks conflict when they belong to different owners, cover a common
  byte, and one of them is a write lock.
\<close>

definition range_bytes :: "u64 \<Rightarrow> u64 \<Rightarrow> nat set" where
  "range_bytes start len =
    {n. unat start \<le> n \<and> (len \<noteq> 0 \<longrightarrow> n < unat start + unat len) \<and> n < 2 ^ 64 - 1}"

definition held_range :: "locking_state \<Rightarrow> (u64 \<times> u64) option" where
  "held_range l = (case (ls_lock_type l, ls_start l, ls_length l) of
     (ByteRange, Some s, Some n) \<Rightarrow> Some (s, n) | _ \<Rightarrow> None)"

definition held_write :: "locking_state \<Rightarrow> bool" where
  "held_write l \<longleftrightarrow> (case ls_nfs_lock_type l of Some t \<Rightarrow> is_write_type t | None \<Rightarrow> False)"

lemma unat_range_end [word_facts]:
  "unat (range_end s n) = (if n = 0 then 2 ^ 64 - 1 else min (unat s + unat n) (2 ^ 64 - 1))"
  by (simp add: range_end_def unat_saturating_add unsigned_minus_1_eq_mask mask_eq_exp_minus_1)

lemma unat_u64_le_max: "unat (x :: u64) \<le> 2 ^ 64 - 1"
proof -
  have "unat x < 2 ^ LENGTH(64)" by (rule unsigned_less)
  then show ?thesis by simp
qed

lemma range_bytes_eq: "range_bytes s n = {unat s ..< unat (range_end s n)}"
  by (auto simp: range_bytes_def unat_range_end)

lemma range_nonempty: "unat s < 2 ^ 64 - 1 \<Longrightarrow> unat s < unat (range_end s n)"
  by (simp add: unat_range_end unat_gt_0)

text \<open>The comparison of end points decides whether two ranges share a byte.\<close>

lemma ranges_overlap_iff:
  "\<not> (s1 \<ge> range_end s2 n2 \<or> s2 \<ge> range_end s1 n1) \<longleftrightarrow> range_bytes s1 n1 \<inter> range_bytes s2 n2 \<noteq> {}"
proof -
  let ?e1 = "unat (range_end s1 n1)" and ?e2 = "unat (range_end s2 n2)"
  have e: "?e1 \<le> 2 ^ 64 - 1" "?e2 \<le> 2 ^ 64 - 1" by (rule unat_u64_le_max)+
  have "(unat s1 < ?e2 \<and> unat s2 < ?e1) \<longleftrightarrow> {unat s1 ..< ?e1} \<inter> {unat s2 ..< ?e2} \<noteq> {}"
    (is "?l \<longleftrightarrow> ?r")
  proof
    assume l: ?l
    then have "unat s1 < ?e1" "unat s2 < ?e2"
      using e range_nonempty [of s1 n1] range_nonempty [of s2 n2] by linarith+
    with l have "max (unat s1) (unat s2) \<in> {unat s1 ..< ?e1} \<inter> {unat s2 ..< ?e2}" by simp
    then show ?r by blast
  qed auto
  then show ?thesis by (simp add: range_bytes_eq word_le_nat_alt not_le)
qed

lemma conflicts_with_spec:
  "conflicts_with l offset len t owner cid \<longleftrightarrow>
    (\<exists>s n. held_range l = Some (s, n) \<and> (ls_client_id l, ls_owner l) \<noteq> (cid, owner) \<and>
      range_bytes s n \<inter> range_bytes offset len \<noteq> {} \<and> (held_write l \<or> is_write_type t))"
proof (cases "held_range l")
  case None
  then show ?thesis
    by (auto simp: conflicts_with_def held_range_def split: lock_type.splits option.splits)
next
  case (Some r)
  then obtain s n where r: "ls_lock_type l = ByteRange" "ls_start l = Some s" "ls_length l = Some n"
      "held_range l = Some (s, n)"
    by (auto simp: held_range_def split: lock_type.splits option.splits)
  show ?thesis
    using ranges_overlap_iff [where ?s1.0 = s and ?n1.0 = n and ?s2.0 = offset and ?n2.0 = len]
    by (auto simp: conflicts_with_def r held_write_def Let_def)
qed

lemma held_range_new_byte_range [simp]:
  "held_range (new_byte_range_lock fh sid cid ow t s n) = Some (s, n)"
  "held_write (new_byte_range_lock fh sid cid ow t s n) \<longleftrightarrow> is_write_type t"
  by (simp_all add: held_range_def held_write_def new_byte_range_lock_def)

lemma held_range_new_shared_reservation [simp]:
  "held_range (new_shared_reservation fh sid cid ow a d) = None"
  by (simp add: held_range_def new_shared_reservation_def)

lemma new_byte_range_lock_sel [simp]:
  "ls_stateid (new_byte_range_lock fh sid cid ow t s n) = sid"
  "ls_seqid (new_byte_range_lock fh sid cid ow t s n) = 1"
  "ls_client_id (new_byte_range_lock fh sid cid ow t s n) = cid"
  "ls_owner (new_byte_range_lock fh sid cid ow t s n) = ow"
  "ls_filehandle_id (new_byte_range_lock fh sid cid ow t s n) = fh"
  "ls_lock_type (new_byte_range_lock fh sid cid ow t s n) = ByteRange"
  by (simp_all add: new_byte_range_lock_def)

lemma new_shared_reservation_sel [simp]:
  "ls_stateid (new_shared_reservation fh sid cid ow a d) = sid"
  "ls_seqid (new_shared_reservation fh sid cid ow a d) = 1"
  "ls_client_id (new_shared_reservation fh sid cid ow a d) = cid"
  "ls_owner (new_shared_reservation fh sid cid ow a d) = ow"
  "ls_filehandle_id (new_shared_reservation fh sid cid ow a d) = fh"
  "ls_lock_type (new_shared_reservation fh sid cid ow a d) = Open"
  by (simp_all add: new_shared_reservation_def)

section \<open>Conflicts between two held locks\<close>

definition locks_conflict :: "locking_state \<Rightarrow> locking_state \<Rightarrow> bool" where
  "locks_conflict a b \<longleftrightarrow> ls_filehandle_id a = ls_filehandle_id b \<and>
     (ls_client_id a, ls_owner a) \<noteq> (ls_client_id b, ls_owner b) \<and>
     (\<exists>s n s' n'. held_range a = Some (s, n) \<and> held_range b = Some (s', n') \<and>
        range_bytes s n \<inter> range_bytes s' n' \<noteq> {}) \<and> (held_write a \<or> held_write b)"

lemma locks_conflict_sym: "locks_conflict a b \<Longrightarrow> locks_conflict b a"
  by (auto simp: locks_conflict_def)

lemma locks_conflict_new:
  "locks_conflict l (new_byte_range_lock fh sid cid ow t s n) \<longleftrightarrow>
    ls_filehandle_id l = fh \<and> conflicts_with l s n t ow cid"
  by (auto simp: locks_conflict_def conflicts_with_spec)

lemma locks_conflict_reservation [simp]:
  "\<not> locks_conflict l (new_shared_reservation fh sid cid ow a d)"
  by (simp add: locks_conflict_def)

section \<open>LockingStateDb\<close>

record 'db lock_db_ops =
  ldb_default :: 'db
  ldb_iter :: "'db \<Rightarrow> locking_state list"
  ldb_insert :: "'db \<Rightarrow> locking_state \<Rightarrow> 'db option"
  ldb_get_by_stateid :: "'db \<Rightarrow> bytes \<Rightarrow> locking_state option"
  ldb_remove_by_stateid :: "'db \<Rightarrow> bytes \<Rightarrow> locking_state option \<times> 'db"
  ldb_get_by_client_id :: "'db \<Rightarrow> u64 \<Rightarrow> locking_state list"
  ldb_remove_by_client_id :: "'db \<Rightarrow> u64 \<Rightarrow> 'db"
  ldb_get_by_filehandle_id :: "'db \<Rightarrow> nfs_fh4 \<Rightarrow> locking_state list"
  ldb_remove_by_filehandle_id :: "'db \<Rightarrow> nfs_fh4 \<Rightarrow> 'db"

definition ls_clash :: "locking_state \<Rightarrow> locking_state \<Rightarrow> bool" where
  "ls_clash a b \<longleftrightarrow> ls_stateid a = ls_stateid b"

locale lock_db =
  sid: unique_index inv "ldb_iter ops" "ldb_default ops" "ldb_insert ops" ls_clash
    ls_stateid "ldb_get_by_stateid ops" "ldb_remove_by_stateid ops" +
  cid: nonunique_index inv "ldb_iter ops" "ldb_default ops" "ldb_insert ops" ls_clash
    ls_client_id "ldb_get_by_client_id ops" "ldb_remove_by_client_id ops" +
  fid: nonunique_index inv "ldb_iter ops" "ldb_default ops" "ldb_insert ops" ls_clash
    ls_filehandle_id "ldb_get_by_filehandle_id ops" "ldb_remove_by_filehandle_id ops"
  for ops :: "'db lock_db_ops" and inv :: "'db \<Rightarrow> bool"

definition list_lock_db :: "locking_state list lock_db_ops" where
  "list_lock_db = \<lparr>ldb_default = [], ldb_iter = (\<lambda>xs. xs), ldb_insert = list_insert ls_clash,
     ldb_get_by_stateid = list_get_unique ls_stateid,
     ldb_remove_by_stateid = list_take_by ls_stateid,
     ldb_get_by_client_id = list_get_by ls_client_id,
     ldb_remove_by_client_id = list_remove_by ls_client_id,
     ldb_get_by_filehandle_id = list_get_by ls_filehandle_id,
     ldb_remove_by_filehandle_id = list_remove_by ls_filehandle_id\<rparr>"

interpretation lldb: lock_db list_lock_db "list_clash_free ls_clash"
proof (intro lock_db.intro)
  show "unique_index (list_clash_free ls_clash) (ldb_iter list_lock_db)
    (ldb_default list_lock_db) (ldb_insert list_lock_db) ls_clash ls_stateid
    (ldb_get_by_stateid list_lock_db) (ldb_remove_by_stateid list_lock_db)"
    unfolding list_lock_db_def lock_db_ops.simps
    by (rule list_unique_index) (simp_all add: ls_clash_def)
  show "nonunique_index (list_clash_free ls_clash) (ldb_iter list_lock_db)
    (ldb_default list_lock_db) (ldb_insert list_lock_db) ls_clash ls_client_id
    (ldb_get_by_client_id list_lock_db) (ldb_remove_by_client_id list_lock_db)"
    unfolding list_lock_db_def lock_db_ops.simps
    by (rule list_nonunique_index) (simp_all add: ls_clash_def)
  show "nonunique_index (list_clash_free ls_clash) (ldb_iter list_lock_db)
    (ldb_default list_lock_db) (ldb_insert list_lock_db) ls_clash ls_filehandle_id
    (ldb_get_by_filehandle_id list_lock_db) (ldb_remove_by_filehandle_id list_lock_db)"
    unfolding list_lock_db_def lock_db_ops.simps
    by (rule list_nonunique_index) (simp_all add: ls_clash_def)
qed

lemmas list_lock_db_simps = list_lock_db_def list_mim_defs ls_clash_def

end
