(* ===== verification/Filehandle.thy ===== *)
theory Filehandle
  imports Locking Decimal
begin

text \<open>
  File handles and their attributes (\<open>filemanager/filehandle.rs\<close>), with the interface of the
  filesystem below the server and of the multi-index map that stores the handles
  (\<open>FilehandleDb\<close>).
\<close>

section \<open>The filesystem below\<close>

text \<open>Metadata of one object as \<open>lstat\<close> reports it.\<close>

record real_meta =
  rm_ino :: u64
  rm_dev :: u64
  rm_mode :: u32
  rm_nlink :: u64
  rm_uid :: u32
  rm_gid :: u32
  rm_size :: u64
  rm_blocks :: u64
  rm_atime :: i64
  rm_atime_nsec :: i64
  rm_mtime :: i64
  rm_mtime_nsec :: i64
  rm_ctime :: i64
  rm_ctime_nsec :: i64

text \<open>
  The operating system and the \<open>vfs\<close> crate, as functions of a world state \<open>'w\<close>. A
  \<open>VfsPath\<close> is its path inside the export (\<open>as_str\<close>, empty for the root). Operations that
  change the world return whether they succeeded; \<open>remove_dir\<close> returns the debug text of its
  error, which the server inspects. \<open>os_open_create\<close> opens for writing and returns a file
  descriptor; \<open>vfs_read_exact\<close> opens a file, rewinds and reads exactly \<open>n\<close> bytes;
  \<open>vfs_append_write\<close> opens a file for appending (\<open>None\<close>: that failed), seeks and writes.
\<close>

record 'w fs_ops =
  os_lstat :: "'w \<Rightarrow> string \<Rightarrow> real_meta option"
  os_read_dir :: "'w \<Rightarrow> string \<Rightarrow> string list option"
  vfs_exists :: "'w \<Rightarrow> string \<Rightarrow> bool"
  vfs_is_dir :: "'w \<Rightarrow> string \<Rightarrow> bool"
  vfs_len :: "'w \<Rightarrow> string \<Rightarrow> u64"
  vfs_join :: "string \<Rightarrow> string \<Rightarrow> string option"
  vfs_parent :: "string \<Rightarrow> string"
  vfs_create_file :: "'w \<Rightarrow> string \<Rightarrow> bool \<times> 'w"
  vfs_create_dir :: "'w \<Rightarrow> string \<Rightarrow> bool \<times> 'w"
  vfs_move_file :: "'w \<Rightarrow> string \<Rightarrow> string \<Rightarrow> bool \<times> 'w"
  vfs_remove_file :: "'w \<Rightarrow> string \<Rightarrow> bool \<times> 'w"
  vfs_remove_dir :: "'w \<Rightarrow> string \<Rightarrow> string option \<times> 'w"
  path_hash :: "string \<Rightarrow> u64"
  os_time :: "'w \<Rightarrow> nfstime4"
  os_open_create :: "'w \<Rightarrow> string \<Rightarrow> nat option \<times> 'w"
  os_write_all_at :: "'w \<Rightarrow> nat \<Rightarrow> bytes \<Rightarrow> u64 \<Rightarrow> bool \<times> 'w"
  os_sync_all :: "'w \<Rightarrow> nat \<Rightarrow> bool \<times> 'w"
  vfs_read_exact :: "'w \<Rightarrow> string \<Rightarrow> u64 \<Rightarrow> bytes option"
  vfs_append_write :: "'w \<Rightarrow> string \<Rightarrow> u64 \<Rightarrow> bytes \<Rightarrow> bool option \<times> 'w"
  os_chown :: "'w \<Rightarrow> string \<Rightarrow> u32 \<Rightarrow> u32 \<Rightarrow> bool \<times> 'w"
  os_chmod :: "'w \<Rightarrow> string \<Rightarrow> u32 \<Rightarrow> bool \<times> 'w"
  os_utimens_now :: "'w \<Rightarrow> string \<Rightarrow> bool \<times> 'w"
  os_getpwnam :: "'w \<Rightarrow> string \<Rightarrow> u32 option"
  os_getgrnam :: "'w \<Rightarrow> string \<Rightarrow> u32 option"

abbreviation S_IFMT :: u32 where "S_IFMT \<equiv> 0xF000"
abbreviation S_IFDIR :: u32 where "S_IFDIR \<equiv> 0x4000"
abbreviation S_IFREG :: u32 where "S_IFREG \<equiv> 0x8000"
abbreviation S_IFLNK :: u32 where "S_IFLNK \<equiv> 0xA000"
abbreviation S_IFBLK :: u32 where "S_IFBLK \<equiv> 0x6000"
abbreviation S_IFCHR :: u32 where "S_IFCHR \<equiv> 0x2000"
abbreviation S_IFIFO :: u32 where "S_IFIFO \<equiv> 0x1000"
abbreviation S_IFSOCK :: u32 where "S_IFSOCK \<equiv> 0xC000"
abbreviation S_ISVTX :: u32 where "S_ISVTX \<equiv> 0x200"
abbreviation S_ISGID :: u32 where "S_ISGID \<equiv> 0x400"

section \<open>Filehandle\<close>

record filehandle =
  fh_id :: nfs_fh4
  fh_file :: string
  fh_path :: string
  fh_attr_type :: nfs_ftype4
  fh_attr_change :: u64
  fh_attr_size :: u64
  fh_attr_fileid :: u64
  fh_attr_fsid :: fsid4
  fh_attr_mode :: u32
  fh_attr_nlink :: u32
  fh_attr_owner :: string
  fh_attr_owner_group :: string
  fh_attr_space_used :: u64
  fh_attr_time_access :: nfstime4
  fh_attr_time_metadata :: nfstime4
  fh_attr_time_modify :: nfstime4
  fh_verifier :: "bytes option"
  fh_locks :: "locking_state list"
  fh_write_cache :: "nat option"
  fh_version :: u64

text \<open>\<open>as_str\<close> with the empty root path written as a slash.\<close>

definition path_key :: "string \<Rightarrow> string" where
  "path_key p = (if p = [] then ''/'' else p)"

definition change_of_mtime :: "real_meta \<Rightarrow> u64" where
  "change_of_mtime m = rm_mtime m * 1000000000 + rm_mtime_nsec m"

definition ftype_of_mode :: "u32 \<Rightarrow> nfs_ftype4" where
  "ftype_of_mode mode =
    (let file_type = mode AND S_IFMT in
     if file_type = S_IFDIR then Nf4dir
     else if file_type = S_IFREG then Nf4reg
     else if file_type = S_IFLNK then Nf4lnk
     else if file_type = S_IFBLK then Nf4blk
     else if file_type = S_IFCHR then Nf4chr
     else if file_type = S_IFIFO then Nf4fifo
     else if file_type = S_IFSOCK then Nf4sock
     else Nf4Undef)"

definition new_real ::
  "string \<Rightarrow> nfs_fh4 \<Rightarrow> u64 \<Rightarrow> u64 \<Rightarrow> u64 \<Rightarrow> real_meta \<Rightarrow> filehandle" where
  "new_real file fid major minor version m =
    \<lparr>fh_id = fid, fh_file = file, fh_path = path_key file,
     fh_attr_type = ftype_of_mode (rm_mode m),
     fh_attr_change = change_of_mtime m,
     fh_attr_size = rm_size m,
     fh_attr_fileid = rm_ino m,
     fh_attr_fsid = \<lparr>fsid4_major = major, fsid4_minor = minor\<rparr>,
     fh_attr_mode = rm_mode m AND 0xFFF,
     fh_attr_nlink = ucast (rm_nlink m),
     fh_attr_owner = dec_string (unat (rm_uid m)),
     fh_attr_owner_group = dec_string (unat (rm_gid m)),
     fh_attr_space_used = rm_blocks m * 512,
     fh_attr_time_access = \<lparr>nfstime4_seconds = rm_atime m, nfstime4_nseconds = ucast (rm_atime_nsec m)\<rparr>,
     fh_attr_time_metadata = \<lparr>nfstime4_seconds = rm_ctime m, nfstime4_nseconds = ucast (rm_ctime_nsec m)\<rparr>,
     fh_attr_time_modify = \<lparr>nfstime4_seconds = rm_mtime m, nfstime4_nseconds = ucast (rm_mtime_nsec m)\<rparr>,
     fh_verifier = None, fh_locks = [], fh_write_cache = None, fh_version = version + 1\<rparr>"

definition new_fallback ::
  "'w fs_ops \<Rightarrow> 'w \<Rightarrow> string \<Rightarrow> nfs_fh4 \<Rightarrow> u64 \<Rightarrow> u64 \<Rightarrow> u64 \<Rightarrow> filehandle" where
  "new_fallback fs w file fid major minor version =
    (let path = path_key file; is_dir = vfs_is_dir fs w file; size = vfs_len fs w file;
         init_time = os_time fs w in
     \<lparr>fh_id = fid, fh_file = file, fh_path = path,
      fh_attr_type = (if is_dir then Nf4dir else Nf4reg),
      fh_attr_change = version + 1,
      fh_attr_size = size,
      fh_attr_fileid = path_hash fs path,
      fh_attr_fsid = \<lparr>fsid4_major = major, fsid4_minor = minor\<rparr>,
      fh_attr_mode = (if is_dir then 0x1ED else 0x1A4),
      fh_attr_nlink = 1, fh_attr_owner = ''0'', fh_attr_owner_group = ''0'',
      fh_attr_space_used = size,
      fh_attr_time_access = init_time, fh_attr_time_metadata = init_time,
      fh_attr_time_modify = init_time,
      fh_verifier = None, fh_locks = [], fh_write_cache = None, fh_version = version + 1\<rparr>)"

definition pseudo_root_filehandle :: "'w fs_ops \<Rightarrow> 'w \<Rightarrow> nfs_fh4 \<Rightarrow> filehandle" where
  "pseudo_root_filehandle fs w fid =
    (let now = os_time fs w in
     \<lparr>fh_id = fid, fh_file = [], fh_path = ''/'', fh_attr_type = Nf4dir, fh_attr_change = 1,
      fh_attr_size = 4096, fh_attr_fileid = 1,
      fh_attr_fsid = \<lparr>fsid4_major = 0, fsid4_minor = 0\<rparr>,
      fh_attr_mode = 0x1ED, fh_attr_nlink = 2, fh_attr_owner = ''0'',
      fh_attr_owner_group = ''0'', fh_attr_space_used = 4096,
      fh_attr_time_access = now, fh_attr_time_metadata = now, fh_attr_time_modify = now,
      fh_verifier = None, fh_locks = [], fh_write_cache = None, fh_version = 1\<rparr>)"

lemma new_real_sel [simp]:
  "fh_id (new_real f i a b v m) = i"
  "fh_file (new_real f i a b v m) = f"
  "fh_path (new_real f i a b v m) = path_key f"
  "fh_locks (new_real f i a b v m) = []"
  by (simp_all add: new_real_def)

lemma new_fallback_sel [simp]:
  "fh_id (new_fallback fs w f i a b v) = i"
  "fh_file (new_fallback fs w f i a b v) = f"
  "fh_path (new_fallback fs w f i a b v) = path_key f"
  "fh_locks (new_fallback fs w f i a b v) = []"
  by (simp_all add: new_fallback_def Let_def)

section \<open>FilehandleDb\<close>

record 'db fh_db_ops =
  fdb_default :: 'db
  fdb_iter :: "'db \<Rightarrow> filehandle list"
  fdb_try_insert :: "'db \<Rightarrow> filehandle \<Rightarrow> 'db option"
  fdb_get_by_id :: "'db \<Rightarrow> nfs_fh4 \<Rightarrow> filehandle option"
  fdb_remove_by_id :: "'db \<Rightarrow> nfs_fh4 \<Rightarrow> filehandle option \<times> 'db"
  fdb_get_by_path :: "'db \<Rightarrow> string \<Rightarrow> filehandle option"
  fdb_remove_by_path :: "'db \<Rightarrow> string \<Rightarrow> filehandle option \<times> 'db"

definition fh_clash :: "filehandle \<Rightarrow> filehandle \<Rightarrow> bool" where
  "fh_clash a b \<longleftrightarrow> fh_id a = fh_id b \<or> fh_path a = fh_path b"

locale fh_db =
  ix: unique_index finv "fdb_iter fops" "fdb_default fops" "fdb_try_insert fops" fh_clash
    fh_id "fdb_get_by_id fops" "fdb_remove_by_id fops" +
  px: unique_index finv "fdb_iter fops" "fdb_default fops" "fdb_try_insert fops" fh_clash
    fh_path "fdb_get_by_path fops" "fdb_remove_by_path fops"
  for fops :: "'fdb fh_db_ops" and finv :: "'fdb \<Rightarrow> bool"

definition list_fh_db :: "filehandle list fh_db_ops" where
  "list_fh_db = \<lparr>fdb_default = [], fdb_iter = (\<lambda>xs. xs), fdb_try_insert = list_insert fh_clash,
     fdb_get_by_id = list_get_unique fh_id, fdb_remove_by_id = list_take_by fh_id,
     fdb_get_by_path = list_get_unique fh_path, fdb_remove_by_path = list_take_by fh_path\<rparr>"

interpretation lfdb: fh_db list_fh_db "list_clash_free fh_clash"
proof (intro fh_db.intro)
  show "unique_index (list_clash_free fh_clash) (fdb_iter list_fh_db)
    (fdb_default list_fh_db) (fdb_try_insert list_fh_db) fh_clash fh_id
    (fdb_get_by_id list_fh_db) (fdb_remove_by_id list_fh_db)"
    unfolding list_fh_db_def fh_db_ops.simps
    by (rule list_unique_index) (auto simp: fh_clash_def)
  show "unique_index (list_clash_free fh_clash) (fdb_iter list_fh_db)
    (fdb_default list_fh_db) (fdb_try_insert list_fh_db) fh_clash fh_path
    (fdb_get_by_path list_fh_db) (fdb_remove_by_path list_fh_db)"
    unfolding list_fh_db_def fh_db_ops.simps
    by (rule list_unique_index) (auto simp: fh_clash_def)
qed

lemmas list_fh_db_simps = list_fh_db_def list_mim_defs fh_clash_def

end
