(* ===== verification/FileAttrs.thy ===== *)
theory FileAttrs
  imports Filehandle
begin

text \<open>
  Attribute answers: \<open>mode_to_acl\<close> and the two \<open>filehandle_attrs\<close> functions (the one of
  \<open>FileManagerHandle\<close>, used by GETATTR and READDIR, and the one of the \<open>FileManager\<close> actor),
  and the fixed attributes of the pseudo-filesystem root and its entries
  (\<open>nfs40/op_pseudo.rs\<close>). An attribute list is answered attribute by attribute; one the server
  does not know is left out of both the mask and the values.
\<close>

section \<open>ACLs from mode bits\<close>

definition mode_bits_to_mask :: "u32 \<Rightarrow> u32" where
  "mode_bits_to_mask bits =
    (let mask = (0x80 OR 0x20000 OR 0x100000 :: u32);
         mask = (if bits AND 4 \<noteq> 0 then mask OR 1 else mask);
         mask = (if bits AND 2 \<noteq> 0
                 then mask OR (2 OR 4 OR 0x100 OR 0x40000 OR 0x80000 OR 0x10000 OR 0x40) else mask);
         mask = (if bits AND 1 \<noteq> 0 then mask OR 0x20 else mask)
     in mask)"

definition mode_to_acl :: "u32 \<Rightarrow> string \<Rightarrow> string \<Rightarrow> nfsace4 list" where
  "mode_to_acl mode owner grp =
    (let owner_bits = drop_bit 6 mode AND 7;
         group_bits = drop_bit 3 mode AND 7;
         other_bits = mode AND 7
     in [\<lparr>nfsace4_acetype = 0, nfsace4_flag = 0,
          nfsace4_access_mask = mode_bits_to_mask owner_bits, nfsace4_who = owner\<rparr>,
         \<lparr>nfsace4_acetype = 0, nfsace4_flag = 0x40,
          nfsace4_access_mask = mode_bits_to_mask group_bits, nfsace4_who = grp\<rparr>,
         \<lparr>nfsace4_acetype = 0, nfsace4_flag = 0,
          nfsace4_access_mask = mode_bits_to_mask other_bits, nfsace4_who = ''EVERYONE@''\<rparr>])"

section \<open>Attributes of real objects\<close>

record quota_info =
  qi_quota_avail_hard :: u64
  qi_quota_avail_soft :: u64
  qi_quota_used :: u64
  qi_space_avail :: u64
  qi_space_free :: u64
  qi_space_total :: u64

text \<open>The settings a \<open>FileManager\<close> and its handle share.\<close>

record fh_config =
  fh_cfg_lease_time :: u32
  fh_cfg_hard_link_support :: bool
  fh_cfg_symlink_support :: bool
  fh_cfg_unique_handles :: bool

definition handle_supported_attrs :: "file_attr list" where
  "handle_supported_attrs = [FA_SupportedAttrs, FA_Type, FA_FhExpireType, FA_Change,
    FA_Size, FA_LinkSupport, FA_SymlinkSupport, FA_NamedAttr,
    FA_Fsid, FA_UniqueHandles, FA_LeaseTime, FA_RdattrError,
    FA_Acl, FA_AclSupport, FA_Archive, FA_Cansettime,
    FA_CaseInsensitive, FA_CasePreserving, FA_ChownRestricted, FA_Filehandle,
    FA_Fileid, FA_FilesAvail, FA_FilesFree, FA_FilesTotal,
    FA_FsLocations, FA_Homogeneous, FA_Maxfilesize, FA_Maxlink,
    FA_Maxname, FA_Maxread, FA_Maxwrite, FA_Mode,
    FA_NoTrunc, FA_Numlinks, FA_Owner, FA_OwnerGroup,
    FA_QuotaAvailHard, FA_QuotaAvailSoft, FA_QuotaUsed, FA_SpaceAvail,
    FA_SpaceFree, FA_SpaceTotal, FA_SpaceUsed, FA_TimeAccess,
    FA_TimeCreate, FA_TimeDelta, FA_TimeMetadata, FA_TimeModify,
    FA_MountedOnFileid]"

definition actor_supported_attrs :: "file_attr list" where
  "actor_supported_attrs = [FA_SupportedAttrs, FA_Type, FA_FhExpireType, FA_Change,
    FA_Size, FA_LinkSupport, FA_SymlinkSupport, FA_NamedAttr,
    FA_Fsid, FA_UniqueHandles, FA_LeaseTime, FA_RdattrError,
    FA_Acl, FA_AclSupport, FA_Archive, FA_Cansettime,
    FA_ChownRestricted, FA_Filehandle, FA_Fileid, FA_Homogeneous,
    FA_Maxfilesize, FA_Maxlink, FA_Maxname, FA_Maxread,
    FA_Maxwrite, FA_Mode, FA_NoTrunc, FA_Numlinks,
    FA_Owner, FA_OwnerGroup, FA_QuotaAvailHard, FA_QuotaAvailSoft,
    FA_QuotaUsed, FA_SpaceAvail, FA_SpaceFree, FA_SpaceTotal,
    FA_SpaceUsed, FA_TimeAccess, FA_TimeMetadata, FA_TimeModify]"

definition handle_attr_value ::
  "fh_config \<Rightarrow> filehandle \<Rightarrow> quota_info option \<Rightarrow> file_attr \<Rightarrow> file_attr_value option" where
  "handle_attr_value cfg fh quota attr =
    (case attr of
      FA_SupportedAttrs \<Rightarrow> Some (FV_SupportedAttrs handle_supported_attrs)
    | FA_Type \<Rightarrow> Some (FV_Type (fh_attr_type fh))
    | FA_LeaseTime \<Rightarrow> Some (FV_LeaseTime (fh_cfg_lease_time cfg))
    | FA_Change \<Rightarrow> Some (FV_Change (fh_attr_change fh))
    | FA_Size \<Rightarrow> Some (FV_Size (fh_attr_size fh))
    | FA_LinkSupport \<Rightarrow> Some (FV_LinkSupport (fh_cfg_hard_link_support cfg))
    | FA_SymlinkSupport \<Rightarrow> Some (FV_SymlinkSupport (fh_cfg_symlink_support cfg))
    | FA_NamedAttr \<Rightarrow> Some (FV_NamedAttr True)
    | FA_Acl \<Rightarrow> Some (FV_Acl (mode_to_acl (fh_attr_mode fh) (fh_attr_owner fh) (fh_attr_owner_group fh)))
    | FA_AclSupport \<Rightarrow> Some (FV_AclSupport 1)
    | FA_Fsid \<Rightarrow> Some (FV_Fsid (fh_attr_fsid fh))
    | FA_UniqueHandles \<Rightarrow> Some (FV_UniqueHandles (fh_cfg_unique_handles cfg))
    | FA_FhExpireType \<Rightarrow> Some (FV_FhExpireType 0)
    | FA_RdattrError \<Rightarrow> Some (FV_RdattrError Nfs4errInval)
    | FA_Fileid \<Rightarrow> Some (FV_Fileid (fh_attr_fileid fh))
    | FA_Mode \<Rightarrow> Some (FV_Mode (fh_attr_mode fh))
    | FA_Numlinks \<Rightarrow> Some (FV_Numlinks (fh_attr_nlink fh))
    | FA_Owner \<Rightarrow> Some (FV_Owner (fh_attr_owner fh))
    | FA_OwnerGroup \<Rightarrow> Some (FV_OwnerGroup (fh_attr_owner_group fh))
    | FA_QuotaAvailHard \<Rightarrow> Some (FV_QuotaAvailHard (case quota of None \<Rightarrow> 0 | Some q \<Rightarrow> qi_quota_avail_hard q))
    | FA_QuotaAvailSoft \<Rightarrow> Some (FV_QuotaAvailSoft (case quota of None \<Rightarrow> 0 | Some q \<Rightarrow> qi_quota_avail_soft q))
    | FA_QuotaUsed \<Rightarrow> Some (FV_QuotaUsed (case quota of None \<Rightarrow> 0 | Some q \<Rightarrow> qi_quota_used q))
    | FA_SpaceAvail \<Rightarrow> Some (FV_SpaceAvail (case quota of None \<Rightarrow> 0 | Some q \<Rightarrow> qi_space_avail q))
    | FA_SpaceFree \<Rightarrow> Some (FV_SpaceFree (case quota of None \<Rightarrow> 0 | Some q \<Rightarrow> qi_space_free q))
    | FA_SpaceTotal \<Rightarrow> Some (FV_SpaceTotal (case quota of None \<Rightarrow> 0 | Some q \<Rightarrow> qi_space_total q))
    | FA_SpaceUsed \<Rightarrow> Some (FV_SpaceUsed (fh_attr_space_used fh))
    | FA_TimeAccess \<Rightarrow> Some (FV_TimeAccess (fh_attr_time_access fh))
    | FA_TimeMetadata \<Rightarrow> Some (FV_TimeMetadata (fh_attr_time_metadata fh))
    | FA_TimeModify \<Rightarrow> Some (FV_TimeModify (fh_attr_time_modify fh))
    | FA_Maxfilesize \<Rightarrow> Some (FV_Maxfilesize 0x7FFFFFFFFFFFFFFF)
    | FA_Maxread \<Rightarrow> Some (FV_Maxread 1048576)
    | FA_Maxwrite \<Rightarrow> Some (FV_Maxwrite 1048576)
    | FA_Maxlink \<Rightarrow> Some (FV_Maxlink 32000)
    | FA_Maxname \<Rightarrow> Some (FV_Maxname 255)
    | FA_Homogeneous \<Rightarrow> Some (FV_Homogeneous True)
    | FA_NoTrunc \<Rightarrow> Some (FV_NoTrunc True)
    | FA_Cansettime \<Rightarrow> Some (FV_Cansettime True)
    | FA_ChownRestricted \<Rightarrow> Some (FV_ChownRestricted True)
    | FA_CaseInsensitive \<Rightarrow> Some (FV_CaseInsensitive False)
    | FA_CasePreserving \<Rightarrow> Some (FV_CasePreserving True)
    | FA_FilesAvail \<Rightarrow> Some (FV_FilesAvail (case quota of None \<Rightarrow> - 1 | Some q \<Rightarrow> if qi_space_total q = 0 then - 1 else qi_space_avail q div 4096))
    | FA_FilesFree \<Rightarrow> Some (FV_FilesFree (case quota of None \<Rightarrow> - 1 | Some q \<Rightarrow> if qi_space_total q = 0 then - 1 else qi_space_free q div 4096))
    | FA_FilesTotal \<Rightarrow> Some (FV_FilesTotal (case quota of None \<Rightarrow> - 1 | Some q \<Rightarrow> if qi_space_total q = 0 then - 1 else qi_space_total q div 4096))
    | FA_FsLocations \<Rightarrow> Some (FV_FsLocations \<lparr>fs_locations4_fs_root = [''/''], fs_locations4_locations = []\<rparr>)
    | FA_TimeDelta \<Rightarrow> Some (FV_TimeDelta \<lparr>nfstime4_seconds = 0, nfstime4_nseconds = 1\<rparr>)
    | FA_TimeCreate \<Rightarrow> Some (FV_TimeCreate (fh_attr_time_modify fh))
    | FA_MountedOnFileid \<Rightarrow> Some (FV_MountedOnFileid (fh_attr_fileid fh))
    | _ \<Rightarrow> None)"

definition actor_attr_value ::
  "fh_config \<Rightarrow> filehandle \<Rightarrow> file_attr \<Rightarrow> file_attr_value option" where
  "actor_attr_value cfg fh attr =
    (case attr of
      FA_SupportedAttrs \<Rightarrow> Some (FV_SupportedAttrs actor_supported_attrs)
    | FA_Type \<Rightarrow> Some (FV_Type (fh_attr_type fh))
    | FA_LeaseTime \<Rightarrow> Some (FV_LeaseTime (fh_cfg_lease_time cfg))
    | FA_Change \<Rightarrow> Some (FV_Change (fh_attr_change fh))
    | FA_Size \<Rightarrow> Some (FV_Size (fh_attr_size fh))
    | FA_LinkSupport \<Rightarrow> Some (FV_LinkSupport (fh_cfg_hard_link_support cfg))
    | FA_SymlinkSupport \<Rightarrow> Some (FV_SymlinkSupport (fh_cfg_symlink_support cfg))
    | FA_NamedAttr \<Rightarrow> Some (FV_NamedAttr True)
    | FA_Acl \<Rightarrow> Some (FV_Acl (mode_to_acl (fh_attr_mode fh) (fh_attr_owner fh) (fh_attr_owner_group fh)))
    | FA_AclSupport \<Rightarrow> Some (FV_AclSupport 1)
    | FA_FsLocations \<Rightarrow> Some (FV_FsLocations \<lparr>fs_locations4_fs_root = [''/''], fs_locations4_locations = []\<rparr>)
    | FA_Fsid \<Rightarrow> Some (FV_Fsid (fh_attr_fsid fh))
    | FA_UniqueHandles \<Rightarrow> Some (FV_UniqueHandles (fh_cfg_unique_handles cfg))
    | FA_FhExpireType \<Rightarrow> Some (FV_FhExpireType 0)
    | FA_RdattrError \<Rightarrow> Some (FV_RdattrError Nfs4errInval)
    | FA_Fileid \<Rightarrow> Some (FV_Fileid (fh_attr_fileid fh))
    | FA_Mode \<Rightarrow> Some (FV_Mode (fh_attr_mode fh))
    | FA_Numlinks \<Rightarrow> Some (FV_Numlinks (fh_attr_nlink fh))
    | FA_Owner \<Rightarrow> Some (FV_Owner (fh_attr_owner fh))
    | FA_OwnerGroup \<Rightarrow> Some (FV_OwnerGroup (fh_attr_owner_group fh))
    | FA_QuotaAvailHard \<Rightarrow> Some (FV_QuotaAvailHard 0)
    | FA_QuotaAvailSoft \<Rightarrow> Some (FV_QuotaAvailSoft 0)
    | FA_QuotaUsed \<Rightarrow> Some (FV_QuotaUsed 0)
    | FA_SpaceAvail \<Rightarrow> Some (FV_SpaceAvail 0)
    | FA_SpaceFree \<Rightarrow> Some (FV_SpaceFree 0)
    | FA_SpaceTotal \<Rightarrow> Some (FV_SpaceTotal 0)
    | FA_SpaceUsed \<Rightarrow> Some (FV_SpaceUsed (fh_attr_space_used fh))
    | FA_TimeAccess \<Rightarrow> Some (FV_TimeAccess (fh_attr_time_access fh))
    | FA_TimeMetadata \<Rightarrow> Some (FV_TimeMetadata (fh_attr_time_metadata fh))
    | FA_TimeModify \<Rightarrow> Some (FV_TimeModify (fh_attr_time_modify fh))
    | FA_Maxfilesize \<Rightarrow> Some (FV_Maxfilesize 0x7FFFFFFFFFFFFFFF)
    | FA_Maxread \<Rightarrow> Some (FV_Maxread 1048576)
    | FA_Maxwrite \<Rightarrow> Some (FV_Maxwrite 1048576)
    | FA_Maxlink \<Rightarrow> Some (FV_Maxlink 32000)
    | FA_Maxname \<Rightarrow> Some (FV_Maxname 255)
    | FA_Homogeneous \<Rightarrow> Some (FV_Homogeneous True)
    | FA_NoTrunc \<Rightarrow> Some (FV_NoTrunc True)
    | FA_Cansettime \<Rightarrow> Some (FV_Cansettime True)
    | FA_ChownRestricted \<Rightarrow> Some (FV_ChownRestricted True)
    | _ \<Rightarrow> None)"

text \<open>The loop that pushes an attribute and its value for each one answered.\<close>

fun answer_attrs ::
  "(file_attr \<Rightarrow> file_attr_value option) \<Rightarrow> file_attr list \<Rightarrow> file_attr list \<times> file_attr_value list" where
  "answer_attrs f [] = ([], [])"
| "answer_attrs f (a # as) =
    (let (ms, vs) = answer_attrs f as in
     case f a of None \<Rightarrow> (ms, vs) | Some v \<Rightarrow> (a # ms, v # vs))"

section \<open>The pseudo-filesystem root\<close>

definition PSEUDO_ROOT_EXPORT_ID :: u8 where
  "PSEUDO_ROOT_EXPORT_ID = 0xFF"

definition pseudo_root_fh :: nfs_fh4 where
  "pseudo_root_fh = (replicate 26 0)[0 := 2, 1 := PSEUDO_ROOT_EXPORT_ID]"

definition is_pseudo_root_fh :: "nfs_fh4 \<Rightarrow> bool" where
  "is_pseudo_root_fh fh \<longleftrightarrow> fh ! 0 = 2 \<and> fh ! 1 = PSEUDO_ROOT_EXPORT_ID"

definition export_id_from_fh :: "nfs_fh4 \<Rightarrow> u8" where
  "export_id_from_fh fh = (if is_pseudo_root_fh fh then PSEUDO_ROOT_EXPORT_ID else fh ! 1)"

definition stamp_export_id :: "nfs_fh4 \<Rightarrow> u8 \<Rightarrow> nfs_fh4" where
  "stamp_export_id fh export_id = fh[1 := export_id]"

definition pseudo_supported_attrs :: "file_attr list" where
  "pseudo_supported_attrs = [FA_SupportedAttrs, FA_Type, FA_FhExpireType, FA_Change,
    FA_Size, FA_LinkSupport, FA_SymlinkSupport, FA_NamedAttr,
    FA_Fsid, FA_UniqueHandles, FA_LeaseTime, FA_RdattrError,
    FA_AclSupport, FA_Cansettime, FA_ChownRestricted, FA_Fileid,
    FA_Homogeneous, FA_Maxfilesize, FA_Maxlink, FA_Maxname,
    FA_Maxread, FA_Maxwrite, FA_Mode, FA_NoTrunc,
    FA_Numlinks, FA_Owner, FA_OwnerGroup, FA_SpaceUsed,
    FA_TimeAccess, FA_TimeMetadata, FA_TimeModify]"

definition pseudo_root_attr_value :: "nfstime4 \<Rightarrow> file_attr \<Rightarrow> file_attr_value option" where
  "pseudo_root_attr_value now attr =
    (case attr of
      FA_SupportedAttrs \<Rightarrow> Some (FV_SupportedAttrs pseudo_supported_attrs)
    | FA_Type \<Rightarrow> Some (FV_Type Nf4dir)
    | FA_FhExpireType \<Rightarrow> Some (FV_FhExpireType 0)
    | FA_Change \<Rightarrow> Some (FV_Change 1)
    | FA_Size \<Rightarrow> Some (FV_Size 4096)
    | FA_LinkSupport \<Rightarrow> Some (FV_LinkSupport False)
    | FA_SymlinkSupport \<Rightarrow> Some (FV_SymlinkSupport False)
    | FA_NamedAttr \<Rightarrow> Some (FV_NamedAttr True)
    | FA_Fsid \<Rightarrow> Some (FV_Fsid \<lparr>fsid4_major = 0, fsid4_minor = 0\<rparr>)
    | FA_UniqueHandles \<Rightarrow> Some (FV_UniqueHandles True)
    | FA_LeaseTime \<Rightarrow> Some (FV_LeaseTime 90)
    | FA_RdattrError \<Rightarrow> Some (FV_RdattrError Nfs4errInval)
    | FA_Fileid \<Rightarrow> Some (FV_Fileid 1)
    | FA_Mode \<Rightarrow> Some (FV_Mode 0x1ED)
    | FA_Numlinks \<Rightarrow> Some (FV_Numlinks 2)
    | FA_Owner \<Rightarrow> Some (FV_Owner ''0'')
    | FA_OwnerGroup \<Rightarrow> Some (FV_OwnerGroup ''0'')
    | FA_SpaceUsed \<Rightarrow> Some (FV_SpaceUsed 4096)
    | FA_TimeAccess \<Rightarrow> Some (FV_TimeAccess now)
    | FA_TimeMetadata \<Rightarrow> Some (FV_TimeMetadata now)
    | FA_TimeModify \<Rightarrow> Some (FV_TimeModify now)
    | FA_Acl \<Rightarrow> Some (FV_Acl [])
    | FA_AclSupport \<Rightarrow> Some (FV_AclSupport 0)
    | FA_FsLocations \<Rightarrow> Some (FV_FsLocations \<lparr>fs_locations4_fs_root = [''/''], fs_locations4_locations = []\<rparr>)
    | FA_Maxfilesize \<Rightarrow> Some (FV_Maxfilesize 0x7FFFFFFFFFFFFFFF)
    | FA_Maxread \<Rightarrow> Some (FV_Maxread 1048576)
    | FA_Maxwrite \<Rightarrow> Some (FV_Maxwrite 1048576)
    | FA_Maxlink \<Rightarrow> Some (FV_Maxlink 32000)
    | FA_Maxname \<Rightarrow> Some (FV_Maxname 255)
    | FA_Homogeneous \<Rightarrow> Some (FV_Homogeneous True)
    | FA_NoTrunc \<Rightarrow> Some (FV_NoTrunc True)
    | FA_Cansettime \<Rightarrow> Some (FV_Cansettime True)
    | FA_ChownRestricted \<Rightarrow> Some (FV_ChownRestricted True)
    | _ \<Rightarrow> None)"

definition pseudo_root_getattr ::
  "nfstime4 \<Rightarrow> file_attr list \<Rightarrow> file_attr list \<times> file_attr_value list" where
  "pseudo_root_getattr now attr_request = answer_attrs (pseudo_root_attr_value now) attr_request"

definition pseudo_entry_attr_value :: "nfstime4 \<Rightarrow> u8 \<Rightarrow> file_attr \<Rightarrow> file_attr_value option" where
  "pseudo_entry_attr_value now export_id attr =
    (case attr of
      FA_Type \<Rightarrow> Some (FV_Type Nf4dir)
    | FA_Change \<Rightarrow> Some (FV_Change 1)
    | FA_Size \<Rightarrow> Some (FV_Size 4096)
    | FA_Fsid \<Rightarrow> Some (FV_Fsid \<lparr>fsid4_major = ucast export_id, fsid4_minor = ucast export_id\<rparr>)
    | FA_Fileid \<Rightarrow> Some (FV_Fileid (ucast export_id + 100))
    | FA_Mode \<Rightarrow> Some (FV_Mode 0x1ED)
    | FA_Numlinks \<Rightarrow> Some (FV_Numlinks 2)
    | FA_Owner \<Rightarrow> Some (FV_Owner ''0'')
    | FA_OwnerGroup \<Rightarrow> Some (FV_OwnerGroup ''0'')
    | FA_SpaceUsed \<Rightarrow> Some (FV_SpaceUsed 4096)
    | FA_TimeAccess \<Rightarrow> Some (FV_TimeAccess now)
    | FA_TimeMetadata \<Rightarrow> Some (FV_TimeMetadata now)
    | FA_TimeModify \<Rightarrow> Some (FV_TimeModify now)
    | FA_RdattrError \<Rightarrow> Some (FV_RdattrError Nfs4errInval)
    | FA_FhExpireType \<Rightarrow> Some (FV_FhExpireType 0)
    | FA_SupportedAttrs \<Rightarrow> Some (FV_SupportedAttrs pseudo_supported_attrs)
    | FA_UniqueHandles \<Rightarrow> Some (FV_UniqueHandles True)
    | FA_LeaseTime \<Rightarrow> Some (FV_LeaseTime 90)
    | FA_LinkSupport \<Rightarrow> Some (FV_LinkSupport False)
    | FA_SymlinkSupport \<Rightarrow> Some (FV_SymlinkSupport False)
    | FA_NamedAttr \<Rightarrow> Some (FV_NamedAttr True)
    | FA_Acl \<Rightarrow> Some (FV_Acl [])
    | FA_AclSupport \<Rightarrow> Some (FV_AclSupport 0)
    | FA_FsLocations \<Rightarrow> Some (FV_FsLocations \<lparr>fs_locations4_fs_root = [''/''], fs_locations4_locations = []\<rparr>)
    | FA_Maxfilesize \<Rightarrow> Some (FV_Maxfilesize 0x7FFFFFFFFFFFFFFF)
    | FA_Maxread \<Rightarrow> Some (FV_Maxread 1048576)
    | FA_Maxwrite \<Rightarrow> Some (FV_Maxwrite 1048576)
    | FA_Maxlink \<Rightarrow> Some (FV_Maxlink 32000)
    | FA_Maxname \<Rightarrow> Some (FV_Maxname 255)
    | FA_Homogeneous \<Rightarrow> Some (FV_Homogeneous True)
    | FA_NoTrunc \<Rightarrow> Some (FV_NoTrunc True)
    | FA_Cansettime \<Rightarrow> Some (FV_Cansettime True)
    | FA_ChownRestricted \<Rightarrow> Some (FV_ChownRestricted True)
    | _ \<Rightarrow> None)"

definition pseudo_export_entry_attrs ::
  "nfstime4 \<Rightarrow> file_attr list \<Rightarrow> u8 \<Rightarrow> file_attr list \<times> file_attr_value list" where
  "pseudo_export_entry_attrs now attr_request export_id =
    answer_attrs (pseudo_entry_attr_value now export_id) attr_request"

section \<open>Answers match their mask\<close>

text \<open>The attribute a value belongs to: \<open>FileAttrValue\<close> and \<open>FileAttr\<close> share their names.\<close>

primrec fv_attr :: "file_attr_value \<Rightarrow> file_attr" where
  "fv_attr (FV_SupportedAttrs _) = FA_SupportedAttrs"
| "fv_attr (FV_Type _) = FA_Type"
| "fv_attr (FV_FhExpireType _) = FA_FhExpireType"
| "fv_attr (FV_Change _) = FA_Change"
| "fv_attr (FV_Size _) = FA_Size"
| "fv_attr (FV_LinkSupport _) = FA_LinkSupport"
| "fv_attr (FV_SymlinkSupport _) = FA_SymlinkSupport"
| "fv_attr (FV_NamedAttr _) = FA_NamedAttr"
| "fv_attr (FV_Fsid _) = FA_Fsid"
| "fv_attr (FV_UniqueHandles _) = FA_UniqueHandles"
| "fv_attr (FV_LeaseTime _) = FA_LeaseTime"
| "fv_attr (FV_RdattrError _) = FA_RdattrError"
| "fv_attr (FV_Acl _) = FA_Acl"
| "fv_attr (FV_AclSupport _) = FA_AclSupport"
| "fv_attr FV_Archive = FA_Archive"
| "fv_attr (FV_Cansettime _) = FA_Cansettime"
| "fv_attr (FV_CaseInsensitive _) = FA_CaseInsensitive"
| "fv_attr (FV_CasePreserving _) = FA_CasePreserving"
| "fv_attr (FV_ChownRestricted _) = FA_ChownRestricted"
| "fv_attr (FV_Filehandle _) = FA_Filehandle"
| "fv_attr (FV_Fileid _) = FA_Fileid"
| "fv_attr (FV_FilesAvail _) = FA_FilesAvail"
| "fv_attr (FV_FilesFree _) = FA_FilesFree"
| "fv_attr (FV_FilesTotal _) = FA_FilesTotal"
| "fv_attr (FV_FsLocations _) = FA_FsLocations"
| "fv_attr FV_Hidden = FA_Hidden"
| "fv_attr (FV_Homogeneous _) = FA_Homogeneous"
| "fv_attr (FV_Maxfilesize _) = FA_Maxfilesize"
| "fv_attr (FV_Maxlink _) = FA_Maxlink"
| "fv_attr (FV_Maxname _) = FA_Maxname"
| "fv_attr (FV_Maxread _) = FA_Maxread"
| "fv_attr (FV_Maxwrite _) = FA_Maxwrite"
| "fv_attr (FV_Mimetype _) = FA_Mimetype"
| "fv_attr (FV_Mode _) = FA_Mode"
| "fv_attr (FV_NoTrunc _) = FA_NoTrunc"
| "fv_attr (FV_Numlinks _) = FA_Numlinks"
| "fv_attr (FV_Owner _) = FA_Owner"
| "fv_attr (FV_OwnerGroup _) = FA_OwnerGroup"
| "fv_attr (FV_QuotaAvailHard _) = FA_QuotaAvailHard"
| "fv_attr (FV_QuotaAvailSoft _) = FA_QuotaAvailSoft"
| "fv_attr (FV_QuotaUsed _) = FA_QuotaUsed"
| "fv_attr FV_Rawdev = FA_Rawdev"
| "fv_attr (FV_SpaceAvail _) = FA_SpaceAvail"
| "fv_attr (FV_SpaceFree _) = FA_SpaceFree"
| "fv_attr (FV_SpaceTotal _) = FA_SpaceTotal"
| "fv_attr (FV_SpaceUsed _) = FA_SpaceUsed"
| "fv_attr FV_System = FA_System"
| "fv_attr (FV_TimeAccess _) = FA_TimeAccess"
| "fv_attr FV_TimeAccessSet = FA_TimeAccessSet"
| "fv_attr FV_TimeBackup = FA_TimeBackup"
| "fv_attr (FV_TimeCreate _) = FA_TimeCreate"
| "fv_attr (FV_TimeDelta _) = FA_TimeDelta"
| "fv_attr (FV_TimeMetadata _) = FA_TimeMetadata"
| "fv_attr (FV_TimeModify _) = FA_TimeModify"
| "fv_attr FV_TimeModifySet = FA_TimeModifySet"
| "fv_attr (FV_MountedOnFileid _) = FA_MountedOnFileid"

lemma handle_attr_value_attr: "handle_attr_value cfg fh q a = Some v \<Longrightarrow> fv_attr v = a"
  by (cases a) (auto simp: handle_attr_value_def)

lemma actor_attr_value_attr: "actor_attr_value cfg fh a = Some v \<Longrightarrow> fv_attr v = a"
  by (cases a) (auto simp: actor_attr_value_def)

lemma pseudo_root_attr_value_attr: "pseudo_root_attr_value now a = Some v \<Longrightarrow> fv_attr v = a"
  by (cases a) (auto simp: pseudo_root_attr_value_def)

lemma pseudo_entry_attr_value_attr: "pseudo_entry_attr_value now e a = Some v \<Longrightarrow> fv_attr v = a"
  by (cases a) (auto simp: pseudo_entry_attr_value_def)

lemma answer_attrs_mask: "fst (answer_attrs f req) = filter (\<lambda>a. f a \<noteq> None) req"
  by (induction req) (auto simp: Let_def split: option.splits prod.splits)

lemma answer_attrs_values: "map Some (snd (answer_attrs f req)) = map f (fst (answer_attrs f req))"
  by (induction req) (auto simp: Let_def split: option.splits prod.splits)

lemma answer_attrs_attr:
  assumes "\<And>a v. f a = Some v \<Longrightarrow> fv_attr v = a"
  shows "map fv_attr (snd (answer_attrs f req)) = fst (answer_attrs f req)"
  by (induction req) (auto simp: Let_def assms split: option.splits prod.splits)

lemma export_id_from_fh_eq: "export_id_from_fh fh = fh ! 1"
  by (simp add: export_id_from_fh_def is_pseudo_root_fh_def)

lemma is_pseudo_root_fh_pseudo [simp]: "is_pseudo_root_fh pseudo_root_fh"
  by (simp add: is_pseudo_root_fh_def pseudo_root_fh_def)

lemma stamp_export_id_routes:
  "1 < length fh \<Longrightarrow> export_id_from_fh (stamp_export_id fh e) = e"
  by (simp add: export_id_from_fh_eq stamp_export_id_def)

end
