(* ===== verification/FileManager.thy ===== *)
theory FileManager
  imports FileAttrs
begin

text \<open>
  The \<open>FileManager\<close> actor of one export (\<open>filemanager/mod.rs\<close>): the table of file handles,
  the table of open and byte-range lock state, delegations, write caches and deferred deletes,
  and the handler of every message. The actor handles one message at a time, so a run of the
  actor is a sequence of calls of \<open>handle_message\<close> and \<open>sweep_pending_deletes\<close>. A handler
  returns \<open>None\<close> where the Rust code panics (an \<open>insert\<close> that violates a unique index);
  the actor does not survive that. Counters wrap, as in a release build.
\<close>

section \<open>State\<close>

record delegation_state =
  ds_client_id :: u64
  ds_stateid :: stateid4
  ds_is_write :: bool

record ('fdb, 'ldb) file_manager =
  fm_root :: string
  fm_export_root :: string
  fm_config :: fh_config
  fm_fsid :: u64
  fm_export_id :: u8
  fm_fhdb :: 'fdb
  fm_next_fh_id :: u128
  fm_lockdb :: 'ldb
  fm_next_stateid_id :: u64
  fm_boot_time :: u64
  fm_cachedb :: "nfs_fh4 \<rightharpoonup> nat"
  fm_delegations :: "nfs_fh4 \<rightharpoonup> delegation_state"
  fm_pending_deletes :: "nfs_fh4 list"

text \<open>\<open>PathBuf::join\<close> with a relative path.\<close>

definition path_join :: "string \<Rightarrow> string \<Rightarrow> string" where
  "path_join base rel =
    (if rel \<noteq> [] \<and> hd rel = CHR ''/'' then rel
     else if base = [] \<or> last base = CHR ''/'' then base @ rel
     else base @ ''/'' @ rel)"

definition real_path :: "('f, 'l) file_manager \<Rightarrow> string \<Rightarrow> string" where
  "real_path fm rel =
    (if rel = [] \<or> rel = ''/'' then fm_export_root fm
     else path_join (fm_export_root fm) (dropWhile (\<lambda>c. c = CHR ''/'') rel))"

definition dir_change_attr :: "'w fs_ops \<Rightarrow> 'w \<Rightarrow> ('f, 'l) file_manager \<Rightarrow> string \<Rightarrow> u64" where
  "dir_change_attr fs w fm dir =
    (case os_lstat fs w (real_path fm dir) of Some m \<Rightarrow> change_of_mtime m | None \<Rightarrow> 0)"

definition path_exists :: "'w fs_ops \<Rightarrow> 'w \<Rightarrow> ('f, 'l) file_manager \<Rightarrow> string \<Rightarrow> bool" where
  "path_exists fs w fm p \<longleftrightarrow> vfs_exists fs w p \<or> os_lstat fs w (real_path fm p) \<noteq> None"

fun scan_inode ::
  "'w fs_ops \<Rightarrow> 'w \<Rightarrow> string \<Rightarrow> string \<Rightarrow> u64 \<Rightarrow> string list \<Rightarrow> string option" where
  "scan_inode fs w parent_vfs parent_real ino [] = None"
| "scan_inode fs w parent_vfs parent_real ino (name # names) =
    (case os_lstat fs w (path_join parent_real name) of
       Some m \<Rightarrow> if rm_ino m = ino then vfs_join fs parent_vfs name
                 else scan_inode fs w parent_vfs parent_real ino names
     | None \<Rightarrow> scan_inode fs w parent_vfs parent_real ino names)"

definition find_by_inode_in_parent ::
  "'w fs_ops \<Rightarrow> 'w \<Rightarrow> ('f, 'l) file_manager \<Rightarrow> filehandle \<Rightarrow> u64 \<Rightarrow> string option" where
  "find_by_inode_in_parent fs w fm fh target_ino =
    (let parent_vfs = vfs_parent fs (fh_file fh); parent_real = real_path fm parent_vfs in
     case os_read_dir fs w parent_real of
       None \<Rightarrow> None
     | Some entries \<Rightarrow> scan_inode fs w parent_vfs parent_real target_ino entries)"

text \<open>A handle with the current metadata of \<open>file\<close>, or the fallback without it.\<close>

definition make_fh ::
  "'w fs_ops \<Rightarrow> 'w \<Rightarrow> ('f, 'l) file_manager \<Rightarrow> string \<Rightarrow> nfs_fh4 \<Rightarrow> u64 \<Rightarrow> filehandle" where
  "make_fh fs w fm file fid version =
    (case os_lstat fs w (real_path fm file) of
       Some m \<Rightarrow> new_real file fid (fm_fsid fm) (fm_fsid fm) version m
     | None \<Rightarrow> new_fallback fs w file fid (fm_fsid fm) (fm_fsid fm) version)"

section \<open>The handle table\<close>

definition fhdb_replace ::
  "'f fh_db_ops \<Rightarrow> ('f, 'l) file_manager \<Rightarrow> filehandle \<Rightarrow> ('f, 'l) file_manager" where
  "fhdb_replace F fm fh =
    (let db = fm_fhdb fm;
         db = (if fdb_get_by_id F db (fh_id fh) \<noteq> None
               then snd (fdb_remove_by_id F db (fh_id fh)) else db);
         db = (if fdb_get_by_path F db (fh_path fh) \<noteq> None
               then snd (fdb_remove_by_path F db (fh_path fh)) else db);
         db = (case fdb_try_insert F db fh of Some db' \<Rightarrow> db' | None \<Rightarrow> db)
     in fm\<lparr>fm_fhdb := db\<rparr>)"

definition fhdb_remove ::
  "'f fh_db_ops \<Rightarrow> ('f, 'l) file_manager \<Rightarrow> nfs_fh4 \<Rightarrow> ('f, 'l) file_manager" where
  "fhdb_remove F fm fid = fm\<lparr>fm_fhdb := snd (fdb_remove_by_id F (fm_fhdb fm) fid)\<rparr>"

definition touch_filehandle ::
  "'w fs_ops \<Rightarrow> 'f fh_db_ops \<Rightarrow> 'w \<Rightarrow> ('f, 'l) file_manager \<Rightarrow> filehandle \<Rightarrow> ('f, 'l) file_manager" where
  "touch_filehandle fs F w fm fh =
    (let fh' = make_fh fs w fm (fh_file fh) (fh_id fh) (fh_version fh)
     in fhdb_replace F (fhdb_remove F fm (fh_id fh)) fh')"

definition update_filehandle ::
  "'f fh_db_ops \<Rightarrow> ('f, 'l) file_manager \<Rightarrow> filehandle \<Rightarrow> ('f, 'l) file_manager" where
  "update_filehandle F fm fh = fhdb_replace F (fhdb_remove F fm (fh_id fh)) fh"

definition has_locks :: "'l lock_db_ops \<Rightarrow> ('f, 'l) file_manager \<Rightarrow> nfs_fh4 \<Rightarrow> bool" where
  "has_locks L fm fid \<longleftrightarrow> ldb_get_by_filehandle_id L (fm_lockdb fm) fid \<noteq> []"

definition get_filehandle_by_path ::
  "'w fs_ops \<Rightarrow> 'f fh_db_ops \<Rightarrow> 'l lock_db_ops \<Rightarrow> 'w \<Rightarrow> ('f, 'l) file_manager \<Rightarrow> string
    \<Rightarrow> filehandle option \<times> ('f, 'l) file_manager" where
  "get_filehandle_by_path fs F L w fm path =
    (case fdb_get_by_path F (fm_fhdb fm) path of
       Some fh \<Rightarrow>
         if path_exists fs w fm (fh_file fh) then (Some fh, fm)
         else if fh_id fh \<in> set (fm_pending_deletes fm) \<or> has_locks L fm (fh_id fh) then (Some fh, fm)
         else (None, fhdb_remove F fm (fh_id fh))
     | None \<Rightarrow> (None, fm))"

text \<open>The two layouts of a handle: dev and inode (persistent), boot time and sequence (volatile).\<close>

definition inode_fh_id :: "u8 \<Rightarrow> u64 \<Rightarrow> u64 \<Rightarrow> nfs_fh4" where
  "inode_fh_id export_id dev ino =
    1 # export_id # be_bytes 8 dev @ be_bytes 8 ino @ replicate 8 0"

definition volatile_fh_id :: "u8 \<Rightarrow> u64 \<Rightarrow> u128 \<Rightarrow> nfs_fh4" where
  "volatile_fh_id export_id boot_time seq =
    0x80 # export_id # be_bytes 8 boot_time @ be_bytes 16 seq"

definition get_filehandle_id ::
  "'w fs_ops \<Rightarrow> 'f fh_db_ops \<Rightarrow> 'l lock_db_ops \<Rightarrow> 'w \<Rightarrow> ('f, 'l) file_manager \<Rightarrow> string
    \<Rightarrow> nfs_fh4 \<times> ('f, 'l) file_manager" where
  "get_filehandle_id fs F L w fm file =
    (let (existing, fm) = get_filehandle_by_path fs F L w fm (path_key file) in
     case existing of
       Some fh \<Rightarrow> (fh_id fh, fm)
     | None \<Rightarrow>
         (case os_lstat fs w (real_path fm file) of
            Some m \<Rightarrow> (inode_fh_id (fm_export_id fm) (rm_dev m) (rm_ino m), fm)
          | None \<Rightarrow>
              (volatile_fh_id (fm_export_id fm) (fm_boot_time fm) (fm_next_fh_id fm),
               fm\<lparr>fm_next_fh_id := fm_next_fh_id fm + 1\<rparr>)))"

definition get_filehandle_by_id ::
  "'w fs_ops \<Rightarrow> 'f fh_db_ops \<Rightarrow> 'l lock_db_ops \<Rightarrow> 'w \<Rightarrow> ('f, 'l) file_manager \<Rightarrow> nfs_fh4
    \<Rightarrow> filehandle option \<times> ('f, 'l) file_manager" where
  "get_filehandle_by_id fs F L w fm fid =
    (case fdb_get_by_id F (fm_fhdb fm) fid of
       None \<Rightarrow> (None, fm)
     | Some fh \<Rightarrow>
         if fid \<in> set (fm_pending_deletes fm) \<or> path_exists fs w fm (fh_file fh) \<or> has_locks L fm fid
         then (Some fh, fm)
         else
           let recovered =
             (if fid ! 0 = 1
              then find_by_inode_in_parent fs w fm fh (from_be_bytes (take 8 (drop 10 fid)))
              else None)
           in case recovered of
             Some new_vfs_path \<Rightarrow>
               let fm1 = fhdb_remove F fm fid;
                   new_fh = make_fh fs w fm new_vfs_path fid (fh_version fh + 1)
               in (Some new_fh, fhdb_replace F fm1 new_fh)
           | None \<Rightarrow> (None, fhdb_remove F fm fid))"

definition get_filehandle ::
  "'w fs_ops \<Rightarrow> 'f fh_db_ops \<Rightarrow> 'l lock_db_ops \<Rightarrow> 'w \<Rightarrow> ('f, 'l) file_manager \<Rightarrow> string
    \<Rightarrow> filehandle \<times> ('f, 'l) file_manager" where
  "get_filehandle fs F L w fm file =
    (let (fid, fm) = get_filehandle_id fs F L w fm file;
         (found, fm) = get_filehandle_by_id fs F L w fm fid
     in case found of
       Some fh \<Rightarrow>
         if fh_path fh = path_key file then (fh, fm)
         else let fm = fhdb_remove F fm fid; fh' = make_fh fs w fm file fid 0
              in (fh', fhdb_replace F fm fh')
     | None \<Rightarrow> let fh' = make_fh fs w fm file fid 0 in (fh', fhdb_replace F fm fh'))"

definition root_fh ::
  "'w fs_ops \<Rightarrow> 'f fh_db_ops \<Rightarrow> 'l lock_db_ops \<Rightarrow> 'w \<Rightarrow> ('f, 'l) file_manager
    \<Rightarrow> filehandle \<times> ('f, 'l) file_manager" where
  "root_fh fs F L w fm = get_filehandle fs F L w fm (fm_root fm)"

definition attach_locks :: "'l lock_db_ops \<Rightarrow> ('f, 'l) file_manager \<Rightarrow> filehandle \<Rightarrow> filehandle" where
  "attach_locks L fm fh = fh\<lparr>fh_locks := ldb_get_by_filehandle_id L (fm_lockdb fm) (fh_id fh)\<rparr>"

definition file_manager_new ::
  "'w fs_ops \<Rightarrow> 'f fh_db_ops \<Rightarrow> 'l lock_db_ops \<Rightarrow> 'w \<Rightarrow> string \<Rightarrow> u64 option \<Rightarrow> string
    \<Rightarrow> ('f, 'l) file_manager" where
  "file_manager_new fs F L w root fsid export_root =
    (let fm = \<lparr>fm_root = root, fm_export_root = export_root,
       fm_config = \<lparr>fh_cfg_lease_time = 90, fh_cfg_hard_link_support = True,
                    fh_cfg_symlink_support = True, fh_cfg_unique_handles = True\<rparr>,
       fm_fsid = (case fsid of Some f \<Rightarrow> f | None \<Rightarrow> 152),
       fm_export_id = (case fsid of Some f \<Rightarrow> ucast f | None \<Rightarrow> 0),
       fm_fhdb = fdb_default F, fm_next_fh_id = 100, fm_lockdb = ldb_default L,
       fm_next_stateid_id = 100, fm_boot_time = nfstime4_seconds (os_time fs w),
       fm_cachedb = Map.empty, fm_delegations = Map.empty, fm_pending_deletes = []\<rparr>
     in snd (root_fh fs F L w fm))"

section \<open>Locks and delegations\<close>

datatype lock_result =
    LockOk stateid4
  | LockDenied u64 u64 nfs_lock_type4 u64 bytes
  | LockError nfs_stat4

datatype unlock_result = UnlockOk stateid4 | UnlockError nfs_stat4

datatype test_lock_result = TestOk | TestDenied u64 u64 nfs_lock_type4 u64 bytes

definition get_new_lockingstate_id ::
  "('f, 'l) file_manager \<Rightarrow> bytes \<times> ('f, 'l) file_manager" where
  "get_new_lockingstate_id fm =
    ([0, 0, 0, 0] @ be_bytes 8 (fm_next_stateid_id fm),
     fm\<lparr>fm_next_stateid_id := fm_next_stateid_id fm + 1\<rparr>)"

fun first_conflict ::
  "locking_state list \<Rightarrow> u64 \<Rightarrow> u64 \<Rightarrow> nfs_lock_type4 \<Rightarrow> bytes \<Rightarrow> u64 \<Rightarrow> locking_state option" where
  "first_conflict [] offset len t owner cid = None"
| "first_conflict (l # ls) offset len t owner cid =
    (if conflicts_with l offset len t owner cid then Some l
     else first_conflict ls offset len t owner cid)"

definition opt_or :: "'a option \<Rightarrow> 'a \<Rightarrow> 'a" where
  "opt_or x d = (case x of Some v \<Rightarrow> v | None \<Rightarrow> d)"

definition handle_lock ::
  "'l lock_db_ops \<Rightarrow> ('f, 'l) file_manager \<Rightarrow> nfs_fh4 \<Rightarrow> u64 \<Rightarrow> bytes \<Rightarrow> nfs_lock_type4 \<Rightarrow> u64 \<Rightarrow> u64
    \<Rightarrow> (lock_result \<times> ('f, 'l) file_manager) option" where
  "handle_lock L fm fid client_id owner t offset len =
    (case first_conflict (ldb_get_by_filehandle_id L (fm_lockdb fm) fid) offset len t owner client_id of
       Some l \<Rightarrow>
         Some (LockDenied (opt_or (ls_start l) 0) (opt_or (ls_length l) 0)
                 (opt_or (ls_nfs_lock_type l) ReadLt) (ls_client_id l) (ls_owner l), fm)
     | None \<Rightarrow>
         let (stateid, fm) = get_new_lockingstate_id fm;
             lock = new_byte_range_lock fid stateid client_id owner t offset len
         in case ldb_insert L (fm_lockdb fm) lock of
              None \<Rightarrow> None
            | Some db \<Rightarrow> Some (LockOk \<lparr>stateid4_seqid = ls_seqid lock, stateid4_other = stateid\<rparr>,
                               fm\<lparr>fm_lockdb := db\<rparr>))"

definition handle_unlock ::
  "'l lock_db_ops \<Rightarrow> ('f, 'l) file_manager \<Rightarrow> bytes \<Rightarrow> u64 \<Rightarrow> u64
    \<Rightarrow> unlock_result \<times> ('f, 'l) file_manager" where
  "handle_unlock L fm lock_stateid offset len =
    (case ldb_get_by_stateid L (fm_lockdb fm) lock_stateid of
       Some lock \<Rightarrow>
         (UnlockOk \<lparr>stateid4_seqid = ls_seqid lock + 1, stateid4_other = ls_stateid lock\<rparr>,
          fm\<lparr>fm_lockdb := snd (ldb_remove_by_stateid L (fm_lockdb fm) lock_stateid)\<rparr>)
     | None \<Rightarrow> (UnlockError Nfs4errBadStateid, fm))"

definition handle_test_lock ::
  "'l lock_db_ops \<Rightarrow> ('f, 'l) file_manager \<Rightarrow> nfs_fh4 \<Rightarrow> u64 \<Rightarrow> bytes \<Rightarrow> nfs_lock_type4 \<Rightarrow> u64 \<Rightarrow> u64
    \<Rightarrow> test_lock_result" where
  "handle_test_lock L fm fid client_id owner t offset len =
    (case first_conflict (ldb_get_by_filehandle_id L (fm_lockdb fm) fid) offset len t owner client_id of
       Some l \<Rightarrow>
         TestDenied (opt_or (ls_start l) 0) (opt_or (ls_length l) 0)
           (opt_or (ls_nfs_lock_type l) ReadLt) (ls_client_id l) (ls_owner l)
     | None \<Rightarrow> TestOk)"

definition remove_stateids :: "'l lock_db_ops \<Rightarrow> 'l \<Rightarrow> bytes list \<Rightarrow> 'l" where
  "remove_stateids L db sids = foldl (\<lambda>db sid. snd (ldb_remove_by_stateid L db sid)) db sids"

definition handle_release_lock_owner ::
  "'l lock_db_ops \<Rightarrow> ('f, 'l) file_manager \<Rightarrow> u64 \<Rightarrow> bytes \<Rightarrow> nfs_stat4 \<times> ('f, 'l) file_manager" where
  "handle_release_lock_owner L fm client_id owner =
    (let locks = filter (\<lambda>l. ls_lock_type l = ByteRange \<and> ls_owner l = owner)
                   (ldb_get_by_client_id L (fm_lockdb fm) client_id)
     in (Nfs4Ok, fm\<lparr>fm_lockdb := remove_stateids L (fm_lockdb fm) (map ls_stateid locks)\<rparr>))"

text \<open>CLOSE removes the state with this stateid, whatever it is.\<close>

definition handle_close :: "'l lock_db_ops \<Rightarrow> ('f, 'l) file_manager \<Rightarrow> bytes \<Rightarrow> ('f, 'l) file_manager" where
  "handle_close L fm stateid =
    fm\<lparr>fm_lockdb := snd (ldb_remove_by_stateid L (fm_lockdb fm) stateid)\<rparr>"

text \<open>The open state that OPEN adds (\<open>CreateFile\<close> and \<open>CreateOpenState\<close>).\<close>

definition add_open_state ::
  "'l lock_db_ops \<Rightarrow> ('f, 'l) file_manager \<Rightarrow> nfs_fh4 \<Rightarrow> u64 \<Rightarrow> bytes \<Rightarrow> u32 \<Rightarrow> u32
    \<Rightarrow> (locking_state \<times> ('f, 'l) file_manager) option" where
  "add_open_state L fm fid client_id owner share_access share_deny =
    (let (stateid, fm) = get_new_lockingstate_id fm;
         lock = new_shared_reservation fid stateid client_id owner share_access share_deny
     in map_option (\<lambda>db. (lock, fm\<lparr>fm_lockdb := db\<rparr>)) (ldb_insert L (fm_lockdb fm) lock))"

definition make_stateid :: "('f, 'l) file_manager \<Rightarrow> stateid4 \<times> ('f, 'l) file_manager" where
  "make_stateid fm =
    (let n = fm_next_stateid_id fm + 1 in
     (\<lparr>stateid4_seqid = ucast n,
       stateid4_other = be_bytes 4 (ucast (fm_boot_time fm) :: u32) @ be_bytes 8 n\<rparr>,
      fm\<lparr>fm_next_stateid_id := n\<rparr>))"

definition grant_delegation ::
  "('f, 'l) file_manager \<Rightarrow> nfs_fh4 \<Rightarrow> u64 \<Rightarrow> bool \<Rightarrow> stateid4 option \<times> ('f, 'l) file_manager" where
  "grant_delegation fm fid client_id is_write =
    (case fm_delegations fm fid of
       Some existing \<Rightarrow>
         if ds_client_id existing \<noteq> client_id then (None, fm)
         else (Some (ds_stateid existing), fm)
     | None \<Rightarrow>
         let (stateid, fm) = make_stateid fm;
             st = \<lparr>ds_client_id = client_id, ds_stateid = stateid, ds_is_write = is_write\<rparr>
         in (Some stateid, fm\<lparr>fm_delegations := (fm_delegations fm)(fid \<mapsto> st)\<rparr>))"

definition return_delegation ::
  "('f, 'l) file_manager \<Rightarrow> nfs_fh4 \<Rightarrow> stateid4 \<Rightarrow> nfs_stat4 \<times> ('f, 'l) file_manager" where
  "return_delegation fm fid deleg_stateid =
    (case fm_delegations fm fid of
       Some existing \<Rightarrow>
         if ds_stateid existing = deleg_stateid
         then (Nfs4Ok, fm\<lparr>fm_delegations := (fm_delegations fm)(fid := None)\<rparr>)
         else (Nfs4errBadStateid, fm)
     | None \<Rightarrow> (Nfs4errBadStateid, fm))"

end
