(* ===== verification/FileManagerActor.thy ===== *)
theory FileManagerActor
  imports FileManager
begin

text \<open>
  The message handlers of the \<open>FileManager\<close> actor that change the filesystem, the message type
  and the dispatcher \<open>handle_message\<close> (\<open>filemanager/mod.rs\<close>), the periodic sweep, the write
  cache actor (\<open>filemanager/caching.rs\<close>), and what the asynchronous wrappers of
  \<open>FileManagerHandle\<close> make of an answer or of a dead actor (\<open>filemanager/handle.rs\<close>).
\<close>

section \<open>Handlers\<close>

record dir_change_info =
  dci_before :: u64
  dci_after :: u64
  dci_atomic :: bool

definition touch_parent ::
  "'w fs_ops \<Rightarrow> 'f fh_db_ops \<Rightarrow> 'l lock_db_ops \<Rightarrow> 'w \<Rightarrow> ('f, 'l) file_manager \<Rightarrow> string
    \<Rightarrow> ('f, 'l) file_manager" where
  "touch_parent fs F L w fm path =
    (let (parent, fm) = get_filehandle_by_path fs F L w fm (path_key (vfs_parent fs path)) in
     case parent of Some fh \<Rightarrow> touch_filehandle fs F w fm fh | None \<Rightarrow> fm)"

definition create_file ::
  "'w fs_ops \<Rightarrow> 'f fh_db_ops \<Rightarrow> 'l lock_db_ops \<Rightarrow> 'w \<Rightarrow> ('f, 'l) file_manager \<Rightarrow> string
    \<Rightarrow> filehandle option \<times> 'w \<times> ('f, 'l) file_manager" where
  "create_file fs F L w fm request_file =
    (case vfs_create_file fs w request_file of
       (False, w) \<Rightarrow> (None, w, fm)
     | (True, w) \<Rightarrow>
         let (fh, fm) = get_filehandle fs F L w fm request_file
         in (Some fh, w, touch_parent fs F L w fm request_file))"

definition open_named_attr_dir ::
  "'w fs_ops \<Rightarrow> 'f fh_db_ops \<Rightarrow> 'l lock_db_ops \<Rightarrow> 'w \<Rightarrow> ('f, 'l) file_manager \<Rightarrow> u64 \<Rightarrow> bool
    \<Rightarrow> filehandle option \<times> 'w \<times> ('f, 'l) file_manager" where
  "open_named_attr_dir fs F L w fm fileid createdir =
    (case vfs_join fs (fm_root fm) ''.nfs4attrs'' of
       None \<Rightarrow> (None, w, fm)
     | Some attrs_root \<Rightarrow>
         (case vfs_join fs attrs_root (dec_string (unat fileid)) of
            None \<Rightarrow> (None, w, fm)
          | Some attr_dir \<Rightarrow>
              if vfs_exists fs w attr_dir
              then let (fh, fm) = get_filehandle fs F L w fm attr_dir in (Some fh, w, fm)
              else if \<not> createdir then (None, w, fm)
              else
                let (ok, w) = (if vfs_exists fs w attrs_root then (True, w)
                               else vfs_create_dir fs w attrs_root)
                in if \<not> ok then (None, w, fm)
                   else let (ok, w) = vfs_create_dir fs w attr_dir
                        in if \<not> ok then (None, w, fm)
                           else let (fh, fm) = get_filehandle fs F L w fm attr_dir
                                in (Some fh, w, fm)))"

definition handle_rename_path ::
  "'w fs_ops \<Rightarrow> 'f fh_db_ops \<Rightarrow> 'w \<Rightarrow> ('f, 'l) file_manager \<Rightarrow> string \<Rightarrow> string
    \<Rightarrow> ('f, 'l) file_manager" where
  "handle_rename_path fs F w fm old_path new_vfs_path =
    (let old_fh =
       (case fdb_get_by_path F (fm_fhdb fm) old_path of
          Some fh \<Rightarrow> Some fh
        | None \<Rightarrow>
            (case os_lstat fs w (real_path fm new_vfs_path) of
               Some m \<Rightarrow> fdb_get_by_id F (fm_fhdb fm) (inode_fh_id (fm_export_id fm) (rm_dev m) (rm_ino m))
             | None \<Rightarrow> None))
     in case old_fh of
       Some old_fh \<Rightarrow>
         let fm = fhdb_remove F fm (fh_id old_fh);
             new_fh = make_fh fs w fm new_vfs_path (fh_id old_fh) (fh_version old_fh + 1)
         in fhdb_replace F fm new_fh
     | None \<Rightarrow> fm)"

text \<open>
  A write cache is a separate actor that keeps the file open; \<open>cachedb\<close> and \<open>write_cache\<close>
  hold its channel, here a number the runtime picks. \<open>get_cache_handle\<close> returns the channel and
  the actor it started, if any.
\<close>

record write_cache =
  wc_file :: "nat option"
  wc_dirty :: bool
  wc_filehandle :: filehandle
  wc_real_path :: string

definition write_cache_new ::
  "'w fs_ops \<Rightarrow> 'w \<Rightarrow> filehandle \<Rightarrow> string \<Rightarrow> write_cache \<times> 'w" where
  "write_cache_new fs w fh path =
    (let (fd, w) = os_open_create fs w path in
     (\<lparr>wc_file = fd, wc_dirty = False, wc_filehandle = fh, wc_real_path = path\<rparr>, w))"

definition get_cache_handle ::
  "'w fs_ops \<Rightarrow> 'f fh_db_ops \<Rightarrow> nat \<Rightarrow> 'w \<Rightarrow> ('f, 'l) file_manager \<Rightarrow> filehandle
    \<Rightarrow> (nat \<times> write_cache option) \<times> 'w \<times> ('f, 'l) file_manager" where
  "get_cache_handle fs F chan w fm fh =
    (case fm_cachedb fm (fh_id fh) of
       Some cached \<Rightarrow> ((cached, None), w, fm)
     | None \<Rightarrow>
         let (wc, w) = write_cache_new fs w fh (real_path fm (fh_file fh));
             fm = fm\<lparr>fm_cachedb := (fm_cachedb fm)(fh_id fh \<mapsto> chan)\<rparr>
         in ((chan, Some wc), w, update_filehandle F fm (fh\<lparr>fh_write_cache := Some chan\<rparr>)))"

definition drop_cache_handle ::
  "'w fs_ops \<Rightarrow> 'f fh_db_ops \<Rightarrow> 'l lock_db_ops \<Rightarrow> 'w \<Rightarrow> ('f, 'l) file_manager \<Rightarrow> nfs_fh4
    \<Rightarrow> ('f, 'l) file_manager" where
  "drop_cache_handle fs F L w fm fid =
    (let fm = fm\<lparr>fm_cachedb := (fm_cachedb fm)(fid := None)\<rparr>;
         (found, fm) = get_filehandle_by_id fs F L w fm fid
     in case found of
       Some fh \<Rightarrow> update_filehandle F fm (fh\<lparr>fh_write_cache := None\<rparr>)
     | None \<Rightarrow> fm)"

fun str_contains :: "string \<Rightarrow> string \<Rightarrow> bool" where
  "str_contains p [] \<longleftrightarrow> p = []"
| "str_contains p (c # cs) \<longleftrightarrow> take (length p) (c # cs) = p \<or> str_contains p cs"

definition not_empty_error :: "string \<Rightarrow> nfs_stat4" where
  "not_empty_error msg =
    (if str_contains ''not empty'' msg \<or> str_contains ''NotEmpty'' msg \<or>
        str_contains ''Directory not empty'' msg
     then Nfs4errNotempty else Nfs4errIo)"

definition vfs_remove_file_result ::
  "'w fs_ops \<Rightarrow> 'w \<Rightarrow> string \<Rightarrow> (unit, nfs_stat4) result \<times> 'w" where
  "vfs_remove_file_result fs w path =
    (let (ok, w) = vfs_remove_file fs w path in (if ok then Inr () else Inl Nfs4errIo, w))"

definition silly_name :: "filehandle \<Rightarrow> string" where
  "silly_name fh = ''.nfs.'' @ hex16 (fh_attr_fileid fh)"

text \<open>REMOVE of an open file: rename it to a hidden name, or delete it if that fails.\<close>

definition silly_rename ::
  "'w fs_ops \<Rightarrow> 'f fh_db_ops \<Rightarrow> 'w \<Rightarrow> ('f, 'l) file_manager \<Rightarrow> string \<Rightarrow> filehandle
    \<Rightarrow> (unit, nfs_stat4) result \<times> 'w \<times> ('f, 'l) file_manager" where
  "silly_rename fs F w fm path fh =
    (case vfs_join fs (vfs_parent fs path) (silly_name fh) of
       Some silly_path \<Rightarrow>
         (case vfs_move_file fs w path silly_path of
            (True, w) \<Rightarrow>
              let fm = fm\<lparr>fm_pending_deletes := List.insert (fh_id fh) (fm_pending_deletes fm)\<rparr>;
                  fm = fhdb_remove F fm (fh_id fh);
                  new_fh = make_fh fs w fm silly_path (fh_id fh) (fh_version fh + 1)
              in (Inr (), w, fhdb_replace F fm new_fh)
          | (False, w) \<Rightarrow> let (r, w) = vfs_remove_file_result fs w path in (r, w, fm))
     | None \<Rightarrow> let (r, w) = vfs_remove_file_result fs w path in (r, w, fm))"

definition forget_file ::
  "'w fs_ops \<Rightarrow> 'f fh_db_ops \<Rightarrow> 'l lock_db_ops \<Rightarrow> 'w \<Rightarrow> ('f, 'l) file_manager \<Rightarrow> nfs_fh4
    \<Rightarrow> ('f, 'l) file_manager" where
  "forget_file fs F L w fm fid =
    (let fm = drop_cache_handle fs F L w fm fid;
         fm = fm\<lparr>fm_delegations := (fm_delegations fm)(fid := None)\<rparr>
     in fhdb_remove F fm fid)"

definition remove_object ::
  "'w fs_ops \<Rightarrow> 'f fh_db_ops \<Rightarrow> 'w \<Rightarrow> ('f, 'l) file_manager \<Rightarrow> string \<Rightarrow> filehandle option \<Rightarrow> bool
    \<Rightarrow> (unit, nfs_stat4) result \<times> 'w \<times> ('f, 'l) file_manager" where
  "remove_object fs F w fm path filehandle has_open_locks =
    (let is_dir = vfs_is_dir fs w path in
     if \<not> is_dir \<and> has_open_locks then silly_rename fs F w fm path (the filehandle)
     else if is_dir then
       (case vfs_remove_dir fs w path of
          (None, w) \<Rightarrow> (Inr (), w, fm)
        | (Some msg, w) \<Rightarrow> (Inl (not_empty_error msg), w, fm))
     else let (r, w) = vfs_remove_file_result fs w path in (r, w, fm))"

definition forget_removed ::
  "'w fs_ops \<Rightarrow> 'f fh_db_ops \<Rightarrow> 'l lock_db_ops \<Rightarrow> 'w \<Rightarrow> ('f, 'l) file_manager \<Rightarrow> nfs_fh4
    \<Rightarrow> ('f, 'l) file_manager" where
  "forget_removed fs F L w fm fid =
    (let stateids = map ls_stateid (ldb_get_by_filehandle_id L (fm_lockdb fm) fid)
     in forget_file fs F L w (fm\<lparr>fm_lockdb := remove_stateids L (fm_lockdb fm) stateids\<rparr>) fid)"

definition remove_file ::
  "'w fs_ops \<Rightarrow> 'f fh_db_ops \<Rightarrow> 'l lock_db_ops \<Rightarrow> 'w \<Rightarrow> ('f, 'l) file_manager \<Rightarrow> string
    \<Rightarrow> (dir_change_info, nfs_stat4) result \<times> 'w \<times> ('f, 'l) file_manager" where
  "remove_file fs F L w fm path =
    (let (filehandle, fm1) = get_filehandle_by_path fs F L w fm path;
         parent = vfs_parent fs path;
         before_change = dir_change_attr fs w fm1 parent;
         has_open_locks = (case filehandle of Some fh \<Rightarrow> has_locks L fm1 (fh_id fh) | None \<Rightarrow> False);
         (remove_result, w', fm2) = remove_object fs F w fm1 path filehandle has_open_locks
     in case remove_result of
       Inl e \<Rightarrow> (Inl e, w', fm2)
     | Inr _ \<Rightarrow>
         let fm3 = (case filehandle of
                Some fh \<Rightarrow> if has_open_locks then fm2 else forget_removed fs F L w' fm2 (fh_id fh)
              | None \<Rightarrow> fm2);
             fm4 = touch_parent fs F L w' fm3 path
         in (Inr \<lparr>dci_before = before_change, dci_after = dir_change_attr fs w' fm4 parent,
                  dci_atomic = True\<rparr>, w', fm4))"

text \<open>
  The sweep deletes the pending files that nobody holds open any more. \<open>pending_deletes\<close> is a
  hash set; the list is its iteration order.
\<close>

fun sweep_ids ::
  "'w fs_ops \<Rightarrow> 'f fh_db_ops \<Rightarrow> 'l lock_db_ops \<Rightarrow> nfs_fh4 list \<Rightarrow> 'w \<Rightarrow> ('f, 'l) file_manager
    \<Rightarrow> 'w \<times> ('f, 'l) file_manager" where
  "sweep_ids fs F L [] w fm = (w, fm)"
| "sweep_ids fs F L (fid # fids) w fm =
    (let fm = fm\<lparr>fm_pending_deletes := removeAll fid (fm_pending_deletes fm)\<rparr> in
     case fdb_get_by_id F (fm_fhdb fm) fid of
       Some fh \<Rightarrow>
         let (_, w) = vfs_remove_file fs w (fh_file fh)
         in sweep_ids fs F L fids w (forget_file fs F L w fm fid)
     | None \<Rightarrow> sweep_ids fs F L fids w fm)"

definition sweep_pending_deletes ::
  "'w fs_ops \<Rightarrow> 'f fh_db_ops \<Rightarrow> 'l lock_db_ops \<Rightarrow> 'w \<Rightarrow> ('f, 'l) file_manager
    \<Rightarrow> 'w \<times> ('f, 'l) file_manager" where
  "sweep_pending_deletes fs F L w fm =
    sweep_ids fs F L (filter (\<lambda>fid. \<not> has_locks L fm fid) (fm_pending_deletes fm)) w fm"

definition filehandle_attrs ::
  "'w fs_ops \<Rightarrow> 'f fh_db_ops \<Rightarrow> 'l lock_db_ops \<Rightarrow> 'w \<Rightarrow> ('f, 'l) file_manager \<Rightarrow> file_attr list \<Rightarrow> nfs_fh4
    \<Rightarrow> (file_attr list \<times> file_attr_value list) option \<times> ('f, 'l) file_manager" where
  "filehandle_attrs fs F L w fm attr_request fid =
    (let (found, fm) = get_filehandle_by_id fs F L w fm fid in
     case found of
       None \<Rightarrow> (None, fm)
     | Some old_fh \<Rightarrow>
         let (fh, fm) =
           (case os_lstat fs w (real_path fm (fh_file old_fh)) of
              Some m \<Rightarrow>
                let refreshed = new_real (fh_file old_fh) (fh_id old_fh) (fm_fsid fm) (fm_fsid fm)
                                  (fh_version old_fh) m
                in (refreshed, fhdb_replace F (fhdb_remove F fm (fh_id old_fh)) refreshed)
            | None \<Rightarrow> (old_fh, fm))
         in (Some (answer_attrs (actor_attr_value (fm_config fm) fh) attr_request), fm))"

section \<open>Messages\<close>

datatype (plugins only: code size) file_manager_message =
    GetRootFilehandle
  | GetFilehandle "string option" "nfs_fh4 option"
  | GetFilehandleAttrs nfs_fh4 "file_attr list"
  | CreateFile string u64 bytes u32 u32 "bytes option"
  | CreateOpenState string u64 bytes u32 u32
  | RemoveFile string
  | TouchFile nfs_fh4
  | UpdateFilehandle filehandle
  | RenamePath string string string
  | LockFile nfs_fh4 u64 bytes nfs_lock_type4 u64 u64
  | UnlockFile bytes u64 u64
  | TestLock nfs_fh4 u64 bytes nfs_lock_type4 u64 u64
  | ReleaseLockOwner u64 bytes
  | OpenNamedAttrDir u64 bool
  | GrantDelegation nfs_fh4 u64 bool
  | ReturnDelegation nfs_fh4 stateid4
  | GetDelegation nfs_fh4
  | CloseFile bytes
  | GetWriteCacheHandle filehandle
  | DropWriteCacheHandle nfs_fh4

text \<open>What is sent back on the \<open>respond_to\<close> channel; \<open>Sent_nothing\<close> for messages without one.\<close>

datatype (plugins only: code size) file_manager_reply =
    Sent_nothing
  | Sent_unit
  | Sent_fh filehandle
  | Sent_fh_opt "filehandle option"
  | Sent_attrs "(file_attr list \<times> file_attr_value list) option"
  | Sent_open_state "locking_state option"
  | Sent_removed "(dir_change_info, nfs_stat4) result"
  | Sent_lock lock_result
  | Sent_unlock unlock_result
  | Sent_test test_lock_result
  | Sent_status nfs_stat4
  | Sent_stateid "stateid4 option"
  | Sent_delegation "delegation_state option"
  | Sent_cache nat "write_cache option"

definition handle_get_filehandle ::
  "'w fs_ops \<Rightarrow> 'f fh_db_ops \<Rightarrow> 'l lock_db_ops \<Rightarrow> 'w \<Rightarrow> ('f, 'l) file_manager
    \<Rightarrow> string option \<Rightarrow> nfs_fh4 option \<Rightarrow> filehandle option \<times> ('f, 'l) file_manager" where
  "handle_get_filehandle fs F L w fm path fid =
    (case (fid, path) of
       (Some fid, _) \<Rightarrow>
         let (fh, fm) = get_filehandle_by_id fs F L w fm fid in (map_option (attach_locks L fm) fh, fm)
     | (None, Some p) \<Rightarrow>
         (case vfs_join fs (fm_root fm) p of
            None \<Rightarrow> (None, fm)
          | Some p \<Rightarrow>
              if path_exists fs w fm p
              then let (fh, fm) = get_filehandle fs F L w fm p in (Some (attach_locks L fm fh), fm)
              else (None, fm))
     | (None, None) \<Rightarrow>
         let (fh, fm) = root_fh fs F L w fm in (Some (attach_locks L fm fh), fm))"

definition handle_create_file ::
  "'w fs_ops \<Rightarrow> 'f fh_db_ops \<Rightarrow> 'l lock_db_ops \<Rightarrow> 'w \<Rightarrow> ('f, 'l) file_manager
    \<Rightarrow> string \<Rightarrow> u64 \<Rightarrow> bytes \<Rightarrow> u32 \<Rightarrow> u32 \<Rightarrow> (filehandle option \<times> 'w \<times> ('f, 'l) file_manager) option" where
  "handle_create_file fs F L w fm path client_id owner share_access share_deny =
    (case create_file fs F L w fm path of
       (None, w, fm) \<Rightarrow> Some (None, w, fm)
     | (Some fh, w, fm) \<Rightarrow>
         map_option (\<lambda>(lock, fm). (Some (fh\<lparr>fh_locks := [lock]\<rparr>), w, fm))
           (add_open_state L fm (fh_id fh) client_id owner share_access share_deny))"

definition handle_create_open_state ::
  "'w fs_ops \<Rightarrow> 'f fh_db_ops \<Rightarrow> 'l lock_db_ops \<Rightarrow> 'w \<Rightarrow> ('f, 'l) file_manager
    \<Rightarrow> string \<Rightarrow> u64 \<Rightarrow> bytes \<Rightarrow> u32 \<Rightarrow> u32 \<Rightarrow> (locking_state \<times> ('f, 'l) file_manager) option" where
  "handle_create_open_state fs F L w fm path client_id owner share_access share_deny =
    (let (fh, fm) = get_filehandle fs F L w fm path
     in add_open_state L fm (fh_id fh) client_id owner share_access share_deny)"

definition handle_touch_file ::
  "'w fs_ops \<Rightarrow> 'f fh_db_ops \<Rightarrow> 'l lock_db_ops \<Rightarrow> 'w \<Rightarrow> ('f, 'l) file_manager \<Rightarrow> nfs_fh4
    \<Rightarrow> ('f, 'l) file_manager" where
  "handle_touch_file fs F L w fm fid =
    (let (fh, fm) = get_filehandle_by_id fs F L w fm fid in
     case fh of Some fh \<Rightarrow> touch_filehandle fs F w fm fh | None \<Rightarrow> fm)"

text \<open>
  The dispatcher; \<open>chan\<close> is the channel of a write cache it may start. \<open>None\<close> is a panic.
\<close>

definition handle_message ::
  "'w fs_ops \<Rightarrow> 'f fh_db_ops \<Rightarrow> 'l lock_db_ops \<Rightarrow> nat \<Rightarrow> 'w \<Rightarrow> ('f, 'l) file_manager
    \<Rightarrow> file_manager_message \<Rightarrow> (file_manager_reply \<times> 'w \<times> ('f, 'l) file_manager) option" where
  "handle_message fs F L chan w fm msg = (case msg of
      GetRootFilehandle \<Rightarrow>
        let (fh, fm) = root_fh fs F L w fm in Some (Sent_fh (attach_locks L fm fh), w, fm)
    | GetFilehandle path fid \<Rightarrow>
        let (fh, fm) = handle_get_filehandle fs F L w fm path fid in Some (Sent_fh_opt fh, w, fm)
    | GetFilehandleAttrs fid req \<Rightarrow>
        let (r, fm) = filehandle_attrs fs F L w fm req fid in Some (Sent_attrs r, w, fm)
    | CreateFile path cid owner access deny verifier \<Rightarrow>
        map_option (\<lambda>(fh, w, fm). (Sent_fh_opt fh, w, fm))
          (handle_create_file fs F L w fm path cid owner access deny)
    | CreateOpenState path cid owner access deny \<Rightarrow>
        map_option (\<lambda>(lock, fm). (Sent_open_state (Some lock), w, fm))
          (handle_create_open_state fs F L w fm path cid owner access deny)
    | RemoveFile path \<Rightarrow>
        let (r, w, fm) = remove_file fs F L w fm path in Some (Sent_removed r, w, fm)
    | TouchFile fid \<Rightarrow> Some (Sent_nothing, w, handle_touch_file fs F L w fm fid)
    | UpdateFilehandle fh \<Rightarrow> Some (Sent_nothing, w, update_filehandle F fm fh)
    | RenamePath old_path new_path new_vfs_path \<Rightarrow>
        Some (Sent_unit, w, handle_rename_path fs F w fm old_path new_vfs_path)
    | LockFile fid cid owner t offset len \<Rightarrow>
        map_option (\<lambda>(r, fm). (Sent_lock r, w, fm)) (handle_lock L fm fid cid owner t offset len)
    | UnlockFile sid offset len \<Rightarrow>
        let (r, fm) = handle_unlock L fm sid offset len in Some (Sent_unlock r, w, fm)
    | TestLock fid cid owner t offset len \<Rightarrow>
        Some (Sent_test (handle_test_lock L fm fid cid owner t offset len), w, fm)
    | ReleaseLockOwner cid owner \<Rightarrow>
        let (r, fm) = handle_release_lock_owner L fm cid owner in Some (Sent_status r, w, fm)
    | OpenNamedAttrDir fileid createdir \<Rightarrow>
        let (fh, w, fm) = open_named_attr_dir fs F L w fm fileid createdir
        in Some (Sent_fh_opt fh, w, fm)
    | GrantDelegation fid cid is_write \<Rightarrow>
        let (r, fm) = grant_delegation fm fid cid is_write in Some (Sent_stateid r, w, fm)
    | ReturnDelegation fid sid \<Rightarrow>
        let (r, fm) = return_delegation fm fid sid in Some (Sent_status r, w, fm)
    | GetDelegation fid \<Rightarrow> Some (Sent_delegation (fm_delegations fm fid), w, fm)
    | CloseFile sid \<Rightarrow> Some (Sent_unit, w, handle_close L fm sid)
    | GetWriteCacheHandle fh \<Rightarrow>
        let ((c, wc), w, fm) = get_cache_handle fs F chan w fm fh in Some (Sent_cache c wc, w, fm)
    | DropWriteCacheHandle fid \<Rightarrow> Some (Sent_nothing, w, drop_cache_handle fs F L w fm fid))"

section \<open>The write cache actor\<close>

datatype write_cache_message = Write u64 bytes | Commit

text \<open>The second component of the result are the messages sent to the file manager.\<close>

definition write_cache_handle_message ::
  "'w fs_ops \<Rightarrow> 'w \<Rightarrow> write_cache \<Rightarrow> write_cache_message
    \<Rightarrow> write_cache \<times> file_manager_message list \<times> 'w" where
  "write_cache_handle_message fs w wc msg = (case msg of
      Write offset dat \<Rightarrow>
        (case wc_file wc of
           Some fd \<Rightarrow>
             (case os_write_all_at fs w fd dat offset of
                (True, w) \<Rightarrow> (wc\<lparr>wc_dirty := True\<rparr>, [], w)
              | (False, w) \<Rightarrow> (wc, [], w))
         | None \<Rightarrow>
             (case vfs_append_write fs w (fh_file (wc_filehandle wc)) offset dat of
                (Some _, w) \<Rightarrow> (wc\<lparr>wc_dirty := True\<rparr>, [], w)
              | (None, w) \<Rightarrow> (wc, [], w)))
    | Commit \<Rightarrow>
        let fid = fh_id (wc_filehandle wc) in
        if wc_dirty wc
        then
          let w = (case wc_file wc of Some fd \<Rightarrow> snd (os_sync_all fs w fd) | None \<Rightarrow> w)
          in (wc\<lparr>wc_dirty := False\<rparr>, [TouchFile fid, DropWriteCacheHandle fid], w)
        else (wc, [DropWriteCacheHandle fid], w))"

end
