(* ===== verification/ExportManager.thy ===== *)
theory ExportManager
  imports AccessControl Qos FileManagerActor
begin

text \<open>
  The \<open>ExportManager\<close> actor (\<open>export_manager.rs\<close>): the exports by name and by id, and the
  objects an export shares with the requests that use it. The \<open>Arc\<close>s of an \<open>ExportInfo\<close> and
  the handle of its \<open>FileManager\<close> actor are references to shared state; here they are the export
  id, which is never reused, and \<open>em_objs\<close> and \<open>em_actors\<close> are the store they point into.
  Removing an export drops it from the tables; its shared objects live on for the requests that
  still hold them. A hash map is an association list in its iteration order.
\<close>

record export_info =
  ei_export_id :: u8
  ei_name :: string
  ei_path :: string
  ei_read_only :: bool

text \<open>The objects behind the \<open>Arc\<close>s of an \<open>ExportInfo\<close>.\<close>

record export_objs =
  eo_stats :: export_stats
  eo_rate_limiter :: rate_limiter
  eo_quota_manager :: quota_manager
  eo_access_control :: access_control

record ('fdb, 'ldb) export_manager =
  em_exports :: "(string \<times> export_info) list"
  em_export_by_id :: "u8 \<rightharpoonup> string"
  em_next_export_id :: u8
  em_objs :: "u8 \<rightharpoonup> export_objs"
  em_actors :: "u8 \<rightharpoonup> ('fdb, 'ldb) file_manager"

text \<open>
  What an export needs of the operating system: \<open>canonicalize\<close>, \<open>is_dir\<close>, and the
  filesystem below a directory (\<open>AltrootFS\<close> over \<open>PhysicalFS\<close>).
\<close>

record 'w export_env =
  ee_canonicalize :: "'w \<Rightarrow> string \<Rightarrow> string option"
  ee_is_dir :: "'w \<Rightarrow> string \<Rightarrow> bool"
  ee_fs :: "string \<Rightarrow> 'w fs_ops"
  ee_instant :: "'w \<Rightarrow> real"

text \<open>The error texts of the actor, by what they report.\<close>

datatype export_error =
    Export_exists string
  | Max_exports_reached
  | Path_missing string
  | Not_a_directory string
  | Export_not_found string

definition export_manager_new :: "('f, 'l) export_manager" where
  "export_manager_new = \<lparr>em_exports = [], em_export_by_id = Map.empty, em_next_export_id = 1,
     em_objs = Map.empty, em_actors = Map.empty\<rparr>"

definition export_objs_new :: "real \<Rightarrow> export_objs" where
  "export_objs_new now = \<lparr>eo_stats = export_stats_new,
     eo_rate_limiter = rate_limiter_new now qos_config_default,
     eo_quota_manager = quota_manager_new quota_config_default,
     eo_access_control = access_control_new access_config_default\<rparr>"

definition add_export ::
  "'w export_env \<Rightarrow> 'f fh_db_ops \<Rightarrow> 'l lock_db_ops \<Rightarrow> 'w \<Rightarrow> ('f, 'l) export_manager
    \<Rightarrow> string \<Rightarrow> string \<Rightarrow> bool \<Rightarrow> (export_info, export_error) result \<times> ('f, 'l) export_manager" where
  "add_export E F L w em name path read_only =
    (if map_of (em_exports em) name \<noteq> None then (Inl (Export_exists name), em)
     else if em_next_export_id em \<ge> 0xFE then (Inl Max_exports_reached, em)
     else
       case ee_canonicalize E w path of
         None \<Rightarrow> (Inl (Path_missing path), em)
       | Some canonical \<Rightarrow>
           if \<not> ee_is_dir E w canonical then (Inl (Not_a_directory canonical), em)
           else
             let export_id = em_next_export_id em;
                 file_manager = file_manager_new (ee_fs E canonical) F L w [] (Some (ucast export_id)) canonical;
                 info = \<lparr>ei_export_id = export_id, ei_name = name, ei_path = canonical,
                         ei_read_only = read_only\<rparr>
             in (Inr info,
                 em\<lparr>em_next_export_id := export_id + 1,
                    em_exports := (name, info) # em_exports em,
                    em_export_by_id := (em_export_by_id em)(export_id \<mapsto> name),
                    em_objs := (em_objs em)(export_id \<mapsto> export_objs_new (ee_instant E w)),
                    em_actors := (em_actors em)(export_id \<mapsto> file_manager)\<rparr>))"

definition remove_export ::
  "('f, 'l) export_manager \<Rightarrow> string \<Rightarrow> (unit, export_error) result \<times> ('f, 'l) export_manager" where
  "remove_export em name =
    (case map_of (em_exports em) name of
       Some info \<Rightarrow>
         (Inr (), em\<lparr>em_exports := filter (\<lambda>e. fst e \<noteq> name) (em_exports em),
                     em_export_by_id := (em_export_by_id em)(ei_export_id info := None)\<rparr>)
     | None \<Rightarrow> (Inl (Export_not_found name), em))"

definition list_exports :: "('f, 'l) export_manager \<Rightarrow> export_info list" where
  "list_exports em = map snd (em_exports em)"

text \<open>The info and the file manager handle, which is the export id.\<close>

definition get_export_by_id :: "('f, 'l) export_manager \<Rightarrow> u8 \<Rightarrow> export_info option" where
  "get_export_by_id em export_id =
    (case em_export_by_id em export_id of
       Some name \<Rightarrow> map_of (em_exports em) name
     | None \<Rightarrow> None)"

definition get_export_by_name :: "('f, 'l) export_manager \<Rightarrow> string \<Rightarrow> export_info option" where
  "get_export_by_name em name = map_of (em_exports em) name"

text \<open>Change the shared objects of the export with this name.\<close>

definition update_objs ::
  "('f, 'l) export_manager \<Rightarrow> u8 \<Rightarrow> (export_objs \<Rightarrow> export_objs) \<Rightarrow> ('f, 'l) export_manager" where
  "update_objs em export_id f = em\<lparr>em_objs := (em_objs em)(export_id := map_option f (em_objs em export_id))\<rparr>"

definition set_by_name ::
  "('f, 'l) export_manager \<Rightarrow> string \<Rightarrow> (export_objs \<Rightarrow> export_objs)
    \<Rightarrow> (unit, export_error) result \<times> ('f, 'l) export_manager" where
  "set_by_name em name f =
    (case map_of (em_exports em) name of
       Some info \<Rightarrow> (Inr (), update_objs em (ei_export_id info) f)
     | None \<Rightarrow> (Inl (Export_not_found name), em))"

definition get_by_name :: "('f, 'l) export_manager \<Rightarrow> string \<Rightarrow> (export_objs \<Rightarrow> 'a) \<Rightarrow> 'a option" where
  "get_by_name em name f =
    (case map_of (em_exports em) name of
       Some info \<Rightarrow> map_option f (em_objs em (ei_export_id info))
     | None \<Rightarrow> None)"

section \<open>Messages\<close>

text \<open>
  \<open>SetQos\<close> and \<open>GetQos\<close> work in a task of their own that takes the limiter's lock; here they
  take effect with the message.
\<close>

datatype (plugins only: code size) export_manager_message =
    AddExport string string bool
  | RemoveExport string
  | ListExports
  | GetExportById u8
  | GetExportByName string
  | SetQos string qos_config
  | GetQos string
  | SetQuota string quota_config
  | GetQuota string
  | SetAccess string access_config
  | GetAccess string

datatype (plugins only: code size) export_manager_reply =
    Export_added "(export_info, export_error) result"
  | Export_done "(unit, export_error) result"
  | Export_list "export_info list"
  | Export_found "export_info option"
  | Export_qos "qos_config option"
  | Export_quota "quota_config option"
  | Export_access "access_config option"

definition em_handle_message ::
  "'w export_env \<Rightarrow> 'f fh_db_ops \<Rightarrow> 'l lock_db_ops \<Rightarrow> 'w \<Rightarrow> ('f, 'l) export_manager
    \<Rightarrow> export_manager_message \<Rightarrow> export_manager_reply \<times> ('f, 'l) export_manager" where
  "em_handle_message E F L w em msg = (case msg of
      AddExport name path read_only \<Rightarrow>
        let (r, em) = add_export E F L w em name path read_only in (Export_added r, em)
    | RemoveExport name \<Rightarrow> let (r, em) = remove_export em name in (Export_done r, em)
    | ListExports \<Rightarrow> (Export_list (list_exports em), em)
    | GetExportById export_id \<Rightarrow> (Export_found (get_export_by_id em export_id), em)
    | GetExportByName name \<Rightarrow> (Export_found (get_export_by_name em name), em)
    | SetQos name config \<Rightarrow>
        let (r, em) = set_by_name em name
          (\<lambda>ob. ob\<lparr>eo_rate_limiter := qos_update_config (ee_instant E w) config (eo_rate_limiter ob)\<rparr>)
        in (Export_done r, em)
    | GetQos name \<Rightarrow> (Export_qos (get_by_name em name (\<lambda>ob. rl_config (eo_rate_limiter ob))), em)
    | SetQuota name config \<Rightarrow>
        let (r, em) = set_by_name em name
          (\<lambda>ob. ob\<lparr>eo_quota_manager := quota_update_config (eo_quota_manager ob) config\<rparr>)
        in (Export_done r, em)
    | GetQuota name \<Rightarrow> (Export_quota (get_by_name em name (\<lambda>ob. qm_config (eo_quota_manager ob))), em)
    | SetAccess name config \<Rightarrow>
        let (r, em) = set_by_name em name
          (\<lambda>ob. ob\<lparr>eo_access_control := access_update_config (eo_access_control ob) config\<rparr>)
        in (Export_done r, em)
    | GetAccess name \<Rightarrow> (Export_access (get_by_name em name (\<lambda>ob. acl_config (eo_access_control ob))), em))"

end
