(* ===== verification/ClientManager.thy ===== *)
theory ClientManager
  imports MultiIndex Nfs4_Types
begin

text \<open>
  The client manager actor (\<open>server/clientmanager.rs\<close>): SETCLIENTID and
  SETCLIENTID\_CONFIRM records, lease renewal, the sweep that turns expired clients into courtesy
  clients and later purges them, and the restoration of clients from a snapshot
  (\<open>server/state_recovery.rs\<close>). A handler returns \<open>None\<close> where the code panics (an insertion
  with a token that is taken), together with the state at that point: the actor catches the panic
  and goes on, and the caller gets SERVERFAULT. Time is a monotonic clock in nanoseconds, read
  once per message; the random confirmation token is an argument.
\<close>

section \<open>State\<close>

record client_callback =
  cb_program :: u32
  cb_rnetid :: string
  cb_raddr :: string
  cb_callback_ident :: u32

record client_entry =
  ce_principal :: "string option"
  ce_verifier :: bytes
  ce_id :: string
  ce_clientid :: u64
  ce_callback :: client_callback
  ce_setclientid_confirm :: bytes
  ce_confirmed :: bool
  ce_last_renewed :: nat
  ce_courtesy :: bool

record client_snapshot =
  csn_principal :: "string option"
  csn_verifier :: bytes
  csn_id :: string
  csn_clientid :: u64
  csn_callback_program :: u32
  csn_callback_rnetid :: string
  csn_callback_raddr :: string
  csn_callback_ident :: u32
  csn_confirmed :: bool

record 'db client_db_ops =
  cdb_default :: 'db
  cdb_iter :: "'db \<Rightarrow> client_entry list"
  cdb_insert :: "'db \<Rightarrow> client_entry \<Rightarrow> 'db option"
  cdb_get_by_confirm :: "'db \<Rightarrow> bytes \<Rightarrow> client_entry option"
  cdb_remove_by_confirm :: "'db \<Rightarrow> bytes \<Rightarrow> client_entry option \<times> 'db"
  cdb_get_by_id :: "'db \<Rightarrow> string \<Rightarrow> client_entry list"
  cdb_remove_by_id :: "'db \<Rightarrow> string \<Rightarrow> 'db"
  cdb_get_by_clientid :: "'db \<Rightarrow> u64 \<Rightarrow> client_entry list"
  cdb_remove_by_clientid :: "'db \<Rightarrow> u64 \<Rightarrow> 'db"

record 'db client_manager =
  cm_db :: 'db
  cm_client_id_seq :: u64
  cm_filehandles :: "string \<rightharpoonup> bytes"
  cm_lease_time :: u64

definition client_manager_new :: "'db client_db_ops \<Rightarrow> 'db client_manager" where
  "client_manager_new C = \<lparr>cm_db = cdb_default C, cm_client_id_seq = 0,
     cm_filehandles = Map.empty, cm_lease_time = 90\<rparr>"

definition get_next_client_id :: "'db client_manager \<Rightarrow> u64 \<times> 'db client_manager" where
  "get_next_client_id cm =
    (let n = cm_client_id_seq cm + 1 in (n, cm\<lparr>cm_client_id_seq := n\<rparr>))"

definition set_current_fh :: "'db client_manager \<Rightarrow> string \<Rightarrow> bytes \<Rightarrow> 'db client_manager" where
  "set_current_fh cm client_addr fh = cm\<lparr>cm_filehandles := (cm_filehandles cm)(client_addr \<mapsto> fh)\<rparr>"

text \<open>Seconds since the last renewal; \<open>duration_since\<close> saturates at zero.\<close>

definition elapsed_secs :: "nat \<Rightarrow> client_entry \<Rightarrow> nat" where
  "elapsed_secs now e = (now - ce_last_renewed e) div 10 ^ 9"

text \<open>The pattern \<open>remove, mutate, re-insert\<close> over a list of entries.\<close>

fun modify_entries ::
  "'db client_db_ops \<Rightarrow> (client_entry \<Rightarrow> client_entry) \<Rightarrow> client_entry list \<Rightarrow> 'db \<Rightarrow> unit option \<times> 'db" where
  "modify_entries C f [] db = (Some (), db)"
| "modify_entries C f (entry # entries) db =
    (case cdb_remove_by_confirm C db (ce_setclientid_confirm entry) of
       (None, db) \<Rightarrow> modify_entries C f entries db
     | (Some e, db) \<Rightarrow>
         (case cdb_insert C db (f e) of
            None \<Rightarrow> (None, db)
          | Some db \<Rightarrow> modify_entries C f entries db))"

section \<open>SETCLIENTID\<close>

definition add_client_record ::
  "'db client_db_ops \<Rightarrow> nat \<Rightarrow> bytes \<Rightarrow> 'db client_manager \<Rightarrow> bytes \<Rightarrow> string \<Rightarrow> client_callback
    \<Rightarrow> string option \<Rightarrow> u64 option \<Rightarrow> client_entry option \<times> 'db client_manager" where
  "add_client_record C now token cm verifier cid callback prin client_id =
    (let (client_id, cm) =
           (case client_id of Some c \<Rightarrow> (c, cm) | None \<Rightarrow> get_next_client_id cm);
         client = \<lparr>ce_principal = prin, ce_verifier = verifier, ce_id = cid,
           ce_clientid = client_id, ce_callback = callback, ce_setclientid_confirm = token,
           ce_confirmed = False, ce_last_renewed = now, ce_courtesy = False\<rparr>
     in case cdb_insert C (cm_db cm) client of
          None \<Rightarrow> (None, cm)
        | Some db \<Rightarrow> (Some client, cm\<lparr>cm_db := db\<rparr>))"

text \<open>
  The scan of the records with the same id string: an error, or the unconfirmed records to
  remove and the client id to reuse.
\<close>

fun scan_same_id ::
  "string option \<Rightarrow> client_entry list \<Rightarrow> client_entry list \<Rightarrow> u64 option
    \<Rightarrow> (client_entry list \<times> u64 option, nfs_stat4) result" where
  "scan_same_id prin [] to_remove existing = Inr (to_remove, existing)"
| "scan_same_id prin (entry # entries) to_remove existing =
    (if ce_confirmed entry \<and> ce_principal entry \<noteq> prin then Inl Nfs4errClidInuse
     else scan_same_id prin entries
       (if ce_confirmed entry then to_remove else to_remove @ [entry]) (Some (ce_clientid entry)))"

definition remove_tokens :: "'db client_db_ops \<Rightarrow> client_entry list \<Rightarrow> 'db \<Rightarrow> 'db" where
  "remove_tokens C es db =
    foldl (\<lambda>db e. snd (cdb_remove_by_confirm C db (ce_setclientid_confirm e))) db es"

definition upsert_client ::
  "'db client_db_ops \<Rightarrow> nat \<Rightarrow> bytes \<Rightarrow> 'db client_manager \<Rightarrow> bytes \<Rightarrow> string \<Rightarrow> client_callback
    \<Rightarrow> string option \<Rightarrow> (client_entry, nfs_stat4) result option \<times> 'db client_manager" where
  "upsert_client C now token cm verifier cid callback prin =
    (case scan_same_id prin (cdb_get_by_id C (cm_db cm) cid) [] None of
       Inl e \<Rightarrow> (Some (Inl e), cm)
     | Inr (to_remove, existing_clientid) \<Rightarrow>
         let cm = cm\<lparr>cm_db := remove_tokens C to_remove (cm_db cm)\<rparr>;
             (r, cm) = add_client_record C now token cm verifier cid callback prin existing_clientid
         in (map_option Inr r, cm))"

section \<open>SETCLIENTID\_CONFIRM\<close>

fun scan_confirm ::
  "string option \<Rightarrow> bytes \<Rightarrow> client_entry list \<Rightarrow> client_entry option \<Rightarrow> client_entry option
    \<Rightarrow> (client_entry option \<times> client_entry option, nfs_stat4) result" where
  "scan_confirm prin token [] old_confirmed new_confirmed = Inr (old_confirmed, new_confirmed)"
| "scan_confirm prin token (entry # entries) old_confirmed new_confirmed =
    (if ce_principal entry \<noteq> prin then Inl Nfs4errClidInuse
     else scan_confirm prin token entries
       (if ce_confirmed entry \<and> ce_setclientid_confirm entry \<noteq> token then Some entry else old_confirmed)
       (if ce_setclientid_confirm entry = token then Some (entry\<lparr>ce_confirmed := True\<rparr>) else new_confirmed))"

definition confirm_client ::
  "'db client_db_ops \<Rightarrow> 'db client_manager \<Rightarrow> u64 \<Rightarrow> bytes \<Rightarrow> string option
    \<Rightarrow> (client_entry, nfs_stat4) result option \<times> 'db client_manager" where
  "confirm_client C cm client_id token prin =
    (let entries = cdb_get_by_clientid C (cm_db cm) client_id in
     if entries = [] then (Some (Inl Nfs4errStaleClientid), cm)
     else case scan_confirm prin token entries None None of
       Inl e \<Rightarrow> (Some (Inl e), cm)
     | Inr (old_confirmed, new_confirmed) \<Rightarrow>
         let db = (case old_confirmed of
                     Some old \<Rightarrow> snd (cdb_remove_by_confirm C (cm_db cm) (ce_setclientid_confirm old))
                   | None \<Rightarrow> cm_db cm)
         in case new_confirmed of
              None \<Rightarrow> (Some (Inl Nfs4errStaleClientid), cm\<lparr>cm_db := db\<rparr>)
            | Some new \<Rightarrow>
                (case cdb_remove_by_confirm C db (ce_setclientid_confirm new) of
                   (None, db) \<Rightarrow> (Some (Inr new), cm\<lparr>cm_db := db\<rparr>)
                 | (Some entry, db) \<Rightarrow>
                     let entry = entry\<lparr>ce_confirmed := True\<rparr>
                     in case cdb_insert C db entry of
                          None \<Rightarrow> (None, cm\<lparr>cm_db := db\<rparr>)
                        | Some db \<Rightarrow> (Some (Inr entry), cm\<lparr>cm_db := db\<rparr>)))"

section \<open>Leases\<close>

definition renew_leases ::
  "'db client_db_ops \<Rightarrow> nat \<Rightarrow> 'db client_manager \<Rightarrow> u64
    \<Rightarrow> (unit, nfs_stat4) result option \<times> 'db client_manager" where
  "renew_leases C now cm client_id =
    (let entries = cdb_get_by_clientid C (cm_db cm) client_id in
     if entries = [] then (Some (Inl Nfs4errStaleClientid), cm)
     else if \<exists>e \<in> set entries. ce_confirmed e \<and> ce_courtesy e \<and>
               elapsed_secs now e > unat (cm_lease_time cm * 2)
     then (Some (Inl Nfs4errExpired), cm)
     else
       let (r, db) = modify_entries C (\<lambda>e. e\<lparr>ce_last_renewed := now, ce_courtesy := False\<rparr>) entries (cm_db cm)
       in (map_option Inr r, cm\<lparr>cm_db := db\<rparr>))"

fun classify_leases ::
  "nat \<Rightarrow> u64 \<Rightarrow> client_entry list \<Rightarrow> u64 list \<times> u64 list" where
  "classify_leases now lease_time [] = ([], [])"
| "classify_leases now lease_time (entry # entries) =
    (let (courtesy, expired) = classify_leases now lease_time entries in
     if \<not> ce_confirmed entry then (courtesy, expired)
     else if elapsed_secs now entry \<ge> unat lease_time \<and> \<not> ce_courtesy entry
       then (ce_clientid entry # courtesy, expired)
     else if ce_courtesy entry \<and> elapsed_secs now entry \<ge> unat (lease_time * 2)
       then (courtesy, ce_clientid entry # expired)
     else (courtesy, expired))"

fun mark_courtesy :: "'db client_db_ops \<Rightarrow> u64 list \<Rightarrow> 'db \<Rightarrow> unit option \<times> 'db" where
  "mark_courtesy C [] db = (Some (), db)"
| "mark_courtesy C (cid # cids) db =
    (case modify_entries C (\<lambda>e. e\<lparr>ce_courtesy := True\<rparr>) (cdb_get_by_clientid C db cid) db of
       (None, db) \<Rightarrow> (None, db)
     | (Some _, db) \<Rightarrow> mark_courtesy C cids db)"

definition sweep_leases ::
  "'db client_db_ops \<Rightarrow> nat \<Rightarrow> 'db client_manager \<Rightarrow> u64 list option \<times> 'db client_manager" where
  "sweep_leases C now cm =
    (let (courtesy_clients, expired_clients) =
           classify_leases now (cm_lease_time cm) (cdb_iter C (cm_db cm))
     in case mark_courtesy C courtesy_clients (cm_db cm) of
          (None, db) \<Rightarrow> (None, cm\<lparr>cm_db := db\<rparr>)
        | (Some _, db) \<Rightarrow>
            (Some expired_clients,
             cm\<lparr>cm_db := foldl (cdb_remove_by_clientid C) db expired_clients\<rparr>))"

definition is_courtesy_client :: "'db client_db_ops \<Rightarrow> 'db client_manager \<Rightarrow> u64 \<Rightarrow> bool" where
  "is_courtesy_client C cm client_id \<longleftrightarrow>
    (\<exists>e \<in> set (cdb_get_by_clientid C (cm_db cm) client_id). ce_courtesy e)"

definition revoke_courtesy_client :: "'db client_db_ops \<Rightarrow> 'db client_manager \<Rightarrow> u64 \<Rightarrow> 'db client_manager" where
  "revoke_courtesy_client C cm client_id = cm\<lparr>cm_db := cdb_remove_by_clientid C (cm_db cm) client_id\<rparr>"

definition remove_client :: "'db client_db_ops \<Rightarrow> 'db client_manager \<Rightarrow> u64 \<Rightarrow> 'db client_manager" where
  "remove_client C cm client_id = cm\<lparr>cm_db := cdb_remove_by_clientid C (cm_db cm) client_id\<rparr>"

definition get_record_count :: "'db client_db_ops \<Rightarrow> 'db client_manager \<Rightarrow> nat" where
  "get_record_count C cm = length (cdb_iter C (cm_db cm))"

definition get_client_confirmed :: "'db client_db_ops \<Rightarrow> 'db client_manager \<Rightarrow> u64 \<Rightarrow> client_entry option" where
  "get_client_confirmed C cm clientid = find ce_confirmed (cdb_get_by_clientid C (cm_db cm) clientid)"

section \<open>Recovery\<close>

definition snapshot_entry :: "nat \<Rightarrow> bytes \<Rightarrow> client_snapshot \<Rightarrow> client_entry" where
  "snapshot_entry now token snap =
    \<lparr>ce_principal = csn_principal snap, ce_verifier = csn_verifier snap, ce_id = csn_id snap,
     ce_clientid = csn_clientid snap,
     ce_callback = \<lparr>cb_program = csn_callback_program snap, cb_rnetid = csn_callback_rnetid snap,
       cb_raddr = csn_callback_raddr snap, cb_callback_ident = csn_callback_ident snap\<rparr>,
     ce_setclientid_confirm = token, ce_confirmed = True, ce_last_renewed = now, ce_courtesy = False\<rparr>"

text \<open>
  \<open>tokens\<close> are the random tokens in the order they are drawn; the count is lost if an
  insertion panics.
\<close>

fun restore_clients ::
  "'db client_db_ops \<Rightarrow> nat \<Rightarrow> (nat \<Rightarrow> bytes) \<Rightarrow> client_snapshot list \<Rightarrow> 'db client_manager \<Rightarrow> nat
    \<Rightarrow> nat option \<times> 'db client_manager" where
  "restore_clients C now tokens [] cm n = (Some n, cm)"
| "restore_clients C now tokens (snap # snaps) cm n =
    (if \<not> csn_confirmed snap then restore_clients C now tokens snaps cm n
     else
       let cm = (if csn_clientid snap \<ge> cm_client_id_seq cm
                 then cm\<lparr>cm_client_id_seq := csn_clientid snap + 1\<rparr> else cm)
       in case cdb_insert C (cm_db cm) (snapshot_entry now (tokens n) snap) of
            None \<Rightarrow> (None, cm)
          | Some db \<Rightarrow> restore_clients C now tokens snaps (cm\<lparr>cm_db := db\<rparr>) (n + 1))"

section \<open>Messages\<close>

datatype (plugins only: code size) client_manager_message =
    UpsertClient bytes string client_callback "string option"
  | ConfirmClient u64 bytes "string option"
  | SetCurrentFilehandle string bytes
  | RenewLeases u64
  | SweepLeases
  | IsCourtesyClient u64
  | RevokeCourtesyClient u64
  | GetAllClients
  | RestoreClients "client_snapshot list"

datatype (plugins only: code size) client_manager_reply =
    Client_entry "(client_entry, nfs_stat4) result"
  | Client_renewed "(unit, nfs_stat4) result"
  | Client_ids "u64 list"
  | Client_bool bool
  | Client_entries "client_entry list"
  | Client_count nat
  | Client_nothing

text \<open>\<open>tokens\<close> are the random tokens the handler draws; \<open>None\<close> is a caught panic.\<close>

definition cm_handle_message ::
  "'db client_db_ops \<Rightarrow> nat \<Rightarrow> (nat \<Rightarrow> bytes) \<Rightarrow> 'db client_manager \<Rightarrow> client_manager_message
    \<Rightarrow> client_manager_reply option \<times> 'db client_manager" where
  "cm_handle_message C now tokens cm msg = (case msg of
      UpsertClient verifier cid callback prin \<Rightarrow>
        apfst (map_option Client_entry)
          (upsert_client C now (tokens 0) cm verifier cid callback prin)
    | ConfirmClient client_id token prin \<Rightarrow>
        apfst (map_option Client_entry) (confirm_client C cm client_id token prin)
    | SetCurrentFilehandle addr fh \<Rightarrow> (Some Client_nothing, set_current_fh cm addr fh)
    | RenewLeases client_id \<Rightarrow> apfst (map_option Client_renewed) (renew_leases C now cm client_id)
    | SweepLeases \<Rightarrow> apfst (map_option Client_ids) (sweep_leases C now cm)
    | IsCourtesyClient client_id \<Rightarrow> (Some (Client_bool (is_courtesy_client C cm client_id)), cm)
    | RevokeCourtesyClient client_id \<Rightarrow> (Some Client_nothing, revoke_courtesy_client C cm client_id)
    | GetAllClients \<Rightarrow> (Some (Client_entries (filter ce_confirmed (cdb_iter C (cm_db cm)))), cm)
    | RestoreClients snaps \<Rightarrow> apfst (map_option Client_count) (restore_clients C now tokens snaps cm 0))"

end
