(* ===== verification/Sessions.thy ===== *)
theory Sessions
  imports Nfs4_Types
begin

text \<open>
  The session manager of NFSv4.1 (\<open>server/nfs41.rs\<close>). The hash map of sessions is an association
  list with distinct keys; each operation holds its lock, so operations are atomic.
\<close>

type_synonym session_id = bytes

record slot_state =
  sl_sequence_id :: u32
  sl_cached_reply :: "bytes option"

record channel_attrs =
  ch_max_request_size :: u32
  ch_max_response_size :: u32
  ch_max_ops :: u32
  ch_max_requests :: u32

record session =
  ss_id :: session_id
  ss_client_id :: u64
  ss_slots :: "slot_state list"
  ss_fore_channel_attrs :: channel_attrs
  ss_bound_connections :: "string set"

record session_manager =
  sm_sessions :: "(session_id \<times> session) list"
  sm_next_client_id :: u64

definition slot_state_default :: slot_state where
  "slot_state_default = \<lparr>sl_sequence_id = 0, sl_cached_reply = None\<rparr>"

definition channel_attrs_default :: channel_attrs where
  "channel_attrs_default = \<lparr>ch_max_request_size = 1048576, ch_max_response_size = 1048576,
     ch_max_ops = 64, ch_max_requests = 64\<rparr>"

definition session_manager_new :: session_manager where
  "session_manager_new = \<lparr>sm_sessions = [], sm_next_client_id = 1\<rparr>"

definition allocate_client_id :: "session_manager \<Rightarrow> u64 \<times> session_manager" where
  "allocate_client_id sm = (sm_next_client_id sm, sm\<lparr>sm_next_client_id := sm_next_client_id sm + 1\<rparr>)"

text \<open>Insertion into a map: the entry replaces one with the same key.\<close>

definition map_insert :: "'k \<Rightarrow> 'v \<Rightarrow> ('k \<times> 'v) list \<Rightarrow> ('k \<times> 'v) list" where
  "map_insert k v m = (k, v) # filter (\<lambda>e. fst e \<noteq> k) m"

definition session_id_of :: "u64 \<Rightarrow> nat \<Rightarrow> session_id" where
  "session_id_of client_id n = be_bytes 8 client_id @ be_bytes 8 (of_nat n :: u64)"

text \<open>
  The code reads the number of sessions under a read lock and inserts under a write lock taken
  after it; here that is one step.
\<close>

definition create_session :: "u64 \<Rightarrow> u32 \<Rightarrow> session_manager \<Rightarrow> session \<times> session_manager" where
  "create_session client_id max_slots sm =
    (let s = \<lparr>ss_id = session_id_of client_id (length (sm_sessions sm)), ss_client_id = client_id,
           ss_slots = replicate (unat max_slots) slot_state_default,
           ss_fore_channel_attrs = channel_attrs_default, ss_bound_connections = {}\<rparr>
     in (s, sm\<lparr>sm_sessions := map_insert (ss_id s) s (sm_sessions sm)\<rparr>))"

definition get_session :: "session_manager \<Rightarrow> session_id \<Rightarrow> session option" where
  "get_session sm i = map_of (sm_sessions sm) i"

definition destroy_session :: "session_id \<Rightarrow> session_manager \<Rightarrow> bool \<times> session_manager" where
  "destroy_session i sm =
    (get_session sm i \<noteq> None, sm\<lparr>sm_sessions := filter (\<lambda>e. fst e \<noteq> i) (sm_sessions sm)\<rparr>)"

definition bind_connection :: "session_id \<Rightarrow> string \<Rightarrow> session_manager \<Rightarrow> bool \<times> session_manager" where
  "bind_connection i addr sm =
    (get_session sm i \<noteq> None,
     sm\<lparr>sm_sessions := map (\<lambda>(k, s). if k = i
          then (k, s\<lparr>ss_bound_connections := insert addr (ss_bound_connections s)\<rparr>) else (k, s)) (sm_sessions sm)\<rparr>)"

definition connection_count :: "session_manager \<Rightarrow> session_id \<Rightarrow> nat" where
  "connection_count sm i = (case get_session sm i of Some s \<Rightarrow> card (ss_bound_connections s) | None \<Rightarrow> 0)"

definition destroy_client :: "u64 \<Rightarrow> session_manager \<Rightarrow> nat \<times> session_manager" where
  "destroy_client client_id sm =
    (let ss = filter (\<lambda>e. ss_client_id (snd e) \<noteq> client_id) (sm_sessions sm)
     in (length (sm_sessions sm) - length ss, sm\<lparr>sm_sessions := ss\<rparr>))"

section \<open>The table of sessions\<close>

datatype session_op =
    Allocate_client
  | Create u64 u32
  | Destroy session_id
  | Bind session_id string
  | Destroy_client u64

definition session_step :: "session_op \<Rightarrow> session_manager \<Rightarrow> session_manager" where
  "session_step op sm = (case op of
     Allocate_client \<Rightarrow> snd (allocate_client_id sm)
   | Create c n \<Rightarrow> snd (create_session c n sm)
   | Destroy i \<Rightarrow> snd (destroy_session i sm)
   | Bind i a \<Rightarrow> snd (bind_connection i a sm)
   | Destroy_client c \<Rightarrow> snd (destroy_client c sm))"

text \<open>
  Every entry is stored under its own id, which begins with its client's id, and no slot has moved
  past the state it was created with.
\<close>

definition session_ok :: "session_id \<Rightarrow> session \<Rightarrow> bool" where
  "session_ok k s \<longleftrightarrow> k = ss_id s \<and> take 8 k = be_bytes 8 (ss_client_id s) \<and> length k = 16 \<and>
     (\<forall>sl \<in> set (ss_slots s). sl = slot_state_default)"

definition sm_inv :: "session_manager \<Rightarrow> bool" where
  "sm_inv sm \<longleftrightarrow> distinct (map fst (sm_sessions sm)) \<and> (\<forall>e \<in> set (sm_sessions sm). session_ok (fst e) (snd e))"

lemma sm_inv_new: "sm_inv session_manager_new"
  by (simp add: sm_inv_def session_manager_new_def)

lemma sm_inv_filter: "sm_inv sm \<Longrightarrow> sm_inv (sm\<lparr>sm_sessions := filter P (sm_sessions sm)\<rparr>)"
  by (simp add: sm_inv_def distinct_map_filter)

lemma sm_inv_insert:
  "sm_inv sm \<Longrightarrow> session_ok k s \<Longrightarrow> sm_inv (sm\<lparr>sm_sessions := map_insert k s (sm_sessions sm)\<rparr>)"
  by (simp add: sm_inv_def map_insert_def distinct_map_filter image_iff)

lemma sm_inv_map:
  assumes "sm_inv sm" "\<And>k s. session_ok k s \<Longrightarrow> session_ok k (f k s)"
  shows "sm_inv (sm\<lparr>sm_sessions := map (\<lambda>(k, s). (k, f k s)) (sm_sessions sm)\<rparr>)"
proof -
  have "fst \<circ> (\<lambda>(k, s). (k, f k s)) = fst" by auto
  with assms show ?thesis by (auto simp: sm_inv_def)
qed

lemma bind_connection_map:
  "snd (bind_connection i a sm) = sm\<lparr>sm_sessions := map (\<lambda>(k, s). (k,
     if k = i then s\<lparr>ss_bound_connections := insert a (ss_bound_connections s)\<rparr> else s)) (sm_sessions sm)\<rparr>"
proof -
  have "(\<lambda>(k, s). if k = i then (k, f s) else (k, s)) = (\<lambda>(k, s). (k, if k = i then f s else s))"
    for f :: "session \<Rightarrow> session" by auto
  then show ?thesis by (simp add: bind_connection_def)
qed

lemma sm_inv_step:
  assumes "sm_inv sm"
  shows "sm_inv (session_step op sm)"
proof (cases op)
  case Allocate_client
  with assms show ?thesis by (simp add: session_step_def allocate_client_id_def sm_inv_def)
next
  case (Create c n)
  have "session_ok (session_id_of c m) \<lparr>ss_id = session_id_of c m, ss_client_id = c,
      ss_slots = replicate (unat n) slot_state_default,
      ss_fore_channel_attrs = channel_attrs_default, ss_bound_connections = {}\<rparr>" for m
    by (simp add: session_ok_def session_id_of_def)
  with assms Create show ?thesis
    by (simp add: session_step_def create_session_def Let_def sm_inv_insert)
next
  case (Bind i a)
  then show ?thesis
    using sm_inv_map [OF assms] by (simp add: session_step_def bind_connection_map session_ok_def)
qed (use assms in \<open>simp_all add: session_step_def destroy_session_def destroy_client_def Let_def sm_inv_filter\<close>)

lemma sm_inv_run: "sm_inv sm \<Longrightarrow> sm_inv (fold session_step ops sm)"
  by (induction ops arbitrary: sm) (simp_all add: sm_inv_step)

text \<open>
  A session id is the client id and the number of live sessions, so it can be the id of a live
  session: after a client creates two sessions and destroys the first, the next session it creates
  has the id of the second and takes its place.
\<close>

lemma session_id_collision:
  fixes c :: u64 and n m k :: u32
  defines "sm1 \<equiv> snd (create_session c n session_manager_new)"
  defines "sm2 \<equiv> snd (create_session c m sm1)"
  defines "sm3 \<equiv> snd (destroy_session (session_id_of c 0) sm2)"
  shows "get_session sm3 (session_id_of c 1) = Some (fst (create_session c m sm1))"
    and "ss_id (fst (create_session c k sm3)) = session_id_of c 1"
    and "get_session (snd (create_session c k sm3)) (session_id_of c 1) = Some (fst (create_session c k sm3))"
proof -
  have ne: "session_id_of c 1 \<noteq> session_id_of c 0"
    using be_bytes_inject [of 8 "1 :: u64" 0] by (simp add: session_id_of_def)
  then show "get_session sm3 (session_id_of c 1) = Some (fst (create_session c m sm1))"
    and "ss_id (fst (create_session c k sm3)) = session_id_of c 1"
    and "get_session (snd (create_session c k sm3)) (session_id_of c 1) = Some (fst (create_session c k sm3))"
    by (simp_all add: sm1_def sm2_def sm3_def create_session_def destroy_session_def get_session_def
        session_manager_new_def map_insert_def Let_def)
qed

text \<open>
  C30: the table of sessions. After any run of session operations the session found under an id has
  that id, the id begins with the id of the session's client, destroying a client removes exactly
  its sessions, and every slot still is in its initial state: sequence ids are neither recorded nor
  checked, so the table alone cannot tell a retried request from a new one.
\<close>

theorem session_table_reachable:
  assumes "sm = fold session_step ops session_manager_new"
    and "get_session sm i = Some s"
  shows "ss_id s = i \<and> take 8 i = be_bytes 8 (ss_client_id s) \<and>
    (\<forall>sl \<in> set (ss_slots s). sl = slot_state_default) \<and>
    (\<forall>c. get_session (session_step (Destroy_client c) sm) i = (if ss_client_id s = c then None else Some s))"
proof -
  have inv: "sm_inv sm" unfolding assms(1) by (rule sm_inv_run [OF sm_inv_new])
  have m: "(i, s) \<in> set (sm_sessions sm)" using assms(2) by (simp add: get_session_def map_of_SomeD)
  with inv have ok: "session_ok i s" by (auto simp: sm_inv_def)
  have d: "distinct (map fst (sm_sessions sm))" using inv by (simp add: sm_inv_def)
  have "map_of (filter P (sm_sessions sm)) i = (if P (i, s) then Some s else None)" for P
    using m d by (auto simp: map_of_eq_None_iff distinct_map_filter intro: map_of_is_SomeI dest: eq_key_imp_eq_value)
  then show ?thesis
    using ok by (auto simp: session_ok_def session_step_def destroy_client_def get_session_def Let_def)
qed

theorem session_table_reachable_witness:
  "get_session (fold session_step [Create 5 2, Bind (session_id_of 5 0) ''a''] session_manager_new)
      (session_id_of 5 0) \<noteq> None \<and>
   get_session (session_step (Destroy_client 5)
      (fold session_step [Create 5 2, Bind (session_id_of 5 0) ''a''] session_manager_new)) (session_id_of 5 0) = None"
proof -
  obtain s where s: "get_session (fold session_step [Create 5 2, Bind (session_id_of 5 0) ''a''] session_manager_new)
      (session_id_of 5 0) = Some s" "ss_client_id s = 5"
    by (simp add: session_step_def create_session_def bind_connection_def get_session_def session_manager_new_def
        map_insert_def Let_def)
  from session_table_reachable [OF refl s(1)] s show ?thesis by simp
qed

end
