(* ===== verification/Rpc.thy ===== *)
theory Rpc
  imports Nfs4_Args Nfs4_Res
begin

text \<open>
  The RPC layer's types (\<open>proto/src/rpc_proto.rs\<close>), the RPCSEC\_GSS credential with its wire
  form, and XDR opaque data as \<open>server/gss.rs\<close> reads and writes it. Slices that would be out of
  range are \<open>None\<close>, as \<open>slice::get\<close> returns.
\<close>

section \<open>Types\<close>

record auth_unix =
  au_stamp :: u32
  au_machinename :: string
  au_uid :: u32
  au_gid :: u32
  au_gids :: "u32 list"

record rpc_sec_gss_cred =
  gc_version :: u32
  gc_gss_proc :: u32
  gc_seq_num :: u32
  gc_service :: u32
  gc_handle :: bytes

record gss_call_data =
  gd_header :: bytes
  gd_args :: bytes

datatype (plugins only: code size) opaque_auth =
    AuthNull bytes
  | AuthUnix auth_unix
  | AuthShort
  | AuthDes
  | AuthGss rpc_sec_gss_cred
  | GssVerf bytes

record call_body =
  cb_rpcvers :: u32
  cb_prog :: u32
  cb_vers :: u32
  cb_proc :: u32
  cb_cred :: opaque_auth
  cb_verf :: opaque_auth
  cb_args :: "compound4args option"
  cb_gss :: "gss_call_data option"

record mismatch_info =
  mi_low :: u32
  mi_high :: u32

datatype (plugins only: code size) accept_body =
    Success compound4res
  | ProgUnavail
  | ProgMismatch mismatch_info
  | ProcUnavail
  | GarbageArgs
  | SuccessRaw bytes

record accepted_reply =
  ar_verf :: opaque_auth
  ar_reply_data :: accept_body

datatype auth_stat =
    UndefAuthCred
  | AuthBadCred
  | AuthRejectedCred
  | AuthBadverf
  | AuthRejectedverf
  | AuthTooWeak
  | RpcsecGssCredProblem
  | RpcsecGssCtxProblem

datatype (plugins only: code size) rejected_reply =
    RpcMismatch mismatch_info
  | AuthError auth_stat

datatype (plugins only: code size) reply_body =
    MsgAccepted accepted_reply
  | MsgDenied rejected_reply

datatype (plugins only: code size) msg_type =
    Call call_body
  | Reply reply_body
  | ParseError string

record rpc_call_msg =
  rcm_xid :: u32
  rcm_body :: msg_type

record rpc_reply_msg =
  rrm_xid :: u32
  rrm_body :: msg_type

section \<open>Slices and opaque data\<close>

definition get_slice :: "bytes \<Rightarrow> nat \<Rightarrow> nat \<Rightarrow> bytes option" where
  "get_slice b i j = (if i \<le> j \<and> j \<le> length b then Some (take (j - i) (drop i b)) else None)"

definition get_u32 :: "bytes \<Rightarrow> nat \<Rightarrow> u32 option" where
  "get_u32 b i = map_option from_be_bytes (get_slice b i (i + 4))"

text \<open>Zero bytes up to the next multiple of four.\<close>

definition xdr_pad :: "nat \<Rightarrow> nat" where
  "xdr_pad n = (4 - n mod 4) mod 4"

definition put_opaque :: "bytes \<Rightarrow> bytes" where
  "put_opaque dat = be_bytes 4 (of_nat (length dat) :: u32) @ dat @ replicate (xdr_pad (length dat)) 0"

definition take_opaque :: "bytes \<Rightarrow> (bytes \<times> bytes) option" where
  "take_opaque buf =
    (case get_u32 buf 0 of
       None \<Rightarrow> None
     | Some len \<Rightarrow>
         (case get_slice buf 4 (4 + unat len) of
            None \<Rightarrow> None
          | Some dat \<Rightarrow>
              Some (dat, case get_slice buf (4 + unat len + xdr_pad (unat len)) (length buf) of
                           Some rest \<Rightarrow> rest | None \<Rightarrow> [])))"

section \<open>The RPCSEC\_GSS credential\<close>

definition gss_cred_parse :: "bytes \<Rightarrow> rpc_sec_gss_cred option" where
  "gss_cred_parse body =
    (case (get_u32 body 0, get_u32 body 4, get_u32 body 8, get_u32 body 12, get_u32 body 16) of
       (Some version, Some gss_proc, Some seq_num, Some service, Some len) \<Rightarrow>
         map_option (\<lambda>handle. \<lparr>gc_version = version, gc_gss_proc = gss_proc, gc_seq_num = seq_num,
             gc_service = service, gc_handle = handle\<rparr>)
           (get_slice body 20 (20 + unat len))
     | _ \<Rightarrow> None)"

definition gss_cred_encode :: "rpc_sec_gss_cred \<Rightarrow> bytes" where
  "gss_cred_encode c =
    concat (map (be_bytes 4) [gc_version c, gc_gss_proc c, gc_seq_num c, gc_service c,
       of_nat (length (gc_handle c))])
     @ gc_handle c @ replicate (xdr_pad (length (gc_handle c))) 0"

section \<open>Round trips\<close>

lemma xdr_pad_mod: "(n + xdr_pad n) mod 4 = 0"
proof -
  have "n mod 4 = 0 \<or> n mod 4 = 1 \<or> n mod 4 = 2 \<or> n mod 4 = 3" by presburger
  then show ?thesis by (elim disjE) (simp add: xdr_pad_def; presburger)+
qed

lemma get_slice_append:
  "get_slice (xs @ ys @ zs) (length xs) (length xs + length ys) = Some ys"
  by (simp add: get_slice_def)

lemma get_u32_append: "length xs = i \<Longrightarrow> get_u32 (xs @ be_bytes 4 w @ zs) i = Some w"
  using get_slice_append [of xs "be_bytes 4 w" zs]
  by (auto simp: get_u32_def from_be_bytes_be_bytes)

lemma unat_of_length: "length xs < 2 ^ 32 \<Longrightarrow> unat (of_nat (length xs) :: u32) = length xs"
  by (simp add: unat_of_nat)

lemma take_put_opaque:
  assumes "length dat < 2 ^ 32"
  shows "take_opaque (put_opaque dat @ rest) = Some (dat, rest)"
proof -
  let ?l = "be_bytes 4 (of_nat (length dat) :: u32)" and ?p = "replicate (xdr_pad (length dat)) (0 :: u8)"
  have "get_u32 (?l @ dat @ ?p @ rest) 0 = Some (of_nat (length dat))"
    using get_u32_append [of "[]" 0] by simp
  moreover have "get_slice (?l @ dat @ ?p @ rest) 4 (4 + length dat) = Some dat"
    using get_slice_append [of ?l dat "?p @ rest"] by simp
  moreover have "get_slice (?l @ dat @ ?p @ rest) (4 + length dat + xdr_pad (length dat))
      (length (?l @ dat @ ?p @ rest)) = Some rest"
    using get_slice_append [of "?l @ dat @ ?p" rest "[]"] by (simp add: add.assoc)
  ultimately show ?thesis
    by (simp add: take_opaque_def put_opaque_def unat_of_length [OF assms])
qed

text \<open>
  An RPCSEC\_GSS credential survives the wire: parsing the encoded credential, whatever
  follows it, gives the credential back, the padding is right, and the encoding is a multiple of
  four bytes long.
\<close>

lemma gss_cred_roundtrip:
  assumes "length (gc_handle c) < 2 ^ 32"
  shows "gss_cred_parse (gss_cred_encode c @ rest) = Some c \<and> length (gss_cred_encode c) mod 4 = 0"
proof -
  let ?n = "of_nat (length (gc_handle c)) :: u32"
  let ?p = "replicate (xdr_pad (length (gc_handle c))) (0 :: u8)"
  let ?a = "be_bytes 4 (gc_version c)" and ?b = "be_bytes 4 (gc_gss_proc c)"
    and ?s = "be_bytes 4 (gc_seq_num c)" and ?v = "be_bytes 4 (gc_service c)" and ?l = "be_bytes 4 ?n"
  have e: "gss_cred_encode c @ rest = ?a @ ?b @ ?s @ ?v @ ?l @ gc_handle c @ ?p @ rest"
    by (simp add: gss_cred_encode_def)
  have u0: "get_u32 (gss_cred_encode c @ rest) 0 = Some (gc_version c)"
    unfolding e by (rule get_u32_append [of "[]" 0, unfolded append_Nil]) simp
  have u1: "get_u32 (gss_cred_encode c @ rest) 4 = Some (gc_gss_proc c)"
    unfolding e by (rule get_u32_append) simp
  have u2: "get_u32 (gss_cred_encode c @ rest) 8 = Some (gc_seq_num c)"
    unfolding e by (rule get_u32_append [of "?a @ ?b" 8, unfolded append_assoc]) simp
  have u3: "get_u32 (gss_cred_encode c @ rest) 12 = Some (gc_service c)"
    unfolding e by (rule get_u32_append [of "?a @ ?b @ ?s" 12, unfolded append_assoc]) simp
  have u4: "get_u32 (gss_cred_encode c @ rest) 16 = Some ?n"
    unfolding e by (rule get_u32_append [of "?a @ ?b @ ?s @ ?v" 16, unfolded append_assoc]) simp
  have "get_slice (gss_cred_encode c @ rest) 20 (20 + length (gc_handle c)) = Some (gc_handle c)"
    unfolding e using get_slice_append [of "?a @ ?b @ ?s @ ?v @ ?l" "gc_handle c" "?p @ rest"] by simp
  then have "gss_cred_parse (gss_cred_encode c @ rest) = Some c"
    by (simp add: gss_cred_parse_def u0 u1 u2 u3 u4 unat_of_length [OF assms])
  moreover have "length (gss_cred_encode c) = 20 + (length (gc_handle c) + xdr_pad (length (gc_handle c)))"
    by (simp add: gss_cred_encode_def)
  ultimately show ?thesis using xdr_pad_mod [of "length (gc_handle c)"] by presburger
qed

lemma gss_cred_roundtrip_example:
  "gss_cred_parse (gss_cred_encode \<lparr>gc_version = 1, gc_gss_proc = 0, gc_seq_num = 7, gc_service = 2,
      gc_handle = [0xAB, 0xCD]\<rparr> @ [9]) =
    Some \<lparr>gc_version = 1, gc_gss_proc = 0, gc_seq_num = 7, gc_service = 2, gc_handle = [0xAB, 0xCD]\<rparr>"
  using gss_cred_roundtrip [of "\<lparr>gc_version = 1, gc_gss_proc = 0, gc_seq_num = 7, gc_service = 2,
      gc_handle = [0xAB, 0xCD]\<rparr>" "[9]"] by simp

end
