(* ===== verification/Request.thy ===== *)
theory Request
  imports ExportManager ClientManager Sessions Rpc
begin

text \<open>
  The state a COMPOUND works on (\<open>server/request.rs\<close>, \<open>server/response.rs\<close>): the server's
  actors and shared objects, and the request with its current and saved filehandle, the export it
  is on and the per-connection filehandle cache; and the calls a request makes to a file manager
  (\<open>filemanager/handle.rs\<close>). A reference to a shared object of an export is the export's id (see
  \<open>ExportManager\<close>). An actor that panicked is in \<open>sv_dead\<close>: messages to it fail.
\<close>

section \<open>The server\<close>

text \<open>A file manager handle: which actor, and its own copy of the export's root directory.\<close>

record fm_handle =
  fmh_export :: u8
  fmh_export_root :: string

text \<open>A write cache actor is stored with the file manager handle it was started with.\<close>

record ('w, 'f, 'l, 'c) server =
  sv_world :: 'w
  sv_exports :: "('f, 'l) export_manager"
  sv_dead :: "u8 set"
  sv_caches :: "nat \<rightharpoonup> fm_handle \<times> write_cache"
  sv_next_chan :: nat
  sv_clients :: "'c client_manager"
  sv_sessions :: session_manager
  sv_in_grace :: bool

text \<open>
  The calls of the operation handlers to the vfs crate and to \<open>std::fs\<close> that the file manager
  does not make. An open file is its path and the position of its cursor, which the handler
  tracks; \<open>None\<close> and \<open>False\<close> are errors. Sizes are what \<open>seek(End(0))\<close> returns.
\<close>

datatype io_error = Io_NotFound | Io_InvalidInput | Io_PermissionDenied | Io_AlreadyExists | Io_Other

record 'w io_ops =
  vio_is_file :: "'w \<Rightarrow> string \<Rightarrow> bool"
  vio_read_dir :: "'w \<Rightarrow> string \<Rightarrow> string list option"
  vio_filename :: "string \<Rightarrow> string"
  vio_move_dir :: "'w \<Rightarrow> string \<Rightarrow> string \<Rightarrow> bool \<times> 'w"
  vio_open :: "'w \<Rightarrow> string \<Rightarrow> bool"
  vio_open_append :: "'w \<Rightarrow> string \<Rightarrow> bool"
  vio_size :: "'w \<Rightarrow> string \<Rightarrow> u64 option"
  vio_seek :: "'w \<Rightarrow> string \<Rightarrow> u64 \<Rightarrow> bool"
  vio_read :: "'w \<Rightarrow> string \<Rightarrow> u64 \<Rightarrow> nat \<Rightarrow> bytes option"
  vio_write :: "'w \<Rightarrow> string \<Rightarrow> u64 \<Rightarrow> bytes \<Rightarrow> nat option \<times> 'w"
  vio_write_all :: "'w \<Rightarrow> string \<Rightarrow> u64 \<Rightarrow> bytes \<Rightarrow> bool \<times> 'w"
  vio_flush :: "'w \<Rightarrow> string \<Rightarrow> bool \<times> 'w"

record 'w std_ops =
  std_exists :: "'w \<Rightarrow> string \<Rightarrow> bool"
  std_len :: "'w \<Rightarrow> string \<Rightarrow> u64 option"
  std_append_sync :: "'w \<Rightarrow> string \<Rightarrow> bytes \<Rightarrow> bool \<times> 'w"
  std_write_at_sync :: "'w \<Rightarrow> string \<Rightarrow> bytes \<Rightarrow> u64 \<Rightarrow> bool \<times> 'w"
  std_read_link :: "'w \<Rightarrow> string \<Rightarrow> (string, io_error) result"
  std_symlink :: "'w \<Rightarrow> string \<Rightarrow> string \<Rightarrow> (unit, io_error) result \<times> 'w"
  std_hard_link :: "'w \<Rightarrow> string \<Rightarrow> string \<Rightarrow> (unit, io_error) result \<times> 'w"
  std_rename :: "'w \<Rightarrow> string \<Rightarrow> string \<Rightarrow> bool \<times> 'w"

text \<open>
  What the server runs on: the filesystem below an export's directory, the empty in-memory
  filesystem behind the pseudo-root's handle, the containers of the actors, the clocks and the
  random tokens.
\<close>

record ('w, 'f, 'l, 'c) server_env =
  se_export_env :: "'w export_env"
  se_io :: "string \<Rightarrow> 'w io_ops"
  se_pseudo_fs :: "'w fs_ops"
  se_pseudo_io :: "'w io_ops"
  se_std :: "'w std_ops"
  se_fhdb :: "'f fh_db_ops"
  se_lockdb :: "'l lock_db_ops"
  se_clientdb :: "'c client_db_ops"
  se_system_time :: "'w \<Rightarrow> nat" \<comment> \<open>\<open>SystemTime::now()\<close>, in seconds\<close>
  se_instant :: "'w \<Rightarrow> nat" \<comment> \<open>\<open>Instant::now()\<close>, in nanoseconds\<close>
  se_tokens :: "'w \<Rightarrow> nat \<Rightarrow> bytes"

definition handle_real_path :: "fm_handle \<Rightarrow> string \<Rightarrow> string" where
  "handle_real_path h rel =
    (if rel = [] \<or> rel = ''/'' then fmh_export_root h
     else path_join (fmh_export_root h) (dropWhile (\<lambda>c. c = CHR ''/'') rel))"

definition handle_fs :: "('w, 'f, 'l, 'c) server_env \<Rightarrow> fm_handle \<Rightarrow> 'w fs_ops" where
  "handle_fs E h = ee_fs (se_export_env E) (fmh_export_root h)"

text \<open>
  A message to the actor and its answer; \<open>None\<close> if the actor is gone, or panics on the message.
  The cache actor the message starts is stored under its channel.
\<close>

definition fm_send ::
  "('w, 'f, 'l, 'c) server_env \<Rightarrow> fm_handle \<Rightarrow> file_manager_message \<Rightarrow> ('w, 'f, 'l, 'c) server
    \<Rightarrow> file_manager_reply option \<times> ('w, 'f, 'l, 'c) server" where
  "fm_send E h msg sv =
    (if fmh_export h \<in> sv_dead sv then (None, sv)
     else case em_actors (sv_exports sv) (fmh_export h) of
       None \<Rightarrow> (None, sv)
     | Some fm \<Rightarrow>
         (case handle_message (handle_fs E h) (se_fhdb E) (se_lockdb E) (sv_next_chan sv) (sv_world sv) fm msg of
            None \<Rightarrow> (None, sv\<lparr>sv_dead := insert (fmh_export h) (sv_dead sv)\<rparr>)
          | Some (r, w, fm') \<Rightarrow>
              let sv' = sv\<lparr>sv_world := w,
                    sv_exports := (sv_exports sv)\<lparr>em_actors := (em_actors (sv_exports sv))(fmh_export h \<mapsto> fm')\<rparr>\<rparr>
              in (Some r, case r of
                    Sent_cache c (Some wc) \<Rightarrow>
                      sv'\<lparr>sv_caches := (sv_caches sv')(c \<mapsto> (h, wc)), sv_next_chan := sv_next_chan sv + 1\<rparr>
                  | _ \<Rightarrow> sv')))"

definition send_filehandle_request ::
  "('w, 'f, 'l, 'c) server_env \<Rightarrow> fm_handle \<Rightarrow> string option \<Rightarrow> nfs_fh4 option \<Rightarrow> ('w, 'f, 'l, 'c) server
    \<Rightarrow> (filehandle, nfs_stat4) result \<times> ('w, 'f, 'l, 'c) server" where
  "send_filehandle_request E h path fid sv = (case fm_send E h (GetFilehandle path fid) sv of
     (Some (Sent_fh_opt (Some fh)), sv') \<Rightarrow> (Inr fh, sv')
   | (Some (Sent_fh_opt None), sv') \<Rightarrow>
       (Inl (if path \<noteq> None \<and> fid = None then Nfs4errNoent else Nfs4errStale), sv')
   | (_, sv') \<Rightarrow> (Inl Nfs4errServerfault, sv'))"

section \<open>The request\<close>

record nfs_request =
  rq_client_addr :: string
  rq_filehandle :: "filehandle option"
  rq_saved_filehandle :: "filehandle option"
  rq_cached_fmanager :: "fm_handle option"
  rq_objs :: "u8 option" \<comment> \<open>stats, rate limiter, quota and access control, which are set together\<close>
  rq_read_only :: bool
  rq_current_export_id :: "u8 option"
  rq_boot_time :: u64
  rq_filehandle_cache :: "(nfs_fh4 \<times> nat \<times> filehandle) list option"
  rq_session_manager :: bool \<comment> \<open>whether the request has the session manager\<close>
  rq_session_id :: "session_id option"
  rq_sequence_slotid :: "u32 option"
  rq_auth_cred :: "opaque_auth option"
  rq_sec_flavor :: sec_flavor

definition request_new ::
  "string \<Rightarrow> fm_handle option \<Rightarrow> u64 \<Rightarrow> (nfs_fh4 \<times> nat \<times> filehandle) list option \<Rightarrow> bool \<Rightarrow> nfs_request" where
  "request_new client_addr default_fmanager boot_time cache session_manager =
    \<lparr>rq_client_addr = client_addr, rq_filehandle = None, rq_saved_filehandle = None,
     rq_cached_fmanager = default_fmanager, rq_objs = None, rq_read_only = False,
     rq_current_export_id = None, rq_boot_time = boot_time, rq_filehandle_cache = cache,
     rq_session_manager = session_manager, rq_session_id = None, rq_sequence_slotid = None, rq_auth_cred = None, rq_sec_flavor = Sys\<rparr>"

text \<open>The shared objects of the request's export.\<close>

definition rq_objects :: "('w, 'f, 'l, 'c) server \<Rightarrow> nfs_request \<Rightarrow> export_objs option" where
  "rq_objects sv rq = (case rq_objs rq of Some i \<Rightarrow> em_objs (sv_exports sv) i | None \<Rightarrow> None)"

definition rq_access_control :: "('w, 'f, 'l, 'c) server \<Rightarrow> nfs_request \<Rightarrow> access_control option" where
  "rq_access_control sv rq = map_option eo_access_control (rq_objects sv rq)"

definition set_export :: "('w, 'f, 'l, 'c) server \<Rightarrow> u8 \<Rightarrow> nfs_request \<Rightarrow> nfs_request" where
  "set_export sv export_id rq =
    (let rq' = rq\<lparr>rq_current_export_id := Some export_id\<rparr>
     in if export_id = PSEUDO_ROOT_EXPORT_ID then
          rq'\<lparr>rq_cached_fmanager := None, rq_objs := None, rq_read_only := False\<rparr>
        else case get_export_by_id (sv_exports sv) export_id of
          Some info \<Rightarrow> rq'\<lparr>
            rq_cached_fmanager := Some \<lparr>fmh_export = ei_export_id info, fmh_export_root = ei_path info\<rparr>,
            rq_objs := Some (ei_export_id info), rq_read_only := ei_read_only info\<rparr>
        | None \<Rightarrow> rq')"

definition is_pseudo_root :: "nfs_request \<Rightarrow> bool" where
  "is_pseudo_root rq \<longleftrightarrow> rq_current_export_id rq = Some PSEUDO_ROOT_EXPORT_ID"

definition check_client_access :: "('w, 'f, 'l, 'c) server \<Rightarrow> nfs_request \<Rightarrow> bool" where
  "check_client_access sv rq = (case rq_access_control sv rq of
     Some ac \<Rightarrow> check_client ac (rq_client_addr rq) | None \<Rightarrow> True)"

definition sec_allowed :: "('w, 'f, 'l, 'c) server \<Rightarrow> nfs_request \<Rightarrow> bool" where
  "sec_allowed sv rq = (case rq_access_control sv rq of
     Some ac \<Rightarrow> allows_flavor ac (rq_sec_flavor rq)
   | None \<Rightarrow> rq_current_export_id rq = None \<or> rq_sec_flavor rq = Sys)"

definition auth_uid :: "nfs_request \<Rightarrow> u32" where
  "auth_uid rq = (case rq_auth_cred rq of Some (AuthUnix auth) \<Rightarrow> au_uid auth | _ \<Rightarrow> 0)"

definition auth_gid :: "nfs_request \<Rightarrow> u32" where
  "auth_gid rq = (case rq_auth_cred rq of Some (AuthUnix auth) \<Rightarrow> au_gid auth | _ \<Rightarrow> 0)"

definition secinfo_flavors :: "('w, 'f, 'l, 'c) server \<Rightarrow> nfs_request \<Rightarrow> string option \<Rightarrow> secinfo4 list" where
  "secinfo_flavors sv rq name =
    (let flavors = (case rq_access_control sv rq of
        Some ac \<Rightarrow> sec_flavors ac
      | None \<Rightarrow>
          let exports = sort_key ei_export_id (list_exports (sv_exports sv));
              named = filter (\<lambda>e. name = None \<or> name = Some (ei_name e)) exports;
              all = foldl (\<lambda>acc e. foldl (\<lambda>acc f. if f \<in> set acc then acc else acc @ [f]) acc
                      (case em_objs (sv_exports sv) (ei_export_id e) of
                         Some o' \<Rightarrow> sec_flavors (eo_access_control o') | None \<Rightarrow> [])) [] named
          in if all = [] then [Sys] else all)
     in map secinfo flavors)"

section \<open>Filehandles of the request\<close>

definition set_filehandle :: "filehandle \<Rightarrow> nfs_request \<Rightarrow> nfs_request" where
  "set_filehandle fh rq = rq\<lparr>rq_filehandle := Some fh\<rparr>"

definition cache_filehandle ::
  "('w, 'f, 'l, 'c) server_env \<Rightarrow> ('w, 'f, 'l, 'c) server \<Rightarrow> filehandle \<Rightarrow> nfs_request \<Rightarrow> nfs_request" where
  "cache_filehandle E sv fh rq = rq\<lparr>rq_filehandle_cache := map_option
     (map_insert (fh_id fh) (se_system_time E (sv_world sv), fh)) (rq_filehandle_cache rq)\<rparr>"

definition drop_filehandle_from_cache :: "nfs_fh4 \<Rightarrow> nfs_request \<Rightarrow> nfs_request" where
  "drop_filehandle_from_cache fid rq =
    rq\<lparr>rq_filehandle_cache := map_option (filter (\<lambda>e. fst e \<noteq> fid)) (rq_filehandle_cache rq)\<rparr>"

text \<open>
  The path of a cached handle is looked up in the filesystem of the export it belongs to, which its
  \<open>VfsPath\<close> carries; \<open>None\<close> cannot be asked for, as every cached handle came from an actor.
\<close>

definition vfs_file_exists :: "('w, 'f, 'l, 'c) server_env \<Rightarrow> ('w, 'f, 'l, 'c) server \<Rightarrow> filehandle \<Rightarrow> bool" where
  "vfs_file_exists E sv fh = (case em_actors (sv_exports sv) (export_id_from_fh (fh_id fh)) of
     Some fm \<Rightarrow> vfs_exists (ee_fs (se_export_env E) (fm_export_root fm)) (sv_world sv) (fh_file fh)
   | None \<Rightarrow> False)"

definition get_filehandle_from_cache ::
  "('w, 'f, 'l, 'c) server_env \<Rightarrow> ('w, 'f, 'l, 'c) server \<Rightarrow> nfs_fh4 \<Rightarrow> nfs_request
    \<Rightarrow> filehandle option \<times> nfs_request" where
  "get_filehandle_from_cache E sv fid rq = (case rq_filehandle_cache rq of
     None \<Rightarrow> (None, rq)
   | Some cache \<Rightarrow> (case map_of cache fid of
       None \<Rightarrow> (None, rq)
     | Some (t, fh) \<Rightarrow>
         if 10 < se_system_time E (sv_world sv) - t \<or> \<not> vfs_file_exists E sv fh
         then (None, drop_filehandle_from_cache (fh_id fh) rq)
         else (Some fh, rq)))"

text \<open>\<open>set_filehandle_id\<close> panics (\<open>None\<close>) when no export is selected.\<close>

definition set_filehandle_id ::
  "('w, 'f, 'l, 'c) server_env \<Rightarrow> nfs_fh4 \<Rightarrow> nfs_request \<Rightarrow> ('w, 'f, 'l, 'c) server
    \<Rightarrow> ((filehandle, nfs_stat4) result \<times> nfs_request \<times> ('w, 'f, 'l, 'c) server) option" where
  "set_filehandle_id E fid rq sv =
    (let export_id = export_id_from_fh fid;
         rq = (if rq_current_export_id rq \<noteq> Some export_id then set_export sv export_id rq else rq)
     in if export_id = PSEUDO_ROOT_EXPORT_ID then Some (Inl Nfs4errStale, rq, sv)
        else case rq_cached_fmanager rq of
          None \<Rightarrow> None
        | Some h \<Rightarrow> Some (case send_filehandle_request E h None (Some fid) sv of
            (Inr fh, sv) \<Rightarrow> (Inr fh, rq\<lparr>rq_filehandle := Some fh\<rparr>, sv)
          | (Inl _, sv) \<Rightarrow> (Inl Nfs4errStale, rq, sv)))"

definition save_filehandle :: "nfs_request \<Rightarrow> nfs_request" where
  "save_filehandle rq = rq\<lparr>rq_saved_filehandle := rq_filehandle rq\<rparr>"

definition restore_filehandle :: "('w, 'f, 'l, 'c) server \<Rightarrow> nfs_request \<Rightarrow> bool \<times> nfs_request" where
  "restore_filehandle sv rq = (case rq_saved_filehandle rq of
     Some saved \<Rightarrow>
       let export_id = export_id_from_fh (fh_id saved);
           rq = (if rq_current_export_id rq \<noteq> Some export_id then set_export sv export_id rq else rq)
       in (True, rq\<lparr>rq_filehandle := Some saved\<rparr>)
   | None \<Rightarrow> (False, rq))"

section \<open>Responses\<close>

record nfs_op_response =
  rs_request :: nfs_request
  rs_result :: "nfs_res_op4 option"
  rs_status :: nfs_stat4

definition respond :: "nfs_request \<Rightarrow> nfs_res_op4 option \<Rightarrow> nfs_stat4 \<Rightarrow> nfs_op_response" where
  "respond rq r st = \<lparr>rs_request = rq, rs_result = r, rs_status = st\<rparr>"

lemma respond_simps [simp]:
  "rs_request (respond rq r st) = rq" "rs_result (respond rq r st) = r" "rs_status (respond rq r st) = st"
  by (simp_all add: respond_def)

end
