(* ===== verification/Perm.thy ===== *)
theory Perm
  imports Request
begin

text \<open>
  Per-caller permissions (\<open>server/perm.rs\<close>): the identity a credential is mapped to, the POSIX
  mode check, and the check each operation of a COMPOUND passes before it runs. \<open>stat\<close> is the
  operating system's \<open>lstat\<close>, read when the check runs.
\<close>

section \<open>Callers\<close>

definition MAY_READ :: u32 where "MAY_READ = 4"
definition MAY_WRITE :: u32 where "MAY_WRITE = 2"
definition MAY_EXEC :: u32 where "MAY_EXEC = 1"

record caller =
  cl_uid :: u32
  cl_gid :: u32
  cl_gids :: "u32 list"

definition caller_new :: "opaque_auth option \<Rightarrow> access_control option \<Rightarrow> caller" where
  "caller_new cred ac =
    (let (anon_uid, anon_gid) = (case ac of Some ac \<Rightarrow> anon_ids ac | None \<Rightarrow> (DEFAULT_ANON_ID, DEFAULT_ANON_ID))
     in case cred of
          Some (AuthUnix auth) \<Rightarrow>
            let (uid, gid, gids) = (case ac of
                Some ac \<Rightarrow> map_ids ac (au_uid auth) (au_gid auth) (au_gids auth)
              | None \<Rightarrow> default_map_ids (au_uid auth) (au_gid auth) (au_gids auth))
            in \<lparr>cl_uid = uid, cl_gid = gid, cl_gids = gids\<rparr>
        | _ \<Rightarrow> \<lparr>cl_uid = anon_uid, cl_gid = anon_gid, cl_gids = []\<rparr>)"

definition is_root :: "caller \<Rightarrow> bool" where
  "is_root c \<longleftrightarrow> cl_uid c = 0"

definition in_group :: "caller \<Rightarrow> u32 \<Rightarrow> bool" where
  "in_group c gid \<longleftrightarrow> cl_gid c = gid \<or> gid \<in> set (cl_gids c)"

definition mode_bits :: "caller \<Rightarrow> real_meta \<Rightarrow> u32" where
  "mode_bits c m =
    (if cl_uid c = rm_uid m then drop_bit 6 (rm_mode m) AND 7
     else if in_group c (rm_gid m) then drop_bit 3 (rm_mode m) AND 7
     else rm_mode m AND 7)"

definition may :: "caller \<Rightarrow> real_meta \<Rightarrow> u32 \<Rightarrow> bool" where
  "may c m want =
    (if is_root c then want AND MAY_EXEC = 0 \<or> rm_mode m AND S_IFMT = S_IFDIR \<or> rm_mode m AND 0x49 \<noteq> 0
     else mode_bits c m AND want = want)"

definition may_file :: "caller \<Rightarrow> real_meta \<Rightarrow> u32 \<Rightarrow> bool" where
  "may_file c m want =
    (if \<not> is_root c \<and> cl_uid c = rm_uid m then True
     else if want = MAY_READ \<and> may c m MAY_EXEC \<and> rm_mode m AND S_IFMT = S_IFREG then True
     else may c m want)"

definition is_owner :: "caller \<Rightarrow> real_meta \<Rightarrow> bool" where
  "is_owner c m \<longleftrightarrow> is_root c \<or> cl_uid c = rm_uid m"

section \<open>What an operation needs\<close>

type_synonym stat_fn = "string \<Rightarrow> real_meta option"

definition is_dir_meta :: "real_meta \<Rightarrow> bool" where
  "is_dir_meta m \<longleftrightarrow> rm_mode m AND S_IFMT = S_IFDIR"

text \<open>\<open>Path::parent\<close>: the path without its last component.\<close>

definition path_parent :: "string \<Rightarrow> string option" where
  "path_parent p =
    (let trim = (\<lambda>s. rev (dropWhile (\<lambda>c. c = CHR ''/'') (rev s))); q = trim p
     in if q = [] then None
        else let r = rev (dropWhile (\<lambda>c. c \<noteq> CHR ''/'') (rev q))
             in Some (if r = [] then [] else if trim r = [] then ''/'' else trim r))"

definition dir_path :: "stat_fn \<Rightarrow> string \<Rightarrow> string" where
  "dir_path stat full = (case stat full of
     Some m \<Rightarrow> if \<not> is_dir_meta m then (case path_parent full of Some p \<Rightarrow> p | None \<Rightarrow> full) else full
   | None \<Rightarrow> full)"

definition need :: "bool \<Rightarrow> nfs_stat4 \<Rightarrow> (unit, nfs_stat4) result" where
  "need ok status = (if ok then Inr () else Inl status)"

definition need_dir :: "stat_fn \<Rightarrow> caller \<Rightarrow> string \<Rightarrow> u32 \<Rightarrow> (unit, nfs_stat4) result" where
  "need_dir stat c dir want = (case stat dir of
     Some m \<Rightarrow> if is_dir_meta m then need (may c m want) Nfs4errAccess else Inr ()
   | None \<Rightarrow> Inr ())"

definition need_unlink :: "stat_fn \<Rightarrow> caller \<Rightarrow> string \<Rightarrow> string \<Rightarrow> (unit, nfs_stat4) result" where
  "need_unlink stat c dir name = (case stat dir of
     None \<Rightarrow> Inr ()
   | Some dmeta \<Rightarrow>
       if \<not> is_dir_meta dmeta then Inr ()
       else if \<not> may c dmeta (MAY_WRITE OR MAY_EXEC) then Inl Nfs4errAccess
       else if rm_mode dmeta AND S_ISVTX \<noteq> 0 \<and> \<not> is_owner c dmeta then
         (case stat (path_join dir name) of
            Some entry \<Rightarrow> need (is_owner c entry) Nfs4errPerm
          | None \<Rightarrow> Inr ())
       else Inr ())"

definition need_file :: "stat_fn \<Rightarrow> caller \<Rightarrow> string \<Rightarrow> u32 \<Rightarrow> (unit, nfs_stat4) result" where
  "need_file stat c path want = (case stat path of
     Some m \<Rightarrow> need (may_file c m want) Nfs4errAccess
   | None \<Rightarrow> Inr ())"

definition share_want :: "u32 \<Rightarrow> u32" where
  "share_want share_access =
    (if share_access AND 1 \<noteq> 0 then MAY_READ else 0) OR (if share_access AND 2 \<noteq> 0 then MAY_WRITE else 0)"

text \<open>Owner names: a number, a number or a name before \<open>@\<close>, else a lookup of the name.\<close>

definition resolve_nfs4_id :: "(string \<Rightarrow> u32 option) \<Rightarrow> string \<Rightarrow> u32 option" where
  "resolve_nfs4_id lookup owner = (case parse_u32 owner of
     Some uid \<Rightarrow> Some uid
   | None \<Rightarrow>
       let name = split_first (CHR ''@'') owner
       in case parse_u32 name of
            Some uid \<Rightarrow> Some uid
          | None \<Rightarrow> if CHR 0x00 \<in> set name then None else lookup name)"

definition check_attr ::
  "(string \<Rightarrow> u32 option) \<Rightarrow> (string \<Rightarrow> u32 option) \<Rightarrow> caller \<Rightarrow> real_meta \<Rightarrow> file_attr_value
    \<Rightarrow> (unit, nfs_stat4) result" where
  "check_attr getpw getgr c m attr = (case attr of
     FV_Size _ \<Rightarrow> need (may_file c m MAY_WRITE) Nfs4errAccess
   | FV_Mode _ \<Rightarrow> need (is_owner c m) Nfs4errPerm
   | FV_Acl _ \<Rightarrow> need (is_owner c m) Nfs4errPerm
   | FV_Owner owner \<Rightarrow>
       let uid = resolve_nfs4_id getpw owner; noop = (uid = Some (rm_uid m) \<and> cl_uid c = rm_uid m)
       in need (is_root c \<or> noop) Nfs4errPerm
   | FV_OwnerGroup grp \<Rightarrow>
       need (is_root c \<or> (cl_uid c = rm_uid m \<and>
         (case resolve_nfs4_id getgr grp of Some g \<Rightarrow> in_group c g | None \<Rightarrow> False))) Nfs4errPerm
   | FV_TimeAccessSet \<Rightarrow> need (is_owner c m \<or> may c m MAY_WRITE) Nfs4errAccess
   | FV_TimeModifySet \<Rightarrow> need (is_owner c m \<or> may c m MAY_WRITE) Nfs4errAccess
   | _ \<Rightarrow> Inr ())"

fun check_attrs ::
  "(string \<Rightarrow> u32 option) \<Rightarrow> (string \<Rightarrow> u32 option) \<Rightarrow> caller \<Rightarrow> real_meta \<Rightarrow> file_attr_value list
    \<Rightarrow> (unit, nfs_stat4) result" where
  "check_attrs getpw getgr c m [] = Inr ()"
| "check_attrs getpw getgr c m (a # as) = (case check_attr getpw getgr c m a of
     Inl e \<Rightarrow> Inl e | Inr _ \<Rightarrow> check_attrs getpw getgr c m as)"

definition check_setattr ::
  "(string \<Rightarrow> u32 option) \<Rightarrow> (string \<Rightarrow> u32 option) \<Rightarrow> stat_fn \<Rightarrow> caller \<Rightarrow> string \<Rightarrow> file_attr_value list
    \<Rightarrow> (unit, nfs_stat4) result" where
  "check_setattr getpw getgr stat c path attrs = (case stat path of
     None \<Rightarrow> Inr () | Some m \<Rightarrow> check_attrs getpw getgr c m attrs)"

section \<open>The check\<close>

definition same_export :: "filehandle \<Rightarrow> filehandle \<Rightarrow> bool" where
  "same_export a b \<longleftrightarrow> export_id_from_fh (fh_id a) = export_id_from_fh (fh_id b)"

definition check_op_on ::
  "(string \<Rightarrow> u32 option) \<Rightarrow> (string \<Rightarrow> u32 option) \<Rightarrow> stat_fn \<Rightarrow> fm_handle \<Rightarrow> filehandle option \<Rightarrow> filehandle
    \<Rightarrow> nfs_arg_op \<Rightarrow> caller \<Rightarrow> (unit, nfs_stat4) result" where
  "check_op_on getpw getgr stat h saved fh arg c =
    (let current = handle_real_path h (fh_path fh) in
     case arg of
       A_Oplookup _ \<Rightarrow> need_dir stat c current MAY_EXEC
     | A_Oplookupp _ \<Rightarrow> need_dir stat c current MAY_EXEC
     | A_Opreaddir _ \<Rightarrow> need_dir stat c current MAY_READ
     | A_Opcreate _ \<Rightarrow> need_dir stat c (dir_path stat current) (MAY_WRITE OR MAY_EXEC)
     | A_Opremove args \<Rightarrow> need_unlink stat c current (remove4args_target args)
     | A_Oprename args \<Rightarrow> (case saved of
         None \<Rightarrow> Inr ()
       | Some s \<Rightarrow>
           if \<not> same_export s fh then Inl Nfs4errXdev
           else (case need_unlink stat c (handle_real_path h (fh_path s)) (rename4args_oldname args) of
                   Inl e \<Rightarrow> Inl e
                 | Inr _ \<Rightarrow> need_unlink stat c current (rename4args_newname args)))
     | A_Oplink _ \<Rightarrow>
         if (case saved of Some s \<Rightarrow> \<not> same_export s fh | None \<Rightarrow> False) then Inl Nfs4errXdev
         else need_dir stat c current (MAY_WRITE OR MAY_EXEC)
     | A_Opopen args \<Rightarrow> (case open4args_claim args of
         ClaimNull name \<Rightarrow> (case need_dir stat c current MAY_EXEC of
             Inl e \<Rightarrow> Inl e
           | Inr _ \<Rightarrow>
               let target = path_join current name
               in if stat target \<noteq> None then need_file stat c target (share_want (open4args_share_access args))
                  else (case open4args_openhow args of
                          OF_How _ \<Rightarrow> need_dir stat c current (MAY_WRITE OR MAY_EXEC)
                        | _ \<Rightarrow> Inr ()))
       | _ \<Rightarrow> need_file stat c current (share_want (open4args_share_access args)))
     | A_Opread _ \<Rightarrow> need_file stat c current MAY_READ
     | A_Opwrite _ \<Rightarrow> need_file stat c current MAY_WRITE
     | A_Opallocate _ \<Rightarrow> need_file stat c current MAY_WRITE
     | A_Opcopy _ \<Rightarrow> (case (case saved of
           Some s \<Rightarrow> need_file stat c (handle_real_path h (fh_path s)) MAY_READ | None \<Rightarrow> Inr ()) of
         Inl e \<Rightarrow> Inl e | Inr _ \<Rightarrow> need_file stat c current MAY_WRITE)
     | A_Opsetattr args \<Rightarrow>
         check_setattr getpw getgr stat c current (fattr4_attr_vals (set_attr4args_obj_attributes args))
     | _ \<Rightarrow> Inr ())"

definition check_op ::
  "('w, 'f, 'l, 'c) server_env \<Rightarrow> ('w, 'f, 'l, 'c) server \<Rightarrow> nfs_arg_op \<Rightarrow> nfs_request \<Rightarrow> caller
    \<Rightarrow> (unit, nfs_stat4) result" where
  "check_op E sv arg rq c =
    (if is_pseudo_root rq then Inr ()
     else case (rq_cached_fmanager rq, rq_filehandle rq) of
       (Some h, Some fh) \<Rightarrow>
         check_op_on (os_getpwnam (handle_fs E h) (sv_world sv)) (os_getgrnam (handle_fs E h) (sv_world sv))
           (os_lstat (handle_fs E h) (sv_world sv)) h (rq_saved_filehandle rq) fh arg c
     | _ \<Rightarrow> Inr ())"

definition creates_object ::
  "('w, 'f, 'l, 'c) server_env \<Rightarrow> ('w, 'f, 'l, 'c) server \<Rightarrow> nfs_arg_op \<Rightarrow> nfs_request \<Rightarrow> bool" where
  "creates_object E sv arg rq = (case arg of
     A_Opcreate _ \<Rightarrow> True
   | A_Opopen args \<Rightarrow> (case (open4args_claim args, open4args_openhow args) of
       (ClaimNull name, OF_How _) \<Rightarrow> (case (rq_cached_fmanager rq, rq_filehandle rq) of
           (Some h, Some fh) \<Rightarrow>
             os_lstat (handle_fs E h) (sv_world sv) (path_join (handle_real_path h (fh_path fh)) name) = None
         | _ \<Rightarrow> False)
     | _ \<Rightarrow> False)
   | _ \<Rightarrow> False)"

text \<open>\<open>lchown\<close> of a path with a NUL character is not tried; its failure is only logged.\<close>

definition chown_new_object ::
  "('w, 'f, 'l, 'c) server_env \<Rightarrow> caller \<Rightarrow> nfs_request \<Rightarrow> ('w, 'f, 'l, 'c) server
    \<Rightarrow> nfs_request \<times> ('w, 'f, 'l, 'c) server" where
  "chown_new_object E c rq sv = (case (rq_cached_fmanager rq, rq_filehandle rq) of
     (Some h, Some fh) \<Rightarrow>
       let fs = handle_fs E h; full = handle_real_path h (fh_path fh); stat = os_lstat fs (sv_world sv)
       in (case stat full of
             None \<Rightarrow> (rq, sv)
           | Some m \<Rightarrow>
               let gid = (case Option.bind (path_parent full) stat of
                     Some p \<Rightarrow> if rm_mode p AND S_ISGID \<noteq> 0 then rm_gid p else cl_gid c
                   | None \<Rightarrow> cl_gid c)
               in if rm_uid m = cl_uid c \<and> rm_gid m = gid then (rq, sv)
                  else if CHR 0x00 \<in> set full then (rq, sv)
                  else (case os_chown fs (sv_world sv) full (cl_uid c) gid of
                          (False, w) \<Rightarrow> (rq, sv\<lparr>sv_world := w\<rparr>)
                        | (True, w) \<Rightarrow>
                            let fh' = fh\<lparr>fh_attr_owner := dec_string (unat (cl_uid c)),
                                  fh_attr_owner_group := dec_string (unat gid)\<rparr>;
                                (_, sv') = fm_send E h (UpdateFilehandle fh') (sv\<lparr>sv_world := w\<rparr>)
                            in (set_filehandle fh' (cache_filehandle E sv' fh' rq), sv')))
   | _ \<Rightarrow> (rq, sv))"

end
