(* ===== verification/Handles.thy ===== *)
theory Handles
  imports Perm
begin

text \<open>
  The client side of the actors: the methods of \<open>FileManagerHandle\<close> and \<open>WriteCacheHandle\<close>
  (\<open>filemanager/handle.rs\<close>) and of \<open>ClientManagerHandle\<close> (\<open>clientmanager.rs\<close>). A method sends
  its message and waits for the answer; a message without an answer takes effect before the
  actor's next one. An actor that is gone gives SERVERFAULT.
\<close>

section \<open>File manager\<close>

definition get_root_filehandle ::
  "('w, 'f, 'l, 'c) server_env \<Rightarrow> fm_handle \<Rightarrow> ('w, 'f, 'l, 'c) server
    \<Rightarrow> (filehandle, nfs_stat4) result \<times> ('w, 'f, 'l, 'c) server" where
  "get_root_filehandle E h sv = send_filehandle_request E h None None sv"

definition get_filehandle_for_path ::
  "('w, 'f, 'l, 'c) server_env \<Rightarrow> fm_handle \<Rightarrow> string \<Rightarrow> ('w, 'f, 'l, 'c) server
    \<Rightarrow> (filehandle, nfs_stat4) result \<times> ('w, 'f, 'l, 'c) server" where
  "get_filehandle_for_path E h path sv = send_filehandle_request E h (Some path) None sv"

definition fmh_create_file ::
  "('w, 'f, 'l, 'c) server_env \<Rightarrow> fm_handle \<Rightarrow> string \<Rightarrow> u64 \<Rightarrow> bytes \<Rightarrow> u32 \<Rightarrow> u32 \<Rightarrow> bytes option
    \<Rightarrow> ('w, 'f, 'l, 'c) server \<Rightarrow> (filehandle, nfs_stat4) result \<times> ('w, 'f, 'l, 'c) server" where
  "fmh_create_file E h path client_id owner access deny verifier sv =
    (case fm_send E h (CreateFile path client_id owner access deny verifier) sv of
       (Some (Sent_fh_opt (Some fh)), sv) \<Rightarrow> (Inr fh, sv)
     | (Some (Sent_fh_opt None), sv) \<Rightarrow> (Inl Nfs4errNoent, sv)
     | (_, sv) \<Rightarrow> (Inl Nfs4errServerfault, sv))"

definition fmh_create_open_state ::
  "('w, 'f, 'l, 'c) server_env \<Rightarrow> fm_handle \<Rightarrow> string \<Rightarrow> u64 \<Rightarrow> bytes \<Rightarrow> u32 \<Rightarrow> u32
    \<Rightarrow> ('w, 'f, 'l, 'c) server \<Rightarrow> (locking_state, nfs_stat4) result \<times> ('w, 'f, 'l, 'c) server" where
  "fmh_create_open_state E h path client_id owner access deny sv =
    (case fm_send E h (CreateOpenState path client_id owner access deny) sv of
       (Some (Sent_open_state (Some lock)), sv) \<Rightarrow> (Inr lock, sv)
     | (Some (Sent_open_state None), sv) \<Rightarrow> (Inl Nfs4errStale, sv)
     | (_, sv) \<Rightarrow> (Inl Nfs4errServerfault, sv))"

definition fmh_remove_file ::
  "('w, 'f, 'l, 'c) server_env \<Rightarrow> fm_handle \<Rightarrow> string \<Rightarrow> ('w, 'f, 'l, 'c) server
    \<Rightarrow> (dir_change_info, nfs_stat4) result \<times> ('w, 'f, 'l, 'c) server" where
  "fmh_remove_file E h path sv = (case fm_send E h (RemoveFile path) sv of
     (Some (Sent_removed r), sv) \<Rightarrow> (r, sv)
   | (_, sv) \<Rightarrow> (Inl Nfs4errServerfault, sv))"

definition fmh_touch_file ::
  "('w, 'f, 'l, 'c) server_env \<Rightarrow> fm_handle \<Rightarrow> nfs_fh4 \<Rightarrow> ('w, 'f, 'l, 'c) server \<Rightarrow> ('w, 'f, 'l, 'c) server" where
  "fmh_touch_file E h fid sv = snd (fm_send E h (TouchFile fid) sv)"

definition fmh_get_write_cache_handle ::
  "('w, 'f, 'l, 'c) server_env \<Rightarrow> fm_handle \<Rightarrow> filehandle \<Rightarrow> ('w, 'f, 'l, 'c) server
    \<Rightarrow> (nat, nfs_stat4) result \<times> ('w, 'f, 'l, 'c) server" where
  "fmh_get_write_cache_handle E h fh sv = (case fm_send E h (GetWriteCacheHandle fh) sv of
     (Some (Sent_cache c _), sv) \<Rightarrow> (Inr c, sv)
   | (_, sv) \<Rightarrow> (Inl Nfs4errServerfault, sv))"

definition fmh_return_delegation ::
  "('w, 'f, 'l, 'c) server_env \<Rightarrow> fm_handle \<Rightarrow> nfs_fh4 \<Rightarrow> stateid4 \<Rightarrow> ('w, 'f, 'l, 'c) server
    \<Rightarrow> nfs_stat4 \<times> ('w, 'f, 'l, 'c) server" where
  "fmh_return_delegation E h fid sid sv = (case fm_send E h (ReturnDelegation fid sid) sv of
     (Some (Sent_status st), sv) \<Rightarrow> (st, sv)
   | (_, sv) \<Rightarrow> (Nfs4errServerfault, sv))"

definition fmh_open_named_attr_dir ::
  "('w, 'f, 'l, 'c) server_env \<Rightarrow> fm_handle \<Rightarrow> u64 \<Rightarrow> bool \<Rightarrow> ('w, 'f, 'l, 'c) server
    \<Rightarrow> (filehandle, nfs_stat4) result \<times> ('w, 'f, 'l, 'c) server" where
  "fmh_open_named_attr_dir E h fileid createdir sv = (case fm_send E h (OpenNamedAttrDir fileid createdir) sv of
     (Some (Sent_fh_opt (Some fh)), sv) \<Rightarrow> (Inr fh, sv)
   | (Some (Sent_fh_opt None), sv) \<Rightarrow> (Inl Nfs4errNoent, sv)
   | (_, sv) \<Rightarrow> (Inl Nfs4errServerfault, sv))"

definition fmh_rename_path ::
  "('w, 'f, 'l, 'c) server_env \<Rightarrow> fm_handle \<Rightarrow> string \<Rightarrow> string \<Rightarrow> string \<Rightarrow> ('w, 'f, 'l, 'c) server
    \<Rightarrow> ('w, 'f, 'l, 'c) server" where
  "fmh_rename_path E h old_path new_path new_vfs_path sv =
    snd (fm_send E h (RenamePath old_path new_path new_vfs_path) sv)"

definition fmh_close_file ::
  "('w, 'f, 'l, 'c) server_env \<Rightarrow> fm_handle \<Rightarrow> bytes \<Rightarrow> ('w, 'f, 'l, 'c) server \<Rightarrow> ('w, 'f, 'l, 'c) server" where
  "fmh_close_file E h sid sv = snd (fm_send E h (CloseFile sid) sv)"

definition fmh_lock_file ::
  "('w, 'f, 'l, 'c) server_env \<Rightarrow> fm_handle \<Rightarrow> nfs_fh4 \<Rightarrow> u64 \<Rightarrow> bytes \<Rightarrow> nfs_lock_type4 \<Rightarrow> u64 \<Rightarrow> u64
    \<Rightarrow> ('w, 'f, 'l, 'c) server \<Rightarrow> lock_result \<times> ('w, 'f, 'l, 'c) server" where
  "fmh_lock_file E h fid client_id owner t offset len sv =
    (case fm_send E h (LockFile fid client_id owner t offset len) sv of
       (Some (Sent_lock r), sv) \<Rightarrow> (r, sv)
     | (_, sv) \<Rightarrow> (LockError Nfs4errServerfault, sv))"

definition fmh_unlock_file ::
  "('w, 'f, 'l, 'c) server_env \<Rightarrow> fm_handle \<Rightarrow> bytes \<Rightarrow> u64 \<Rightarrow> u64 \<Rightarrow> ('w, 'f, 'l, 'c) server
    \<Rightarrow> unlock_result \<times> ('w, 'f, 'l, 'c) server" where
  "fmh_unlock_file E h sid offset len sv = (case fm_send E h (UnlockFile sid offset len) sv of
     (Some (Sent_unlock r), sv) \<Rightarrow> (r, sv)
   | (_, sv) \<Rightarrow> (UnlockError Nfs4errServerfault, sv))"

definition fmh_test_lock ::
  "('w, 'f, 'l, 'c) server_env \<Rightarrow> fm_handle \<Rightarrow> nfs_fh4 \<Rightarrow> u64 \<Rightarrow> bytes \<Rightarrow> nfs_lock_type4 \<Rightarrow> u64 \<Rightarrow> u64
    \<Rightarrow> ('w, 'f, 'l, 'c) server \<Rightarrow> test_lock_result \<times> ('w, 'f, 'l, 'c) server" where
  "fmh_test_lock E h fid client_id owner t offset len sv =
    (case fm_send E h (TestLock fid client_id owner t offset len) sv of
       (Some (Sent_test r), sv) \<Rightarrow> (r, sv)
     | (_, sv) \<Rightarrow> (TestDenied 0 0 ReadLt 0 [], sv))"

definition fmh_release_lock_owner ::
  "('w, 'f, 'l, 'c) server_env \<Rightarrow> fm_handle \<Rightarrow> u64 \<Rightarrow> bytes \<Rightarrow> ('w, 'f, 'l, 'c) server
    \<Rightarrow> nfs_stat4 \<times> ('w, 'f, 'l, 'c) server" where
  "fmh_release_lock_owner E h client_id owner sv = (case fm_send E h (ReleaseLockOwner client_id owner) sv of
     (Some (Sent_status st), sv) \<Rightarrow> (st, sv)
   | (_, sv) \<Rightarrow> (Nfs4errServerfault, sv))"

definition fmh_dir_change_attr ::
  "('w, 'f, 'l, 'c) server_env \<Rightarrow> fm_handle \<Rightarrow> string \<Rightarrow> ('w, 'f, 'l, 'c) server \<Rightarrow> u64" where
  "fmh_dir_change_attr E h vfs_path sv =
    (case os_lstat (handle_fs E h) (sv_world sv) (handle_real_path h vfs_path) of
       Some m \<Rightarrow> change_of_mtime m | None \<Rightarrow> 0)"

section \<open>Attributes\<close>

definition fm_handle_config :: fh_config where
  "fm_handle_config = \<lparr>fh_cfg_lease_time = 90, fh_cfg_hard_link_support = True,
     fh_cfg_symlink_support = True, fh_cfg_unique_handles = True\<rparr>"

definition fmh_filehandle_attrs ::
  "('w, 'f, 'l, 'c) server_env \<Rightarrow> fm_handle \<Rightarrow> file_attr list \<Rightarrow> filehandle \<Rightarrow> quota_info option
    \<Rightarrow> ('w, 'f, 'l, 'c) server \<Rightarrow> (file_attr list \<times> file_attr_value list) option" where
  "fmh_filehandle_attrs E h attr_request filehandle quota sv =
    (let fh = (case os_lstat (handle_fs E h) (sv_world sv) (handle_real_path h (fh_file filehandle)) of
         Some meta \<Rightarrow> new_real (fh_file filehandle) (fh_id filehandle) (fsid4_major (fh_attr_fsid filehandle))
                        (fsid4_minor (fh_attr_fsid filehandle)) (fh_version filehandle) meta
       | None \<Rightarrow> filehandle)
     in Some (answer_attrs (handle_attr_value fm_handle_config fh quota) attr_request))"

text \<open>
  \<open>set_attr\<close>, one attribute: \<open>None\<close> is the panic of a buffer that is too big to exist
  (\<open>vec![0; size]\<close> beyond \<open>isize::MAX\<close>). A path with a NUL character becomes the empty path.
\<close>

definition c_path :: "string \<Rightarrow> string" where
  "c_path p = (if CHR 0x00 \<in> set p then [] else p)"

definition set_attr_one ::
  "'w fs_ops \<Rightarrow> filehandle \<Rightarrow> string \<Rightarrow> file_attr_value \<Rightarrow> 'w \<Rightarrow> (file_attr option \<times> 'w) option" where
  "set_attr_one fs fh path attr w = (case attr of
     FV_Size sz \<Rightarrow>
       if 2 ^ 63 \<le> unat sz then None
       else Some (case vfs_read_exact fs w (fh_file fh) sz of
         None \<Rightarrow> (None, w)
       | Some buf \<Rightarrow> (case vfs_append_write fs w (fh_file fh) 0 buf of
           (Some True, w) \<Rightarrow> (Some FA_Size, w)
         | (_, w) \<Rightarrow> (None, w)))
   | FV_Owner owner \<Rightarrow> Some (case resolve_nfs4_id (os_getpwnam fs w) owner of
       Some uid \<Rightarrow> (case os_chown fs w (c_path path) uid (- 1) of
           (True, w) \<Rightarrow> (Some FA_Owner, w) | (False, w) \<Rightarrow> (None, w))
     | None \<Rightarrow> (None, w))
   | FV_OwnerGroup grp \<Rightarrow> Some (case resolve_nfs4_id (os_getgrnam fs w) grp of
       Some gid \<Rightarrow> (case os_chown fs w (c_path path) (- 1) gid of
           (True, w) \<Rightarrow> (Some FA_OwnerGroup, w) | (False, w) \<Rightarrow> (None, w))
     | None \<Rightarrow> (None, w))
   | FV_Mode mode \<Rightarrow> Some (case os_chmod fs w (c_path path) mode of
       (True, w) \<Rightarrow> (Some FA_Mode, w) | (False, w) \<Rightarrow> (None, w))
   | FV_TimeModifySet \<Rightarrow> Some (case os_utimens_now fs w (c_path path) of
       (True, w) \<Rightarrow> (Some FA_TimeModifySet, w) | (False, w) \<Rightarrow> (None, w))
   | _ \<Rightarrow> Some (None, w))"

fun set_attr_all ::
  "'w fs_ops \<Rightarrow> filehandle \<Rightarrow> string \<Rightarrow> file_attr_value list \<Rightarrow> 'w \<Rightarrow> (file_attr list \<times> 'w) option" where
  "set_attr_all fs fh path [] w = Some ([], w)"
| "set_attr_all fs fh path (a # as) w = (case set_attr_one fs fh path a w of
     None \<Rightarrow> None
   | Some (r, w) \<Rightarrow> map_option (apfst (\<lambda>rs. (case r of Some x \<Rightarrow> x # rs | None \<Rightarrow> rs)))
       (set_attr_all fs fh path as w))"

definition fmh_set_attr ::
  "('w, 'f, 'l, 'c) server_env \<Rightarrow> fm_handle \<Rightarrow> filehandle \<Rightarrow> file_attr_value list \<Rightarrow> ('w, 'f, 'l, 'c) server
    \<Rightarrow> (file_attr list \<times> ('w, 'f, 'l, 'c) server) option" where
  "fmh_set_attr E h fh attr_vals sv =
    map_option (apsnd (\<lambda>w. sv\<lparr>sv_world := w\<rparr>))
      (set_attr_all (handle_fs E h) fh (handle_real_path h (fh_file fh)) attr_vals (sv_world sv))"

section \<open>Write cache\<close>

text \<open>A message to a write cache actor, and the messages it sends on to its file manager.\<close>

definition wc_send ::
  "('w, 'f, 'l, 'c) server_env \<Rightarrow> nat \<Rightarrow> write_cache_message \<Rightarrow> ('w, 'f, 'l, 'c) server \<Rightarrow> ('w, 'f, 'l, 'c) server" where
  "wc_send E c msg sv = (case sv_caches sv c of
     None \<Rightarrow> sv
   | Some (h, wc) \<Rightarrow>
       let (wc', msgs, w) = write_cache_handle_message (handle_fs E h) (sv_world sv) wc msg
       in foldl (\<lambda>sv m. snd (fm_send E h m sv))
            (sv\<lparr>sv_world := w, sv_caches := (sv_caches sv)(c \<mapsto> (h, wc'))\<rparr>) msgs)"

section \<open>Client manager\<close>

definition cm_send ::
  "('w, 'f, 'l, 'c) server_env \<Rightarrow> client_manager_message \<Rightarrow> ('w, 'f, 'l, 'c) server
    \<Rightarrow> client_manager_reply option \<times> ('w, 'f, 'l, 'c) server" where
  "cm_send E msg sv =
    (let (r, cm) = cm_handle_message (se_clientdb E) (se_instant E (sv_world sv)) (se_tokens E (sv_world sv))
                     (sv_clients sv) msg
     in (r, sv\<lparr>sv_clients := cm\<rparr>))"

definition cmh_upsert_client ::
  "('w, 'f, 'l, 'c) server_env \<Rightarrow> bytes \<Rightarrow> string \<Rightarrow> client_callback \<Rightarrow> string option \<Rightarrow> ('w, 'f, 'l, 'c) server
    \<Rightarrow> (client_entry, nfs_stat4) result \<times> ('w, 'f, 'l, 'c) server" where
  "cmh_upsert_client E verifier cid callback prin sv =
    (case cm_send E (UpsertClient verifier cid callback prin) sv of
       (Some (Client_entry r), sv) \<Rightarrow> (r, sv)
     | (_, sv) \<Rightarrow> (Inl Nfs4errServerfault, sv))"

definition cmh_confirm_client ::
  "('w, 'f, 'l, 'c) server_env \<Rightarrow> u64 \<Rightarrow> bytes \<Rightarrow> string option \<Rightarrow> ('w, 'f, 'l, 'c) server
    \<Rightarrow> (client_entry, nfs_stat4) result \<times> ('w, 'f, 'l, 'c) server" where
  "cmh_confirm_client E client_id token prin sv = (case cm_send E (ConfirmClient client_id token prin) sv of
     (Some (Client_entry r), sv) \<Rightarrow> (r, sv)
   | (_, sv) \<Rightarrow> (Inl Nfs4errServerfault, sv))"

definition cmh_renew_leases ::
  "('w, 'f, 'l, 'c) server_env \<Rightarrow> u64 \<Rightarrow> ('w, 'f, 'l, 'c) server
    \<Rightarrow> (unit, nfs_stat4) result \<times> ('w, 'f, 'l, 'c) server" where
  "cmh_renew_leases E client_id sv = (case cm_send E (RenewLeases client_id) sv of
     (Some (Client_renewed r), sv) \<Rightarrow> (r, sv)
   | (_, sv) \<Rightarrow> (Inl Nfs4errServerfault, sv))"

end
