(* ===== verification/OpsFh.thy ===== *)
theory OpsFh
  imports Handles
begin

text \<open>
  The operations that move the filehandles of a request: PUTFH, PUTROOTFH and PUTPUBFH, GETFH,
  SAVEFH, RESTOREFH, LOOKUP, LOOKUPP, and SECINFO and SECINFO\_NO\_NAME (\<open>server/nfs40.rs\<close>,
  \<open>nfs40/op_putfh.rs\<close>, \<open>op_lookup.rs\<close>, \<open>op_secinfo.rs\<close>, \<open>op_secinfo_no_name.rs\<close>).
  A handler returns the response and the server, or \<open>None\<close> where it panics.
\<close>

type_synonym ('w, 'f, 'l, 'c) op_result = "(nfs_op_response \<times> ('w, 'f, 'l, 'c) server) option"

definition reply ::
  "nfs_request \<Rightarrow> nfs_res_op4 option \<Rightarrow> nfs_stat4 \<Rightarrow> ('w, 'f, 'l, 'c) server \<Rightarrow> ('w, 'f, 'l, 'c) op_result" where
  "reply rq r st sv = Some (respond rq r st, sv)"

text \<open>\<open>request.file_manager()\<close>, which panics when no export is selected.\<close>

definition with_file_manager ::
  "nfs_request \<Rightarrow> (fm_handle \<Rightarrow> ('w, 'f, 'l, 'c) op_result) \<Rightarrow> ('w, 'f, 'l, 'c) op_result" where
  "with_file_manager rq f = (case rq_cached_fmanager rq of None \<Rightarrow> None | Some h \<Rightarrow> f h)"

text \<open>
  The filesystem the \<open>VfsPath\<close> of a handle belongs to: the export's, or the empty one of a
  pseudo-root handle. Every other handle carries the id of the export it came from.
\<close>

definition fh_export_root :: "('w, 'f, 'l, 'c) server \<Rightarrow> filehandle \<Rightarrow> string option" where
  "fh_export_root sv fh =
    (if is_pseudo_root_fh (fh_id fh) then None
     else map_option fm_export_root (em_actors (sv_exports sv) (export_id_from_fh (fh_id fh))))"

definition fh_fs :: "('w, 'f, 'l, 'c) server_env \<Rightarrow> ('w, 'f, 'l, 'c) server \<Rightarrow> filehandle \<Rightarrow> 'w fs_ops" where
  "fh_fs E sv fh = (case fh_export_root sv fh of
     Some r \<Rightarrow> ee_fs (se_export_env E) r | None \<Rightarrow> se_pseudo_fs E)"

definition fh_io :: "('w, 'f, 'l, 'c) server_env \<Rightarrow> ('w, 'f, 'l, 'c) server \<Rightarrow> filehandle \<Rightarrow> 'w io_ops" where
  "fh_io E sv fh = (case fh_export_root sv fh of Some r \<Rightarrow> se_io E r | None \<Rightarrow> se_pseudo_io E)"

definition enter_pseudo_root ::
  "('w, 'f, 'l, 'c) server_env \<Rightarrow> ('w, 'f, 'l, 'c) server \<Rightarrow> nfs_fh4 \<Rightarrow> nfs_request \<Rightarrow> nfs_request" where
  "enter_pseudo_root E sv fid rq =
    set_filehandle (pseudo_root_filehandle (se_pseudo_fs E) (sv_world sv) fid)
      (set_export sv PSEUDO_ROOT_EXPORT_ID rq)"

section \<open>PUTFH and PUTROOTFH\<close>

definition putfh_res :: "nfs_stat4 \<Rightarrow> nfs_res_op4 option" where
  "putfh_res st = Some (R_Opputfh \<lparr>put_fh4res_status = st\<rparr>)"

definition op_putfh ::
  "('w, 'f, 'l, 'c) server_env \<Rightarrow> put_fh4args \<Rightarrow> nfs_request \<Rightarrow> ('w, 'f, 'l, 'c) server
    \<Rightarrow> ('w, 'f, 'l, 'c) op_result" where
  "op_putfh E args rq sv =
    (let fid = put_fh4args_object args in
     if is_pseudo_root_fh fid then reply (enter_pseudo_root E sv fid rq) (putfh_res Nfs4Ok) Nfs4Ok sv
     else
       let export_id = export_id_from_fh fid;
           rq = (if rq_current_export_id rq \<noteq> Some export_id then set_export sv export_id rq else rq)
       in if \<not> check_client_access sv rq then reply rq (putfh_res Nfs4errAccess) Nfs4errAccess sv
          else case get_filehandle_from_cache E sv fid rq of
            (Some fh, rq) \<Rightarrow> reply (set_filehandle fh rq) (putfh_res Nfs4Ok) Nfs4Ok sv
          | (None, rq) \<Rightarrow> (case set_filehandle_id E fid rq sv of
              None \<Rightarrow> None
            | Some (Inr fh, rq, sv) \<Rightarrow> reply (cache_filehandle E sv fh rq) (putfh_res Nfs4Ok) Nfs4Ok sv
            | Some (Inl e, rq, sv) \<Rightarrow> reply rq (putfh_res e) e sv))"

definition putrootfh_ok :: "nfs_res_op4 option" where
  "putrootfh_ok = Some (R_Opputrootfh \<lparr>put_root_fh4res_status = Nfs4Ok\<rparr>)"

definition put_root_filehandle ::
  "('w, 'f, 'l, 'c) server_env \<Rightarrow> nfs_request \<Rightarrow> ('w, 'f, 'l, 'c) server \<Rightarrow> ('w, 'f, 'l, 'c) op_result" where
  "put_root_filehandle E rq sv = (case list_exports (sv_exports sv) of
     [export] \<Rightarrow>
       let rq = set_export sv (ei_export_id export) rq
       in if \<not> check_client_access sv rq then reply rq None Nfs4errAccess sv
          else with_file_manager rq (\<lambda>h. case get_root_filehandle E h sv of
            (Inr fh, sv) \<Rightarrow> (case set_filehandle_id E (fh_id fh) rq sv of
                None \<Rightarrow> None
              | Some (_, rq, sv) \<Rightarrow> reply rq putrootfh_ok Nfs4Ok sv)
          | (Inl _, sv) \<Rightarrow> reply rq None Nfs4errServerfault sv)
   | _ \<Rightarrow> reply (enter_pseudo_root E sv pseudo_root_fh rq) putrootfh_ok Nfs4Ok sv)"

section \<open>GETFH, SAVEFH and RESTOREFH\<close>

definition get_current_filehandle ::
  "nfs_request \<Rightarrow> ('w, 'f, 'l, 'c) server \<Rightarrow> ('w, 'f, 'l, 'c) op_result" where
  "get_current_filehandle rq sv = (case rq_filehandle rq of
     Some fh \<Rightarrow> reply rq (Some (R_Opgetfh (GetFh4res_Resok4 \<lparr>get_fh4resok_object = fh_id fh\<rparr>))) Nfs4Ok sv
   | None \<Rightarrow> reply rq None Nfs4errNofilehandle sv)"

definition op_savefh :: "nfs_request \<Rightarrow> ('w, 'f, 'l, 'c) server \<Rightarrow> ('w, 'f, 'l, 'c) op_result" where
  "op_savefh rq sv =
    (if rq_filehandle rq \<noteq> None
     then reply (save_filehandle rq) (Some (R_Opsavefh \<lparr>save_fh4res_status = Nfs4Ok\<rparr>)) Nfs4Ok sv
     else reply rq (Some (R_Opsavefh \<lparr>save_fh4res_status = Nfs4errNofilehandle\<rparr>)) Nfs4errNofilehandle sv)"

definition op_restorefh :: "nfs_request \<Rightarrow> ('w, 'f, 'l, 'c) server \<Rightarrow> ('w, 'f, 'l, 'c) op_result" where
  "op_restorefh rq sv = (case restore_filehandle sv rq of
     (True, rq) \<Rightarrow> reply rq (Some (R_Oprestorefh \<lparr>restore_fh4res_status = Nfs4Ok\<rparr>)) Nfs4Ok sv
   | (False, rq) \<Rightarrow>
       reply rq (Some (R_Oprestorefh \<lparr>restore_fh4res_status = Nfs4errRestorefh\<rparr>)) Nfs4errRestorefh sv)"

section \<open>LOOKUP and LOOKUPP\<close>

definition lookup_res :: "nfs_stat4 \<Rightarrow> nfs_res_op4 option" where
  "lookup_res st = Some (R_Oplookup \<lparr>lookup4res_status = st\<rparr>)"

definition child_path :: "string \<Rightarrow> string \<Rightarrow> string" where
  "child_path path name = (if path = ''/'' then path @ name else path @ ''/'' @ name)"

definition lookup_export ::
  "('w, 'f, 'l, 'c) server_env \<Rightarrow> string \<Rightarrow> nfs_request \<Rightarrow> ('w, 'f, 'l, 'c) server \<Rightarrow> ('w, 'f, 'l, 'c) op_result" where
  "lookup_export E name rq sv = (case get_export_by_name (sv_exports sv) name of
     Some info \<Rightarrow>
       let rq = set_export sv (ei_export_id info) rq
       in if \<not> check_client_access sv rq then reply rq (lookup_res Nfs4errAccess) Nfs4errAccess sv
          else with_file_manager rq (\<lambda>h. case get_root_filehandle E h sv of
            (Inr rfh, sv) \<Rightarrow>
              let rfh = rfh\<lparr>fh_id := stamp_export_id (fh_id rfh) (ei_export_id info)\<rparr>
              in reply (set_filehandle rfh rq) (lookup_res Nfs4Ok) Nfs4Ok sv
          | (Inl _, sv) \<Rightarrow> reply rq (lookup_res Nfs4errServerfault) Nfs4errServerfault sv)
   | None \<Rightarrow> reply rq (lookup_res Nfs4errNoent) Nfs4errNoent sv)"

definition op_lookup ::
  "('w, 'f, 'l, 'c) server_env \<Rightarrow> lookup4args \<Rightarrow> nfs_request \<Rightarrow> ('w, 'f, 'l, 'c) server
    \<Rightarrow> ('w, 'f, 'l, 'c) op_result" where
  "op_lookup E args rq sv =
    (if is_pseudo_root rq then lookup_export E (lookup4args_objname args) rq sv
     else case rq_filehandle rq of
       None \<Rightarrow> reply rq None Nfs4errFhexpired sv
     | Some fh \<Rightarrow> with_file_manager rq (\<lambda>h.
         case get_filehandle_for_path E h (child_path (fh_path fh) (lookup4args_objname args)) sv of
           (Inl e, sv) \<Rightarrow> reply (rq\<lparr>rq_filehandle := None\<rparr>) (lookup_res e) e sv
         | (Inr fh, sv) \<Rightarrow> reply (set_filehandle fh rq) (lookup_res Nfs4Ok) Nfs4Ok sv))"

definition lookupp_res :: "nfs_stat4 \<Rightarrow> nfs_res_op4 option" where
  "lookupp_res st = Some (R_Oplookupp \<lparr>lookupp4res_status = st\<rparr>)"

definition lookup_parent ::
  "('w, 'f, 'l, 'c) server_env \<Rightarrow> nfs_request \<Rightarrow> ('w, 'f, 'l, 'c) server \<Rightarrow> ('w, 'f, 'l, 'c) op_result" where
  "lookup_parent E rq sv =
    (if is_pseudo_root rq then reply rq (lookupp_res Nfs4errNoent) Nfs4errNoent sv
     else case rq_filehandle rq of
       None \<Rightarrow> reply rq (lookupp_res Nfs4errNofilehandle) Nfs4errNofilehandle sv
     | Some fh \<Rightarrow>
         if fh_path fh = ''/'' \<and> 1 < length (list_exports (sv_exports sv))
         then reply (enter_pseudo_root E sv pseudo_root_fh rq) (lookupp_res Nfs4Ok) Nfs4Ok sv
         else with_file_manager rq (\<lambda>h.
           case get_filehandle_for_path E h (path_key (vfs_parent (fh_fs E sv fh) (fh_file fh))) sv of
             (Inr fh, sv) \<Rightarrow> reply (set_filehandle fh rq) (lookupp_res Nfs4Ok) Nfs4Ok sv
           | (Inl _, sv) \<Rightarrow> reply rq (lookupp_res Nfs4errNoent) Nfs4errNoent sv))"

section \<open>SECINFO\<close>

definition op_secinfo ::
  "('w, 'f, 'l, 'c) server_env \<Rightarrow> sec_info4args \<Rightarrow> nfs_request \<Rightarrow> ('w, 'f, 'l, 'c) server
    \<Rightarrow> ('w, 'f, 'l, 'c) op_result" where
  "op_secinfo E args rq sv = (case rq_filehandle rq of
     None \<Rightarrow> reply rq None Nfs4errNofilehandle sv
   | Some fh \<Rightarrow>
       if \<not> vfs_is_dir (fh_fs E sv fh) (sv_world sv) (fh_file fh) then reply rq None Nfs4errNotdir sv
       else reply rq (Some (R_OpSecinfo (SecInfo4res_Resok4
              (secinfo_flavors sv rq (Some (sec_info4args_name args)))))) Nfs4Ok sv)"

definition op_secinfo_no_name ::
  "secinfo_no_name4args \<Rightarrow> nfs_request \<Rightarrow> ('w, 'f, 'l, 'c) server \<Rightarrow> ('w, 'f, 'l, 'c) op_result" where
  "op_secinfo_no_name args rq sv =
    reply rq (Some (R_OpsecinfoNoName (SecInfo4res_Resok4 (secinfo_flavors sv rq None)))) Nfs4Ok sv"

end
