(* ===== verification/OpsState.thy ===== *)
theory OpsState
  imports OpsFh
begin

text \<open>
  The operations on client, session, lock and open state: SETCLIENTID, SETCLIENTID\_CONFIRM,
  RENEW; the NFSv4.1 session operations; LOCK, LOCKT, LOCKU, RELEASE\_LOCKOWNER, DELEGRETURN,
  DELEGPURGE, CLOSE, OPEN\_CONFIRM, OPEN\_DOWNGRADE; and the pNFS operations, which are refused
  (\<open>nfs40/op_*.rs\<close>, one file per operation).
\<close>

section \<open>Clients\<close>

definition op_setclientid ::
  "('w, 'f, 'l, 'c) server_env \<Rightarrow> set_client_id4args \<Rightarrow> nfs_request \<Rightarrow> ('w, 'f, 'l, 'c) server
    \<Rightarrow> ('w, 'f, 'l, 'c) op_result" where
  "op_setclientid E args rq sv =
    (let client = set_client_id4args_client args; cb = set_client_id4args_callback args;
         callback = \<lparr>cb_program = cb_client4_cb_program cb,
           cb_rnetid = client_addr4_rnetid (cb_client4_cb_location cb),
           cb_raddr = client_addr4_raddr (cb_client4_cb_location cb),
           cb_callback_ident = set_client_id4args_callback_ident args\<rparr>
     in case cmh_upsert_client E (nfs_client_id4_verifier client) (nfs_client_id4_id client) callback None sv of
          (Inr entry, sv) \<Rightarrow> reply rq (Some (R_Opsetclientid (SetClientId4res_Resok4
             \<lparr>set_client_id4resok_clientid = ce_clientid entry,
              set_client_id4resok_setclientid_confirm = ce_setclientid_confirm entry\<rparr>))) Nfs4Ok sv
        | (Inl e, sv) \<Rightarrow> reply rq None e sv)"

definition op_setclientid_confirm ::
  "('w, 'f, 'l, 'c) server_env \<Rightarrow> set_client_id_confirm4args \<Rightarrow> nfs_request \<Rightarrow> ('w, 'f, 'l, 'c) server
    \<Rightarrow> ('w, 'f, 'l, 'c) op_result" where
  "op_setclientid_confirm E args rq sv =
    (case cmh_confirm_client E (set_client_id_confirm4args_clientid args)
            (set_client_id_confirm4args_setclientid_confirm args) None sv of
       (Inr _, sv) \<Rightarrow> reply rq (Some (R_OpsetclientidConfirm \<lparr>set_client_id_confirm4res_status = Nfs4Ok\<rparr>)) Nfs4Ok sv
     | (Inl e, sv) \<Rightarrow> reply rq None e sv)"

definition op_renew ::
  "('w, 'f, 'l, 'c) server_env \<Rightarrow> renew4args \<Rightarrow> nfs_request \<Rightarrow> ('w, 'f, 'l, 'c) server
    \<Rightarrow> ('w, 'f, 'l, 'c) op_result" where
  "op_renew E args rq sv = (case cmh_renew_leases E (renew4args_clientid args) sv of
     (Inr _, sv) \<Rightarrow> reply rq (Some (R_Oprenew \<lparr>renew4res_status = Nfs4Ok\<rparr>)) Nfs4Ok sv
   | (Inl e, sv) \<Rightarrow> reply rq (Some (R_Oprenew \<lparr>renew4res_status = e\<rparr>)) e sv)"

section \<open>Sessions\<close>

definition EXCHANGE_FLAGS :: u32 where
  "EXCHANGE_FLAGS = 0x00010000 OR 0x00000008"

definition op_exchange_id ::
  "exchange_id4args \<Rightarrow> nfs_request \<Rightarrow> ('w, 'f, 'l, 'c) server \<Rightarrow> ('w, 'f, 'l, 'c) op_result" where
  "op_exchange_id args rq sv =
    (if \<not> rq_session_manager rq then reply rq None Nfs4errServerfault sv
     else
       let (client_id, sm) = allocate_client_id (sv_sessions sv)
       in reply rq (Some (R_OpexchangeId (ExchangeId4res_Resok4
            \<lparr>exchange_id4resok_eir_clientid = client_id, exchange_id4resok_eir_sequenceid = 1,
             exchange_id4resok_eir_flags = EXCHANGE_FLAGS, exchange_id4resok_eir_state_protect = SPr_SpNone,
             exchange_id4resok_eir_server_owner =
               \<lparr>server_owner4_so_minor_id = 0, server_owner4_so_major_id = map of_char ''nextnfs''\<rparr>,
             exchange_id4resok_eir_server_scope = map of_char ''nextnfs.local'',
             exchange_id4resok_eir_server_impl_id =
               [\<lparr>nfs_impl_id4_nii_domain = ''nextnfs.dev'', nfs_impl_id4_nii_name = ''nextnfs'',
                 nfs_impl_id4_nii_date = \<lparr>nfstime4_seconds = 0, nfstime4_nseconds = 0\<rparr>\<rparr>]\<rparr>)))
          Nfs4Ok (sv\<lparr>sv_sessions := sm\<rparr>))"

definition op_create_session ::
  "create_session4args \<Rightarrow> nfs_request \<Rightarrow> ('w, 'f, 'l, 'c) server \<Rightarrow> ('w, 'f, 'l, 'c) op_result" where
  "op_create_session args rq sv =
    (if \<not> rq_session_manager rq then reply rq None Nfs4errServerfault sv
     else
       let fore = create_session4args_csa_fore_chan_attrs args;
           max_slots = min (channel_attrs4_ca_maxrequests fore) 64;
           (s, sm) = create_session (create_session4args_csa_clientid args) max_slots (sv_sessions sv);
           fore_chan = \<lparr>channel_attrs4_ca_headerpadsize = 0,
             channel_attrs4_ca_maxrequestsize = min (channel_attrs4_ca_maxrequestsize fore) 1048576,
             channel_attrs4_ca_maxresponsesize = min (channel_attrs4_ca_maxresponsesize fore) 1048576,
             channel_attrs4_ca_maxresponsesize_cached = min (channel_attrs4_ca_maxresponsesize_cached fore) 1048576,
             channel_attrs4_ca_maxoperations = min (channel_attrs4_ca_maxoperations fore) 64,
             channel_attrs4_ca_maxrequests = max_slots, channel_attrs4_ca_rdma_ird = []\<rparr>;
           back_chan = \<lparr>channel_attrs4_ca_headerpadsize = 0, channel_attrs4_ca_maxrequestsize = 4096,
             channel_attrs4_ca_maxresponsesize = 4096, channel_attrs4_ca_maxresponsesize_cached = 0,
             channel_attrs4_ca_maxoperations = 2, channel_attrs4_ca_maxrequests = 1,
             channel_attrs4_ca_rdma_ird = []\<rparr>
       in reply (rq\<lparr>rq_session_id := Some (ss_id s)\<rparr>) (Some (R_OpcreateSession (CreateSession4res_Resok4
            \<lparr>create_session4resok_csr_sessionid = ss_id s,
             create_session4resok_csr_sequenceid = create_session4args_csa_sequence args,
             create_session4resok_csr_flags = create_session4args_csa_flags args,
             create_session4resok_csr_fore_chan_attrs = fore_chan,
             create_session4resok_csr_back_chan_attrs = back_chan\<rparr>))) Nfs4Ok (sv\<lparr>sv_sessions := sm\<rparr>))"

text \<open>Log messages are left out, among them one that computes \<open>slots.len() - 1\<close> for a session that may have no slots.\<close>

definition op_sequence ::
  "sequence4args \<Rightarrow> nfs_request \<Rightarrow> ('w, 'f, 'l, 'c) server \<Rightarrow> ('w, 'f, 'l, 'c) op_result" where
  "op_sequence args rq sv =
    (if \<not> rq_session_manager rq then reply rq None Nfs4errServerfault sv
     else case get_session (sv_sessions sv) (sequence4args_sa_sessionid args) of
       None \<Rightarrow> reply rq None Nfs4errBadSession sv
     | Some s \<Rightarrow>
         if length (ss_slots s) \<le> unat (sequence4args_sa_slotid args) then reply rq None Nfs4errBadSlot sv
         else
           let highest_slot = of_nat (length (ss_slots s) - 1) :: u32
           in reply (rq\<lparr>rq_session_id := Some (sequence4args_sa_sessionid args),
                        rq_sequence_slotid := Some (sequence4args_sa_slotid args)\<rparr>)
                (Some (R_Opsequence (Sequence4res_Resok4
                  \<lparr>sequence4resok_sr_sessionid = sequence4args_sa_sessionid args,
                   sequence4resok_sr_sequenceid = sequence4args_sa_sequenceid args,
                   sequence4resok_sr_slotid = sequence4args_sa_slotid args,
                   sequence4resok_sr_highest_slotid = highest_slot,
                   sequence4resok_sr_target_highest_slotid = highest_slot,
                   sequence4resok_sr_status_flags = 0\<rparr>))) Nfs4Ok sv)"

definition destroy_session_res :: "nfs_stat4 \<Rightarrow> nfs_res_op4 option" where
  "destroy_session_res st = Some (R_OpdestroySession \<lparr>destroy_session4res_dsr_status = st\<rparr>)"

definition op_destroy_session ::
  "destroy_session4args \<Rightarrow> nfs_request \<Rightarrow> ('w, 'f, 'l, 'c) server \<Rightarrow> ('w, 'f, 'l, 'c) op_result" where
  "op_destroy_session args rq sv =
    (if \<not> rq_session_manager rq then reply rq (destroy_session_res Nfs4errServerfault) Nfs4errServerfault sv
     else
       let (destroyed, sm) = destroy_session (destroy_session4args_dsa_sessionid args) (sv_sessions sv);
           st = (if destroyed then Nfs4Ok else Nfs4errBadSession)
       in reply rq (destroy_session_res st) st (sv\<lparr>sv_sessions := sm\<rparr>))"

definition destroy_clientid_res :: "nfs_stat4 \<Rightarrow> nfs_res_op4 option" where
  "destroy_clientid_res st = Some (R_OpdestroyClientid \<lparr>destroy_client_id4res_dcr_status = st\<rparr>)"

definition op_destroy_clientid ::
  "destroy_client_id4args \<Rightarrow> nfs_request \<Rightarrow> ('w, 'f, 'l, 'c) server \<Rightarrow> ('w, 'f, 'l, 'c) op_result" where
  "op_destroy_clientid args rq sv =
    (if \<not> rq_session_manager rq then reply rq (destroy_clientid_res Nfs4errServerfault) Nfs4errServerfault sv
     else
       let (_, sm) = destroy_client (destroy_client_id4args_dca_clientid args) (sv_sessions sv)
       in reply rq (destroy_clientid_res Nfs4Ok) Nfs4Ok (sv\<lparr>sv_sessions := sm\<rparr>))"

definition op_bind_conn_to_session ::
  "bind_conn_to_session4args \<Rightarrow> nfs_request \<Rightarrow> ('w, 'f, 'l, 'c) server \<Rightarrow> ('w, 'f, 'l, 'c) op_result" where
  "op_bind_conn_to_session args rq sv =
    (if \<not> rq_session_manager rq then reply rq None Nfs4errServerfault sv
     else
       let i = bind_conn_to_session4args_bctsa_sessid args
       in case get_session (sv_sessions sv) i of
            None \<Rightarrow> reply rq None Nfs4errBadSession sv
          | Some s \<Rightarrow>
              let (_, sm) = bind_connection i (rq_client_addr rq) (sv_sessions sv)
              in reply rq (Some (R_OpbindConnToSession (BindConnToSession4res_Resok4
                   \<lparr>bind_conn_to_session4resok_bctsr_sessid = ss_id s,
                    bind_conn_to_session4resok_bctsr_dir = CDFS_Fore,
                    bind_conn_to_session4resok_bctsr_use_conn_in_rdma_mode = False\<rparr>)))
                 Nfs4Ok (sv\<lparr>sv_sessions := sm\<rparr>))"

definition op_reclaim_complete ::
  "reclaim_complete4args \<Rightarrow> nfs_request \<Rightarrow> ('w, 'f, 'l, 'c) server \<Rightarrow> ('w, 'f, 'l, 'c) op_result" where
  "op_reclaim_complete args rq sv =
    reply rq (Some (R_OpreclaimComplete \<lparr>reclaim_complete4res_rcr_status = Nfs4Ok\<rparr>)) Nfs4Ok sv"

definition op_free_stateid ::
  "free_stateid4args \<Rightarrow> nfs_request \<Rightarrow> ('w, 'f, 'l, 'c) server \<Rightarrow> ('w, 'f, 'l, 'c) op_result" where
  "op_free_stateid args rq sv =
    reply rq (Some (R_OpfreeStateid \<lparr>free_stateid4res_fsr_status = Nfs4Ok\<rparr>)) Nfs4Ok sv"

definition op_test_stateid ::
  "test_stateid4args \<Rightarrow> nfs_request \<Rightarrow> ('w, 'f, 'l, 'c) server \<Rightarrow> ('w, 'f, 'l, 'c) op_result" where
  "op_test_stateid args rq sv =
    reply rq (Some (R_OptestStateid (TestStateid4res_Resok4
      \<lparr>test_stateid4resok_tsr_status_codes =
         map (\<lambda>_. nfs_stat4_num Nfs4Ok) (test_stateid4args_ts_stateids args)\<rparr>))) Nfs4Ok sv"

section \<open>Locks and open state\<close>

definition lock_denied_of :: "u64 \<Rightarrow> u64 \<Rightarrow> nfs_lock_type4 \<Rightarrow> u64 \<Rightarrow> bytes \<Rightarrow> lock4denied" where
  "lock_denied_of offset len t client_id owner =
    \<lparr>lock4denied_offset = offset, lock4denied_length = len, lock4denied_locktype = t,
     lock4denied_owner = \<lparr>lock_owner4_clientid = client_id, lock_owner4_owner = owner\<rparr>\<rparr>"

definition locker_owner :: "locker4 \<Rightarrow> u64 \<times> bytes" where
  "locker_owner locker = (case locker of
     Locker_OpenOwner otl \<Rightarrow> (lock_owner4_clientid (open_to_lock_owner4_lock_owner otl),
                              lock_owner4_owner (open_to_lock_owner4_lock_owner otl))
   | Locker_LockOwner el \<Rightarrow> (0, stateid4_other (exist_lock_owner4_lock_stateid el)))"

definition op_lock ::
  "('w, 'f, 'l, 'c) server_env \<Rightarrow> lock4args \<Rightarrow> nfs_request \<Rightarrow> ('w, 'f, 'l, 'c) server
    \<Rightarrow> ('w, 'f, 'l, 'c) op_result" where
  "op_lock E args rq sv = (case rq_filehandle rq of
     None \<Rightarrow> reply rq None Nfs4errNofilehandle sv
   | Some fh \<Rightarrow>
       let (client_id, owner) = locker_owner (lock4args_locker args)
       in with_file_manager rq (\<lambda>h.
            case fmh_lock_file E h (fh_id fh) client_id owner (lock4args_locktype args)
                   (lock4args_offset args) (lock4args_length args) sv of
              (LockOk sid, sv) \<Rightarrow>
                reply rq (Some (R_Oplock (Lock4res_Resok4 \<lparr>lock4resok_lock_stateid = sid\<rparr>))) Nfs4Ok sv
            | (LockDenied offset len t cid owner, sv) \<Rightarrow>
                reply rq (Some (R_Oplock (Lock4res_Denied (lock_denied_of offset len t cid owner)))) Nfs4errDenied sv
            | (LockError st, sv) \<Rightarrow> reply rq None st sv))"

definition op_lockt ::
  "('w, 'f, 'l, 'c) server_env \<Rightarrow> lockt4args \<Rightarrow> nfs_request \<Rightarrow> ('w, 'f, 'l, 'c) server
    \<Rightarrow> ('w, 'f, 'l, 'c) op_result" where
  "op_lockt E args rq sv = (case rq_filehandle rq of
     None \<Rightarrow> reply rq None Nfs4errNofilehandle sv
   | Some fh \<Rightarrow>
       let client_id = lock_owner4_clientid (lockt4args_owner args); owner = lock_owner4_owner (lockt4args_owner args)
       in with_file_manager rq (\<lambda>h.
            case fmh_test_lock E h (fh_id fh) client_id owner (lockt4args_locktype args)
                   (lockt4args_offset args) (lockt4args_length args) sv of
              (TestOk, sv) \<Rightarrow> reply rq (Some (R_Oplockt (Lockt4res_Denied
                 (lock_denied_of 0 0 (lockt4args_locktype args) client_id owner)))) Nfs4Ok sv
            | (TestDenied offset len t cid owner, sv) \<Rightarrow>
                reply rq (Some (R_Oplockt (Lockt4res_Denied (lock_denied_of offset len t cid owner)))) Nfs4errDenied sv))"

definition op_locku ::
  "('w, 'f, 'l, 'c) server_env \<Rightarrow> locku4args \<Rightarrow> nfs_request \<Rightarrow> ('w, 'f, 'l, 'c) server
    \<Rightarrow> ('w, 'f, 'l, 'c) op_result" where
  "op_locku E args rq sv = with_file_manager rq (\<lambda>h.
     case fmh_unlock_file E h (stateid4_other (locku4args_lock_stateid args))
            (locku4args_offset args) (locku4args_length args) sv of
       (UnlockOk sid, sv) \<Rightarrow> reply rq (Some (R_Oplocku (Locku4res_LockStateid sid))) Nfs4Ok sv
     | (UnlockError st, sv) \<Rightarrow> reply rq None st sv)"

definition op_release_lockowner ::
  "('w, 'f, 'l, 'c) server_env \<Rightarrow> release_lockowner4args \<Rightarrow> nfs_request \<Rightarrow> ('w, 'f, 'l, 'c) server
    \<Rightarrow> ('w, 'f, 'l, 'c) op_result" where
  "op_release_lockowner E args rq sv = with_file_manager rq (\<lambda>h.
     let owner = release_lockowner4args_lock_owner args;
         (st, sv) = fmh_release_lock_owner E h (lock_owner4_clientid owner) (lock_owner4_owner owner) sv
     in reply rq (Some (R_OpreleaseLockOwner \<lparr>release_lockowner4res_status = st\<rparr>)) st sv)"

definition op_delegpurge ::
  "delegpurge4args \<Rightarrow> nfs_request \<Rightarrow> ('w, 'f, 'l, 'c) server \<Rightarrow> ('w, 'f, 'l, 'c) op_result" where
  "op_delegpurge args rq sv =
    reply rq (Some (R_Opdelegpurge \<lparr>deleg_purge4res_status = Nfs4Ok\<rparr>)) Nfs4Ok sv"

definition delegreturn_res :: "nfs_stat4 \<Rightarrow> nfs_res_op4 option" where
  "delegreturn_res st = Some (R_Opdelegreturn \<lparr>deleg_return4res_status = st\<rparr>)"

definition op_delegreturn ::
  "('w, 'f, 'l, 'c) server_env \<Rightarrow> deleg_return4args \<Rightarrow> nfs_request \<Rightarrow> ('w, 'f, 'l, 'c) server
    \<Rightarrow> ('w, 'f, 'l, 'c) op_result" where
  "op_delegreturn E args rq sv = (case rq_filehandle rq of
     None \<Rightarrow> reply rq (delegreturn_res Nfs4errFhexpired) Nfs4errFhexpired sv
   | Some fh \<Rightarrow> with_file_manager rq (\<lambda>h.
       let (st, sv) = fmh_return_delegation E h (fh_id fh) (deleg_return4args_deleg_stateid args) sv
       in reply rq (delegreturn_res st) st sv))"

text \<open>CLOSE commits the write cache of the handle, if it has one, and drops the open state.\<close>

definition flush_write_cache ::
  "('w, 'f, 'l, 'c) server_env \<Rightarrow> fm_handle \<Rightarrow> filehandle \<Rightarrow> ('w, 'f, 'l, 'c) server \<Rightarrow> ('w, 'f, 'l, 'c) server" where
  "flush_write_cache E h fh sv = (case fmh_get_write_cache_handle E h fh sv of
     (Inr c, sv) \<Rightarrow> fmh_touch_file E h (fh_id fh) (wc_send E c Commit sv)
   | (Inl _, sv) \<Rightarrow> fmh_touch_file E h (fh_id fh) sv)"

definition op_close ::
  "('w, 'f, 'l, 'c) server_env \<Rightarrow> close4args \<Rightarrow> nfs_request \<Rightarrow> ('w, 'f, 'l, 'c) server
    \<Rightarrow> ('w, 'f, 'l, 'c) op_result" where
  "op_close E args rq sv = (case rq_filehandle rq of
     None \<Rightarrow> reply rq None Nfs4errNofilehandle sv
   | Some fh \<Rightarrow> with_file_manager rq (\<lambda>h.
       let sv = (if fh_write_cache fh \<noteq> None then flush_write_cache E h fh sv else sv);
           other = stateid4_other (close4args_open_stateid args);
           sv = fmh_close_file E h other sv
       in reply (drop_filehandle_from_cache (fh_id fh) rq)
            (Some (R_Opclose (Close4res_OpenStateid \<lparr>stateid4_seqid = close4args_seqid args, stateid4_other = other\<rparr>)))
            Nfs4Ok sv))"

definition op_open_confirm ::
  "open_confirm4args \<Rightarrow> nfs_request \<Rightarrow> ('w, 'f, 'l, 'c) server \<Rightarrow> ('w, 'f, 'l, 'c) op_result" where
  "op_open_confirm args rq sv = (case rq_filehandle rq of
     None \<Rightarrow> reply rq None Nfs4errNofilehandle sv
   | Some fh \<Rightarrow> (case fh_locks fh of
       [] \<Rightarrow> reply rq None Nfs4errBadStateid sv
     | lock # _ \<Rightarrow> reply rq (Some (R_OpopenConfirm (OpenConfirm4res_Resok4
           \<lparr>open_confirm4resok_open_stateid = \<lparr>stateid4_seqid = ls_seqid lock, stateid4_other = ls_stateid lock\<rparr>\<rparr>)))
         Nfs4Ok sv))"

definition op_open_downgrade ::
  "open_downgrade4args \<Rightarrow> nfs_request \<Rightarrow> ('w, 'f, 'l, 'c) server \<Rightarrow> ('w, 'f, 'l, 'c) op_result" where
  "op_open_downgrade args rq sv = (case rq_filehandle rq of
     None \<Rightarrow> reply rq None Nfs4errNofilehandle sv
   | Some fh \<Rightarrow>
       if open_downgrade4args_share_access args = 0 \<or> 3 < open_downgrade4args_share_access args
       then reply rq None Nfs4errInval sv
       else (case fh_locks fh of
         [] \<Rightarrow> reply rq None Nfs4errBadStateid sv
       | lock # _ \<Rightarrow> reply rq (Some (R_OpopenDowngrade (OpenDowngrade4res_Resok4
             \<lparr>open_downgrade4resok_open_stateid =
                \<lparr>stateid4_seqid = open_downgrade4args_seqid args + 1, stateid4_other = ls_stateid lock\<rparr>\<rparr>)))
           Nfs4Ok sv))"

section \<open>pNFS\<close>

definition op_getdeviceinfo ::
  "get_device_info4args \<Rightarrow> nfs_request \<Rightarrow> ('w, 'f, 'l, 'c) server \<Rightarrow> ('w, 'f, 'l, 'c) op_result" where
  "op_getdeviceinfo args rq sv =
    reply rq (Some (R_OpgetdeviceInfo (GetDeviceInfo4res_Err Nfs4errNotsupp))) Nfs4errNotsupp sv"

definition op_getdevicelist ::
  "get_device_list4args \<Rightarrow> nfs_request \<Rightarrow> ('w, 'f, 'l, 'c) server \<Rightarrow> ('w, 'f, 'l, 'c) op_result" where
  "op_getdevicelist args rq sv =
    reply rq (Some (R_OpgetdeviceList (GetDeviceList4res_Err Nfs4errNotsupp))) Nfs4errNotsupp sv"

definition op_layoutcommit ::
  "layout_commit4args \<Rightarrow> nfs_request \<Rightarrow> ('w, 'f, 'l, 'c) server \<Rightarrow> ('w, 'f, 'l, 'c) op_result" where
  "op_layoutcommit args rq sv =
    reply rq (Some (R_OplayoutCommit (LayoutCommit4res_Err Nfs4errNomatchingLayout))) Nfs4errNomatchingLayout sv"

definition op_layoutget ::
  "layout_get4args \<Rightarrow> nfs_request \<Rightarrow> ('w, 'f, 'l, 'c) server \<Rightarrow> ('w, 'f, 'l, 'c) op_result" where
  "op_layoutget args rq sv =
    reply rq (Some (R_OplayoutGet (LayoutGet4res_Err Nfs4errLayoutUnavailable))) Nfs4errLayoutUnavailable sv"

definition op_layoutreturn ::
  "layout_return4args \<Rightarrow> nfs_request \<Rightarrow> ('w, 'f, 'l, 'c) server \<Rightarrow> ('w, 'f, 'l, 'c) op_result" where
  "op_layoutreturn args rq sv =
    reply rq (Some (R_OplayoutReturn (LayoutReturn4res_Err Nfs4errNomatchingLayout))) Nfs4errNomatchingLayout sv"

end
