(* ===== verification/OpsFile.thy ===== *)
theory OpsFile
  imports OpsFh
begin

text \<open>
  The operations on files and their data: ACCESS, GETATTR, VERIFY, NVERIFY, SETATTR, READ, WRITE,
  COMMIT, READLINK, ALLOCATE, COPY, SEEK (\<open>nfs40/op_*.rs\<close>, one file per operation).
\<close>

definition rq_quota :: "('w, 'f, 'l, 'c) server \<Rightarrow> nfs_request \<Rightarrow> quota_manager option" where
  "rq_quota sv rq = map_option eo_quota_manager (rq_objects sv rq)"

definition rq_update_objs ::
  "nfs_request \<Rightarrow> (export_objs \<Rightarrow> export_objs) \<Rightarrow> ('w, 'f, 'l, 'c) server \<Rightarrow> ('w, 'f, 'l, 'c) server" where
  "rq_update_objs rq f sv = (case rq_objs rq of
     Some i \<Rightarrow> sv\<lparr>sv_exports := update_objs (sv_exports sv) i f\<rparr> | None \<Rightarrow> sv)"

definition rq_quota_ok :: "('w, 'f, 'l, 'c) server \<Rightarrow> nfs_request \<Rightarrow> u64 \<Rightarrow> bool" where
  "rq_quota_ok sv rq n = (case rq_quota sv rq of Some qm \<Rightarrow> check_write qm n | None \<Rightarrow> True)"

definition rq_record_write :: "nfs_request \<Rightarrow> u64 \<Rightarrow> ('w, 'f, 'l, 'c) server \<Rightarrow> ('w, 'f, 'l, 'c) server" where
  "rq_record_write rq n = rq_update_objs rq (\<lambda>ob. ob\<lparr>eo_quota_manager := record_write (eo_quota_manager ob) n\<rparr>)"

section \<open>ACCESS\<close>

definition ACCESS4_READ :: u32 where "ACCESS4_READ = 1"
definition ACCESS4_LOOKUP :: u32 where "ACCESS4_LOOKUP = 2"
definition ACCESS4_MODIFY :: u32 where "ACCESS4_MODIFY = 4"
definition ACCESS4_EXTEND :: u32 where "ACCESS4_EXTEND = 8"
definition ACCESS4_DELETE :: u32 where "ACCESS4_DELETE = 16"
definition ACCESS4_EXECUTE :: u32 where "ACCESS4_EXECUTE = 32"

definition check_access :: "u32 \<Rightarrow> real_meta \<Rightarrow> caller \<Rightarrow> bool \<Rightarrow> u32" where
  "check_access requested m c is_dir =
    (if is_root c then requested
     else
       let bits = mode_bits c m;
           has_read = (bits AND 4 \<noteq> 0); has_write = (bits AND 2 \<noteq> 0); has_exec = (bits AND 1 \<noteq> 0);
           grant = (\<lambda>b bit granted. if b \<and> requested AND bit \<noteq> 0 then granted OR bit else granted)
       in grant has_write ACCESS4_DELETE (grant has_write ACCESS4_EXTEND (grant has_write ACCESS4_MODIFY
            (grant (\<not> is_dir \<and> has_read) ACCESS4_LOOKUP (grant (is_dir \<and> has_exec) ACCESS4_LOOKUP
              (grant has_exec ACCESS4_EXECUTE (grant has_read ACCESS4_READ 0)))))))"

definition meta_of_fh :: "filehandle \<Rightarrow> real_meta" where
  "meta_of_fh fh = \<lparr>rm_ino = fh_attr_fileid fh, rm_dev = 0, rm_mode = fh_attr_mode fh,
     rm_nlink = ucast (fh_attr_nlink fh),
     rm_uid = (case parse_u32 (fh_attr_owner fh) of Some u \<Rightarrow> u | None \<Rightarrow> 0),
     rm_gid = (case parse_u32 (fh_attr_owner_group fh) of Some g \<Rightarrow> g | None \<Rightarrow> 0),
     rm_size = fh_attr_size fh, rm_blocks = 0, rm_atime = 0, rm_atime_nsec = 0, rm_mtime = 0,
     rm_mtime_nsec = 0, rm_ctime = 0, rm_ctime_nsec = 0\<rparr>"

definition rq_caller :: "('w, 'f, 'l, 'c) server \<Rightarrow> nfs_request \<Rightarrow> caller" where
  "rq_caller sv rq = caller_new (rq_auth_cred rq) (rq_access_control sv rq)"

definition op_access ::
  "('w, 'f, 'l, 'c) server_env \<Rightarrow> access4args \<Rightarrow> nfs_request \<Rightarrow> ('w, 'f, 'l, 'c) server
    \<Rightarrow> ('w, 'f, 'l, 'c) op_result" where
  "op_access E args rq sv =
    (let requested = access4args_access args;
         supported = ACCESS4_READ OR ACCESS4_LOOKUP OR ACCESS4_MODIFY OR ACCESS4_EXTEND OR ACCESS4_DELETE
                       OR ACCESS4_EXECUTE;
         access = (case rq_filehandle rq of
             Some fh \<Rightarrow>
               let m = (case rq_cached_fmanager rq of
                     Some h \<Rightarrow> (case os_lstat (handle_fs E h) (sv_world sv) (handle_real_path h (fh_path fh)) of
                         Some m \<Rightarrow> m | None \<Rightarrow> meta_of_fh fh)
                   | None \<Rightarrow> meta_of_fh fh)
               in check_access requested m (rq_caller sv rq) (fh_attr_type fh = Nf4dir)
           | None \<Rightarrow> requested);
         access = (if rq_read_only rq
             then access AND NOT (ACCESS4_MODIFY OR ACCESS4_EXTEND OR ACCESS4_DELETE) else access)
     in reply rq (Some (R_OpAccess (Access4res_Resok4
          \<lparr>access4resok_supported = supported, access4resok_access = access\<rparr>))) Nfs4Ok sv)"

section \<open>GETATTR, VERIFY and SETATTR\<close>

definition DEFAULT_SPACE_TOTAL :: u64 where
  "DEFAULT_SPACE_TOTAL = 1099511627776"

definition quota_info_of :: "quota_manager \<Rightarrow> quota_info" where
  "quota_info_of qm =
    (let used = qm_bytes_used qm; free = saturating_sub DEFAULT_SPACE_TOTAL used
     in \<lparr>qi_quota_avail_hard = quota_avail_hard qm, qi_quota_avail_soft = quota_avail_soft qm,
         qi_quota_used = used, qi_space_avail = free, qi_space_free = free,
         qi_space_total = DEFAULT_SPACE_TOTAL\<rparr>)"

definition fattr_of :: "file_attr list \<times> file_attr_value list \<Rightarrow> fattr4" where
  "fattr_of p = \<lparr>fattr4_attrmask = fst p, fattr4_attr_vals = snd p\<rparr>"

definition getattr_res :: "nfs_stat4 \<Rightarrow> fattr4 option \<Rightarrow> nfs_res_op4 option" where
  "getattr_res st attrs = Some (R_Opgetattr
     \<lparr>getattr4resok_status = st, getattr4resok_obj_attributes = attrs\<rparr>)"

definition op_getattr ::
  "('w, 'f, 'l, 'c) server_env \<Rightarrow> getattr4args \<Rightarrow> nfs_request \<Rightarrow> ('w, 'f, 'l, 'c) server
    \<Rightarrow> ('w, 'f, 'l, 'c) op_result" where
  "op_getattr E args rq sv =
    (let req = getattr4args_attr_request args in
     if is_pseudo_root rq
     then reply rq (getattr_res Nfs4Ok (Some (fattr_of
            (pseudo_root_getattr (os_time (se_pseudo_fs E) (sv_world sv)) req)))) Nfs4Ok sv
     else case rq_filehandle rq of
       None \<Rightarrow> reply rq (getattr_res Nfs4errStale None) Nfs4errStale sv
     | Some fh \<Rightarrow> with_file_manager rq (\<lambda>h.
         case fmh_filehandle_attrs E h req fh (map_option quota_info_of (rq_quota sv rq)) sv of
           Some r \<Rightarrow> reply rq (getattr_res Nfs4Ok (Some (fattr_of r))) Nfs4Ok sv
         | None \<Rightarrow> reply rq (getattr_res Nfs4errServerfault None) Nfs4errServerfault sv))"

definition attr_matches :: "filehandle \<Rightarrow> file_attr_value \<Rightarrow> bool" where
  "attr_matches fh v = (case v of
     FV_Type t \<Rightarrow> fh_attr_type fh = t
   | FV_Size s \<Rightarrow> fh_attr_size fh = s
   | FV_Change c \<Rightarrow> fh_attr_change fh = c
   | FV_Mode m \<Rightarrow> fh_attr_mode fh = m
   | FV_Numlinks n \<Rightarrow> fh_attr_nlink fh = n
   | FV_SpaceUsed s \<Rightarrow> fh_attr_space_used fh = s
   | _ \<Rightarrow> True)"

fun attrs_match :: "file_attr_value list \<Rightarrow> filehandle \<Rightarrow> bool" where
  "attrs_match [] fh = True"
| "attrs_match (v # vs) fh = (if \<not> attr_matches fh v then False else attrs_match vs fh)"

definition op_verify ::
  "verify4args \<Rightarrow> nfs_request \<Rightarrow> ('w, 'f, 'l, 'c) server \<Rightarrow> ('w, 'f, 'l, 'c) op_result" where
  "op_verify args rq sv = (case rq_filehandle rq of
     None \<Rightarrow> reply rq None Nfs4errNofilehandle sv
   | Some fh \<Rightarrow>
       let st = (if attrs_match (fattr4_attr_vals (verify4args_obj_attributes args)) fh then Nfs4Ok else Nfs4errNotSame)
       in reply rq (Some (R_Opverify \<lparr>verify4res_status = st\<rparr>)) st sv)"

definition op_nverify ::
  "nverify4args \<Rightarrow> nfs_request \<Rightarrow> ('w, 'f, 'l, 'c) server \<Rightarrow> ('w, 'f, 'l, 'c) op_result" where
  "op_nverify args rq sv = (case rq_filehandle rq of
     None \<Rightarrow> reply rq None Nfs4errNofilehandle sv
   | Some fh \<Rightarrow>
       let st = (if attrs_match (fattr4_attr_vals (nverify4args_obj_attributes args)) fh then Nfs4errSame else Nfs4Ok)
       in reply rq (Some (R_Opnverify \<lparr>nverify4res_status = st\<rparr>)) st sv)"

definition setattr_res :: "nfs_stat4 \<Rightarrow> file_attr list \<Rightarrow> nfs_res_op4 option" where
  "setattr_res st attrs = Some (R_Opsetattr \<lparr>set_attr4res_status = st, set_attr4res_attrsset = attrs\<rparr>)"

definition op_setattr ::
  "('w, 'f, 'l, 'c) server_env \<Rightarrow> set_attr4args \<Rightarrow> nfs_request \<Rightarrow> ('w, 'f, 'l, 'c) server
    \<Rightarrow> ('w, 'f, 'l, 'c) op_result" where
  "op_setattr E args rq sv = (case rq_filehandle rq of
     None \<Rightarrow> reply rq (setattr_res Nfs4errStale []) Nfs4errStale sv
   | Some fh \<Rightarrow>
       let attrs = set_attr4args_obj_attributes args
       in if fattr4_attrmask attrs = [] then reply rq (setattr_res Nfs4Ok []) Nfs4Ok sv
          else with_file_manager rq (\<lambda>h. case fmh_set_attr E h fh (fattr4_attr_vals attrs) sv of
            None \<Rightarrow> None
          | Some (attrsset, sv) \<Rightarrow>
              (case set_filehandle_id E (fh_id fh) rq (fmh_touch_file E h (fh_id fh) sv) of
                 None \<Rightarrow> None
               | Some (Inr fh, rq, sv) \<Rightarrow>
                   reply (cache_filehandle E sv fh rq) (setattr_res Nfs4Ok attrsset) Nfs4Ok sv
               | Some (Inl e, rq, sv) \<Rightarrow> reply rq None e sv)))"

section \<open>READ, WRITE and COMMIT\<close>

definition record_read_stats :: "u64 \<Rightarrow> export_objs \<Rightarrow> export_objs" where
  "record_read_stats n ob = ob\<lparr>eo_stats := (eo_stats ob)\<lparr>st_reads := st_reads (eo_stats ob) + 1,
     st_bytes_read := st_bytes_read (eo_stats ob) + n\<rparr>\<rparr>"

definition record_write_stats :: "u64 \<Rightarrow> export_objs \<Rightarrow> export_objs" where
  "record_write_stats n ob = ob\<lparr>eo_stats := (eo_stats ob)\<lparr>st_writes := st_writes (eo_stats ob) + 1,
     st_bytes_written := st_bytes_written (eo_stats ob) + n\<rparr>\<rparr>"

definition op_read ::
  "('w, 'f, 'l, 'c) server_env \<Rightarrow> read4args \<Rightarrow> nfs_request \<Rightarrow> ('w, 'f, 'l, 'c) server
    \<Rightarrow> ('w, 'f, 'l, 'c) op_result" where
  "op_read E args rq sv = (case rq_filehandle rq of
     None \<Rightarrow> reply rq None Nfs4errFhexpired sv
   | Some fh \<Rightarrow>
       let io = fh_io E sv fh; w = sv_world sv; path = fh_file fh; offset = read4args_offset args
       in if \<not> vio_open io w path then reply rq None Nfs4errIo sv
          else
            let file_size = (case vio_size io w path of Some n \<Rightarrow> n | None \<Rightarrow> fh_attr_size fh)
            in if \<not> vio_seek io w path offset then reply rq None Nfs4errIo sv
               else
                 let remaining = saturating_sub file_size offset;
                     read_size = unat (min (ucast (read4args_count args)) remaining)
                 in case vio_read io w path offset read_size of
                      None \<Rightarrow> reply rq None Nfs4errIo sv
                    | Some buffer \<Rightarrow>
                        let n = of_nat (length buffer) :: u64; eof = (offset + n \<ge> file_size)
                        in reply rq (Some (R_Opread (Read4res_Resok4
                             \<lparr>read4resok_eof = eof, read4resok_data = buffer\<rparr>))) Nfs4Ok
                             (rq_update_objs rq (record_read_stats n) sv))"

definition verifier_from_boot :: "u64 \<Rightarrow> bytes" where
  "verifier_from_boot boot_time = be_bytes 8 boot_time"

text \<open>The unstable write: through the write cache of the file, started if there is none.\<close>

definition write_cached ::
  "('w, 'f, 'l, 'c) server_env \<Rightarrow> write4args \<Rightarrow> filehandle \<Rightarrow> nfs_request \<Rightarrow> ('w, 'f, 'l, 'c) server
    \<Rightarrow> (bool \<times> nfs_request \<times> ('w, 'f, 'l, 'c) server) option" where
  "write_cached E args fh rq sv =
    (let msg = Write (write4args_offset args) (write4args_data args) in
     case fh_write_cache fh of
       Some c \<Rightarrow> Some (True, rq, wc_send E c msg sv)
     | None \<Rightarrow> (case rq_cached_fmanager rq of
         None \<Rightarrow> None
       | Some h \<Rightarrow> Some (case fmh_get_write_cache_handle E h fh sv of
           (Inr c, sv) \<Rightarrow> (True, drop_filehandle_from_cache (fh_id fh) rq, wc_send E c msg sv)
         | (Inl _, sv) \<Rightarrow> (False, rq, sv))))"

text \<open>
  The stable write: an append at the exact end of the file, else a positional write; the vfs for
  a file that is not on the operating system's filesystem. The number of bytes written, or an error.
\<close>

definition write_sync ::
  "('w, 'f, 'l, 'c) server_env \<Rightarrow> fm_handle \<Rightarrow> write4args \<Rightarrow> filehandle \<Rightarrow> ('w, 'f, 'l, 'c) server
    \<Rightarrow> u32 option \<times> 'w" where
  "write_sync E h args fh sv =
    (let std = se_std E; w = sv_world sv; path = handle_real_path h (fh_file fh);
         dat = write4args_data args; offset = write4args_offset args;
         fin = (\<lambda>(ok, w). (if ok then Some (of_nat (length dat)) else None, w))
     in if std_exists std w path then
          let file_len = (case std_len std w path of Some n \<Rightarrow> n | None \<Rightarrow> 0)
          in if offset = file_len then fin (std_append_sync std w path dat)
             else fin (std_write_at_sync std w path dat offset)
        else if \<not> vio_open_append (fh_io E sv fh) w (fh_file fh) then (None, w)
        else let (n, w) = vio_write (fh_io E sv fh) w (fh_file fh) offset dat in (map_option of_nat n, w))"

definition write_ok ::
  "u32 \<Rightarrow> stable_how4 \<Rightarrow> nfs_request \<Rightarrow> ('w, 'f, 'l, 'c) server \<Rightarrow> ('w, 'f, 'l, 'c) op_result" where
  "write_ok n committed rq sv =
    (let sv = rq_update_objs rq (record_write_stats (ucast n)) sv;
         sv = (if 0 < n then rq_record_write rq (ucast n) sv else sv)
     in reply rq (Some (R_Opwrite (Write4res_Resok4
          \<lparr>write4resok_count = n, write4resok_committed = committed,
           write4resok_writeverf = verifier_from_boot (rq_boot_time rq)\<rparr>))) Nfs4Ok sv)"

definition op_write ::
  "('w, 'f, 'l, 'c) server_env \<Rightarrow> write4args \<Rightarrow> nfs_request \<Rightarrow> ('w, 'f, 'l, 'c) server
    \<Rightarrow> ('w, 'f, 'l, 'c) op_result" where
  "op_write E args rq sv = (case rq_filehandle rq of
     None \<Rightarrow> reply rq None Nfs4errFhexpired sv
   | Some fh \<Rightarrow>
       let dat = write4args_data args
       in if dat \<noteq> [] \<and> \<not> rq_quota_ok sv rq (of_nat (length dat)) then reply rq None Nfs4errDquot sv
          else if write4args_stable args = Unstable4 then
            (case write_cached E args fh rq sv of
               None \<Rightarrow> None
             | Some (False, rq, sv) \<Rightarrow> reply rq None Nfs4errServerfault sv
             | Some (True, rq, sv) \<Rightarrow> write_ok (of_nat (length dat)) Unstable4 rq sv)
          else with_file_manager rq (\<lambda>h. case write_sync E h args fh sv of
            (None, w) \<Rightarrow> reply rq None Nfs4errIo (sv\<lparr>sv_world := w\<rparr>)
          | (Some n, w) \<Rightarrow>
              let sv = sv\<lparr>sv_world := w\<rparr>; sv = (if 0 < n then fmh_touch_file E h (fh_id fh) sv else sv)
              in write_ok n FileSync4 rq sv))"

definition op_commit ::
  "('w, 'f, 'l, 'c) server_env \<Rightarrow> commit4args \<Rightarrow> nfs_request \<Rightarrow> ('w, 'f, 'l, 'c) server
    \<Rightarrow> ('w, 'f, 'l, 'c) op_result" where
  "op_commit E args rq sv = (case rq_filehandle rq of
     None \<Rightarrow> reply rq None Nfs4errFhexpired sv
   | Some fh \<Rightarrow> with_file_manager rq (\<lambda>h. case fmh_get_write_cache_handle E h fh sv of
       (Inl _, sv) \<Rightarrow> reply rq None Nfs4errServerfault sv
     | (Inr c, sv) \<Rightarrow>
         let sv = fmh_touch_file E h (fh_id fh) (wc_send E c Commit sv)
         in reply (drop_filehandle_from_cache (fh_id fh) rq) (Some (R_Opcommit (Commit4res_Resok4
              \<lparr>commit4resok_writeverf = verifier_from_boot (rq_boot_time rq)\<rparr>))) Nfs4Ok sv))"

section \<open>READLINK and SEEK\<close>

definition readlink_res :: "nfs_stat4 \<Rightarrow> string \<Rightarrow> nfs_res_op4 option" where
  "readlink_res st link = Some (R_Opreadlink \<lparr>readlink4res_status = st, readlink4res_link = link\<rparr>)"

definition op_readlink ::
  "('w, 'f, 'l, 'c) server_env \<Rightarrow> nfs_request \<Rightarrow> ('w, 'f, 'l, 'c) server \<Rightarrow> ('w, 'f, 'l, 'c) op_result" where
  "op_readlink E rq sv = (case rq_filehandle rq of
     None \<Rightarrow> reply rq None Nfs4errNofilehandle sv
   | Some fh \<Rightarrow> with_file_manager rq (\<lambda>h.
       case std_read_link (se_std E) (sv_world sv) (handle_real_path h (fh_file fh)) of
         Inr target \<Rightarrow> reply rq (readlink_res Nfs4Ok target) Nfs4Ok sv
       | Inl e \<Rightarrow>
           let st = (case e of Io_NotFound \<Rightarrow> Nfs4errNoent | Io_InvalidInput \<Rightarrow> Nfs4errInval | _ \<Rightarrow> Nfs4errIo)
           in reply rq (readlink_res st []) st sv))"

definition op_seek ::
  "('w, 'f, 'l, 'c) server_env \<Rightarrow> seek4args \<Rightarrow> nfs_request \<Rightarrow> ('w, 'f, 'l, 'c) server
    \<Rightarrow> ('w, 'f, 'l, 'c) op_result" where
  "op_seek E args rq sv = (case rq_filehandle rq of
     None \<Rightarrow> reply rq None Nfs4errFhexpired sv
   | Some fh \<Rightarrow>
       let io = fh_io E sv fh; w = sv_world sv; path = fh_file fh; offset = seek4args_sa_offset args;
           res = (\<lambda>eof off. Some (R_Opseek (Seek4res_Resok4 \<lparr>seek_res4_sr_eof = eof, seek_res4_sr_offset = off\<rparr>)))
       in if \<not> vio_open io w path then reply rq None Nfs4errIo sv
          else
            let file_size = (case vio_size io w path of Some n \<Rightarrow> n | None \<Rightarrow> fh_attr_size fh)
            in if offset \<ge> file_size then reply rq (res True file_size) Nfs4Ok sv
               else reply rq (res False (case seek4args_sa_what args of DC_Data \<Rightarrow> offset | DC_Hole \<Rightarrow> file_size))
                      Nfs4Ok sv)"

section \<open>ALLOCATE and COPY\<close>

definition ALLOC_CHUNK :: nat where "ALLOC_CHUNK = 64 * 1024"
definition COPY_CHUNK :: nat where "COPY_CHUNK = 256 * 1024"

text \<open>Writing zeros in chunks, from the cursor on.\<close>

function write_zeros :: "'w io_ops \<Rightarrow> string \<Rightarrow> u64 \<Rightarrow> nat \<Rightarrow> 'w \<Rightarrow> bool \<times> 'w" where
  "write_zeros io path pos remaining w =
    (if remaining = 0 then (True, w)
     else
       let n = min remaining ALLOC_CHUNK
       in case vio_write_all io w path pos (replicate n 0) of
            (False, w) \<Rightarrow> (False, w)
          | (True, w) \<Rightarrow> write_zeros io path (pos + of_nat n) (remaining - n) w)"
  by pat_completeness auto
termination by (relation "measure (\<lambda>(io, path, pos, remaining, w). remaining)") (auto simp: ALLOC_CHUNK_def)

declare write_zeros.simps [simp del]

definition allocate_res :: "nfs_stat4 \<Rightarrow> nfs_res_op4 option" where
  "allocate_res st = Some (R_Opallocate \<lparr>allocate4res_ar_status = st\<rparr>)"

definition op_allocate ::
  "('w, 'f, 'l, 'c) server_env \<Rightarrow> allocate4args \<Rightarrow> nfs_request \<Rightarrow> ('w, 'f, 'l, 'c) server
    \<Rightarrow> ('w, 'f, 'l, 'c) op_result" where
  "op_allocate E args rq sv = (case rq_filehandle rq of
     None \<Rightarrow> reply rq (allocate_res Nfs4errFhexpired) Nfs4errFhexpired sv
   | Some fh \<Rightarrow>
       let io = fh_io E sv fh; w = sv_world sv; path = fh_file fh
       in if \<not> rq_quota_ok sv rq (allocate4args_aa_length args)
          then reply rq (allocate_res Nfs4errDquot) Nfs4errDquot sv
          else if \<not> vio_open_append io w path then reply rq (allocate_res Nfs4errIo) Nfs4errIo sv
          else (case vio_size io w path of
            None \<Rightarrow> reply rq (allocate_res Nfs4errIo) Nfs4errIo sv
          | Some file_size \<Rightarrow>
              let alloc_end = allocate4args_aa_offset args + allocate4args_aa_length args
              in if alloc_end > file_size then
                   (case write_zeros io path file_size (unat (alloc_end - file_size)) w of
                      (False, w) \<Rightarrow> reply rq (allocate_res Nfs4errIo) Nfs4errIo (sv\<lparr>sv_world := w\<rparr>)
                    | (True, w) \<Rightarrow> reply rq (allocate_res Nfs4Ok) Nfs4Ok
                        (rq_record_write rq (alloc_end - file_size) (sv\<lparr>sv_world := w\<rparr>)))
                 else reply rq (allocate_res Nfs4Ok) Nfs4Ok sv))"

text \<open>
  The copy loop: the bytes copied, or an error. A read of nothing ends it; otherwise the copied grows.
\<close>

function copy_loop ::
  "'w io_ops \<Rightarrow> string \<Rightarrow> u64 \<Rightarrow> 'w io_ops \<Rightarrow> string \<Rightarrow> u64 \<Rightarrow> nat \<Rightarrow> nat \<Rightarrow> 'w \<Rightarrow> nat option \<times> 'w" where
  "copy_loop sio spath soff dio dpath doff copy_count copied w =
    (if copy_count \<le> copied then (Some copied, w)
     else
       let to_read = min (copy_count - copied) COPY_CHUNK
       in case vio_read sio w spath (soff + of_nat copied) to_read of
            None \<Rightarrow> (None, w)
          | Some buf \<Rightarrow>
              if buf = [] then (Some copied, w)
              else (case vio_write_all dio w dpath (doff + of_nat copied) buf of
                (False, w) \<Rightarrow> (None, w)
              | (True, w) \<Rightarrow> copy_loop sio spath soff dio dpath doff copy_count (copied + length buf) w))"
  by pat_completeness auto
termination
  by (relation "measure (\<lambda>(sio, spath, soff, dio, dpath, doff, copy_count, copied, w). copy_count - copied)")
    (auto simp: diff_less_mono2)

declare copy_loop.simps [simp del]

definition copy_res :: "u64 \<Rightarrow> nfs_res_op4 option" where
  "copy_res n = Some (R_Opcopy (Copy4res_Resok4
     \<lparr>copy4resok_cr_response = \<lparr>write_response4_wr_callback_id = [], write_response4_wr_count = n,
        write_response4_wr_committed = FileSync4, write_response4_wr_writeverf = replicate 8 0\<rparr>,
      copy4resok_cr_requirements = \<lparr>copy_requirements4_cr_consecutive = True,
        copy_requirements4_cr_synchronous = True\<rparr>\<rparr>))"

definition copy_count_of :: "u64 \<Rightarrow> u64 \<Rightarrow> u64 \<Rightarrow> u64" where
  "copy_count_of src_size src_offset requested =
    (let available = saturating_sub src_size src_offset
     in if requested = 0 then available else min requested available)"

definition op_copy ::
  "('w, 'f, 'l, 'c) server_env \<Rightarrow> copy4args \<Rightarrow> nfs_request \<Rightarrow> ('w, 'f, 'l, 'c) server
    \<Rightarrow> ('w, 'f, 'l, 'c) op_result" where
  "op_copy E args rq sv = (case (rq_filehandle rq, rq_saved_filehandle rq) of
     (None, _) \<Rightarrow> reply rq None Nfs4errFhexpired sv
   | (Some _, None) \<Rightarrow> reply rq None Nfs4errFhexpired sv
   | (Some dst, Some src) \<Rightarrow>
       let sio = fh_io E sv src; dio = fh_io E sv dst; w = sv_world sv;
           src_offset = copy4args_ca_src_offset args; dst_offset = copy4args_ca_dst_offset args
       in if \<not> rq_quota_ok sv rq (copy4args_ca_count args) then reply rq None Nfs4errDquot sv
          else if \<not> vio_open sio w (fh_file src) then reply rq None Nfs4errIo sv
          else
            let src_size = (case vio_size sio w (fh_file src) of Some n \<Rightarrow> n | None \<Rightarrow> fh_attr_size src);
                copy_count = copy_count_of src_size src_offset (copy4args_ca_count args)
            in if copy_count = 0 then reply rq (copy_res 0) Nfs4Ok sv
               else if \<not> vio_seek sio w (fh_file src) src_offset then reply rq None Nfs4errIo sv
               else if \<not> vio_open_append dio w (fh_file dst) then reply rq None Nfs4errIo sv
               else if \<not> vio_seek dio w (fh_file dst) dst_offset then reply rq None Nfs4errIo sv
               else (case copy_loop sio (fh_file src) src_offset dio (fh_file dst) dst_offset (unat copy_count) 0 w of
                 (None, w) \<Rightarrow> reply rq None Nfs4errIo (sv\<lparr>sv_world := w\<rparr>)
               | (Some copied, w) \<Rightarrow> (case vio_flush dio w (fh_file dst) of
                   (False, w) \<Rightarrow> reply rq None Nfs4errIo (sv\<lparr>sv_world := w\<rparr>)
                 | (True, w) \<Rightarrow> reply rq (copy_res (of_nat copied)) Nfs4Ok
                     (rq_record_write rq (of_nat copied) (sv\<lparr>sv_world := w\<rparr>)))))"

end
