(* ===== verification/OpsDir.thy ===== *)
theory OpsDir
  imports OpsFile
begin

text \<open>
  The operations on directories and names: OPEN, OPENATTR, CREATE, REMOVE, RENAME, LINK and
  READDIR (\<open>nfs40/op_*.rs\<close>, one file per operation; the listing of the pseudo-root is in
  \<open>op_pseudo.rs\<close>).
\<close>

definition no_change :: change_info4 where
  "no_change = \<lparr>change_info4_atomic = False, change_info4_before = 0, change_info4_after = 0\<rparr>"

definition change_info :: "bool \<Rightarrow> u64 \<Rightarrow> u64 \<Rightarrow> change_info4" where
  "change_info atomic before after =
    \<lparr>change_info4_atomic = atomic, change_info4_before = before, change_info4_after = after\<rparr>"

section \<open>OPEN\<close>

definition OPEN4_RESULT_CONFIRM :: u32 where "OPEN4_RESULT_CONFIRM = 2"

definition open_res :: "locking_state \<Rightarrow> change_info4 \<Rightarrow> u32 \<Rightarrow> nfs_res_op4 option" where
  "open_res lock cinfo rflags = Some (R_Opopen (Open4res_Resok4
     \<lparr>open4resok_stateid = \<lparr>stateid4_seqid = ls_seqid lock, stateid4_other = ls_stateid lock\<rparr>,
      open4resok_cinfo = cinfo, open4resok_rflags = rflags, open4resok_attrset = [],
      open4resok_delegation = OD_None\<rparr>))"

definition open_for_reading ::
  "('w, 'f, 'l, 'c) server_env \<Rightarrow> open4args \<Rightarrow> string \<Rightarrow> nfs_request \<Rightarrow> ('w, 'f, 'l, 'c) server
    \<Rightarrow> ('w, 'f, 'l, 'c) op_result" where
  "open_for_reading E args name rq sv = (case rq_filehandle rq of
     None \<Rightarrow> reply rq None Nfs4errNofilehandle sv
   | Some dir \<Rightarrow> with_file_manager rq (\<lambda>h.
       case get_filehandle_for_path E h (child_path (fh_path dir) name) sv of
         (Inl e, sv) \<Rightarrow> reply rq None e sv
       | (Inr fh, sv) \<Rightarrow>
           (case fmh_create_open_state E h (fh_file fh) (open_owner4_clientid (open4args_owner args))
                   (open_owner4_owner (open4args_owner args)) (open4args_share_access args)
                   (open4args_share_deny args) sv of
              (Inl e, sv) \<Rightarrow> reply rq None e sv
            | (Inr lock, sv) \<Rightarrow>
                let fh = fh\<lparr>fh_locks := fh_locks fh @ [lock]\<rparr>
                in reply (set_filehandle fh (cache_filehandle E sv fh rq))
                     (open_res lock no_change OPEN4_RESULT_CONFIRM) Nfs4Ok sv)))"

definition open_for_writing ::
  "('w, 'f, 'l, 'c) server_env \<Rightarrow> open4args \<Rightarrow> filehandle \<Rightarrow> string \<Rightarrow> create_how4 \<Rightarrow> nfs_request
    \<Rightarrow> ('w, 'f, 'l, 'c) server \<Rightarrow> ('w, 'f, 'l, 'c) op_result" where
  "open_for_writing E args dir name how rq sv =
    (if \<not> rq_quota_ok sv rq 0 then reply rq None Nfs4errDquot sv
     else case vfs_join (fh_fs E sv dir) (fh_file dir) name of
       None \<Rightarrow> reply rq None Nfs4errInval sv
     | Some newfile \<Rightarrow> with_file_manager rq (\<lambda>h.
         let before = fmh_dir_change_attr E h (fh_path dir) sv;
             create = (\<lambda>verifier. fmh_create_file E h newfile (open_owner4_clientid (open4args_owner args))
                 (open_owner4_owner (open4args_owner args)) (open4args_share_access args)
                 (open4args_share_deny args) verifier sv);
             finish = (\<lambda>r. case r of
                 (Inl _, sv) \<Rightarrow> reply rq None Nfs4errServerfault sv
               | (Inr fh, sv) \<Rightarrow> (case fh_locks fh of
                   [] \<Rightarrow> None
                 | lock # _ \<Rightarrow> reply (set_filehandle fh (cache_filehandle E sv fh rq))
                     (open_res lock (change_info False before (fmh_dir_change_attr E h (fh_path dir) sv))
                        OPEN4_RESULT_CONFIRM) Nfs4Ok sv))
         in case how of
              UNCHECKED4 _ \<Rightarrow> finish (create None)
            | EXCLUSIVE4 verifier \<Rightarrow> finish (create (Some verifier))
            | GUARDED4 _ \<Rightarrow> reply rq None Nfs4errNotsupp sv))"

definition open_reclaim ::
  "('w, 'f, 'l, 'c) server_env \<Rightarrow> open4args \<Rightarrow> nfs_request \<Rightarrow> ('w, 'f, 'l, 'c) server
    \<Rightarrow> ('w, 'f, 'l, 'c) op_result" where
  "open_reclaim E args rq sv = (case rq_filehandle rq of
     None \<Rightarrow> reply rq None Nfs4errNofilehandle sv
   | Some fh \<Rightarrow> with_file_manager rq (\<lambda>h.
       case fmh_create_open_state E h (fh_file fh) (open_owner4_clientid (open4args_owner args))
              (open_owner4_owner (open4args_owner args)) (open4args_share_access args)
              (open4args_share_deny args) sv of
         (Inr lock, sv) \<Rightarrow> reply rq (open_res lock no_change 0) Nfs4Ok sv
       | (Inl e, sv) \<Rightarrow> reply rq None e sv))"

definition op_open ::
  "('w, 'f, 'l, 'c) server_env \<Rightarrow> open4args \<Rightarrow> nfs_request \<Rightarrow> ('w, 'f, 'l, 'c) server
    \<Rightarrow> ('w, 'f, 'l, 'c) op_result" where
  "op_open E args rq sv = (case open4args_claim args of
     ClaimPrevious _ \<Rightarrow> open_reclaim E args rq sv
   | claim \<Rightarrow> (case rq_filehandle rq of
       None \<Rightarrow> reply rq None Nfs4errFhexpired sv
     | Some fh \<Rightarrow>
         if \<not> vfs_is_dir (fh_fs E sv fh) (sv_world sv) (fh_file fh) then reply rq None Nfs4errNotdir sv
         else (case claim of
           ClaimNull name \<Rightarrow>
             if name = [] then reply rq None Nfs4errInval sv
             else (case open4args_openhow args of
               OF_Open4Nocreate \<Rightarrow> open_for_reading E args name rq sv
             | OF_How how \<Rightarrow> open_for_writing E args fh name how rq sv)
         | _ \<Rightarrow> reply rq None Nfs4errNotsupp sv)))"

definition openattr_res :: "nfs_stat4 \<Rightarrow> nfs_res_op4 option" where
  "openattr_res st = Some (R_Opopenattr \<lparr>open_attr4res_status = st\<rparr>)"

definition op_openattr ::
  "('w, 'f, 'l, 'c) server_env \<Rightarrow> open_attr4args \<Rightarrow> nfs_request \<Rightarrow> ('w, 'f, 'l, 'c) server
    \<Rightarrow> ('w, 'f, 'l, 'c) op_result" where
  "op_openattr E args rq sv = (case rq_filehandle rq of
     None \<Rightarrow> reply rq (openattr_res Nfs4errFhexpired) Nfs4errFhexpired sv
   | Some fh \<Rightarrow> with_file_manager rq (\<lambda>h.
       case fmh_open_named_attr_dir E h (fh_attr_fileid fh) (open_attr4args_createdir args) sv of
         (Inr attr_dir_fh, sv) \<Rightarrow> reply (set_filehandle attr_dir_fh rq) (openattr_res Nfs4Ok) Nfs4Ok sv
       | (Inl e, sv) \<Rightarrow> reply rq (openattr_res e) e sv))"

section \<open>CREATE\<close>

text \<open>The end of both kinds of CREATE: the handle of the new object becomes the current one.\<close>

definition create_finish ::
  "('w, 'f, 'l, 'c) server_env \<Rightarrow> fm_handle \<Rightarrow> filehandle \<Rightarrow> string \<Rightarrow> string \<Rightarrow> u64 \<Rightarrow> nfs_request
    \<Rightarrow> ('w, 'f, 'l, 'c) server \<Rightarrow> ('w, 'f, 'l, 'c) op_result" where
  "create_finish E h fh parent new before rq sv =
    (let sv = fmh_touch_file E h (fh_id fh) sv;
         after = fmh_dir_change_attr E h parent sv
     in case get_filehandle_for_path E h new sv of
          (Inl e, sv) \<Rightarrow> reply (rq\<lparr>rq_filehandle := None\<rparr>) None e sv
        | (Inr new_fh, sv) \<Rightarrow> reply (set_filehandle new_fh rq) (Some (R_Opcreate (Create4res_Resok4
             \<lparr>create4resok_cinfo = change_info False before after, create4resok_attrset = []\<rparr>))) Nfs4Ok sv)"

definition create_dir_of :: "('w, 'f, 'l, 'c) server_env \<Rightarrow> ('w, 'f, 'l, 'c) server \<Rightarrow> filehandle \<Rightarrow> string" where
  "create_dir_of E sv fh =
    (if vio_is_file (fh_io E sv fh) (sv_world sv) (fh_file fh)
     then vfs_parent (fh_fs E sv fh) (fh_file fh) else fh_file fh)"

definition link_error :: "io_error \<Rightarrow> nfs_stat4" where
  "link_error e = (case e of
     Io_PermissionDenied \<Rightarrow> Nfs4errAccess | Io_AlreadyExists \<Rightarrow> Nfs4errExist | _ \<Rightarrow> Nfs4errIo)"

definition op_create ::
  "('w, 'f, 'l, 'c) server_env \<Rightarrow> create4args \<Rightarrow> nfs_request \<Rightarrow> ('w, 'f, 'l, 'c) server
    \<Rightarrow> ('w, 'f, 'l, 'c) op_result" where
  "op_create E args rq sv = (case rq_filehandle rq of
     None \<Rightarrow> reply rq None Nfs4errFhexpired sv
   | Some fh \<Rightarrow>
       let name = create4args_objname args; fs = fh_fs E sv fh; current_dir = create_dir_of E sv fh
       in if name = [] then reply rq None Nfs4errInval sv
          else if \<not> rq_quota_ok sv rq 0 then reply rq None Nfs4errDquot sv
          else (case create4args_objtype args of
            CT_Nf4lnk linkdata \<Rightarrow> (case vfs_join fs current_dir name of
                None \<Rightarrow> reply rq None Nfs4errInval sv
              | Some link_path \<Rightarrow> with_file_manager rq (\<lambda>h.
                  let before = fmh_dir_change_attr E h current_dir sv
                  in case std_symlink (se_std E) (sv_world sv) linkdata (handle_real_path h link_path) of
                       (Inr _, w) \<Rightarrow> create_finish E h fh current_dir link_path before rq (sv\<lparr>sv_world := w\<rparr>)
                     | (Inl e, w) \<Rightarrow> reply rq None (link_error e) (sv\<lparr>sv_world := w\<rparr>)))
          | CT_Nf4dir \<Rightarrow> (case vfs_join fs current_dir name of
                None \<Rightarrow> reply rq None Nfs4errInval sv
              | Some new_dir \<Rightarrow> with_file_manager rq (\<lambda>h.
                  let before = fmh_dir_change_attr E h current_dir sv;
                      (_, w) = vfs_create_dir fs (sv_world sv) new_dir
                  in create_finish E h fh current_dir new_dir before rq (sv\<lparr>sv_world := w\<rparr>)))
          | _ \<Rightarrow> reply rq None Nfs4errBadtype sv))"

section \<open>REMOVE, LINK and RENAME\<close>

definition remove_res :: "nfs_stat4 \<Rightarrow> change_info4 \<Rightarrow> nfs_res_op4 option" where
  "remove_res st cinfo = Some (R_Opremove \<lparr>remove4res_status = st, remove4res_cinfo = cinfo\<rparr>)"

definition op_remove ::
  "('w, 'f, 'l, 'c) server_env \<Rightarrow> remove4args \<Rightarrow> nfs_request \<Rightarrow> ('w, 'f, 'l, 'c) server
    \<Rightarrow> ('w, 'f, 'l, 'c) op_result" where
  "op_remove E args rq sv = (case rq_filehandle rq of
     None \<Rightarrow> reply rq (remove_res Nfs4errStale no_change) Nfs4errStale sv
   | Some fh \<Rightarrow> (case vfs_join (fh_fs E sv fh) (fh_file fh) (remove4args_target args) of
       None \<Rightarrow> reply rq (remove_res Nfs4errInval no_change) Nfs4errInval sv
     | Some path \<Rightarrow> with_file_manager rq (\<lambda>h. case fmh_remove_file E h path sv of
         (Inr cinfo, sv) \<Rightarrow>
           reply rq (remove_res Nfs4Ok (change_info (dci_atomic cinfo) (dci_before cinfo) (dci_after cinfo))) Nfs4Ok sv
       | (Inl e, sv) \<Rightarrow> reply rq (remove_res e no_change) e sv)))"

definition op_link ::
  "('w, 'f, 'l, 'c) server_env \<Rightarrow> link4args \<Rightarrow> nfs_request \<Rightarrow> ('w, 'f, 'l, 'c) server
    \<Rightarrow> ('w, 'f, 'l, 'c) op_result" where
  "op_link E args rq sv = (case (rq_saved_filehandle rq, rq_filehandle rq) of
     (None, _) \<Rightarrow> reply rq None Nfs4errRestorefh sv
   | (Some _, None) \<Rightarrow> reply rq None Nfs4errNofilehandle sv
   | (Some saved, Some dir) \<Rightarrow> (case vfs_join (fh_fs E sv dir) (fh_file dir) (link4args_newname args) of
       None \<Rightarrow> reply rq None Nfs4errInval sv
     | Some target_path \<Rightarrow>
         if fh_file saved = [] \<or> fh_file saved = ''/'' then reply rq None Nfs4errInval sv
         else with_file_manager rq (\<lambda>h.
           case std_hard_link (se_std E) (sv_world sv) (handle_real_path h (fh_file saved))
                  (handle_real_path h target_path) of
             (Inr _, w) \<Rightarrow> reply rq (Some (R_Oplink (Link4res_Resok4
                \<lparr>link4resok_cinfo = change_info True (fh_attr_change dir) (fh_attr_change dir + 1)\<rparr>)))
                Nfs4Ok (sv\<lparr>sv_world := w\<rparr>)
           | (Inl e, w) \<Rightarrow> reply rq None (link_error e) (sv\<lparr>sv_world := w\<rparr>))))"

definition rename_path_of :: "string \<Rightarrow> string \<Rightarrow> string" where
  "rename_path_of dir name = rev (dropWhile (\<lambda>c. c = CHR ''/'') (rev dir)) @ ''/'' @ name"

definition rename_res :: "change_info4 \<Rightarrow> change_info4 \<Rightarrow> nfs_res_op4 option" where
  "rename_res source target = Some (R_Oprename (Rename4res_Resok4
     \<lparr>rename4resok_source_cinfo = source, rename4resok_target_cinfo = target\<rparr>))"

definition op_rename ::
  "('w, 'f, 'l, 'c) server_env \<Rightarrow> rename4args \<Rightarrow> nfs_request \<Rightarrow> ('w, 'f, 'l, 'c) server
    \<Rightarrow> ('w, 'f, 'l, 'c) op_result" where
  "op_rename E args rq sv = (case (rq_saved_filehandle rq, rq_filehandle rq) of
     (None, _) \<Rightarrow> reply rq (rename_res no_change no_change) Nfs4errNofilehandle sv
   | (Some _, None) \<Rightarrow> reply rq None Nfs4errNofilehandle sv
   | (Some saved, Some current) \<Rightarrow>
       let src_path = rename_path_of (fh_path saved) (rename4args_oldname args);
           dst_path = rename_path_of (fh_path current) (rename4args_newname args);
           fs = fh_fs E sv saved; w = sv_world sv
       in (case vfs_join fs (fh_file saved) (rename4args_oldname args) of
             None \<Rightarrow> reply rq None Nfs4errNoent sv
           | Some src_vfs \<Rightarrow>
               if \<not> vfs_exists fs w src_vfs then reply rq None Nfs4errNoent sv
               else (case vfs_join (fh_fs E sv current) (fh_file current) (rename4args_newname args) of
                 None \<Rightarrow> reply rq None Nfs4errInval sv
               | Some dst_vfs \<Rightarrow> with_file_manager rq (\<lambda>h.
                   let real_src = handle_real_path h src_path; real_dst = handle_real_path h dst_path;
                       (ok, w) = (if std_exists (se_std E) w real_src then std_rename (se_std E) w real_src real_dst
                                  else if vfs_is_dir fs w src_vfs then vio_move_dir (fh_io E sv saved) w src_vfs dst_vfs
                                  else vfs_move_file fs w src_vfs dst_vfs);
                       sv = sv\<lparr>sv_world := w\<rparr>
                   in if \<not> ok then reply rq None Nfs4errServerfault sv
                      else
                        let sv = fmh_rename_path E h src_path dst_path dst_vfs sv;
                            sv = fmh_touch_file E h (fh_id saved) sv;
                            sv = fmh_touch_file E h (fh_id current) sv
                        in reply rq (rename_res (change_info True (fh_attr_change saved) (fh_attr_change saved + 1))
                             (change_info True (fh_attr_change current) (fh_attr_change current + 1))) Nfs4Ok sv))))"

section \<open>READDIR\<close>

text \<open>The list of exports as the directory of the pseudo-root; cookies start at 3.\<close>

definition pseudo_readdir ::
  "('w, 'f, 'l, 'c) server_env \<Rightarrow> ('w, 'f, 'l, 'c) server \<Rightarrow> string \<Rightarrow> file_attr list \<Rightarrow> u64
    \<Rightarrow> (string \<times> u64 \<times> fattr4) list" where
  "pseudo_readdir E sv client_addr attr_request cookie =
    concat (map (\<lambda>(i, export).
      let entry_cookie = of_nat (i + 3) :: u64
      in if entry_cookie \<le> cookie then []
         else if \<not> (case em_objs (sv_exports sv) (ei_export_id export) of
             Some ob \<Rightarrow> check_client (eo_access_control ob) client_addr | None \<Rightarrow> False) then []
         else [(ei_name export, entry_cookie,
                fattr_of (pseudo_export_entry_attrs (os_time (se_pseudo_fs E) (sv_world sv)) attr_request
                  (ei_export_id export)))])
      (List.enumerate 0 (list_exports (sv_exports sv))))"

text \<open>The linked list the reply holds, built from the last entry on.\<close>

fun link_entries :: "(string \<times> u64 \<times> fattr4) list \<Rightarrow> entry4 option" where
  "link_entries [] = None"
| "link_entries ((name, cookie, attrs) # es) = Some (Entry4 cookie name attrs (link_entries es))"

definition readdir_res :: "entry4 option \<Rightarrow> bool \<Rightarrow> bytes \<Rightarrow> nfs_res_op4 option" where
  "readdir_res entries eof verf = Some (R_Opreaddir (ReadDir4res_Resok4
     \<lparr>read_dir4resok_cookieverf = verf,
      read_dir4resok_reply = \<lparr>dir_list4_entries = entries, dir_list4_eof = eof\<rparr>\<rparr>))"

definition hidden_name :: "string \<Rightarrow> bool" where
  "hidden_name name \<longleftrightarrow> name = ''.nfs4attrs'' \<or> take 5 name = ''.nfs.''"

text \<open>
  The loop over the directory: the names seen, and the handles of the entries from the cookie on
  that fit the client's limits. \<open>dir_used\<close> and \<open>max_used\<close> grow with every entry from the
  cookie on. An entry without a handle ends it (\<open>Inl\<close>).
\<close>

fun readdir_collect ::
  "('w, 'f, 'l, 'c) server_env \<Rightarrow> fm_handle option \<Rightarrow> readdir4args \<Rightarrow> (string \<times> string) list \<Rightarrow> nat \<Rightarrow> nat \<Rightarrow> nat
    \<Rightarrow> ('w, 'f, 'l, 'c) server
    \<Rightarrow> ((string list \<times> (nat \<times> filehandle) list, unit) result \<times> ('w, 'f, 'l, 'c) server) option" where
  "readdir_collect E h args [] idx dir_used max_used sv = Some (Inr ([], []), sv)"
| "readdir_collect E h args ((path, name) # es) idx dir_used max_used sv =
    (if hidden_name name then readdir_collect E h args es idx dir_used max_used sv
     else
       let next = (\<lambda>dir_used max_used fhs sv.
             map_option (apfst (map_sum (\<lambda>u. u) (\<lambda>(names, more). (name # names, fhs @ more))))
               (readdir_collect E h args es (idx + 1) dir_used max_used sv))
       in if idx + 2 \<ge> unat (readdir4args_cookie args) then
            let dir_used = dir_used + 8 + length name + 5; max_used = max_used + 200;
                dircount = unat (readdir4args_dircount args); maxcount = unat (readdir4args_maxcount args)
            in if dircount = 0 \<or> (dircount > dir_used \<and> maxcount > max_used) then
                 (case h of
                    None \<Rightarrow> None
                  | Some h \<Rightarrow> (case get_filehandle_for_path E h path sv of
                      (Inl _, sv) \<Rightarrow> Some (Inl (), sv)
                    | (Inr fh, sv) \<Rightarrow> next dir_used max_used [(idx + 3, fh)] sv))
               else next dir_used max_used [] sv
          else next dir_used max_used [] sv)"

text \<open>Every \<open>k\<close>-th byte of the names, and its 8-byte form.\<close>

definition step_by :: "nat \<Rightarrow> 'a list \<Rightarrow> 'a list" where
  "step_by k xs = map snd (filter (\<lambda>(i, _). i mod k = 0) (List.enumerate 0 xs))"

definition cookie_verifier :: "string list \<Rightarrow> bytes" where
  "cookie_verifier names =
    (let seed = map of_char (concat names) :: bytes in step_by (length seed div 8 + 1) seed)"

definition pad_verifier :: "bytes \<Rightarrow> bytes" where
  "pad_verifier v = (if v = [] then replicate 8 0 else take 8 (v @ replicate (8 - length v) 0))"

text \<open>The entries with their attributes; \<open>None\<close> if an attribute answer fails.\<close>

fun readdir_entries ::
  "('w, 'f, 'l, 'c) server_env \<Rightarrow> fm_handle \<Rightarrow> file_attr list \<Rightarrow> quota_info option \<Rightarrow> ('w, 'f, 'l, 'c) server
    \<Rightarrow> (nat \<times> filehandle) list \<Rightarrow> (string \<times> u64 \<times> fattr4) list option" where
  "readdir_entries E h req quota sv [] = Some []"
| "readdir_entries E h req quota sv ((cookie, fh) # fhs) =
    (case (fmh_filehandle_attrs E h req fh quota sv, readdir_entries E h req quota sv fhs) of
       (Some r, Some es) \<Rightarrow> Some ((vio_filename (fh_io E sv fh) (fh_file fh), of_nat cookie, fattr_of r) # es)
     | _ \<Rightarrow> None)"

definition readdir_eof :: "entry4 option \<Rightarrow> nat \<Rightarrow> nat \<Rightarrow> bool" where
  "readdir_eof entries added n_names = (case entries of
     Some e \<Rightarrow> entry4_cookie e + of_nat added - 1 \<ge> of_nat n_names + 2
   | None \<Rightarrow> True)"

definition op_readdir ::
  "('w, 'f, 'l, 'c) server_env \<Rightarrow> readdir4args \<Rightarrow> nfs_request \<Rightarrow> ('w, 'f, 'l, 'c) server
    \<Rightarrow> ('w, 'f, 'l, 'c) op_result" where
  "op_readdir E args rq sv =
    (if is_pseudo_root rq then
       reply rq (readdir_res (link_entries (pseudo_readdir E sv (rq_client_addr rq)
         (readdir4args_attr_request args) (readdir4args_cookie args))) True (replicate 8 0)) Nfs4Ok sv
     else case rq_filehandle rq of
       None \<Rightarrow> reply rq None Nfs4errFhexpired sv
     | Some dir_fh \<Rightarrow> (case vio_read_dir (fh_io E sv dir_fh) (sv_world sv) (fh_file dir_fh) of
         None \<Rightarrow> reply rq None Nfs4errIo sv
       | Some dir \<Rightarrow>
           (case readdir_collect E (rq_cached_fmanager rq) args
                   (map (\<lambda>p. (p, vio_filename (fh_io E sv dir_fh) p)) dir) 0 0 128 sv of
              None \<Rightarrow> None
            | Some (Inl _, sv) \<Rightarrow> reply rq None Nfs4errFhexpired sv
            | Some (Inr (names, fhs), sv) \<Rightarrow>
                let verf = cookie_verifier names
                in if readdir4args_cookie args \<noteq> 0 \<and> verf \<noteq> readdir4args_cookieverf args
                   then reply rq None Nfs4errNotSame sv
                   else if fhs = [] then reply rq (readdir_res None True (pad_verifier verf)) Nfs4Ok sv
                   else with_file_manager rq (\<lambda>h.
                     case readdir_entries E h (readdir4args_attr_request args)
                            (map_option quota_info_of (rq_quota sv rq)) sv fhs of
                       None \<Rightarrow> reply rq None Nfs4errServerfault sv
                     | Some es \<Rightarrow>
                         let entries = link_entries es
                         in reply rq (readdir_res entries (readdir_eof entries (length es) (length names))
                              (pad_verifier verf)) Nfs4Ok sv))))"

end
