(* ===== verification/Compound.thy ===== *)
theory Compound
  imports OpsState OpsDir
begin

text \<open>
  The COMPOUND dispatcher (\<open>server/nfs40.rs\<close>) and the RPC service around it
  (\<open>server/mod.rs\<close>). An operation passes the rate limit, the grace period, the security
  flavour, the read-only flag and the permissions, in this order, before its handler runs; the
  client list and the flavour of an export it moved to are checked afterwards. \<open>None\<close> is a
  panic, which ends the connection's task.
\<close>

section \<open>Classes of operations\<close>

definition is_mutating :: "nfs_arg_op \<Rightarrow> bool" where
  "is_mutating arg = (case arg of
     A_Opopen args \<Rightarrow>
       (case open4args_openhow args of OF_How _ \<Rightarrow> True | _ \<Rightarrow> False) \<or> open4args_share_access args AND 2 \<noteq> 0
   | A_Opwrite _ \<Rightarrow> True
   | A_Opcommit _ \<Rightarrow> True
   | A_Opcreate _ \<Rightarrow> True
   | A_Opremove _ \<Rightarrow> True
   | A_Oprename _ \<Rightarrow> True
   | A_Oplink _ \<Rightarrow> True
   | A_Opsetattr _ \<Rightarrow> True
   | A_Opallocate _ \<Rightarrow> True
   | A_Opcopy _ \<Rightarrow> True
   | _ \<Rightarrow> False)"

definition OP_LOOKUP :: u32 where "OP_LOOKUP = 15"
definition OP_LOOKUPP :: u32 where "OP_LOOKUPP = 16"
definition OP_PUTFH :: u32 where "OP_PUTFH = 22"
definition OP_PUTPUBFH :: u32 where "OP_PUTPUBFH = 23"
definition OP_PUTROOTFH :: u32 where "OP_PUTROOTFH = 24"
definition OP_RESTOREFH :: u32 where "OP_RESTOREFH = 31"
definition OP_SECINFO :: u32 where "OP_SECINFO = 33"
definition OP_SECINFO_NO_NAME :: u32 where "OP_SECINFO_NO_NAME = 52"

definition moves_filehandle :: "u32 \<Rightarrow> bool" where
  "moves_filehandle opnum \<longleftrightarrow>
    opnum \<in> {OP_PUTFH, OP_PUTPUBFH, OP_PUTROOTFH, OP_RESTOREFH, OP_LOOKUP, OP_LOOKUPP}"

definition wrongsec_exempt :: "u32 \<Rightarrow> bool" where
  "wrongsec_exempt opnum \<longleftrightarrow> moves_filehandle opnum \<or> opnum \<in> {OP_SECINFO, OP_SECINFO_NO_NAME}"

primrec op_code :: "nfs_arg_op \<Rightarrow> u32" where
  "op_code A_OpUndef0 = 0"
| "op_code A_OpUndef1 = 1"
| "op_code A_OpUndef2 = 2"
| "op_code (A_OpAccess _) = 3"
| "op_code (A_Opclose _) = 4"
| "op_code (A_Opcommit _) = 5"
| "op_code (A_Opcreate _) = 6"
| "op_code (A_Opdelegpurge _) = 7"
| "op_code (A_Opdelegreturn _) = 8"
| "op_code (A_Opgetattr _) = 9"
| "op_code (A_Opgetfh _) = 10"
| "op_code (A_Oplink _) = 11"
| "op_code (A_Oplock _) = 12"
| "op_code (A_Oplockt _) = 13"
| "op_code (A_Oplocku _) = 14"
| "op_code (A_Oplookup _) = 15"
| "op_code (A_Oplookupp _) = 16"
| "op_code (A_Opnverify _) = 17"
| "op_code (A_Opopen _) = 18"
| "op_code (A_Opopenattr _) = 19"
| "op_code (A_OpopenConfirm _) = 20"
| "op_code (A_OpopenDowngrade _) = 21"
| "op_code (A_Opputfh _) = 22"
| "op_code (A_Opputpubfh _) = 23"
| "op_code (A_Opputrootfh _) = 24"
| "op_code (A_Opread _) = 25"
| "op_code (A_Opreaddir _) = 26"
| "op_code (A_Opreadlink _) = 27"
| "op_code (A_Opremove _) = 28"
| "op_code (A_Oprename _) = 29"
| "op_code (A_Oprenew _) = 30"
| "op_code (A_Oprestorefh _) = 31"
| "op_code (A_Opsavefh _) = 32"
| "op_code (A_OpSecinfo _) = 33"
| "op_code (A_Opsetattr _) = 34"
| "op_code (A_Opsetclientid _) = 35"
| "op_code (A_OpsetclientidConfirm _) = 36"
| "op_code (A_Opverify _) = 37"
| "op_code (A_Opwrite _) = 38"
| "op_code (A_OpreleaseLockOwner _) = 39"
| "op_code (A_OpbindConnToSession _) = 41"
| "op_code (A_OpexchangeId _) = 42"
| "op_code (A_OpcreateSession _) = 43"
| "op_code (A_OpdestroySession _) = 44"
| "op_code (A_OpfreeStateid _) = 45"
| "op_code (A_OpgetdeviceInfo _) = 47"
| "op_code (A_OpgetdeviceList _) = 48"
| "op_code (A_OplayoutCommit _) = 49"
| "op_code (A_OplayoutGet _) = 50"
| "op_code (A_OplayoutReturn _) = 51"
| "op_code (A_OpsecinfoNoName _) = 52"
| "op_code (A_Opsequence _) = 53"
| "op_code (A_OptestStateid _) = 55"
| "op_code (A_OpdestroyClientid _) = 57"
| "op_code (A_OpreclaimComplete _) = 58"
| "op_code (A_Opallocate _) = 59"
| "op_code (A_Opcopy _) = 60"
| "op_code (A_Opseek _) = 69"

text \<open>The operation number a result is encoded with.\<close>

primrec res_code :: "nfs_res_op4 \<Rightarrow> u32" where
  "res_code R_OpUndef0 = 0"
| "res_code R_OpUndef1 = 1"
| "res_code R_OpUndef2 = 2"
| "res_code (R_OpAccess _) = 3"
| "res_code (R_Opclose _) = 4"
| "res_code (R_Opcommit _) = 5"
| "res_code (R_Opcreate _) = 6"
| "res_code (R_Opdelegpurge _) = 7"
| "res_code (R_Opdelegreturn _) = 8"
| "res_code (R_Opgetattr _) = 9"
| "res_code (R_Opgetfh _) = 10"
| "res_code (R_Oplink _) = 11"
| "res_code (R_Oplock _) = 12"
| "res_code (R_Oplockt _) = 13"
| "res_code (R_Oplocku _) = 14"
| "res_code (R_Oplookup _) = 15"
| "res_code (R_Oplookupp _) = 16"
| "res_code (R_Opnverify _) = 17"
| "res_code (R_Opopen _) = 18"
| "res_code (R_Opopenattr _) = 19"
| "res_code (R_OpopenConfirm _) = 20"
| "res_code (R_OpopenDowngrade _) = 21"
| "res_code (R_Opputfh _) = 22"
| "res_code (R_Opputpubfh _) = 23"
| "res_code (R_Opputrootfh _) = 24"
| "res_code (R_Opread _) = 25"
| "res_code (R_Opreaddir _) = 26"
| "res_code (R_Opreadlink _) = 27"
| "res_code (R_Opremove _) = 28"
| "res_code (R_Oprename _) = 29"
| "res_code (R_Oprenew _) = 30"
| "res_code (R_Oprestorefh _) = 31"
| "res_code (R_Opsavefh _) = 32"
| "res_code (R_OpSecinfo _) = 33"
| "res_code (R_Opsetattr _) = 34"
| "res_code (R_Opsetclientid _) = 35"
| "res_code (R_OpsetclientidConfirm _) = 36"
| "res_code (R_Opverify _) = 37"
| "res_code (R_Opwrite _) = 38"
| "res_code (R_OpreleaseLockOwner _) = 39"
| "res_code (R_OpbindConnToSession _) = 41"
| "res_code (R_OpexchangeId _) = 42"
| "res_code (R_OpcreateSession _) = 43"
| "res_code (R_OpdestroySession _) = 44"
| "res_code (R_OpfreeStateid _) = 45"
| "res_code (R_OpgetdeviceInfo _) = 47"
| "res_code (R_OpgetdeviceList _) = 48"
| "res_code (R_OplayoutCommit _) = 49"
| "res_code (R_OplayoutGet _) = 50"
| "res_code (R_OplayoutReturn _) = 51"
| "res_code (R_OpsecinfoNoName _) = 52"
| "res_code (R_Opsequence _) = 53"
| "res_code (R_OptestStateid _) = 55"
| "res_code (R_OpdestroyClientid _) = 57"
| "res_code (R_OpreclaimComplete _) = 58"
| "res_code (R_Opallocate _) = 59"
| "res_code (R_Opcopy _) = 60"
| "res_code (R_Opseek _) = 69"
| "res_code (R_OpError n _) = n"

section \<open>Dispatch\<close>

definition operation_not_supported :: "nfs_request \<Rightarrow> ('w, 'f, 'l, 'c) server \<Rightarrow> ('w, 'f, 'l, 'c) op_result" where
  "operation_not_supported rq sv = reply rq None Nfs4errNotsupp sv"

definition run_op ::
  "('w, 'f, 'l, 'c) server_env \<Rightarrow> nfs_arg_op \<Rightarrow> nfs_request \<Rightarrow> ('w, 'f, 'l, 'c) server
    \<Rightarrow> ('w, 'f, 'l, 'c) op_result" where
  "run_op E arg rq sv = (case arg of
     A_OpUndef0 \<Rightarrow> operation_not_supported rq sv
   | A_OpUndef1 \<Rightarrow> operation_not_supported rq sv
   | A_OpUndef2 \<Rightarrow> operation_not_supported rq sv
   | A_Opgetfh _ \<Rightarrow> get_current_filehandle rq sv
   | A_Opputfh args \<Rightarrow> op_putfh E args rq sv
   | A_Opputrootfh _ \<Rightarrow> put_root_filehandle E rq sv
   | A_Opputpubfh _ \<Rightarrow> put_root_filehandle E rq sv
   | A_Opsavefh _ \<Rightarrow> op_savefh rq sv
   | A_Oprestorefh _ \<Rightarrow> op_restorefh rq sv
   | A_Opsetclientid args \<Rightarrow> op_setclientid E args rq sv
   | A_OpsetclientidConfirm args \<Rightarrow> op_setclientid_confirm E args rq sv
   | A_Oprenew args \<Rightarrow> op_renew E args rq sv
   | A_Oplookup args \<Rightarrow> op_lookup E args rq sv
   | A_Oplookupp _ \<Rightarrow> lookup_parent E rq sv
   | A_Opreaddir args \<Rightarrow> op_readdir E args rq sv
   | A_OpAccess args \<Rightarrow> op_access E args rq sv
   | A_Opgetattr args \<Rightarrow> op_getattr E args rq sv
   | A_Opsetattr args \<Rightarrow> op_setattr E args rq sv
   | A_Opopen args \<Rightarrow> op_open E args rq sv
   | A_OpopenConfirm args \<Rightarrow> op_open_confirm args rq sv
   | A_Opclose args \<Rightarrow> op_close E args rq sv
   | A_Opread args \<Rightarrow> op_read E args rq sv
   | A_Opwrite args \<Rightarrow> op_write E args rq sv
   | A_Opcommit args \<Rightarrow> op_commit E args rq sv
   | A_Opcreate args \<Rightarrow> op_create E args rq sv
   | A_Opremove args \<Rightarrow> op_remove E args rq sv
   | A_Oprename args \<Rightarrow> op_rename E args rq sv
   | A_Opreadlink _ \<Rightarrow> op_readlink E rq sv
   | A_Opdelegpurge args \<Rightarrow> op_delegpurge args rq sv
   | A_Opdelegreturn args \<Rightarrow> op_delegreturn E args rq sv
   | A_Oplink args \<Rightarrow> op_link E args rq sv
   | A_Oplock args \<Rightarrow> op_lock E args rq sv
   | A_Oplockt args \<Rightarrow> op_lockt E args rq sv
   | A_Oplocku args \<Rightarrow> op_locku E args rq sv
   | A_OpreleaseLockOwner args \<Rightarrow> op_release_lockowner E args rq sv
   | A_Opnverify args \<Rightarrow> op_nverify args rq sv
   | A_Opverify args \<Rightarrow> op_verify args rq sv
   | A_Opopenattr args \<Rightarrow> op_openattr E args rq sv
   | A_OpopenDowngrade args \<Rightarrow> op_open_downgrade args rq sv
   | A_OpSecinfo args \<Rightarrow> op_secinfo E args rq sv
   | A_OpexchangeId args \<Rightarrow> op_exchange_id args rq sv
   | A_OpcreateSession args \<Rightarrow> op_create_session args rq sv
   | A_Opsequence args \<Rightarrow> op_sequence args rq sv
   | A_OpdestroySession args \<Rightarrow> op_destroy_session args rq sv
   | A_OpdestroyClientid args \<Rightarrow> op_destroy_clientid args rq sv
   | A_OpreclaimComplete args \<Rightarrow> op_reclaim_complete args rq sv
   | A_OpbindConnToSession args \<Rightarrow> op_bind_conn_to_session args rq sv
   | A_OpfreeStateid args \<Rightarrow> op_free_stateid args rq sv
   | A_OptestStateid args \<Rightarrow> op_test_stateid args rq sv
   | A_OpgetdeviceInfo args \<Rightarrow> op_getdeviceinfo args rq sv
   | A_OpgetdeviceList args \<Rightarrow> op_getdevicelist args rq sv
   | A_OplayoutCommit args \<Rightarrow> op_layoutcommit args rq sv
   | A_OplayoutGet args \<Rightarrow> op_layoutget args rq sv
   | A_OplayoutReturn args \<Rightarrow> op_layoutreturn args rq sv
   | A_OpsecinfoNoName args \<Rightarrow> op_secinfo_no_name args rq sv
   | A_Opallocate args \<Rightarrow> op_allocate E args rq sv
   | A_Opcopy args \<Rightarrow> op_copy E args rq sv
   | A_Opseek args \<Rightarrow> op_seek E args rq sv)"

section \<open>Before and after an operation\<close>

definition op_bytes :: "nfs_arg_op \<Rightarrow> u64" where
  "op_bytes arg = (case arg of
     A_Opread a \<Rightarrow> ucast (read4args_count a)
   | A_Opwrite a \<Rightarrow> of_nat (length (write4args_data a))
   | _ \<Rightarrow> 0)"

text \<open>Whether the operation exceeds the export's rate; what it takes is taken from the buckets.\<close>

definition rate_limited ::
  "('w, 'f, 'l, 'c) server_env \<Rightarrow> nfs_arg_op \<Rightarrow> nfs_request \<Rightarrow> ('w, 'f, 'l, 'c) server
    \<Rightarrow> bool \<times> ('w, 'f, 'l, 'c) server" where
  "rate_limited E arg rq sv = (case rq_objects sv rq of
     Some ob \<Rightarrow>
       let (ok, rl) = try_consume (ee_instant (se_export_env E) (sv_world sv)) (op_bytes arg) (eo_rate_limiter ob)
       in (\<not> ok, rq_update_objs rq (\<lambda>ob. ob\<lparr>eo_rate_limiter := rl\<rparr>) sv)
   | None \<Rightarrow> (False, sv))"

definition grace_denied :: "nfs_arg_op \<Rightarrow> bool" where
  "grace_denied arg = (case arg of
     A_Opopen args \<Rightarrow> (case open4args_claim args of ClaimNull _ \<Rightarrow> True | _ \<Rightarrow> False) \<and>
                      (case open4args_openhow args of OF_How _ \<Rightarrow> True | _ \<Rightarrow> False)
   | A_Opcreate _ \<Rightarrow> True
   | A_Opremove _ \<Rightarrow> True
   | A_Oprename _ \<Rightarrow> True
   | A_Oplock _ \<Rightarrow> True
   | A_Opwrite _ \<Rightarrow> True
   | A_Opsetattr _ \<Rightarrow> True
   | A_Oplink _ \<Rightarrow> True
   | _ \<Rightarrow> False)"

definition op_error :: "nfs_arg_op \<Rightarrow> nfs_stat4 \<Rightarrow> nfs_res_op4" where
  "op_error arg st = R_OpError (op_code arg) st"

text \<open>Why an operation is refused, with the results this adds to the reply.\<close>

definition refusal ::
  "('w, 'f, 'l, 'c) server_env \<Rightarrow> nfs_arg_op \<Rightarrow> nfs_request \<Rightarrow> ('w, 'f, 'l, 'c) server
    \<Rightarrow> (nfs_stat4 \<times> nfs_res_op4 list) option" where
  "refusal E arg rq sv =
    (if sv_in_grace sv \<and> grace_denied arg then Some (Nfs4errGrace, [])
     else if \<not> sec_allowed sv rq \<and> \<not> wrongsec_exempt (op_code arg)
     then Some (Nfs4errWrongsec, [op_error arg Nfs4errWrongsec])
     else if rq_read_only rq \<and> is_mutating arg then Some (Nfs4errRofs, [op_error arg Nfs4errRofs])
     else case check_op E sv arg rq (rq_caller sv rq) of
       Inl st \<Rightarrow> Some (st, [op_error arg st])
     | Inr _ \<Rightarrow> None)"

definition enforce_clients ::
  "('w, 'f, 'l, 'c) server \<Rightarrow> nfs_arg_op \<Rightarrow> u8 option \<Rightarrow> nfs_op_response \<Rightarrow> nfs_op_response" where
  "enforce_clients sv arg export_before resp =
    (if rs_status resp = Nfs4Ok \<and> rq_current_export_id (rs_request resp) \<noteq> export_before \<and>
        \<not> check_client_access sv (rs_request resp)
     then respond (rs_request resp) (Some (op_error arg Nfs4errAccess)) Nfs4errAccess
     else resp)"

definition sec_deferred :: "u32 \<Rightarrow> u32 option \<Rightarrow> bool" where
  "sec_deferred opnum next_op \<longleftrightarrow> opnum \<in> {OP_PUTFH, OP_PUTPUBFH, OP_PUTROOTFH, OP_RESTOREFH} \<and>
    next_op \<in> Some ` {OP_SECINFO, OP_SECINFO_NO_NAME, OP_LOOKUP, OP_LOOKUPP}"

definition enforce_sec ::
  "('w, 'f, 'l, 'c) server \<Rightarrow> nfs_arg_op \<Rightarrow> u32 option \<Rightarrow> nfs_op_response \<Rightarrow> nfs_op_response" where
  "enforce_sec sv arg next_op resp =
    (if rs_status resp = Nfs4Ok \<and> moves_filehandle (op_code arg) \<and> \<not> sec_allowed sv (rs_request resp) \<and>
        \<not> sec_deferred (op_code arg) next_op
     then respond (rs_request resp) (Some (op_error arg Nfs4errWrongsec)) Nfs4errWrongsec
     else resp)"

definition count_op :: "nfs_request \<Rightarrow> ('w, 'f, 'l, 'c) server \<Rightarrow> ('w, 'f, 'l, 'c) server" where
  "count_op rq = rq_update_objs rq (\<lambda>ob. ob\<lparr>eo_stats := (eo_stats ob)\<lparr>st_ops := st_ops (eo_stats ob) + 1\<rparr>\<rparr>)"

definition execute_op ::
  "('w, 'f, 'l, 'c) server_env \<Rightarrow> nfs_arg_op \<Rightarrow> u32 option \<Rightarrow> nfs_request \<Rightarrow> ('w, 'f, 'l, 'c) server
    \<Rightarrow> ('w, 'f, 'l, 'c) op_result" where
  "execute_op E arg next_op rq sv = (case run_op E arg rq sv of
     None \<Rightarrow> None
   | Some (resp, sv') \<Rightarrow>
       let (rq', sv') = (if creates_object E sv arg rq \<and> rs_status resp = Nfs4Ok
             then chown_new_object E (rq_caller sv rq) (rs_request resp) sv' else (rs_request resp, sv'));
           resp = enforce_clients sv' arg (rq_current_export_id rq) (resp\<lparr>rs_request := rq'\<rparr>);
           resp = enforce_sec sv' arg next_op resp
       in Some (resp, count_op rq' sv'))"

section \<open>COMPOUND\<close>

text \<open>The loop over the operations: the status, the results, and the request and server at its end.\<close>

definition next_code :: "nfs_arg_op list \<Rightarrow> u32 option" where
  "next_code args = (case args of [] \<Rightarrow> None | a # _ \<Rightarrow> Some (op_code a))"

fun compound_ops ::
  "('w, 'f, 'l, 'c) server_env \<Rightarrow> nfs_arg_op list \<Rightarrow> nfs_request \<Rightarrow> ('w, 'f, 'l, 'c) server
    \<Rightarrow> (nfs_stat4 \<times> nfs_res_op4 list \<times> nfs_request \<times> ('w, 'f, 'l, 'c) server) option" where
  "compound_ops E [] rq sv = Some (Nfs4Ok, [], rq, sv)"
| "compound_ops E (arg # args) rq sv = (case rate_limited E arg rq sv of
     (True, sv) \<Rightarrow> Some (Nfs4errDelay, [op_error arg Nfs4errDelay], rq, sv)
   | (False, sv) \<Rightarrow> (case refusal E arg rq sv of
       Some (st, rs) \<Rightarrow> Some (st, rs, rq, sv)
     | None \<Rightarrow> (case execute_op E arg (next_code args) rq sv of
         None \<Rightarrow> None
       | Some (resp, sv) \<Rightarrow> (case rs_result resp of
           None \<Rightarrow> Some (rs_status resp, [], rs_request resp, sv)
         | Some r \<Rightarrow>
             if rs_status resp \<noteq> Nfs4Ok then Some (rs_status resp, [r], rs_request resp, sv)
             else map_option (apsnd (apfst (Cons r))) (compound_ops E args (rs_request resp) sv)))))"

definition accepted :: "accept_body \<Rightarrow> reply_body" where
  "accepted body = MsgAccepted \<lparr>ar_verf = AuthNull [], ar_reply_data = body\<rparr>"

definition compound_reply :: "nfs_stat4 \<Rightarrow> string \<Rightarrow> nfs_res_op4 list \<Rightarrow> reply_body" where
  "compound_reply st tag rs =
    accepted (Success \<lparr>compound4res_status = st, compound4res_tag = tag, compound4res_resarray = rs\<rparr>)"

definition nfs_null :: reply_body where
  "nfs_null = compound_reply Nfs4Ok [] []"

definition compound ::
  "('w, 'f, 'l, 'c) server_env \<Rightarrow> call_body \<Rightarrow> nfs_request \<Rightarrow> ('w, 'f, 'l, 'c) server
    \<Rightarrow> (nfs_request \<times> reply_body \<times> ('w, 'f, 'l, 'c) server) option" where
  "compound E msg rq sv = (case cb_args msg of
     None \<Rightarrow> Some (rq, compound_reply Nfs4Ok [] [], sv)
   | Some args \<Rightarrow>
       if 1 < compound4args_minor_version args
       then Some (rq, compound_reply Nfs4errMinorVersMismatch (compound4args_tag args) [], sv)
       else map_option (\<lambda>(st, rs, rq, sv). (rq, compound_reply st (compound4args_tag args) rs, sv))
              (compound_ops E (compound4args_argarray args) (rq\<lparr>rq_auth_cred := Some (cb_cred msg)\<rparr>) sv))"

section \<open>The RPC service\<close>

definition NFS_PROGRAM :: u32 where "NFS_PROGRAM = 100003"

definition service_call ::
  "('w, 'f, 'l, 'c) server_env \<Rightarrow> rpc_call_msg \<Rightarrow> nfs_request \<Rightarrow> ('w, 'f, 'l, 'c) server
    \<Rightarrow> (rpc_reply_msg \<times> nfs_request \<times> ('w, 'f, 'l, 'c) server) option" where
  "service_call E msg rq sv =
    (let answer = (\<lambda>body rq sv. (\<lparr>rrm_xid = rcm_xid msg, rrm_body = Reply body\<rparr>, rq, sv)) in
     case rcm_body msg of
       Call cb \<Rightarrow>
         if cb_prog cb \<noteq> NFS_PROGRAM then Some (answer (accepted ProgUnavail) rq sv)
         else if cb_vers cb \<noteq> 4 then Some (answer (accepted (ProgMismatch \<lparr>mi_low = 4, mi_high = 4\<rparr>)) rq sv)
         else if (case cb_cred cb of AuthGss _ \<Rightarrow> True | _ \<Rightarrow> False)
         then Some (answer (MsgDenied (AuthError AuthBadCred)) rq sv)
         else if cb_proc cb = 0 then Some (answer nfs_null rq sv)
         else if cb_proc cb = 1 then map_option (\<lambda>(rq, body, sv). answer body rq sv) (compound E cb rq sv)
         else Some (answer (accepted ProcUnavail) rq sv)
     | _ \<Rightarrow> Some (answer (accepted GarbageArgs) rq sv))"

end
