(* ===== verification/Frames.thy ===== *)
theory Frames
  imports Compound
begin

text \<open>
  What no operation changes: the tables of exports, their access control and the grace period; and
  how an operation moves the request from one export to another: only by \<open>set_export\<close>.
\<close>

named_theorems framed \<open>what a call to an actor leaves as it is\<close>

section \<open>The parts that stay\<close>

definition exports_of ::
  "('w, 'f, 'l, 'c) server \<Rightarrow> (string \<times> export_info) list \<times> (u8 \<rightharpoonup> string) \<times> (u8 \<rightharpoonup> access_control) \<times> bool" where
  "exports_of sv = (em_exports (sv_exports sv), em_export_by_id (sv_exports sv),
     \<lambda>i. map_option eo_access_control (em_objs (sv_exports sv) i), sv_in_grace sv)"

definition ctx :: "nfs_request \<Rightarrow> u8 option \<times> u8 option \<times> bool \<times> fm_handle option" where
  "ctx rq = (rq_current_export_id rq, rq_objs rq, rq_read_only rq, rq_cached_fmanager rq)"

definition ident :: "nfs_request \<Rightarrow> string \<times> opaque_auth option \<times> sec_flavor" where
  "ident rq = (rq_client_addr rq, rq_auth_cred rq, rq_sec_flavor rq)"

lemma exports_of_updates [simp]:
  "exports_of (sv\<lparr>sv_world := w\<rparr>) = exports_of sv"
  "exports_of (sv\<lparr>sv_caches := c\<rparr>) = exports_of sv"
  "exports_of (sv\<lparr>sv_clients := cm\<rparr>) = exports_of sv"
  "exports_of (sv\<lparr>sv_sessions := sm\<rparr>) = exports_of sv"
  by (simp_all add: exports_of_def)

lemma exports_of_update_objs [simp]:
  assumes "\<And>ob. eo_access_control (f ob) = eo_access_control ob"
  shows "exports_of (rq_update_objs rq f sv) = exports_of sv"
  using assms by (auto simp: exports_of_def rq_update_objs_def update_objs_def option.map_comp comp_def
      split: option.split)

lemma exports_of_records [simp]:
  "exports_of (rq_record_write rq n sv) = exports_of sv"
  "exports_of (rq_update_objs rq (record_read_stats n) sv) = exports_of sv"
  "exports_of (rq_update_objs rq (record_write_stats n) sv) = exports_of sv"
  "exports_of (count_op rq sv) = exports_of sv"
  by (simp_all add: rq_record_write_def record_read_stats_def record_write_stats_def count_op_def)

lemma ctx_updates [simp]:
  "ctx (rq\<lparr>rq_filehandle := x\<rparr>) = ctx rq" "ctx (set_filehandle fh rq) = ctx rq"
  "ctx (save_filehandle rq) = ctx rq" "ctx (cache_filehandle E sv fh rq) = ctx rq"
  "ctx (drop_filehandle_from_cache fid rq) = ctx rq" "ctx (rq\<lparr>rq_session_id := s\<rparr>) = ctx rq"
  "ctx (rq\<lparr>rq_session_id := s, rq_sequence_slotid := t\<rparr>) = ctx rq"
  by (simp_all add: ctx_def set_filehandle_def save_filehandle_def cache_filehandle_def
      drop_filehandle_from_cache_def)

lemma ident_updates [simp]:
  "ident (rq\<lparr>rq_filehandle := x\<rparr>) = ident rq" "ident (set_filehandle fh rq) = ident rq"
  "ident (save_filehandle rq) = ident rq" "ident (cache_filehandle E sv fh rq) = ident rq"
  "ident (drop_filehandle_from_cache fid rq) = ident rq" "ident (rq\<lparr>rq_session_id := s\<rparr>) = ident rq"
  "ident (rq\<lparr>rq_session_id := s, rq_sequence_slotid := t\<rparr>) = ident rq"
  "ident (set_export sv e rq) = ident rq"
  by (simp_all add: ident_def set_filehandle_def save_filehandle_def cache_filehandle_def
      drop_filehandle_from_cache_def set_export_def Let_def split: option.split)

text \<open>A request moves only to where \<open>set_export\<close> takes it.\<close>

definition moved :: "('w, 'f, 'l, 'c) server \<Rightarrow> nfs_request \<Rightarrow> nfs_request \<Rightarrow> bool" where
  "moved sv rq rq' \<longleftrightarrow> ident rq' = ident rq \<and>
    (ctx rq' = ctx rq \<or> (\<exists>e rq0. ctx rq' = ctx (set_export sv e rq0)))"

lemma moved_same [simp]: "ctx rq' = ctx rq \<Longrightarrow> ident rq' = ident rq \<Longrightarrow> moved sv rq rq'"
  by (simp add: moved_def)

lemma moved_set_export [simp]: "moved sv rq (set_export sv e rq)"
  by (auto simp: moved_def)

lemma moved_trans: "moved sv rq rq' \<Longrightarrow> moved sv rq' rq'' \<Longrightarrow> moved sv rq rq''"
  unfolding moved_def by metis

lemma moved_updates [simp]:
  "moved sv rq (rq'\<lparr>rq_filehandle := x\<rparr>) = moved sv rq rq'" "moved sv rq (set_filehandle fh rq') = moved sv rq rq'"
  "moved sv rq (save_filehandle rq') = moved sv rq rq'" "moved sv rq (cache_filehandle E sv2 fh rq') = moved sv rq rq'"
  "moved sv rq (drop_filehandle_from_cache fid rq') = moved sv rq rq'"
  "moved sv rq (rq'\<lparr>rq_session_id := s\<rparr>) = moved sv rq rq'"
  "moved sv rq (rq'\<lparr>rq_session_id := s, rq_sequence_slotid := t\<rparr>) = moved sv rq rq'"
  by (simp_all add: moved_def)

lemma set_export_cong:
  assumes "exports_of sv' = exports_of sv"
  shows "set_export sv' = set_export sv"
proof -
  have same: "get_export_by_id (sv_exports sv') = get_export_by_id (sv_exports sv)"
    using assms by (auto simp: exports_of_def get_export_by_id_def fun_eq_iff split: option.split)
  show ?thesis
    unfolding set_export_def same ..
qed

lemma moved_cong:
  assumes "exports_of sv' = exports_of sv"
  shows "moved sv' = moved sv"
  unfolding moved_def set_export_cong[OF assms] ..

section \<open>Calls to the actors\<close>

lemma exports_of_fm_send [simp]: "exports_of (snd (fm_send E h msg sv)) = exports_of sv"
  by (auto simp: fm_send_def exports_of_def Let_def split: option.splits file_manager_reply.splits)

lemma fm_send_framed: "fm_send E h msg sv = (r, sv') \<Longrightarrow> exports_of sv' = exports_of sv"
  by (metis exports_of_fm_send snd_conv)

lemma send_filehandle_request_framed:
  "send_filehandle_request E h p fid sv = (r, sv') \<Longrightarrow> exports_of sv' = exports_of sv"
  by (auto simp: send_filehandle_request_def dest!: fm_send_framed
      split: prod.splits option.splits file_manager_reply.splits)

lemma get_filehandle_framed:
  "get_root_filehandle E h sv = (r, sv') \<Longrightarrow> exports_of sv' = exports_of sv"
  "get_filehandle_for_path E h p sv = (r, sv') \<Longrightarrow> exports_of sv' = exports_of sv"
  by (auto simp: get_root_filehandle_def get_filehandle_for_path_def dest: send_filehandle_request_framed)

lemma fmh_state_framed:
  "fmh_create_open_state E h p c ow a d sv = (r2, sv') \<Longrightarrow> exports_of sv' = exports_of sv"
  "fmh_lock_file E h fid c ow t off len sv = (r7, sv') \<Longrightarrow> exports_of sv' = exports_of sv"
  "fmh_unlock_file E h osid off len sv = (r8, sv') \<Longrightarrow> exports_of sv' = exports_of sv"
  unfolding fmh_create_open_state_def fmh_lock_file_def fmh_unlock_file_def
  by (auto dest!: fm_send_framed split: prod.splits option.splits file_manager_reply.splits)

lemma fmh_framed [framed]:
  "fmh_create_file E h p c ow a d v sv = (r1, sv') \<Longrightarrow> exports_of sv' = exports_of sv"
  "fmh_remove_file E h p sv = (r3, sv') \<Longrightarrow> exports_of sv' = exports_of sv"
  "fmh_get_write_cache_handle E h fh sv = (r4, sv') \<Longrightarrow> exports_of sv' = exports_of sv"
  "fmh_return_delegation E h fid sid sv = (r5, sv') \<Longrightarrow> exports_of sv' = exports_of sv"
  "fmh_open_named_attr_dir E h fileid b sv = (r6, sv') \<Longrightarrow> exports_of sv' = exports_of sv"
  "fmh_test_lock E h fid c ow t off len sv = (r9, sv') \<Longrightarrow> exports_of sv' = exports_of sv"
  "fmh_release_lock_owner E h c ow sv = (r10, sv') \<Longrightarrow> exports_of sv' = exports_of sv"
  unfolding fmh_create_file_def fmh_remove_file_def fmh_get_write_cache_handle_def
    fmh_return_delegation_def fmh_open_named_attr_dir_def fmh_test_lock_def fmh_release_lock_owner_def
  by (auto dest!: fm_send_framed split: prod.splits option.splits file_manager_reply.splits)

lemma fmh_quiet_framed [simp]:
  "exports_of (fmh_touch_file E h fid sv) = exports_of sv"
  "exports_of (fmh_rename_path E h p q r sv) = exports_of sv"
  "exports_of (fmh_close_file E h sid sv) = exports_of sv"
  by (simp_all add: fmh_touch_file_def fmh_rename_path_def fmh_close_file_def)

lemma exports_of_send_all [simp]:
  "exports_of (foldl (\<lambda>sv m. snd (fm_send E h m sv)) sv msgs) = exports_of sv"
  by (induction msgs arbitrary: sv) simp_all

lemma exports_of_wc_send [simp]: "exports_of (wc_send E c msg sv) = exports_of sv"
  by (auto simp: wc_send_def Let_def split: option.split prod.split)

lemma cmh_state_framed:
  "cmh_upsert_client E v i cb p sv = (r1, sv') \<Longrightarrow> exports_of sv' = exports_of sv"
  "cmh_confirm_client E c t p sv = (r2, sv') \<Longrightarrow> exports_of sv' = exports_of sv"
  by (auto simp: cmh_upsert_client_def cmh_confirm_client_def cm_send_def Let_def
      split: prod.splits option.splits client_manager_reply.splits)

lemma cmh_renew_framed [framed]:
  "cmh_renew_leases E c sv = (r3, sv') \<Longrightarrow> exports_of sv' = exports_of sv"
  by (auto simp: cmh_renew_leases_def cm_send_def Let_def
      split: prod.splits option.splits client_manager_reply.splits)

lemma fmh_set_attr_framed [framed]:
  "fmh_set_attr E h fh vals sv = Some (r, sv') \<Longrightarrow> exports_of sv' = exports_of sv"
  by (auto simp: fmh_set_attr_def)

end
