(* ===== verification/OpFrames.thy ===== *)
theory OpFrames
  imports Frames
begin

text \<open>
  The frame of every operation handler: the tables of exports and their access control stay, the
  request moves only by \<open>set_export\<close>, and an operation that succeeds has a result.
\<close>

definition op_ok :: "('w, 'f, 'l, 'c) server \<Rightarrow> nfs_request \<Rightarrow> ('w, 'f, 'l, 'c) op_result \<Rightarrow> bool" where
  "op_ok sv rq r \<longleftrightarrow> (\<forall>resp sv'. r = Some (resp, sv') \<longrightarrow> exports_of sv' = exports_of sv \<and>
     moved sv rq (rs_request resp) \<and> (rs_result resp = None \<longrightarrow> rs_status resp \<noteq> Nfs4Ok))"

lemma op_ok_None [simp]: "op_ok sv rq None"
  by (simp add: op_ok_def)

lemma op_ok_reply [intro!]:
  "exports_of sv' = exports_of sv \<Longrightarrow> moved sv rq rq' \<Longrightarrow> (r = None \<Longrightarrow> st \<noteq> Nfs4Ok) \<Longrightarrow>
    op_ok sv rq (reply rq' r st sv')"
  by (simp add: op_ok_def reply_def)

lemma op_ok_with_file_manager [intro!]:
  "(\<And>h. rq_cached_fmanager rq0 = Some h \<Longrightarrow> op_ok sv rq (f h)) \<Longrightarrow> op_ok sv rq (with_file_manager rq0 f)"
  by (simp add: with_file_manager_def split: option.split)

lemma op_ok_if: "op_ok sv rq a \<Longrightarrow> op_ok sv rq b \<Longrightarrow> op_ok sv rq (if c then a else b)"
  by simp

lemma op_ok_weaken:
  assumes "op_ok sv1 rq1 r" and same: "exports_of sv1 = exports_of sv" and "moved sv rq rq1"
  shows "op_ok sv rq r"
  using assms(1,3) moved_trans[of sv rq rq1] unfolding op_ok_def same moved_cong[OF same] by blast

section \<open>Calls that fail have an error status\<close>

lemma send_filehandle_request_framed' [framed]:
  assumes "send_filehandle_request E h p fid sv = (r, sv')"
  shows "exports_of sv' = exports_of sv \<and> r \<noteq> Inl Nfs4Ok"
  using assms by (intro conjI send_filehandle_request_framed[OF assms]) (auto simp: send_filehandle_request_def split: prod.splits option.splits file_manager_reply.splits if_splits)

lemma get_filehandle_framed' [framed]:
  "get_root_filehandle E h sv = (r, sv') \<Longrightarrow> exports_of sv' = exports_of sv \<and> r \<noteq> Inl Nfs4Ok"
  "get_filehandle_for_path E h p sv = (r, sv') \<Longrightarrow> exports_of sv' = exports_of sv \<and> r \<noteq> Inl Nfs4Ok"
  by (auto simp: get_root_filehandle_def get_filehandle_for_path_def dest: framed)

lemma fmh_create_open_state_framed [framed]:
  assumes "fmh_create_open_state E h p c ow a d sv = (r, sv')"
  shows "exports_of sv' = exports_of sv \<and> r \<noteq> Inl Nfs4Ok"
  using assms by (intro conjI fmh_state_framed(1)[OF assms]) (auto simp: fmh_create_open_state_def split: prod.splits option.splits file_manager_reply.splits)

lemma fm_send_reply:
  "fm_send E h msg sv = (Some r, sv') \<Longrightarrow> \<exists>fm w' fm'. handle_message (handle_fs E h) (se_fhdb E) (se_lockdb E)
     (sv_next_chan sv) (sv_world sv) fm msg = Some (r, w', fm')"
  by (fastforce simp: fm_send_def Let_def split: if_splits option.splits)

lemma handle_lock_no_error: "handle_lock L fm fid c ow t off len = Some (r, fm') \<Longrightarrow> r \<noteq> LockError st"
  by (auto simp: handle_lock_def Let_def split: option.splits prod.splits if_splits)

lemma fmh_lock_file_framed [framed]:
  assumes "fmh_lock_file E h fid c ow t off len sv = (r, sv')"
  shows "exports_of sv' = exports_of sv \<and> r \<noteq> LockError Nfs4Ok"
  using assms by (intro conjI fmh_state_framed(2)[OF assms]) (auto simp: fmh_lock_file_def handle_message_def dest!: fm_send_reply dest: handle_lock_no_error
      split: prod.splits option.splits file_manager_reply.splits)

lemma handle_unlock_error: "handle_unlock L fm sid off len = (r, fm') \<Longrightarrow> r \<noteq> UnlockError Nfs4Ok"
  by (auto simp: handle_unlock_def Let_def split: option.splits prod.splits if_splits)

lemma fmh_unlock_file_framed [framed]:
  assumes "fmh_unlock_file E h sid off len sv = (r, sv')"
  shows "exports_of sv' = exports_of sv \<and> r \<noteq> UnlockError Nfs4Ok"
  using assms by (intro conjI fmh_state_framed(3)[OF assms]) (auto simp: fmh_unlock_file_def handle_message_def dest!: fm_send_reply dest: handle_unlock_error
      split: prod.splits option.splits file_manager_reply.splits)

lemma scan_errors:
  "scan_same_id prin es acc x \<noteq> Inl Nfs4Ok"
  "scan_confirm prin token es oc nc \<noteq> Inl Nfs4Ok"
  by (induction es arbitrary: acc x oc nc) auto

lemma client_errors:
  "fst (upsert_client C now token cm v i cb p) \<noteq> Some (Inl Nfs4Ok)"
  "fst (confirm_client C cm c t p) \<noteq> Some (Inl Nfs4Ok)"
  using scan_errors
  by (auto simp: upsert_client_def confirm_client_def Let_def split: prod.splits option.splits sum.splits if_splits)

lemma apfst_eq: "apfst f p = (a, b) \<longleftrightarrow> f (fst p) = a \<and> snd p = b"
  by (cases p) auto

lemma cmh_framed [framed]:
  "cmh_upsert_client E v i cb p sv = (r1, sv') \<Longrightarrow> exports_of sv' = exports_of sv \<and> r1 \<noteq> Inl Nfs4Ok"
  "cmh_confirm_client E c t p sv = (r2, sv') \<Longrightarrow> exports_of sv' = exports_of sv \<and> r2 \<noteq> Inl Nfs4Ok"
  by (auto simp: cmh_upsert_client_def cmh_confirm_client_def cm_send_def cm_handle_message_def Let_def
      apfst_eq client_errors split: prod.splits option.splits client_manager_reply.splits)

section \<open>Moving the request\<close>

lemma set_filehandle_id_framed [framed]:
  "set_filehandle_id E fid rq sv = Some (r, rq', sv') \<Longrightarrow>
    exports_of sv' = exports_of sv \<and> moved sv rq rq' \<and> r \<noteq> Inl Nfs4Ok"
  by (auto simp: set_filehandle_id_def Let_def dest!: framed split: prod.splits option.splits sum.splits if_splits)

lemma restore_filehandle_framed [framed]: "restore_filehandle sv rq = (b, rq') \<Longrightarrow> moved sv rq rq'"
  by (auto simp: restore_filehandle_def Let_def split: option.splits if_splits)

lemma get_filehandle_from_cache_framed [framed]:
  "get_filehandle_from_cache E sv fid rq = (r, rq') \<Longrightarrow> ctx rq' = ctx rq \<and> ident rq' = ident rq"
  by (auto simp: get_filehandle_from_cache_def split: option.splits prod.splits if_splits)

lemma chown_new_object_framed [framed]:
  "chown_new_object E c rq sv = (rq', sv') \<Longrightarrow>
    exports_of sv' = exports_of sv \<and> ctx rq' = ctx rq \<and> ident rq' = ident rq"
  by (auto simp: chown_new_object_def Let_def dest!: fm_send_framed
      split: option.splits prod.splits if_splits bool.splits)

lemma write_cached_framed [framed]:
  "write_cached E args fh rq sv = Some (b, rq', sv') \<Longrightarrow>
    exports_of sv' = exports_of sv \<and> ctx rq' = ctx rq \<and> ident rq' = ident rq"
  by (auto simp: write_cached_def Let_def dest!: framed split: option.splits prod.splits sum.splits)

lemma readdir_collect_framed [framed]:
  "readdir_collect E h args es idx d m sv = Some (r, sv') \<Longrightarrow> exports_of sv' = exports_of sv"
  by (induction es arbitrary: idx d m sv r)
    (auto simp: Let_def dest!: framed split: if_splits option.splits prod.splits sum.splits)

lemma enter_pseudo_root_moved [simp]: "moved sv rq (enter_pseudo_root E sv fid rq)"
  by (simp add: enter_pseudo_root_def)


section \<open>The handlers\<close>

lemmas handler_splits = option.split prod.split sum.split lock_result.split unlock_result.split
  test_lock_result.split list.split bool.split

lemma results_exist [simp]:
  "putfh_res st \<noteq> None" "putrootfh_ok \<noteq> None" "lookup_res st \<noteq> None" "lookupp_res st \<noteq> None"
  "destroy_session_res st \<noteq> None" "destroy_clientid_res st \<noteq> None" "delegreturn_res st \<noteq> None"
  "getattr_res st a \<noteq> None" "setattr_res st as \<noteq> None" "readlink_res st l \<noteq> None" "allocate_res st \<noteq> None"
  "copy_res n \<noteq> None" "open_res lock ci fl \<noteq> None" "openattr_res st \<noteq> None" "remove_res st ci \<noteq> None"
  "rename_res ci ci' \<noteq> None" "readdir_res e b v \<noteq> None"
  by (simp_all add: putfh_res_def putrootfh_ok_def lookup_res_def lookupp_res_def destroy_session_res_def
      destroy_clientid_res_def delegreturn_res_def getattr_res_def setattr_res_def readlink_res_def
      allocate_res_def copy_res_def open_res_def openattr_res_def remove_res_def rename_res_def readdir_res_def)

lemma moved_set_export_trans:
  assumes "moved sv' (set_export sv e rq) rq'" and same: "exports_of sv' = exports_of sv"
  shows "moved sv rq rq'"
  using assms(1) unfolding moved_cong[OF same] by (rule moved_trans[OF moved_set_export])

lemma putfh_switch_ok:
  assumes "moved sv rq rq1" and "op_ok sv rq1 r"
  shows "op_ok sv rq r"
  using assms by (auto intro: op_ok_weaken)

lemma op_putfh_ok: "op_ok sv rq (op_putfh E args rq sv)"
proof -
  let ?fid = "put_fh4args_object args"
  define rq1 where "rq1 = (if rq_current_export_id rq \<noteq> Some (export_id_from_fh ?fid)
             then set_export sv (export_id_from_fh ?fid) rq else rq)"
  have moved: "moved sv rq rq1"
    by (simp add: rq1_def)
  have "op_ok sv rq1 (case get_filehandle_from_cache E sv ?fid rq1 of
      (Some fh, rq2) \<Rightarrow> reply (set_filehandle fh rq2) (putfh_res Nfs4Ok) Nfs4Ok sv
    | (None, rq2) \<Rightarrow> (case set_filehandle_id E ?fid rq2 sv of
        None \<Rightarrow> None
      | Some (Inr fh, rq3, sv') \<Rightarrow> reply (cache_filehandle E sv' fh rq3) (putfh_res Nfs4Ok) Nfs4Ok sv'
      | Some (Inl e, rq3, sv') \<Rightarrow> reply rq3 (putfh_res e) e sv'))"
    by (auto dest!: framed intro: moved_trans moved_same split: handler_splits)
  note tail = putfh_switch_ok[OF moved this]
  show ?thesis
    unfolding op_putfh_def Let_def rq1_def[symmetric] by (auto simp: moved intro: tail)
qed

lemma put_root_filehandle_ok: "op_ok sv rq (put_root_filehandle E rq sv)"
  unfolding put_root_filehandle_def Let_def
  by (auto dest!: framed elim: moved_set_export_trans split: handler_splits)

lemma fh_ops_ok:
  "op_ok sv rq (get_current_filehandle rq sv)" "op_ok sv rq (op_savefh rq sv)" "op_ok sv rq (op_restorefh rq sv)"
  "op_ok sv rq (op_secinfo E sargs rq sv)" "op_ok sv rq (op_secinfo_no_name nargs rq sv)"
  unfolding get_current_filehandle_def op_savefh_def op_restorefh_def op_secinfo_def op_secinfo_no_name_def
  by (auto dest!: framed split: handler_splits)

lemma lookup_ok: "op_ok sv rq (op_lookup E args rq sv)" "op_ok sv rq (lookup_parent E rq sv)"
  unfolding op_lookup_def lookup_export_def lookup_parent_def Let_def
  by (auto dest!: framed split: handler_splits)

lemma client_ops_ok:
  "op_ok sv rq (op_setclientid E args1 rq sv)" "op_ok sv rq (op_setclientid_confirm E args2 rq sv)"
  "op_ok sv rq (op_renew E args3 rq sv)"
  unfolding op_setclientid_def op_setclientid_confirm_def op_renew_def Let_def
  by (auto dest!: framed split: handler_splits)

lemma session_ops_ok:
  "op_ok sv rq (op_exchange_id a1 rq sv)" "op_ok sv rq (op_create_session a2 rq sv)"
  "op_ok sv rq (op_sequence a3 rq sv)" "op_ok sv rq (op_destroy_session a4 rq sv)"
  "op_ok sv rq (op_destroy_clientid a5 rq sv)" "op_ok sv rq (op_bind_conn_to_session a6 rq sv)"
  "op_ok sv rq (op_reclaim_complete a7 rq sv)" "op_ok sv rq (op_free_stateid a8 rq sv)"
  "op_ok sv rq (op_test_stateid a9 rq sv)"
  unfolding op_exchange_id_def op_create_session_def op_sequence_def op_destroy_session_def
    op_destroy_clientid_def op_bind_conn_to_session_def op_reclaim_complete_def op_free_stateid_def
    op_test_stateid_def Let_def
  by (auto split: handler_splits)

lemma lock_ops_ok:
  "op_ok sv rq (op_lock E a1 rq sv)" "op_ok sv rq (op_lockt E a2 rq sv)" "op_ok sv rq (op_locku E a3 rq sv)"
  "op_ok sv rq (op_release_lockowner E a4 rq sv)" "op_ok sv rq (op_delegpurge a5 rq sv)"
  "op_ok sv rq (op_delegreturn E a6 rq sv)"
  unfolding op_lock_def op_lockt_def op_locku_def op_release_lockowner_def op_delegpurge_def
    op_delegreturn_def Let_def
  by (auto dest!: framed split: handler_splits)

lemma flush_write_cache_framed [simp]: "exports_of (flush_write_cache E h fh sv) = exports_of sv"
  by (auto simp: flush_write_cache_def dest!: framed split: handler_splits)

lemma open_state_ops_ok:
  "op_ok sv rq (op_close E a1 rq sv)" "op_ok sv rq (op_open_confirm a2 rq sv)"
  "op_ok sv rq (op_open_downgrade a3 rq sv)" "op_ok sv rq (op_getdeviceinfo a4 rq sv)"
  "op_ok sv rq (op_getdevicelist a5 rq sv)" "op_ok sv rq (op_layoutcommit a6 rq sv)"
  "op_ok sv rq (op_layoutget a7 rq sv)" "op_ok sv rq (op_layoutreturn a8 rq sv)"
  unfolding op_close_def op_open_confirm_def op_open_downgrade_def op_getdeviceinfo_def op_getdevicelist_def
    op_layoutcommit_def op_layoutget_def op_layoutreturn_def Let_def
  by (auto split: handler_splits)

lemma attr_ops_ok:
  "op_ok sv rq (op_access E a1 rq sv)" "op_ok sv rq (op_getattr E a2 rq sv)" "op_ok sv rq (op_verify a3 rq sv)"
  "op_ok sv rq (op_nverify a4 rq sv)"
  unfolding op_access_def op_getattr_def op_verify_def op_nverify_def Let_def
  by (auto split: option.split)

lemma moved_same_exports:
  assumes "moved sv' rq rq'" and same: "exports_of sv' = exports_of sv"
  shows "moved sv rq rq'"
  using assms(1) unfolding moved_cong[OF same] .

lemma moved_touch [simp]: "moved (fmh_touch_file E h fid sv) = moved sv"
  by (rule moved_cong) simp

lemma op_setattr_ok: "op_ok sv rq (op_setattr E args rq sv)"
  unfolding op_setattr_def Let_def
  by (auto dest!: framed split: handler_splits) (blast intro: moved_same_exports)+

lemma op_read_ok: "op_ok sv rq (op_read E a1 rq sv)" 
  unfolding op_read_def Let_def
  by (auto split: option.split)

lemma op_commit_ok: "op_ok sv rq (op_commit E a2 rq sv)" 
  unfolding op_commit_def Let_def
  by (auto dest!: framed split: handler_splits)

lemma op_readlink_ok: "op_ok sv rq (op_readlink E rq sv)"
  unfolding op_readlink_def Let_def
  by (auto split: option.split sum.split io_error.split)

lemma op_seek_ok:  "op_ok sv rq (op_seek E a3 rq sv)" 
  unfolding op_seek_def Let_def
  by (auto split: option.split)

lemma op_allocate_ok: "op_ok sv rq (op_allocate E a4 rq sv)"
  unfolding op_allocate_def Let_def
  by (auto split: option.split prod.split bool.split)

lemma op_copy_ok: "op_ok sv rq (op_copy E a5 rq sv)"
proof -
  have tail: "op_ok sv rq (case r of
      (None, w) \<Rightarrow> reply rq None Nfs4errIo (sv\<lparr>sv_world := w\<rparr>)
    | (Some copied, w) \<Rightarrow> (case vio_flush dio w path of
        (False, w) \<Rightarrow> reply rq None Nfs4errIo (sv\<lparr>sv_world := w\<rparr>)
      | (True, w) \<Rightarrow> reply rq (copy_res (of_nat copied)) Nfs4Ok
          (rq_record_write rq (of_nat copied) (sv\<lparr>sv_world := w\<rparr>))))" for r and dio :: "'a io_ops" and path
    by (auto split: option.split prod.split bool.split)
  show ?thesis
    unfolding op_copy_def Let_def
    by (cases "rq_filehandle rq"; cases "rq_saved_filehandle rq")
      (simp_all only: option.case prod.case, (intro op_ok_if op_ok_reply tail; simp)+)
qed

lemmas data_ops_ok = op_read_ok op_commit_ok op_readlink_ok op_seek_ok op_allocate_ok op_copy_ok

lemma write_ok_ok: "exports_of sv' = exports_of sv \<Longrightarrow> moved sv rq rq' \<Longrightarrow> op_ok sv rq (write_ok n c rq' sv')"
  unfolding write_ok_def Let_def by auto

lemma op_write_ok: "op_ok sv rq (op_write E args rq sv)"
  unfolding op_write_def Let_def
  by (auto dest!: framed intro!: write_ok_ok split: handler_splits)

lemma open_ok:
  "op_ok sv rq (open_for_reading E args name rq sv)" "op_ok sv rq (open_reclaim E args rq sv)"
  unfolding open_for_reading_def open_reclaim_def Let_def
  by (auto dest!: framed split: handler_splits)

lemma open_for_writing_ok: "op_ok sv rq (open_for_writing E args dir name how rq sv)"
  unfolding open_for_writing_def Let_def
  by (auto dest!: framed split: handler_splits create_how4.split)

lemma op_open_ok: "op_ok sv rq (op_open E args rq sv)"
  unfolding op_open_def
  by (auto simp: open_ok open_for_writing_ok split: option.split open_claim4.split open_flag4.split)

lemma op_openattr_ok: "op_ok sv rq (op_openattr E args rq sv)"
  unfolding op_openattr_def
  by (auto dest!: framed split: handler_splits)

lemma create_finish_ok: "exports_of sv' = exports_of sv \<Longrightarrow> op_ok sv rq (create_finish E h fh p new b rq sv')"
  unfolding create_finish_def Let_def
  by (auto dest!: framed split: handler_splits)

lemma link_error_not_ok [simp]: "link_error e \<noteq> Nfs4Ok"
  by (cases e) (simp_all add: link_error_def)

lemma op_create_ok: "op_ok sv rq (op_create E args rq sv)"
  unfolding op_create_def Let_def
  by (auto intro!: create_finish_ok split: option.split prod.split sum.split createtype4.split)

lemma name_ops_ok:
  "op_ok sv rq (op_remove E a1 rq sv)" "op_ok sv rq (op_link E a2 rq sv)"
  unfolding op_remove_def op_link_def Let_def
  by (auto dest!: framed split: handler_splits)

lemma op_rename_ok: "op_ok sv rq (op_rename E args rq sv)"
  unfolding op_rename_def Let_def
  by (auto split: option.split prod.split)

lemma op_readdir_ok: "op_ok sv rq (op_readdir E args rq sv)"
  unfolding op_readdir_def Let_def
  by (auto dest!: framed split: option.split prod.split sum.split)

section \<open>Every operation\<close>

lemmas ops_ok = op_putfh_ok put_root_filehandle_ok fh_ops_ok lookup_ok client_ops_ok session_ops_ok
  lock_ops_ok open_state_ops_ok attr_ops_ok op_setattr_ok data_ops_ok op_write_ok op_open_ok
  op_openattr_ok op_create_ok name_ops_ok op_rename_ok op_readdir_ok

lemma run_op_ok: "op_ok sv rq (run_op E arg rq sv)"
  unfolding run_op_def operation_not_supported_def
  by (cases arg) (simp_all add: ops_ok op_ok_reply)

end
