(* ===== verification/OpAnswers.thy ===== *)
theory OpAnswers
  imports OpFrames
begin

text \<open>
  The type of an answer: a handler answers with the result of its own operation.
\<close>

definition answers :: "u32 \<Rightarrow> ('w, 'f, 'l, 'c) op_result \<Rightarrow> bool" where
  "answers c r \<longleftrightarrow> (\<forall>resp sv x. r = Some (resp, sv) \<longrightarrow> rs_result resp = Some x \<longrightarrow> res_code x = c)"

lemma answers_None [simp]: "answers c None"
  by (simp add: answers_def)

lemma answers_reply [simp]: "answers c (reply rq r st sv) \<longleftrightarrow> (\<forall>x. r = Some x \<longrightarrow> res_code x = c)"
  by (auto simp: answers_def reply_def)

lemma answers_with_file_manager [intro!]:
  "(\<And>h. answers c (f h)) \<Longrightarrow> answers c (with_file_manager rq f)"
  by (simp add: with_file_manager_def split: option.split)

lemmas result_codes [simp] =
  putfh_res_def putrootfh_ok_def lookup_res_def lookupp_res_def destroy_session_res_def
  destroy_clientid_res_def delegreturn_res_def getattr_res_def setattr_res_def readlink_res_def
  allocate_res_def copy_res_def open_res_def openattr_res_def remove_res_def rename_res_def readdir_res_def

lemma fh_answers:
  "answers 22 (op_putfh E a1 rq sv)" "answers 24 (put_root_filehandle E rq sv)"
  "answers 10 (get_current_filehandle rq sv)" "answers 32 (op_savefh rq sv)" "answers 31 (op_restorefh rq sv)"
  "answers 33 (op_secinfo E sargs rq sv)" "answers 52 (op_secinfo_no_name nargs rq sv)"
  "answers 15 (op_lookup E a2 rq sv)" "answers 16 (lookup_parent E rq sv)"
  unfolding op_putfh_def put_root_filehandle_def get_current_filehandle_def op_savefh_def op_restorefh_def
    op_secinfo_def op_secinfo_no_name_def op_lookup_def lookup_export_def lookup_parent_def Let_def
  by (auto split: handler_splits)

lemma state_answers:
  "answers 35 (op_setclientid E b1 rq sv)" "answers 36 (op_setclientid_confirm E b2 rq sv)"
  "answers 30 (op_renew E b3 rq sv)" "answers 42 (op_exchange_id a1 rq sv)"
  "answers 43 (op_create_session a2 rq sv)" "answers 53 (op_sequence a3 rq sv)"
  "answers 44 (op_destroy_session a4 rq sv)" "answers 57 (op_destroy_clientid a5 rq sv)"
  "answers 41 (op_bind_conn_to_session a6 rq sv)" "answers 58 (op_reclaim_complete a7 rq sv)"
  "answers 45 (op_free_stateid a8 rq sv)" "answers 55 (op_test_stateid a9 rq sv)"
  unfolding op_setclientid_def op_setclientid_confirm_def op_renew_def op_exchange_id_def
    op_create_session_def op_sequence_def op_destroy_session_def op_destroy_clientid_def
    op_bind_conn_to_session_def op_reclaim_complete_def op_free_stateid_def op_test_stateid_def Let_def
  by (auto split: handler_splits)

lemma lock_answers:
  "answers 12 (op_lock E a1 rq sv)" "answers 13 (op_lockt E a2 rq sv)" "answers 14 (op_locku E a3 rq sv)"
  "answers 39 (op_release_lockowner E a4 rq sv)" "answers 7 (op_delegpurge a5 rq sv)"
  "answers 8 (op_delegreturn E a6 rq sv)" "answers 4 (op_close E a7 rq sv)" "answers 20 (op_open_confirm a8 rq sv)"
  "answers 21 (op_open_downgrade a9 rq sv)" "answers 47 (op_getdeviceinfo b1 rq sv)"
  "answers 48 (op_getdevicelist b2 rq sv)" "answers 49 (op_layoutcommit b3 rq sv)"
  "answers 50 (op_layoutget b4 rq sv)" "answers 51 (op_layoutreturn b5 rq sv)"
  unfolding op_lock_def op_lockt_def op_locku_def op_release_lockowner_def op_delegpurge_def
    op_delegreturn_def op_close_def op_open_confirm_def op_open_downgrade_def op_getdeviceinfo_def
    op_getdevicelist_def op_layoutcommit_def op_layoutget_def op_layoutreturn_def Let_def
  by (auto split: handler_splits)

lemma file_answers:
  "answers 3 (op_access E a1 rq sv)" "answers 9 (op_getattr E a2 rq sv)" "answers 37 (op_verify a3 rq sv)"
  "answers 17 (op_nverify a4 rq sv)" "answers 34 (op_setattr E a5 rq sv)"  "answers 25 (op_read E a6 rq sv)"
  "answers 5 (op_commit E a7 rq sv)" "answers 27 (op_readlink E rq sv)"
  "answers 69 (op_seek E a8 rq sv)" "answers 59 (op_allocate E a9 rq sv)"
  unfolding op_access_def op_getattr_def op_verify_def op_nverify_def op_setattr_def op_read_def
    op_commit_def op_readlink_def op_seek_def op_allocate_def Let_def
  by (auto split: handler_splits)

lemma answers_if: "answers c a \<Longrightarrow> answers c b \<Longrightarrow> answers c (if x then a else b)"
  by simp

lemma op_write_answers: "answers 38 (op_write E args rq sv)"
  unfolding op_write_def write_ok_def Let_def by (auto split: handler_splits)

lemma op_copy_answers: "answers 60 (op_copy E args rq sv)"
  unfolding op_copy_def Let_def
  by (cases "rq_filehandle rq"; cases "rq_saved_filehandle rq")
    (simp_all only: option.case prod.case, (rule answers_if | simp split: option.split prod.split bool.split)+)

lemma op_open_answers: "answers 18 (op_open E args rq sv)"
proof -
  have "answers 18 (open_for_reading E args name rq sv)" "answers 18 (open_reclaim E args rq sv)"
    "answers 18 (open_for_writing E args dir name how rq sv)" for name dir how
    unfolding open_for_reading_def open_reclaim_def open_for_writing_def Let_def
    by (auto split: handler_splits create_how4.split)
  then show ?thesis
    unfolding op_open_def by (auto split: option.split open_claim4.split open_flag4.split)
qed

lemma op_create_answers: "answers 6 (op_create E args rq sv)"
  unfolding op_create_def create_finish_def Let_def
  by (auto split: option.split prod.split sum.split createtype4.split)

lemma dir_answers:
  "answers 19 (op_openattr E a1 rq sv)" "answers 28 (op_remove E a2 rq sv)" "answers 11 (op_link E a3 rq sv)"
  "answers 29 (op_rename E a4 rq sv)" "answers 26 (op_readdir E a5 rq sv)"
  unfolding op_openattr_def op_remove_def op_link_def op_rename_def op_readdir_def Let_def
  by (auto split: option.split prod.split sum.split)

lemmas all_answers = fh_answers state_answers lock_answers file_answers op_write_answers op_copy_answers
  op_open_answers op_create_answers dir_answers

lemma run_op_answers:
  "answers (if op_code arg = OP_PUTPUBFH then OP_PUTROOTFH else op_code arg) (run_op E arg rq sv)"
  unfolding run_op_def operation_not_supported_def
  by (cases arg) (simp_all add: all_answers OP_PUTPUBFH_def OP_PUTROOTFH_def)

end
