(* ===== verification/MemFs.thy ===== *)
theory MemFs
  imports Filehandle
begin

text \<open>
  A small in-memory filesystem with export root \<open>/\<close>: an instance of the filesystem parameter
  on which the examples of the development are evaluated. The world is a list of paths with
  their metadata; inode numbers are handed out in order of creation.
\<close>

record mem_world =
  mw_objects :: "(string \<times> real_meta) list"
  mw_next_ino :: u64

definition mem_meta :: "u64 \<Rightarrow> u32 \<Rightarrow> real_meta" where
  "mem_meta ino mode = \<lparr>rm_ino = ino, rm_dev = 7, rm_mode = mode, rm_nlink = 1, rm_uid = 1000,
     rm_gid = 1000, rm_size = 0, rm_blocks = 0, rm_atime = 0, rm_atime_nsec = 0, rm_mtime = 0,
     rm_mtime_nsec = 0, rm_ctime = 0, rm_ctime_nsec = 0\<rparr>"

definition mem_empty :: mem_world where
  "mem_empty = \<lparr>mw_objects = [(''/'', mem_meta 1 0x41ED)], mw_next_ino = 2\<rparr>"

definition mem_lookup :: "mem_world \<Rightarrow> string \<Rightarrow> real_meta option" where
  "mem_lookup w p = map_of (mw_objects w) (path_key p)"

definition mem_is_dir :: "mem_world \<Rightarrow> string \<Rightarrow> bool" where
  "mem_is_dir w p = (case mem_lookup w p of Some m \<Rightarrow> rm_mode m AND S_IFMT = S_IFDIR | None \<Rightarrow> False)"

definition mem_parent :: "string \<Rightarrow> string" where
  "mem_parent p = rev (tl (dropWhile (\<lambda>c. c \<noteq> CHR ''/'') (rev p)))"

definition mem_add :: "mem_world \<Rightarrow> string \<Rightarrow> u32 \<Rightarrow> bool \<times> mem_world" where
  "mem_add w p mode =
    (if mem_lookup w p \<noteq> None then (True, w)
     else (True, \<lparr>mw_objects = (path_key p, mem_meta (mw_next_ino w) mode) # mw_objects w,
                  mw_next_ino = mw_next_ino w + 1\<rparr>))"

definition mem_remove :: "mem_world \<Rightarrow> string \<Rightarrow> bool \<times> mem_world" where
  "mem_remove w p =
    (if mem_lookup w p = None then (False, w)
     else (True, w\<lparr>mw_objects := filter (\<lambda>ob. fst ob \<noteq> path_key p) (mw_objects w)\<rparr>))"

definition mem_move :: "mem_world \<Rightarrow> string \<Rightarrow> string \<Rightarrow> bool \<times> mem_world" where
  "mem_move w p q =
    (case mem_lookup w p of
       None \<Rightarrow> (False, w)
     | Some m \<Rightarrow>
         (True, w\<lparr>mw_objects := (path_key q, m) #
            filter (\<lambda>ob. fst ob \<noteq> path_key p \<and> fst ob \<noteq> path_key q) (mw_objects w)\<rparr>))"

definition mem_fs :: "mem_world fs_ops" where
  "mem_fs = \<lparr>os_lstat = mem_lookup,
     os_read_dir = (\<lambda>w d. if mem_is_dir w d
        then Some (map (\<lambda>ob. drop (length (mem_parent (fst ob)) + 1) (fst ob))
               (filter (\<lambda>ob. fst ob \<noteq> ''/'' \<and> path_key (mem_parent (fst ob)) = path_key d) (mw_objects w)))
        else None),
     vfs_exists = (\<lambda>w p. mem_lookup w p \<noteq> None), vfs_is_dir = mem_is_dir,
     vfs_len = (\<lambda>w p. case mem_lookup w p of Some m \<Rightarrow> rm_size m | None \<Rightarrow> 0),
     vfs_join = (\<lambda>p name. Some ((if p = ''/'' then [] else p) @ (if name = [] then [] else ''/'' @ name))), vfs_parent = mem_parent,
     vfs_create_file = (\<lambda>w p. mem_add w p 0x81A4), vfs_create_dir = (\<lambda>w p. mem_add w p 0x41ED),
     vfs_move_file = mem_move, vfs_remove_file = mem_remove,
     vfs_remove_dir = (\<lambda>w p. let (ok, w) = mem_remove w p in (if ok then None else Some ''NotFound'', w)),
     path_hash = (\<lambda>p. of_nat (length p)),
     os_time = (\<lambda>w. \<lparr>nfstime4_seconds = 1700000000, nfstime4_nseconds = 0\<rparr>),
     os_open_create = (\<lambda>w p. (Some 3, w)), os_write_all_at = (\<lambda>w fd b off. (True, w)),
     os_sync_all = (\<lambda>w fd. (True, w)), vfs_read_exact = (\<lambda>w p n. if n = 0 then Some [] else None),
     vfs_append_write = (\<lambda>w p off b. (Some True, w)),
     os_chown = (\<lambda>w p u g. (mem_lookup w p \<noteq> None, w)), os_chmod = (\<lambda>w p m. (mem_lookup w p \<noteq> None, w)),
     os_utimens_now = (\<lambda>w p. (mem_lookup w p \<noteq> None, w)),
     os_getpwnam = (\<lambda>w n. None), os_getgrnam = (\<lambda>w n. None)\<rparr>"

lemmas mem_fs_simps = mem_fs_def mem_lookup_def mem_is_dir_def mem_parent_def mem_add_def
  mem_remove_def mem_move_def mem_meta_def mem_empty_def path_key_def

end
