(* ===== verification/LockSafety.thy ===== *)
theory LockSafety
  imports FileManagerActor MemFs
begin

text \<open>
  What the lock table guarantees. The lock handlers are specified one by one over the set of
  held locks; then every message of the actor is shown to keep the lock invariant, so that in
  every reachable state of a file manager no two conflicting byte-range locks are held and no
  message makes the actor panic. The handle table is a parameter without any assumption here:
  lock safety does not depend on it.
\<close>

section \<open>Frame: the handle table operations leave lock state alone\<close>

named_theorems frame \<open>components an operation does not touch\<close>
named_theorems frameD \<open>the same for operations that return a value as well\<close>

definition lock_part :: "('f, 'l) file_manager \<Rightarrow> 'l \<times> u64" where
  "lock_part fm = (fm_lockdb fm, fm_next_stateid_id fm)"

lemma lock_part_upd [simp]:
  "lock_part (fm\<lparr>fm_fhdb := x\<rparr>) = lock_part fm"
  "lock_part (fm\<lparr>fm_next_fh_id := y\<rparr>) = lock_part fm"
  "lock_part (fm\<lparr>fm_cachedb := c\<rparr>) = lock_part fm"
  "lock_part (fm\<lparr>fm_delegations := d\<rparr>) = lock_part fm"
  "lock_part (fm\<lparr>fm_pending_deletes := p\<rparr>) = lock_part fm"
  "lock_part (fm\<lparr>fm_lockdb := db\<rparr>) = (db, fm_next_stateid_id fm)"
  "lock_part (fm\<lparr>fm_next_stateid_id := n\<rparr>) = (fm_lockdb fm, n)"
  by (simp_all add: lock_part_def)

lemma lock_part_fhdb [frame, simp]:
  "lock_part (fhdb_replace F fm fh) = lock_part fm"
  "lock_part (fhdb_remove F fm fid) = lock_part fm"
  "lock_part (touch_filehandle fs F w fm fh) = lock_part fm"
  "lock_part (update_filehandle F fm fh) = lock_part fm"
  by (simp_all add: fhdb_replace_def fhdb_remove_def touch_filehandle_def update_filehandle_def Let_def)

lemma lock_part_get [frameD, dest!]:
  "get_filehandle_by_path fs F L w fm p = (r, fm') \<Longrightarrow> lock_part fm' = lock_part fm"
  "get_filehandle_by_id fs F L w fm fid = (r, fm') \<Longrightarrow> lock_part fm' = lock_part fm"
  by (auto simp: get_filehandle_by_path_def get_filehandle_by_id_def Let_def
      split: option.splits if_splits)

lemma lock_part_get_id [frameD, dest!]:
  "get_filehandle_id fs F L w fm file = (r, fm') \<Longrightarrow> lock_part fm' = lock_part fm"
  by (auto simp: get_filehandle_id_def split: prod.splits option.splits)

lemma lock_part_get_filehandle [frameD, dest!]:
  "get_filehandle fs F L w fm file = (r, fm') \<Longrightarrow> lock_part fm' = lock_part fm"
  by (auto simp: get_filehandle_def Let_def split: prod.splits option.splits if_splits)

lemma lock_part_root_fh [frameD, dest!]:
  "root_fh fs F L w fm = (r, fm') \<Longrightarrow> lock_part fm' = lock_part fm"
  by (auto simp: root_fh_def)

lemma lock_part_touch_parent [frame, simp]:
  "lock_part (touch_parent fs F L w fm path) = lock_part fm"
  by (auto simp: touch_parent_def split: prod.split option.split)

lemma lock_part_create_file [frameD, dest!]:
  "create_file fs F L w fm path = (r, w', fm') \<Longrightarrow> lock_part fm' = lock_part fm"
  by (auto simp: create_file_def split: prod.splits bool.splits)

lemma lock_part_handle_rename_path [frame, simp]:
  "lock_part (handle_rename_path fs F w fm old new) = lock_part fm"
  by (simp add: handle_rename_path_def Let_def split: option.split)

lemma lock_part_get_cache_handle [frameD, dest!]:
  "get_cache_handle fs F chan w fm fh = (r, w', fm') \<Longrightarrow> lock_part fm' = lock_part fm"
  by (auto simp: get_cache_handle_def Let_def split: option.splits prod.splits)

lemma lock_part_drop_cache_handle [frame, simp]:
  "lock_part (drop_cache_handle fs F L w fm fid) = lock_part fm"
  by (auto simp: drop_cache_handle_def Let_def split: option.split prod.split)

lemma lock_part_forget_file [frame, simp]:
  "lock_part (forget_file fs F L w fm fid) = lock_part fm"
  by (simp add: forget_file_def Let_def)

lemma lock_part_silly_rename [frameD, dest!]:
  "silly_rename fs F w fm path fh = (r, w', fm') \<Longrightarrow> lock_part fm' = lock_part fm"
  by (auto simp: silly_rename_def Let_def split: option.splits prod.splits bool.splits)

lemma lock_part_filehandle_attrs [frameD, dest!]:
  "filehandle_attrs fs F L w fm req fid = (r, fm') \<Longrightarrow> lock_part fm' = lock_part fm"
  by (auto simp: filehandle_attrs_def Let_def split: option.splits prod.splits)

lemma lock_part_handle_touch_file [frame, simp]:
  "lock_part (handle_touch_file fs F L w fm fid) = lock_part fm"
  by (auto simp: handle_touch_file_def split: option.split prod.split)

lemma lock_part_sweep_ids [frameD, dest!]:
  "sweep_ids fs F L fids w fm = (w', fm') \<Longrightarrow> lock_part fm' = lock_part fm"
proof (induction fids arbitrary: w fm)
  case (Cons fid fids)
  then show ?case
    by (auto simp: Let_def split: option.splits prod.splits dest: Cons.IH)
qed simp

lemma lock_part_sweep [frameD, dest!]:
  "sweep_pending_deletes fs F L w fm = (w', fm') \<Longrightarrow> lock_part fm' = lock_part fm"
  by (auto simp: sweep_pending_deletes_def)

lemma lock_part_handle_get_filehandle [frameD, dest!]:
  "handle_get_filehandle fs F L w fm path fid = (r, fm') \<Longrightarrow> lock_part fm' = lock_part fm"
  by (auto simp: handle_get_filehandle_def split: option.splits prod.splits if_splits)

lemma lock_part_open_named_attr_dir [frameD, dest!]:
  "open_named_attr_dir fs F L w fm i c = (r, w', fm') \<Longrightarrow> lock_part fm' = lock_part fm"
  by (auto simp: open_named_attr_dir_def Let_def split: option.splits prod.splits if_splits)

section \<open>The lock handlers\<close>

lemma first_conflict_None:
  "first_conflict ls s n t ow cid = None \<longleftrightarrow> (\<forall>l \<in> set ls. \<not> conflicts_with l s n t ow cid)"
  by (induction ls) auto

lemma first_conflict_Some:
  "first_conflict ls s n t ow cid = Some l \<Longrightarrow> l \<in> set ls \<and> conflicts_with l s n t ow cid"
  by (induction ls) (auto split: if_splits)

text \<open>The stateids of open and lock state: four zero bytes and a counter.\<close>

definition counter_stateid :: "u64 \<Rightarrow> bytes" where
  "counter_stateid n = [0, 0, 0, 0] @ be_bytes 8 n"

lemma counter_stateid_inject [simp]: "counter_stateid m = counter_stateid n \<longleftrightarrow> m = n"
  using be_bytes_inject [of 8 m n] by (simp add: counter_stateid_def)

lemma get_new_lockingstate_id_eq:
  "get_new_lockingstate_id fm =
    (counter_stateid (fm_next_stateid_id fm), fm\<lparr>fm_next_stateid_id := fm_next_stateid_id fm + 1\<rparr>)"
  by (simp add: get_new_lockingstate_id_def counter_stateid_def)

text \<open>
  The invariant: the container is well formed, every stateid in it was issued before the
  current counter value, and no two held locks conflict.
\<close>

definition held :: "'l lock_db_ops \<Rightarrow> ('f, 'l) file_manager \<Rightarrow> locking_state set" where
  "held L fm = set (ldb_iter L (fm_lockdb fm))"

definition lock_inv :: "'l lock_db_ops \<Rightarrow> ('l \<Rightarrow> bool) \<Rightarrow> 'l \<times> u64 \<Rightarrow> bool" where
  "lock_inv L linv p \<longleftrightarrow>
    (let (db, next) = p; locks = set (ldb_iter L db) in
     linv db \<and> (\<forall>l \<in> locks. \<exists>n. ls_stateid l = counter_stateid n \<and> n < next) \<and>
     (\<forall>a \<in> locks. \<forall>b \<in> locks. \<not> locks_conflict a b))"

lemma lock_invD:
  assumes "lock_inv L linv (lock_part fm)"
  shows "linv (fm_lockdb fm)"
    and "l \<in> held L fm \<Longrightarrow> \<exists>n. ls_stateid l = counter_stateid n \<and> n < fm_next_stateid_id fm"
    and "a \<in> held L fm \<Longrightarrow> b \<in> held L fm \<Longrightarrow> \<not> locks_conflict a b"
  using assms by (auto simp: lock_inv_def lock_part_def held_def Let_def)

lemma lock_inv_mono:
  assumes "lock_inv L linv (db, m)" "linv db'" "set (ldb_iter L db') \<subseteq> set (ldb_iter L db)" "m \<le> n"
  shows "lock_inv L linv (db', n)"
  using assms by (auto simp: lock_inv_def Let_def subset_iff) (meson order.strict_trans2)

context lock_db
begin

lemma remove_stateids:
  assumes "inv db"
  shows "inv (remove_stateids ops db sids)"
    and "set (ldb_iter ops (remove_stateids ops db sids)) =
      {l \<in> set (ldb_iter ops db). ls_stateid l \<notin> set sids}"
proof -
  have "inv (remove_stateids ops db sids) \<and>
    set (ldb_iter ops (remove_stateids ops db sids)) =
      {l \<in> set (ldb_iter ops db). ls_stateid l \<notin> set sids}"
    using assms
  proof (induction sids arbitrary: db)
    case (Cons sid sids)
    have step: "remove_stateids ops db (sid # sids) =
        remove_stateids ops (snd (ldb_remove_by_stateid ops db sid)) sids"
      by (simp add: remove_stateids_def)
    show ?case
      using Cons.IH [OF sid.remove_by_inv [OF Cons.prems, of sid]]
      by (auto simp: step sid.remove_by_set [OF Cons.prems])
  qed (simp add: remove_stateids_def)
  then show "inv (remove_stateids ops db sids)"
    and "set (ldb_iter ops (remove_stateids ops db sids)) =
      {l \<in> set (ldb_iter ops db). ls_stateid l \<notin> set sids}" by simp_all
qed

lemma fresh_insert:
  assumes I: "lock_inv ops inv (lock_part fm)"
    and sid: "ls_stateid lock = counter_stateid (fm_next_stateid_id fm)"
    and ok: "fm_next_stateid_id fm < - 1"
    and free: "\<And>l. l \<in> held ops fm \<Longrightarrow> \<not> locks_conflict l lock" "\<not> locks_conflict lock lock"
  shows "\<exists>db. ldb_insert ops (fm_lockdb fm) lock = Some db \<and>
    set (ldb_iter ops db) = insert lock (held ops fm) \<and>
    lock_inv ops inv (db, fm_next_stateid_id fm + 1)"
proof -
  let ?n = "fm_next_stateid_id fm"
  note D = lock_invD [OF I]
  have "\<forall>x \<in> set (ldb_iter ops (fm_lockdb fm)). \<not> ls_clash x lock"
    using D(2) by (fastforce simp: ls_clash_def sid held_def)
  from sid.insert_fresh [OF D(1) this] obtain db where
    db: "ldb_insert ops (fm_lockdb fm) lock = Some db" "inv db"
      "set (ldb_iter ops db) = insert lock (held ops fm)"
    by (auto simp: held_def)
  have lt: "?n < ?n + 1"
    using ok by (rule word_less_Suc)
  have "\<exists>n. ls_stateid l = counter_stateid n \<and> n < ?n + 1" if "l \<in> insert lock (held ops fm)" for l
  proof (cases "l = lock")
    case True
    with sid lt show ?thesis by blast
  next
    case False
    with that obtain m where "ls_stateid l = counter_stateid m" "m < ?n" using D(2) by blast
    with lt show ?thesis by (blast intro: order.strict_trans)
  qed
  moreover have "\<not> locks_conflict a b" if "a \<in> insert lock (held ops fm)" "b \<in> insert lock (held ops fm)" for a b
    using that D(3) free locks_conflict_sym by blast
  ultimately show ?thesis using db by (auto simp: lock_inv_def Let_def)
qed

lemma handle_lock_denied:
  assumes "inv (fm_lockdb fm)"
    and "\<exists>l \<in> held ops fm. ls_filehandle_id l = fid \<and> conflicts_with l s n t ow cid"
  shows "\<exists>l \<in> held ops fm. ls_filehandle_id l = fid \<and> conflicts_with l s n t ow cid \<and>
    handle_lock ops fm fid cid ow t s n =
      Some (LockDenied (opt_or (ls_start l) 0) (opt_or (ls_length l) 0)
        (opt_or (ls_nfs_lock_type l) ReadLt) (ls_client_id l) (ls_owner l), fm) \<and>
    handle_test_lock ops fm fid cid ow t s n =
      TestDenied (opt_or (ls_start l) 0) (opt_or (ls_length l) 0)
        (opt_or (ls_nfs_lock_type l) ReadLt) (ls_client_id l) (ls_owner l)"
proof -
  have set: "set (ldb_get_by_filehandle_id ops (fm_lockdb fm) fid) = {l \<in> held ops fm. ls_filehandle_id l = fid}"
    using fid.get_by_set [OF assms(1)] by (simp add: held_def)
  then obtain l where l: "first_conflict (ldb_get_by_filehandle_id ops (fm_lockdb fm) fid) s n t ow cid = Some l"
    using assms(2) first_conflict_None [of _ s n t ow cid] by (metis (mono_tags, lifting) mem_Collect_eq not_Some_eq)
  with first_conflict_Some [OF l] set show ?thesis
    by (auto simp: handle_lock_def handle_test_lock_def)
qed

lemma no_first_conflict:
  assumes "inv (fm_lockdb fm)"
    and "\<forall>l \<in> held ops fm. ls_filehandle_id l = fid \<longrightarrow> \<not> conflicts_with l s n t ow cid"
  shows "first_conflict (ldb_get_by_filehandle_id ops (fm_lockdb fm) fid) s n t ow cid = None"
  using assms fid.get_by_set [OF assms(1), of fid] by (auto simp: first_conflict_None held_def)

lemma handle_lock_granted:
  assumes I: "lock_inv ops inv (lock_part fm)" and ok: "fm_next_stateid_id fm < - 1"
    and free: "\<forall>l \<in> held ops fm. ls_filehandle_id l = fid \<longrightarrow> \<not> conflicts_with l s n t ow cid"
  defines "sid \<equiv> counter_stateid (fm_next_stateid_id fm)"
  shows "\<exists>fm'. handle_lock ops fm fid cid ow t s n =
      Some (LockOk \<lparr>stateid4_seqid = 1, stateid4_other = sid\<rparr>, fm') \<and>
    held ops fm' = insert (new_byte_range_lock fid sid cid ow t s n) (held ops fm) \<and>
    lock_inv ops inv (lock_part fm') \<and>
    fm_next_stateid_id fm' = fm_next_stateid_id fm + 1 \<and>
    fm_delegations fm' = fm_delegations fm \<and>
    handle_test_lock ops fm fid cid ow t s n = TestOk"
proof -
  let ?lock = "new_byte_range_lock fid sid cid ow t s n"
  note none = no_first_conflict [OF lock_invD(1) [OF I] free]
  have "\<not> locks_conflict l ?lock" if "l \<in> held ops fm" for l
    using free that by (auto simp: locks_conflict_new)
  from fresh_insert [OF I _ ok this] obtain db where
    db: "ldb_insert ops (fm_lockdb fm) ?lock = Some db" "set (ldb_iter ops db) = insert ?lock (held ops fm)"
      "lock_inv ops inv (db, fm_next_stateid_id fm + 1)"
    by (auto simp: sid_def locks_conflict_def)
  then show ?thesis
    by (auto simp: handle_lock_def handle_test_lock_def none get_new_lockingstate_id_eq sid_def [symmetric]
        held_def Let_def lock_part_def)
qed

lemma add_open_state_spec:
  assumes I: "lock_inv ops inv (lock_part fm)" and ok: "fm_next_stateid_id fm < - 1"
  defines "sid \<equiv> counter_stateid (fm_next_stateid_id fm)"
  shows "\<exists>fm'. add_open_state ops fm fid cid ow a d =
      Some (new_shared_reservation fid sid cid ow a d, fm') \<and>
    held ops fm' = insert (new_shared_reservation fid sid cid ow a d) (held ops fm) \<and>
    lock_inv ops inv (lock_part fm') \<and>
    fm_next_stateid_id fm' = fm_next_stateid_id fm + 1"
proof -
  let ?lock = "new_shared_reservation fid sid cid ow a d"
  from fresh_insert [OF I _ ok, of ?lock] obtain db where
    db: "ldb_insert ops (fm_lockdb fm) ?lock = Some db" "set (ldb_iter ops db) = insert ?lock (held ops fm)"
      "lock_inv ops inv (db, fm_next_stateid_id fm + 1)"
    by (auto simp: sid_def)
  then show ?thesis
    by (auto simp: add_open_state_def get_new_lockingstate_id_eq sid_def [symmetric]
        held_def Let_def lock_part_def)
qed

lemma remove_by_stateid_held:
  assumes "inv (fm_lockdb fm)"
  shows "held ops (fm\<lparr>fm_lockdb := snd (ldb_remove_by_stateid ops (fm_lockdb fm) sid)\<rparr>) =
    {l \<in> held ops fm. ls_stateid l \<noteq> sid}"
  using sid.remove_by_set [OF assms] by (simp add: held_def)

lemma handle_unlock_spec:
  assumes "inv (fm_lockdb fm)"
  shows "handle_unlock ops fm sid offset len =
    (if \<exists>l \<in> held ops fm. ls_stateid l = sid
     then (UnlockOk \<lparr>stateid4_seqid = ls_seqid (the (ldb_get_by_stateid ops (fm_lockdb fm) sid)) + 1,
             stateid4_other = sid\<rparr>, handle_close ops fm sid)
     else (UnlockError Nfs4errBadStateid, fm))"
proof (cases "ldb_get_by_stateid ops (fm_lockdb fm) sid")
  case None
  moreover from None have "\<not> (\<exists>l \<in> held ops fm. ls_stateid l = sid)"
    using sid.get_by_None [OF assms] by (simp add: held_def)
  ultimately show ?thesis by (simp add: handle_unlock_def)
next
  case (Some l)
  then have "l \<in> held ops fm" "ls_stateid l = sid"
    using sid.get_by_Some [OF assms] by (simp_all add: held_def)
  with Some show ?thesis by (auto simp: handle_unlock_def handle_close_def)
qed

lemma handle_release_held:
  assumes "inv (fm_lockdb fm)" "handle_release_lock_owner ops fm cid owner = (r, fm')"
  shows "r = Nfs4Ok" and "inv (fm_lockdb fm')" and "fm_next_stateid_id fm' = fm_next_stateid_id fm"
    and "held ops fm' = {l \<in> held ops fm.
      \<not> (ls_lock_type l = ByteRange \<and> ls_client_id l = cid \<and> ls_owner l = owner)}"
proof -
  let ?gone = "filter (\<lambda>l. ls_lock_type l = ByteRange \<and> ls_owner l = owner)
    (ldb_get_by_client_id ops (fm_lockdb fm) cid)"
  have fm': "fm' = fm\<lparr>fm_lockdb := remove_stateids ops (fm_lockdb fm) (map ls_stateid ?gone)\<rparr>"
    and r: "r = Nfs4Ok"
    using assms(2) by (simp_all add: handle_release_lock_owner_def)
  show "r = Nfs4Ok" by (rule r)
  note rem = remove_stateids [OF assms(1), of "map ls_stateid ?gone"]
  show "inv (fm_lockdb fm')" "fm_next_stateid_id fm' = fm_next_stateid_id fm"
    using rem(1) by (simp_all add: fm')
  have inj: "ls_stateid l = ls_stateid l' \<longleftrightarrow> l = l'" if "l \<in> held ops fm" "l' \<in> held ops fm" for l l'
    using sid.key_inj [OF assms(1)] that by (auto simp: held_def inj_on_def)
  have gone: "set ?gone = {l \<in> held ops fm. ls_lock_type l = ByteRange \<and> ls_owner l = owner \<and> ls_client_id l = cid}"
    using cid.get_by_set [OF assms(1), of cid] by (auto simp: held_def)
  have "l \<in> held ops fm \<Longrightarrow> ls_stateid l \<in> ls_stateid ` set ?gone \<longleftrightarrow> l \<in> set ?gone" for l
    unfolding gone using inj by blast
  then show "held ops fm' = {l \<in> held ops fm.
      \<not> (ls_lock_type l = ByteRange \<and> ls_client_id l = cid \<and> ls_owner l = owner)}"
    using rem(2) gone by (auto simp: fm' held_def [symmetric]) (auto simp: held_def)
qed

end

section \<open>Every message keeps the lock invariant\<close>

text \<open>The state after one message: still invariant, at most one stateid used up.\<close>

definition lock_ok :: "'l lock_db_ops \<Rightarrow> ('l \<Rightarrow> bool) \<Rightarrow> 'l \<times> u64 \<Rightarrow> 'l \<times> u64 \<Rightarrow> bool" where
  "lock_ok L linv p p' \<longleftrightarrow> lock_inv L linv p' \<and> unat (snd p') \<le> Suc (unat (snd p))"

lemma lock_ok_same: "lock_inv L linv p \<Longrightarrow> lock_ok L linv p p"
  by (simp add: lock_ok_def)

lemma grant_delegation_lock_part:
  assumes "grant_delegation fm fid cid wr = (r, fm')"
  shows "lock_part fm' = lock_part fm \<or> lock_part fm' = (fm_lockdb fm, fm_next_stateid_id fm + 1)"
  using assms
  by (auto simp: grant_delegation_def make_stateid_def Let_def lock_part_def split: option.splits if_splits)

lemma return_delegation_lock_part:
  "return_delegation fm fid sid = (r, fm') \<Longrightarrow> lock_part fm' = lock_part fm"
  by (auto simp: return_delegation_def split: option.splits if_splits)

lemma lock_part_remove_object [frameD, dest!]:
  "remove_object fs F w fm path fho opened = (r, w', fm') \<Longrightarrow> lock_part fm' = lock_part fm"
  by (auto simp: remove_object_def Let_def split: if_splits prod.splits option.splits)

lemma lock_part_forget_removed:
  "\<exists>sids. lock_part (forget_removed fs F L w fm fid) =
    (remove_stateids L (fm_lockdb fm) sids, fm_next_stateid_id fm)"
  by (auto simp: forget_removed_def Let_def)

lemma remove_file_lock_part:
  assumes "remove_file fs F L w fm path = (r, w', fm')"
  shows "\<exists>sids. lock_part fm' = (remove_stateids L (fm_lockdb fm) sids, fm_next_stateid_id fm)"
proof -
  have nil: "lock_part fm = (remove_stateids L (fm_lockdb fm) [], fm_next_stateid_id fm)"
    by (simp add: lock_part_def remove_stateids_def)
  have parts: "\<exists>sids. lock_part fm2 = (remove_stateids L (fm_lockdb fm) sids, fm_next_stateid_id fm)"
    "\<exists>sids. lock_part (forget_removed fs F L w2 fm2 fid) =
      (remove_stateids L (fm_lockdb fm) sids, fm_next_stateid_id fm)"
    if "lock_part fm1 = lock_part fm" "lock_part fm2 = lock_part fm1" for fm1 fm2 w2 fid
    using that nil lock_part_forget_removed [of fs F L w2 fm2 fid] by (auto simp: lock_part_def)
  from assms show ?thesis
    by (auto simp: remove_file_def Let_def parts split: prod.splits option.splits sum.splits if_splits)
qed

context lock_db
begin

lemma lock_ok_smaller:
  assumes "lock_inv ops inv (lock_part fm)" "inv db" "set (ldb_iter ops db) \<subseteq> held ops fm"
  shows "lock_ok ops inv (lock_part fm) (db, fm_next_stateid_id fm)"
  using assms lock_inv_mono [of ops inv "fm_lockdb fm" "fm_next_stateid_id fm" db "fm_next_stateid_id fm"]
  by (simp add: lock_ok_def lock_part_def held_def)

lemma lock_ok_remove_stateids:
  assumes "lock_inv ops inv (lock_part fm)"
  shows "lock_ok ops inv (lock_part fm) (remove_stateids ops (fm_lockdb fm) sids, fm_next_stateid_id fm)"
  by (rule lock_ok_smaller [OF assms])
    (use remove_stateids [OF lock_invD(1) [OF assms]] in \<open>auto simp: held_def\<close>)

lemma lock_ok_close:
  assumes "lock_inv ops inv (lock_part fm)"
  shows "lock_ok ops inv (lock_part fm) (lock_part (handle_close ops fm sid))"
  using lock_ok_remove_stateids [OF assms, of "[sid]"]
  by (simp add: handle_close_def remove_stateids_def)

lemma lock_ok_next:
  assumes "lock_inv ops inv (lock_part fm)" "fm_next_stateid_id fm < - 1"
  shows "lock_ok ops inv (lock_part fm) (fm_lockdb fm, fm_next_stateid_id fm + 1)"
  using assms lock_inv_mono [of ops inv "fm_lockdb fm" "fm_next_stateid_id fm" "fm_lockdb fm" "fm_next_stateid_id fm + 1"]
  by (simp add: lock_ok_def lock_part_def unat_Suc_word lock_invD(1) [OF assms(1)] word_less_Suc less_imp_le)

lemma handle_lock_ok:
  assumes I: "lock_inv ops inv (lock_part fm)" and ok: "fm_next_stateid_id fm < - 1"
  shows "\<exists>r fm'. handle_lock ops fm fid cid ow t s n = Some (r, fm') \<and>
    lock_ok ops inv (lock_part fm) (lock_part fm')"
proof (cases "\<exists>l \<in> held ops fm. ls_filehandle_id l = fid \<and> conflicts_with l s n t ow cid")
  case True
  from handle_lock_denied [OF lock_invD(1) [OF I] this] show ?thesis
    using lock_ok_same [OF I] by blast
next
  case False
  then have "\<forall>l \<in> held ops fm. ls_filehandle_id l = fid \<longrightarrow> \<not> conflicts_with l s n t ow cid" by blast
  from handle_lock_granted [OF I ok this] show ?thesis
    by (auto simp: lock_ok_def) (simp add: lock_part_def unat_Suc_word [OF ok])
qed

lemma add_open_state_ok:
  assumes "lock_inv ops inv (lock_part fm)" "fm_next_stateid_id fm < - 1"
    and "lock_part fm1 = lock_part fm"
  shows "\<exists>lock fm'. add_open_state ops fm1 fid cid ow a d = Some (lock, fm') \<and>
    lock_ok ops inv (lock_part fm) (lock_part fm')"
proof -
  have ok1: "fm_next_stateid_id fm1 < - 1" using assms(2,3) by (simp add: lock_part_def)
  from add_open_state_spec [OF assms(1) [folded assms(3)] ok1, of fid cid ow a d] show ?thesis
    using unat_Suc_word [OF ok1] assms(3) by (auto simp: lock_ok_def lock_part_def)
qed

lemma handle_unlock_ok:
  assumes "lock_inv ops inv (lock_part fm)" "handle_unlock ops fm sid offset len = (r, fm')"
  shows "lock_ok ops inv (lock_part fm) (lock_part fm')"
  using assms lock_ok_close [OF assms(1), of sid] lock_ok_same [OF assms(1)]
  by (auto simp: handle_unlock_spec [OF lock_invD(1) [OF assms(1)]] split: if_splits)

lemma handle_release_ok:
  assumes "lock_inv ops inv (lock_part fm)" "handle_release_lock_owner ops fm cid ow = (r, fm')"
  shows "lock_ok ops inv (lock_part fm) (lock_part fm')"
  using assms lock_ok_remove_stateids [OF assms(1)]
  by (auto simp: handle_release_lock_owner_def Let_def)

text \<open>No message makes the actor panic, and every message keeps the invariant.\<close>

lemma handle_message_ok:
  assumes I: "lock_inv ops inv (lock_part fm)" and ok: "fm_next_stateid_id fm < - 1"
  shows "\<exists>r w' fm'. handle_message fs F ops chan w fm msg = Some (r, w', fm') \<and>
    lock_ok ops inv (lock_part fm) (lock_part fm')"
proof (cases msg)
  case (CreateFile path cid ow a d v)
  obtain fho w1 fm1 where c: "create_file fs F ops w fm path = (fho, w1, fm1)" using prod_cases3 by blast
  from lock_part_create_file [OF this] have eq: "lock_part fm1 = lock_part fm" .
  show ?thesis
    using add_open_state_ok [OF I ok eq, of _ cid ow a d] lock_ok_same [OF I] eq
    by (cases fho) (fastforce simp: handle_message_def CreateFile handle_create_file_def c)+
next
  case (CreateOpenState path cid ow a d)
  obtain fh fm1 where g: "get_filehandle fs F ops w fm path = (fh, fm1)" by fastforce
  show ?thesis
    using add_open_state_ok [OF I ok lock_part_get_filehandle [OF g], of "fh_id fh" cid ow a d]
    by (auto simp: handle_message_def CreateOpenState handle_create_open_state_def g)
next
  case (RemoveFile path)
  then show ?thesis
    using lock_ok_remove_stateids [OF I]
    by (auto simp: handle_message_def split: prod.split dest!: remove_file_lock_part)
next
  case (LockFile fid cid ow t s n)
  from handle_lock_ok [OF I ok, of fid cid ow t s n] show ?thesis
    by (auto simp: handle_message_def LockFile)
next
  case (GrantDelegation fid cid wr)
  then show ?thesis
    using lock_ok_next [OF I ok] lock_ok_same [OF I]
    by (auto simp: handle_message_def split: prod.split dest!: grant_delegation_lock_part)
next
  case (UnlockFile sid s n)
  then show ?thesis
    by (auto simp: handle_message_def handle_unlock_ok [OF I] split: prod.split)
next
  case (ReleaseLockOwner cid ow)
  then show ?thesis
    by (auto simp: handle_message_def handle_release_ok [OF I] split: prod.split)
next
  case (ReturnDelegation fid sid)
  then show ?thesis
    using lock_ok_same [OF I]
    by (auto simp: handle_message_def split: prod.split dest!: return_delegation_lock_part)
qed (use lock_ok_same [OF I] lock_ok_close [OF I] in
      \<open>auto simp: handle_message_def split: prod.split\<close>)

end

section \<open>Runs of the actor\<close>

text \<open>
  One step of the actor handles one message or runs the sweep. Other tasks of the server change
  the filesystem between two steps, so each step may see a different world.
\<close>

inductive fm_step ::
  "'w fs_ops \<Rightarrow> 'f fh_db_ops \<Rightarrow> 'l lock_db_ops \<Rightarrow> ('f, 'l) file_manager \<Rightarrow> ('f, 'l) file_manager \<Rightarrow> bool"
  for fs F L where
  message: "handle_message fs F L chan w fm msg = Some (r, w', fm') \<Longrightarrow> fm_step fs F L fm fm'"
| sweep: "sweep_pending_deletes fs F L w fm = (w', fm') \<Longrightarrow> fm_step fs F L fm fm'"

inductive fm_run ::
  "'w fs_ops \<Rightarrow> 'f fh_db_ops \<Rightarrow> 'l lock_db_ops \<Rightarrow> ('f, 'l) file_manager \<Rightarrow> nat \<Rightarrow> ('f, 'l) file_manager \<Rightarrow> bool"
  for fs F L fm where
  start: "fm_run fs F L fm 0 fm"
| step: "fm_run fs F L fm n fm1 \<Longrightarrow> fm_step fs F L fm1 fm2 \<Longrightarrow> fm_run fs F L fm (Suc n) fm2"

inductive_cases fm_stepE: "fm_step fs F L fm fm'"

lemma lock_part_file_manager_new:
  "lock_part (file_manager_new fs F L w root fsid export_root) = (ldb_default L, 100)"
proof -
  have "lock_part (snd (root_fh fs F L w fm)) = lock_part fm" for fm
    using lock_part_root_fh by (metis surjective_pairing)
  then show ?thesis by (simp add: file_manager_new_def Let_def) (simp add: lock_part_def)
qed

context lock_db
begin

lemma lock_inv_new: "lock_inv ops inv (lock_part (file_manager_new fs F ops w root fsid er))"
  by (simp add: lock_part_file_manager_new lock_inv_def sid.inv_empty sid.iter_empty)

lemma fm_step_ok:
  assumes "lock_inv ops inv (lock_part fm)" "fm_next_stateid_id fm < - 1" "fm_step fs F ops fm fm'"
  shows "lock_ok ops inv (lock_part fm) (lock_part fm')"
  using assms(3)
proof (cases rule: fm_step.cases)
  case (message chan w msg r w')
  with handle_message_ok [OF assms(1,2), of fs F chan w msg] show ?thesis by auto
next
  case (sweep w w')
  from lock_part_sweep [OF this] lock_ok_same [OF assms(1)] show ?thesis by simp
qed

lemma fm_run_ok:
  assumes "fm_run fs F ops (file_manager_new fs F ops w root fsid er) n fm" "n < 2 ^ 64 - 101"
  shows "lock_inv ops inv (lock_part fm) \<and> unat (fm_next_stateid_id fm) \<le> 100 + n"
  using assms
proof (induction rule: fm_run.induct)
  case start
  then show ?case
    using lock_inv_new [of fs F w root fsid er] lock_part_file_manager_new [of fs F ops w root fsid er]
    by (simp add: lock_part_def)
next
  case (step n fm1 fm2)
  then have I: "lock_inv ops inv (lock_part fm1)" and le: "unat (fm_next_stateid_id fm1) \<le> 100 + n"
    by simp_all
  have "fm_next_stateid_id fm1 < - 1"
    using le step.prems by (simp add: word_less_nat_alt unsigned_minus_1_eq_mask mask_eq_exp_minus_1)
  from fm_step_ok [OF I this step.hyps(2)] le show ?case
    by (simp add: lock_ok_def) (simp add: lock_part_def)
qed

lemma fm_run_next:
  assumes "fm_run fs F ops (file_manager_new fs F ops w root fsid er) n fm" "n < 2 ^ 64 - 101"
  shows "fm_next_stateid_id fm < - 1"
  using fm_run_ok [OF assms] assms(2)
  by (simp add: word_less_nat_alt unsigned_minus_1_eq_mask mask_eq_exp_minus_1)

end

section \<open>Properties\<close>

text \<open>Example states: two clients lock adjacent ranges of one file.\<close>

definition ex_fh :: nfs_fh4 where
  "ex_fh = inode_fh_id 3 7 2"

definition ex_fm0 :: "(filehandle list, locking_state list) file_manager" where
  "ex_fm0 = file_manager_new mem_fs list_fh_db list_lock_db mem_empty [] (Some 3) ''/''"

definition ex_fm1 :: "(filehandle list, locking_state list) file_manager" where
  "ex_fm1 = snd (the (handle_lock list_lock_db ex_fm0 ex_fh 1 [1] WriteLt 0 10))"

definition ex_fm2 :: "(filehandle list, locking_state list) file_manager" where
  "ex_fm2 = snd (the (handle_lock list_lock_db ex_fm1 ex_fh 2 [1] WriteLt 10 0))"

lemma ex_fm0_locks: "lock_part ex_fm0 = ([], 100)"
  by (simp add: ex_fm0_def lock_part_file_manager_new list_lock_db_def)

lemma ex_fm1_eq: "handle_lock list_lock_db ex_fm0 ex_fh 1 [1] WriteLt 0 10 =
    Some (LockOk \<lparr>stateid4_seqid = 1, stateid4_other = counter_stateid 100\<rparr>, ex_fm1)"
  "lock_part ex_fm1 = ([new_byte_range_lock ex_fh (counter_stateid 100) 1 [1] WriteLt 0 10], 101)"
  using ex_fm0_locks
  by (simp_all add: ex_fm1_def handle_lock_def lock_part_def list_lock_db_simps get_new_lockingstate_id_eq Let_def)

lemma ex_fm2_eq: "handle_lock list_lock_db ex_fm1 ex_fh 2 [1] WriteLt 10 0 =
    Some (LockOk \<lparr>stateid4_seqid = 1, stateid4_other = counter_stateid 101\<rparr>, ex_fm2)"
  "lock_part ex_fm2 = ([new_byte_range_lock ex_fh (counter_stateid 100) 1 [1] WriteLt 0 10,
     new_byte_range_lock ex_fh (counter_stateid 101) 2 [1] WriteLt 10 0], 102)"
proof -
  have "\<not> conflicts_with (new_byte_range_lock ex_fh (counter_stateid 100) 1 [1] WriteLt 0 10) 10 0 WriteLt [1] 2"
    by (simp add: conflicts_with_def new_byte_range_lock_def range_end_def saturating_add_def)
  then show "handle_lock list_lock_db ex_fm1 ex_fh 2 [1] WriteLt 10 0 =
      Some (LockOk \<lparr>stateid4_seqid = 1, stateid4_other = counter_stateid 101\<rparr>, ex_fm2)"
    "lock_part ex_fm2 = ([new_byte_range_lock ex_fh (counter_stateid 100) 1 [1] WriteLt 0 10,
     new_byte_range_lock ex_fh (counter_stateid 101) 2 [1] WriteLt 10 0], 102)"
    using ex_fm1_eq(2)
    by (simp_all add: ex_fm2_def handle_lock_def lock_part_def list_lock_db_simps get_new_lockingstate_id_eq Let_def)
qed

lemma ex_run: "fm_run mem_fs list_fh_db list_lock_db ex_fm0 2 ex_fm2"
proof -
  let ?run = "fm_run mem_fs list_fh_db list_lock_db ex_fm0"
  have "fm_step mem_fs list_fh_db list_lock_db ex_fm0 ex_fm1"
    by (rule fm_step.message [of _ _ _ 0 mem_empty _ "LockFile ex_fh 1 [1] WriteLt 0 10"])
      (simp add: handle_message_def ex_fm1_eq)
  then have "?run (Suc 0) ex_fm1" by (rule fm_run.step [OF fm_run.start])
  moreover have "fm_step mem_fs list_fh_db list_lock_db ex_fm1 ex_fm2"
    by (rule fm_step.message [of _ _ _ 0 mem_empty _ "LockFile ex_fh 2 [1] WriteLt 10 0"])
      (simp add: handle_message_def ex_fm2_eq)
  ultimately have "?run (Suc (Suc 0)) ex_fm2" by (rule fm_run.step)
  then show ?thesis by (simp add: numeral_2_eq_2)
qed

lemma ex_inv: "lock_inv list_lock_db (list_clash_free ls_clash) (lock_part ex_fm1)"
  using lldb.handle_message_ok [of ex_fm0 mem_fs list_fh_db 0 mem_empty "LockFile ex_fh 1 [1] WriteLt 0 10"]
    lldb.lock_inv_new [of mem_fs list_fh_db mem_empty "[]" "Some 3" "''/''"] ex_fm0_locks
  by (simp add: handle_message_def ex_fm1_eq ex_fm0_def [symmetric] lock_ok_def)
    (simp add: lock_part_def)

text \<open>
  C2: in every state a file manager can reach by handling messages and sweeps (fewer than
  \<open>2^64 - 101\<close> of them, so that the stateid counter does not wrap), no two byte-range locks of
  different owners on the same file cover a common byte unless both are read locks, whatever
  the filesystem and the handle table do; and no further message makes the actor panic.
\<close>

theorem reachable_locks_exclusive:
  assumes "lock_db L linv"
    and "fm_run fs F L (file_manager_new fs F L w root fsid export_root) n fm"
    and "n < 2 ^ 64 - 101"
  shows "(\<forall>a \<in> held L fm. \<forall>b \<in> held L fm. \<not> locks_conflict a b) \<and>
    (\<forall>chan w' msg. handle_message fs F L chan w' fm msg \<noteq> None)"
proof -
  note ok = lock_db.fm_run_ok [OF assms] and nxt = lock_db.fm_run_next [OF assms]
  from ok have I: "lock_inv L linv (lock_part fm)" by simp
  show ?thesis
    using lock_invD(3) [OF I] lock_db.handle_message_ok [OF assms(1) I nxt] by fastforce
qed

theorem reachable_locks_exclusive_witness:
  "held list_lock_db ex_fm2 = {new_byte_range_lock ex_fh (counter_stateid 100) 1 [1] WriteLt 0 10,
     new_byte_range_lock ex_fh (counter_stateid 101) 2 [1] WriteLt 10 0} \<and>
   \<not> locks_conflict (new_byte_range_lock ex_fh (counter_stateid 100) 1 [1] WriteLt 0 10)
     (new_byte_range_lock ex_fh (counter_stateid 101) 2 [1] WriteLt 10 0)"
proof -
  have h: "held list_lock_db ex_fm2 = {new_byte_range_lock ex_fh (counter_stateid 100) 1 [1] WriteLt 0 10,
     new_byte_range_lock ex_fh (counter_stateid 101) 2 [1] WriteLt 10 0}"
    using ex_fm2_eq(2) by (simp add: held_def lock_part_def list_lock_db_def)
  from reachable_locks_exclusive [OF lldb.lock_db_axioms ex_run [unfolded ex_fm0_def]] h
  show ?thesis by simp
qed

text \<open>
  C19: the conflict test of a held lock against a requested range. It answers yes exactly when
  the held state is a byte-range lock of another owner (client and owner string), the two
  ranges share a byte below offset \<open>2^64 - 1\<close> (length 0 reaching to the end), and at least one of
  the two is a write lock. End points saturate, so no range wraps around.
\<close>

theorem conflicts_with_shared_byte:
  "conflicts_with l offset len t owner cid \<longleftrightarrow>
    (\<exists>s n. held_range l = Some (s, n) \<and> (ls_client_id l, ls_owner l) \<noteq> (cid, owner) \<and>
      range_bytes s n \<inter> range_bytes offset len \<noteq> {} \<and> (held_write l \<or> is_write_type t))"
  by (rule conflicts_with_spec)

text \<open>
  C18: LOCK. With a well-formed lock table and an unexhausted counter the handler never panics.
  If a held lock of the file conflicts, the answer is a denial that describes such a lock and
  nothing changes; otherwise the lock is granted under a stateid no held state has, it is
  the only addition to the held locks, and the invariant holds again. LOCKT predicts the outcome.
\<close>

theorem handle_lock_outcome:
  assumes "lock_db L linv" and "lock_inv L linv (lock_part fm)" and "fm_next_stateid_id fm < - 1"
  defines "sid \<equiv> counter_stateid (fm_next_stateid_id fm)"
  shows "if \<exists>l \<in> held L fm. ls_filehandle_id l = fid \<and> conflicts_with l s n t ow cid
    then \<exists>l \<in> held L fm. ls_filehandle_id l = fid \<and> conflicts_with l s n t ow cid \<and>
      handle_lock L fm fid cid ow t s n =
        Some (LockDenied (opt_or (ls_start l) 0) (opt_or (ls_length l) 0)
          (opt_or (ls_nfs_lock_type l) ReadLt) (ls_client_id l) (ls_owner l), fm) \<and>
      handle_test_lock L fm fid cid ow t s n =
        TestDenied (opt_or (ls_start l) 0) (opt_or (ls_length l) 0)
          (opt_or (ls_nfs_lock_type l) ReadLt) (ls_client_id l) (ls_owner l)
    else (\<forall>l \<in> held L fm. ls_stateid l \<noteq> sid) \<and> handle_test_lock L fm fid cid ow t s n = TestOk \<and>
      (\<exists>fm'. handle_lock L fm fid cid ow t s n =
          Some (LockOk \<lparr>stateid4_seqid = 1, stateid4_other = sid\<rparr>, fm') \<and>
        held L fm' = insert (new_byte_range_lock fid sid cid ow t s n) (held L fm) \<and>
        lock_inv L linv (lock_part fm') \<and> fm_delegations fm' = fm_delegations fm)"
proof (cases "\<exists>l \<in> held L fm. ls_filehandle_id l = fid \<and> conflicts_with l s n t ow cid")
  case True
  from lock_db.handle_lock_denied [OF assms(1) lock_invD(1) [OF assms(2)] this] True
  show ?thesis by simp
next
  case False
  then have "\<forall>l \<in> held L fm. ls_filehandle_id l = fid \<longrightarrow> \<not> conflicts_with l s n t ow cid" by blast
  from lock_db.handle_lock_granted [OF assms(1-3) this, folded sid_def]
  have granted: "\<exists>fm'. handle_lock L fm fid cid ow t s n =
          Some (LockOk \<lparr>stateid4_seqid = 1, stateid4_other = sid\<rparr>, fm') \<and>
        held L fm' = insert (new_byte_range_lock fid sid cid ow t s n) (held L fm) \<and>
        lock_inv L linv (lock_part fm') \<and> fm_delegations fm' = fm_delegations fm"
    and "handle_test_lock L fm fid cid ow t s n = TestOk" by blast+
  moreover have "\<forall>l \<in> held L fm. ls_stateid l \<noteq> sid"
    using lock_invD(2) [OF assms(2)] by (fastforce simp: sid_def)
  ultimately show ?thesis using False by simp
qed

theorem handle_lock_outcome_witness:
  "handle_lock list_lock_db ex_fm1 ex_fh 2 [9] WriteLt 5 1 =
    Some (LockDenied 0 10 WriteLt 1 [1], ex_fm1)"
proof -
  let ?l = "new_byte_range_lock ex_fh (counter_stateid 100) 1 [1] WriteLt 0 10"
  have h: "held list_lock_db ex_fm1 = {?l}" "fm_next_stateid_id ex_fm1 = 101"
    using ex_fm1_eq(2) by (simp_all add: held_def lock_part_def list_lock_db_def)
  have c: "conflicts_with ?l 5 1 WriteLt [9] 2"
    by (simp add: conflicts_with_def new_byte_range_lock_def range_end_def saturating_add_def is_write_type_def)
  from handle_lock_outcome [OF lldb.lock_db_axioms ex_inv, of ex_fh 5 1 WriteLt "[9]" 2] h c
  show ?thesis by (simp add: new_byte_range_lock_def opt_or_def)
qed

text \<open>
  LOCKU and CLOSE. LOCKU of a stateid nobody holds answers BAD_STATEID and changes nothing;
  otherwise the state with that stateid, and no other, is gone afterwards, its stateid is
  returned with the next seqid, and the invariant is kept. CLOSE has the same effect on the table.
\<close>

lemma handle_unlock_removes:
  assumes "lock_db L linv" and "lock_inv L linv (lock_part fm)"
  shows "lock_inv L linv (lock_part (handle_close L fm sid)) \<and>
    held L (handle_close L fm sid) = {l \<in> held L fm. ls_stateid l \<noteq> sid} \<and>
    (case handle_unlock L fm sid offset len of
       (UnlockOk st, fm') \<Rightarrow> fm' = handle_close L fm sid \<and>
         (\<exists>l \<in> held L fm. ls_stateid l = sid \<and>
           st = \<lparr>stateid4_seqid = ls_seqid l + 1, stateid4_other = sid\<rparr>)
     | (UnlockError e, fm') \<Rightarrow> e = Nfs4errBadStateid \<and> fm' = fm \<and>
         (\<forall>l \<in> held L fm. ls_stateid l \<noteq> sid))"
proof -
  note linv = lock_invD(1) [OF assms(2)]
  have "unique_index linv (ldb_iter L) (ldb_default L) (ldb_insert L) ls_clash ls_stateid
      (ldb_get_by_stateid L) (ldb_remove_by_stateid L)"
    using assms(1) by (simp add: lock_db_def)
  note get = unique_index.get_by_Some [OF this linv]
  show ?thesis
    using lock_db.lock_ok_close [OF assms, of sid] lock_db.remove_by_stateid_held [OF assms(1) linv, of sid]
      get [of sid]
    by (auto simp: lock_ok_def handle_close_def handle_unlock_def held_def unique_index.get_by_None [OF \<open>unique_index _ _ _ _ _ _ _ _\<close> linv]
        split: option.split)
qed

lemma handle_unlock_removes_example:
  "held list_lock_db (snd (handle_unlock list_lock_db ex_fm1 (counter_stateid 100) 0 10)) = {}"
proof -
  have h: "held list_lock_db ex_fm1 = {new_byte_range_lock ex_fh (counter_stateid 100) 1 [1] WriteLt 0 10}"
    using ex_fm1_eq(2) by (simp add: held_def lock_part_def list_lock_db_def)
  from handle_unlock_removes [OF lldb.lock_db_axioms ex_inv, of "counter_stateid 100" 0 10] h
  show ?thesis by (auto split: prod.splits unlock_result.splits)
qed

text \<open>
  RELEASE\_LOCKOWNER always succeeds, drops exactly the byte-range locks of that client and
  owner (open state and other owners' locks stay), and keeps the invariant.
\<close>

lemma release_lock_owner_exact:
  assumes "lock_db L linv" and "lock_inv L linv (lock_part fm)"
    and "handle_release_lock_owner L fm cid owner = (r, fm')"
  shows "r = Nfs4Ok \<and> lock_inv L linv (lock_part fm') \<and>
    held L fm' = {l \<in> held L fm.
      \<not> (ls_lock_type l = ByteRange \<and> ls_client_id l = cid \<and> ls_owner l = owner)}"
  using lock_db.handle_release_held [OF assms(1) lock_invD(1) [OF assms(2)] assms(3)]
    lock_db.handle_release_ok [OF assms] by (simp add: lock_ok_def)

lemma release_lock_owner_exact_example:
  "held list_lock_db (snd (handle_release_lock_owner list_lock_db ex_fm1 1 [1])) = {} \<and>
   held list_lock_db (snd (handle_release_lock_owner list_lock_db ex_fm1 1 [2])) = held list_lock_db ex_fm1"
proof -
  have h: "held list_lock_db ex_fm1 = {new_byte_range_lock ex_fh (counter_stateid 100) 1 [1] WriteLt 0 10}"
    using ex_fm1_eq(2) by (simp add: held_def lock_part_def list_lock_db_def)
  have "handle_release_lock_owner list_lock_db ex_fm1 cid ow = (r, fm') \<Longrightarrow>
      held list_lock_db fm' = (if (cid, ow) = (1, [1]) then {} else held list_lock_db ex_fm1)" for cid ow r fm'
    using release_lock_owner_exact [OF lldb.lock_db_axioms ex_inv, of cid ow r fm'] h by auto
  from this [OF surjective_pairing] show ?thesis by simp
qed

text \<open>
  Delegations. A grant to a file nobody holds a delegation on succeeds with a stateid that
  carries the new counter value; while it is held, the same client gets the same stateid again
  and every other client is refused, both without any change; returning it with another stateid
  answers BAD\_STATEID, with the granted one removes it and restores the delegation table.
\<close>

lemma delegation_lifecycle:
  fixes cid :: u64 and wr :: bool
  assumes "fm_delegations fm fid = None"
  defines "sid \<equiv> fst (make_stateid fm)" and "fm1 \<equiv> snd (grant_delegation fm fid cid wr)"
  shows "fst (grant_delegation fm fid cid wr) = Some sid \<and>
    fm_delegations fm1 = (fm_delegations fm)(fid \<mapsto>
      \<lparr>ds_client_id = cid, ds_stateid = sid, ds_is_write = wr\<rparr>) \<and>
    grant_delegation fm1 fid cid wr' = (Some sid, fm1) \<and>
    (cid' \<noteq> cid \<longrightarrow> grant_delegation fm1 fid cid' wr' = (None, fm1)) \<and>
    (sid' \<noteq> sid \<longrightarrow> return_delegation fm1 fid sid' = (Nfs4errBadStateid, fm1)) \<and>
    fst (return_delegation fm1 fid sid) = Nfs4Ok \<and>
    fm_delegations (snd (return_delegation fm1 fid sid)) = fm_delegations fm \<and>
    fst (return_delegation fm fid sid) = Nfs4errBadStateid"
  using assms(1) by (auto simp: grant_delegation_def return_delegation_def make_stateid_def Let_def
      sid_def fm1_def)

lemma delegation_lifecycle_example:
  "fst (grant_delegation (snd (grant_delegation (ex_fm1\<lparr>fm_delegations := Map.empty\<rparr>) ex_fh 1 True))
    ex_fh 2 False) = None"
  using delegation_lifecycle [of "ex_fm1\<lparr>fm_delegations := Map.empty\<rparr>" ex_fh 1 True False 2] by simp

declare frameD [rule del]

end
