(* ===== verification/HandleTable.thy ===== *)
theory HandleTable
  imports LockSafety
begin

text \<open>
  What the handle table guarantees: \<open>fhdb_replace\<close> never fails and evicts exactly what would
  collide, every handle in the table belongs to its file manager's export unless a message
  brought it in, and the handle returned for a path is registered under its id and its path.
\<close>

section \<open>Handle layouts\<close>

lemma inode_fh_id_inject [simp]:
  "inode_fh_id e dev ino = inode_fh_id e' dev' ino' \<longleftrightarrow> e = e' \<and> dev = dev' \<and> ino = ino'"
  using be_bytes_inject [of 8 dev dev'] be_bytes_inject [of 8 ino ino']
  by (auto simp: inode_fh_id_def append_eq_append_conv)

lemma volatile_fh_id_inject [simp]:
  "volatile_fh_id e b s = volatile_fh_id e' b' s' \<longleftrightarrow> e = e' \<and> b = b' \<and> s = s'"
  using be_bytes_inject [of 8 b b'] be_bytes_inject [of 16 s s']
  by (auto simp: volatile_fh_id_def append_eq_append_conv)

lemma fh_id_layouts [simp]:
  "length (inode_fh_id e d i) = 26" "length (volatile_fh_id e b s) = 26"
  "inode_fh_id e d i ! 0 = 1" "volatile_fh_id e b s ! 0 = 0x80"
  "inode_fh_id e d i ! 1 = e" "volatile_fh_id e b s ! 1 = e"
  by (simp_all add: inode_fh_id_def volatile_fh_id_def)

lemma export_id_from_fh_layouts [simp]:
  "export_id_from_fh (inode_fh_id e d i) = e" "export_id_from_fh (volatile_fh_id e b s) = e"
  unfolding export_id_from_fh_eq by (simp_all del: One_nat_def)

lemma inode_fh_id_ino: "from_be_bytes (take 8 (drop 10 (inode_fh_id e d i))) = i"
  using from_be_bytes_be_bytes [of 8 i] by (simp add: inode_fh_id_def)

section \<open>Well-formed handles\<close>

text \<open>
  The ids an export generates: 26 bytes, with the id of the export in the byte PUTFH routes by.
  The files and paths of handles that are registered under the path of their file; the \<open>vfs\<close>
  crate has the empty path for the root, never a lone slash.
\<close>

definition home :: "u8 \<Rightarrow> nfs_fh4 set" where
  "home e = {i. length i = 26 \<and> export_id_from_fh i = e}"

definition keyed :: "(string \<times> string) set" where
  "keyed = {(f, p). p = path_key f \<and> f \<noteq> ''/''}"

lemma in_keyed [simp]: "(f, p) \<in> keyed \<longleftrightarrow> p = path_key f \<and> f \<noteq> ''/''"
  by (simp add: keyed_def)

lemma home_layouts [simp]: "inode_fh_id e d i \<in> home e" "volatile_fh_id e b s \<in> home e"
  by (simp_all add: home_def)

text \<open>A handle whose id is in \<open>A\<close>, with its file and the path it is registered under in \<open>B\<close>.\<close>

definition wf_fh :: "nfs_fh4 set \<Rightarrow> (string \<times> string) set \<Rightarrow> filehandle \<Rightarrow> bool" where
  "wf_fh A B fh \<longleftrightarrow> fh_id fh \<in> A \<and> (fh_file fh, fh_path fh) \<in> B"

definition table :: "'f fh_db_ops \<Rightarrow> ('f, 'l) file_manager \<Rightarrow> filehandle set" where
  "table F fm = set (fdb_iter F (fm_fhdb fm))"

definition table_inv ::
  "nfs_fh4 set \<Rightarrow> (string \<times> string) set \<Rightarrow> 'f fh_db_ops \<Rightarrow> ('f \<Rightarrow> bool) \<Rightarrow> ('f, 'l) file_manager \<Rightarrow> bool" where
  "table_inv A B F finv fm \<longleftrightarrow> finv (fm_fhdb fm) \<and> home (fm_export_id fm) \<subseteq> A \<and>
     (fm_root fm, path_key (fm_root fm)) \<in> B \<and> (\<forall>f p. (f, p) \<in> B \<longrightarrow> (f, path_key f) \<in> B) \<and>
     (\<forall>fh \<in> table F fm. wf_fh A B fh)"

lemma make_fh_sel [simp]:
  "fh_id (make_fh fs w fm file fid v) = fid"
  "fh_file (make_fh fs w fm file fid v) = file"
  "fh_path (make_fh fs w fm file fid v) = path_key file"
  by (simp_all add: make_fh_def split: option.split)

lemma wf_fh_make_fh [simp]:
  "wf_fh A B (make_fh fs w fm file fid v) \<longleftrightarrow> fid \<in> A \<and> (file, path_key file) \<in> B"
  by (auto simp: wf_fh_def)

lemma wf_fh_upd [simp]:
  "wf_fh A B (fh\<lparr>fh_write_cache := c\<rparr>) = wf_fh A B fh" "wf_fh A B (fh\<lparr>fh_locks := l\<rparr>) = wf_fh A B fh"
  by (simp_all add: wf_fh_def)

lemma path_key_inject: "p \<noteq> ''/'' \<Longrightarrow> q \<noteq> ''/'' \<Longrightarrow> path_key p = path_key q \<longleftrightarrow> p = q"
  by (auto simp: path_key_def)

lemma export_id_frame [simp]:
  "fm_export_id (fhdb_replace F fm fh) = fm_export_id fm"
  "fm_export_id (fhdb_remove F fm fid) = fm_export_id fm"
  "fm_root (fhdb_replace F fm fh) = fm_root fm"
  "fm_root (fhdb_remove F fm fid) = fm_root fm"
  by (simp_all add: fhdb_replace_def fhdb_remove_def Let_def)

text \<open>
  The \<open>vfs\<close> crate: the path of an object never is a lone slash (the root is the empty path),
  so neither is the result of \<open>join\<close> with a name.
\<close>

definition vfs_paths_ok :: "'w fs_ops \<Rightarrow> bool" where
  "vfs_paths_ok fs \<longleftrightarrow> (\<forall>p name q. vfs_join fs p name = Some q \<longrightarrow> q \<noteq> ''/'')"

definition joins_in :: "(string \<times> string) set \<Rightarrow> 'w fs_ops \<Rightarrow> bool" where
  "joins_in B fs \<longleftrightarrow> (\<forall>p name q. vfs_join fs p name = Some q \<longrightarrow> (q, path_key q) \<in> B)"

lemma joins_inD: "joins_in B fs \<Longrightarrow> vfs_join fs p name = Some q \<Longrightarrow> (q, path_key q) \<in> B"
  by (simp add: joins_in_def)

lemma joins_in_keyed: "joins_in keyed fs \<longleftrightarrow> vfs_paths_ok fs"
  by (auto simp: joins_in_def vfs_paths_ok_def)

text \<open>A step that keeps the table invariant and the export id.\<close>

definition keeps ::
  "nfs_fh4 set \<Rightarrow> (string \<times> string) set \<Rightarrow> 'f fh_db_ops \<Rightarrow> ('f \<Rightarrow> bool)
    \<Rightarrow> ('f, 'l) file_manager \<Rightarrow> ('f, 'l) file_manager \<Rightarrow> bool" where
  "keeps A B F finv fm fm' \<longleftrightarrow> (table_inv A B F finv fm \<longrightarrow>
     table_inv A B F finv fm' \<and> fm_export_id fm' = fm_export_id fm)"

context fh_db
begin

lemma fhdb_remove_spec:
  assumes "finv (fm_fhdb fm)"
  shows "finv (fm_fhdb (fhdb_remove fops fm fid))"
    and "table fops (fhdb_remove fops fm fid) = {x \<in> table fops fm. fh_id x \<noteq> fid}"
  using ix.remove_by_inv [OF assms] ix.remove_by_set [OF assms] by (simp_all add: fhdb_remove_def table_def)

lemma fhdb_replace_spec:
  assumes "finv (fm_fhdb fm)"
  shows "finv (fm_fhdb (fhdb_replace fops fm fh))"
    and "table fops (fhdb_replace fops fm fh) =
      insert fh {x \<in> table fops fm. fh_id x \<noteq> fh_id fh \<and> fh_path x \<noteq> fh_path fh}"
proof -
  let ?db = "fm_fhdb fm"
  define db1 where "db1 = (if fdb_get_by_id fops ?db (fh_id fh) \<noteq> None
    then snd (fdb_remove_by_id fops ?db (fh_id fh)) else ?db)"
  define db2 where "db2 = (if fdb_get_by_path fops db1 (fh_path fh) \<noteq> None
    then snd (fdb_remove_by_path fops db1 (fh_path fh)) else db1)"
  have i1: "finv db1" using assms ix.remove_by_inv by (simp add: db1_def)
  have s1: "set (fdb_iter fops db1) = {x \<in> table fops fm. fh_id x \<noteq> fh_id fh}"
    using ix.remove_by_set [OF assms] ix.get_by_None [OF assms] by (auto simp: db1_def table_def)
  have i2: "finv db2" using i1 px.remove_by_inv by (simp add: db2_def)
  have s2: "set (fdb_iter fops db2) =
      {x \<in> table fops fm. fh_id x \<noteq> fh_id fh \<and> fh_path x \<noteq> fh_path fh}"
    using px.remove_by_set [OF i1] px.get_by_None [OF i1] by (auto simp: db2_def s1)
  have "\<forall>x \<in> set (fdb_iter fops db2). \<not> fh_clash x fh" by (auto simp: s2 fh_clash_def)
  from ix.insert_fresh [OF i2 this] obtain db3 where
    3: "fdb_try_insert fops db2 fh = Some db3" "finv db3"
      "set (fdb_iter fops db3) = insert fh (set (fdb_iter fops db2))" by blast
  have "fhdb_replace fops fm fh = fm\<lparr>fm_fhdb := db3\<rparr>"
    by (simp only: fhdb_replace_def Let_def db1_def [symmetric] db2_def [symmetric] 3(1) option.case)
  then show "finv (fm_fhdb (fhdb_replace fops fm fh))"
    and "table fops (fhdb_replace fops fm fh) =
      insert fh {x \<in> table fops fm. fh_id x \<noteq> fh_id fh \<and> fh_path x \<noteq> fh_path fh}"
    by (simp_all add: 3 s2 table_def)
qed

lemma table_inv_remove [inv_intros]:
  "table_inv A B fops finv fm \<Longrightarrow> table_inv A B fops finv (fhdb_remove fops fm fid)"
  by (auto simp: table_inv_def fhdb_remove_spec)

lemma table_inv_replace [inv_intros]:
  "table_inv A B fops finv fm \<Longrightarrow> wf_fh A B fh \<Longrightarrow> table_inv A B fops finv (fhdb_replace fops fm fh)"
  by (auto simp: table_inv_def fhdb_replace_spec)

lemma table_get_by_id:
  assumes "table_inv A B fops finv fm"
  shows "fdb_get_by_id fops (fm_fhdb fm) fid = Some fh \<longleftrightarrow> fh \<in> table fops fm \<and> fh_id fh = fid"
  using assms ix.get_by_Some by (simp add: table_inv_def table_def)

lemma table_get_by_path:
  assumes "table_inv A B fops finv fm"
  shows "fdb_get_by_path fops (fm_fhdb fm) p = Some fh \<longleftrightarrow> fh \<in> table fops fm \<and> fh_path fh = p"
  using assms px.get_by_Some by (simp add: table_inv_def table_def)

lemma table_wf: "table_inv A B fops finv fm \<Longrightarrow> fh \<in> table fops fm \<Longrightarrow> wf_fh A B fh"
  by (simp add: table_inv_def)

lemma table_inv_fresh: "table_inv A B fops finv fm \<Longrightarrow> inode_fh_id (fm_export_id fm) d i \<in> A"
  by (auto simp: table_inv_def)

lemma table_inv_volatile:
  "table_inv A B fops finv fm \<Longrightarrow> volatile_fh_id (fm_export_id fm) b n \<in> A"
  "table_inv A B fops finv (fm\<lparr>fm_next_fh_id := k\<rparr>) = table_inv A B fops finv fm"
  by (auto simp: table_inv_def table_def)

lemma table_inv_key: "table_inv A B fops finv fm \<Longrightarrow> (f, p) \<in> B \<Longrightarrow> (f, path_key f) \<in> B"
  by (auto simp: table_inv_def)

lemma replace_in_table:
  "table_inv A B fops finv fm \<Longrightarrow> fh \<in> table fops (fhdb_replace fops fm fh)"
  by (simp add: fhdb_replace_spec table_inv_def)

lemma get_filehandle_by_path_spec:
  assumes "table_inv A B fops finv fm" "get_filehandle_by_path fs fops L w fm p = (r, fm')"
  shows "table_inv A B fops finv fm'" "fm_export_id fm' = fm_export_id fm"
    and "r = Some fh \<Longrightarrow> fm' = fm \<and> fh \<in> table fops fm \<and> fh_path fh = p"
  using assms table_get_by_path [OF assms(1)]
  by (auto simp: get_filehandle_by_path_def intro: table_inv_remove split: option.splits if_splits)

lemma scan_inode_path:
  "joins_in B fs \<Longrightarrow> scan_inode fs w pv pr ino names = Some q \<Longrightarrow> (q, path_key q) \<in> B"
  by (induction names) (auto simp: joins_in_def split: option.splits if_splits)

lemma find_by_inode_path:
  "joins_in B fs \<Longrightarrow> find_by_inode_in_parent fs w fm fh ino = Some q \<Longrightarrow> (q, path_key q) \<in> B"
  by (auto simp: find_by_inode_in_parent_def Let_def dest: scan_inode_path split: option.splits)

lemma get_filehandle_by_id_spec:
  assumes I: "table_inv A B fops finv fm" and vfs: "joins_in B fs"
    and g: "get_filehandle_by_id fs fops L w fm fid = (r, fm')"
  shows "table_inv A B fops finv fm'" "fm_export_id fm' = fm_export_id fm"
    and "r = Some fh \<Longrightarrow> fh \<in> table fops fm' \<and> fh_id fh = fid"
proof -
  have "table_inv A B fops finv fm' \<and> fm_export_id fm' = fm_export_id fm \<and>
    (\<forall>fh. r = Some fh \<longrightarrow> fh \<in> table fops fm' \<and> fh_id fh = fid)"
  proof (cases "fdb_get_by_id fops (fm_fhdb fm) fid")
    case None
    then show ?thesis using g I by (simp add: get_filehandle_by_id_def)
  next
    case (Some old)
    then have old: "old \<in> table fops fm" "fh_id old = fid"
      using table_get_by_id [OF I] by simp_all
    have wf: "fid \<in> A"
      using table_wf [OF I old(1)] old(2) by (auto simp: wf_fh_def)
    let ?fm1 = "fhdb_remove fops fm fid"
    note I1 = table_inv_remove [OF I, of fid]
    have rec: "table_inv A B fops finv (fhdb_replace fops ?fm1 (make_fh fs w fm q fid v)) \<and>
        make_fh fs w fm q fid v \<in> table fops (fhdb_replace fops ?fm1 (make_fh fs w fm q fid v))"
      if "find_by_inode_in_parent fs w fm old ino = Some q" for q v ino
      using I1 wf find_by_inode_path [OF vfs that]
      by (auto intro!: table_inv_replace replace_in_table)
    from g Some old I I1 rec show ?thesis
      by (auto simp: get_filehandle_by_id_def Let_def split: if_splits option.splits)
  qed
  then show "table_inv A B fops finv fm'" "fm_export_id fm' = fm_export_id fm"
    "r = Some fh \<Longrightarrow> fh \<in> table fops fm' \<and> fh_id fh = fid" by auto
qed

lemma get_filehandle_id_spec:
  assumes I: "table_inv A B fops finv fm" and g: "get_filehandle_id fs fops L w fm file = (fid, fm')"
  shows "table_inv A B fops finv fm'" "fm_export_id fm' = fm_export_id fm" "fid \<in> A"
proof -
  obtain ex fm1 where p: "get_filehandle_by_path fs fops L w fm (path_key file) = (ex, fm1)"
    by fastforce
  note s = get_filehandle_by_path_spec [OF I p]
  have "table_inv A B fops finv fm' \<and> fm_export_id fm' = fm_export_id fm \<and> fid \<in> A"
  proof (cases ex)
    case (Some fh)
    with s(3) [of fh] table_wf [OF I] have "wf_fh A B fh" by simp
    with g p Some s show ?thesis by (auto simp: get_filehandle_id_def wf_fh_def)
  next
    case None
    with g p s show ?thesis
      using table_inv_fresh [OF I] table_inv_volatile(1) [OF I]
      by (auto simp: get_filehandle_id_def table_inv_volatile(2) split: option.splits)
  qed
  then show "table_inv A B fops finv fm'" "fm_export_id fm' = fm_export_id fm" "fid \<in> A"
    by simp_all
qed

lemma get_filehandle_spec:
  assumes I: "table_inv A B fops finv fm" and vfs: "joins_in B fs" and nm: "(file, path_key file) \<in> B"
    and g: "get_filehandle fs fops L w fm file = (fh, fm')"
  shows "table_inv A B fops finv fm' \<and> fm_export_id fm' = fm_export_id fm \<and>
    fh \<in> table fops fm' \<and> fh_path fh = path_key file"
proof -
  obtain fid fm1 where 1: "get_filehandle_id fs fops L w fm file = (fid, fm1)" by fastforce
  note s1 = get_filehandle_id_spec [OF I 1]
  obtain found fm2 where 2: "get_filehandle_by_id fs fops L w fm1 fid = (found, fm2)" by fastforce
  note s2 = get_filehandle_by_id_spec [OF s1(1) vfs 2]
  have new: "table_inv A B fops finv (fhdb_replace fops fm3 (make_fh fs w fm3 file fid 0)) \<and>
      make_fh fs w fm3 file fid 0 \<in> table fops (fhdb_replace fops fm3 (make_fh fs w fm3 file fid 0))"
    if "table_inv A B fops finv fm3" "fm_export_id fm3 = fm_export_id fm" for fm3
    using that s1(3) nm by (auto intro!: table_inv_replace replace_in_table)
  show ?thesis
    using g 1 2 s1 s2 new [of fm2] new [of "fhdb_remove fops fm2 fid"] table_inv_remove [OF s2(1), of fid]
    by (auto simp: get_filehandle_def Let_def split: option.splits if_splits)
qed

text \<open>Each operation keeps the table invariant and the export id.\<close>

lemma keeps_upd:
  "table_inv A B fops finv (fm\<lparr>fm_cachedb := c\<rparr>) = table_inv A B fops finv fm"
  "table_inv A B fops finv (fm\<lparr>fm_delegations := d\<rparr>) = table_inv A B fops finv fm"
  "table_inv A B fops finv (fm\<lparr>fm_pending_deletes := p\<rparr>) = table_inv A B fops finv fm"
  "table_inv A B fops finv (fm\<lparr>fm_lockdb := l\<rparr>) = table_inv A B fops finv fm"
  "table_inv A B fops finv (fm\<lparr>fm_next_stateid_id := n\<rparr>) = table_inv A B fops finv fm"
  by (simp_all add: table_inv_def table_def)

lemma keepsI:
  "(table_inv A B fops finv fm \<Longrightarrow> table_inv A B fops finv fm' \<and> fm_export_id fm' = fm_export_id fm) \<Longrightarrow> keeps A B fops finv fm fm'"
  by (simp add: keeps_def)

lemma keeps_refl [simp]: "keeps A B fops finv fm fm" by (simp add: keeps_def)

lemma keeps_trans: "keeps A B fops finv fm1 fm2 \<Longrightarrow> keeps A B fops finv fm2 fm3 \<Longrightarrow> keeps A B fops finv fm1 fm3"
  by (simp add: keeps_def)

lemma keeps_touch:
  "wf_fh A B fh \<Longrightarrow> keeps A B fops finv fm (touch_filehandle fs fops w fm fh)"
  by (auto simp: touch_filehandle_def Let_def wf_fh_def intro!: keepsI table_inv_replace table_inv_remove
      dest: table_inv_key)

lemma keeps_update: "wf_fh A B fh \<Longrightarrow> keeps A B fops finv fm (update_filehandle fops fm fh)"
  by (auto simp: update_filehandle_def intro!: keepsI table_inv_replace table_inv_remove)

lemma keeps_remove: "keeps A B fops finv fm (fhdb_remove fops fm fid)"
  by (auto intro: keepsI table_inv_remove)

lemma keeps_touch_parent: "keeps A B fops finv fm (touch_parent fs fops L w fm path)"
proof (rule keepsI)
  assume I: "table_inv A B fops finv fm"
  obtain r fm1 where g: "get_filehandle_by_path fs fops L w fm (path_key (vfs_parent fs path)) = (r, fm1)"
    by fastforce
  note s = get_filehandle_by_path_spec [OF I g]
  show "table_inv A B fops finv (touch_parent fs fops L w fm path) \<and>
      fm_export_id (touch_parent fs fops L w fm path) = fm_export_id fm"
  proof (cases r)
    case (Some fh)
    with s(3) [of fh] table_wf [OF I] keeps_touch [of A B fh fm fs w] I g show ?thesis
      by (simp add: touch_parent_def keeps_def)
  qed (use s g in \<open>simp add: touch_parent_def\<close>)
qed

lemma keeps_create_file:
  assumes "joins_in B fs" "(path, path_key path) \<in> B" "create_file fs fops L w fm path = (r, w', fm')"
  shows "keeps A B fops finv fm fm'" "table_inv A B fops finv fm \<Longrightarrow> r = Some fh \<Longrightarrow> wf_fh A B fh"
proof -
  obtain ok w1 where c: "vfs_create_file fs w path = (ok, w1)" by fastforce
  obtain fh1 fm1 where g: "get_filehandle fs fops L w1 fm path = (fh1, fm1)" by fastforce
  have r: "if ok then r = Some fh1 \<and> fm' = touch_parent fs fops L w1 fm1 path else r = None \<and> fm' = fm"
    using assms(3) c g by (auto simp: create_file_def split: if_splits bool.splits)
  have k: "keeps A B fops finv fm fm1"
    using get_filehandle_spec [OF _ assms(1,2) g] by (auto intro: keepsI)
  show "keeps A B fops finv fm fm'"
    using r k keeps_trans [OF k keeps_touch_parent] by (auto split: if_splits)
  show "wf_fh A B fh" if "table_inv A B fops finv fm" "r = Some fh"
    using get_filehandle_spec [OF that(1) assms(1,2) g] that r table_wf [of A B fm1 fh1]
    by (auto split: if_splits)
qed

lemma keeps_rename:
  assumes "(new, path_key new) \<in> B"
  shows "keeps A B fops finv fm (handle_rename_path fs fops w fm old new)"
proof (rule keepsI)
  assume I: "table_inv A B fops finv fm"
  have "table_inv A B fops finv (fhdb_replace fops (fhdb_remove fops fm i)
      (make_fh fs w (fhdb_remove fops fm i) new i v))"
    if "fh \<in> table fops fm" "fh_id fh = i" for fh v i
    using table_wf [OF I that(1)] assms I that(2)
    by (auto intro!: table_inv_replace table_inv_remove simp: wf_fh_def)
  then show "table_inv A B fops finv (handle_rename_path fs fops w fm old new) \<and>
      fm_export_id (handle_rename_path fs fops w fm old new) = fm_export_id fm"
    using I table_get_by_path [OF I] table_get_by_id [OF I]
    by (auto simp: handle_rename_path_def Let_def split: option.split)
qed

lemma keeps_get_cache:
  assumes "wf_fh A B fh" "get_cache_handle fs fops chan w fm fh = (r, w', fm')"
  shows "keeps A B fops finv fm fm'"
proof (rule keepsI)
  assume I: "table_inv A B fops finv fm"
  then show "table_inv A B fops finv fm' \<and> fm_export_id fm' = fm_export_id fm"
    using assms keeps_update [of A B "fh\<lparr>fh_write_cache := Some chan\<rparr>" "fm\<lparr>fm_cachedb := (fm_cachedb fm)(fh_id fh \<mapsto> chan)\<rparr>"]
    by (auto simp: get_cache_handle_def Let_def keeps_def keeps_upd split: option.splits prod.splits)
qed

lemma keeps_by_id:
  assumes "joins_in B fs" "get_filehandle_by_id fs fops L w fm fid = (r, fm')"
  shows "keeps A B fops finv fm fm'" "table_inv A B fops finv fm \<Longrightarrow> r = Some fh \<Longrightarrow> wf_fh A B fh"
  using get_filehandle_by_id_spec [OF _ assms] table_wf [of A B fm'] by (auto intro: keepsI)

lemma keeps_drop_cache:
  assumes "joins_in B fs"
  shows "keeps A B fops finv fm (drop_cache_handle fs fops L w fm fid)"
proof (rule keepsI)
  assume I: "table_inv A B fops finv fm"
  let ?fm = "fm\<lparr>fm_cachedb := (fm_cachedb fm)(fid := None)\<rparr>"
  obtain r fm1 where g: "get_filehandle_by_id fs fops L w ?fm fid = (r, fm1)" by fastforce
  note k = keeps_by_id [OF assms g]
  show "table_inv A B fops finv (drop_cache_handle fs fops L w fm fid) \<and>
      fm_export_id (drop_cache_handle fs fops L w fm fid) = fm_export_id fm"
    using I k g keeps_update [of A B "(the r)\<lparr>fh_write_cache := None\<rparr>" fm1]
    by (cases r) (auto simp: drop_cache_handle_def keeps_def keeps_upd Let_def)
qed

lemma keeps_forget:
  assumes "joins_in B fs"
  shows "keeps A B fops finv fm (forget_file fs fops L w fm fid)"
  using keeps_drop_cache [OF assms, of A fm L w fid]
  by (auto simp: forget_file_def Let_def keeps_def keeps_upd intro!: table_inv_remove)

lemma keeps_silly_rename:
  assumes "joins_in B fs" "wf_fh A B fh" "silly_rename fs fops w fm path fh = (r, w', fm')"
  shows "keeps A B fops finv fm fm'"
proof (rule keepsI)
  assume I: "table_inv A B fops finv fm"
  let ?fm = "\<lambda>p. fhdb_remove fops (fm\<lparr>fm_pending_deletes := p\<rparr>) (fh_id fh)"
  have "table_inv A B fops finv (fhdb_replace fops (?fm p) (make_fh fs w2 (?fm p) q (fh_id fh) v))"
    if "vfs_join fs (vfs_parent fs path) (silly_name fh) = Some q" for p q v w2
    using I assms(1,2) that
    by (auto intro!: table_inv_replace table_inv_remove simp: wf_fh_def keeps_upd joins_in_def)
  then show "table_inv A B fops finv fm' \<and> fm_export_id fm' = fm_export_id fm"
    using assms(3) I
    by (auto simp: silly_rename_def Let_def split: option.splits prod.splits bool.splits)
qed

lemma keeps_remove_object:
  assumes "joins_in B fs" "opened \<Longrightarrow> \<exists>fh. fho = Some fh \<and> wf_fh A B fh"
    and "remove_object fs fops w fm path fho opened = (r, w', fm')"
  shows "keeps A B fops finv fm fm'"
  using assms keeps_silly_rename [OF assms(1), of A "the fho" w fm path r w' fm']
  by (auto simp: remove_object_def Let_def split: if_splits prod.splits option.splits)

lemma keeps_remove_file:
  assumes vfs: "joins_in B fs" and r: "remove_file fs fops L w fm path = (r, w', fm')"
  shows "keeps A B fops finv fm fm'"
proof (rule keepsI)
  assume I: "table_inv A B fops finv fm"
  obtain fho fm1 where 1: "get_filehandle_by_path fs fops L w fm path = (fho, fm1)" by fastforce
  note s1 = get_filehandle_by_path_spec [OF I 1]
  define opened where "opened = (case fho of Some fh \<Rightarrow> has_locks L fm1 (fh_id fh) | None \<Rightarrow> False)"
  obtain res w2 fm2 where 2: "remove_object fs fops w fm1 path fho opened = (res, w2, fm2)"
    using prod_cases3 by blast
  have "opened \<Longrightarrow> \<exists>fh. fho = Some fh \<and> wf_fh A B fh"
    using s1 table_wf [OF I] by (auto simp: opened_def split: option.splits)
  from keeps_remove_object [OF vfs this 2] s1 have k2: "keeps A B fops finv fm fm2" by (simp add: keeps_def)
  have k3: "keeps A B fops finv fm2 (forget_removed fs fops L w2 fm2 fid)" for fid
    unfolding forget_removed_def Let_def
    by (rule keeps_trans [OF _ keeps_forget [OF vfs]]) (simp add: keeps_def keeps_upd)
  have "fm' \<in> {fm2, touch_parent fs fops L w2 fm2 path} \<union>
      (\<lambda>fid. touch_parent fs fops L w2 (forget_removed fs fops L w2 fm2 fid) path) ` UNIV"
    using r by (auto simp: remove_file_def Let_def 1 2 opened_def [symmetric] split: sum.splits option.splits if_splits)
  then have "keeps A B fops finv fm fm'"
    using k2 keeps_trans [OF k2 keeps_touch_parent] keeps_trans [OF k2 keeps_trans [OF k3 keeps_touch_parent]]
    by auto
  with I show "table_inv A B fops finv fm' \<and> fm_export_id fm' = fm_export_id fm" by (simp add: keeps_def)
qed

lemma keeps_sweep_ids:
  assumes "joins_in B fs"
  shows "sweep_ids fs fops L fids w fm = (w', fm') \<Longrightarrow> keeps A B fops finv fm fm'"
proof (induction fids arbitrary: w fm)
  case (Cons fid fids)
  let ?fm = "fm\<lparr>fm_pending_deletes := removeAll fid (fm_pending_deletes fm)\<rparr>"
  have pre: "keeps A B fops finv fm ?fm" by (simp add: keeps_def keeps_upd)
  have "keeps A B fops finv fm (forget_file fs fops L w1 ?fm fid)" for w1
    using keeps_trans [OF pre keeps_forget [OF assms]] .
  with Cons show ?case
    by (auto simp: Let_def split: option.splits prod.splits intro: keeps_trans [OF pre] keeps_trans)
qed simp

lemma keeps_filehandle_attrs:
  assumes vfs: "joins_in B fs" and "filehandle_attrs fs fops L w fm req fid = (r, fm')"
  shows "keeps A B fops finv fm fm'"
proof (rule keepsI)
  assume I: "table_inv A B fops finv fm"
  obtain found fm1 where g: "get_filehandle_by_id fs fops L w fm fid = (found, fm1)" by fastforce
  note s = get_filehandle_by_id_spec [OF I vfs g]
  have "table_inv A B fops finv (fhdb_replace fops (fhdb_remove fops fm1 (fh_id fh))
      (new_real (fh_file fh) (fh_id fh) a b v m))" if "found = Some fh" for fh a b v m
    using s that table_wf [of A B fm1 fh]
    by (auto intro!: table_inv_replace table_inv_remove simp: wf_fh_def dest: table_inv_key)
  then show "table_inv A B fops finv fm' \<and> fm_export_id fm' = fm_export_id fm"
    using assms(2) s g by (auto simp: filehandle_attrs_def Let_def split: option.splits)
qed

lemma keeps_get_filehandle:
  assumes "joins_in B fs" "(p, path_key p) \<in> B" "get_filehandle fs fops L w fm p = (r, fm')"
  shows "keeps A B fops finv fm fm'"
  using get_filehandle_spec [OF _ assms] by (auto intro: keepsI)

lemma keeps_root_fh:
  assumes "joins_in B fs" "root_fh fs fops L w fm = (r, fm')"
  shows "keeps A B fops finv fm fm'"
proof (rule keepsI)
  assume I: "table_inv A B fops finv fm"
  then have "(fm_root fm, path_key (fm_root fm)) \<in> B" by (simp add: table_inv_def)
  from get_filehandle_spec [OF I assms(1) this assms(2) [unfolded root_fh_def]]
  show "table_inv A B fops finv fm' \<and> fm_export_id fm' = fm_export_id fm" by simp
qed

lemma keeps_handle_get_filehandle:
  assumes "joins_in B fs" "handle_get_filehandle fs fops L w fm p fid = (r, fm')"
  shows "keeps A B fops finv fm fm'"
  using assms(2)
  by (auto simp: handle_get_filehandle_def split: option.splits prod.splits if_splits
      intro: keeps_by_id(1) [OF assms(1)] keeps_root_fh [OF assms(1)]
        keeps_get_filehandle [OF assms(1) joins_inD [OF assms(1)]])

lemma keeps_open_named_attr_dir:
  assumes "joins_in B fs" "open_named_attr_dir fs fops L w fm i c = (r, w', fm')"
  shows "keeps A B fops finv fm fm'"
  using assms(2)
  by (auto simp: open_named_attr_dir_def Let_def split: option.splits prod.splits if_splits
      intro: keeps_get_filehandle [OF assms(1) joins_inD [OF assms(1)]])

lemma keeps_lock_changes:
  "handle_lock L fm i c ow t s n = Some (lr, fm') \<Longrightarrow> keeps A B fops finv fm fm'"
  "handle_unlock L fm sid s n = (ur, fm') \<Longrightarrow> keeps A B fops finv fm fm'"
  "handle_release_lock_owner L fm c ow = (st, fm') \<Longrightarrow> keeps A B fops finv fm fm'"
  "keeps A B fops finv fm (handle_close L fm sid)"
  "add_open_state L fm i c ow a d = Some (l, fm') \<Longrightarrow> keeps A B fops finv fm fm'"
  "grant_delegation fm i c wr = (so, fm') \<Longrightarrow> keeps A B fops finv fm fm'"
  "return_delegation fm i sid4 = (st, fm') \<Longrightarrow> keeps A B fops finv fm fm'"
  by (auto simp: handle_lock_def handle_unlock_def handle_release_lock_owner_def handle_close_def
      add_open_state_def get_new_lockingstate_id_def grant_delegation_def return_delegation_def
      make_stateid_def Let_def keeps_def keeps_upd split: option.splits if_splits)

lemma keeps_touch_file:
  assumes "joins_in B fs"
  shows "keeps A B fops finv fm (handle_touch_file fs fops L w fm fid)"
proof (rule keepsI)
  assume I: "table_inv A B fops finv fm"
  obtain r fm1 where g: "get_filehandle_by_id fs fops L w fm fid = (r, fm1)" by fastforce
  show "table_inv A B fops finv (handle_touch_file fs fops L w fm fid) \<and>
      fm_export_id (handle_touch_file fs fops L w fm fid) = fm_export_id fm"
    using I g keeps_by_id [OF assms g] keeps_touch [of A B "the r" fm1 fs w]
    by (cases r) (auto simp: handle_touch_file_def keeps_def)
qed

lemma keeps_create_messages:
  assumes "joins_in B fs" "(p, path_key p) \<in> B"
  shows "handle_create_file fs fops L w fm p c ow a d = Some (r, w', fm') \<Longrightarrow> keeps A B fops finv fm fm'"
    and "handle_create_open_state fs fops L w fm p c ow a d = Some (l, fm') \<Longrightarrow> keeps A B fops finv fm fm'"
proof -
  assume *: "handle_create_file fs fops L w fm p c ow a d = Some (r, w', fm')"
  obtain fho w1 fm1 where c: "create_file fs fops L w fm p = (fho, w1, fm1)" using prod_cases3 by blast
  show "keeps A B fops finv fm fm'"
    using * keeps_create_file(1) [OF assms c]
    by (auto simp: handle_create_file_def c split: option.splits intro: keeps_trans keeps_lock_changes(5))
next
  assume *: "handle_create_open_state fs fops L w fm p c ow a d = Some (l, fm')"
  obtain fh fm1 where c: "get_filehandle fs fops L w fm p = (fh, fm1)" by fastforce
  show "keeps A B fops finv fm fm'"
    using * keeps_get_filehandle [OF assms c]
    by (auto simp: handle_create_open_state_def c intro: keeps_trans keeps_lock_changes(5))
qed

end

section \<open>Messages\<close>

text \<open>The handles and paths a message brings with it.\<close>

definition msg_wf :: "nfs_fh4 set \<Rightarrow> (string \<times> string) set \<Rightarrow> file_manager_message \<Rightarrow> bool" where
  "msg_wf A B msg = (case msg of
      UpdateFilehandle fh \<Rightarrow> wf_fh A B fh
    | GetWriteCacheHandle fh \<Rightarrow> wf_fh A B fh
    | CreateFile p _ _ _ _ _ \<Rightarrow> (p, path_key p) \<in> B
    | CreateOpenState p _ _ _ _ \<Rightarrow> (p, path_key p) \<in> B
    | RenamePath _ _ p \<Rightarrow> (p, path_key p) \<in> B
    | _ \<Rightarrow> True)"

definition brought :: "file_manager_message \<Rightarrow> filehandle set" where
  "brought msg = (case msg of UpdateFilehandle fh \<Rightarrow> {fh} | GetWriteCacheHandle fh \<Rightarrow> {fh} | _ \<Rightarrow> {})"

context fh_db
begin

lemma keeps_handle_message:
  assumes "joins_in B fs" "msg_wf A B msg"
    and "handle_message fs fops L chan w fm msg = Some (r, w', fm')"
  shows "keeps A B fops finv fm fm'"
  using assms
  by (cases msg)
    (auto simp: handle_message_def msg_wf_def
      intro: keeps_root_fh keeps_handle_get_filehandle keeps_filehandle_attrs keeps_create_messages
        keeps_remove_file keeps_touch_file keeps_update keeps_rename keeps_lock_changes
        keeps_open_named_attr_dir keeps_get_cache keeps_drop_cache split: prod.splits)

text \<open>A registered path that exists is answered from the table.\<close>

lemma get_filehandle_hit:
  assumes I: "table_inv A keyed fops finv fm" and fh: "fh \<in> table fops fm" "fh_path fh = path_key p"
    and p: "p \<noteq> ''/''" "path_exists fs w fm p"
  shows "get_filehandle fs fops L w fm p = (fh, fm)"
proof -
  have "wf_fh A keyed fh" by (rule table_wf [OF I fh(1)])
  then have ff: "fh_file fh = p"
    using fh(2) p(1) path_key_inject [of "fh_file fh" p] by (simp add: wf_fh_def)
  have "get_filehandle_id fs fops L w fm p = (fh_id fh, fm)"
    using table_get_by_path [OF I, of "path_key p" fh] fh p
    by (simp add: get_filehandle_id_def get_filehandle_by_path_def ff)
  moreover have "get_filehandle_by_id fs fops L w fm (fh_id fh) = (Some fh, fm)"
    using table_get_by_id [OF I, of "fh_id fh" fh] fh p
    by (simp add: get_filehandle_by_id_def ff)
  ultimately show ?thesis using fh(2) by (simp add: get_filehandle_def)
qed

lemma rename_table:
  fixes fs :: "'w fs_ops" and w :: 'w and new :: string
  assumes I: "table_inv A B fops finv fm" and fh: "fh \<in> table fops fm" "fh_path fh = old"
  defines "fh' \<equiv> make_fh fs w fm new (fh_id fh) (fh_version fh + 1)"
  shows "table fops (handle_rename_path fs fops w fm old new) =
    insert fh' {x \<in> table fops fm. fh_id x \<noteq> fh_id fh \<and> fh_path x \<noteq> path_key new}"
proof -
  have fin: "finv (fm_fhdb fm)" using I by (simp add: table_inv_def)
  have mk: "make_fh fs w (fhdb_remove fops fm i) new i v = make_fh fs w fm new i v" for i v
    by (simp add: make_fh_def fhdb_remove_def real_path_def split: option.split)
  have "fdb_get_by_path fops (fm_fhdb fm) old = Some fh"
    using table_get_by_path [OF I] fh by simp
  then have "handle_rename_path fs fops w fm old new =
      fhdb_replace fops (fhdb_remove fops fm (fh_id fh)) fh'"
    by (simp add: handle_rename_path_def mk fh'_def Let_def)
  then show ?thesis
    using fhdb_replace_spec(2) [OF fhdb_remove_spec(1) [OF fin], of "fh_id fh" fh'] fhdb_remove_spec(2) [OF fin]
    by (auto simp: fh'_def)
qed

lemma table_inv_new:
  assumes "joins_in B fs" and "home (case fsid of Some f \<Rightarrow> ucast f | None \<Rightarrow> 0) \<subseteq> A"
    and "(root, path_key root) \<in> B" and "\<And>f p. (f, p) \<in> B \<Longrightarrow> (f, path_key f) \<in> B"
  shows "table_inv A B fops finv (file_manager_new fs fops L w root fsid er)"
    and "fm_export_id (file_manager_new fs fops L w root fsid er) = (case fsid of Some f \<Rightarrow> ucast f | None \<Rightarrow> 0)"
proof -
  have "table_inv A B fops finv (snd (root_fh fs fops L w fm)) \<and> fm_export_id (snd (root_fh fs fops L w fm)) = fm_export_id fm"
    if "table_inv A B fops finv fm" for fm
    using keeps_root_fh [OF assms(1), of L w fm "fst (root_fh fs fops L w fm)" "snd (root_fh fs fops L w fm)"] that
    by (simp add: keeps_def)
  moreover have "\<exists>fm0. file_manager_new fs fops L w root fsid er = snd (root_fh fs fops L w fm0) \<and>
      table_inv A B fops finv fm0 \<and> fm_export_id fm0 = (case fsid of Some f \<Rightarrow> ucast f | None \<Rightarrow> 0)"
    unfolding file_manager_new_def Let_def
    by (intro exI conjI, rule refl)
      (use assms(2-4) in \<open>simp_all add: table_inv_def table_def ix.inv_empty ix.iter_empty\<close>)
  ultimately show "table_inv A B fops finv (file_manager_new fs fops L w root fsid er)"
    and "fm_export_id (file_manager_new fs fops L w root fsid er) = (case fsid of Some f \<Rightarrow> ucast f | None \<Rightarrow> 0)"
    by auto
qed

end

section \<open>Deferred deletes\<close>

definition pending :: "('f, 'l) file_manager \<Rightarrow> nfs_fh4 set" where
  "pending fm = set (fm_pending_deletes fm)"

lemma pending_frame [simp]:
  "pending (fhdb_replace F fm fh) = pending fm" "pending (fhdb_remove F fm fid) = pending fm"
  "pending (update_filehandle F fm fh) = pending fm"
  by (simp_all add: pending_def fhdb_replace_def fhdb_remove_def update_filehandle_def Let_def)

lemma pending_by_id:
  "get_filehandle_by_id fs F L w fm fid = (r, fm') \<Longrightarrow> pending fm' = pending fm"
  by (auto simp: get_filehandle_by_id_def Let_def split: option.splits if_splits)

lemma pending_forget [simp]: "pending (forget_file fs F L w fm fid) = pending fm"
proof -
  let ?fm = "fm\<lparr>fm_cachedb := (fm_cachedb fm)(fid := None)\<rparr>"
  obtain r fm1 where g: "get_filehandle_by_id fs F L w ?fm fid = (r, fm1)" by fastforce
  have "pending ?fm = pending fm" by (simp add: pending_def)
  then have "pending (drop_cache_handle fs F L w fm fid) = pending fm"
    using pending_by_id [OF g] g by (cases r) (simp_all add: drop_cache_handle_def)
  then show ?thesis by (simp add: forget_file_def Let_def) (simp add: pending_def)
qed

lemma pending_sweep_ids:
  "sweep_ids fs F L fids w fm = (w', fm') \<Longrightarrow> pending fm' = pending fm - set fids"
proof (induction fids arbitrary: w fm)
  case (Cons fid fids)
  let ?fm = "fm\<lparr>fm_pending_deletes := removeAll fid (fm_pending_deletes fm)\<rparr>"
  have pre: "pending ?fm = pending fm - {fid}" by (simp add: pending_def)
  show ?case
  proof (cases "fdb_get_by_id F (fm_fhdb ?fm) fid")
    case None
    with Cons.prems have "sweep_ids fs F L fids w ?fm = (w', fm')" by simp
    from Cons.IH [OF this] show ?thesis by (auto simp: pre)
  next
    case (Some fh)
    obtain ok w1 where "vfs_remove_file fs w (fh_file fh) = (ok, w1)" by fastforce
    with Some Cons.prems have "sweep_ids fs F L fids w1 (forget_file fs F L w1 ?fm fid) = (w', fm')" by simp
    from Cons.IH [OF this] show ?thesis by (auto simp: pre)
  qed
qed simp

context fh_db
begin

lemma touch_parent_other:
  assumes I: "table_inv A keyed fops finv fm" and x: "x \<in> table fops fm" "fh_path x \<noteq> path_key (vfs_parent fs path)"
  shows "x \<in> table fops (touch_parent fs fops L w fm path)"
proof -
  let ?p = "path_key (vfs_parent fs path)"
  have fin: "finv (fm_fhdb fm)" using I by (simp add: table_inv_def)
  have id_ne: "fh_id x \<noteq> fh_id y" if "y \<in> table fops fm" "fh_path y = ?p" for y
    using ix.key_inj [OF fin] x that by (auto simp: inj_on_def table_def)
  show ?thesis
  proof (cases "fdb_get_by_path fops (fm_fhdb fm) ?p")
    case None
    then show ?thesis using x by (simp add: touch_parent_def get_filehandle_by_path_def)
  next
    case (Some y)
    then have y: "y \<in> table fops fm" "fh_path y = ?p" using table_get_by_path [OF I] by simp_all
    have "wf_fh A keyed y" by (rule table_wf [OF I y(1)])
    then have "path_key (fh_file y) = ?p" using y by (simp add: wf_fh_def)
    then have "x \<in> table fops (touch_filehandle fs fops w fm y)"
      using x id_ne [OF y] by (simp add: touch_filehandle_def Let_def fhdb_replace_spec fhdb_remove_spec fin)
    then show ?thesis
      using Some x id_ne [OF y]
      by (simp add: touch_parent_def get_filehandle_by_path_def fhdb_remove_spec fin)
  qed
qed

lemma silly_rename_spec:
  assumes I: "table_inv A B fops finv fm" and "joins_in B fs" and "wf_fh A B fh"
    and q: "vfs_join fs (vfs_parent fs path) (silly_name fh) = Some q"
    and mv: "vfs_move_file fs w path q = (True, w1)"
  shows "\<exists>fm'. silly_rename fs fops w fm path fh = (Inr (), w1, fm') \<and> table_inv A B fops finv fm' \<and>
    pending fm' = insert (fh_id fh) (pending fm) \<and>
    (\<exists>fh' \<in> table fops fm'. fh_id fh' = fh_id fh \<and> fh_file fh' = q)"
proof -
  obtain r w2 fm' where s: "silly_rename fs fops w fm path fh = (r, w2, fm')" using prod_cases3 by blast
  let ?fm0 = "fm\<lparr>fm_pending_deletes := List.insert (fh_id fh) (fm_pending_deletes fm)\<rparr>"
  let ?fm1 = "fhdb_remove fops ?fm0 (fh_id fh)"
  let ?fh = "make_fh fs w1 ?fm1 q (fh_id fh) (fh_version fh + 1)"
  have fm': "fm' = fhdb_replace fops ?fm1 ?fh" and r: "r = Inr ()" "w2 = w1"
    using s by (auto simp: silly_rename_def q mv Let_def)
  have "table_inv A B fops finv fm'"
    using keeps_silly_rename [OF assms(2,3) s] I by (simp add: keeps_def)
  moreover have "?fh \<in> table fops fm'"
    unfolding fm' using I by (intro replace_in_table table_inv_remove) (simp add: keeps_upd)
  moreover have "pending fm' = insert (fh_id fh) (pending fm)"
  proof -
    have "pending ?fm0 = insert (fh_id fh) (pending fm)" by (simp add: pending_def)
    then show ?thesis by (simp add: fm')
  qed
  ultimately show ?thesis using s r by (intro exI [of _ fm']) (auto intro: bexI [of _ ?fh])
qed

lemma pending_touch_parent [simp]: "pending (touch_parent fs fops L w fm path) = pending fm"
  by (auto simp: touch_parent_def get_filehandle_by_path_def touch_filehandle_def Let_def split: option.split)

lemma remove_open_file:
  assumes I: "table_inv A keyed fops finv fm" and vfs: "joins_in keyed fs"
    and fh: "fh \<in> table fops fm" "fh_path fh = path" "has_locks L fm (fh_id fh)"
    and reg: "\<not> vfs_is_dir fs w path"
    and q: "vfs_join fs (vfs_parent fs path) (silly_name fh) = Some q" "path_key q \<noteq> path_key (vfs_parent fs path)"
    and mv: "vfs_move_file fs w path q = (True, w1)"
  shows "\<exists>ci fm'. remove_file fs fops L w fm path = (Inr ci, w1, fm') \<and>
    lock_part fm' = lock_part fm \<and> fh_id fh \<in> pending fm' \<and>
    (\<exists>fh' \<in> table fops fm'. fh_id fh' = fh_id fh \<and> fh_file fh' = q)"
proof -
  have get: "get_filehandle_by_path fs fops L w fm path = (Some fh, fm)"
    using table_get_by_path [OF I, of path fh] fh by (simp add: get_filehandle_by_path_def)
  from silly_rename_spec [OF I vfs table_wf [OF I fh(1)] q(1) mv] obtain fm1 fh' where
    s: "silly_rename fs fops w fm path fh = (Inr (), w1, fm1)" "table_inv A keyed fops finv fm1"
      "pending fm1 = insert (fh_id fh) (pending fm)"
      "fh' \<in> table fops fm1" "fh_id fh' = fh_id fh" "fh_file fh' = q" by blast
  have "fh_path fh' = path_key q" using table_wf [OF s(2,4)] s(6) by (simp add: wf_fh_def)
  then have "fh' \<in> table fops (touch_parent fs fops L w1 fm1 path)"
    using touch_parent_other [OF s(2,4)] q(2) by simp
  moreover have "lock_part fm1 = lock_part fm" by (rule lock_part_silly_rename [OF s(1)])
  ultimately show ?thesis
    using s(3,5,6) by (auto simp: remove_file_def get Let_def fh(3) remove_object_def reg s(1))
qed

lemma remove_open_file_failed:
  assumes I: "table_inv A keyed fops finv fm"
    and fh: "fh \<in> table fops fm" "fh_path fh = path" "has_locks L fm (fh_id fh)"
    and reg: "\<not> vfs_is_dir fs w path"
    and failed: "case vfs_join fs (vfs_parent fs path) (silly_name fh) of
      None \<Rightarrow> w1 = w | Some q \<Rightarrow> vfs_move_file fs w path q = (False, w1)"
  shows "\<exists>r fm'. remove_file fs fops L w fm path = (r, snd (vfs_remove_file_result fs w1 path), fm') \<and>
    (isl r \<longleftrightarrow> isl (fst (vfs_remove_file_result fs w1 path))) \<and> lock_part fm' = lock_part fm \<and> pending fm' = pending fm"
proof -
  have get: "get_filehandle_by_path fs fops L w fm path = (Some fh, fm)"
    using table_get_by_path [OF I, of path fh] fh by (simp add: get_filehandle_by_path_def)
  have "silly_rename fs fops w fm path fh =
      (fst (vfs_remove_file_result fs w1 path), snd (vfs_remove_file_result fs w1 path), fm)"
    using failed by (auto simp: silly_rename_def case_prod_beta split: option.splits)
  then have "remove_object fs fops w fm path (Some fh) True =
      (fst (vfs_remove_file_result fs w1 path), snd (vfs_remove_file_result fs w1 path), fm)"
    by (simp add: remove_object_def reg)
  then show ?thesis
    by (cases "fst (vfs_remove_file_result fs w1 path)")
      (auto simp: remove_file_def get Let_def fh(3))
qed

end

section \<open>Properties\<close>

text \<open>
  \<open>fhdb_replace\<close> always registers the handle: afterwards both lookups return it, every
  other handle with a different id and path is still there, and nothing else is in the table;
  the insertion the code guards with an error log cannot fail.
\<close>

lemma fhdb_replace_registers:
  assumes "fh_db F finv" and "finv (fm_fhdb fm)"
  shows "finv (fm_fhdb (fhdb_replace F fm fh)) \<and>
    fdb_get_by_id F (fm_fhdb (fhdb_replace F fm fh)) (fh_id fh) = Some fh \<and>
    fdb_get_by_path F (fm_fhdb (fhdb_replace F fm fh)) (fh_path fh) = Some fh \<and>
    table F (fhdb_replace F fm fh) =
      insert fh {x \<in> table F fm. fh_id x \<noteq> fh_id fh \<and> fh_path x \<noteq> fh_path fh}"
proof -
  note s = fh_db.fhdb_replace_spec [OF assms, of fh]
  have u: "unique_index finv (fdb_iter F) (fdb_default F) (fdb_try_insert F) fh_clash fh_id
      (fdb_get_by_id F) (fdb_remove_by_id F)"
    "unique_index finv (fdb_iter F) (fdb_default F) (fdb_try_insert F) fh_clash fh_path
      (fdb_get_by_path F) (fdb_remove_by_path F)"
    using assms(1) by (simp_all add: fh_db_def)
  have "fh \<in> set (fdb_iter F (fm_fhdb (fhdb_replace F fm fh)))" using s(2) by (simp add: table_def)
  then show ?thesis
    using s unique_index.get_by_Some [OF u(1) s(1)] unique_index.get_by_Some [OF u(2) s(1)] by simp
qed

lemma fhdb_replace_registers_example:
  "fdb_get_by_path list_fh_db
     (fm_fhdb (fhdb_replace list_fh_db (ex_fm0\<lparr>fm_fhdb := []\<rparr>) (pseudo_root_filehandle mem_fs mem_empty ex_fh))) ''/''
    = Some (pseudo_root_filehandle mem_fs mem_empty ex_fh)"
  using fhdb_replace_registers [OF lfdb.fh_db_axioms, of "ex_fm0\<lparr>fm_fhdb := []\<rparr>" "pseudo_root_filehandle mem_fs mem_empty ex_fh"]
  by (simp add: list_clash_free_def) (simp add: pseudo_root_filehandle_def Let_def)

text \<open>
  A run of the actor in which all handles that messages bring with them are in \<open>X\<close>; nothing else
  is asked of the messages, and each step may see a different world.
\<close>

inductive fm_run_with ::
  "'w fs_ops \<Rightarrow> 'f fh_db_ops \<Rightarrow> 'l lock_db_ops \<Rightarrow> filehandle set \<Rightarrow> ('f, 'l) file_manager \<Rightarrow> ('f, 'l) file_manager \<Rightarrow> bool"
  for fs F L X fm where
  start: "fm_run_with fs F L X fm fm"
| message: "fm_run_with fs F L X fm fm1 \<Longrightarrow> brought msg \<subseteq> X \<Longrightarrow>
    handle_message fs F L chan w fm1 msg = Some (r, w', fm2) \<Longrightarrow> fm_run_with fs F L X fm fm2"
| sweep: "fm_run_with fs F L X fm fm1 \<Longrightarrow> sweep_pending_deletes fs F L w fm1 = (w', fm2) \<Longrightarrow>
    fm_run_with fs F L X fm fm2"

text \<open>The ids and the paths such a run can lead to.\<close>

definition ids_with :: "u8 \<Rightarrow> filehandle set \<Rightarrow> nfs_fh4 set" where
  "ids_with e X = home e \<union> fh_id ` X"

definition paths_with :: "filehandle set \<Rightarrow> (string \<times> string) set" where
  "paths_with X = {(f, p). p = path_key f} \<union> (\<lambda>x. (fh_file x, fh_path x)) ` X"

lemma paths_with_key [simp]: "(f, path_key f) \<in> paths_with X"
  by (simp add: paths_with_def)

lemma joins_in_paths_with [simp]: "joins_in (paths_with X) fs"
  by (simp add: joins_in_def)

lemma msg_wf_brought: "brought msg \<subseteq> X \<Longrightarrow> msg_wf (ids_with e X) (paths_with X) msg"
  by (cases msg) (auto simp: msg_wf_def brought_def wf_fh_def ids_with_def paths_with_def)

lemma table_inv_with_new:
  assumes "fh_db F finv"
  shows "table_inv (ids_with (case fsid of Some f \<Rightarrow> ucast f | None \<Rightarrow> 0) X) (paths_with X) F finv
    (file_manager_new fs F L w root fsid er)"
  by (rule fh_db.table_inv_new [OF assms]) (simp_all add: ids_with_def)

lemma fm_run_with_keeps:
  assumes "fh_db F finv" "fm_run_with fs F L X fm fm'"
  shows "keeps (ids_with e X) (paths_with X) F finv fm fm'"
  using assms(2)
proof induction
  case start
  then show ?case by (simp add: keeps_def)
next
  case (message fm1 msg chan w r w' fm2)
  from fh_db.keeps_handle_message [OF assms(1) joins_in_paths_with msg_wf_brought [OF message(2)] message(3)]
  show ?case by (rule fh_db.keeps_trans [OF assms(1) message(4)])
next
  case (sweep fm1 w w' fm2)
  from fh_db.keeps_sweep_ids [OF assms(1) joins_in_paths_with sweep(2) [unfolded sweep_pending_deletes_def]]
  show ?case by (rule fh_db.keeps_trans [OF assms(1) sweep(3)])
qed

text \<open>
  C8: handle routing. Let an export's file manager handle any messages whatever, and let \<open>X\<close> be the
  handles that its messages UpdateFilehandle and GetWriteCacheHandle bring with them. Every
  handle in the table has an id this export made (26 bytes, with the export's id in the byte PUTFH
  routes by) or the id of a handle in \<open>X\<close>: the file manager itself never makes a handle that is
  routed to another export. Every handle is registered under the path of its file, or has file and
  path of a handle in \<open>X\<close>. Ids and paths identify a handle.
\<close>

theorem reachable_handles_route_home:
  assumes "fh_db F finv"
    and "fm_run_with fs F L X (file_manager_new fs F L w root fsid export_root) fm"
  shows "(\<forall>fh \<in> table F fm. fh_id fh \<in> fh_id ` X \<or>
      export_id_from_fh (fh_id fh) = (case fsid of Some f \<Rightarrow> ucast f | None \<Rightarrow> 0) \<and> length (fh_id fh) = 26) \<and>
    (\<forall>fh \<in> table F fm. fh_path fh = path_key (fh_file fh) \<or>
      (\<exists>x \<in> X. fh_file x = fh_file fh \<and> fh_path x = fh_path fh)) \<and>
    inj_on fh_id (table F fm) \<and> inj_on fh_path (table F fm)"
proof -
  let ?e = "case fsid of Some f \<Rightarrow> ucast f | None \<Rightarrow> 0"
  have I: "table_inv (ids_with ?e X) (paths_with X) F finv fm"
    using fm_run_with_keeps [OF assms, of ?e] table_inv_with_new [OF assms(1), of fsid X fs L w root export_root]
    by (simp add: keeps_def)
  then have fin: "finv (fm_fhdb fm)" by (simp add: table_inv_def)
  have "inj_on fh_id (table F fm) \<and> inj_on fh_path (table F fm)"
    using assms(1) unfolding fh_db_def table_def
    by (auto intro: unique_index.key_inj fin)
  moreover have "wf_fh (ids_with ?e X) (paths_with X) fh" if "fh \<in> table F fm" for fh
    using I that by (simp add: table_inv_def)
  ultimately show ?thesis
    by (fastforce simp: wf_fh_def ids_with_def paths_with_def home_def)
qed

context fh_db
begin

lemma root_fh_in_table:
  assumes "table_inv A B fops finv fm" "joins_in B fs" "root_fh fs fops L w fm = (fh, fm')"
  shows "fh \<in> table fops fm'"
proof -
  have "(fm_root fm, path_key (fm_root fm)) \<in> B" using assms(1) by (simp add: table_inv_def)
  from get_filehandle_spec [OF assms(1,2) this assms(3) [unfolded root_fh_def]] show ?thesis by simp
qed

end

lemma mem_fs_paths_ok: "vfs_paths_ok mem_fs"
  by (auto simp: vfs_paths_ok_def mem_fs_def append_eq_Cons_conv split: if_splits)

text \<open>Example: the state after a handle with the example id is registered.\<close>

definition ex_handle :: filehandle where
  "ex_handle = new_real ''/a'' ex_fh 3 3 0 (mem_meta 2 0x81A4)"

definition ex_fm3 :: "(filehandle list, locking_state list) file_manager" where
  "ex_fm3 = update_filehandle list_fh_db ex_fm0 ex_handle"

lemma ex_fm0_table: "table_inv (home 3) keyed list_fh_db (list_clash_free fh_clash) ex_fm0" "fm_export_id ex_fm0 = 3"
  using lfdb.table_inv_new [of keyed mem_fs "Some 3" "home 3" "[]" list_lock_db mem_empty "''/''"] mem_fs_paths_ok
  by (simp_all add: ex_fm0_def joins_in_keyed)

lemma ex_handle_wf: "wf_fh (home 3) keyed ex_handle"
  by (simp add: ex_handle_def wf_fh_def ex_fh_def)

lemma ex_fm3_table: "table_inv (home 3) keyed list_fh_db (list_clash_free fh_clash) ex_fm3" "fm_export_id ex_fm3 = 3"
  "ex_handle \<in> table list_fh_db ex_fm3"
proof -
  note r = lfdb.table_inv_remove [OF ex_fm0_table(1), of "fh_id ex_handle"]
  show "ex_handle \<in> table list_fh_db ex_fm3"
    using lfdb.replace_in_table [OF r] by (simp add: ex_fm3_def update_filehandle_def)
  show "table_inv (home 3) keyed list_fh_db (list_clash_free fh_clash) ex_fm3" "fm_export_id ex_fm3 = 3"
    using lfdb.keeps_update [of "home 3" keyed ex_handle ex_fm0] ex_fm0_table ex_handle_wf
    by (simp_all add: ex_fm3_def keeps_def)
qed

definition ex_root :: "filehandle \<times> (filehandle list, locking_state list) file_manager" where
  "ex_root = root_fh mem_fs list_fh_db list_lock_db mem_empty ex_fm0"

lemma ex_run_with: "fm_run_with mem_fs list_fh_db list_lock_db {} ex_fm0 (snd ex_root)"
  by (rule fm_run_with.message [where ?fm1.0 = ex_fm0 and msg = GetRootFilehandle and chan = 0 and w = mem_empty])
    (simp_all add: fm_run_with.start brought_def handle_message_def ex_root_def case_prod_beta)

lemma ex_root_in_table: "fst ex_root \<in> table list_fh_db (snd ex_root)"
  using lfdb.root_fh_in_table [OF ex_fm0_table(1), of mem_fs list_lock_db mem_empty "fst ex_root" "snd ex_root"]
  by (simp add: joins_in_keyed mem_fs_paths_ok ex_root_def)

theorem reachable_handles_route_home_witness:
  "fst ex_root \<in> table list_fh_db (snd ex_root) \<and> export_id_from_fh (fh_id (fst ex_root)) = 3 \<and>
    fh_path (fst ex_root) = path_key (fh_file (fst ex_root))"
  using reachable_handles_route_home [OF lfdb.fh_db_axioms ex_run_with [unfolded ex_fm0_def]] ex_root_in_table
  by auto

text \<open>
  The handle \<open>get_filehandle\<close> returns for a path is registered under that path and its own
  id, belongs to the export, and asking again while the object exists returns the same handle
  and changes nothing.
\<close>

lemma get_filehandle_registers:
  assumes "fh_db F finv" and "table_inv (home (fm_export_id fm)) keyed F finv fm" and "vfs_paths_ok fs" and "p \<noteq> ''/''"
    and "get_filehandle fs F L w fm p = (fh, fm')"
  shows "table_inv (home (fm_export_id fm)) keyed F finv fm' \<and> fh \<in> table F fm' \<and> fh_path fh = path_key p \<and>
    export_id_from_fh (fh_id fh) = fm_export_id fm \<and>
    fdb_get_by_id F (fm_fhdb fm') (fh_id fh) = Some fh \<and>
    fdb_get_by_path F (fm_fhdb fm') (path_key p) = Some fh \<and>
    (path_exists fs w fm' p \<longrightarrow> get_filehandle fs F L w fm' p = (fh, fm'))"
proof -
  have "joins_in keyed fs" "(p, path_key p) \<in> keyed" using assms(3,4) by (simp_all add: joins_in_keyed)
  note s = fh_db.get_filehandle_spec [OF assms(1,2) this assms(5)]
  then have I: "table_inv (home (fm_export_id fm)) keyed F finv fm'" and fh: "fh \<in> table F fm'" "fh_path fh = path_key p" by simp_all
  show ?thesis
    using s fh_db.table_get_by_id [OF assms(1) I] fh_db.table_get_by_path [OF assms(1) I]
      fh_db.table_wf [OF assms(1) I fh(1)] fh_db.get_filehandle_hit [OF assms(1) I fh assms(4)]
    by (auto simp: wf_fh_def home_def)
qed

lemma get_filehandle_registers_example:
  "fh_path (fst (get_filehandle mem_fs list_fh_db list_lock_db mem_empty ex_fm3 ''/a'')) = ''/a''"
  using get_filehandle_registers [OF lfdb.fh_db_axioms ex_fm3_table(1) [folded ex_fm3_table(2)] mem_fs_paths_ok _ surjective_pairing,
      of "''/a''" list_lock_db mem_empty]
  by (simp add: path_key_def)

text \<open>
  RENAME keeps the handle. After \<open>handle_rename_path\<close> the id of the renamed object denotes
  a handle at the new path with a higher version, the handles at other paths are untouched, the
  handle that was registered at the new path is evicted, and the old path is free unless both
  paths are equal.
\<close>

lemma rename_moves_handle:
  assumes "fh_db F finv" and "table_inv A keyed F finv fm" and "new \<noteq> ''/''"
    and "fh \<in> table F fm" and "fh_path fh = old"
  shows "table_inv A keyed F finv (handle_rename_path fs F w fm old new) \<and>
    table F (handle_rename_path fs F w fm old new) =
      insert (make_fh fs w fm new (fh_id fh) (fh_version fh + 1))
        {x \<in> table F fm. fh_id x \<noteq> fh_id fh \<and> fh_path x \<noteq> path_key new} \<and>
    map_option fh_file (fdb_get_by_id F (fm_fhdb (handle_rename_path fs F w fm old new)) (fh_id fh)) = Some new \<and>
    (path_key new \<noteq> old \<longrightarrow> fdb_get_by_path F (fm_fhdb (handle_rename_path fs F w fm old new)) old = None)"
proof -
  let ?fm = "handle_rename_path fs F w fm old new" and ?fh = "make_fh fs w fm new (fh_id fh) (fh_version fh + 1)"
  have "(new, path_key new) \<in> keyed" using assms(3) by simp
  from fh_db.keeps_rename [OF assms(1) this, of A fm fs w old] assms(2)
  have I: "table_inv A keyed F finv ?fm" by (simp add: keeps_def)
  note t = fh_db.rename_table [OF assms(1,2,4,5), of fs w new]
  have "fdb_get_by_id F (fm_fhdb ?fm) (fh_id fh) = Some ?fh"
    using fh_db.table_get_by_id [OF assms(1) I] t by simp
  moreover have "fdb_get_by_path F (fm_fhdb ?fm) old = None" if "path_key new \<noteq> old"
  proof (rule ccontr)
    assume "fdb_get_by_path F (fm_fhdb ?fm) old \<noteq> None"
    then obtain x where "x \<in> table F ?fm" "fh_path x = old"
      using fh_db.table_get_by_path [OF assms(1) I] by auto
    then have "x \<in> table F fm" "fh_path x = old" "fh_id x \<noteq> fh_id fh" using t that by auto
    then show False
      using fh_db.table_get_by_path [OF assms(1,2)] assms(4,5) by (metis option.inject)
  qed
  ultimately show ?thesis using I t by simp
qed

lemma rename_moves_handle_example:
  "map_option fh_file (fdb_get_by_id list_fh_db
     (fm_fhdb (handle_rename_path mem_fs list_fh_db mem_empty ex_fm3 ''/a'' ''/b'')) ex_fh) = Some ''/b''"
proof -
  have "fh_path ex_handle = ''/a''" "fh_id ex_handle = ex_fh" by (simp_all add: ex_handle_def path_key_def)
  with rename_moves_handle [OF lfdb.fh_db_axioms ex_fm3_table(1) _ ex_fm3_table(3), of "''/b''" "''/a''" mem_fs mem_empty]
  show ?thesis by simp
qed

text \<open>
  C31: REMOVE of a regular file that is held open. If the file can be renamed to its hidden name,
  REMOVE succeeds, all open and lock state stays, the handle's id still denotes the file (now at the
  hidden path), and the id is queued for deletion, so the file is not taken away from its users. If
  it cannot be renamed, the file is deleted at once although it is open: REMOVE answers what the
  deletion gives, the open and lock state stays behind, and nothing is queued.
\<close>

theorem remove_open_file_is_deferred:
  assumes "fh_db F finv" and "table_inv A keyed F finv fm" and "vfs_paths_ok fs"
    and "fh \<in> table F fm" and "fh_path fh = path" and "has_locks L fm (fh_id fh)"
    and "\<not> vfs_is_dir fs w path"
  shows "(\<forall>q w1. vfs_join fs (vfs_parent fs path) (silly_name fh) = Some q \<and>
      path_key q \<noteq> path_key (vfs_parent fs path) \<and> vfs_move_file fs w path q = (True, w1) \<longrightarrow>
      (\<exists>ci fm'. remove_file fs F L w fm path = (Inr ci, w1, fm') \<and>
        lock_part fm' = lock_part fm \<and> fh_id fh \<in> pending fm' \<and>
        (\<exists>fh' \<in> table F fm'. fh_id fh' = fh_id fh \<and> fh_file fh' = q))) \<and>
    (\<forall>w1. (case vfs_join fs (vfs_parent fs path) (silly_name fh) of
        None \<Rightarrow> w1 = w | Some q \<Rightarrow> vfs_move_file fs w path q = (False, w1)) \<longrightarrow>
      (\<exists>r fm'. remove_file fs F L w fm path = (r, snd (vfs_remove_file_result fs w1 path), fm') \<and>
        (isl r \<longleftrightarrow> isl (fst (vfs_remove_file_result fs w1 path))) \<and>
        lock_part fm' = lock_part fm \<and> pending fm' = pending fm))"
proof (intro conjI allI impI, goal_cases deferred failed)
  case (deferred q w1)
  then show ?case
    using fh_db.remove_open_file [OF assms(1,2) assms(3) [folded joins_in_keyed] assms(4-7)] by blast
next
  case (failed w1)
  then show ?case
    by (rule fh_db.remove_open_file_failed [OF assms(1,2,4-7)])
qed

text \<open>
  The periodic sweep gives up exactly the queued files that nobody holds open: an id stays
  queued if and only if it still has open or lock state; lock state is not touched.
\<close>

lemma sweep_spares_open_files:
  assumes "sweep_pending_deletes fs F L w fm = (w', fm')"
  shows "pending fm' = {fid \<in> pending fm. has_locks L fm fid} \<and> lock_part fm' = lock_part fm"
  using pending_sweep_ids [OF assms [unfolded sweep_pending_deletes_def]] lock_part_sweep [OF assms]
  by (auto simp: pending_def)

text \<open>Example: the file \<open>/a\<close> is held open by a client and then removed.\<close>

definition ex_world :: mem_world where
  "ex_world = snd (vfs_create_file mem_fs mem_empty ''/a'')"

definition ex_fm4 :: "(filehandle list, locking_state list) file_manager" where
  "ex_fm4 = ex_fm3\<lparr>fm_lockdb := [new_shared_reservation ex_fh (counter_stateid 100) 1 [1] 3 0],
     fm_pending_deletes := [ex_fh, inode_fh_id 3 7 9]\<rparr>"

lemma ex_fm4_facts:
  "table_inv (home 3) keyed list_fh_db (list_clash_free fh_clash) ex_fm4" "ex_handle \<in> table list_fh_db ex_fm4"
  "fh_path ex_handle = ''/a''" "fh_id ex_handle = ex_fh"
  "has_locks list_lock_db ex_fm4 ex_fh" "\<not> has_locks list_lock_db ex_fm4 (inode_fh_id 3 7 9)"
  using ex_fm3_table
  by (simp_all add: ex_fm4_def table_inv_def table_def ex_handle_def path_key_def has_locks_def
      list_lock_db_simps new_shared_reservation_def) (simp add: ex_fh_def)

theorem remove_open_file_is_deferred_witness:
  "ex_fh \<in> pending (snd (snd (remove_file mem_fs list_fh_db list_lock_db ex_world ex_fm4 ''/a'')))"
proof -
  have name: "silly_name ex_handle = ''.nfs.0000000000000002''" by code_simp
  have world: "\<not> vfs_is_dir mem_fs ex_world ''/a''" "vfs_parent mem_fs ''/a'' = []"
    "vfs_join mem_fs [] ''.nfs.0000000000000002'' = Some ''/.nfs.0000000000000002''"
    "fst (vfs_move_file mem_fs ex_world ''/a'' ''/.nfs.0000000000000002'')"
    by code_simp+
  from remove_open_file_is_deferred [OF lfdb.fh_db_axioms ex_fm4_facts(1) mem_fs_paths_ok ex_fm4_facts(2,3),
      of list_lock_db ex_world, THEN conjunct1, THEN spec [of _ "''/.nfs.0000000000000002''"],
      THEN spec [of _ "snd (vfs_move_file mem_fs ex_world ''/a'' ''/.nfs.0000000000000002'')"]]
  show ?thesis using world name ex_fm4_facts by (auto simp: path_key_def prod_eq_iff)
qed

lemma sweep_spares_open_files_example:
  "pending (snd (sweep_pending_deletes mem_fs list_fh_db list_lock_db ex_world ex_fm4)) = {ex_fh}"
  using sweep_spares_open_files [OF surjective_pairing, of mem_fs list_fh_db list_lock_db ex_world ex_fm4]
    ex_fm4_facts(5,6) by (auto simp: pending_def ex_fm4_def)

end
