(* ===== verification/ExportTables.thy ===== *)
theory ExportTables
  imports ExportManager HandleTable
begin

text \<open>
  The export tables stay consistent: what \<open>list_exports\<close>, the lookup by name and the lookup by
  id see is one set of exports, ids are never reused, and the file handles of an export lead
  back to it.
\<close>


section \<open>Consistency of the export tables\<close>

definition em_inv :: "('f, 'l) export_manager \<Rightarrow> bool" where
  "em_inv em \<longleftrightarrow> distinct (map fst (em_exports em))
    \<and> 1 \<le> em_next_export_id em \<and> em_next_export_id em \<le> 0xFE
    \<and> (\<forall>(name, info) \<in> set (em_exports em). ei_name info = name
        \<and> 1 \<le> ei_export_id info \<and> ei_export_id info < em_next_export_id em)
    \<and> (\<forall>i name. em_export_by_id em i = Some name \<longleftrightarrow>
        (\<exists>info. (name, info) \<in> set (em_exports em) \<and> ei_export_id info = i))
    \<and> (\<forall>i. em_objs em i \<noteq> None \<longleftrightarrow> 1 \<le> i \<and> i < em_next_export_id em)"

lemma em_inv_new: "em_inv export_manager_new"
  by (auto simp: em_inv_def export_manager_new_def)

lemma em_invD:
  assumes "em_inv em" and "(name, info) \<in> set (em_exports em)"
  shows "ei_name info = name" "1 \<le> ei_export_id info" "ei_export_id info < em_next_export_id em"
    "em_export_by_id em (ei_export_id info) = Some name" "map_of (em_exports em) name = Some info"
  using assms by (auto simp: em_inv_def)

lemma em_inv_by_idD:
  assumes "em_inv em" and "em_export_by_id em i = Some name"
  shows "\<exists>info. (name, info) \<in> set (em_exports em) \<and> ei_export_id info = i"
  using assms by (auto simp: em_inv_def)

lemma add_export_cases:
  obtains (refused) e where "add_export E F L w em name path ro = (Inl e, em)"
  | (added) canonical em' where "map_of (em_exports em) name = None" "em_next_export_id em < 0xFE"
      "ee_canonicalize E w path = Some canonical" "ee_is_dir E w canonical"
      "add_export E F L w em name path ro =
        (Inr \<lparr>ei_export_id = em_next_export_id em, ei_name = name, ei_path = canonical, ei_read_only = ro\<rparr>, em')"
      "em_next_export_id em' = em_next_export_id em + 1"
      "em_exports em' = (name, \<lparr>ei_export_id = em_next_export_id em, ei_name = name,
         ei_path = canonical, ei_read_only = ro\<rparr>) # em_exports em"
      "em_export_by_id em' = (em_export_by_id em)(em_next_export_id em \<mapsto> name)"
      "em_objs em' = (em_objs em)(em_next_export_id em \<mapsto> export_objs_new (ee_instant E w))"
  by (force simp: add_export_def Let_def not_le split: option.splits if_splits)

lemma add_export_id: "add_export E F L w em name path ro = (Inr info, em') \<Longrightarrow> ei_export_id info = em_next_export_id em"
  by (cases rule: add_export_cases [of E F L w em name path ro]) auto

lemma less_FE_Suc: "n < 0xFE \<Longrightarrow> n < n + 1 \<and> n + 1 \<le> 0xFE \<and> (\<forall>i. i < n + 1 \<longleftrightarrow> i \<le> n)" for n :: u8
proof -
  assume n: "n < 0xFE"
  then have "unat n < 254" by (simp add: word_less_nat_alt)
  then have "unat (n + 1) = Suc (unat n)" by (simp add: unat_word_ariths)
  then show ?thesis using \<open>unat n < 254\<close>
    by (auto simp: word_less_nat_alt word_le_nat_alt)
qed

lemma em_inv_add: "em_inv em \<Longrightarrow> em_inv (snd (add_export E F L w em name path ro))"
proof (cases rule: add_export_cases [of E F L w em name path ro])
  case (refused e)
  then show "em_inv em \<Longrightarrow> ?thesis" by simp
next
  case (added canonical em')
  assume inv: "em_inv em"
  let ?n = "em_next_export_id em"
  note suc = less_FE_Suc [OF added(2)]
  have fresh: "name \<notin> fst ` set (em_exports em)" using added(1) by (simp add: map_of_eq_None_iff)
  have nobody: "ei_export_id info \<noteq> ?n" if "(m, info) \<in> set (em_exports em)" for m info
    using em_invD(3) [OF inv that] by simp
  have "em_export_by_id em ?n = None"
    using em_inv_by_idD [OF inv, of ?n] nobody by (metis not_None_eq)
  moreover have "1 \<le> ?n" using inv by (simp add: em_inv_def)
  ultimately have "em_inv em'"
    using inv suc fresh nobody unfolding em_inv_def added(6-9)
    by (auto simp: image_iff dest: less_trans split: if_splits)
  then show ?thesis by (simp add: added(5))
qed

lemma em_inv_remove: "em_inv em \<Longrightarrow> em_inv (snd (remove_export em name))"
proof (cases "map_of (em_exports em) name")
  case None
  then show "em_inv em \<Longrightarrow> ?thesis" by (simp add: remove_export_def)
next
  case (Some info)
  assume inv: "em_inv em"
  from Some have mem: "(name, info) \<in> set (em_exports em)" by (rule map_of_SomeD)
  have uniq: "m = name" if "(m, info') \<in> set (em_exports em)" "ei_export_id info' = ei_export_id info"
    for m info'
    using em_invD(4) [OF inv mem] em_invD(4) [OF inv that(1)] that(2) by simp
  have "distinct (map fst (filter (\<lambda>e. fst e \<noteq> name) (em_exports em)))"
    using inv by (simp add: em_inv_def distinct_map_filter)
  moreover have "((em_export_by_id em)(ei_export_id info := None)) i = Some m \<longleftrightarrow>
    (\<exists>info'. (m, info') \<in> set (filter (\<lambda>e. fst e \<noteq> name) (em_exports em)) \<and> ei_export_id info' = i)"
    for i m
  proof (cases "i = ei_export_id info")
    case True
    with uniq show ?thesis by auto
  next
    case False
    have "info' = info" if "(name, info') \<in> set (em_exports em)" for info'
      using em_invD(5) [OF inv that] Some by simp
    then have "(\<exists>info'. (m, info') \<in> set (filter (\<lambda>e. fst e \<noteq> name) (em_exports em)) \<and> ei_export_id info' = i)
      \<longleftrightarrow> (\<exists>info'. (m, info') \<in> set (em_exports em) \<and> ei_export_id info' = i)"
      using False by auto
    then show ?thesis using inv False by (simp add: em_inv_def)
  qed
  ultimately show ?thesis using inv
    by (auto simp: remove_export_def Some em_inv_def)
qed

lemma em_inv_update_objs: "em_inv em \<Longrightarrow> em_inv (update_objs em i f)"
  by (auto simp: em_inv_def update_objs_def)

lemma em_inv_set_by_name: "em_inv em \<Longrightarrow> em_inv (snd (set_by_name em name f))"
  by (simp add: set_by_name_def em_inv_update_objs split: option.split)

lemma em_handle_message_snd [simp]:
  "snd (em_handle_message E F L w em (AddExport n p ro)) = snd (add_export E F L w em n p ro)"
  "snd (em_handle_message E F L w em (RemoveExport n)) = snd (remove_export em n)"
  "snd (em_handle_message E F L w em ListExports) = em"
  "snd (em_handle_message E F L w em (GetExportById i)) = em"
  "snd (em_handle_message E F L w em (GetExportByName n)) = em"
  "snd (em_handle_message E F L w em (GetQos n)) = em"
  "snd (em_handle_message E F L w em (GetQuota n)) = em"
  "snd (em_handle_message E F L w em (GetAccess n)) = em"
  "\<exists>f. snd (em_handle_message E F L w em (SetQos n q)) = snd (set_by_name em n f)"
  "\<exists>f. snd (em_handle_message E F L w em (SetQuota n c)) = snd (set_by_name em n f)"
  "\<exists>f. snd (em_handle_message E F L w em (SetAccess n a)) = snd (set_by_name em n f)"
  by (auto simp: em_handle_message_def case_prod_unfold Let_def)

text \<open>What a message does to the state: add an export, remove one, change shared objects, or nothing.\<close>

lemma em_handle_message_cases [case_names add remove objs same]:
  obtains n p ro where "snd (em_handle_message E F L w em msg) = snd (add_export E F L w em n p ro)"
  | n where "snd (em_handle_message E F L w em msg) = snd (remove_export em n)"
  | n f where "snd (em_handle_message E F L w em msg) = snd (set_by_name em n f)"
  | "snd (em_handle_message E F L w em msg) = em"
  by (cases msg) (metis em_handle_message_snd)+

lemma em_inv_message: "em_inv em \<Longrightarrow> em_inv (snd (em_handle_message E F L w em msg))"
  by (cases rule: em_handle_message_cases [of E F L w em msg])
    (simp_all add: em_inv_add em_inv_remove em_inv_set_by_name)

text \<open>The same for the file managers the store holds.\<close>

definition actors_ok ::
  "filehandle set \<Rightarrow> 'f fh_db_ops \<Rightarrow> ('f \<Rightarrow> bool) \<Rightarrow> ('f, 'l) export_manager \<Rightarrow> bool" where
  "actors_ok X F finv em \<longleftrightarrow>
    (\<forall>i fm. em_actors em i = Some fm \<longrightarrow> table_inv (ids_with i X) (paths_with X) F finv fm)"

lemma set_by_name_frame [simp]:
  "em_exports (snd (set_by_name em name f)) = em_exports em"
  "em_export_by_id (snd (set_by_name em name f)) = em_export_by_id em"
  "em_next_export_id (snd (set_by_name em name f)) = em_next_export_id em"
  "em_actors (snd (set_by_name em name f)) = em_actors em"
  by (simp_all add: set_by_name_def update_objs_def split: option.split)

lemma remove_export_actors [simp]:
  "em_actors (snd (remove_export em name)) = em_actors em"
  "em_next_export_id (snd (remove_export em name)) = em_next_export_id em"
  by (simp_all add: remove_export_def split: option.split)

lemma actors_ok_add:
  assumes "fh_db F finv" and "actors_ok X F finv em"
  shows "actors_ok X F finv (snd (add_export E F L w em name path ro))"
proof -
  have new: "table_inv (ids_with i X) (paths_with X) F finv
      (file_manager_new (ee_fs E p) F L w [] (Some (ucast i)) p)" for p and i :: u8
    using table_inv_with_new [OF assms(1), of "Some (ucast i)" X "ee_fs E p" L w "[]" p]
    by (simp add: ucast_up_ucast_id is_up)
  show ?thesis
    using assms(2) new
    by (auto simp: add_export_def actors_ok_def Let_def split: option.split)
qed

lemma actors_ok_message:
  assumes "fh_db F finv" and "actors_ok X F finv em"
  shows "actors_ok X F finv (snd (em_handle_message E F L w em msg))"
  using actors_ok_add [OF assms] assms(2)
  by (cases rule: em_handle_message_cases [of E F L w em msg]) (simp_all add: actors_ok_def)

section \<open>Runs\<close>

text \<open>
  The export manager handles its messages, the file managers handle theirs, and requests update
  the shared objects, in any order. \<open>X\<close> are the handles the messages to file managers bring with
  them; with \<open>X\<close> all handles, every message is allowed.
\<close>

inductive em_run ::
  "'w export_env \<Rightarrow> 'f fh_db_ops \<Rightarrow> 'l lock_db_ops \<Rightarrow> filehandle set
    \<Rightarrow> ('f, 'l) export_manager \<Rightarrow> ('f, 'l) export_manager \<Rightarrow> bool"
  for E F L X em where
  start: "em_run E F L X em em"
| message: "em_run E F L X em em1 \<Longrightarrow> em_run E F L X em (snd (em_handle_message E F L w em1 msg))"
| actor: "em_run E F L X em em1 \<Longrightarrow> em_actors em1 i = Some fm \<Longrightarrow>
    fm_run_with (ee_fs E (fm_export_root fm)) F L X fm fm' \<Longrightarrow>
    em_run E F L X em (em1\<lparr>em_actors := (em_actors em1)(i \<mapsto> fm')\<rparr>)"
| shared: "em_run E F L X em em1 \<Longrightarrow> em_run E F L X em (update_objs em1 i f)"

lemma em_inv_actors [simp]: "em_inv (em\<lparr>em_actors := a\<rparr>) = em_inv em"
  by (simp add: em_inv_def)

lemma em_run_inv: "em_run E F L X em em' \<Longrightarrow> em_inv em \<Longrightarrow> em_inv em'"
  by (induction rule: em_run.induct) (simp_all add: em_inv_message em_inv_update_objs)

lemma em_run_actors_ok:
  assumes "em_run E F L X em em'" and "fh_db F finv" and "actors_ok X F finv em"
  shows "actors_ok X F finv em'"
  using assms(1)
proof (induction rule: em_run.induct)
  case start
  show ?case by (rule assms(3))
next
  case (message em1 w msg)
  show ?case by (rule actors_ok_message [OF assms(2) message.IH])
next
  case (actor em1 i fm fm')
  have "keeps (ids_with i X) (paths_with X) F finv fm fm'" by (rule fm_run_with_keeps [OF assms(2) actor(3)])
  with actor show ?case by (auto simp: actors_ok_def keeps_def)
next
  case (shared em1 i f)
  then show ?case by (simp add: actors_ok_def update_objs_def)
qed

lemma get_export_by_id_iff:
  assumes "em_inv em"
  shows "get_export_by_id em i = Some info \<longleftrightarrow> info \<in> set (list_exports em) \<and> ei_export_id info = i"
proof
  assume "get_export_by_id em i = Some info"
  then obtain name where n: "em_export_by_id em i = Some name" "map_of (em_exports em) name = Some info"
    by (auto simp: get_export_by_id_def split: option.splits)
  from em_inv_by_idD [OF assms n(1)] em_invD(5) [OF assms] n(2)
  show "info \<in> set (list_exports em) \<and> ei_export_id info = i"
    by (force simp: list_exports_def)
next
  assume "info \<in> set (list_exports em) \<and> ei_export_id info = i"
  then obtain name where "(name, info) \<in> set (em_exports em)" "ei_export_id info = i"
    by (auto simp: list_exports_def)
  with em_invD [OF assms] show "get_export_by_id em i = Some info"
    by (auto simp: get_export_by_id_def)
qed

lemma get_export_by_name_iff:
  assumes "em_inv em"
  shows "get_export_by_name em name = Some info \<longleftrightarrow> info \<in> set (list_exports em) \<and> ei_name info = name"
  using em_invD(1,5) [OF assms] map_of_SomeD [of "em_exports em" name info]
  by (force simp: get_export_by_name_def list_exports_def)

text \<open>
  C7: the export tables of every reachable state show one set of exports: the lookup by id and
  the lookup by name find exactly the listed exports, ids lie between 1 and \<open>0xFD\<close> (so none is
  the pseudo-root's), and names and ids identify an export.
\<close>

theorem export_tables_agree:
  assumes "em_run E F L X export_manager_new em"
  shows "(\<forall>i info. get_export_by_id em i = Some info \<longleftrightarrow>
        info \<in> set (list_exports em) \<and> ei_export_id info = i)
    \<and> (\<forall>name info. get_export_by_name em name = Some info \<longleftrightarrow>
        info \<in> set (list_exports em) \<and> ei_name info = name)
    \<and> (\<forall>info \<in> set (list_exports em). 1 \<le> ei_export_id info \<and> ei_export_id info < 0xFE
        \<and> em_objs em (ei_export_id info) \<noteq> None)
    \<and> inj_on ei_export_id (set (list_exports em)) \<and> inj_on ei_name (set (list_exports em))"
proof -
  have inv: "em_inv em" by (rule em_run_inv [OF assms em_inv_new])
  have range: "1 \<le> ei_export_id info \<and> ei_export_id info < 0xFE \<and> em_objs em (ei_export_id info) \<noteq> None"
    if "info \<in> set (list_exports em)" for info
  proof -
    from that obtain name where m: "(name, info) \<in> set (em_exports em)" by (auto simp: list_exports_def)
    from inv have "em_next_export_id em \<le> 0xFE" by (simp add: em_inv_def)
    with em_invD [OF inv m] inv show ?thesis by (auto simp: em_inv_def intro: less_le_trans)
  qed
  have "inj_on ei_export_id (set (list_exports em))"
    using get_export_by_id_iff [OF inv] by (auto intro!: inj_onI) (metis option.inject)
  moreover have "inj_on ei_name (set (list_exports em))"
    using get_export_by_name_iff [OF inv] by (auto intro!: inj_onI) (metis option.inject)
  ultimately show ?thesis
    using range get_export_by_id_iff [OF inv] get_export_by_name_iff [OF inv] by blast
qed

text \<open>The invariant that keeps ids from being reused: an export listed later is old or has a new id.\<close>

lemma em_handle_message_infos:
  assumes "em_inv em" and "em' = snd (em_handle_message E F L w em msg)"
  shows "em_next_export_id em \<le> em_next_export_id em'"
    and "info \<in> set (list_exports em') \<Longrightarrow>
      info \<in> set (list_exports em) \<or> em_next_export_id em \<le> ei_export_id info"
proof -
  have add: "em_next_export_id em \<le> em_next_export_id (snd (add_export E F L w em n p ro)) \<and>
    (info \<in> set (list_exports (snd (add_export E F L w em n p ro))) \<longrightarrow>
      info \<in> set (list_exports em) \<or> em_next_export_id em \<le> ei_export_id info)" for n p ro
  proof (cases rule: add_export_cases [of E F L w em n p ro])
    case (added canonical em1)
    have "em_next_export_id em \<le> em_next_export_id em1"
      using less_FE_Suc [OF added(2)] unfolding added(6) by (blast intro: less_imp_le)
    with added(5,7) show ?thesis by (simp add: list_exports_def)
  qed simp
  have remove: "set (list_exports (snd (remove_export em n))) \<subseteq> set (list_exports em)" for n
    by (auto simp: list_exports_def remove_export_def split: option.split)
  have sets: "list_exports (snd (set_by_name em n f)) = list_exports em" for n f
    by (simp add: list_exports_def)
  show "em_next_export_id em \<le> em_next_export_id em'"
    using add by (cases rule: em_handle_message_cases [of E F L w em msg]) (simp_all add: assms(2))
  show "info \<in> set (list_exports em') \<Longrightarrow>
      info \<in> set (list_exports em) \<or> em_next_export_id em \<le> ei_export_id info"
    using add
    by (cases rule: em_handle_message_cases [of E F L w em msg])
      (auto simp: assms(2) sets dest: remove [THEN subsetD])
qed

lemma em_run_infos:
  assumes "em_run E F L X em em'" and "em_inv em"
  shows "em_next_export_id em \<le> em_next_export_id em' \<and> (\<forall>info \<in> set (list_exports em').
    info \<in> set (list_exports em) \<or> em_next_export_id em \<le> ei_export_id info)"
  using assms(1)
proof (induction rule: em_run.induct)
  case start
  show ?case by simp
next
  case (message em1 w msg)
  have inv: "em_inv em1" by (rule em_run_inv [OF message(1) assms(2)])
  from em_handle_message_infos [OF inv refl, where E = E and F = F and L = L and w = w and msg = msg] message(2) show ?case
    by (meson order_trans)
next
  case (actor em1 i fm fm')
  then show ?case by (simp add: list_exports_def)
next
  case (shared em1 i f)
  then show ?case by (simp add: list_exports_def update_objs_def)
qed

text \<open>
  C22: export ids are given out in increasing order and never reused. Take an id that has been given
  out in a reachable state. Whatever follows, an export that is added later gets a larger id; and if
  the id names an export at any later time, it is the same export as before, so once the export is
  removed the id names nothing any more, and a file handle of a removed export cannot reach another
  export.
\<close>

theorem export_ids_never_reused:
  assumes "em_run E F L X export_manager_new em" and "em_run E F L X em em'"
    and "em_objs em i \<noteq> None"
  shows "(\<forall>w name path ro info em''. add_export E F L w em' name path ro = (Inr info, em'') \<longrightarrow> i < ei_export_id info) \<and>
    (get_export_by_id em' i = None \<or> get_export_by_id em' i = get_export_by_id em i)"
proof
  have inv: "em_inv em" "em_inv em'"
    using em_run_inv [OF assms(1) em_inv_new] em_run_inv [OF assms(2)] by blast+
  have i: "i < em_next_export_id em" using inv(1) assms(3) by (simp add: em_inv_def)
  note later = em_run_infos [OF assms(2) inv(1)]
  show "\<forall>w name path ro info em''. add_export E F L w em' name path ro = (Inr info, em'') \<longrightarrow> i < ei_export_id info"
    using i later add_export_id by (metis less_le_trans)
  show "get_export_by_id em' i = None \<or> get_export_by_id em' i = get_export_by_id em i"
  proof (cases "get_export_by_id em' i")
    case (Some info)
    then have info: "info \<in> set (list_exports em')" "ei_export_id info = i"
      using get_export_by_id_iff [OF inv(2)] by blast+
    with later i have "info \<in> set (list_exports em)" by (auto simp: not_le)
    then have "get_export_by_id em i = Some info" using get_export_by_id_iff [OF inv(1)] info(2) by simp
    then show ?thesis using Some by simp
  qed simp
qed

text \<open>
  C21: a file handle leads back to its export. In every reachable state, each handle in the table
  of an export's file manager carries the id under which \<open>get_export_by_id\<close> finds that export, or
  it has the id of one of the handles \<open>X\<close> that messages have brought in (a request that holds a
  handle of an export that was removed can bring it to another export's file manager). Handles of
  the file managers' own making always lead back.
\<close>

theorem handles_find_their_export:
  assumes "fh_db F finv" and "em_run E F L X export_manager_new em"
    and "info \<in> set (list_exports em)" and "em_actors em (ei_export_id info) = Some fm"
    and "fh \<in> table F fm"
  shows "fh_id fh \<in> fh_id ` X \<or> get_export_by_id em (export_id_from_fh (fh_id fh)) = Some info"
proof -
  have "actors_ok X F finv em"
    using em_run_actors_ok [OF assms(2,1)] by (simp add: actors_ok_def export_manager_new_def)
  then have "table_inv (ids_with (ei_export_id info) X) (paths_with X) F finv fm"
    using assms(4) by (simp add: actors_ok_def)
  then have "fh_id fh \<in> fh_id ` X \<or> export_id_from_fh (fh_id fh) = ei_export_id info"
    using assms(5) by (auto simp: table_inv_def wf_fh_def ids_with_def home_def)
  with get_export_by_id_iff [OF em_run_inv [OF assms(2) em_inv_new]] assms(3) show ?thesis by auto
qed

section \<open>Example\<close>

definition mem_export_env :: "mem_world export_env" where
  "mem_export_env = \<lparr>ee_canonicalize = (\<lambda>w p. Some p), ee_is_dir = (\<lambda>w p. True),
     ee_fs = (\<lambda>p. mem_fs), ee_instant = (\<lambda>w. 0)\<rparr>"

definition ex_em1 :: "(filehandle list, locking_state list) export_manager" where
  "ex_em1 = snd (em_handle_message mem_export_env list_fh_db list_lock_db mem_empty
     export_manager_new (AddExport ''data'' ''/'' False))"

definition ex_em2 :: "(filehandle list, locking_state list) export_manager" where
  "ex_em2 = snd (em_handle_message mem_export_env list_fh_db list_lock_db mem_empty ex_em1
     (RemoveExport ''data''))"

definition ex_em3 :: "(filehandle list, locking_state list) export_manager" where
  "ex_em3 = snd (em_handle_message mem_export_env list_fh_db list_lock_db mem_empty ex_em2
     (AddExport ''other'' ''/'' False))"

definition ex_em_later :: "(filehandle list, locking_state list) export_manager" where
  "ex_em_later = ex_em1\<lparr>em_actors := (em_actors ex_em1)(1 \<mapsto> snd (root_fh mem_fs list_fh_db list_lock_db mem_empty
     (the (em_actors ex_em1 1))))\<rparr>"

lemma ex_em_runs:
  "em_run mem_export_env list_fh_db list_lock_db X export_manager_new ex_em1"
  "em_run mem_export_env list_fh_db list_lock_db X ex_em1 ex_em3"
  unfolding ex_em3_def ex_em2_def ex_em1_def by (intro em_run.intros)+

lemma export_id_limit [simp]: "\<not> (254 :: u8) \<le> 1" "\<not> (254 :: u8) \<le> 2"
  by (simp_all add: word_le_nat_alt)

lemmas ex_em_simps = ex_em1_def ex_em2_def ex_em3_def em_handle_message_def add_export_def
  remove_export_def export_manager_new_def mem_export_env_def list_exports_def

theorem export_tables_agree_witness:
  "get_export_by_name ex_em1 ''data'' = get_export_by_id ex_em1 1 \<and> get_export_by_id ex_em1 1 \<noteq> None"
  using export_tables_agree [OF ex_em_runs(1)]
  by (simp add: ex_em_simps get_export_by_id_def get_export_by_name_def Let_def)

theorem export_ids_never_reused_witness:
  "get_export_by_id ex_em1 1 \<noteq> None \<and> get_export_by_id ex_em3 1 = None \<and>
   (\<exists>info em. add_export mem_export_env list_fh_db list_lock_db mem_empty ex_em3 ''more'' ''/'' False = (Inr info, em) \<and>
     1 < ei_export_id info)"
proof -
  obtain info em where add: "add_export mem_export_env list_fh_db list_lock_db mem_empty ex_em3 ''more'' ''/'' False =
      (Inr info, em)"
    by (simp add: ex_em_simps Let_def)
  have "em_objs ex_em1 1 \<noteq> None" "get_export_by_id ex_em1 1 \<noteq> None" "get_export_by_id ex_em3 1 = None"
    by (simp_all add: ex_em_simps get_export_by_id_def Let_def)
  with export_ids_never_reused [OF ex_em_runs, of 1] add show ?thesis
    by blast
qed

theorem handles_find_their_export_witness:
  "\<exists>info fm fh. em_actors ex_em_later (ei_export_id info) = Some fm \<and> fh \<in> table list_fh_db fm \<and>
    get_export_by_id ex_em_later (export_id_from_fh (fh_id fh)) = Some info"
proof -
  let ?info = "\<lparr>ei_export_id = 1, ei_name = ''data'', ei_path = ''/'', ei_read_only = False\<rparr>"
  let ?fm = "file_manager_new mem_fs list_fh_db list_lock_db mem_empty [] (Some 1) ''/''"
  let ?root = "root_fh mem_fs list_fh_db list_lock_db mem_empty ?fm"
  have fm: "em_actors ex_em1 1 = Some ?fm" and info: "?info \<in> set (list_exports ex_em_later)"
    by (simp_all add: ex_em_simps ex_em_later_def Let_def)
  have "fm_run_with (ee_fs mem_export_env (fm_export_root ?fm)) list_fh_db list_lock_db {} ?fm (snd ?root)"
    by (rule fm_run_with.message [where ?fm1.0 = ?fm and msg = GetRootFilehandle and chan = 0 and w = mem_empty])
      (simp_all add: fm_run_with.start brought_def handle_message_def case_prod_beta mem_export_env_def)
  from em_run.actor [OF ex_em_runs(1) fm this]
  have run: "em_run mem_export_env list_fh_db list_lock_db {} export_manager_new ex_em_later"
    by (simp add: ex_em_later_def fm)
  have later: "em_actors ex_em_later (ei_export_id ?info) = Some (snd ?root)"
    by (simp add: ex_em_later_def fm)
  have "table_inv (ids_with 1 {}) (paths_with {}) list_fh_db (list_clash_free fh_clash) ?fm"
    using table_inv_with_new [OF lfdb.fh_db_axioms, of "Some 1" "{}" mem_fs list_lock_db mem_empty "[]" "''/''"] by simp
  from lfdb.root_fh_in_table [OF this joins_in_paths_with surjective_pairing]
  have fh: "fst ?root \<in> table list_fh_db (snd ?root)" .
  from handles_find_their_export [OF lfdb.fh_db_axioms run info later fh] later fh
  show ?thesis by blast
qed

end
