(* ===== verification/ClientRecords.thy ===== *)
theory ClientRecords
  imports ClientManager
begin

text \<open>
  Correctness of the client manager: the invariant of the client records, the outcome of
  SETCLIENTID and SETCLIENTID\_CONFIRM, and the lease life cycle (active, courtesy, purged).
\<close>

section \<open>ClientDb\<close>

definition ce_clash :: "client_entry \<Rightarrow> client_entry \<Rightarrow> bool" where
  "ce_clash a b \<longleftrightarrow> ce_setclientid_confirm a = ce_setclientid_confirm b"

locale client_db =
  tok: unique_index inv "cdb_iter ops" "cdb_default ops" "cdb_insert ops" ce_clash
    ce_setclientid_confirm "cdb_get_by_confirm ops" "cdb_remove_by_confirm ops" +
  nid: nonunique_index inv "cdb_iter ops" "cdb_default ops" "cdb_insert ops" ce_clash
    ce_id "cdb_get_by_id ops" "cdb_remove_by_id ops" +
  cid: nonunique_index inv "cdb_iter ops" "cdb_default ops" "cdb_insert ops" ce_clash
    ce_clientid "cdb_get_by_clientid ops" "cdb_remove_by_clientid ops"
  for ops :: "'db client_db_ops" and inv :: "'db \<Rightarrow> bool"

definition list_client_db :: "client_entry list client_db_ops" where
  "list_client_db = \<lparr>cdb_default = [], cdb_iter = (\<lambda>xs. xs), cdb_insert = list_insert ce_clash,
     cdb_get_by_confirm = list_get_unique ce_setclientid_confirm,
     cdb_remove_by_confirm = list_take_by ce_setclientid_confirm,
     cdb_get_by_id = list_get_by ce_id, cdb_remove_by_id = list_remove_by ce_id,
     cdb_get_by_clientid = list_get_by ce_clientid, cdb_remove_by_clientid = list_remove_by ce_clientid\<rparr>"

interpretation lcdb: client_db list_client_db "list_clash_free ce_clash"
proof (intro client_db.intro)
  show "unique_index (list_clash_free ce_clash) (cdb_iter list_client_db)
    (cdb_default list_client_db) (cdb_insert list_client_db) ce_clash ce_setclientid_confirm
    (cdb_get_by_confirm list_client_db) (cdb_remove_by_confirm list_client_db)"
    unfolding list_client_db_def client_db_ops.simps
    by (rule list_unique_index) (simp_all add: ce_clash_def)
  show "nonunique_index (list_clash_free ce_clash) (cdb_iter list_client_db)
    (cdb_default list_client_db) (cdb_insert list_client_db) ce_clash ce_id
    (cdb_get_by_id list_client_db) (cdb_remove_by_id list_client_db)"
    unfolding list_client_db_def client_db_ops.simps
    by (rule list_nonunique_index) (simp_all add: ce_clash_def)
  show "nonunique_index (list_clash_free ce_clash) (cdb_iter list_client_db)
    (cdb_default list_client_db) (cdb_insert list_client_db) ce_clash ce_clientid
    (cdb_get_by_clientid list_client_db) (cdb_remove_by_clientid list_client_db)"
    unfolding list_client_db_def client_db_ops.simps
    by (rule list_nonunique_index) (simp_all add: ce_clash_def)
qed

lemmas list_client_db_simps = list_client_db_def list_mim_defs ce_clash_def

section \<open>Loops over records\<close>

definition records :: "'db client_db_ops \<Rightarrow> 'db client_manager \<Rightarrow> client_entry set" where
  "records C cm = set (cdb_iter C (cm_db cm))"

context client_db
begin

lemma remove_token_set:
  assumes "inv db" "e \<in> set (cdb_iter ops db)"
  shows "\<exists>db1. cdb_remove_by_confirm ops db (ce_setclientid_confirm e) = (Some e, db1) \<and> inv db1 \<and>
    set (cdb_iter ops db1) = set (cdb_iter ops db) - {e}"
proof -
  from tok.remove_by_member [OF assms] obtain db1
    where "cdb_remove_by_confirm ops db (ce_setclientid_confirm e) = (Some e, db1)" by blast
  with tok.remove_by_Some [OF assms(1) this] show ?thesis by blast
qed

lemma modify_entries_spec:
  assumes "\<And>e. ce_setclientid_confirm (f e) = ce_setclientid_confirm e"
    and "inv db" "distinct es" "set es \<subseteq> set (cdb_iter ops db)"
  shows "\<exists>db'. modify_entries ops f es db = (Some (), db') \<and> inv db' \<and>
    set (cdb_iter ops db') = (set (cdb_iter ops db) - set es) \<union> f ` set es"
  using assms(2-4)
proof (induction es arbitrary: db)
  case (Cons e es)
  let ?R = "set (cdb_iter ops db)"
  have e: "e \<in> ?R" "e \<notin> set es" "set es \<subseteq> ?R" using Cons.prems by auto
  from remove_token_set [OF Cons.prems(1) e(1)] obtain db1 where
    1: "cdb_remove_by_confirm ops db (ce_setclientid_confirm e) = (Some e, db1)" "inv db1"
      "set (cdb_iter ops db1) = ?R - {e}" by blast
  have uniq: "x = y" if "x \<in> ?R" "y \<in> ?R" "ce_setclientid_confirm x = ce_setclientid_confirm y" for x y
    using tok.key_inj [OF Cons.prems(1)] that by (auto simp: inj_on_def)
  have "\<exists>db2. cdb_insert ops db1 (f e) = Some db2 \<and> inv db2 \<and>
      set (cdb_iter ops db2) = insert (f e) (?R - {e})"
    by (rule tok.replace_set [OF Cons.prems(1) e(1) 1(1)]) (simp add: ce_clash_def assms(1))
  then obtain db2 where 2: "cdb_insert ops db1 (f e) = Some db2" "inv db2"
      "set (cdb_iter ops db2) = insert (f e) (?R - {e})" by blast
  have "f e \<notin> set es"
    using uniq [of "f e" e] e assms(1) by (metis subsetD)
  moreover have "set es \<subseteq> set (cdb_iter ops db2)" "distinct es" using e 2(3) Cons.prems(2) by auto
  ultimately show ?case
    using Cons.IH [OF 2(2)] 1 2 by (auto simp: insert_Diff_if)
qed simp

lemma mark_courtesy_spec:
  assumes "inv db"
  shows "\<exists>db'. mark_courtesy ops cids db = (Some (), db') \<and> inv db' \<and>
    set (cdb_iter ops db') =
      (\<lambda>e. if ce_clientid e \<in> set cids then e\<lparr>ce_courtesy := True\<rparr> else e) ` set (cdb_iter ops db)"
  using assms
proof (induction cids arbitrary: db)
  case (Cons c cids)
  let ?es = "cdb_get_by_clientid ops db c" and ?f = "\<lambda>e. e\<lparr>ce_courtesy := True\<rparr>"
  have es: "set ?es = {x \<in> set (cdb_iter ops db). ce_clientid x = c}" "distinct ?es"
    using cid.get_by_set [OF Cons.prems] cid.get_by_distinct [OF Cons.prems] by auto
  from modify_entries_spec [where f = ?f, OF _ Cons.prems es(2)] es(1) obtain db1 where
    1: "modify_entries ops ?f ?es db = (Some (), db1)" "inv db1"
      "set (cdb_iter ops db1) = (set (cdb_iter ops db) - set ?es) \<union> ?f ` set ?es" by auto
  from Cons.IH [OF 1(2)] obtain db2 where
    2: "mark_courtesy ops cids db1 = (Some (), db2)" "inv db2"
      "set (cdb_iter ops db2) =
        (\<lambda>e. if ce_clientid e \<in> set cids then ?f e else e) ` set (cdb_iter ops db1)" by blast
  have "set (cdb_iter ops db1) = (\<lambda>e. if ce_clientid e = c then ?f e else e) ` set (cdb_iter ops db)"
    using 1(3) es(1) by (auto simp: image_iff)
  then have "set (cdb_iter ops db2) =
      (\<lambda>e. if ce_clientid e \<in> set (c # cids) then ?f e else e) ` set (cdb_iter ops db)"
    unfolding 2(3) by (simp only: image_image) (rule image_cong, auto)
  with 1 2 show ?case by auto
qed simp

lemma remove_clientids_spec:
  assumes "inv db"
  shows "inv (foldl (cdb_remove_by_clientid ops) db cids) \<and>
    set (cdb_iter ops (foldl (cdb_remove_by_clientid ops) db cids)) =
      {e \<in> set (cdb_iter ops db). ce_clientid e \<notin> set cids}"
  using assms
proof (induction cids arbitrary: db)
  case (Cons c cids)
  from Cons.IH [OF cid.remove_by_inv [OF Cons.prems, of c]]
  show ?case by (auto simp: cid.remove_by_set [OF Cons.prems])
qed simp

lemma remove_tokens_spec:
  assumes "inv db" "set es \<subseteq> set (cdb_iter ops db)"
  shows "inv (remove_tokens ops es db) \<and>
    set (cdb_iter ops (remove_tokens ops es db)) = set (cdb_iter ops db) - set es"
proof -
  have "inv (remove_tokens ops es db) \<and> set (cdb_iter ops (remove_tokens ops es db)) =
      {x \<in> set (cdb_iter ops db). ce_setclientid_confirm x \<notin> ce_setclientid_confirm ` set es}"
    using assms(1)
  proof (induction es arbitrary: db)
    case (Cons e es)
    let ?db = "snd (cdb_remove_by_confirm ops db (ce_setclientid_confirm e))"
    have step: "remove_tokens ops (e # es) db = remove_tokens ops es ?db"
      by (simp add: remove_tokens_def)
    from Cons.IH [OF tok.remove_by_inv [OF Cons.prems]] show ?case
      by (auto simp: step tok.remove_by_set [OF Cons.prems])
  qed (simp add: remove_tokens_def)
  moreover have "ce_setclientid_confirm x \<in> ce_setclientid_confirm ` set es \<longleftrightarrow> x \<in> set es"
    if "x \<in> set (cdb_iter ops db)" for x
    using tok.key_inj [OF assms(1)] assms(2) that by (auto simp: inj_on_def image_iff)
  ultimately show ?thesis by auto
qed

end

section \<open>The invariant\<close>

text \<open>
  Client ids were issued by this server, an id string and its client id determine each other,
  and each client has at most one confirmed and one unconfirmed record.
\<close>

definition recs_ok :: "client_entry set \<Rightarrow> u64 \<Rightarrow> bool" where
  "recs_ok R n \<longleftrightarrow> (\<forall>e \<in> R. ce_clientid e \<le> n) \<and>
     (\<forall>e \<in> R. \<forall>f \<in> R. ce_id e = ce_id f \<longleftrightarrow> ce_clientid e = ce_clientid f) \<and>
     (\<forall>e \<in> R. \<forall>f \<in> R. ce_id e = ce_id f \<longrightarrow> ce_confirmed e = ce_confirmed f \<longrightarrow> e = f)"

definition cm_inv :: "'db client_db_ops \<Rightarrow> ('db \<Rightarrow> bool) \<Rightarrow> 'db client_manager \<Rightarrow> bool" where
  "cm_inv C cinv cm \<longleftrightarrow> cinv (cm_db cm) \<and> recs_ok (records C cm) (cm_client_id_seq cm)"

lemma recs_ok_mono: "recs_ok R m \<Longrightarrow> S \<subseteq> R \<Longrightarrow> m \<le> n \<Longrightarrow> recs_ok S n"
  by (auto simp: recs_ok_def subset_iff dest: order.trans)

lemma recs_okD:
  assumes "recs_ok R n" "e \<in> R" "f \<in> R"
  shows "ce_clientid e \<le> n" "ce_id e = ce_id f \<longleftrightarrow> ce_clientid e = ce_clientid f"
    "ce_id e = ce_id f \<Longrightarrow> ce_confirmed e = ce_confirmed f \<Longrightarrow> e = f"
  using assms by (auto simp: recs_ok_def)

text \<open>Adding a record of a known client with no record of its kind, or of a new client.\<close>

lemma recs_ok_insert:
  assumes "recs_ok R n" "ce_clientid e \<le> n"
    and "\<forall>f \<in> R. ce_id f = ce_id e \<longleftrightarrow> ce_clientid f = ce_clientid e"
    and "\<forall>f \<in> R. ce_id f = ce_id e \<longrightarrow> ce_confirmed f \<noteq> ce_confirmed e"
  shows "recs_ok (insert e R) n"
proof -
  note D = recs_okD [OF assms(1)]
  have "ce_clientid x \<le> n" if "x \<in> insert e R" for x
    using that D(1) assms(2) by blast
  moreover have "ce_id x = ce_id y \<longleftrightarrow> ce_clientid x = ce_clientid y"
    if "x \<in> insert e R" "y \<in> insert e R" for x y
    using that D(2) assms(3) by (elim insertE) (simp_all, metis+)
  moreover have "x = y"
    if xy: "x \<in> insert e R" "y \<in> insert e R" "ce_id x = ce_id y" "ce_confirmed x = ce_confirmed y" for x y
  proof -
    consider "x = e" "y = e" | "x = e" "y \<in> R" | "x \<in> R" "y = e" | "x \<in> R" "y \<in> R"
      using xy(1,2) by blast
    then show ?thesis
    proof cases
      case 2 with assms(4) xy(3,4) show ?thesis by metis
    next
      case 3 with assms(4) xy(3,4) show ?thesis by metis
    next
      case 4 then show ?thesis by (rule D(3) [OF _ _ xy(3,4)])
    qed simp
  qed
  ultimately show ?thesis by (simp add: recs_ok_def)
qed

lemma recs_ok_image:
  assumes "recs_ok R n" "\<And>e. ce_clientid (f e) = ce_clientid e" "\<And>e. ce_id (f e) = ce_id e"
    "\<And>e. ce_confirmed (f e) = ce_confirmed e"
  shows "recs_ok (f ` R) n"
  using assms by (auto simp: recs_ok_def)

section \<open>SETCLIENTID\<close>

lemma scan_same_id_eq:
  "scan_same_id p es rm ex =
    (if \<exists>e \<in> set es. ce_confirmed e \<and> ce_principal e \<noteq> p then Inl Nfs4errClidInuse
     else Inr (rm @ filter (\<lambda>e. \<not> ce_confirmed e) es, if es = [] then ex else Some (ce_clientid (last es))))"
  by (induction es arbitrary: rm ex) auto

text \<open>The record SETCLIENTID creates.\<close>

definition new_client :: "nat \<Rightarrow> bytes \<Rightarrow> bytes \<Rightarrow> string \<Rightarrow> client_callback \<Rightarrow> string option \<Rightarrow> u64 \<Rightarrow> client_entry" where
  "new_client now token verifier cid cb prin c =
    \<lparr>ce_principal = prin, ce_verifier = verifier, ce_id = cid, ce_clientid = c, ce_callback = cb,
     ce_setclientid_confirm = token, ce_confirmed = False, ce_last_renewed = now, ce_courtesy = False\<rparr>"

lemma new_client_sel [simp]:
  "ce_principal (new_client now token v i cb p c) = p" "ce_id (new_client now token v i cb p c) = i"
  "ce_clientid (new_client now token v i cb p c) = c"
  "ce_setclientid_confirm (new_client now token v i cb p c) = token"
  "\<not> ce_confirmed (new_client now token v i cb p c)" "\<not> ce_courtesy (new_client now token v i cb p c)"
  "ce_last_renewed (new_client now token v i cb p c) = now"
  by (simp_all add: new_client_def)

context client_db
begin

lemma upsert_in_use:
  assumes "inv (cm_db cm)"
    and "\<exists>e \<in> records ops cm. ce_id e = i \<and> ce_confirmed e \<and> ce_principal e \<noteq> prin"
  shows "upsert_client ops now token cm verifier i cb prin = (Some (Inl Nfs4errClidInuse), cm)"
  using assms nid.get_by_set [OF assms(1), of i]
  by (auto simp: upsert_client_def scan_same_id_eq records_def)

text \<open>
  SETCLIENTID when no confirmed record of another principal stands in the way: the unconfirmed
  record of the client is replaced by a new one, unless the random token is taken by a record
  that stays, in which case the insertion panics.
\<close>

text \<open>The client id of an id string, known or next to be issued, belongs to no other id string.\<close>

lemma client_id_of:
  assumes ok: "recs_ok R n" and lt: "n < n + 1" and same: "\<And>e. e \<in> R \<Longrightarrow> ce_id e = i \<Longrightarrow> ce_clientid e = c"
    and fresh: "\<forall>e \<in> R. ce_id e \<noteq> i \<Longrightarrow> c = n + 1" and f: "f \<in> R"
  shows "ce_id f = i \<longleftrightarrow> ce_clientid f = c"
proof (cases "\<exists>e \<in> R. ce_id e = i")
  case True
  then obtain e where "e \<in> R" "ce_id e = i" by blast
  with same [of e] recs_okD(2) [OF ok f this(1)] show ?thesis by auto
next
  case False
  with fresh have "c = n + 1" by blast
  with recs_okD(1) [OF ok f f] lt False f show ?thesis by auto
qed

text \<open>SETCLIENTID after its scan: the insertion decides.\<close>

lemma upsert_after_scan:
  assumes "scan_same_id prin (cdb_get_by_id ops (cm_db cm) i) [] None = Inr (rm, ex)"
  defines "c \<equiv> case ex of Some c \<Rightarrow> c | None \<Rightarrow> cm_client_id_seq cm + 1"
    and "n \<equiv> case ex of Some _ \<Rightarrow> cm_client_id_seq cm | None \<Rightarrow> cm_client_id_seq cm + 1"
    and "db \<equiv> remove_tokens ops rm (cm_db cm)"
  shows "upsert_client ops now token cm verifier i cb prin =
    (case cdb_insert ops db (new_client now token verifier i cb prin c) of
       None \<Rightarrow> (None, cm\<lparr>cm_db := db, cm_client_id_seq := n\<rparr>)
     | Some db' \<Rightarrow> (Some (Inr (new_client now token verifier i cb prin c)), cm\<lparr>cm_db := db', cm_client_id_seq := n\<rparr>))"
  using assms(1)
  by (cases ex) (simp_all add: upsert_client_def add_client_record_def get_next_client_id_def Let_def c_def n_def db_def
      new_client_def split: option.split)

lemma upsert_cases:
  fixes i :: string
  assumes I: "cm_inv ops inv cm" and seq: "cm_client_id_seq cm < - 1"
    and free: "\<forall>e \<in> records ops cm. ce_id e = i \<longrightarrow> ce_confirmed e \<longrightarrow> ce_principal e = prin"
  defines "S \<equiv> records ops cm - {e. ce_id e = i \<and> \<not> ce_confirmed e}"
  shows "\<exists>c cm'. (\<forall>e \<in> records ops cm. ce_id e = i \<longrightarrow> ce_clientid e = c) \<and>
    ((\<forall>e \<in> records ops cm. ce_id e \<noteq> i) \<longrightarrow> c = cm_client_id_seq cm + 1) \<and>
    (if \<exists>e \<in> S. ce_setclientid_confirm e = token
     then upsert_client ops now token cm verifier i cb prin = (None, cm') \<and> records ops cm' = S
     else upsert_client ops now token cm verifier i cb prin =
         (Some (Inr (new_client now token verifier i cb prin c)), cm') \<and>
       records ops cm' = insert (new_client now token verifier i cb prin c) S) \<and>
    cm_inv ops inv cm' \<and> cm_lease_time cm' = cm_lease_time cm \<and>
    unat (cm_client_id_seq cm') \<le> Suc (unat (cm_client_id_seq cm))"
proof -
  let ?R = "records ops cm" and ?es = "cdb_get_by_id ops (cm_db cm) i" and ?n = "cm_client_id_seq cm"
  have inv: "inv (cm_db cm)" and ok: "recs_ok ?R ?n" using I by (simp_all add: cm_inv_def)
  have es: "set ?es = {e \<in> ?R. ce_id e = i}" using nid.get_by_set [OF inv] by (simp add: records_def)
  define rm where "rm = filter (\<lambda>e. \<not> ce_confirmed e) ?es"
  define ex where "ex = (if ?es = [] then None else Some (ce_clientid (last ?es)))"
  define c where "c = (case ex of Some c \<Rightarrow> c | None \<Rightarrow> ?n + 1)"
  define n' where "n' = (case ex of Some _ \<Rightarrow> ?n | None \<Rightarrow> ?n + 1)"
  have scan: "scan_same_id prin ?es [] None = Inr (rm, ex)"
    using free es by (auto simp: scan_same_id_eq rm_def ex_def)
  let ?db = "remove_tokens ops rm (cm_db cm)" and ?e = "new_client now token verifier i cb prin c"
  have R': "inv ?db" "set (cdb_iter ops ?db) = ?R - {e. ce_id e = i \<and> \<not> ce_confirmed e}"
    using remove_tokens_spec [OF inv, of rm] es by (auto simp: rm_def records_def)
  have last: "last ?es \<in> ?R \<and> ce_id (last ?es) = i" if "?es \<noteq> []"
    using last_in_set [OF that] es by auto
  have same: "ce_clientid e = c" if "e \<in> ?R" "ce_id e = i" for e
  proof -
    have "?es \<noteq> []" using that es by (metis (mono_tags, lifting) empty_iff empty_set mem_Collect_eq)
    with last [OF this] recs_okD(2) [OF ok that(1), of "last ?es"] that(2)
    show ?thesis by (simp add: c_def ex_def)
  qed
  have fresh: "c = ?n + 1" if "\<forall>e \<in> ?R. ce_id e \<noteq> i"
    using that es by (simp add: c_def ex_def) (metis (mono_tags, lifting) Collect_empty_eq set_empty)
  have lt: "?n < ?n + 1" using seq by (rule word_less_Suc)
  have n'le: "?n \<le> n'" "c \<le> n'"
    using lt last recs_okD(1) [OF ok] by (auto simp: n'_def c_def ex_def less_imp_le split: option.splits)
  have iff: "ce_id f = i \<longleftrightarrow> ce_clientid f = c" if "f \<in> ?R" for f
    by (rule client_id_of [OF ok lt same fresh that])
  note upsert = upsert_after_scan [OF scan, folded c_def n'_def]
  have ok': "recs_ok S n'" by (rule recs_ok_mono [OF ok]) (use n'le in \<open>auto simp: S_def\<close>)
  have n'unat: "unat n' \<le> Suc (unat ?n)"
    using unat_Suc_word [OF seq] by (simp add: n'_def split: option.split)
  show ?thesis
  proof (cases "\<exists>e \<in> S. ce_setclientid_confirm e = token")
    case True
    then have none: "cdb_insert ops ?db ?e = None"
      using tok.insert_None_iff [OF R'(1), of ?e] R'(2) by (auto simp: ce_clash_def S_def)
    let ?cm = "cm\<lparr>cm_db := ?db, cm_client_id_seq := n'\<rparr>"
    have "upsert_client ops now token cm verifier i cb prin = (None, ?cm)"
      using none by (simp add: upsert)
    moreover have "records ops ?cm = S" using R'(2) by (simp add: records_def S_def)
    moreover from this have "cm_inv ops inv ?cm" using ok' R'(1) by (simp add: cm_inv_def)
    ultimately show ?thesis
      using same fresh True n'unat by (intro exI [of _ c] exI [of _ ?cm]) auto
  next
    case False
    then have "\<forall>x \<in> set (cdb_iter ops ?db). \<not> ce_clash x ?e"
      using R'(2) by (auto simp: ce_clash_def S_def)
    from tok.insert_fresh [OF R'(1) this] obtain db where
      db: "cdb_insert ops ?db ?e = Some db" "inv db" "set (cdb_iter ops db) = insert ?e S"
      using R'(2) by (auto simp: S_def)
    let ?cm = "cm\<lparr>cm_db := db, cm_client_id_seq := n'\<rparr>"
    have "recs_ok (insert ?e S) n'"
      by (rule recs_ok_insert [OF ok']) (use n'le iff in \<open>auto simp: S_def\<close>)
    then have "cm_inv ops inv ?cm" using db by (simp add: cm_inv_def records_def)
    moreover have "upsert_client ops now token cm verifier i cb prin = (Some (Inr ?e), ?cm)"
      using db(1) by (simp add: upsert)
    ultimately show ?thesis
      using same fresh db(3) False n'unat by (intro exI [of _ c] exI [of _ ?cm]) (auto simp: records_def)
  qed
qed

lemma upsert_inv:
  assumes "cm_inv ops inv cm" "cm_client_id_seq cm < - 1"
    and u: "upsert_client ops now token cm verifier i cb prin = (r, cm')"
  shows "cm_inv ops inv cm' \<and> unat (cm_client_id_seq cm') \<le> Suc (unat (cm_client_id_seq cm))"
proof (cases "\<exists>e \<in> records ops cm. ce_id e = i \<and> ce_confirmed e \<and> ce_principal e \<noteq> prin")
  case True
  then show ?thesis using upsert_in_use [of cm i prin now token verifier cb] u assms(1) by (simp add: cm_inv_def)
next
  case False
  then have "\<forall>e \<in> records ops cm. ce_id e = i \<longrightarrow> ce_confirmed e \<longrightarrow> ce_principal e = prin" by blast
  from upsert_cases [OF assms(1,2) this, of token now verifier cb] u show ?thesis
    by (auto split: if_splits)
qed

end

section \<open>SETCLIENTID\_CONFIRM\<close>

definition last_opt :: "'a option \<Rightarrow> 'a list \<Rightarrow> 'a option" where
  "last_opt d xs = (if xs = [] then d else Some (last xs))"

lemma scan_confirm_eq:
  "scan_confirm p token es old new =
    (if \<exists>e \<in> set es. ce_principal e \<noteq> p then Inl Nfs4errClidInuse
     else Inr (last_opt old (filter (\<lambda>e. ce_confirmed e \<and> ce_setclientid_confirm e \<noteq> token) es),
       last_opt new (map (\<lambda>e. e\<lparr>ce_confirmed := True\<rparr>) (filter (\<lambda>e. ce_setclientid_confirm e = token) es))))"
  by (induction es arbitrary: old new) (auto simp: last_opt_def)

lemma last_opt_None [simp]: "last_opt None xs = None \<longleftrightarrow> xs = []"
  by (simp add: last_opt_def)

lemma last_opt_Some: "last_opt None xs = Some x \<Longrightarrow> x \<in> set xs"
  by (auto simp: last_opt_def split: if_splits)

context client_db
begin

lemma confirm_errors:
  assumes "inv (cm_db cm)"
  shows "\<forall>e \<in> records ops cm. ce_clientid e \<noteq> c \<Longrightarrow>
      confirm_client ops cm c token prin = (Some (Inl Nfs4errStaleClientid), cm)"
    and "\<exists>e \<in> records ops cm. ce_clientid e = c \<and> ce_principal e \<noteq> prin \<Longrightarrow>
      confirm_client ops cm c token prin = (Some (Inl Nfs4errClidInuse), cm)"
proof -
  have es: "set (cdb_get_by_clientid ops (cm_db cm) c) = {e \<in> records ops cm. ce_clientid e = c}"
    using cid.get_by_set [OF assms] by (simp add: records_def)
  show "confirm_client ops cm c token prin = (Some (Inl Nfs4errStaleClientid), cm)"
    if "\<forall>e \<in> records ops cm. ce_clientid e \<noteq> c"
  proof -
    have "cdb_get_by_clientid ops (cm_db cm) c = []"
      using that es by (simp flip: set_empty)
    then show ?thesis by (simp add: confirm_client_def)
  qed
  show "confirm_client ops cm c token prin = (Some (Inl Nfs4errClidInuse), cm)"
    if ex: "\<exists>e \<in> records ops cm. ce_clientid e = c \<and> ce_principal e \<noteq> prin"
  proof -
    have bad: "\<exists>e \<in> set (cdb_get_by_clientid ops (cm_db cm) c). ce_principal e \<noteq> prin"
      using ex es by auto
    then have "cdb_get_by_clientid ops (cm_db cm) c \<noteq> []" by auto
    with bad show ?thesis by (simp add: confirm_client_def scan_confirm_eq)
  qed
qed

text \<open>The confirmed record that is replaced: another confirmed record of the same client.\<close>

lemma confirm_scan:
  assumes I: "cm_inv ops inv cm"
    and prin: "\<forall>e \<in> records ops cm. ce_clientid e = c \<longrightarrow> ce_principal e = prin"
  defines "es \<equiv> cdb_get_by_clientid ops (cm_db cm) c"
  shows "\<exists>old new. scan_confirm prin token es None None = Inr (old, new) \<and>
    set_option old = {e \<in> records ops cm. ce_clientid e = c \<and> ce_confirmed e \<and> ce_setclientid_confirm e \<noteq> token} \<and>
    set_option new = (\<lambda>e. e\<lparr>ce_confirmed := True\<rparr>) `
      {e \<in> records ops cm. ce_clientid e = c \<and> ce_setclientid_confirm e = token}"
proof -
  let ?R = "records ops cm"
  have inv: "inv (cm_db cm)" and ok: "recs_ok ?R (cm_client_id_seq cm)" using I by (simp_all add: cm_inv_def)
  have es: "set es = {e \<in> ?R. ce_clientid e = c}" using cid.get_by_set [OF inv] by (simp add: es_def records_def)
  have uniq: "x = y" if "x \<in> ?R" "y \<in> ?R" "ce_setclientid_confirm x = ce_setclientid_confirm y" for x y
    using tok.key_inj [OF inv] that by (auto simp: inj_on_def records_def)
  have one: "set_option (last_opt None xs) = set xs" if "\<And>x y. x \<in> set xs \<Longrightarrow> y \<in> set xs \<Longrightarrow> x = y"
    for xs :: "client_entry list"
  proof (cases "xs = []")
    case False
    with that [OF last_in_set] show ?thesis by (auto simp: last_opt_def)
  qed (simp add: last_opt_def)
  let ?old = "filter (\<lambda>e. ce_confirmed e \<and> ce_setclientid_confirm e \<noteq> token) es"
    and ?new = "map (\<lambda>e. e\<lparr>ce_confirmed := True\<rparr>) (filter (\<lambda>e. ce_setclientid_confirm e = token) es)"
  have "scan_confirm prin token es None None = Inr (last_opt None ?old, last_opt None ?new)"
    using prin es by (auto simp: scan_confirm_eq)
  moreover have "set_option (last_opt None ?old) = set ?old"
    by (rule one) (use es recs_okD(2,3) [OF ok] in auto)
  moreover have "set_option (last_opt None ?new) = set ?new"
    by (rule one) (use es uniq in auto)
  ultimately show ?thesis
    using es by (intro exI [of _ "last_opt None ?old"] exI [of _ "last_opt None ?new"]) simp
qed

lemma drop_old_confirmed:
  assumes "inv (cm_db cm)" "set_option old \<subseteq> records ops cm"
  defines "db \<equiv> (case old of Some e \<Rightarrow> snd (cdb_remove_by_confirm ops (cm_db cm) (ce_setclientid_confirm e))
                  | None \<Rightarrow> cm_db cm)"
  shows "inv db" "set (cdb_iter ops db) = records ops cm - set_option old"
proof -
  have "inv db \<and> set (cdb_iter ops db) = records ops cm - set_option old"
  proof (cases old)
    case (Some e)
    with assms(2) have "e \<in> set (cdb_iter ops (cm_db cm))" by (simp add: records_def)
    from remove_token_set [OF assms(1) this] obtain db1 where
      "cdb_remove_by_confirm ops (cm_db cm) (ce_setclientid_confirm e) = (Some e, db1)" "inv db1"
      "set (cdb_iter ops db1) = set (cdb_iter ops (cm_db cm)) - {e}" by blast
    with Some show ?thesis by (simp add: db_def records_def)
  qed (use assms(1) in \<open>simp add: db_def records_def\<close>)
  then show "inv db" "set (cdb_iter ops db) = records ops cm - set_option old" by simp_all
qed

lemma confirm_no_match:
  assumes I: "cm_inv ops inv cm"
    and some: "\<exists>e \<in> records ops cm. ce_clientid e = c"
    and prin: "\<forall>e \<in> records ops cm. ce_clientid e = c \<longrightarrow> ce_principal e = prin"
    and none: "\<forall>e \<in> records ops cm. ce_clientid e = c \<longrightarrow> ce_setclientid_confirm e \<noteq> token"
  shows "\<exists>cm'. confirm_client ops cm c token prin = (Some (Inl Nfs4errStaleClientid), cm') \<and>
    records ops cm' = records ops cm - {e. ce_clientid e = c \<and> ce_confirmed e} \<and> cm_inv ops inv cm'"
proof -
  have inv: "inv (cm_db cm)" and ok: "recs_ok (records ops cm) (cm_client_id_seq cm)"
    using I by (simp_all add: cm_inv_def)
  have "{e \<in> records ops cm. ce_clientid e = c \<and> ce_confirmed e \<and> ce_setclientid_confirm e \<noteq> token} =
      {e \<in> records ops cm. ce_clientid e = c \<and> ce_confirmed e}"
    "{e \<in> records ops cm. ce_clientid e = c \<and> ce_setclientid_confirm e = token} = {}"
    using none by auto
  with confirm_scan [OF I prin, of token] obtain old where
    sc: "scan_confirm prin token (cdb_get_by_clientid ops (cm_db cm) c) None None = Inr (old, None)"
      "set_option old = {e \<in> records ops cm. ce_clientid e = c \<and> ce_confirmed e}" by auto
  have ne: "cdb_get_by_clientid ops (cm_db cm) c \<noteq> []"
    using some cid.get_by_empty_iff [OF inv] by (auto simp: records_def)
  define db where "db = (case old of Some e \<Rightarrow> snd (cdb_remove_by_confirm ops (cm_db cm) (ce_setclientid_confirm e))
      | None \<Rightarrow> cm_db cm)"
  have d: "inv db" "set (cdb_iter ops db) = records ops cm - set_option old"
    using drop_old_confirmed [OF inv, of old, folded db_def] sc(2) by auto
  have "recs_ok (records ops cm - set_option old) (cm_client_id_seq cm)"
    by (rule recs_ok_mono [OF ok]) auto
  then have "cm_inv ops inv (cm\<lparr>cm_db := db\<rparr>)" using d by (simp add: cm_inv_def records_def)
  moreover have "confirm_client ops cm c token prin = (Some (Inl Nfs4errStaleClientid), cm\<lparr>cm_db := db\<rparr>)"
    using ne sc(1) by (simp add: confirm_client_def Let_def db_def)
  moreover have "records ops (cm\<lparr>cm_db := db\<rparr>) = records ops cm - {e. ce_clientid e = c \<and> ce_confirmed e}"
    using d(2) sc(2) by (auto simp: records_def)
  ultimately show ?thesis by blast
qed

lemma confirm_match:
  assumes I: "cm_inv ops inv cm"
    and prin: "\<forall>e \<in> records ops cm. ce_clientid e = c \<longrightarrow> ce_principal e = prin"
    and e: "e \<in> records ops cm" "ce_clientid e = c" "ce_setclientid_confirm e = token"
  defines "e' \<equiv> e\<lparr>ce_confirmed := True\<rparr>"
  shows "\<exists>cm'. confirm_client ops cm c token prin = (Some (Inr e'), cm') \<and>
    records ops cm' = insert e' (records ops cm - {f. ce_clientid f = c \<and> (ce_confirmed f \<or> f = e)}) \<and>
    cm_inv ops inv cm'"
proof -
  let ?R = "records ops cm"
  have inv: "inv (cm_db cm)" and ok: "recs_ok ?R (cm_client_id_seq cm)"
    using I by (simp_all add: cm_inv_def)
  have uniq: "f = e" if "f \<in> ?R" "ce_setclientid_confirm f = token" for f
    using tok.key_inj [OF inv] that e by (auto simp: inj_on_def records_def)
  obtain old new where
    sc: "scan_confirm prin token (cdb_get_by_clientid ops (cm_db cm) c) None None = Inr (old, new)"
      "set_option old = {f \<in> ?R. ce_clientid f = c \<and> ce_confirmed f \<and> ce_setclientid_confirm f \<noteq> token}"
      "set_option new = (\<lambda>e. e\<lparr>ce_confirmed := True\<rparr>) ` {f \<in> ?R. ce_clientid f = c \<and> ce_setclientid_confirm f = token}"
    using confirm_scan [OF I prin, of token] by blast
  have "{f \<in> ?R. ce_clientid f = c \<and> ce_setclientid_confirm f = token} = {e}" using uniq e by blast
  with sc(3) have "set_option new = {e'}" by (simp add: e'_def)
  then have new: "new = Some e'" by (cases new) auto
  define db where "db = (case old of Some e \<Rightarrow> snd (cdb_remove_by_confirm ops (cm_db cm) (ce_setclientid_confirm e))
      | None \<Rightarrow> cm_db cm)"
  note d = drop_old_confirmed [OF inv, of old, folded db_def]
  have d': "inv db" "set (cdb_iter ops db) = ?R - set_option old" using d sc(2) by auto
  have "e \<in> set (cdb_iter ops db)" using d' sc(2) e by auto
  note rep = tok.remove_by_member [OF d'(1) this]
  then obtain db1 where 1: "cdb_remove_by_confirm ops db (ce_setclientid_confirm e) = (Some e, db1)" by blast
  obtain db2 where 2: "cdb_insert ops db1 e' = Some db2" "inv db2"
      "set (cdb_iter ops db2) = insert e' (set (cdb_iter ops db) - {e})"
    using tok.replace_set [OF d'(1) \<open>e \<in> set (cdb_iter ops db)\<close> 1, of e'] by (auto simp: ce_clash_def e'_def)
  have ne: "cdb_get_by_clientid ops (cm_db cm) c \<noteq> []"
    using e cid.get_by_empty_iff [OF inv] by (auto simp: records_def)
  have run: "confirm_client ops cm c token prin = (Some (Inr e'), cm\<lparr>cm_db := db2\<rparr>)"
    using ne sc(1) new 1 2(1) by (simp add: confirm_client_def Let_def db_def [symmetric] e'_def)
  let ?S = "?R - {f. ce_clientid f = c \<and> (ce_confirmed f \<or> f = e)}"
  have key: "ce_setclientid_confirm f = token \<longleftrightarrow> f = e" if "f \<in> ?R" for f
    using uniq e that by blast
  have "?R - set_option old - {e} = ?S"
    unfolding sc(2) using key e(2) by blast
  then have R2: "set (cdb_iter ops db2) = insert e' ?S"
    using 2(3) d'(2) by simp
  have "recs_ok (insert e' ?S) (cm_client_id_seq cm)"
  proof (rule recs_ok_insert [OF recs_ok_mono [OF ok]])
    show "?S \<subseteq> ?R" "cm_client_id_seq cm \<le> cm_client_id_seq cm" by auto
    show "ce_clientid e' \<le> cm_client_id_seq cm" using recs_okD(1) [OF ok e(1,1)] by (simp add: e'_def)
    show "\<forall>f \<in> ?S. ce_id f = ce_id e' \<longleftrightarrow> ce_clientid f = ce_clientid e'"
      using recs_okD(2) [OF ok _ e(1)] by (simp add: e'_def)
    show "\<forall>f \<in> ?S. ce_id f = ce_id e' \<longrightarrow> ce_confirmed f \<noteq> ce_confirmed e'"
      using recs_okD(2) [OF ok _ e(1)] e(2) by (simp add: e'_def)
  qed
  with R2 2(2) have "cm_inv ops inv (cm\<lparr>cm_db := db2\<rparr>)" by (simp add: cm_inv_def records_def)
  with run R2 show ?thesis by (intro exI [of _ "cm\<lparr>cm_db := db2\<rparr>"]) (simp add: records_def)
qed

end

section \<open>Leases\<close>

definition lease_expired :: "nat \<Rightarrow> u64 \<Rightarrow> client_entry \<Rightarrow> bool" where
  "lease_expired now lease e \<longleftrightarrow> ce_confirmed e \<and> \<not> ce_courtesy e \<and> elapsed_secs now e \<ge> unat lease"

definition courtesy_over :: "nat \<Rightarrow> u64 \<Rightarrow> client_entry \<Rightarrow> bool" where
  "courtesy_over now lease e \<longleftrightarrow> ce_confirmed e \<and> ce_courtesy e \<and> elapsed_secs now e \<ge> unat (lease * 2)"

lemma classify_leases_eq:
  "classify_leases now lease es =
    (map ce_clientid (filter (lease_expired now lease) es), map ce_clientid (filter (courtesy_over now lease) es))"
  by (induction es) (auto simp: lease_expired_def courtesy_over_def Let_def)

text \<open>What the sweep makes of one record, given the clients whose lease has expired.\<close>

definition swept :: "nat \<Rightarrow> u64 \<Rightarrow> client_entry set \<Rightarrow> client_entry \<Rightarrow> client_entry" where
  "swept now lease R e =
    (if \<exists>f \<in> R. lease_expired now lease f \<and> ce_clientid f = ce_clientid e
     then e\<lparr>ce_courtesy := True\<rparr> else e)"

lemma swept_sel [simp]:
  "ce_clientid (swept now lease R e) = ce_clientid e" "ce_id (swept now lease R e) = ce_id e"
  "ce_confirmed (swept now lease R e) = ce_confirmed e"
  "ce_last_renewed (swept now lease R e) = ce_last_renewed e"
  by (simp_all add: swept_def)

context client_db
begin

lemma sweep_spec:
  assumes I: "cm_inv ops inv cm"
  defines "R \<equiv> records ops cm" and "lease \<equiv> cm_lease_time cm"
  shows "\<exists>gone cm'. sweep_leases ops now cm = (Some gone, cm') \<and>
    set gone = ce_clientid ` {e \<in> R. courtesy_over now lease e} \<and>
    records ops cm' = swept now lease R ` {e \<in> R. ce_clientid e \<notin> set gone} \<and>
    cm_inv ops inv cm' \<and> cm_lease_time cm' = lease"
proof -
  have inv: "inv (cm_db cm)" and ok: "recs_ok R (cm_client_id_seq cm)"
    using I by (simp_all add: cm_inv_def R_def)
  let ?cs = "map ce_clientid (filter (lease_expired now lease) (cdb_iter ops (cm_db cm)))"
    and ?gone = "map ce_clientid (filter (courtesy_over now lease) (cdb_iter ops (cm_db cm)))"
  from mark_courtesy_spec [OF inv, of ?cs] obtain db where
    db: "mark_courtesy ops ?cs (cm_db cm) = (Some (), db)" "inv db"
      "set (cdb_iter ops db) = (\<lambda>e. if ce_clientid e \<in> set ?cs then e\<lparr>ce_courtesy := True\<rparr> else e) ` R"
    by (auto simp: R_def records_def)
  have "(\<lambda>e. if ce_clientid e \<in> set ?cs then e\<lparr>ce_courtesy := True\<rparr> else e) = swept now lease R"
  proof
    fix e :: client_entry
    have "ce_clientid e \<in> set ?cs \<longleftrightarrow> (\<exists>f \<in> R. lease_expired now lease f \<and> ce_clientid f = ce_clientid e)"
      by (auto simp: R_def records_def image_iff)
    then show "(if ce_clientid e \<in> set ?cs then e\<lparr>ce_courtesy := True\<rparr> else e) = swept now lease R e"
      by (simp only: swept_def)
  qed
  then have sw: "set (cdb_iter ops db) = swept now lease R ` R" unfolding db(3) by (simp only:)
  let ?db = "foldl (cdb_remove_by_clientid ops) db ?gone"
  have rm: "inv ?db" "set (cdb_iter ops ?db) = swept now lease R ` {e \<in> R. ce_clientid e \<notin> set ?gone}"
    using remove_clientids_spec [OF db(2), of ?gone] sw by auto
  have "recs_ok (swept now lease R ` {e \<in> R. ce_clientid e \<notin> set ?gone}) (cm_client_id_seq cm)"
    by (rule recs_ok_image [OF recs_ok_mono [OF ok]]) auto
  then have "cm_inv ops inv (cm\<lparr>cm_db := ?db\<rparr>)" using rm by (simp add: cm_inv_def records_def)
  moreover have "sweep_leases ops now cm = (Some ?gone, cm\<lparr>cm_db := ?db\<rparr>)"
    using db(1) by (simp add: sweep_leases_def classify_leases_eq lease_def)
  moreover have "set ?gone = ce_clientid ` {e \<in> R. courtesy_over now lease e}"
    by (auto simp: R_def records_def)
  ultimately show ?thesis using rm(2)
    by (intro exI [of _ ?gone] exI [of _ "cm\<lparr>cm_db := ?db\<rparr>"]) (simp add: records_def lease_def)
qed

lemma renew_spec:
  fixes now :: nat
  assumes I: "cm_inv ops inv cm"
  defines "R \<equiv> records ops cm" and "f \<equiv> \<lambda>e. e\<lparr>ce_last_renewed := now, ce_courtesy := False\<rparr>"
  shows "if \<forall>e \<in> R. ce_clientid e \<noteq> c
    then renew_leases ops now cm c = (Some (Inl Nfs4errStaleClientid), cm)
    else if \<exists>e \<in> R. ce_clientid e = c \<and> ce_confirmed e \<and> ce_courtesy e \<and> elapsed_secs now e > unat (cm_lease_time cm * 2)
    then renew_leases ops now cm c = (Some (Inl Nfs4errExpired), cm)
    else \<exists>cm'. renew_leases ops now cm c = (Some (Inr ()), cm') \<and>
      records ops cm' = (\<lambda>e. if ce_clientid e = c then f e else e) ` R \<and> cm_inv ops inv cm'"
proof -
  have inv: "inv (cm_db cm)" and ok: "recs_ok R (cm_client_id_seq cm)"
    using I by (simp_all add: cm_inv_def R_def)
  let ?es = "cdb_get_by_clientid ops (cm_db cm) c"
  have es: "set ?es = {e \<in> R. ce_clientid e = c}" "distinct ?es"
    using cid.get_by_set [OF inv] cid.get_by_distinct [OF inv] by (simp_all add: R_def records_def)
  then have nil: "?es = [] \<longleftrightarrow> (\<forall>e \<in> R. ce_clientid e \<noteq> c)" by (auto simp flip: set_empty)
  from modify_entries_spec [of f, OF _ inv es(2)] es(1) obtain db where
    db: "modify_entries ops f ?es (cm_db cm) = (Some (), db)" "inv db"
      "set (cdb_iter ops db) = (R - set ?es) \<union> f ` set ?es"
    by (auto simp: f_def R_def records_def)
  let ?g = "\<lambda>e. if ce_clientid e = c then f e else e"
  have img: "set (cdb_iter ops db) = ?g ` R" using db(3) es(1) by (auto simp: image_iff)
  have "recs_ok (?g ` R) (cm_client_id_seq cm)"
    by (rule recs_ok_image [OF ok]) (simp_all add: f_def)
  then have inv': "cm_inv ops inv (cm\<lparr>cm_db := db\<rparr>)" using img db(2) by (simp add: cm_inv_def records_def)
  have exp: "(\<exists>e \<in> set ?es. ce_confirmed e \<and> ce_courtesy e \<and> elapsed_secs now e > unat (cm_lease_time cm * 2)) \<longleftrightarrow>
      (\<exists>e \<in> R. ce_clientid e = c \<and> ce_confirmed e \<and> ce_courtesy e \<and> elapsed_secs now e > unat (cm_lease_time cm * 2))"
    using es(1) by auto
  show ?thesis
  proof (cases "?es = []")
    case True
    then show ?thesis using nil by (simp add: renew_leases_def)
  next
    case False
    then show ?thesis
      using nil exp db(1) img inv'
      by (auto simp: renew_leases_def f_def [symmetric] Let_def records_def intro!: exI [of _ "cm\<lparr>cm_db := db\<rparr>"])
  qed
qed

lemma revoke_spec:
  assumes I: "cm_inv ops inv cm"
  shows "records ops (revoke_courtesy_client ops cm c) = {e \<in> records ops cm. ce_clientid e \<noteq> c}"
    and "cm_inv ops inv (revoke_courtesy_client ops cm c)"
proof -
  have inv: "inv (cm_db cm)" and ok: "recs_ok (records ops cm) (cm_client_id_seq cm)"
    using I by (simp_all add: cm_inv_def)
  show r: "records ops (revoke_courtesy_client ops cm c) = {e \<in> records ops cm. ce_clientid e \<noteq> c}"
    using cid.remove_by_set [OF inv] by (simp add: revoke_courtesy_client_def records_def)
  show "cm_inv ops inv (revoke_courtesy_client ops cm c)"
    using recs_ok_mono [OF ok, of "{e \<in> records ops cm. ce_clientid e \<noteq> c}" "cm_client_id_seq cm"] r
      cid.remove_by_inv [OF inv, of c]
    by (auto simp: cm_inv_def revoke_courtesy_client_def)
qed

lemma confirm_inv:
  assumes I: "cm_inv ops inv cm" and u: "confirm_client ops cm c token prin = (r, cm')"
  shows "r \<noteq> None \<and> cm_inv ops inv cm'"
proof -
  have inv: "inv (cm_db cm)" using I by (simp add: cm_inv_def)
  consider "\<forall>e \<in> records ops cm. ce_clientid e \<noteq> c"
    | "\<exists>e \<in> records ops cm. ce_clientid e = c \<and> ce_principal e \<noteq> prin"
    | "\<exists>e \<in> records ops cm. ce_clientid e = c"
      "\<forall>e \<in> records ops cm. ce_clientid e = c \<longrightarrow> ce_principal e = prin"
      "\<forall>e \<in> records ops cm. ce_clientid e = c \<longrightarrow> ce_setclientid_confirm e \<noteq> token"
    | e where "\<forall>e \<in> records ops cm. ce_clientid e = c \<longrightarrow> ce_principal e = prin"
      "e \<in> records ops cm" "ce_clientid e = c" "ce_setclientid_confirm e = token"
    by blast
  then show ?thesis
  proof cases
    case 1 with confirm_errors(1) [OF inv] u I show ?thesis by auto
  next
    case 2 with confirm_errors(2) [OF inv] u I show ?thesis by auto
  next
    case 3 with confirm_no_match [OF I 3] u show ?thesis by auto
  next
    case 4 with confirm_match [OF I 4] u show ?thesis by auto
  qed
qed

text \<open>No message but a SETCLIENTID whose random token is taken can panic.\<close>

lemma handle_message_inv:
  assumes I: "cm_inv ops inv cm" and seq: "cm_client_id_seq cm < - 1"
    and msg: "\<nexists>snaps. msg = RestoreClients snaps"
    and h: "cm_handle_message ops now tokens cm msg = (r, cm')"
  shows "cm_inv ops inv cm' \<and> unat (cm_client_id_seq cm') \<le> Suc (unat (cm_client_id_seq cm))"
proof (cases msg)
  case (UpsertClient v i cb p)
  obtain r1 where "upsert_client ops now (tokens 0) cm v i cb p = (r1, cm')"
    using h UpsertClient by (cases "upsert_client ops now (tokens 0) cm v i cb p")
      (simp add: cm_handle_message_def)
  from upsert_inv [OF I seq this] show ?thesis .
next
  case (ConfirmClient c t p)
  obtain r1 where r: "confirm_client ops cm c t p = (r1, cm')"
    using h ConfirmClient by (cases "confirm_client ops cm c t p") (simp add: cm_handle_message_def)
  have "cm_client_id_seq cm' = cm_client_id_seq cm"
    using r by (auto simp: confirm_client_def Let_def split: if_splits sum.splits option.splits prod.splits)
  with confirm_inv [OF I r] show ?thesis by simp
next
  case (RenewLeases c)
  obtain r1 where r: "renew_leases ops now cm c = (r1, cm')"
    using h RenewLeases by (cases "renew_leases ops now cm c") (simp add: cm_handle_message_def)
  have "cm_client_id_seq cm' = cm_client_id_seq cm"
    using r by (auto simp: renew_leases_def Let_def split: if_splits prod.splits)
  with renew_spec [OF I, of c now] r I show ?thesis by (auto split: if_splits)
next
  case SweepLeases
  obtain r1 where r: "sweep_leases ops now cm = (r1, cm')"
    using h SweepLeases by (cases "sweep_leases ops now cm") (simp add: cm_handle_message_def)
  have "cm_client_id_seq cm' = cm_client_id_seq cm"
    using r by (auto simp: sweep_leases_def split: prod.splits option.splits)
  with sweep_spec [OF I, of now] r show ?thesis by auto
next
  case (RevokeCourtesyClient c)
  then show ?thesis
    using h revoke_spec [OF I, of c] by (auto simp: cm_handle_message_def revoke_courtesy_client_def)
next
  case (SetCurrentFilehandle a f)
  then show ?thesis
    using h I by (auto simp: cm_handle_message_def set_current_fh_def cm_inv_def records_def)
qed (use h I msg in \<open>auto simp: cm_handle_message_def\<close>)

lemma cm_inv_tokens: "cm_inv ops inv cm \<Longrightarrow> inj_on ce_setclientid_confirm (records ops cm)"
  using tok.key_inj by (simp add: cm_inv_def records_def)

lemma cm_inv_new: "cm_inv ops inv (client_manager_new ops)"
  by (simp add: cm_inv_def client_manager_new_def records_def recs_ok_def tok.inv_empty tok.iter_empty)

text \<open>Restoring a snapshot whose confirmed clients have distinct id strings and client ids.\<close>

lemma restore_inv:
  assumes "cm_inv ops inv cm"
    and "distinct (map csn_id (filter csn_confirmed snaps))"
    and "distinct (map csn_clientid (filter csn_confirmed snaps))"
    and "\<forall>s \<in> set snaps. csn_confirmed s \<longrightarrow> csn_clientid s < - 1 \<and>
      (\<forall>e \<in> records ops cm. ce_id e \<noteq> csn_id s \<and> ce_clientid e \<noteq> csn_clientid s)"
  shows "cm_inv ops inv (snd (restore_clients ops now tokens snaps cm n))"
  using assms
proof (induction snaps arbitrary: cm n)
  case (Cons s snaps)
  show ?case
  proof (cases "csn_confirmed s")
    case False
    with Cons show ?thesis by simp
  next
    case True
    define cm1 where "cm1 = (if csn_clientid s \<ge> cm_client_id_seq cm
      then cm\<lparr>cm_client_id_seq := csn_clientid s + 1\<rparr> else cm)"
    let ?e = "snapshot_entry now (tokens n) s"
    have e: "ce_id ?e = csn_id s" "ce_clientid ?e = csn_clientid s" by (simp_all add: snapshot_entry_def)
    have lt: "csn_clientid s < csn_clientid s + 1"
      using Cons.prems(4) True by (simp add: word_less_Suc)
    have seq: "cm_client_id_seq cm \<le> cm_client_id_seq cm1" "csn_clientid s \<le> cm_client_id_seq cm1"
      using lt by (auto simp: cm1_def)
    have R: "records ops cm1 = records ops cm" "cm_db cm1 = cm_db cm"
      by (simp_all add: cm1_def records_def)
    have ok: "recs_ok (records ops cm) (cm_client_id_seq cm1)"
      using Cons.prems(1) recs_ok_mono [OF _ subset_refl seq(1)] by (simp add: cm_inv_def)
    have inv: "inv (cm_db cm)" using Cons.prems(1) by (simp add: cm_inv_def)
    have far: "ce_id f \<noteq> csn_id s" "ce_clientid f \<noteq> csn_clientid s" if "f \<in> records ops cm" for f
      using Cons.prems(4) True that by auto
    show ?thesis
    proof (cases "cdb_insert ops (cm_db cm1) ?e")
      case None
      then have "snd (restore_clients ops now tokens (s # snaps) cm n) = cm1"
        using True by (simp add: cm1_def [symmetric] Let_def)
      with ok inv show ?thesis by (simp add: cm_inv_def R)
    next
      case (Some db)
      note i = tok.insert_SomeD(1,2) [OF inv Some [unfolded R]]
      have "recs_ok (insert ?e (records ops cm)) (cm_client_id_seq cm1)"
        by (rule recs_ok_insert [OF ok]) (use seq far e in auto)
      then have I1: "cm_inv ops inv (cm1\<lparr>cm_db := db\<rparr>)"
        using i by (simp add: cm_inv_def records_def)
      have "cm_inv ops inv (snd (restore_clients ops now tokens snaps (cm1\<lparr>cm_db := db\<rparr>) (n + 1)))"
      proof (rule Cons.IH [OF I1])
        show "\<forall>x \<in> set snaps. csn_confirmed x \<longrightarrow> csn_clientid x < - 1 \<and>
            (\<forall>e \<in> records ops (cm1\<lparr>cm_db := db\<rparr>). ce_id e \<noteq> csn_id x \<and> ce_clientid e \<noteq> csn_clientid x)"
          using Cons.prems(2-4) True i(2) e by (auto simp: records_def)
      qed (use Cons.prems(2,3) True in auto)
      then show ?thesis using Some True by (simp add: cm1_def [symmetric] Let_def)
    qed
  qed
qed simp

end

section \<open>Runs\<close>

inductive cm_run :: "'db client_db_ops \<Rightarrow> 'db client_manager \<Rightarrow> nat \<Rightarrow> 'db client_manager \<Rightarrow> bool"
  for C cm where
  start: "cm_run C cm 0 cm"
| step: "cm_run C cm n cm1 \<Longrightarrow> \<nexists>snaps. msg = RestoreClients snaps \<Longrightarrow>
    cm_handle_message C now tokens cm1 msg = (r, cm2) \<Longrightarrow> cm_run C cm (Suc n) cm2"

lemma cm_run_inv:
  assumes C: "client_db C cinv" and "cm_run C cm n cm'" "cm_inv C cinv cm"
    and "unat (cm_client_id_seq cm) + n < 2 ^ 64 - 1"
  shows "cm_inv C cinv cm' \<and> unat (cm_client_id_seq cm') \<le> unat (cm_client_id_seq cm) + n"
  using assms(2,4)
proof (induction rule: cm_run.induct)
  case start
  with assms(3) show ?case by simp
next
  case (step n cm1 msg now tokens r cm2)
  then have I: "cm_inv C cinv cm1" and le: "unat (cm_client_id_seq cm1) \<le> unat (cm_client_id_seq cm) + n"
    by simp_all
  then have "cm_client_id_seq cm1 < - 1"
    using step.prems by (simp add: word_less_nat_alt unsigned_minus_1_eq_mask mask_eq_exp_minus_1)
  from client_db.handle_message_inv [OF C I this step.hyps(2,3)] le show ?case by simp
qed

section \<open>Properties\<close>

text \<open>Example: one client, registered, confirmed, and seen again after the courtesy window.\<close>

definition ex_cb :: client_callback where
  "ex_cb = \<lparr>cb_program = 0, cb_rnetid = ''tcp'', cb_raddr = [], cb_callback_ident = 0\<rparr>"

definition ex_c :: client_entry where
  "ex_c = new_client 0 [1, 2, 3, 4, 5, 6, 7, 8] [0] ''client-a'' ex_cb None 1"

definition ex_cm1 :: "client_entry list client_manager" where
  "ex_cm1 = \<lparr>cm_db = [ex_c], cm_client_id_seq = 1, cm_filehandles = Map.empty, cm_lease_time = 90\<rparr>"

definition ex_cm2 :: "client_entry list client_manager" where
  "ex_cm2 = ex_cm1\<lparr>cm_db := [ex_c\<lparr>ce_confirmed := True\<rparr>]\<rparr>"

lemma small_less_max [simp]: "(0 :: u64) < - 1" "(1 :: u64) < - 1"
  by (simp_all add: word_less_nat_alt unsigned_minus_1_eq_mask mask_eq_exp_minus_1)

lemma ex_cm_run: "cm_run list_client_db (client_manager_new list_client_db) 1 ex_cm1"
proof -
  have "cm_handle_message list_client_db 0 (\<lambda>_. [1, 2, 3, 4, 5, 6, 7, 8]) (client_manager_new list_client_db)
      (UpsertClient [0] ''client-a'' ex_cb None) = (Some (Client_entry (Inr ex_c)), ex_cm1)"
    by (simp add: cm_handle_message_def upsert_client_def add_client_record_def get_next_client_id_def
        client_manager_new_def list_client_db_simps remove_tokens_def Let_def ex_cm1_def ex_c_def new_client_def)
  from cm_run.step [OF cm_run.start _ this] show ?thesis by simp
qed

lemma ex_cm_inv: "cm_inv list_client_db (list_clash_free ce_clash) ex_cm1"
  "cm_inv list_client_db (list_clash_free ce_clash) ex_cm2"
  by (simp_all add: cm_inv_def ex_cm1_def ex_cm2_def records_def list_client_db_simps recs_ok_def
      ex_c_def new_client_def)

text \<open>
  C9: client records. Starting from a fresh client manager, or from one restored from a
  snapshot whose confirmed clients have distinct id strings and distinct client ids, whatever
  messages other than a second restore follow (the server restores once, when it starts; with fewer
  than \<open>2^64\<close> client ids issued, and caught panics included): an id string has one client id and a
  client id one id string, a client has at most one confirmed and at most one unconfirmed record,
  and no two records have the same SETCLIENTID\_CONFIRM token.
\<close>

theorem client_records_reachable:
  assumes "client_db C cinv"
    and "distinct (map csn_id (filter csn_confirmed snaps))"
    and "distinct (map csn_clientid (filter csn_confirmed snaps))"
    and "\<forall>s \<in> set snaps. csn_confirmed s \<longrightarrow> csn_clientid s < - 1"
    and "cm_run C (snd (restore_clients C now tokens snaps (client_manager_new C) 0)) n cm"
    and "unat (cm_client_id_seq (snd (restore_clients C now tokens snaps (client_manager_new C) 0))) + n < 2 ^ 64 - 1"
  shows "\<forall>e \<in> records C cm. \<forall>f \<in> records C cm.
    (ce_id e = ce_id f \<longleftrightarrow> ce_clientid e = ce_clientid f) \<and>
    (ce_id e = ce_id f \<and> ce_confirmed e = ce_confirmed f \<longrightarrow> e = f) \<and>
    (ce_setclientid_confirm e = ce_setclientid_confirm f \<longrightarrow> e = f)"
proof -
  have "\<forall>s \<in> set snaps. csn_confirmed s \<longrightarrow> csn_clientid s < - 1 \<and>
      (\<forall>e \<in> records C (client_manager_new C). ce_id e \<noteq> csn_id s \<and> ce_clientid e \<noteq> csn_clientid s)"
    using assms(4) multi_index.iter_empty [of cinv "cdb_iter C" "cdb_default C"] assms(1)
    by (auto simp: records_def client_manager_new_def client_db_def unique_index_def)
  from client_db.restore_inv [OF assms(1) client_db.cm_inv_new [OF assms(1)] assms(2,3) this]
  have "cm_inv C cinv (snd (restore_clients C now tokens snaps (client_manager_new C) 0))" .
  from cm_run_inv [OF assms(1,5) this assms(6)] have "cm_inv C cinv cm" ..
  with client_db.cm_inv_tokens [OF assms(1) this] show ?thesis by (auto simp: cm_inv_def recs_ok_def inj_on_def)
qed

theorem client_records_reachable_witness:
  "records list_client_db ex_cm1 = {ex_c} \<and>
   {(e, f). e \<in> records list_client_db ex_cm1 \<and> f \<in> records list_client_db ex_cm1 \<and>
      ce_id e = ce_id f \<and> e \<noteq> f} = {}"
proof -
  have "cm_run list_client_db (snd (restore_clients list_client_db 0 (\<lambda>_. []) [] (client_manager_new list_client_db) 0)) 1 ex_cm1"
    using ex_cm_run by simp
  from client_records_reachable [OF lcdb.client_db_axioms _ _ _ this]
  show ?thesis
    by (simp add: client_manager_new_def) (simp add: records_def ex_cm1_def list_client_db_def)
qed

text \<open>
  SETCLIENTID. A confirmed record of another principal under the same id string is answered
  CLID\_INUSE without any change. Otherwise, if the token drawn is new, the reply is an unconfirmed
  record under the client id the id string already has, or a fresh one; it replaces the
  unconfirmed record of that client, and every other record stays.
\<close>

lemma setclientid_outcome:
  assumes "client_db C cinv" and "cm_inv C cinv cm" and "cm_client_id_seq cm < - 1"
    and "\<forall>e \<in> records C cm. ce_setclientid_confirm e \<noteq> token"
  shows "if \<exists>e \<in> records C cm. ce_id e = i \<and> ce_confirmed e \<and> ce_principal e \<noteq> prin
    then upsert_client C now token cm verifier i cb prin = (Some (Inl Nfs4errClidInuse), cm)
    else \<exists>c cm'. upsert_client C now token cm verifier i cb prin =
        (Some (Inr (new_client now token verifier i cb prin c)), cm') \<and>
      (\<forall>e \<in> records C cm. ce_id e = i \<longrightarrow> ce_clientid e = c) \<and>
      ((\<forall>e \<in> records C cm. ce_id e \<noteq> i) \<longrightarrow> c = cm_client_id_seq cm + 1) \<and>
      records C cm' = insert (new_client now token verifier i cb prin c)
        (records C cm - {e. ce_id e = i \<and> \<not> ce_confirmed e}) \<and> cm_inv C cinv cm'"
proof (cases "\<exists>e \<in> records C cm. ce_id e = i \<and> ce_confirmed e \<and> ce_principal e \<noteq> prin")
  case True
  with client_db.upsert_in_use [OF assms(1) _ True] assms(2) show ?thesis by (simp add: cm_inv_def)
next
  case False
  then have "\<forall>e \<in> records C cm. ce_id e = i \<longrightarrow> ce_confirmed e \<longrightarrow> ce_principal e = prin" by blast
  from client_db.upsert_cases [OF assms(1-3) this, of token now verifier cb] False assms(4)
  show ?thesis by auto
qed

lemma setclientid_outcome_example:
  "fst (upsert_client list_client_db 5 [9] ex_cm2 [0] ''client-a'' ex_cb (Some ''root'')) =
    Some (Inl Nfs4errClidInuse)"
proof -
  have r: "records list_client_db ex_cm2 = {ex_c\<lparr>ce_confirmed := True\<rparr>}"
    by (simp add: records_def ex_cm2_def list_client_db_def)
  from setclientid_outcome [OF lcdb.client_db_axioms ex_cm_inv(2), of "[9]" "''client-a''" "Some ''root''" 5 "[0]" ex_cb]
  show ?thesis unfolding r by (simp add: ex_c_def ex_cm2_def ex_cm1_def)
qed

text \<open>
  C32: SETCLIENTID followed by SETCLIENTID\_CONFIRM with the returned client id and token
  succeeds, and afterwards the confirmed copy of that record is the client's only record; the
  records of other clients are untouched.
\<close>

theorem setclientid_confirm_completes:
  assumes "client_db C cinv" and "cm_inv C cinv cm" and "cm_client_id_seq cm < - 1"
    and "\<forall>e \<in> records C cm. ce_setclientid_confirm e \<noteq> token"
    and "upsert_client C now token cm verifier i cb prin = (Some (Inr e), cm1)"
  shows "\<exists>cm2. confirm_client C cm1 (ce_clientid e) (ce_setclientid_confirm e) prin =
      (Some (Inr (e\<lparr>ce_confirmed := True\<rparr>)), cm2) \<and>
    records C cm2 = insert (e\<lparr>ce_confirmed := True\<rparr>) {f \<in> records C cm. ce_id f \<noteq> i} \<and> cm_inv C cinv cm2"
proof -
  have nouse: "\<not> (\<exists>e \<in> records C cm. ce_id e = i \<and> ce_confirmed e \<and> ce_principal e \<noteq> prin)"
    using client_db.upsert_in_use [OF assms(1), of cm i prin now token verifier cb] assms(2,5)
    by (auto simp: cm_inv_def)
  then have free: "\<forall>e \<in> records C cm. ce_id e = i \<longrightarrow> ce_confirmed e \<longrightarrow> ce_principal e = prin" by blast
  let ?S = "records C cm - {e. ce_id e = i \<and> \<not> ce_confirmed e}"
  from client_db.upsert_cases [OF assms(1-3) free, of token now verifier cb] assms(4,5)
  have up: "records C cm1 = insert e ?S" "cm_inv C cinv cm1" "ce_id e = i" "\<not> ce_confirmed e"
      "ce_principal e = prin" by auto
  have ok: "recs_ok (records C cm1) (cm_client_id_seq cm1)" using up(2) by (simp add: cm_inv_def)
  have eR: "e \<in> records C cm1" using up(1) by simp
  have prin: "\<forall>f \<in> records C cm1. ce_clientid f = ce_clientid e \<longrightarrow> ce_principal f = prin"
    using recs_okD(2) [OF ok _ eR] up free by auto
  from client_db.confirm_match [OF assms(1) up(2) prin eR refl refl] obtain cm2 where
    c: "confirm_client C cm1 (ce_clientid e) (ce_setclientid_confirm e) prin = (Some (Inr (e\<lparr>ce_confirmed := True\<rparr>)), cm2)"
      "records C cm2 = insert (e\<lparr>ce_confirmed := True\<rparr>)
        (records C cm1 - {f. ce_clientid f = ce_clientid e \<and> (ce_confirmed f \<or> f = e)})"
      "cm_inv C cinv cm2" by blast
  have "records C cm1 - {f. ce_clientid f = ce_clientid e \<and> (ce_confirmed f \<or> f = e)} = {f \<in> records C cm. ce_id f \<noteq> i}"
    using recs_okD(2) [OF ok _ eR] up by auto
  with c show ?thesis by auto
qed

theorem setclientid_confirm_completes_witness:
  "fst (confirm_client list_client_db ex_cm1 1 [1, 2, 3, 4, 5, 6, 7, 8] None) = Some (Inr (ex_c\<lparr>ce_confirmed := True\<rparr>))"
proof -
  have e: "ce_clientid ex_c = 1" "ce_setclientid_confirm ex_c = [1, 2, 3, 4, 5, 6, 7, 8]"
    by (simp_all add: ex_c_def)
  have u: "upsert_client list_client_db 0 [1, 2, 3, 4, 5, 6, 7, 8] (client_manager_new list_client_db)
      [0] ''client-a'' ex_cb None = (Some (Inr ex_c), ex_cm1)"
    by (simp add: upsert_client_def add_client_record_def get_next_client_id_def
        client_manager_new_def list_client_db_simps remove_tokens_def Let_def ex_cm1_def ex_c_def new_client_def)
  have fresh: "\<forall>e \<in> records list_client_db (client_manager_new list_client_db). ce_setclientid_confirm e \<noteq> [1, 2, 3, 4, 5, 6, 7, 8]"
    "cm_client_id_seq (client_manager_new list_client_db) < - 1"
    by (simp_all add: records_def client_manager_new_def list_client_db_def)
  from setclientid_confirm_completes [OF lcdb.client_db_axioms lcdb.cm_inv_new fresh(2,1) u] e
  show ?thesis by auto
qed

text \<open>
  SETCLIENTID\_CONFIRM with a token no record of the client has, sent by the right principal,
  is answered STALE\_CLIENTID and deletes the client's confirmed record: after the refused call the
  client is no longer known as confirmed.
\<close>

lemma confirm_wrong_token_drops_client:
  assumes "client_db C cinv" and "cm_inv C cinv cm"
    and "\<exists>e \<in> records C cm. ce_clientid e = c \<and> ce_confirmed e"
    and "\<forall>e \<in> records C cm. ce_clientid e = c \<longrightarrow> ce_principal e = prin \<and> ce_setclientid_confirm e \<noteq> token"
  shows "\<exists>cm'. confirm_client C cm c token prin = (Some (Inl Nfs4errStaleClientid), cm') \<and>
    records C cm' = records C cm - {e. ce_clientid e = c \<and> ce_confirmed e} \<and>
    get_client_confirmed C cm' c = None"
proof -
  from client_db.confirm_no_match [OF assms(1,2), of c prin token] assms(3,4) obtain cm' where
    c: "confirm_client C cm c token prin = (Some (Inl Nfs4errStaleClientid), cm')"
      "records C cm' = records C cm - {e. ce_clientid e = c \<and> ce_confirmed e}" "cm_inv C cinv cm'"
    by blast
  have "nonunique_index cinv (cdb_iter C) (cdb_default C) (cdb_insert C) ce_clash ce_clientid
      (cdb_get_by_clientid C) (cdb_remove_by_clientid C)"
    using assms(1) by (simp add: client_db_def)
  from nonunique_index.get_by_set [OF this, of "cm_db cm'" c] c(2,3)
  have "\<forall>e \<in> set (cdb_get_by_clientid C (cm_db cm') c). \<not> ce_confirmed e"
    by (auto simp: cm_inv_def records_def)
  then show ?thesis using c by (auto simp: get_client_confirmed_def find_None_iff)
qed

lemma confirm_wrong_token_drops_client_example:
  "get_client_confirmed list_client_db ex_cm2 1 \<noteq> None \<and>
   get_client_confirmed list_client_db (snd (confirm_client list_client_db ex_cm2 1 [0] None)) 1 = None"
proof -
  have r: "records list_client_db ex_cm2 = {ex_c\<lparr>ce_confirmed := True\<rparr>}"
    by (simp add: records_def ex_cm2_def list_client_db_def)
  have "get_client_confirmed list_client_db ex_cm2 1 \<noteq> None"
    by (simp add: get_client_confirmed_def ex_cm2_def ex_cm1_def list_client_db_simps ex_c_def)
  with confirm_wrong_token_drops_client [OF lcdb.client_db_axioms ex_cm_inv(2), of 1 None "[0]"] r
  show ?thesis by (auto simp: ex_c_def)
qed

text \<open>
  C33: the lease sweep never panics. It reports and purges exactly the clients with a confirmed
  courtesy record that was last renewed at least two lease times ago; of the others, it moves to
  courtesy exactly those with a confirmed active record at least one lease time old, and changes
  nothing else.
\<close>

theorem sweep_leases_outcome:
  assumes "client_db C cinv" and "cm_inv C cinv cm"
  shows "\<exists>gone cm'. sweep_leases C now cm = (Some gone, cm') \<and> cm_inv C cinv cm' \<and>
    set gone = {ce_clientid e | e. e \<in> records C cm \<and> ce_confirmed e \<and> ce_courtesy e \<and>
      elapsed_secs now e \<ge> unat (cm_lease_time cm * 2)} \<and>
    records C cm' = {if \<exists>f \<in> records C cm. ce_clientid f = ce_clientid e \<and> ce_confirmed f \<and>
          \<not> ce_courtesy f \<and> elapsed_secs now f \<ge> unat (cm_lease_time cm)
        then e\<lparr>ce_courtesy := True\<rparr> else e | e. e \<in> records C cm \<and> ce_clientid e \<notin> set gone}"
proof -
  from client_db.sweep_spec [OF assms, of now] obtain gone cm' where
    s: "sweep_leases C now cm = (Some gone, cm')" "cm_inv C cinv cm'"
      "set gone = ce_clientid ` {e \<in> records C cm. courtesy_over now (cm_lease_time cm) e}"
      "records C cm' = swept now (cm_lease_time cm) (records C cm) ` {e \<in> records C cm. ce_clientid e \<notin> set gone}"
    by blast
  have sw: "swept now (cm_lease_time cm) (records C cm) e =
      (if \<exists>f \<in> records C cm. ce_clientid f = ce_clientid e \<and> ce_confirmed f \<and> \<not> ce_courtesy f \<and>
           elapsed_secs now f \<ge> unat (cm_lease_time cm) then e\<lparr>ce_courtesy := True\<rparr> else e)" for e
    by (auto simp: swept_def lease_expired_def)
  have "records C cm' = {swept now (cm_lease_time cm) (records C cm) e | e. e \<in> records C cm \<and> ce_clientid e \<notin> set gone}"
    using s(4) by blast
  moreover have "set gone = {ce_clientid e | e. e \<in> records C cm \<and> ce_confirmed e \<and> ce_courtesy e \<and>
      elapsed_secs now e \<ge> unat (cm_lease_time cm * 2)}"
    using s(3) by (auto simp: courtesy_over_def)
  ultimately show ?thesis using s(1,2) unfolding sw by blast
qed

theorem sweep_leases_outcome_witness:
  "\<exists>cm'. sweep_leases list_client_db (100 * 10 ^ 9) ex_cm2 = (Some [], cm') \<and>
    records list_client_db cm' = {ex_c\<lparr>ce_confirmed := True, ce_courtesy := True\<rparr>}"
proof -
  have r: "records list_client_db ex_cm2 = {ex_c\<lparr>ce_confirmed := True\<rparr>}" "cm_lease_time ex_cm2 = 90"
    by (simp_all add: records_def ex_cm2_def ex_cm1_def list_client_db_def)
  have e: "ce_last_renewed ex_c = 0" "\<not> ce_courtesy ex_c" by (simp_all add: ex_c_def)
  from sweep_leases_outcome [OF lcdb.client_db_axioms ex_cm_inv(2), of "100 * 10 ^ 9"] obtain gone cm' where
    s: "sweep_leases list_client_db (100 * 10 ^ 9) ex_cm2 = (Some gone, cm')" "set gone = {}"
      "records list_client_db cm' = {ex_c\<lparr>ce_confirmed := True, ce_courtesy := True\<rparr>}"
    unfolding r by (auto simp: e elapsed_secs_def)
  then show ?thesis by auto
qed

text \<open>
  RENEW is answered STALE\_CLIENTID for an unknown client and EXPIRED for a courtesy client
  past two lease times, both without any change. Otherwise it succeeds, clears the courtesy flag
  and restarts the lease of all records of that client and of no other, and no sweep within a
  lease time afterwards changes them.
\<close>

lemma renew_restarts_lease:
  assumes "client_db C cinv" and "cm_inv C cinv cm"
  shows "if \<forall>e \<in> records C cm. ce_clientid e \<noteq> c
    then renew_leases C now cm c = (Some (Inl Nfs4errStaleClientid), cm)
    else if \<exists>e \<in> records C cm. ce_clientid e = c \<and> ce_confirmed e \<and> ce_courtesy e \<and>
      elapsed_secs now e > unat (cm_lease_time cm * 2)
    then renew_leases C now cm c = (Some (Inl Nfs4errExpired), cm)
    else \<exists>cm'. renew_leases C now cm c = (Some (Inr ()), cm') \<and> cm_inv C cinv cm' \<and>
      records C cm' = (\<lambda>e. if ce_clientid e = c then e\<lparr>ce_last_renewed := now, ce_courtesy := False\<rparr> else e) ` records C cm \<and>
      (\<forall>later. (later - now) div 10 ^ 9 < unat (cm_lease_time cm') \<longrightarrow>
        {e \<in> records C (snd (sweep_leases C later cm')). ce_clientid e = c} = {e \<in> records C cm'. ce_clientid e = c})"
proof -
  have kept: "{e \<in> records C (snd (sweep_leases C later cm')). ce_clientid e = c} = {e \<in> records C cm'. ce_clientid e = c}"
    if I: "cm_inv C cinv cm'" and fresh: "\<And>e. e \<in> records C cm' \<Longrightarrow> ce_clientid e = c \<Longrightarrow> ce_last_renewed e = now \<and> \<not> ce_courtesy e"
      and soon: "(later - now) div 10 ^ 9 < unat (cm_lease_time cm')" for cm' later
  proof -
    have el: "\<not> lease_expired later (cm_lease_time cm') e" "\<not> courtesy_over later (cm_lease_time cm') e"
      if "e \<in> records C cm'" "ce_clientid e = c" for e
      using fresh [OF that] soon by (auto simp: lease_expired_def courtesy_over_def elapsed_secs_def)
    from client_db.sweep_spec [OF assms(1) I, of later] obtain gone cm2 where
      s: "sweep_leases C later cm' = (Some gone, cm2)"
        "set gone = ce_clientid ` {e \<in> records C cm'. courtesy_over later (cm_lease_time cm') e}"
        "records C cm2 = swept later (cm_lease_time cm') (records C cm') ` {e \<in> records C cm'. ce_clientid e \<notin> set gone}"
      by blast
    have "c \<notin> set gone" using s(2) el(2) by auto
    moreover have "swept later (cm_lease_time cm') (records C cm') e = e" if "ce_clientid e = c" for e
      using el(1) that by (auto simp: swept_def)
    ultimately show ?thesis using s(1,3) by (auto simp: image_iff)
  qed
  have fresh: "ce_last_renewed e = now \<and> \<not> ce_courtesy e"
    if "records C cm' = (\<lambda>e. if ce_clientid e = c then e\<lparr>ce_last_renewed := now, ce_courtesy := False\<rparr> else e) ` records C cm"
      "e \<in> records C cm'" "ce_clientid e = c" for cm' e
    using that(2,3) unfolding that(1) by (elim imageE) (simp split: if_splits)
  let ?stale = "\<forall>e \<in> records C cm. ce_clientid e \<noteq> c"
    and ?over = "\<exists>e \<in> records C cm. ce_clientid e = c \<and> ce_confirmed e \<and> ce_courtesy e \<and>
      elapsed_secs now e > unat (cm_lease_time cm * 2)"
  note spec = client_db.renew_spec [OF assms, of c now]
  show ?thesis
  proof (cases "?stale \<or> ?over")
    case True
    then show ?thesis using spec by (auto split: if_splits)
  next
    case False
    with spec obtain cm' where
      r: "renew_leases C now cm c = (Some (Inr ()), cm')" "cm_inv C cinv cm'"
        "records C cm' = (\<lambda>e. if ce_clientid e = c then e\<lparr>ce_last_renewed := now, ce_courtesy := False\<rparr> else e) ` records C cm"
      by (meson)
    have "\<not> ?stale" "\<not> ?over" using False by blast+
    moreover have "\<exists>cm'. renew_leases C now cm c = (Some (Inr ()), cm') \<and> cm_inv C cinv cm' \<and>
      records C cm' = (\<lambda>e. if ce_clientid e = c then e\<lparr>ce_last_renewed := now, ce_courtesy := False\<rparr> else e) ` records C cm \<and>
      (\<forall>later. (later - now) div 10 ^ 9 < unat (cm_lease_time cm') \<longrightarrow>
        {e \<in> records C (snd (sweep_leases C later cm')). ce_clientid e = c} = {e \<in> records C cm'. ce_clientid e = c})"
      using kept [OF r(2) fresh [OF r(3)]] r by blast
    ultimately show ?thesis by (simp only: if_False)
  qed
qed

lemma renew_restarts_lease_example:
  "fst (renew_leases list_client_db 5 ex_cm2 1) = Some (Inr ()) \<and>
   fst (renew_leases list_client_db 5 ex_cm2 2) = Some (Inl Nfs4errStaleClientid)"
proof -
  have r: "records list_client_db ex_cm2 = {ex_c\<lparr>ce_confirmed := True\<rparr>}"
    by (simp add: records_def ex_cm2_def list_client_db_def)
  show ?thesis
    using renew_restarts_lease [OF lcdb.client_db_axioms ex_cm_inv(2), of 1 5]
      renew_restarts_lease [OF lcdb.client_db_axioms ex_cm_inv(2), of 2 5]
    by (auto simp: r ex_c_def)
qed

end
