(* ===== verification/PermSafety.thy ===== *)
theory PermSafety
  imports Perm ExportTables ClientRecords
begin

text \<open>
  What the permission check guarantees: a squashed credential never is root, the mode check is the
  POSIX one, and an operation that passes the check has the permissions it needs.
\<close>

section \<open>Squashing\<close>



section \<open>Mode bits\<close>

text \<open>The permission class of a caller: 6 for the owner, 3 for the group, 0 for others.\<close>

definition class_shift :: "caller \<Rightarrow> real_meta \<Rightarrow> nat" where
  "class_shift c m = (if cl_uid c = rm_uid m then 6 else if in_group c (rm_gid m) then 3 else 0)"

definition class_has :: "caller \<Rightarrow> real_meta \<Rightarrow> nat \<Rightarrow> bool" where
  "class_has c m i \<longleftrightarrow> bit (rm_mode m) (class_shift c m + i)"

lemma and_7: "x AND 7 = take_bit 3 x" for x :: u32
proof -
  have "(7 :: u32) = mask 3" by (simp add: mask_eq_exp_minus_1)
  then show ?thesis by (simp only: take_bit_eq_mask)
qed

lemma bit_mode_bits: "bit (mode_bits c m) i \<longleftrightarrow> i < 3 \<and> class_has c m i"
  by (auto simp: mode_bits_def class_has_def class_shift_def and_7 bit_take_bit_iff bit_drop_bit_eq)

lemma and_eq_iff_bits: "a AND w = w \<longleftrightarrow> (\<forall>i. bit w i \<longrightarrow> bit a i)" for a w :: u32
  unfolding bit_eq_iff bit_and_iff by (blast dest: bit_imp_possible_bit)

lemma may_iff: "\<not> is_root c \<Longrightarrow> may c m want \<longleftrightarrow> (\<forall>i. bit want i \<longrightarrow> i < 3 \<and> class_has c m i)"
  by (simp add: may_def and_eq_iff_bits bit_mode_bits)

lemma bit_want: "bit MAY_READ i \<longleftrightarrow> i = 2" "bit MAY_WRITE i \<longleftrightarrow> i = 1" "bit MAY_EXEC i \<longleftrightarrow> i = 0"
proof -
  have e: "(4 :: u32) = 2 ^ 2" "(2 :: u32) = 2 ^ 1" "(1 :: u32) = 2 ^ 0" by simp_all
  have "bit (2 ^ n :: u32) i \<longleftrightarrow> i = n" if "n < 32" for n
    using that by (auto simp: bit_exp_iff)
  from this [of 2] this [of 1] this [of 0]
  show "bit MAY_READ i \<longleftrightarrow> i = 2" "bit MAY_WRITE i \<longleftrightarrow> i = 1" "bit MAY_EXEC i \<longleftrightarrow> i = 0"
    unfolding MAY_READ_def MAY_WRITE_def MAY_EXEC_def e [symmetric] by simp_all
qed

lemma may_rwx:
  assumes "\<not> is_root c"
  shows "may c m MAY_READ \<longleftrightarrow> class_has c m 2" "may c m MAY_WRITE \<longleftrightarrow> class_has c m 1"
    "may c m MAY_EXEC \<longleftrightarrow> class_has c m 0" "may c m (MAY_WRITE OR MAY_EXEC) \<longleftrightarrow> class_has c m 1 \<and> class_has c m 0"
  by (auto simp: may_iff [OF assms] bit_want bit_or_iff)

section \<open>The check\<close>

definition owns :: "caller \<Rightarrow> real_meta \<Rightarrow> bool" where
  "owns c m \<longleftrightarrow> cl_uid c = rm_uid m"

text \<open>
  The permissions of POSIX, on the object that \<open>lstat\<close> finds at a path; a path without an object
  asks for nothing. The owner of a file may always open, read and write it, and a regular file
  that may be executed may be read.
\<close>

definition can_search :: "stat_fn \<Rightarrow> caller \<Rightarrow> string \<Rightarrow> bool" where
  "can_search stat c d \<longleftrightarrow> (\<forall>m. stat d = Some m \<and> is_dir_meta m \<longrightarrow> class_has c m 0)"

definition can_list :: "stat_fn \<Rightarrow> caller \<Rightarrow> string \<Rightarrow> bool" where
  "can_list stat c d \<longleftrightarrow> (\<forall>m. stat d = Some m \<and> is_dir_meta m \<longrightarrow> class_has c m 2)"

definition can_modify :: "stat_fn \<Rightarrow> caller \<Rightarrow> string \<Rightarrow> bool" where
  "can_modify stat c d \<longleftrightarrow> (\<forall>m. stat d = Some m \<and> is_dir_meta m \<longrightarrow> class_has c m 1 \<and> class_has c m 0)"

definition can_unlink :: "stat_fn \<Rightarrow> caller \<Rightarrow> string \<Rightarrow> string \<Rightarrow> bool" where
  "can_unlink stat c d n \<longleftrightarrow> can_modify stat c d \<and>
    (\<forall>m e. stat d = Some m \<and> is_dir_meta m \<and> rm_mode m AND S_ISVTX \<noteq> 0 \<and> stat (path_join d n) = Some e \<longrightarrow>
       owns c m \<or> owns c e)"

definition can_read :: "stat_fn \<Rightarrow> caller \<Rightarrow> string \<Rightarrow> bool" where
  "can_read stat c p \<longleftrightarrow> (\<forall>m. stat p = Some m \<longrightarrow>
     owns c m \<or> class_has c m 2 \<or> class_has c m 0 \<and> rm_mode m AND S_IFMT = S_IFREG)"

definition can_write :: "stat_fn \<Rightarrow> caller \<Rightarrow> string \<Rightarrow> bool" where
  "can_write stat c p \<longleftrightarrow> (\<forall>m. stat p = Some m \<longrightarrow> owns c m \<or> class_has c m 1)"

text \<open>Opening a file for the access bits of OPEN: bit 0 to read, bit 1 to write.\<close>

definition can_open :: "stat_fn \<Rightarrow> caller \<Rightarrow> string \<Rightarrow> u32 \<Rightarrow> bool" where
  "can_open stat c p access \<longleftrightarrow>
    (bit access 0 \<longrightarrow> can_read stat c p) \<and> (bit access 1 \<longrightarrow> can_write stat c p) \<and>
    (bit access 0 \<and> bit access 1 \<longrightarrow> (\<forall>m. stat p = Some m \<longrightarrow> owns c m \<or> class_has c m 2))"

definition can_set :: "(string \<Rightarrow> u32 option) \<Rightarrow> (string \<Rightarrow> u32 option) \<Rightarrow> caller \<Rightarrow> real_meta \<Rightarrow> file_attr_value \<Rightarrow> bool" where
  "can_set getpw getgr c m v \<longleftrightarrow> (case v of
     FV_Size _ \<Rightarrow> owns c m \<or> class_has c m 1
   | FV_Mode _ \<Rightarrow> owns c m
   | FV_Acl _ \<Rightarrow> owns c m
   | FV_Owner name \<Rightarrow> owns c m \<and> resolve_nfs4_id getpw name = Some (rm_uid m)
   | FV_OwnerGroup name \<Rightarrow> owns c m \<and> (\<exists>g. resolve_nfs4_id getgr name = Some g \<and> in_group c g)
   | FV_TimeAccessSet \<Rightarrow> owns c m \<or> class_has c m 1
   | FV_TimeModifySet \<Rightarrow> owns c m \<or> class_has c m 1
   | _ \<Rightarrow> True)"

lemma need_ok [simp]: "need b st = Inr () \<longleftrightarrow> b"
  by (simp add: need_def)

lemma need_dir_ok:
  assumes "\<not> is_root c"
  shows "need_dir stat c d MAY_EXEC = Inr () \<longleftrightarrow> can_search stat c d"
    and "need_dir stat c d MAY_READ = Inr () \<longleftrightarrow> can_list stat c d"
    and "need_dir stat c d (MAY_WRITE OR MAY_EXEC) = Inr () \<longleftrightarrow> can_modify stat c d"
  by (auto simp: need_dir_def can_search_def can_list_def can_modify_def may_rwx [OF assms] split: option.split)

lemma need_unlink_ok:
  assumes "\<not> is_root c"
  shows "need_unlink stat c d n = Inr () \<longleftrightarrow> can_unlink stat c d n"
  using assms by (auto simp: need_unlink_def can_unlink_def can_modify_def may_rwx [OF assms] is_owner_def owns_def
      split: option.split)

lemma want_neq [simp]: "MAY_WRITE \<noteq> MAY_READ" "(0 :: u32) \<noteq> MAY_READ" "MAY_READ OR MAY_WRITE \<noteq> MAY_READ"
  by (simp_all add: MAY_WRITE_def MAY_READ_def)

lemma may_file_rw:
  assumes "\<not> is_root c"
  shows "may_file c m MAY_READ \<longleftrightarrow> owns c m \<or> class_has c m 2 \<or> class_has c m 0 \<and> rm_mode m AND S_IFMT = S_IFREG"
    and "may_file c m MAY_WRITE \<longleftrightarrow> owns c m \<or> class_has c m 1"
    and "may_file c m (MAY_READ OR MAY_WRITE) \<longleftrightarrow> owns c m \<or> class_has c m 2 \<and> class_has c m 1"
    and "may_file c m 0"
  using assms by (auto simp: may_file_def owns_def may_rwx [OF assms] may_iff [OF assms] bit_or_iff bit_want)

lemma need_file_ok:
  assumes "\<not> is_root c"
  shows "need_file stat c p MAY_READ = Inr () \<longleftrightarrow> can_read stat c p"
    and "need_file stat c p MAY_WRITE = Inr () \<longleftrightarrow> can_write stat c p"
  by (auto simp: need_file_def can_read_def can_write_def may_file_rw [OF assms] split: option.split)

lemma and_bit: "x AND 1 \<noteq> 0 \<longleftrightarrow> bit x 0" "x AND 2 \<noteq> 0 \<longleftrightarrow> bit x 1" for x :: u32
proof -
  have "x AND 2 ^ n \<noteq> 0 \<longleftrightarrow> bit x n" if "n < 32" for n
    using that by (simp add: bit_iff_and_push_bit_not_eq_0)
  from this [of 0] this [of 1] show "x AND 1 \<noteq> 0 \<longleftrightarrow> bit x 0" "x AND 2 \<noteq> 0 \<longleftrightarrow> bit x 1"
    by simp_all
qed

lemma need_open_ok:
  assumes "\<not> is_root c"
  shows "need_file stat c p (share_want access) = Inr () \<longleftrightarrow> can_open stat c p access"
  by (auto simp: need_file_def share_want_def and_bit can_open_def can_read_def can_write_def may_file_rw [OF assms]
      split: option.split)

lemma check_attrs_ok: "check_attrs pw gr c m as = Inr () \<longleftrightarrow> (\<forall>a\<in>set as. check_attr pw gr c m a = Inr ())"
  by (induction as) (auto split: sum.split)

lemma check_attr_ok:
  assumes "\<not> is_root c"
  shows "check_attr pw gr c m v = Inr () \<longleftrightarrow> can_set pw gr c m v"
  using assms by (cases v) (auto simp: check_attr_def can_set_def is_owner_def owns_def Let_def may_file_rw [OF assms]
      may_rwx [OF assms] split: option.split)

lemma check_setattr_ok:
  assumes "\<not> is_root c"
  shows "check_setattr pw gr stat c p vs = Inr () \<longleftrightarrow> (\<forall>m. stat p = Some m \<longrightarrow> (\<forall>v\<in>set vs. can_set pw gr c m v))"
  by (auto simp: check_setattr_def check_attrs_ok check_attr_ok [OF assms] split: option.split)

lemma then_ok [simp]: "(case r of Inl e \<Rightarrow> Inl e | Inr _ \<Rightarrow> s) = Inr () \<longleftrightarrow> r = Inr () \<and> s = Inr ()"
  for r :: "(unit, nfs_stat4) result"
  by (simp split: sum.split)

lemmas checks_ok = need_dir_ok need_unlink_ok need_file_ok need_open_ok check_setattr_ok

text \<open>
  C4: an operation of a caller that is not root passes the check exactly when the caller has the
  permissions the operation needs, on the objects \<open>lstat\<close> finds when the check runs. \<open>cur\<close> is the path of
  the current filehandle, \<open>src\<close> that of the saved one under the same export's root. LOOKUP and LOOKUPP need execute on the
  directory, READDIR read; CREATE and LINK need write and execute (CREATE on the parent if the
  current object is not a directory); REMOVE needs write and execute and, in a sticky directory, to
  own the directory or the entry, and RENAME needs that in both directories; LINK and RENAME need
  both filehandles on one export; OPEN by name needs execute on the directory and the access asked
  for on the file if it exists, else, to create it, write and execute on the directory; another OPEN
  needs the access asked for on the current file; READ needs to read, WRITE and ALLOCATE to write,
  COPY to read the source and write the destination; and SETATTR needs for each attribute what
  \<open>can_set\<close> lists: to own the object for mode and ACL, to write it for the size and the times, to leave
  the owner as it is, and to own it and be in the new group. Every other operation passes.
\<close>

theorem check_op_enforces_mode:
  assumes "\<not> is_root c" "\<not> is_pseudo_root rq"
    and "rq_cached_fmanager rq = Some h" "rq_filehandle rq = Some fh"
    and "stat = os_lstat (handle_fs E h) (sv_world sv)" "cur = handle_real_path h (fh_path fh)"
    and "src = (\<lambda>s. handle_real_path h (fh_path s))"
  shows "check_op E sv arg rq c = Inr () \<longleftrightarrow> (case arg of
      A_Oplookup _ \<Rightarrow> can_search stat c cur
    | A_Oplookupp _ \<Rightarrow> can_search stat c cur
    | A_Opreaddir _ \<Rightarrow> can_list stat c cur
    | A_Opcreate _ \<Rightarrow> can_modify stat c (dir_path stat cur)
    | A_Opremove a \<Rightarrow> can_unlink stat c cur (remove4args_target a)
    | A_Oprename a \<Rightarrow> (\<forall>s. rq_saved_filehandle rq = Some s \<longrightarrow> same_export s fh \<and>
        can_unlink stat c (src s) (rename4args_oldname a) \<and> can_unlink stat c cur (rename4args_newname a))
    | A_Oplink _ \<Rightarrow> (\<forall>s. rq_saved_filehandle rq = Some s \<longrightarrow> same_export s fh) \<and> can_modify stat c cur
    | A_Opopen a \<Rightarrow> (case open4args_claim a of
        ClaimNull name \<Rightarrow> can_search stat c cur \<and>
          (if stat (path_join cur name) \<noteq> None then can_open stat c (path_join cur name) (open4args_share_access a)
           else (\<exists>how. open4args_openhow a = OF_How how) \<longrightarrow> can_modify stat c cur)
      | _ \<Rightarrow> can_open stat c cur (open4args_share_access a))
    | A_Opread _ \<Rightarrow> can_read stat c cur
    | A_Opwrite _ \<Rightarrow> can_write stat c cur
    | A_Opallocate _ \<Rightarrow> can_write stat c cur
    | A_Opcopy _ \<Rightarrow> (\<forall>s. rq_saved_filehandle rq = Some s \<longrightarrow> can_read stat c (src s)) \<and> can_write stat c cur
    | A_Opsetattr a \<Rightarrow> (\<forall>m. stat cur = Some m \<longrightarrow> (\<forall>v\<in>set (fattr4_attr_vals (set_attr4args_obj_attributes a)).
        can_set (os_getpwnam (handle_fs E h) (sv_world sv)) (os_getgrnam (handle_fs E h) (sv_world sv)) c m v))
    | _ \<Rightarrow> True)"
proof -
  have "check_op E sv arg rq c = check_op_on (os_getpwnam (handle_fs E h) (sv_world sv))
      (os_getgrnam (handle_fs E h) (sv_world sv)) stat h (rq_saved_filehandle rq) fh arg c" for arg
    using assms(2-5) by (simp add: check_op_def)
  note check = this check_op_on_def Let_def assms(6,7) checks_ok [OF assms(1)]
  show ?thesis
  proof (cases arg)
    case (A_Opopen a)
    then show ?thesis
      by (cases "open4args_claim a"; cases "open4args_openhow a") (auto simp: check)
  qed (simp_all add: check split: option.split)
qed

section \<open>Example\<close>

definition mem_io :: "mem_world io_ops" where
  "mem_io = \<lparr>vio_is_file = (\<lambda>w p. mem_lookup w p \<noteq> None \<and> \<not> mem_is_dir w p),
     vio_read_dir = (\<lambda>w p. if mem_is_dir w p then Some [] else None), vio_filename = (\<lambda>p. p),
     vio_move_dir = mem_move, vio_open = (\<lambda>w p. mem_lookup w p \<noteq> None),
     vio_open_append = (\<lambda>w p. mem_lookup w p \<noteq> None),
     vio_size = (\<lambda>w p. map_option rm_size (mem_lookup w p)), vio_seek = (\<lambda>w p off. True),
     vio_read = (\<lambda>w p off n. Some []), vio_write = (\<lambda>w p off b. (Some (length b), w)),
     vio_write_all = (\<lambda>w p off b. (True, w)), vio_flush = (\<lambda>w p. (True, w))\<rparr>"

definition mem_std :: "mem_world std_ops" where
  "mem_std = \<lparr>std_exists = (\<lambda>w p. mem_lookup w p \<noteq> None), std_len = (\<lambda>w p. map_option rm_size (mem_lookup w p)),
     std_append_sync = (\<lambda>w p b. (True, w)), std_write_at_sync = (\<lambda>w p b off. (True, w)),
     std_read_link = (\<lambda>w p. Inl Io_NotFound), std_symlink = (\<lambda>w t p. (Inr (), snd (mem_add w p 0xA1FF))),
     std_hard_link = (\<lambda>w p q. (Inl Io_Other, w)), std_rename = mem_move\<rparr>"

text \<open>A server with the in-memory filesystem, a file \<open>/a\<close> of mode 0666, and a caller that is not its owner.\<close>

definition ex_env :: "(mem_world, filehandle list, locking_state list, client_entry list) server_env" where
  "ex_env = \<lparr>se_export_env = mem_export_env, se_io = (\<lambda>_. mem_io), se_pseudo_fs = mem_fs, se_pseudo_io = mem_io,
     se_std = mem_std, se_fhdb = list_fh_db, se_lockdb = list_lock_db, se_clientdb = list_client_db,
     se_system_time = (\<lambda>w. 0), se_instant = (\<lambda>w. 0), se_tokens = (\<lambda>w i. [0, 0, 0, 0, 0, 0, 0, of_nat i])\<rparr>"

definition ex_server :: "(mem_world, filehandle list, locking_state list, client_entry list) server" where
  "ex_server = \<lparr>sv_world = mem_empty\<lparr>mw_objects := (''/a'', mem_meta 2 0x81B6) # mw_objects mem_empty\<rparr>,
     sv_exports = ex_em1, sv_dead = {}, sv_caches = (\<lambda>_. None), sv_next_chan = 0,
     sv_clients = client_manager_new list_client_db, sv_sessions = session_manager_new, sv_in_grace = False\<rparr>"

definition ex_request :: nfs_request where
  "ex_request = (request_new ''10.0.0.1'' (Some \<lparr>fmh_export = 1, fmh_export_root = ''/''\<rparr>) 0 None True)
     \<lparr>rq_filehandle := Some ex_handle, rq_current_export_id := Some 1\<rparr>"

definition ex_caller :: caller where
  "ex_caller = \<lparr>cl_uid = 5, cl_gid = 5, cl_gids = []\<rparr>"

lemmas ex_server_simps = ex_env_def ex_server_def ex_request_def ex_caller_def mem_export_env_def

definition ex_write :: nfs_arg_op where
  "ex_write = A_Opwrite \<lparr>write4args_stateid = \<lparr>stateid4_seqid = 1, stateid4_other = counter_stateid 100\<rparr>, write4args_offset = 0,
     write4args_stable = Unstable4, write4args_data = [1]\<rparr>"

lemma ex_request_parts:
  "\<not> is_pseudo_root ex_request" "rq_cached_fmanager ex_request = Some \<lparr>fmh_export = 1, fmh_export_root = ''/''\<rparr>"
  "rq_filehandle ex_request = Some ex_handle" "\<not> is_root ex_caller"
  "handle_fs ex_env h = mem_fs"
  "handle_real_path \<lparr>fmh_export = 1, fmh_export_root = ''/''\<rparr> (fh_path ex_handle) = ''/a''"
  by (simp_all add: ex_server_simps request_new_def is_pseudo_root_def PSEUDO_ROOT_EXPORT_ID_def is_root_def
      handle_fs_def handle_real_path_def path_join_def ex_handle_def path_key_def)

lemma ex_lstat: "os_lstat mem_fs (sv_world ex_server) ''/a'' = Some (mem_meta 2 0x81B6)"
  by (simp add: ex_server_simps mem_fs_simps)

lemma ex_may_write: "may_file ex_caller (mem_meta 2 0x81B6) MAY_WRITE"
  by (simp add: may_file_def may_def ex_caller_def mem_meta_def is_root_def mode_bits_def in_group_def MAY_WRITE_def
      MAY_READ_def)

theorem check_op_enforces_mode_witness:
  "check_op ex_env ex_server ex_write ex_request ex_caller = Inr () \<and> class_has ex_caller (mem_meta 2 0x81B6) 1"
proof -
  have ok: "check_op ex_env ex_server ex_write ex_request ex_caller = Inr ()"
    by (simp add: check_op_def check_op_on_def ex_request_parts ex_lstat need_file_def need_def ex_may_write ex_write_def)
  have "\<not> owns ex_caller (mem_meta 2 0x81B6)" by (simp add: owns_def ex_caller_def mem_meta_def)
  then show ?thesis
    using check_op_enforces_mode [OF ex_request_parts(4,1,2,3) refl refl refl, of ex_env ex_server ex_write] ok
    by (simp add: ex_request_parts ex_lstat ex_write_def can_write_def)
qed

end
