(* ===== verification/CompoundSafety.thy ===== *)
theory CompoundSafety
  imports OpAnswers PermSafety
begin

text \<open>
  What a COMPOUND guarantees: which operations of it are run and in which state, that an operation
  runs on an export only when the export admits the client, its security flavour and its identity,
  that the run stops at the first error, and that each result belongs to its operation.
\<close>

section \<open>The operations that are run\<close>

text \<open>\<open>dispatched E args rq sv k rq' sv'\<close>: the handler of operation \<open>k\<close> is called, in \<open>rq'\<close> and \<open>sv'\<close>.\<close>

inductive dispatched ::
  "('w, 'f, 'l, 'c) server_env \<Rightarrow> nfs_arg_op list \<Rightarrow> nfs_request \<Rightarrow> ('w, 'f, 'l, 'c) server
    \<Rightarrow> nat \<Rightarrow> nfs_request \<Rightarrow> ('w, 'f, 'l, 'c) server \<Rightarrow> bool" for E where
  here: "rate_limited E a rq sv = (False, sv1) \<Longrightarrow> refusal E a rq sv1 = None \<Longrightarrow>
    dispatched E (a # args) rq sv 0 rq sv1"
| later: "rate_limited E a rq sv = (False, sv1) \<Longrightarrow> refusal E a rq sv1 = None \<Longrightarrow>
    execute_op E a (next_code args) rq sv1 = Some (resp, sv2) \<Longrightarrow> rs_result resp = Some r \<Longrightarrow>
    rs_status resp = Nfs4Ok \<Longrightarrow> dispatched E args (rs_request resp) sv2 k rq' sv' \<Longrightarrow>
    dispatched E (a # args) rq sv (Suc k) rq' sv'"

inductive_cases dispatchedE: "dispatched E (a # args) rq sv k rq' sv'"
inductive_simps dispatched_Nil [simp]: "dispatched E [] rq sv k rq' sv'"

lemma dispatched_bound: "dispatched E args rq sv k rq' sv' \<Longrightarrow> k < length args"
  by (induction rule: dispatched.induct) simp_all

section \<open>The frame of a step\<close>

lemma exports_of_rate_limited [framed]: "rate_limited E a rq sv = (b, sv') \<Longrightarrow> exports_of sv' = exports_of sv"
  by (auto simp: rate_limited_def Let_def split: option.splits prod.splits)

lemma enforce_simps [simp]:
  "rs_request (enforce_clients sv a e resp) = rs_request resp"
  "rs_request (enforce_sec sv a n resp) = rs_request resp"
  by (simp_all add: enforce_clients_def enforce_sec_def)

lemma enforce_ok:
  assumes "rs_status (enforce_sec sv a n (enforce_clients sv a e resp)) = Nfs4Ok"
  shows "enforce_sec sv a n (enforce_clients sv a e resp) = resp \<and> rs_status resp = Nfs4Ok"
    and "rq_current_export_id (rs_request resp) = e \<or> check_client_access sv (rs_request resp)"
  using assms by (auto simp: enforce_clients_def enforce_sec_def split: if_splits)

text \<open>The parts of \<open>execute_op\<close>.\<close>

lemma execute_op_cases:
  assumes "execute_op E a n rq sv = Some (resp, sv')"
  obtains resp1 sv1 rq2 sv2 where "run_op E a rq sv = Some (resp1, sv1)"
    "exports_of sv1 = exports_of sv" "moved sv rq (rs_request resp1)"
    "rs_result resp1 = None \<longrightarrow> rs_status resp1 \<noteq> Nfs4Ok"
    "exports_of sv2 = exports_of sv" "ctx rq2 = ctx (rs_request resp1)" "ident rq2 = ident (rs_request resp1)"
    "resp = enforce_sec sv2 a n (enforce_clients sv2 a (rq_current_export_id rq) (resp1\<lparr>rs_request := rq2\<rparr>))"
    "sv' = count_op rq2 sv2"
proof -
  obtain resp1 sv1 where run: "run_op E a rq sv = Some (resp1, sv1)"
    using assms by (auto simp: execute_op_def split: option.splits)
  have frame: "exports_of sv1 = exports_of sv" "moved sv rq (rs_request resp1)"
    "rs_result resp1 = None \<longrightarrow> rs_status resp1 \<noteq> Nfs4Ok"
    using run_op_ok[of sv rq E a] run by (simp_all add: op_ok_def)
  define p where "p = (if creates_object E sv a rq \<and> rs_status resp1 = Nfs4Ok
    then chown_new_object E (rq_caller sv rq) (rs_request resp1) sv1 else (rs_request resp1, sv1))"
  have p: "exports_of (snd p) = exports_of sv" "ctx (fst p) = ctx (rs_request resp1)"
      "ident (fst p) = ident (rs_request resp1)"
    using frame(1) chown_new_object_framed[of E "rq_caller sv rq" "rs_request resp1" sv1 "fst p" "snd p"]
    by (auto simp: p_def split: if_splits)
  have "resp = enforce_sec (snd p) a n
          (enforce_clients (snd p) a (rq_current_export_id rq) (resp1\<lparr>rs_request := fst p\<rparr>))"
    and "sv' = count_op (fst p) (snd p)"
    using assms run by (auto simp: execute_op_def p_def Let_def case_prod_beta split: if_splits)
  with that[OF run frame p] show ?thesis
    by blast
qed

lemma execute_op_ok: "op_ok sv rq (execute_op E a n rq sv)"
  unfolding op_ok_def
proof (intro allI impI)
  fix resp sv'
  assume "execute_op E a n rq sv = Some (resp, sv')"
  then show "exports_of sv' = exports_of sv \<and> moved sv rq (rs_request resp) \<and>
      (rs_result resp = None \<longrightarrow> rs_status resp \<noteq> Nfs4Ok)"
    by (rule execute_op_cases) (auto simp: moved_def dest!: enforce_ok(1))
qed

section \<open>Only admitted clients\<close>

text \<open>The request stands on an export as its table entry says, and the export admits the client.\<close>

definition well_placed :: "('w, 'f, 'l, 'c) server \<Rightarrow> nfs_request \<Rightarrow> bool" where
  "well_placed sv rq \<longleftrightarrow> (\<forall>e info. rq_current_export_id rq = Some e \<longrightarrow> e \<noteq> PSEUDO_ROOT_EXPORT_ID \<longrightarrow>
     get_export_by_id (sv_exports sv) e = Some info \<longrightarrow>
     rq_objs rq = Some (ei_export_id info) \<and> rq_read_only rq = ei_read_only info \<and> check_client_access sv rq)"

lemma get_export_cong:
  assumes "exports_of sv' = exports_of sv"
  shows "get_export_by_id (sv_exports sv') = get_export_by_id (sv_exports sv)"
  using assms by (auto simp: exports_of_def get_export_by_id_def fun_eq_iff split: option.split)

lemma access_control_cong:
  assumes "exports_of sv' = exports_of sv" and "rq_objs rq' = rq_objs rq"
  shows "rq_access_control sv' rq' = rq_access_control sv rq"
  using assms by (auto simp: exports_of_def rq_access_control_def rq_objects_def fun_eq_iff split: option.split)

lemma check_client_access_cong:
  assumes "exports_of sv' = exports_of sv" and "rq_objs rq' = rq_objs rq" and "ident rq' = ident rq"
  shows "check_client_access sv' rq' = check_client_access sv rq"
  using access_control_cong[OF assms(1,2)] assms(3)
  by (simp add: check_client_access_def ident_def split: option.split)

lemma well_placed_same:
  assumes "well_placed sv rq" and "exports_of sv' = exports_of sv" and "ctx rq' = ctx rq" and "ident rq' = ident rq"
  shows "well_placed sv' rq'"
  using assms check_client_access_cong[OF assms(2) _ assms(4)] get_export_cong[OF assms(2)]
  by (auto simp: well_placed_def ctx_def)

lemma well_placed_set_export:
  assumes at: "ctx rq' = ctx (set_export sv e rq0)" and same: "exports_of sv' = exports_of sv"
    and client: "\<And>info. e \<noteq> PSEUDO_ROOT_EXPORT_ID \<Longrightarrow> get_export_by_id (sv_exports sv) e = Some info \<Longrightarrow>
      rq_current_export_id rq' = Some e \<Longrightarrow> rq_objs rq' = Some (ei_export_id info) \<Longrightarrow> check_client_access sv' rq'"
  shows "well_placed sv' rq'"
  using at client
  by (auto simp: well_placed_def ctx_def set_export_def Let_def get_export_cong[OF same] split: option.splits if_splits)

lemma well_placed_execute:
  assumes adm: "well_placed sv rq" and exec: "execute_op E a n rq sv = Some (resp, sv')" and ok: "rs_status resp = Nfs4Ok"
  shows "well_placed sv' (rs_request resp)"
  using exec
proof (rule execute_op_cases)
  fix resp1 sv1 rq2 sv2
  assume moved: "moved sv rq (rs_request resp1)" and same: "exports_of sv2 = exports_of sv"
    and rq2: "ctx rq2 = ctx (rs_request resp1)" "ident rq2 = ident (rs_request resp1)"
    and resp: "resp = enforce_sec sv2 a n (enforce_clients sv2 a (rq_current_export_id rq) (resp1\<lparr>rs_request := rq2\<rparr>))"
    and sv': "sv' = count_op rq2 sv2"
  have client: "rq_current_export_id rq2 = rq_current_export_id rq \<or> check_client_access sv2 rq2"
    using enforce_ok(2)[OF ok[unfolded resp]] by simp
  have ident: "ident rq2 = ident rq"
    using moved rq2 by (simp add: moved_def)
  consider "ctx rq2 = ctx rq" | e rq0 where "ctx rq2 = ctx (set_export sv e rq0)"
    using moved rq2 by (auto simp: moved_def)
  then have "well_placed sv2 rq2"
  proof cases
    case 1
    show ?thesis
      by (rule well_placed_same[OF adm same 1 ident])
  next
    case 2
    then show ?thesis
    proof (rule well_placed_set_export[OF _ same])
      fix info
      assume e: "e \<noteq> PSEUDO_ROOT_EXPORT_ID" "get_export_by_id (sv_exports sv) e = Some info"
        "rq_current_export_id rq2 = Some e" "rq_objs rq2 = Some (ei_export_id info)"
      show "check_client_access sv2 rq2"
        using client
      proof
        assume "rq_current_export_id rq2 = rq_current_export_id rq"
        with e adm have "rq_objs rq2 = rq_objs rq" "check_client_access sv rq"
          by (simp_all add: well_placed_def)
        then show ?thesis
          by (simp add: check_client_access_cong[OF same _ ident])
      qed
    qed
  qed
  then show ?thesis
    using well_placed_same[of sv2 rq2 sv' rq2] by (simp add: sv' resp)
qed

text \<open>What is known of the state an operation is dispatched in.\<close>

lemma dispatched_state:
  assumes "dispatched E args rq sv k rq' sv'" and "well_placed sv rq"
  shows "exports_of sv' = exports_of sv \<and> well_placed sv' rq' \<and> ident rq' = ident rq \<and> refusal E (args ! k) rq' sv' = None"
  using assms
proof (induction rule: dispatched.induct)
  case (here a rq sv sv1 args)
  then show ?case
    using well_placed_same[of sv rq sv1 rq] by (simp add: exports_of_rate_limited)
next
  case (later a rq sv sv1 args resp sv2 r k rq' sv')
  have sv1: "exports_of sv1 = exports_of sv"
    using later.hyps(1) by (rule exports_of_rate_limited)
  then have "well_placed sv1 rq"
    using well_placed_same[OF later.prems sv1, of rq] by simp
  then have "well_placed sv2 (rs_request resp)"
    using later.hyps(3,5) by (rule well_placed_execute)
  moreover have "exports_of sv2 = exports_of sv1 \<and> ident (rs_request resp) = ident rq"
    using execute_op_ok[of sv1 rq E a "next_code args"] later.hyps(3) by (simp add: op_ok_def moved_def)
  ultimately show ?case
    using later.IH sv1 by simp
qed

text \<open>An operation dispatched on an export has passed the export's checks.\<close>

lemma dispatched_on_export:
  assumes run: "dispatched E args rq sv k rq' sv'" and start: "rq_current_export_id rq = None"
    and entry: "rq_current_export_id rq' = Some e" "e \<noteq> PSEUDO_ROOT_EXPORT_ID"
      "get_export_by_id (sv_exports sv) e = Some info" "em_objs (sv_exports sv) (ei_export_id info) = Some ob"
  shows "rq_access_control sv' rq' = Some (eo_access_control ob)" and "rq_read_only rq' = ei_read_only info"
    and "check_client_access sv' rq'" and "ident rq' = ident rq" and "refusal E (args ! k) rq' sv' = None"
proof -
  have "well_placed sv rq"
    using start by (simp add: well_placed_def)
  then have st: "exports_of sv' = exports_of sv" "well_placed sv' rq'" "ident rq' = ident rq"
      "refusal E (args ! k) rq' sv' = None"
    using dispatched_state[OF run] by simp_all
  then show "rq_read_only rq' = ei_read_only info" "check_client_access sv' rq'"
      "ident rq' = ident rq" "refusal E (args ! k) rq' sv' = None"
    using entry get_export_cong[OF st(1)] by (simp_all add: well_placed_def)
  have "rq_objs rq' = Some (ei_export_id info)"
    using st(2) entry get_export_cong[OF st(1)] by (simp add: well_placed_def)
  then show "rq_access_control sv' rq' = Some (eo_access_control ob)"
    using access_control_cong[OF st(1), of rq' rq'] entry(4) by (simp add: rq_access_control_def rq_objects_def)
qed

lemma dispatched_admitted:
  assumes "rq_access_control sv rq' = Some ac" and "ident rq' = ident rq"
  shows "check_client_access sv rq' \<longleftrightarrow> check_client ac (rq_client_addr rq)"
    and "sec_allowed sv rq' \<longleftrightarrow> allows_flavor ac (rq_sec_flavor rq)"
    and "rq_caller sv rq' = caller_new (rq_auth_cred rq) (Some ac)"
  using assms by (simp_all add: check_client_access_def sec_allowed_def rq_caller_def ident_def)

text \<open>
  C1: While the current filehandle is on an export, a COMPOUND runs only operations the export
  admits. Take any sequence of operations, started on no export, of which operation \<open>k\<close> is
  dispatched while the current filehandle is on the export \<open>e\<close>: then the export's client list
  admits the client's address, the operation does not change a read-only export, the caller,
  mapped by the export's squash options, passes the permission check of the operation, and the
  call's security flavour is one of the export's, unless the operation is one of those that
  \<open>wrongsec_exempt\<close> lists: PUTFH, PUTROOTFH, PUTPUBFH, RESTOREFH, LOOKUP, LOOKUPP, SECINFO and
  SECINFO\_NO\_NAME are run under any flavour. Operations run while there is no current export
  (LOCKU and RELEASE\_LOCKOWNER without a PUTFH act on the first export) are not covered: no
  export's rules are consulted for them.
\<close>

theorem compound_enforces_export:
  assumes "dispatched E args rq sv k rq' sv'" and "rq_current_export_id rq = None"
    and "rq_current_export_id rq' = Some e" and "e \<noteq> PSEUDO_ROOT_EXPORT_ID"
    and "get_export_by_id (sv_exports sv) e = Some info"
    and "em_objs (sv_exports sv) (ei_export_id info) = Some ob"
  shows "check_client (eo_access_control ob) (rq_client_addr rq) \<and>
    (allows_flavor (eo_access_control ob) (rq_sec_flavor rq) \<or> wrongsec_exempt (op_code (args ! k))) \<and>
    \<not> (ei_read_only info \<and> is_mutating (args ! k)) \<and>
    check_op E sv' (args ! k) rq' (caller_new (rq_auth_cred rq) (Some (eo_access_control ob))) = Inr () \<and>
    (wrongsec_exempt (op_code (args ! k)) \<longrightarrow> op_code (args ! k) \<in> {OP_PUTFH, OP_PUTPUBFH, OP_PUTROOTFH,
       OP_RESTOREFH, OP_SECINFO, OP_SECINFO_NO_NAME, OP_LOOKUP, OP_LOOKUPP})"
proof -
  note on = dispatched_on_export[OF assms]
  note adm = dispatched_admitted[OF on(1,4)]
  show ?thesis
    using on(2,3,5) by (auto simp: refusal_def adm wrongsec_exempt_def moves_filehandle_def split: if_splits sum.splits)
qed

section \<open>The run stops at the first error\<close>

text \<open>
  How the loop deals with one operation: \<open>loop_op E a n rq sv st rs rq' sv'\<close> says that it gets the
  status \<open>st\<close> and adds the results \<open>rs\<close> to the reply. It is refused by the rate limiter, refused by
  the checks before the handler, or has the status and the result of its handler.
\<close>

inductive loop_op ::
  "('w, 'f, 'l, 'c) server_env \<Rightarrow> nfs_arg_op \<Rightarrow> u32 option \<Rightarrow> nfs_request \<Rightarrow> ('w, 'f, 'l, 'c) server
    \<Rightarrow> nfs_stat4 \<Rightarrow> nfs_res_op4 list \<Rightarrow> nfs_request \<Rightarrow> ('w, 'f, 'l, 'c) server \<Rightarrow> bool" for E a n rq sv where
  limited: "rate_limited E a rq sv = (True, sv1) \<Longrightarrow>
    loop_op E a n rq sv Nfs4errDelay [op_error a Nfs4errDelay] rq sv1"
| refused: "rate_limited E a rq sv = (False, sv1) \<Longrightarrow> refusal E a rq sv1 = Some (st, rs) \<Longrightarrow>
    loop_op E a n rq sv st rs rq sv1"
| handled: "rate_limited E a rq sv = (False, sv1) \<Longrightarrow> refusal E a rq sv1 = None \<Longrightarrow>
    execute_op E a n rq sv1 = Some (resp, sv2) \<Longrightarrow>
    loop_op E a n rq sv (rs_status resp) (case rs_result resp of None \<Rightarrow> [] | Some r \<Rightarrow> [r]) (rs_request resp) sv2"

text \<open>
  \<open>reached E args rq sv rs k rq' sv'\<close>: the loop comes to operation \<open>k\<close> in \<open>rq'\<close> and \<open>sv'\<close>, the operations
  before it have all had the status OK, and their results are \<open>rs\<close>.
\<close>

inductive reached ::
  "('w, 'f, 'l, 'c) server_env \<Rightarrow> nfs_arg_op list \<Rightarrow> nfs_request \<Rightarrow> ('w, 'f, 'l, 'c) server
    \<Rightarrow> nfs_res_op4 list \<Rightarrow> nat \<Rightarrow> nfs_request \<Rightarrow> ('w, 'f, 'l, 'c) server \<Rightarrow> bool" for E where
  start: "reached E args rq sv [] 0 rq sv"
| step: "loop_op E a (next_code args) rq sv Nfs4Ok [r] rq1 sv1 \<Longrightarrow> reached E args rq1 sv1 rs k rq' sv' \<Longrightarrow>
    reached E (a # args) rq sv (r # rs) (Suc k) rq' sv'"

definition was_run ::
  "('w, 'f, 'l, 'c) server_env \<Rightarrow> nfs_arg_op list \<Rightarrow> nfs_request \<Rightarrow> ('w, 'f, 'l, 'c) server \<Rightarrow> nat \<Rightarrow> bool" where
  "was_run E args rq sv k \<longleftrightarrow> (\<exists>rq' sv'. dispatched E args rq sv k rq' sv')"

lemma was_run_Nil [simp]: "\<not> was_run E [] rq sv k"
  by (simp add: was_run_def)

text \<open>One operation of the loop: refused, failed, or answered and the rest run.\<close>

lemma was_run_refused:
  assumes "rate_limited E a rq sv = (b, sv1)" and "b \<or> refusal E a rq sv1 \<noteq> None"
  shows "\<not> was_run E (a # args) rq sv k"
  using assms by (auto simp: was_run_def elim!: dispatchedE)

lemma was_run_failed:
  assumes "rate_limited E a rq sv = (False, sv1)" and "refusal E a rq sv1 = None"
    and "execute_op E a (next_code args) rq sv1 = Some (resp, sv2)" and "rs_status resp \<noteq> Nfs4Ok"
  shows "was_run E (a # args) rq sv k \<longleftrightarrow> k = 0"
  using assms by (auto simp: was_run_def elim!: dispatchedE intro: dispatched.here)

lemma was_run_answered:
  assumes "rate_limited E a rq sv = (False, sv1)" and "refusal E a rq sv1 = None"
    and "execute_op E a (next_code args) rq sv1 = Some (resp, sv2)" and "rs_status resp = Nfs4Ok"
  shows "was_run E (a # args) rq sv k \<longleftrightarrow> (case k of 0 \<Rightarrow> True | Suc k \<Rightarrow> was_run E args (rs_request resp) sv2 k)"
proof -
  obtain r where "rs_result resp = Some r"
    using execute_op_ok[of sv1 rq E a "next_code args"] assms(3,4) by (auto simp: op_ok_def)
  with assms show ?thesis
    by (cases k) (auto simp: was_run_def elim!: dispatchedE intro: dispatched.intros, blast+)
qed

lemma need_error [simp]:
  "st \<noteq> Nfs4Ok \<Longrightarrow> need b st \<noteq> Inl Nfs4Ok" "need_dir stat c d w \<noteq> Inl Nfs4Ok" "need_file stat c d w \<noteq> Inl Nfs4Ok"
  "need_unlink stat c d nm \<noteq> Inl Nfs4Ok" "check_attr getpw getgr c m v \<noteq> Inl Nfs4Ok"
  by (auto simp: need_def need_dir_def need_file_def need_unlink_def check_attr_def Let_def
      split: option.split file_attr_value.split)

lemma check_setattr_error [simp]: "check_setattr getpw getgr stat c p vs \<noteq> Inl Nfs4Ok"
proof -
  have "check_attrs getpw getgr c m vs \<noteq> Inl Nfs4Ok" for m
    by (induction vs) (auto split: sum.split dest: sym)
  then show ?thesis
    by (simp add: check_setattr_def split: option.split)
qed

lemma check_op_error: "check_op E sv a rq c \<noteq> Inl Nfs4Ok"
  unfolding check_op_def check_op_on_def Let_def
  by (auto split: option.split sum.split nfs_arg_op.split open_claim4.split open_flag4.split dest: sym)

lemma refusal_error:
  assumes "refusal E a rq sv = Some (st, rs)"
  shows "st \<noteq> Nfs4Ok \<and> (rs = [] \<or> rs = [op_error a st])"
  using assms check_op_error[of E sv a rq] by (auto simp: refusal_def split: if_splits sum.splits)

text \<open>The three ways the loop goes on after its first operation.\<close>

lemma compound_ops_cases:
  assumes "compound_ops E (a # args) rq sv = Some (st, rs, rq', sv')"
  obtains (refused) "\<And>k. \<not> was_run E (a # args) rq sv k" "st \<noteq> Nfs4Ok" "rs = [] \<or> rs = [op_error a st]"
      "loop_op E a (next_code args) rq sv st rs rq' sv'"
  | (failed) sv1 resp sv2 where "refusal E a rq sv1 = None"
      "execute_op E a (next_code args) rq sv1 = Some (resp, sv2)" "\<And>k. was_run E (a # args) rq sv k \<longleftrightarrow> k = 0"
      "st \<noteq> Nfs4Ok" "st = rs_status resp" "rs = [] \<or> rs_result resp = Some (hd rs) \<and> length rs = 1"
      "loop_op E a (next_code args) rq sv st rs rq' sv'"
  | (answered) sv1 resp sv2 r rs1 where "execute_op E a (next_code args) rq sv1 = Some (resp, sv2)"
      "\<And>k. was_run E (a # args) rq sv k \<longleftrightarrow> (case k of 0 \<Rightarrow> True | Suc k \<Rightarrow> was_run E args (rs_request resp) sv2 k)"
      "rs_result resp = Some r" "rs = r # rs1" "compound_ops E args (rs_request resp) sv2 = Some (st, rs1, rq', sv')"
      "loop_op E a (next_code args) rq sv Nfs4Ok [r] (rs_request resp) sv2"
proof -
  obtain b sv1 where rate: "rate_limited E a rq sv = (b, sv1)"
    by fastforce
  show thesis
  proof (cases "b \<or> refusal E a rq sv1 \<noteq> None")
    case True
    have "st \<noteq> Nfs4Ok \<and> (rs = [] \<or> rs = [op_error a st])"
      using assms True rate by (auto simp: refusal_error split: bool.splits option.splits dest!: refusal_error)
    moreover have "loop_op E a (next_code args) rq sv st rs rq' sv'"
      using assms True rate by (cases b) (auto intro: loop_op.limited loop_op.refused)
    ultimately show ?thesis
      using refused was_run_refused[OF rate True] by blast
  next
    case False
    then have go: "rate_limited E a rq sv = (False, sv1)" "refusal E a rq sv1 = None"
      using rate by (simp_all del: not_None_eq)
    then obtain resp sv2 where exec: "execute_op E a (next_code args) rq sv1 = Some (resp, sv2)"
      using assms by (auto split: option.splits)
    show ?thesis
    proof (cases "rs_status resp = Nfs4Ok")
      case False
      have "st = rs_status resp" "rs = [] \<or> rs_result resp = Some (hd rs) \<and> length rs = 1"
        using assms go exec False by (simp_all split: option.splits) auto
      moreover have "loop_op E a (next_code args) rq sv st rs rq' sv'"
        using loop_op.handled[OF go exec] assms go exec False by (auto split: option.splits)
      ultimately show ?thesis
        using failed[OF go(2) exec was_run_failed[OF go exec False]] False by simp
    next
      case True
      then obtain r where r: "rs_result resp = Some r"
        using execute_op_ok[of sv1 rq E a "next_code args"] exec by (auto simp: op_ok_def)
      then obtain rs1 where "rs = r # rs1" "compound_ops E args (rs_request resp) sv2 = Some (st, rs1, rq', sv')"
        using assms go exec True by auto
      moreover have "loop_op E a (next_code args) rq sv Nfs4Ok [r] (rs_request resp) sv2"
        using loop_op.handled[OF go exec] True r by simp
      ultimately show ?thesis
        by (rule answered[OF exec was_run_answered[OF go exec True] r])
    qed
  qed
qed

text \<open>How the whole loop ends.\<close>

definition stops_at ::
  "('w, 'f, 'l, 'c) server_env \<Rightarrow> nfs_arg_op list \<Rightarrow> nfs_request \<Rightarrow> ('w, 'f, 'l, 'c) server \<Rightarrow> nat
    \<Rightarrow> nfs_stat4 \<Rightarrow> nfs_res_op4 list \<Rightarrow> nfs_request \<Rightarrow> ('w, 'f, 'l, 'c) server \<Rightarrow> bool" where
  "stops_at E args rq sv k st rs rq' sv' \<longleftrightarrow> (\<exists>rq1 sv1. reached E args rq sv (take k rs) k rq1 sv1 \<and>
     loop_op E (args ! k) (next_code (drop (Suc k) args)) rq1 sv1 st (drop k rs) rq' sv')"

lemma stops_at_first:
  assumes "loop_op E a (next_code args) rq sv st rs rq' sv'"
  shows "stops_at E (a # args) rq sv 0 st rs rq' sv'"
  using assms by (auto simp: stops_at_def intro: reached.start)

lemma stops_at_later:
  assumes "loop_op E a (next_code args) rq sv Nfs4Ok [r] rq1 sv1" and "stops_at E args rq1 sv1 k st rs rq' sv'"
  shows "stops_at E (a # args) rq sv (Suc k) st (r # rs) rq' sv'"
  using assms by (auto simp: stops_at_def intro: reached.step)

lemma compound_ops_outcome:
  assumes "compound_ops E args rq sv = Some (st, rs, rq', sv')"
  shows "if st = Nfs4Ok then reached E args rq sv rs (length args) rq' sv' \<and> (\<forall>k<length args. was_run E args rq sv k)
    else \<exists>k<length args. stops_at E args rq sv k st rs rq' sv' \<and> length rs \<in> {k, Suc k} \<and>
      (\<forall>i<k. was_run E args rq sv i) \<and> (\<forall>i>k. \<not> was_run E args rq sv i)"
  using assms
proof (induction args arbitrary: rq sv rs)
  case Nil
  then show ?case by (auto intro: reached.start)
next
  case (Cons a args)
  from Cons.prems show ?case
  proof (cases rule: compound_ops_cases)
    case refused
    then show ?thesis by (auto intro!: exI[of _ 0] stops_at_first)
  next
    case failed
    then show ?thesis by (auto intro!: exI[of _ 0] stops_at_first)
  next
    case (answered sv1 resp sv2 r rs1)
    show ?thesis
    proof (cases "st = Nfs4Ok")
      case True
      then show ?thesis
        using Cons.IH[OF answered(5)] answered(2,4) reached.step[OF answered(6)] by (auto split: nat.split)
    next
      case False
      then obtain k where "k < length args" "length rs1 \<in> {k, Suc k}" "stops_at E args (rs_request resp) sv2 k st rs1 rq' sv'"
          "\<forall>i<k. was_run E args (rs_request resp) sv2 i" "\<forall>i>k. \<not> was_run E args (rs_request resp) sv2 i"
        using Cons.IH[OF answered(5)] by auto
      then show ?thesis
        using answered(2,4) False stops_at_later[OF answered(6)]
        by (auto intro!: exI[of _ "Suc k"] split: nat.split)
    qed
  qed
qed

text \<open>A handler is called exactly for the operations the loop comes to and does not refuse.\<close>

lemma loop_op_OkE:
  assumes "loop_op E a n rq sv Nfs4Ok [r] rq1 sv2"
  obtains sv1 resp where "rate_limited E a rq sv = (False, sv1)" "refusal E a rq sv1 = None"
    "execute_op E a n rq sv1 = Some (resp, sv2)" "rs_result resp = Some r" "rs_status resp = Nfs4Ok" "rq1 = rs_request resp"
  using assms by (cases rule: loop_op.cases) (auto dest: refusal_error split: option.splits)

lemma dispatched_iff_reached:
  "dispatched E args rq sv k rq' sv' \<longleftrightarrow> (\<exists>rs sv0. reached E args rq sv rs k rq' sv0 \<and> k < length args \<and>
     rate_limited E (args ! k) rq' sv0 = (False, sv') \<and> refusal E (args ! k) rq' sv' = None)"
proof
  assume "dispatched E args rq sv k rq' sv'"
  then show "\<exists>rs sv0. reached E args rq sv rs k rq' sv0 \<and> k < length args \<and>
      rate_limited E (args ! k) rq' sv0 = (False, sv') \<and> refusal E (args ! k) rq' sv' = None"
  proof (induction rule: dispatched.induct)
    case (here a rq sv sv1 args)
    then show ?case by (auto intro: reached.start)
  next
    case (later a rq sv sv1 args resp sv2 r k rq' sv')
    from loop_op.handled[OF later.hyps(1-3)] later.hyps(4,5)
    have "loop_op E a (next_code args) rq sv Nfs4Ok [r] (rs_request resp) sv2" by simp
    with later.IH show ?case by (auto intro: reached.step)
  qed
next
  assume "\<exists>rs sv0. reached E args rq sv rs k rq' sv0 \<and> k < length args \<and>
      rate_limited E (args ! k) rq' sv0 = (False, sv') \<and> refusal E (args ! k) rq' sv' = None"
  then obtain rs sv0 where "reached E args rq sv rs k rq' sv0" and last: "k < length args"
      "rate_limited E (args ! k) rq' sv0 = (False, sv')" "refusal E (args ! k) rq' sv' = None"
    by blast
  then show "dispatched E args rq sv k rq' sv'"
  proof (induction rule: reached.induct)
    case (start args rq sv)
    then show ?case by (cases args) (auto intro: dispatched.here)
  next
    case (step a args rq sv r rq1 sv1 rs k rq' sv0)
    from step.hyps(1) step.IH step.prems show ?case
      by (elim loop_op_OkE) (auto intro: dispatched.later)
  qed
qed

lemma reached_length: "reached E args rq sv rs k rq' sv' \<Longrightarrow> length rs = k"
  by (induction rule: reached.induct) simp_all

text \<open>
  C6: A COMPOUND stops at its first error, and its reply has the status of the operation that
  failed. The reply echoes the request's tag. A minor version above 1 is refused with
  MINOR\_VERS\_MISMATCH, and nothing runs. Otherwise, if the status of the reply is OK, every
  operation was run, each had the status OK, and the reply has their results in order. If it is an
  error, there is an operation \<open>k\<close> the error belongs to: the operations before it were run, had the
  status OK and gave the first \<open>k\<close> results; in the state they leave, operation \<open>k\<close> itself has the
  status of the reply and what follows in the reply is its result or nothing (\<open>loop_op\<close>: DELAY from
  the rate limiter, the status of the check that refuses it, or the status of its handler); and
  no operation after it is run.
\<close>

theorem compound_stops_at_first_error:
  assumes "compound E msg rq sv = Some (rq', body, sv')" and "cb_args msg = Some args"
  shows "\<exists>st rs. body = compound_reply st (compound4args_tag args) rs \<and>
    (let ops = compound4args_argarray args; rq0 = rq\<lparr>rq_auth_cred := Some (cb_cred msg)\<rparr> in
     if 1 < compound4args_minor_version args then st = Nfs4errMinorVersMismatch \<and> rs = [] \<and> sv' = sv
     else if st = Nfs4Ok then length rs = length ops \<and> reached E ops rq0 sv rs (length ops) rq' sv' \<and>
       (\<forall>k<length ops. was_run E ops rq0 sv k)
     else \<exists>k<length ops. length rs \<in> {k, Suc k} \<and>
       (\<exists>rq1 sv1. reached E ops rq0 sv (take k rs) k rq1 sv1 \<and>
          loop_op E (ops ! k) (next_code (drop (Suc k) ops)) rq1 sv1 st (drop k rs) rq' sv') \<and>
       (\<forall>i<k. was_run E ops rq0 sv i) \<and> (\<forall>i>k. \<not> was_run E ops rq0 sv i))"
proof (cases "1 < compound4args_minor_version args")
  case True
  then show ?thesis
    using assms by (auto simp: compound_def)
next
  case False
  then obtain st rs where run: "compound_ops E (compound4args_argarray args)
        (rq\<lparr>rq_auth_cred := Some (cb_cred msg)\<rparr>) sv = Some (st, rs, rq', sv')"
    and body: "body = compound_reply st (compound4args_tag args) rs"
    using assms by (auto simp: compound_def)
  show ?thesis
  proof (intro exI conjI)
    show "body = compound_reply st (compound4args_tag args) rs"
      by (rule body)
    show "let ops = compound4args_argarray args; rq0 = rq\<lparr>rq_auth_cred := Some (cb_cred msg)\<rparr> in
       if 1 < compound4args_minor_version args then st = Nfs4errMinorVersMismatch \<and> rs = [] \<and> sv' = sv
       else if st = Nfs4Ok then length rs = length ops \<and> reached E ops rq0 sv rs (length ops) rq' sv' \<and>
         (\<forall>k<length ops. was_run E ops rq0 sv k)
       else \<exists>k<length ops. length rs \<in> {k, Suc k} \<and>
         (\<exists>rq1 sv1. reached E ops rq0 sv (take k rs) k rq1 sv1 \<and>
            loop_op E (ops ! k) (next_code (drop (Suc k) ops)) rq1 sv1 st (drop k rs) rq' sv') \<and>
         (\<forall>i<k. was_run E ops rq0 sv i) \<and> (\<forall>i>k. \<not> was_run E ops rq0 sv i)"
      using compound_ops_outcome[OF run] False reached_length
      unfolding Let_def stops_at_def by (cases "st = Nfs4Ok") (simp_all, blast+)
  qed
qed

section \<open>Results\<close>

lemma execute_op_answers:
  assumes "execute_op E a n rq sv = Some (resp, sv')" and "rs_result resp = Some r"
  shows "res_code r = op_code a \<or> op_code a = OP_PUTPUBFH \<and> res_code r = OP_PUTROOTFH"
  using assms(1)
proof (rule execute_op_cases)
  fix resp1 sv1 rq2 sv2
  assume run: "run_op E a rq sv = Some (resp1, sv1)"
    and resp: "resp = enforce_sec sv2 a n (enforce_clients sv2 a (rq_current_export_id rq) (resp1\<lparr>rs_request := rq2\<rparr>))"
  have "rs_result resp1 = Some r \<or> res_code r = op_code a"
    using assms(2) by (auto simp: resp enforce_sec_def enforce_clients_def op_error_def split: if_splits)
  then show ?thesis
    using run_op_answers[of a E rq sv] run by (auto simp: answers_def split: if_splits)
qed

text \<open>
  C17: Every result of a COMPOUND is of its operation: the \<open>i\<close>-th result is encoded with the
  operation number of the \<open>i\<close>-th operation, so a client decodes it as the type it expects. The
  exception is PUTPUBFH, which is answered as PUTROOTFH.
\<close>

theorem results_match_operations:
  assumes "compound_ops E args rq sv = Some (st, rs, rq', sv')"
  shows "length rs \<le> length args \<and> list_all2 (\<lambda>r a. res_code r = op_code a \<or>
    op_code a = OP_PUTPUBFH \<and> res_code r = OP_PUTROOTFH) rs (take (length rs) args)"
  using assms
proof (induction args arbitrary: rq sv rs)
  case Nil
  then show ?case by auto
next
  case (Cons a args)
  from Cons.prems show ?case
  proof (cases rule: compound_ops_cases)
    case refused
    then show ?thesis by (auto simp: op_error_def)
  next
    case (failed sv1 resp sv2)
    then show ?thesis
      using execute_op_answers[OF failed(2)] by (cases rs) auto
  next
    case (answered sv1 resp sv2 r rs1)
    then show ?thesis
      using Cons.IH[OF answered(5)] execute_op_answers[OF answered(1,3)] by simp
  qed
qed

section \<open>Examples\<close>

text \<open>
  A request with the handle of \<open>/a\<close> in its connection's cache: PUTFH enters the export, then WRITE
  passes the checks of the export and of the file's mode.
\<close>

definition ex_export_handle :: filehandle where
  "ex_export_handle = ex_handle\<lparr>fh_id := stamp_export_id (fh_id ex_handle) 1\<rparr>"

definition ex_cred :: "string \<Rightarrow> opaque_auth" where
  "ex_cred machine = AuthUnix \<lparr>au_stamp = 0, au_machinename = machine, au_uid = 5, au_gid = 5, au_gids = []\<rparr>"

definition ex_call_request :: "sec_flavor \<Rightarrow> string \<Rightarrow> nfs_request" where
  "ex_call_request f machine = (request_new ''10.0.0.1:700'' None 0
     (Some [(fh_id ex_export_handle, 0, ex_export_handle)]) True)
     \<lparr>rq_auth_cred := Some (ex_cred machine), rq_sec_flavor := f\<rparr>"

text \<open>The export accepts one security flavour.\<close>

definition ex_objs :: "sec_flavor \<Rightarrow> export_objs" where
  "ex_objs f = (export_objs_new 0)\<lparr>eo_access_control := access_control_new (access_config_default\<lparr>ac_sec := [f]\<rparr>)\<rparr>"

definition ex_site :: "sec_flavor \<Rightarrow> (mem_world, filehandle list, locking_state list, client_entry list) server" where
  "ex_site f = ex_server\<lparr>sv_exports := (sv_exports ex_server)\<lparr>em_objs := (em_objs (sv_exports ex_server))(1 \<mapsto> ex_objs f)\<rparr>\<rparr>"

definition ex_call_ops :: "nfs_arg_op list" where
  "ex_call_ops = [A_Opputfh \<lparr>put_fh4args_object = fh_id ex_export_handle\<rparr>, ex_write]"

definition ex_failing_ops :: "nfs_arg_op list" where
  "ex_failing_ops = [A_Opsavefh (), A_OpUndef0, A_Opsavefh ()]"

definition ex_failing_call :: call_body where
  "ex_failing_call = \<lparr>cb_rpcvers = 2, cb_prog = 100003, cb_vers = 4, cb_proc = 1, cb_cred = AuthNull [],
     cb_verf = AuthNull [], cb_args = Some \<lparr>compound4args_tag = ''t'', compound4args_minor_version = 1,
       compound4args_argarray = ex_failing_ops\<rparr>, cb_gss = None\<rparr>"

lemma ex_failing_run:
  assumes "rq_filehandle rq = Some fh" and "rq_objs rq = None" and "rq_sec_flavor rq = Sys" and "\<not> rq_read_only rq"
  shows "\<exists>rq' sv'. compound_ops ex_env ex_failing_ops rq ex_server = Some (Nfs4errNotsupp,
    [R_Opsavefh \<lparr>save_fh4res_status = Nfs4Ok\<rparr>], rq', sv')"
  using assms
  by (simp add: ex_failing_ops_def rate_limited_def rq_objects_def refusal_def check_op_def check_op_on_def
      sec_allowed_def rq_access_control_def execute_op_def run_op_def op_savefh_def reply_def creates_object_def
      is_mutating_def grace_denied_def ex_server_def enforce_clients_def enforce_sec_def moves_filehandle_def
      count_op_def rq_update_objs_def save_filehandle_def operation_not_supported_def check_client_access_def
      next_code_def Let_def OP_PUTFH_def OP_PUTPUBFH_def OP_PUTROOTFH_def OP_RESTOREFH_def OP_LOOKUP_def OP_LOOKUPP_def
      split: option.split)

theorem results_match_operations_witness:
  "\<exists>rq' sv'. compound_ops ex_env ex_failing_ops ex_request ex_server = Some (Nfs4errNotsupp,
     [R_Opsavefh \<lparr>save_fh4res_status = Nfs4Ok\<rparr>], rq', sv') \<and>
   list_all2 (\<lambda>r a. res_code r = op_code a \<or> op_code a = OP_PUTPUBFH \<and> res_code r = OP_PUTROOTFH)
     [R_Opsavefh \<lparr>save_fh4res_status = Nfs4Ok\<rparr>] [A_Opsavefh ()]"
proof -
  obtain rq' sv' where run: "compound_ops ex_env ex_failing_ops ex_request ex_server = Some (Nfs4errNotsupp,
      [R_Opsavefh \<lparr>save_fh4res_status = Nfs4Ok\<rparr>], rq', sv')"
    using ex_failing_run[of ex_request] by (auto simp: ex_request_def request_new_def)
  from results_match_operations[OF run] run show ?thesis
    by (simp add: ex_failing_ops_def)
qed

theorem compound_stops_at_first_error_witness:
  "\<exists>rq' sv' rs. compound ex_env ex_failing_call ex_request ex_server =
      Some (rq', compound_reply Nfs4errNotsupp ''t'' rs, sv') \<and> length rs = 1 \<and>
    \<not> was_run ex_env ex_failing_ops (ex_request\<lparr>rq_auth_cred := Some (AuthNull [])\<rparr>) ex_server 2"
proof -
  let ?rq = "ex_request\<lparr>rq_auth_cred := Some (AuthNull [])\<rparr>"
  obtain rq' sv' where "compound_ops ex_env ex_failing_ops ?rq ex_server = Some (Nfs4errNotsupp,
      [R_Opsavefh \<lparr>save_fh4res_status = Nfs4Ok\<rparr>], rq', sv')"
    using ex_failing_run[of ?rq] by (auto simp: ex_request_def request_new_def)
  then have call: "compound ex_env ex_failing_call ex_request ex_server = Some (rq',
      compound_reply Nfs4errNotsupp ''t'' [R_Opsavefh \<lparr>save_fh4res_status = Nfs4Ok\<rparr>], sv')"
    by (simp add: compound_def ex_failing_call_def)
  obtain k where k: "Suc 0 \<in> {k, Suc k}" "\<forall>i>k. \<not> was_run ex_env ex_failing_ops ?rq ex_server i"
    using compound_stops_at_first_error[OF call]
    by (auto simp: ex_failing_call_def compound_reply_def accepted_def Let_def)
  then have "\<not> was_run ex_env ex_failing_ops ?rq ex_server 2"
    by auto
  with call show ?thesis
    by auto
qed

lemma ex_call_parts:
  "fh_id ex_export_handle = stamp_export_id ex_fh 1" "export_id_from_fh (fh_id ex_export_handle) = 1"
  "\<not> is_pseudo_root_fh (fh_id ex_export_handle)" "fh_file ex_export_handle = ''/a''"
  by (simp_all add: ex_export_handle_def ex_handle_def stamp_export_id_def ex_fh_def export_id_from_fh_def
      is_pseudo_root_fh_def PSEUDO_ROOT_EXPORT_ID_def)

lemma ex_call_export:
  "get_export_by_id (sv_exports (ex_site f)) 1 = Some \<lparr>ei_export_id = 1, ei_name = ''data'', ei_path = ''/'', ei_read_only = False\<rparr>"
  "em_objs (sv_exports (ex_site f)) 1 = Some (ex_objs f)"
  by (simp_all add: ex_site_def ex_server_def ex_em1_def em_handle_message_def add_export_def mem_export_env_def
      export_manager_new_def get_export_by_id_def Let_def)

lemma ex_site_world [simp]: "sv_world (ex_site f) = sv_world ex_server"
  by (simp add: ex_site_def)

definition ex_entered :: "sec_flavor \<Rightarrow> string \<Rightarrow> nfs_request" where
  "ex_entered f m = set_filehandle ex_export_handle (set_export (ex_site f) 1 (ex_call_request f m))"

lemma ex_entered_parts:
  "rq_objs (ex_entered f m) = Some 1" "rq_current_export_id (ex_entered f m) = Some 1" "\<not> rq_read_only (ex_entered f m)"
  "rq_cached_fmanager (ex_entered f m) = Some \<lparr>fmh_export = 1, fmh_export_root = ''/''\<rparr>"
  "rq_filehandle (ex_entered f m) = Some ex_export_handle" "rq_sec_flavor (ex_entered f m) = f"
  "rq_auth_cred (ex_entered f m) = rq_auth_cred (ex_call_request f m)" "rq_client_addr (ex_entered f m) = ''10.0.0.1:700''"
  "rq_saved_filehandle (ex_entered f m) = None"
  by (simp_all add: ex_entered_def set_filehandle_def set_export_def Let_def PSEUDO_ROOT_EXPORT_ID_def
      ex_call_export ex_call_request_def request_new_def)

lemma ex_call_cached:
  "get_filehandle_from_cache ex_env (ex_site f) (fh_id ex_export_handle) (set_export (ex_site f) 1 (ex_call_request f m)) =
    (Some ex_export_handle, set_export (ex_site f) 1 (ex_call_request f m))"
proof -
  have "vfs_file_exists ex_env (ex_site f) ex_export_handle"
    by (simp add: vfs_file_exists_def ex_call_parts(2,4) ex_env_def ex_site_def ex_server_def ex_em1_def em_handle_message_def
        add_export_def mem_export_env_def export_manager_new_def Let_def mem_fs_simps)
  then show ?thesis
    by (simp add: get_filehandle_from_cache_def set_export_def ex_call_export Let_def PSEUDO_ROOT_EXPORT_ID_def
        ex_call_request_def request_new_def ex_env_def)
qed

lemma ex_objects_access:
  "check_client (eo_access_control (ex_objs f)) x" "allows_flavor (eo_access_control (ex_objs f)) f"
  by (simp_all add: ex_objs_def export_objs_new_def access_control_new_def access_config_default_def check_client_def
      allows_flavor_def default_sec_def)

lemma ex_access_control:
  "rq_access_control (ex_site f) (set_export (ex_site f) 1 (ex_call_request f m)) = Some (eo_access_control (ex_objs f))"
  "rq_access_control (ex_site f) (ex_entered f m) = Some (eo_access_control (ex_objs f))"
  by (simp_all add: rq_access_control_def rq_objects_def ex_entered_parts ex_call_export)
    (simp add: set_export_def ex_call_export Let_def PSEUDO_ROOT_EXPORT_ID_def)

lemma ex_call_putfh:
  "execute_op ex_env (ex_call_ops ! 0) n (ex_call_request f m) (ex_site f) =
    Some (respond (ex_entered f m) (putfh_res Nfs4Ok) Nfs4Ok, count_op (ex_entered f m) (ex_site f))"
proof -
  have "run_op ex_env (ex_call_ops ! 0) (ex_call_request f m) (ex_site f) =
      Some (respond (ex_entered f m) (putfh_res Nfs4Ok) Nfs4Ok, (ex_site f))"
    by (simp add: run_op_def ex_call_ops_def op_putfh_def Let_def ex_call_parts(2,3) ex_call_cached
        check_client_access_def ex_access_control ex_objects_access reply_def ex_entered_def)
      (simp add: ex_call_request_def request_new_def)
  then show ?thesis
    by (simp add: execute_op_def creates_object_def enforce_clients_def enforce_sec_def check_client_access_def
        sec_allowed_def ex_access_control ex_objects_access ex_entered_parts Let_def)
      (simp add: ex_call_ops_def respond_def)
qed

lemma ex_call_caller:
  "caller_new (rq_auth_cred (ex_call_request f m)) (Some (eo_access_control (ex_objs f))) = ex_caller"
  by (simp add: caller_new_def ex_cred_def ex_call_request_def request_new_def ex_objs_def export_objs_new_def access_control_new_def
      access_config_default_def map_ids_def map_with_def anon_ids_def ex_caller_def Let_def)

lemma ex_call_write_rate:
  "\<exists>sv1. rate_limited ex_env ex_write (ex_entered f m) (count_op (ex_entered f m) (ex_site f)) = (False, sv1) \<and>
     sv_world sv1 = sv_world (ex_site f)"
  by (simp add: rate_limited_def rq_objects_def ex_entered_parts count_op_def rq_update_objs_def update_objs_def
      ex_call_export try_consume_def ex_objs_def export_objs_new_def rate_limiter_new_def qos_config_default_def Let_def)

lemma ex_call_write_admitted:
  assumes same: "exports_of sv1 = exports_of (ex_site f)" and world: "sv_world sv1 = sv_world (ex_site f)"
  shows "refusal ex_env ex_write (ex_entered f m) sv1 = None"
proof -
  have ac: "rq_access_control sv1 (ex_entered f m) = Some (eo_access_control (ex_objs f))"
    using access_control_cong[OF same refl, of "ex_entered f m"] by (simp add: ex_access_control)
  have "\<not> sv_in_grace sv1"
    using same by (simp add: exports_of_def ex_site_def ex_server_def)
  moreover have "check_op ex_env sv1 ex_write (ex_entered f m) ex_caller = Inr ()"
    by (simp add: check_op_def check_op_on_def is_pseudo_root_def ex_entered_parts PSEUDO_ROOT_EXPORT_ID_def
        ex_request_parts(5) world ex_write_def need_file_def need_def ex_may_write ex_lstat
        handle_real_path_def ex_export_handle_def path_join_def ex_handle_def path_key_def)
  ultimately show ?thesis
    using ac by (simp add: refusal_def sec_allowed_def ex_entered_parts ex_objects_access rq_caller_def ex_call_caller)
qed

lemma ex_call_dispatched:
  "\<exists>sv'. dispatched ex_env ex_call_ops (ex_call_request f m) (ex_site f) 1 (ex_entered f m) sv'"
proof -
  let ?sv = "count_op (ex_entered f m) (ex_site f)"
  obtain sv1 where sv1: "rate_limited ex_env ex_write (ex_entered f m) ?sv = (False, sv1)"
      "sv_world sv1 = sv_world (ex_site f)"
    using ex_call_write_rate by blast
  moreover have "exports_of sv1 = exports_of (ex_site f)"
    using exports_of_rate_limited[OF sv1(1)] by simp
  ultimately have last: "dispatched ex_env [ex_write] (ex_entered f m) ?sv 0 (ex_entered f m) sv1"
    by (blast intro: dispatched.here ex_call_write_admitted)
  have "rate_limited ex_env (ex_call_ops ! 0) (ex_call_request f m) (ex_site f) = (False, (ex_site f))"
    and "refusal ex_env (ex_call_ops ! 0) (ex_call_request f m) (ex_site f) = None"
    by (simp_all add: rate_limited_def rq_objects_def refusal_def sec_allowed_def rq_access_control_def
        ex_call_request_def request_new_def check_op_def is_pseudo_root_def)
      (simp add: ex_site_def ex_server_def)
  then have "dispatched ex_env (ex_call_ops ! 0 # [ex_write]) (ex_call_request f m) (ex_site f) (Suc 0) (ex_entered f m) sv1"
    using ex_call_putfh by (rule dispatched.later) (simp_all add: putfh_res_def last)
  then show ?thesis
    by (auto simp: ex_call_ops_def)
qed

theorem compound_enforces_export_witness:
  "\<exists>sv'. dispatched ex_env ex_call_ops (ex_call_request Sys []) (ex_site Sys) 1 (ex_entered Sys []) sv' \<and>
    check_client (eo_access_control (ex_objs Sys)) (rq_client_addr (ex_call_request Sys [])) \<and>
    check_op ex_env sv' ex_write (ex_entered Sys [])
      (caller_new (rq_auth_cred (ex_call_request Sys [])) (Some (eo_access_control (ex_objs Sys)))) = Inr ()"
proof -
  obtain sv' where run: "dispatched ex_env ex_call_ops (ex_call_request Sys []) (ex_site Sys) 1 (ex_entered Sys []) sv'"
    using ex_call_dispatched ..
  have "rq_current_export_id (ex_call_request Sys []) = None"
    by (simp add: ex_call_request_def request_new_def)
  from compound_enforces_export[OF run this ex_entered_parts(2) _ ex_call_export(1)] ex_call_export(2) run
  show ?thesis
    by (auto simp: PSEUDO_ROOT_EXPORT_ID_def ex_call_ops_def)
qed

end
