(* ===== verification/Xdr.thy ===== *)
theory Xdr
  imports Rpc
begin

text \<open>
  The XDR codec (\<open>proto/src/xdr.rs\<close>): a serializer and a deserializer for serde's data model. A
  value of the data model is an \<open>xdr_value\<close>; the type a \<open>Deserialize\<close> implementation asks for is an
  \<open>xdr_type\<close>. Structs, tuple structs and tuples are the fields in order; newtypes are what they
  hold; a variant of an enum is its index and what it holds. Floats are their bits.
\<close>

section \<open>Values and types\<close>

datatype xdr_value =
    V_bool bool
  | V_i8 u8
  | V_i16 "16 word"
  | V_i32 u32
  | V_i64 u64
  | V_u8 u8
  | V_u16 "16 word"
  | V_u32 u32
  | V_u64 u64
  | V_f32 u32
  | V_f64 u64
  | V_char u32
  | V_str bytes
  | V_bytes bytes
  | V_none
  | V_some xdr_value
  | V_unit
  | V_seq "xdr_value list"
  | V_tuple "xdr_value list"
  | V_variant u32 xdr_value

datatype xdr_type =
    T_bool
  | T_i8
  | T_i16
  | T_i32
  | T_i64
  | T_u8
  | T_u16
  | T_u32
  | T_u64
  | T_f32
  | T_f64
  | T_char
  | T_str
  | T_bytes
  | T_option xdr_type
  | T_unit
  | T_seq xdr_type
  | T_tuple "xdr_type list"
  | T_enum "xdr_type list"

text \<open>\<open>String::from_utf8\<close> and \<open>char::from_u32\<close>.\<close>

definition utf8_cont :: "u8 \<Rightarrow> bool" where
  "utf8_cont b \<longleftrightarrow> 0x80 \<le> b \<and> b \<le> 0xBF"

fun valid_utf8 :: "bytes \<Rightarrow> bool" where
  "valid_utf8 [] = True"
| "valid_utf8 (b # bs) =
    (if b \<le> 0x7F then valid_utf8 bs
     else case bs of
       [] \<Rightarrow> False
     | c1 # bs1 \<Rightarrow>
         if 0xC2 \<le> b \<and> b \<le> 0xDF then utf8_cont c1 \<and> valid_utf8 bs1
         else (case bs1 of
           [] \<Rightarrow> False
         | c2 # bs2 \<Rightarrow>
             if 0xE0 \<le> b \<and> b \<le> 0xEF then
               (if b = 0xE0 then 0xA0 \<le> c1 \<and> c1 \<le> 0xBF
                else if b = 0xED then 0x80 \<le> c1 \<and> c1 \<le> 0x9F
                else utf8_cont c1) \<and> utf8_cont c2 \<and> valid_utf8 bs2
             else (case bs2 of
               [] \<Rightarrow> False
             | c3 # bs3 \<Rightarrow>
                 0xF0 \<le> b \<and> b \<le> 0xF4 \<and>
                 (if b = 0xF0 then 0x90 \<le> c1 \<and> c1 \<le> 0xBF
                  else if b = 0xF4 then 0x80 \<le> c1 \<and> c1 \<le> 0x8F
                  else utf8_cont c1) \<and> utf8_cont c2 \<and> utf8_cont c3 \<and> valid_utf8 bs3)))"

definition valid_char :: "u32 \<Rightarrow> bool" where
  "valid_char n \<longleftrightarrow> n < 0x110000 \<and> \<not> (0xD800 \<le> n \<and> n \<le> 0xDFFF)"

section \<open>Encoding\<close>

definition put_u32 :: "u32 \<Rightarrow> bytes" where
  "put_u32 v = be_bytes 4 v"

definition length_u32 :: "nat \<Rightarrow> u32 option" where
  "length_u32 len = (if len < 2 ^ 32 then Some (of_nat len) else None)"

definition xdr_put_opaque :: "bytes \<Rightarrow> bytes option" where
  "xdr_put_opaque dat = map_option (\<lambda>len. put_u32 len @ dat @ replicate (xdr_pad (length dat)) 0)
     (length_u32 (length dat))"

text \<open>The elements one after the other; an error ends it.\<close>

definition xdr_concat :: "bytes option list \<Rightarrow> bytes option" where
  "xdr_concat bs = foldr (\<lambda>b acc. case (b, acc) of (Some x, Some y) \<Rightarrow> Some (x @ y) | _ \<Rightarrow> None) bs (Some [])"

primrec to_xdr :: "xdr_value \<Rightarrow> bytes option" where
  "to_xdr (V_bool v) = Some (put_u32 (of_bool v))"
| "to_xdr (V_i8 v) = Some (be_bytes 4 (scast v :: u32))"
| "to_xdr (V_i16 v) = Some (be_bytes 4 (scast v :: u32))"
| "to_xdr (V_i32 v) = Some (be_bytes 4 v)"
| "to_xdr (V_i64 v) = Some (be_bytes 8 v)"
| "to_xdr (V_u8 v) = Some (put_u32 (ucast v))"
| "to_xdr (V_u16 v) = Some (put_u32 (ucast v))"
| "to_xdr (V_u32 v) = Some (put_u32 v)"
| "to_xdr (V_u64 v) = Some (be_bytes 8 v)"
| "to_xdr (V_f32 v) = Some (be_bytes 4 v)"
| "to_xdr (V_f64 v) = Some (be_bytes 8 v)"
| "to_xdr (V_char v) = Some (put_u32 v)"
| "to_xdr (V_str v) = xdr_put_opaque v"
| "to_xdr (V_bytes v) = xdr_put_opaque v"
| "to_xdr V_none = Some (put_u32 0)"
| "to_xdr (V_some v) = map_option ((@) (put_u32 1)) (to_xdr v)"
| "to_xdr V_unit = Some []"
| "to_xdr (V_seq vs) = (case length_u32 (length vs) of
     None \<Rightarrow> None | Some n \<Rightarrow> map_option ((@) (put_u32 n)) (xdr_concat (map to_xdr vs)))"
| "to_xdr (V_tuple vs) = xdr_concat (map to_xdr vs)"
| "to_xdr (V_variant i v) = map_option ((@) (put_u32 i)) (to_xdr v)"

section \<open>Decoding\<close>

type_synonym 'a reader = "bytes \<Rightarrow> ('a \<times> bytes) option"

definition read_exact :: "nat \<Rightarrow> bytes reader" where
  "read_exact n b = (if n \<le> length b then Some (take n b, drop n b) else None)"

definition read_u32 :: "u32 reader" where
  "read_u32 b = map_option (apfst from_be_bytes) (read_exact 4 b)"

definition read_u64 :: "u64 reader" where
  "read_u64 b = map_option (apfst from_be_bytes) (read_exact 8 b)"

definition get_opaque :: "bytes reader" where
  "get_opaque b = (case read_u32 b of
     None \<Rightarrow> None
   | Some (len, b) \<Rightarrow> (case read_exact (unat len) b of
       None \<Rightarrow> None
     | Some (dat, b) \<Rightarrow> map_option (\<lambda>(_, b). (dat, b)) (read_exact (xdr_pad (length dat)) b)))"

definition ranged :: "int \<Rightarrow> int \<Rightarrow> (int \<Rightarrow> xdr_value) \<Rightarrow> int \<times> bytes \<Rightarrow> (xdr_value \<times> bytes) option" where
  "ranged lo hi f = (\<lambda>(n, b). if lo \<le> n \<and> n \<le> hi then Some (f n, b) else None)"

definition checked :: "('a \<Rightarrow> bool) \<Rightarrow> ('a \<Rightarrow> xdr_value) \<Rightarrow> 'a \<times> bytes \<Rightarrow> (xdr_value \<times> bytes) option" where
  "checked P f = (\<lambda>(x, b). if P x then Some (f x, b) else None)"

text \<open>A fixed number of consecutive values (\<open>Elements\<close>): of one type, and of one type each.\<close>

primrec read_elements :: "'a reader \<Rightarrow> nat \<Rightarrow> 'a list reader" where
  "read_elements rd 0 b = Some ([], b)"
| "read_elements rd (Suc n) b = (case rd b of
     None \<Rightarrow> None | Some (x, b) \<Rightarrow> map_option (apfst (Cons x)) (read_elements rd n b))"

fun read_fields :: "'a reader list \<Rightarrow> 'a list reader" where
  "read_fields [] b = Some ([], b)"
| "read_fields (rd # rds) b = (case rd b of
     None \<Rightarrow> None | Some (x, b) \<Rightarrow> map_option (apfst (Cons x)) (read_fields rds b))"

primrec from_xdr :: "xdr_type \<Rightarrow> xdr_value reader" where
  "from_xdr T_bool b = Option.bind (read_u32 b) (checked (\<lambda>n. n = 0 \<or> n = 1) (\<lambda>n. V_bool (n = 1)))"
| "from_xdr T_i8 b = Option.bind (map_option (apfst sint) (read_u32 b)) (ranged (- 128) 127 (\<lambda>n. V_i8 (of_int n)))"
| "from_xdr T_i16 b = Option.bind (map_option (apfst sint) (read_u32 b))
     (ranged (- 32768) 32767 (\<lambda>n. V_i16 (of_int n)))"
| "from_xdr T_i32 b = map_option (apfst V_i32) (read_u32 b)"
| "from_xdr T_i64 b = map_option (apfst V_i64) (read_u64 b)"
| "from_xdr T_u8 b = Option.bind (map_option (apfst uint) (read_u32 b)) (ranged 0 255 (\<lambda>n. V_u8 (of_int n)))"
| "from_xdr T_u16 b = Option.bind (map_option (apfst uint) (read_u32 b)) (ranged 0 65535 (\<lambda>n. V_u16 (of_int n)))"
| "from_xdr T_u32 b = map_option (apfst V_u32) (read_u32 b)"
| "from_xdr T_u64 b = map_option (apfst V_u64) (read_u64 b)"
| "from_xdr T_f32 b = map_option (apfst V_f32) (read_u32 b)"
| "from_xdr T_f64 b = map_option (apfst V_f64) (read_u64 b)"
| "from_xdr T_char b = Option.bind (read_u32 b) (checked valid_char V_char)"
| "from_xdr T_str b = Option.bind (get_opaque b) (checked valid_utf8 V_str)"
| "from_xdr T_bytes b = map_option (apfst V_bytes) (get_opaque b)"
| "from_xdr (T_option t) b = (case read_u32 b of
     None \<Rightarrow> None
   | Some (n, b) \<Rightarrow> if n = 0 then Some (V_none, b)
                    else if n = 1 then map_option (apfst V_some) (from_xdr t b) else None)"
| "from_xdr T_unit b = Some (V_unit, b)"
| "from_xdr (T_seq t) b = (case read_u32 b of
     None \<Rightarrow> None
   | Some (len, b) \<Rightarrow> map_option (apfst V_seq) (read_elements (from_xdr t) (unat len) b))"
| "from_xdr (T_tuple ts) b = map_option (apfst V_tuple) (read_fields (map from_xdr ts) b)"
| "from_xdr (T_enum ts) b = (case read_u32 b of
     None \<Rightarrow> None
   | Some (i, b) \<Rightarrow> if length ts \<le> unat i then None
                    else map_option (apfst (V_variant i)) ((map from_xdr ts ! unat i) b))"

section \<open>Fixed-length opaque data\<close>

text \<open>One word per block of four bytes, the last one filled with zeros.\<close>

fun opaque_blocks :: "bytes \<Rightarrow> u32 list" where
  "opaque_blocks [] = []"
| "opaque_blocks (b # bs) =
    from_be_bytes (take 4 (b # bs) @ replicate (4 - length (take 4 (b # bs))) 0) # opaque_blocks (drop 3 bs)"

definition put_fixed_opaque :: "bytes \<Rightarrow> bytes" where
  "put_fixed_opaque bs = concat (map put_u32 (opaque_blocks bs))"

fun read_blocks :: "nat \<Rightarrow> bytes reader" where
  "read_blocks n b =
    (if n = 0 then Some ([], b)
     else case read_u32 b of
       None \<Rightarrow> None
     | Some (w, b) \<Rightarrow> map_option (apfst ((@) (take n (be_bytes 4 w)))) (read_blocks (n - 4) b))"

declare read_blocks.simps [simp del]

section \<open>Typing\<close>

text \<open>The values of a type; lengths fit a length word.\<close>

primrec typed :: "xdr_type \<Rightarrow> xdr_value \<Rightarrow> bool" where
  "typed T_bool v = (case v of V_bool _ \<Rightarrow> True | _ \<Rightarrow> False)"
| "typed T_i8 v = (case v of V_i8 _ \<Rightarrow> True | _ \<Rightarrow> False)"
| "typed T_i16 v = (case v of V_i16 _ \<Rightarrow> True | _ \<Rightarrow> False)"
| "typed T_i32 v = (case v of V_i32 _ \<Rightarrow> True | _ \<Rightarrow> False)"
| "typed T_i64 v = (case v of V_i64 _ \<Rightarrow> True | _ \<Rightarrow> False)"
| "typed T_u8 v = (case v of V_u8 _ \<Rightarrow> True | _ \<Rightarrow> False)"
| "typed T_u16 v = (case v of V_u16 _ \<Rightarrow> True | _ \<Rightarrow> False)"
| "typed T_u32 v = (case v of V_u32 _ \<Rightarrow> True | _ \<Rightarrow> False)"
| "typed T_u64 v = (case v of V_u64 _ \<Rightarrow> True | _ \<Rightarrow> False)"
| "typed T_f32 v = (case v of V_f32 _ \<Rightarrow> True | _ \<Rightarrow> False)"
| "typed T_f64 v = (case v of V_f64 _ \<Rightarrow> True | _ \<Rightarrow> False)"
| "typed T_char v = (case v of V_char n \<Rightarrow> valid_char n | _ \<Rightarrow> False)"
| "typed T_str v = (case v of V_str b \<Rightarrow> valid_utf8 b \<and> length b < 2 ^ 32 | _ \<Rightarrow> False)"
| "typed T_bytes v = (case v of V_bytes b \<Rightarrow> length b < 2 ^ 32 | _ \<Rightarrow> False)"
| "typed (T_option t) v = (case v of V_none \<Rightarrow> True | V_some x \<Rightarrow> typed t x | _ \<Rightarrow> False)"
| "typed T_unit v = (v = V_unit)"
| "typed (T_seq t) v = (case v of V_seq vs \<Rightarrow> length vs < 2 ^ 32 \<and> list_all (typed t) vs | _ \<Rightarrow> False)"
| "typed (T_tuple ts) v = (case v of V_tuple vs \<Rightarrow> list_all2 (\<lambda>p x. p x) (map typed ts) vs | _ \<Rightarrow> False)"
| "typed (T_enum ts) v = (case v of V_variant i x \<Rightarrow> unat i < length ts \<and> (map typed ts ! unat i) x | _ \<Rightarrow> False)"

section \<open>Readers\<close>

text \<open>\<open>reads rd b x\<close>: whatever follows \<open>b\<close>, the reader takes exactly \<open>b\<close> and returns \<open>x\<close>.\<close>

definition reads :: "'a reader \<Rightarrow> bytes \<Rightarrow> 'a \<Rightarrow> bool" where
  "reads rd b x \<longleftrightarrow> (\<forall>rest. rd (b @ rest) = Some (x, rest))"

lemma reads_exact: "reads (read_exact (length b)) b b"
  by (simp add: reads_def read_exact_def)

lemma reads_u32: "reads read_u32 (put_u32 v) v"
  using reads_exact[of "put_u32 v"]
  by (simp add: reads_def read_u32_def put_u32_def from_be_bytes_be_bytes)

lemma reads_be4: "reads read_u32 (be_bytes 4 v) v"
  using reads_u32 by (simp add: put_u32_def)

lemma reads_u64: "reads read_u64 (be_bytes 8 v) v"
  using reads_exact[of "be_bytes 8 v"] by (simp add: reads_def read_u64_def from_be_bytes_be_bytes)

lemma reads_opaque:
  assumes "xdr_put_opaque dat = Some b"
  shows "reads get_opaque b dat"
  using assms reads_u32[of "of_nat (length dat)"]
  by (auto simp: reads_def get_opaque_def xdr_put_opaque_def length_u32_def read_exact_def unat_of_nat take_bit_nat_eq_self
      split: if_splits)

lemma reads_bind:
  assumes "reads rd b x" and "\<And>rest. f (x, rest) = Some (y, rest)"
  shows "reads (\<lambda>b. Option.bind (rd b) f) b y"
  using assms by (simp add: reads_def)

lemma reads_map: "reads rd b x \<Longrightarrow> reads (\<lambda>b. map_option (apfst f) (rd b)) b (f x)"
  by (simp add: reads_def)

lemma reads_elements:
  assumes "list_all2 (\<lambda>b x. reads rd b x) bs xs"
  shows "reads (read_elements rd (length xs)) (concat bs) xs"
  using assms by (induction bs xs rule: list_all2_induct) (simp_all add: reads_def)

lemma reads_fields:
  assumes "length rds = length bs" and "length bs = length xs"
    and "\<And>i. i < length xs \<Longrightarrow> reads (rds ! i) (bs ! i) (xs ! i)"
  shows "reads (read_fields rds) (concat bs) xs"
  using assms
proof (induction rds bs xs rule: list_induct3)
  case Nil
  then show ?case by (simp add: reads_def)
next
  case (Cons rd rds b bs x xs)
  from Cons.prems[of 0] have "reads rd b x" by simp
  moreover have "reads (read_fields rds) (concat bs) xs"
    using Cons.prems[of "Suc i" for i] by (intro Cons.IH) auto
  ultimately show ?case
    by (simp add: reads_def)
qed

lemma xdr_concat_Some: "xdr_concat (map Some bs) = Some (concat bs)"
  by (induction bs) (simp_all add: xdr_concat_def)

section \<open>Round trip\<close>

text \<open>\<open>codes t v\<close>: the value is encoded, and the encoding is read back as a \<open>t\<close>.\<close>

definition codes :: "xdr_type \<Rightarrow> xdr_value \<Rightarrow> bool" where
  "codes t v \<longleftrightarrow> (\<exists>b. to_xdr v = Some b \<and> reads (from_xdr t) b v \<and> length b mod 4 = 0)"

lemma codes_word:
  "codes T_bool (V_bool x1)" "codes T_i32 (V_i32 x2)" "codes T_i64 (V_i64 x3)" "codes T_u32 (V_u32 x4)"
  "codes T_u64 (V_u64 x5)" "codes T_f32 (V_f32 x6)" "codes T_f64 (V_f64 x7)"
  "valid_char x8 \<Longrightarrow> codes T_char (V_char x8)" "codes T_unit V_unit"
  using reads_u32[of "of_bool x1"] reads_be4[of x2] reads_u64[of x3] reads_u32[of x4] reads_u64[of x5]
    reads_be4[of x6] reads_u64[of x7] reads_u32[of x8]
  by (auto simp: codes_def reads_def checked_def put_u32_def)

lemma sint_scast8: "sint (scast (x :: u8) :: u32) = sint x"
  by (simp add: sint_up_scast is_up)

lemma sint_scast16: "sint (scast (x :: 16 word) :: u32) = sint x"
  by (simp add: sint_up_scast is_up)

lemma codes_narrow:
  "codes T_i8 (V_i8 x1)" "codes T_i16 (V_i16 x2)" "codes T_u8 (V_u8 x3)" "codes T_u16 (V_u16 x4)"
proof -
  have "- 128 \<le> sint x1" "sint x1 \<le> 127" "- 32768 \<le> sint x2" "sint x2 \<le> 32767"
    using sint_greater_eq[of x1] sint_less[of x1] sint_greater_eq[of x2] sint_less[of x2] by simp_all
  moreover have "uint x3 \<le> 255" "uint x4 \<le> 65535"
    using uint_bounded[of x3] uint_bounded[of x4] by simp_all
  ultimately show "codes T_i8 (V_i8 x1)" "codes T_i16 (V_i16 x2)" "codes T_u8 (V_u8 x3)" "codes T_u16 (V_u16 x4)"
    using reads_be4[of "scast x1"] reads_be4[of "scast x2"] reads_u32[of "ucast x3"] reads_u32[of "ucast x4"]
    by (auto simp: codes_def reads_def ranged_def put_u32_def sint_scast8 sint_scast16 unsigned_ucast_eq
        take_bit_int_eq_self)
qed

lemma codes_opaque:
  "length x1 < 2 ^ 32 \<Longrightarrow> codes T_bytes (V_bytes x1)"
  "length x2 < 2 ^ 32 \<Longrightarrow> valid_utf8 x2 \<Longrightarrow> codes T_str (V_str x2)"
  using reads_opaque[of x1] reads_opaque[of x2] xdr_pad_mod[of "length x1"] xdr_pad_mod[of "length x2"]
  by (auto simp: codes_def reads_def checked_def xdr_put_opaque_def length_u32_def put_u32_def)

lemma codes_option: "codes (T_option t) V_none" "codes t v \<Longrightarrow> codes (T_option t) (V_some v)"
  using reads_u32[of 0] reads_u32[of 1] by (auto simp: codes_def reads_def put_u32_def)

lemma codes_list:
  assumes "\<And>i. i < length vs \<Longrightarrow> codes (ts ! i) (vs ! i)"
  shows "\<exists>bs. map to_xdr vs = map Some bs \<and> length bs = length vs \<and> length (concat bs) mod 4 = 0 \<and>
    (\<forall>i < length vs. reads (from_xdr (ts ! i)) (bs ! i) (vs ! i))"
proof -
  let ?bs = "map (\<lambda>v. the (to_xdr v)) vs"
  have enc: "to_xdr (vs ! i) = Some (the (to_xdr (vs ! i))) \<and> 4 dvd length (the (to_xdr (vs ! i))) \<and>
      reads (from_xdr (ts ! i)) (the (to_xdr (vs ! i))) (vs ! i)" if "i < length vs" for i
    using assms[OF that] by (auto simp: codes_def mod_eq_0_iff_dvd)
  then have "map to_xdr vs = map Some ?bs"
    by (intro nth_equalityI) simp_all
  moreover have "\<forall>b \<in> set ?bs. 4 dvd length b"
    using enc by (auto simp: in_set_conv_nth)
  then have "4 dvd length (concat ?bs)"
    by (induction ?bs arbitrary: vs) (auto simp: length_concat intro!: dvd_add)
  ultimately show ?thesis
    using enc by (intro exI[of _ ?bs]) (simp add: mod_eq_0_iff_dvd)
qed

lemma codes_seq:
  assumes "length vs < 2 ^ 32" and "\<And>v. v \<in> set vs \<Longrightarrow> codes t v"
  shows "codes (T_seq t) (V_seq vs)"
proof -
  have "codes (replicate (length vs) t ! i) (vs ! i)" if "i < length vs" for i
    using assms(2) that by simp
  from codes_list[of vs "replicate (length vs) t", OF this] obtain bs
    where bs: "map to_xdr vs = map Some bs" "length bs = length vs" "length (concat bs) mod 4 = 0"
      "\<forall>i < length vs. reads (from_xdr t) (bs ! i) (vs ! i)"
    by auto
  have "reads (read_elements (from_xdr t) (length vs)) (concat bs) vs"
    using bs by (intro reads_elements) (simp add: list_all2_conv_all_nth)
  then show ?thesis
    using reads_u32[of "of_nat (length vs)"] bs(3) assms(1)
    by (simp add: codes_def reads_def bs(1) length_u32_def xdr_concat_Some unat_of_nat take_bit_nat_eq_self put_u32_def)
qed

lemma codes_tuple:
  assumes "length ts = length vs" and "\<And>i. i < length vs \<Longrightarrow> codes (ts ! i) (vs ! i)"
  shows "codes (T_tuple ts) (V_tuple vs)"
proof -
  from codes_list[of vs ts, OF assms(2)] obtain bs
    where bs: "map to_xdr vs = map Some bs" "length bs = length vs" "length (concat bs) mod 4 = 0"
      "\<forall>i < length vs. reads (from_xdr (ts ! i)) (bs ! i) (vs ! i)"
    by auto
  have "reads (read_fields (map from_xdr ts)) (concat bs) vs"
    using bs assms(1) by (intro reads_fields) auto
  then show ?thesis
    using bs(3) by (simp add: codes_def reads_def bs(1) xdr_concat_Some)
qed

lemma codes_variant:
  assumes "unat i < length ts" and "codes (ts ! unat i) v"
  shows "codes (T_enum ts) (V_variant i v)"
  using assms reads_u32[of i] by (auto simp: codes_def reads_def put_u32_def)

lemma typed_codes: "typed t v \<Longrightarrow> codes t v"
proof (induction t arbitrary: v)
  case (T_seq t)
  then show ?case
    by (auto simp: list_all_iff intro!: codes_seq split: xdr_value.splits)
next
  case (T_tuple ts)
  then show ?case
    by (auto simp: list_all2_conv_all_nth intro!: codes_tuple split: xdr_value.splits)
next
  case (T_enum ts)
  then show ?case
    by (auto intro!: codes_variant split: xdr_value.splits)
qed (auto intro: codes_word codes_narrow codes_opaque codes_option split: xdr_value.splits)

text \<open>
  C11: What the XDR encoder writes the decoder reads back. For every type of serde's data model that
  the codec supports, nested as deep as one likes, and every value of it, the encoder succeeds, the
  encoding is a whole number of words, and the decoder takes exactly these bytes off the front of
  any input and returns the value.
\<close>

theorem xdr_roundtrip:
  assumes "typed t v"
  shows "\<exists>b. to_xdr v = Some b \<and> length b mod 4 = 0 \<and> (\<forall>rest. from_xdr t (b @ rest) = Some (v, rest))"
  using typed_codes[OF assms] by (auto simp: codes_def reads_def)

section \<open>Decoded values are typed\<close>

lemma read_exact_shrinks: "read_exact n b = Some (x, r) \<Longrightarrow> length b = n + length r \<and> length x = n"
  by (auto simp: read_exact_def split: if_splits)

lemma read_u32_shrinks: "read_u32 b = Some (x, r) \<Longrightarrow> length b = 4 + length r"
  by (auto simp: read_u32_def dest!: read_exact_shrinks)

lemma read_u64_shrinks: "read_u64 b = Some (x, r) \<Longrightarrow> length b = 8 + length r"
  by (auto simp: read_u64_def dest!: read_exact_shrinks)

lemma unat_u32_less: "unat (x :: u32) < 2 ^ 32"
  using unsigned_less[of x] by simp

lemma get_opaque_shrinks: "get_opaque b = Some (x, r) \<Longrightarrow> length r \<le> length b \<and> length x < 2 ^ 32"
  using unat_u32_less
  by (auto simp: get_opaque_def dest!: read_exact_shrinks read_u32_shrinks split: option.splits)

lemma read_elements_all:
  assumes "read_elements rd n b = Some (xs, r)"
    and "\<And>b x r. rd b = Some (x, r) \<Longrightarrow> P x \<and> length r \<le> length b"
  shows "length xs = n \<and> list_all P xs \<and> length r \<le> length b"
  using assms(1)
proof (induction n arbitrary: b xs)
  case (Suc n)
  then obtain x b1 ys where "rd b = Some (x, b1)" "read_elements rd n b1 = Some (ys, r)" "xs = x # ys"
    by (auto split: option.splits)
  then show ?case
    using Suc.IH[of b1 ys] assms(2)[of b x b1] by auto
qed simp

lemma read_fields_all:
  assumes "read_fields rds b = Some (xs, r)" and "length rds = length Ps"
    and "\<And>i b x r. i < length rds \<Longrightarrow> (rds ! i) b = Some (x, r) \<Longrightarrow> (Ps ! i) x \<and> length r \<le> length b"
  shows "list_all2 (\<lambda>p x. p x) Ps xs \<and> length r \<le> length b"
  using assms(2,1,3)
proof (induction rds Ps arbitrary: b xs rule: list_induct2)
  case (Cons rd rds P Ps)
  then obtain x b1 ys where run: "rd b = Some (x, b1)" "read_fields rds b1 = Some (ys, r)" "xs = x # ys"
    by (auto split: option.splits)
  have "list_all2 (\<lambda>p x. p x) Ps ys \<and> length r \<le> length b1"
    using Cons.prems(2)[of "Suc i" for i] by (intro Cons.IH[OF run(2)]) auto
  moreover have "P x \<and> length b1 \<le> length b"
    using Cons.prems(2)[of 0 b x b1] run(1) by simp
  ultimately show ?case
    by (simp add: run(3))
qed simp

lemma from_xdr_option_cases:
  assumes "from_xdr (T_option t) b = Some (v, rest)"
  obtains (absent) "v = V_none" "length rest \<le> length b"
    | (present) b1 x where "v = V_some x" "from_xdr t b1 = Some (x, rest)" "length b1 \<le> length b"
proof -
  obtain n b1 where n: "read_u32 b = Some (n, b1)"
    using assms by (auto split: option.splits)
  then have "length b1 \<le> length b"
    by (simp add: read_u32_shrinks)
  with n assms that show ?thesis
    by (auto split: if_splits)
qed

text \<open>
  C36: The XDR decoder only produces values of the type it was asked for, and never more input than
  it was given: whatever the bytes, a decoded value is well-typed -- strings are UTF-8, characters are
  scalar values, variants exist, small integers are in range -- and the rest is no longer than the input.
\<close>

theorem from_xdr_typed:
  assumes "from_xdr t b = Some (v, rest)"
  shows "typed t v \<and> length rest \<le> length b"
  using assms
proof (induction t arbitrary: b v rest)
  case (T_seq t)
  then obtain len b1 vs where "read_u32 b = Some (len, b1)" "v = V_seq vs"
      "read_elements (from_xdr t) (unat len) b1 = Some (vs, rest)"
    by (auto split: option.splits)
  then show ?case
    using read_elements_all[of "from_xdr t" "unat len" b1 vs rest "typed t"] T_seq.IH read_u32_shrinks[of b len b1]
      unsigned_less[of len] by auto
next
  case (T_tuple ts)
  then obtain vs where "read_fields (map from_xdr ts) b = Some (vs, rest)" "v = V_tuple vs"
    by auto
  moreover have "list_all2 (\<lambda>p x. p x) (map typed ts) vs \<and> length rest \<le> length b"
  proof (rule read_fields_all[OF calculation(1)])
    fix i b x r
    assume "i < length (map from_xdr ts)" and "(map from_xdr ts ! i) b = Some (x, r)"
    then show "(map typed ts ! i) x \<and> length r \<le> length b"
      using T_tuple.IH[of "ts ! i" b x r] by simp
  qed simp
  ultimately show ?case
    by simp
next
  case (T_enum ts)
  then obtain i b1 x where "read_u32 b = Some (i, b1)" "unat i < length ts" "v = V_variant i x"
      "from_xdr (ts ! unat i) b1 = Some (x, rest)"
    by (auto split: option.splits if_splits)
  then show ?case
    using T_enum.IH[of "ts ! unat i" b1 x rest] read_u32_shrinks[of b i b1] by auto
next
  case (T_option t)
  from T_option.prems show ?case
    by (rule from_xdr_option_cases) (use T_option.IH in fastforce)+
next
  case T_str
  then show ?case
    by (auto simp: checked_def bind_eq_Some_conv dest!: get_opaque_shrinks split: if_splits)
next
  case T_bytes
  then show ?case
    by (auto dest!: get_opaque_shrinks)
qed (auto simp: checked_def ranged_def bind_eq_Some_conv dest!: read_u32_shrinks read_u64_shrinks split: if_splits)

section \<open>Fixed-length opaque data\<close>

lemma unat_u8_less: "unat (x :: u8) < 256"
  using unsigned_less[of x] by simp

lemma from_be_nat_less: "from_be_nat bs < 256 ^ length bs"
proof (induction bs)
  case (Cons b bs)
  have "unat b * 256 ^ length bs \<le> 255 * 256 ^ length bs"
    using unat_u8_less[of b] by (intro mult_right_mono) simp_all
  from add_le_less_mono[OF this Cons] show ?case
    by simp
qed simp

lemma from_be_nat_inject:
  assumes "length as = length bs" and "from_be_nat as = from_be_nat bs"
  shows "as = bs"
  using assms
proof (induction as bs rule: list_induct2)
  case (Cons a as b bs)
  let ?K = "256 ^ length bs"
  have "unat a * ?K + from_be_nat as = unat b * ?K + from_be_nat bs" "from_be_nat as < ?K" "from_be_nat bs < ?K"
    using Cons.prems Cons.hyps from_be_nat_less[of as] from_be_nat_less[of bs] by simp_all
  then have "(unat a * ?K + from_be_nat as) div ?K = (unat b * ?K + from_be_nat bs) div ?K"
      "(unat a * ?K + from_be_nat as) mod ?K = (unat b * ?K + from_be_nat bs) mod ?K"
    by simp_all
  then have "unat a = unat b" "from_be_nat as = from_be_nat bs"
    using \<open>from_be_nat as < ?K\<close> \<open>from_be_nat bs < ?K\<close> by simp_all
  then show ?case
    using Cons.IH by (simp add: word_unat_eq_iff)
qed simp

lemma be_bytes_from_be_bytes: "length bs = 4 \<Longrightarrow> be_bytes 4 (from_be_bytes bs :: u32) = bs"
  using from_be_nat_less[of bs]
  by (intro from_be_nat_inject)
    (simp_all add: from_be_nat_be_bytes from_be_bytes_def unat_of_nat take_bit_nat_eq_self)

lemma take_padded: "take (length xs) (take 4 xs @ replicate (4 - length (take 4 xs)) 0) = take 4 xs"
  by (cases "length xs \<le> 4") (simp_all add: min_def)

lemma fixed_opaque_roundtrip: "read_blocks (length bs) (put_fixed_opaque bs @ rest) = Some (bs, rest)"
proof (induction bs rule: opaque_blocks.induct)
  case 1
  then show ?case by (simp add: put_fixed_opaque_def read_blocks.simps)
next
  case (2 b bs)
  define xs where "xs = b # bs"
  define w :: u32 where "w = from_be_bytes (take 4 xs @ replicate (4 - length (take 4 xs)) 0)"
  have put: "put_fixed_opaque xs = put_u32 w @ put_fixed_opaque (drop 4 xs)"
    by (simp add: put_fixed_opaque_def xs_def w_def)
  have w: "take (length xs) (be_bytes 4 w) = take 4 xs"
    unfolding w_def by (subst be_bytes_from_be_bytes) (simp, rule take_padded)
  have "read_blocks (length (drop 4 xs)) (put_fixed_opaque (drop 4 xs) @ rest) = Some (drop 4 xs, rest)"
    using 2 by (simp add: xs_def)
  moreover have "xs \<noteq> []"
    by (simp add: xs_def)
  ultimately have "read_blocks (length xs) (put_fixed_opaque xs @ rest) = Some (take 4 xs @ drop 4 xs, rest)"
    using reads_u32[of w] w by (simp add: put reads_def read_blocks.simps[of "length xs"])
  then show ?case
    by (simp add: xs_def)
qed

section \<open>Examples\<close>

text \<open>The record of the codec's own test, and its wire format.\<close>

definition ex_shape_type :: xdr_type where
  "ex_shape_type = T_enum [T_unit, T_u32, T_tuple [T_u8, T_i16], T_tuple [T_u64, T_str]]"

definition ex_record_type :: xdr_type where
  "ex_record_type = T_tuple [T_bool, T_i8, T_u32, T_i64, T_str, T_bytes, T_seq T_u16, T_option T_u32, T_option T_u32,
     T_seq ex_shape_type]"

definition ex_record :: xdr_value where
  "ex_record = V_tuple [V_bool True, V_i8 (- 2), V_u32 0xdeadbeef, V_i64 (- 3), V_str (map of_char ''abcde''),
     V_bytes [1, 2, 3], V_seq [V_u16 7, V_u16 8], V_some (V_u32 9), V_none,
     V_seq [V_variant 0 V_unit, V_variant 1 (V_u32 5), V_variant 2 (V_tuple [V_u8 1, V_i16 (- 1)]),
       V_variant 3 (V_tuple [V_u64 2, V_str (map of_char ''x'')])]]"

definition ex_wire :: bytes where
  "ex_wire = [0, 0, 0, 1, 0xff, 0xff, 0xff, 0xfe, 0xde, 0xad, 0xbe, 0xef,
     0xff, 0xff, 0xff, 0xff, 0xff, 0xff, 0xff, 0xfd,
     0, 0, 0, 5, 97, 98, 99, 100, 101, 0, 0, 0, 0, 0, 0, 3, 1, 2, 3, 0,
     0, 0, 0, 2, 0, 0, 0, 7, 0, 0, 0, 8, 0, 0, 0, 1, 0, 0, 0, 9, 0, 0, 0, 0,
     0, 0, 0, 4, 0, 0, 0, 0, 0, 0, 0, 1, 0, 0, 0, 5, 0, 0, 0, 2, 0, 0, 0, 1, 0xff, 0xff, 0xff, 0xff,
     0, 0, 0, 3, 0, 0, 0, 0, 0, 0, 0, 2, 0, 0, 0, 1, 120, 0, 0, 0]"

lemma be_bytes_word: "be_bytes 4 w = [ucast (drop_bit 24 w), ucast (drop_bit 16 w), ucast (drop_bit 8 w), ucast w]"
  by (simp add: numeral_eq_Suc)

lemma be_bytes_8: "be_bytes 8 w = map (\<lambda>i. ucast (drop_bit i w)) [56, 48, 40, 32, 24, 16, 8, 0]"
  by (simp add: numeral_eq_Suc)

lemma replicate_3: "replicate 3 x = [x, x, x]"
  by (simp add: numeral_eq_Suc)

lemma ucast_all_ones: "(ucast (- 1 :: u32) :: u8) = 255"
  by code_simp

lemma ex_record_wire: "to_xdr ex_record = Some ex_wire"
  by (simp add: ex_record_def ex_wire_def xdr_concat_def put_u32_def xdr_put_opaque_def length_u32_def xdr_pad_def
      be_bytes_word be_bytes_8 mask_eq_exp_minus_1 replicate_3 ucast_all_ones)

lemma ex_record_typed: "typed ex_record_type ex_record"
  by (simp add: ex_record_type_def ex_shape_type_def ex_record_def)

theorem xdr_roundtrip_witness:
  "typed ex_record_type ex_record \<and> from_xdr ex_record_type ex_wire = Some (ex_record, [])"
proof -
  obtain b where "to_xdr ex_record = Some b" "\<And>rest. from_xdr ex_record_type (b @ rest) = Some (ex_record, rest)"
    using xdr_roundtrip[OF ex_record_typed] by blast
  from this(1) this(2)[of "[]"] show ?thesis
    using ex_record_typed by (simp add: ex_record_wire)
qed

theorem from_xdr_typed_witness:
  "from_xdr (T_seq T_u8) [0, 0, 0, 1, 0, 0, 0, 7, 9] = Some (V_seq [V_u8 7], [9]) \<and>
   typed (T_seq T_u8) (V_seq [V_u8 7])"
proof -
  have "from_xdr (T_seq T_u8) [0, 0, 0, 1, 0, 0, 0, 7, 9] = Some (V_seq [V_u8 7], [9])"
    by (simp add: read_u32_def read_exact_def from_be_bytes_def ranged_def)
  with from_xdr_typed[OF this] show ?thesis by simp
qed

end
