(* ===== verification/Krb5Crypto.thy ===== *)
theory Krb5Crypto
  imports Prelude Decimal
begin

text \<open>
  The Kerberos encryption types (\<open>krb5/src/crypto.rs\<close>): ciphertext stealing, n-fold, key
  derivation, encryption and keyed checksums. The block cipher, HMAC and PBKDF2 come from the
  RustCrypto crates; they are the fields of \<open>crypto_prims\<close>, and \<open>crypto_laws\<close> states what
  those crates document. Random bytes are arguments, \<open>None\<close> where the operating system gives none.
\<close>

section \<open>Errors and encryption types\<close>

datatype krb5_error =
    Krb5_Token string
  | Krb5_Asn1 string
  | Krb5_Integrity
  | Krb5_UnsupportedEnctype int
  | Krb5_NoKey string
  | Krb5_Rejected string
  | Krb5_Keytab string
  | Krb5_Crypto string

text \<open>Rust's \<open>?\<close> on a result.\<close>

definition and_then :: "('a, 'e) result \<Rightarrow> ('a \<Rightarrow> ('b, 'e) result) \<Rightarrow> ('b, 'e) result" where
  "and_then r f = (case r of Inl e \<Rightarrow> Inl e | Inr v \<Rightarrow> f v)"

lemma and_then_simps [simp]: "and_then (Inl e) f = Inl e" "and_then (Inr v) f = f v"
  by (simp_all add: and_then_def)

lemma and_then_eq_Inr: "and_then r f = Inr v \<longleftrightarrow> (\<exists>u. r = Inr u \<and> f u = Inr v)"
  by (cases r) simp_all

datatype enctype =
    Aes128CtsHmacSha1_96
  | Aes256CtsHmacSha1_96
  | Aes128CtsHmacSha256_128
  | Aes256CtsHmacSha384_192

definition enctype_number :: "enctype \<Rightarrow> int" where
  "enctype_number e = (case e of
     Aes128CtsHmacSha1_96 \<Rightarrow> 17 | Aes256CtsHmacSha1_96 \<Rightarrow> 18
   | Aes128CtsHmacSha256_128 \<Rightarrow> 19 | Aes256CtsHmacSha384_192 \<Rightarrow> 20)"

definition enctype_all :: "enctype list" where
  "enctype_all = [Aes128CtsHmacSha1_96, Aes256CtsHmacSha1_96, Aes128CtsHmacSha256_128,
     Aes256CtsHmacSha384_192]"

definition enctype_from_i32 :: "int \<Rightarrow> enctype option" where
  "enctype_from_i32 v = find (\<lambda>e. enctype_number e = v) enctype_all"

definition key_len :: "enctype \<Rightarrow> nat" where
  "key_len e = (case e of
     Aes128CtsHmacSha1_96 \<Rightarrow> 16 | Aes128CtsHmacSha256_128 \<Rightarrow> 16
   | Aes256CtsHmacSha1_96 \<Rightarrow> 32 | Aes256CtsHmacSha384_192 \<Rightarrow> 32)"

definition hmac_len :: "enctype \<Rightarrow> nat" where
  "hmac_len e = (case e of
     Aes128CtsHmacSha1_96 \<Rightarrow> 12 | Aes256CtsHmacSha1_96 \<Rightarrow> 12
   | Aes128CtsHmacSha256_128 \<Rightarrow> 16 | Aes256CtsHmacSha384_192 \<Rightarrow> 24)"

definition is_rfc8009 :: "enctype \<Rightarrow> bool" where
  "is_rfc8009 e \<longleftrightarrow> e = Aes128CtsHmacSha256_128 \<or> e = Aes256CtsHmacSha384_192"

definition rfc8009_mac_bits :: "enctype \<Rightarrow> u32" where
  "rfc8009_mac_bits e = (case e of Aes256CtsHmacSha384_192 \<Rightarrow> 192 | _ \<Rightarrow> 128)"

text \<open>The derived \<open>Debug\<close> text of an encryption type.\<close>

definition enctype_debug :: "enctype \<Rightarrow> string" where
  "enctype_debug e = (case e of
     Aes128CtsHmacSha1_96 \<Rightarrow> ''Aes128CtsHmacSha1_96'' | Aes256CtsHmacSha1_96 \<Rightarrow> ''Aes256CtsHmacSha1_96''
   | Aes128CtsHmacSha256_128 \<Rightarrow> ''Aes128CtsHmacSha256_128''
   | Aes256CtsHmacSha384_192 \<Rightarrow> ''Aes256CtsHmacSha384_192'')"

section \<open>Primitives\<close>

record crypto_prims =
  aes128_encrypt_block :: "bytes \<Rightarrow> bytes \<Rightarrow> bytes"
  aes128_decrypt_block :: "bytes \<Rightarrow> bytes \<Rightarrow> bytes"
  aes256_encrypt_block :: "bytes \<Rightarrow> bytes \<Rightarrow> bytes"
  aes256_decrypt_block :: "bytes \<Rightarrow> bytes \<Rightarrow> bytes"
  prim_hmac_sha1 :: "bytes \<Rightarrow> bytes \<Rightarrow> bytes"
  prim_hmac_sha256 :: "bytes \<Rightarrow> bytes \<Rightarrow> bytes"
  prim_hmac_sha384 :: "bytes \<Rightarrow> bytes \<Rightarrow> bytes"
  prim_pbkdf2 :: "enctype \<Rightarrow> bytes \<Rightarrow> bytes \<Rightarrow> u32 \<Rightarrow> nat \<Rightarrow> (bytes, string) result"

text \<open>
  AES is a block cipher on 16 bytes under keys of 16 and 32 bytes, decryption undoes encryption,
  and the digests of SHA-1, SHA-256 and SHA-384 have 20, 32 and 48 bytes.
\<close>

definition crypto_laws :: "crypto_prims \<Rightarrow> bool" where
  "crypto_laws P \<longleftrightarrow>
    (\<forall>k b. length b = 16 \<longrightarrow>
      (length k = 16 \<longrightarrow> length (aes128_encrypt_block P k b) = 16 \<and>
        aes128_decrypt_block P k (aes128_encrypt_block P k b) = b) \<and>
      (length k = 32 \<longrightarrow> length (aes256_encrypt_block P k b) = 16 \<and>
        aes256_decrypt_block P k (aes256_encrypt_block P k b) = b)) \<and>
    (\<forall>k m. length (prim_hmac_sha1 P k m) = 20 \<and> length (prim_hmac_sha256 P k m) = 32 \<and>
      length (prim_hmac_sha384 P k m) = 48)"

text \<open>A block is a \<open>[u8; 16]\<close>: whatever the cipher returns is read as 16 bytes.\<close>

definition block16 :: "bytes \<Rightarrow> bytes" where
  "block16 bs = take 16 (bs @ replicate 16 0)"

lemma length_block16 [simp]: "length (block16 bs) = 16"
  by (simp add: block16_def)

lemma block16_id: "length bs = 16 \<Longrightarrow> block16 bs = bs"
  by (simp add: block16_def)

datatype aes_key = A128 bytes | A256 bytes

definition aes_key_new :: "bytes \<Rightarrow> (aes_key, krb5_error) result" where
  "aes_key_new key =
    (if length key = 16 then Inr (A128 key)
     else if length key = 32 then Inr (A256 key)
     else Inl (Krb5_Crypto (''bad AES key length '' @ dec_string (length key))))"

definition aes_encrypt :: "crypto_prims \<Rightarrow> aes_key \<Rightarrow> bytes \<Rightarrow> bytes" where
  "aes_encrypt P aes b = block16 (case aes of
     A128 k \<Rightarrow> aes128_encrypt_block P k b | A256 k \<Rightarrow> aes256_encrypt_block P k b)"

definition aes_decrypt :: "crypto_prims \<Rightarrow> aes_key \<Rightarrow> bytes \<Rightarrow> bytes" where
  "aes_decrypt P aes b = block16 (case aes of
     A128 k \<Rightarrow> aes128_decrypt_block P k b | A256 k \<Rightarrow> aes256_decrypt_block P k b)"

fun xor16 :: "bytes \<Rightarrow> bytes \<Rightarrow> bytes" where
  "xor16 (x # xs) (y # ys) = (x XOR y) # xor16 xs ys"
| "xor16 xs _ = xs"

text \<open>Rust's \<open>chunks(16)\<close>: all chunks have 16 bytes but the last, which may be shorter.\<close>

function chunks16 :: "bytes \<Rightarrow> bytes list" where
  "chunks16 bs = (if bs = [] then [] else take 16 bs # chunks16 (drop 16 bs))"
  by pat_completeness auto
termination by (relation "measure length") simp_all

declare chunks16.simps [simp del]

definition div_ceil :: "nat \<Rightarrow> nat \<Rightarrow> nat" where
  "div_ceil a b = (a + b - 1) div b"

text \<open>The loop over the chunks of \<open>cts_encrypt\<close>, and the one of \<open>cts_decrypt\<close>.\<close>

fun cbc_encrypt :: "(bytes \<Rightarrow> bytes) \<Rightarrow> bytes \<Rightarrow> bytes list \<Rightarrow> bytes list" where
  "cbc_encrypt enc prev [] = []"
| "cbc_encrypt enc prev (c # cs) = (let b = enc (xor16 prev c) in b # cbc_encrypt enc b cs)"

fun cbc_decrypt :: "(bytes \<Rightarrow> bytes) \<Rightarrow> bytes \<Rightarrow> bytes list \<Rightarrow> bytes \<times> bytes" where
  "cbc_decrypt dec prev [] = ([], prev)"
| "cbc_decrypt dec prev (c # cs) =
    (let (out, last) = cbc_decrypt dec c cs in (xor16 (dec c) prev @ out, last))"

definition cts_encrypt :: "crypto_prims \<Rightarrow> bytes \<Rightarrow> bytes \<Rightarrow> (bytes, krb5_error) result" where
  "cts_encrypt P key input =
    (if length input < 16 then Inl (Krb5_Crypto ''CTS input shorter than one block'')
     else and_then (aes_key_new key) (\<lambda>aes.
       let n = div_ceil (length input) 16;
           blocks = cbc_encrypt (aes_encrypt P aes) (replicate 16 0) (chunks16 input)
       in if n = 1 then Inr (blocks ! 0)
          else let last_len = length input - 16 * (n - 1)
               in Inr (concat (take (n - 2) blocks) @ blocks ! (n - 1) @ take last_len (blocks ! (n - 2)))))"

definition cts_decrypt :: "crypto_prims \<Rightarrow> bytes \<Rightarrow> bytes \<Rightarrow> (bytes, krb5_error) result" where
  "cts_decrypt P key input =
    (if length input < 16 then Inl (Krb5_Crypto ''CTS input shorter than one block'')
     else and_then (aes_key_new key) (\<lambda>aes.
       let n = div_ceil (length input) 16;
           (out, prev) = cbc_decrypt (aes_decrypt P aes) (replicate 16 0) (take (n - 2) (chunks16 input))
       in if n = 1 then Inr (out @ aes_decrypt P aes input)
          else let base = 16 * (n - 2);
                   last_len = length input - 16 * (n - 1);
                   z = aes_decrypt P aes (take 16 (drop base input));
                   c_prev = drop (base + 16) input @ drop last_len z;
                   last_plain = xor16 z c_prev;
                   p = xor16 (aes_decrypt P aes c_prev) prev
               in Inr (out @ p @ take last_len last_plain)))"

definition hmac :: "crypto_prims \<Rightarrow> enctype \<Rightarrow> bytes \<Rightarrow> bytes list \<Rightarrow> bytes" where
  "hmac P e key parts = (case e of
     Aes128CtsHmacSha1_96 \<Rightarrow> prim_hmac_sha1 P key (concat parts)
   | Aes256CtsHmacSha1_96 \<Rightarrow> prim_hmac_sha1 P key (concat parts)
   | Aes128CtsHmacSha256_128 \<Rightarrow> prim_hmac_sha256 P key (concat parts)
   | Aes256CtsHmacSha384_192 \<Rightarrow> prim_hmac_sha384 P key (concat parts))"

definition ct_eq :: "bytes \<Rightarrow> bytes \<Rightarrow> bool" where
  "ct_eq a b \<longleftrightarrow> length a = length b \<and> foldl (\<lambda>d (x, y). d OR (x XOR y)) 0 (zip a b) = 0"

section \<open>n-fold\<close>

text \<open>
  \<open>n_fold\<close> adds the rotated copies of its input as ones' complement numbers, in \<open>u32\<close> accumulators.
  \<open>None\<close> is the division by zero at an empty input folded to no bytes.
\<close>

fun gcd_usize :: "nat \<Rightarrow> nat \<Rightarrow> nat" where
  "gcd_usize a b = (if b = 0 then a else gcd_usize b (a mod b))"

declare gcd_usize.simps [simp del]

definition fold_bit :: "bytes \<Rightarrow> nat \<Rightarrow> nat \<Rightarrow> u8" where
  "fold_bit input rot b =
    (let in_bits = length input * 8; src = (b + in_bits - rot) mod in_bits
     in drop_bit (7 - src mod 8) (input ! (src div 8)) AND 1)"

definition byte_at :: "bytes \<Rightarrow> nat \<Rightarrow> u8" where
  "byte_at input i =
    (let k = i div length input; pos = i mod length input; rot = (13 * k) mod (length input * 8)
     in foldl (\<lambda>acc j. push_bit 1 acc OR fold_bit input rot (pos * 8 + j)) 0 [0..<8])"

definition fold_acc :: "bytes \<Rightarrow> nat \<Rightarrow> nat \<Rightarrow> u32 list" where
  "fold_acc input out_len n =
    foldl (\<lambda>acc i. acc[i mod out_len := acc ! (i mod out_len) + ucast (byte_at input i)])
      (replicate out_len 0) [0..<n]"

text \<open>One pass of the carry loop, from the last accumulator to the first.\<close>

fun carry_pass :: "u32 list \<Rightarrow> u32 list \<times> u32" where
  "carry_pass [] = ([], 0)"
| "carry_pass (a # as) =
    (let (as', carry) = carry_pass as; v = a + carry in ((v AND 0xFF) # as', drop_bit 8 v))"

text \<open>The number a list of accumulators denotes, the last one least significant.\<close>

fun acc_value :: "nat list \<Rightarrow> nat" where
  "acc_value [] = 0"
| "acc_value (a # as) = a * 256 ^ length as + acc_value as"

abbreviation fold_value :: "u32 list \<Rightarrow> nat" where
  "fold_value as \<equiv> acc_value (map unat as)"

abbreviation fold_sum :: "u32 list \<Rightarrow> nat" where
  "fold_sum as \<equiv> sum_list (map unat as)"

lemma unat_low_byte: "unat (v AND 0xFF) = unat v mod 256" for v :: u32
proof -
  have "v AND 0xFF = take_bit 8 v" by (simp add: take_bit_eq_mask mask_eq_exp_minus_1)
  then show ?thesis by (simp only: unsigned_take_bit_eq) (simp add: take_bit_eq_mod)
qed

lemma unat_high_bytes: "unat (drop_bit 8 v) = unat v div 256" for v :: u32
proof -
  have "take_bit 32 (unat v) = unat v"
    using unsigned_less [of v, where ?'a = nat] by (intro take_bit_nat_eq_self) simp
  then show ?thesis by (simp only: unsigned_drop_bit_eq) (simp add: drop_bit_eq_div)
qed

lemma unat_add_le: "unat (a + c) \<le> unat a + unat c" for a c :: u32
  by (simp add: unat_word_ariths)

lemma unat_add_exact: "unat a + unat c < 2 ^ 32 \<Longrightarrow> unat (a + c) = unat a + unat c" for a c :: u32
  by (simp add: unat_word_ariths)

lemma length_carry_pass [simp]: "length (fst (carry_pass as)) = length as"
  by (induction as) (simp_all add: split_beta Let_def)

lemma carry_pass_small: "unat (snd (carry_pass as)) < 2 ^ 24" "\<forall>a \<in> set (fst (carry_pass as)). unat a < 256"
proof -
  have "unat v div 256 < 2 ^ 24" for v :: u32
    using unsigned_less [of v, where ?'a = nat] by (simp add: less_mult_imp_div_less)
  then show "unat (snd (carry_pass as)) < 2 ^ 24"
    by (cases as) (simp_all add: split_beta Let_def unat_high_bytes)
  show "\<forall>a \<in> set (fst (carry_pass as)). unat a < 256"
    by (induction as) (simp_all add: split_beta Let_def unat_low_byte)
qed

text \<open>A pass never makes the number larger, and keeps it if no accumulator overflows.\<close>

lemma split_byte: "v mod 256 * p + v div 256 * (256 * p) = v * p" for v p :: nat
  by (metis add.commute add_mult_distrib div_mult_mod_eq mult.assoc mult.left_commute)

lemma carry_pass_value:
  "fold_value (fst (carry_pass as)) + unat (snd (carry_pass as)) * 256 ^ length as \<le> fold_value as"
proof (induction as)
  case (Cons a as)
  define as' c where "as' = fst (carry_pass as)" and "c = snd (carry_pass as)"
  have "fold_value (fst (carry_pass (a # as))) + unat (snd (carry_pass (a # as))) * 256 ^ length (a # as) =
      unat (a + c) * 256 ^ length as + fold_value as'"
    using split_byte [of "unat (a + c)" "256 ^ length as"]
    by (simp add: split_beta Let_def unat_low_byte unat_high_bytes as'_def c_def)
  also have "\<dots> \<le> (unat a + unat c) * 256 ^ length as + fold_value as'"
    using unat_add_le by simp
  also have "\<dots> \<le> fold_value (a # as)"
    using Cons by (simp add: as'_def c_def add_mult_distrib)
  finally show ?case .
qed simp

lemma carry_pass_exact:
  assumes "fold_sum as < 2 ^ 32"
  shows "fold_value (fst (carry_pass as)) + unat (snd (carry_pass as)) * 256 ^ length as = fold_value as \<and>
    fold_sum (fst (carry_pass as)) + unat (snd (carry_pass as)) \<le> fold_sum as"
  using assms
proof (induction as)
  case (Cons a as)
  define as' c where "as' = fst (carry_pass as)" and "c = snd (carry_pass as)"
  have IH: "fold_value as' + unat c * 256 ^ length as = fold_value as" "fold_sum as' + unat c \<le> fold_sum as"
    using Cons by (simp_all add: as'_def c_def)
  then have v: "unat (a + c) = unat a + unat c"
    using Cons.prems by (intro unat_add_exact) simp
  have "unat (a + c) mod 256 + unat (a + c) div 256 \<le> unat (a + c)"
    using div_mult_mod_eq [of "unat (a + c)" 256] by linarith
  moreover have "length as' = length as" by (simp add: as'_def)
  ultimately show ?case
    using IH v split_byte [of "unat (a + c)" "256 ^ length as"]
    by (simp add: split_beta Let_def unat_low_byte unat_high_bytes as'_def [symmetric] c_def [symmetric] add_mult_distrib)
qed simp

lemma acc_value_add:
  "j < length as \<Longrightarrow> acc_value (as[j := as ! j + c]) = acc_value as + c * 256 ^ (length as - 1 - j)"
proof (induction as arbitrary: j)
  case (Cons a as)
  then show ?case by (cases j) (simp_all add: algebra_simps)
qed simp

text \<open>The carry is added back at the end; the last accumulator is a byte then, so that cannot overflow.\<close>

definition end_around :: "u32 list \<Rightarrow> u32 \<Rightarrow> u32 list" where
  "end_around acc carry = acc[length acc - 1 := acc ! (length acc - 1) + carry]"

lemma end_around_value:
  assumes "carry_pass as = (as', c)" "as \<noteq> []"
  shows "fold_value (end_around as' c) = fold_value as' + unat c" "fold_sum (end_around as' c) = fold_sum as' + unat c"
    "length (end_around as' c) = length as"
proof -
  have l: "length as' = length as" "as' \<noteq> []" using assms length_carry_pass [of as] by auto
  let ?j = "length as' - 1"
  have j: "?j < length as'" using l(2) by (cases as') simp_all
  have "unat (as' ! ?j) < 256" "unat c < 2 ^ 24"
    using carry_pass_small [of as] assms(1) nth_mem [OF j] by simp_all
  then have sum: "unat (as' ! ?j + c) = unat (as' ! ?j) + unat c"
    by (intro unat_add_exact) simp
  have "map unat (end_around as' c) = (map unat as')[?j := map unat as' ! ?j + unat c]"
    unfolding end_around_def map_update sum using j by (simp only: nth_map)
  then show "fold_value (end_around as' c) = fold_value as' + unat c" "fold_sum (end_around as' c) = fold_sum as' + unat c"
    using acc_value_add [of ?j "map unat as'" "unat c"] j elem_le_sum_list [of ?j "map unat as'"]
    by (simp_all add: sum_list_update)
  show "length (end_around as' c) = length as" by (simp add: end_around_def l)
qed

function carry_loop :: "u32 list \<Rightarrow> u32 list" where
  "carry_loop acc =
    (let (acc', carry) = carry_pass acc
     in if carry = 0 then acc' else carry_loop (end_around acc' carry))"
  by pat_completeness auto
termination
proof (relation "measure (\<lambda>as. fold_value as)", simp, goal_cases)
  case (1 acc p acc' carry)
  from 1(1,2) have p: "carry_pass acc = (acc', carry)" by simp
  from 1(3) p have ne: "acc \<noteq> []" by auto
  then have "1 < (256 :: nat) ^ length acc" using one_less_power [of "256 :: nat" "length acc"] by auto
  moreover have "0 < unat carry" using 1(3) by (simp add: unat_gt_0)
  ultimately have "unat carry < unat carry * 256 ^ length acc" by simp
  with end_around_value(1) [OF p ne] carry_pass_value [of acc, unfolded p fst_conv snd_conv]
  have "fold_value (end_around acc' carry) < fold_value acc" by linarith
  then show ?case by simp
qed

declare carry_loop.simps [simp del]

definition n_fold :: "bytes \<Rightarrow> nat \<Rightarrow> bytes option" where
  "n_fold input out_len =
    (let in_len = length input; g = gcd_usize in_len out_len
     in if g = 0 then None
        else Some (map ucast (carry_loop (fold_acc input out_len (in_len div g * out_len)))))"

section \<open>Key derivation\<close>

function dk_loop :: "(bytes \<Rightarrow> bytes) \<Rightarrow> nat \<Rightarrow> bytes \<Rightarrow> bytes \<Rightarrow> bytes" where
  "dk_loop enc n block out =
    (if length out < n then let b = block16 (enc block) in dk_loop enc n b (out @ b) else out)"
  by pat_completeness auto
termination by (relation "measure (\<lambda>(enc, n, block, out). n - length out)") auto

declare dk_loop.simps [simp del]

definition dk :: "crypto_prims \<Rightarrow> bytes \<Rightarrow> bytes \<Rightarrow> (bytes, krb5_error) result" where
  "dk P key constant = and_then (aes_key_new key) (\<lambda>aes.
     let block = (case n_fold constant 16 of Some b \<Rightarrow> b | None \<Rightarrow> [])
     in Inr (take (length key) (dk_loop (aes_encrypt P aes) (length key) block [])))"

definition kdf_hmac_sha2 :: "crypto_prims \<Rightarrow> enctype \<Rightarrow> bytes \<Rightarrow> bytes \<Rightarrow> u32 \<Rightarrow> bytes" where
  "kdf_hmac_sha2 P e key label k_bits =
    take (unat k_bits div 8) (hmac P e key [be_bytes 4 (1 :: u32), label, [0], be_bytes 4 k_bits])"

definition derive ::
  "crypto_prims \<Rightarrow> enctype \<Rightarrow> bytes \<Rightarrow> u32 \<Rightarrow> u8 \<Rightarrow> (bytes, krb5_error) result" where
  "derive P e base usage tag =
    (if length base \<noteq> key_len e then
       Inl (Krb5_Crypto (''key length '' @ dec_string (length base) @ '' does not match '' @ enctype_debug e))
     else
       let label = be_bytes 4 usage @ [tag]
       in if is_rfc8009 e then
            let bits = if tag = 0xAA then of_nat (key_len e * 8) else rfc8009_mac_bits e
            in Inr (kdf_hmac_sha2 P e base label bits)
          else dk P base label)"

definition ascii :: "string \<Rightarrow> bytes" where
  "ascii s = map (\<lambda>c. of_char c) s"

definition string_to_key ::
  "crypto_prims \<Rightarrow> enctype \<Rightarrow> bytes \<Rightarrow> bytes \<Rightarrow> u32 option \<Rightarrow> (bytes, krb5_error) result" where
  "string_to_key P e password salt iterations =
    (let len = key_len e;
         run = (\<lambda>salt' iter. case prim_pbkdf2 P e password salt' iter len of
                  Inl msg \<Rightarrow> Inl (Krb5_Crypto msg) | Inr k \<Rightarrow> Inr k)
     in if is_rfc8009 e then
          let name = (if e = Aes128CtsHmacSha256_128 then ''aes128-cts-hmac-sha256-128''
                      else ''aes256-cts-hmac-sha384-192'');
              iter = (case iterations of Some i \<Rightarrow> i | None \<Rightarrow> 32768)
          in and_then (run (ascii name @ [0] @ salt) iter)
               (\<lambda>tkey. Inr (kdf_hmac_sha2 P e tkey (ascii ''kerberos'') (of_nat (len * 8))))
        else
          and_then (run salt (case iterations of Some i \<Rightarrow> i | None \<Rightarrow> 4096))
            (\<lambda>tkey. dk P tkey (ascii ''kerberos'')))"

section \<open>Encryption and checksums\<close>

definition encrypt_with_confounder ::
  "crypto_prims \<Rightarrow> enctype \<Rightarrow> bytes \<Rightarrow> u32 \<Rightarrow> bytes \<Rightarrow> bytes \<Rightarrow> (bytes, krb5_error) result" where
  "encrypt_with_confounder P e base_key usage plaintext confounder =
    and_then (derive P e base_key usage 0xAA) (\<lambda>ke.
    and_then (derive P e base_key usage 0x55) (\<lambda>ki.
      let dat = confounder @ plaintext in
      and_then (cts_encrypt P ke dat) (\<lambda>out.
        let mac = (if is_rfc8009 e then hmac P e ki [replicate 16 0, out] else hmac P e ki [dat])
        in Inr (out @ take (hmac_len e) mac))))"

definition encrypt ::
  "crypto_prims \<Rightarrow> bytes option \<Rightarrow> enctype \<Rightarrow> bytes \<Rightarrow> u32 \<Rightarrow> bytes \<Rightarrow> (bytes, krb5_error) result" where
  "encrypt P rnd e base_key usage plaintext = (case rnd of
     None \<Rightarrow> Inl (Krb5_Crypto ''getrandom'')
   | Some confounder \<Rightarrow> encrypt_with_confounder P e base_key usage plaintext confounder)"

definition decrypt ::
  "crypto_prims \<Rightarrow> enctype \<Rightarrow> bytes \<Rightarrow> u32 \<Rightarrow> bytes \<Rightarrow> (bytes, krb5_error) result" where
  "decrypt P e base_key usage ciphertext =
    (let h = hmac_len e in
     if length ciphertext < 16 + h then Inl Krb5_Integrity
     else
       let c = take (length ciphertext - h) ciphertext; mac = drop (length ciphertext - h) ciphertext in
       and_then (derive P e base_key usage 0xAA) (\<lambda>ke.
       and_then (derive P e base_key usage 0x55) (\<lambda>ki.
         if is_rfc8009 e then
           if \<not> ct_eq (take h (hmac P e ki [replicate 16 0, c])) mac then Inl Krb5_Integrity
           else and_then (cts_decrypt P ke c) (\<lambda>dat. Inr (drop 16 dat))
         else and_then (cts_decrypt P ke c) (\<lambda>dat.
           if \<not> ct_eq (take h (hmac P e ki [dat])) mac then Inl Krb5_Integrity
           else Inr (drop 16 dat)))))"

definition checksum ::
  "crypto_prims \<Rightarrow> enctype \<Rightarrow> bytes \<Rightarrow> u32 \<Rightarrow> bytes list \<Rightarrow> (bytes, krb5_error) result" where
  "checksum P e base_key usage parts =
    and_then (derive P e base_key usage 0x99) (\<lambda>kc. Inr (take (hmac_len e) (hmac P e kc parts)))"

end
