(* ===== verification/Keytab.thy ===== *)
theory Keytab
  imports Krb5Crypto
begin

text \<open>
  Keytab files (\<open>krb5/src/keytab.rs\<close>): the parser, the encoder and their round trip. Rust
  strings are lists of characters that stand for their UTF-8 bytes; \<open>utf8_lossy\<close> is
  \<open>String::from_utf8_lossy\<close>, which replaces each maximal ill-formed part by U+FFFD.
\<close>

section \<open>UTF-8\<close>

text \<open>The ranges the bytes after a lead byte lie in, \<open>None\<close> for a byte that leads nothing.\<close>

definition utf8_tail :: "u8 \<Rightarrow> (u8 \<times> u8) list option" where
  "utf8_tail b =
    (if b < 0x80 then Some []
     else if 0xC2 \<le> b \<and> b \<le> 0xDF then Some [(0x80, 0xBF)]
     else if b = 0xE0 then Some [(0xA0, 0xBF), (0x80, 0xBF)]
     else if b = 0xED then Some [(0x80, 0x9F), (0x80, 0xBF)]
     else if 0xE1 \<le> b \<and> b \<le> 0xEF then Some [(0x80, 0xBF), (0x80, 0xBF)]
     else if b = 0xF0 then Some [(0x90, 0xBF), (0x80, 0xBF), (0x80, 0xBF)]
     else if 0xF1 \<le> b \<and> b \<le> 0xF3 then Some [(0x80, 0xBF), (0x80, 0xBF), (0x80, 0xBF)]
     else if b = 0xF4 then Some [(0x80, 0x8F), (0x80, 0xBF), (0x80, 0xBF)]
     else None)"

fun matched :: "(u8 \<times> u8) list \<Rightarrow> bytes \<Rightarrow> nat" where
  "matched ((lo, hi) # rs) (b # bs) = (if lo \<le> b \<and> b \<le> hi then Suc (matched rs bs) else 0)"
| "matched _ _ = 0"

function utf8_lossy :: "bytes \<Rightarrow> bytes" where
  "utf8_lossy [] = []"
| "utf8_lossy (b # bs) = (case utf8_tail b of
     None \<Rightarrow> [0xEF, 0xBF, 0xBD] @ utf8_lossy bs
   | Some rs \<Rightarrow>
       let m = matched rs bs
       in (if m = length rs then b # take m bs else [0xEF, 0xBF, 0xBD]) @ utf8_lossy (drop m bs))"
  by pat_completeness auto
termination by (relation "measure length") auto

definition string_bytes :: "string \<Rightarrow> bytes" where
  "string_bytes s = map of_char s"

definition bytes_string :: "bytes \<Rightarrow> string" where
  "bytes_string bs = map (\<lambda>b. char_of (unat b)) bs"

definition string_lossy :: "bytes \<Rightarrow> string" where
  "string_lossy bs = bytes_string (utf8_lossy bs)"

lemma bytes_string_bytes [simp]: "bytes_string (string_bytes s) = s"
proof -
  have "unat (of_char c :: u8) = of_char c" for c
    using unat_of_nat [where 'a = 8, of "of_char c"] by (simp add: of_nat_of_char)
  then show ?thesis by (simp add: bytes_string_def string_bytes_def map_idI)
qed

lemma length_string_bytes [simp]: "length (string_bytes s) = length s"
  by (simp add: string_bytes_def)

section \<open>Entries\<close>

record keytab_entry =
  kt_realm :: string
  kt_components :: "string list"
  kt_name_type :: u32
  kt_timestamp :: u32
  kt_kvno :: u32
  kt_enctype :: int
  kt_key :: bytes

definition join :: "string \<Rightarrow> string list \<Rightarrow> string" where
  "join sep ps = (case ps of [] \<Rightarrow> [] | p # qs \<Rightarrow> p @ concat (map (\<lambda>q. sep @ q) qs))"

definition kt_principal :: "keytab_entry \<Rightarrow> string" where
  "kt_principal e = join ''/'' (kt_components e) @ ''@'' @ kt_realm e"

section \<open>The reader\<close>

record reader =
  rd_buf :: bytes
  rd_pos :: nat

definition rd_take :: "nat \<Rightarrow> reader \<Rightarrow> (bytes \<times> reader, krb5_error) result" where
  "rd_take n r =
    (if rd_pos r + n \<le> length (rd_buf r)
     then Inr (take n (drop (rd_pos r) (rd_buf r)), r\<lparr>rd_pos := rd_pos r + n\<rparr>)
     else Inl (Krb5_Keytab ''truncated entry''))"

definition rd_u8 :: "reader \<Rightarrow> (u8 \<times> reader, krb5_error) result" where
  "rd_u8 r = and_then (rd_take 1 r) (\<lambda>(bs, r'). Inr (bs ! 0, r'))"

definition rd_u16 :: "reader \<Rightarrow> (u16 \<times> reader, krb5_error) result" where
  "rd_u16 r = and_then (rd_take 2 r) (\<lambda>(bs, r'). Inr (from_be_bytes bs, r'))"

definition rd_u32 :: "reader \<Rightarrow> (u32 \<times> reader, krb5_error) result" where
  "rd_u32 r = and_then (rd_take 4 r) (\<lambda>(bs, r'). Inr (from_be_bytes bs, r'))"

definition rd_data :: "reader \<Rightarrow> (bytes \<times> reader, krb5_error) result" where
  "rd_data r = and_then (rd_u16 r) (\<lambda>(n, r'). rd_take (unat n) r')"

definition rd_string :: "reader \<Rightarrow> (string \<times> reader, krb5_error) result" where
  "rd_string r = and_then (rd_data r) (\<lambda>(bs, r'). Inr (string_lossy bs, r'))"

fun rd_strings :: "nat \<Rightarrow> reader \<Rightarrow> (string list \<times> reader, krb5_error) result" where
  "rd_strings 0 r = Inr ([], r)"
| "rd_strings (Suc n) r =
    and_then (rd_string r) (\<lambda>(s, r'). and_then (rd_strings n r') (\<lambda>(ss, r''). Inr (s # ss, r'')))"

section \<open>Parsing\<close>

definition parse_entry :: "bytes \<Rightarrow> (keytab_entry, krb5_error) result" where
  "parse_entry body =
    and_then (rd_u16 \<lparr>rd_buf = body, rd_pos = 0\<rparr>) (\<lambda>(n, r).
    and_then (rd_string r) (\<lambda>(realm, r).
    and_then (rd_strings (unat n) r) (\<lambda>(components, r).
    and_then (rd_u32 r) (\<lambda>(name_type, r).
    and_then (rd_u32 r) (\<lambda>(timestamp, r).
    and_then (rd_u8 r) (\<lambda>(kvno8, r).
    and_then (rd_u16 r) (\<lambda>(etype, r).
    and_then (rd_data r) (\<lambda>(key, r).
      let kvno = (case rd_u32 r of Inr (v, _) \<Rightarrow> if v \<noteq> 0 then v else ucast kvno8 | Inl _ \<Rightarrow> ucast kvno8)
      in Inr \<lparr>kt_realm = realm, kt_components = components, kt_name_type = name_type,
           kt_timestamp = timestamp, kt_kvno = kvno, kt_enctype = int (unat etype), kt_key = key\<rparr>))))))))"

function parse_entries :: "bytes \<Rightarrow> nat \<Rightarrow> keytab_entry list \<Rightarrow> (keytab_entry list, krb5_error) result" where
  "parse_entries buf pos entries =
    (if pos + 4 \<le> length buf then
       let size = sint (from_be_bytes (take 4 (drop pos buf)) :: 32 word);
           pos' = pos + 4;
           len = nat \<bar>size\<bar>
       in if len = 0 then Inr entries
          else if length buf < pos' + len then Inl (Krb5_Keytab ''truncated entry'')
          else if size < 0 then parse_entries buf (pos' + len) entries
          else and_then (parse_entry (take len (drop pos' buf)))
                 (\<lambda>e. parse_entries buf (pos' + len) (entries @ [e]))
     else Inr entries)"
  by pat_completeness auto
termination by (relation "measure (\<lambda>(buf, pos, entries). length buf - pos)") auto

declare parse_entries.simps [simp del]

definition keytab_parse :: "bytes \<Rightarrow> (keytab_entry list, krb5_error) result" where
  "keytab_parse buf =
    (if take 2 buf = [5, 2] then parse_entries buf 2 []
     else if take 2 buf = [5, 1] then Inl (Krb5_Keytab ''keytab version 0x0501 is not supported'')
     else Inl (Krb5_Keytab ''not a keytab (bad magic)''))"

section \<open>Encoding\<close>

definition put_string :: "string \<Rightarrow> bytes" where
  "put_string s = be_bytes 2 (of_nat (length s) :: u16) @ string_bytes s"

definition entry_body :: "keytab_entry \<Rightarrow> bytes" where
  "entry_body e =
    be_bytes 2 (of_nat (length (kt_components e)) :: u16)
    @ concat (map put_string (kt_realm e # kt_components e))
    @ be_bytes 4 (kt_name_type e) @ be_bytes 4 (kt_timestamp e)
    @ [ucast (kt_kvno e)] @ be_bytes 2 (of_int (kt_enctype e) :: u16)
    @ be_bytes 2 (of_nat (length (kt_key e)) :: u16) @ kt_key e @ be_bytes 4 (kt_kvno e)"

definition keytab_to_bytes :: "keytab_entry list \<Rightarrow> bytes" where
  "keytab_to_bytes entries =
    [5, 2] @ concat (map (\<lambda>e. be_bytes 4 (of_nat (length (entry_body e)) :: u32) @ entry_body e) entries)"

section \<open>Round trip\<close>

definition rdr :: "bytes \<Rightarrow> bytes \<Rightarrow> reader" where
  "rdr pre rest = \<lparr>rd_buf = pre @ rest, rd_pos = length pre\<rparr>"

lemma rd_take_rdr: "length x = n \<Longrightarrow> rd_take n (rdr pre (x @ rest)) = Inr (x, rdr (pre @ x) rest)"
  by (simp add: rd_take_def rdr_def)

lemma rd_u16_rdr: "rd_u16 (rdr pre (be_bytes 2 w @ rest)) = Inr (w, rdr (pre @ be_bytes 2 w) rest)"
  by (simp add: rd_u16_def rd_take_rdr from_be_bytes_be_bytes)

lemma rd_u32_rdr: "rd_u32 (rdr pre (be_bytes 4 w @ rest)) = Inr (w, rdr (pre @ be_bytes 4 w) rest)"
  by (simp add: rd_u32_def rd_take_rdr from_be_bytes_be_bytes)

lemma rd_u8_rdr: "rd_u8 (rdr pre ([b] @ rest)) = Inr (b, rdr (pre @ [b]) rest)"
  by (simp only: rd_u8_def rd_take_rdr [of "[b]" 1]) (simp add: rd_take_rdr [of "[b]" 1, simplified])

lemma rd_data_rdr:
  "length d < 2 ^ 16 \<Longrightarrow> rd_data (rdr pre (be_bytes 2 (of_nat (length d) :: u16) @ d @ rest)) =
    Inr (d, rdr (pre @ be_bytes 2 (of_nat (length d) :: u16) @ d) rest)"
  by (simp add: rd_data_def rd_u16_rdr rd_take_rdr unat_of_nat)

definition text_ok :: "string \<Rightarrow> bool" where
  "text_ok s \<longleftrightarrow> length s < 2 ^ 16 \<and> utf8_lossy (string_bytes s) = string_bytes s"

lemma rd_string_rdr:
  "text_ok s \<Longrightarrow> rd_string (rdr pre (put_string s @ rest)) = Inr (s, rdr (pre @ put_string s) rest)"
  using rd_data_rdr [of "string_bytes s" pre rest]
  by (simp add: rd_string_def put_string_def string_lossy_def text_ok_def)

lemma rd_strings_rdr:
  "\<forall>s \<in> set ss. text_ok s \<Longrightarrow>
    rd_strings (length ss) (rdr pre (concat (map put_string ss) @ rest)) =
      Inr (ss, rdr (pre @ concat (map put_string ss)) rest)"
  by (induction ss arbitrary: pre) (simp_all add: rd_string_rdr)

text \<open>The entries a keytab file can hold: its counts have 16 bits, and its strings are UTF-8.\<close>

definition entry_ok :: "keytab_entry \<Rightarrow> bool" where
  "entry_ok e \<longleftrightarrow> text_ok (kt_realm e) \<and> (\<forall>s \<in> set (kt_components e). text_ok s) \<and>
     length (kt_components e) < 2 ^ 16 \<and> length (kt_key e) < 2 ^ 16 \<and>
     0 \<le> kt_enctype e \<and> kt_enctype e < 2 ^ 16 \<and> length (entry_body e) < 2 ^ 31"

lemma parse_entry_body:
  assumes "entry_ok e"
  shows "parse_entry (entry_body e) = Inr e"
proof -
  have "(if kt_kvno e \<noteq> 0 then kt_kvno e else ucast (ucast (kt_kvno e) :: u8)) = kt_kvno e" by simp
  moreover have "int (unat (of_int (kt_enctype e) :: u16)) = kt_enctype e"
    using assms by (simp add: entry_ok_def unsigned_of_int take_bit_int_eq_self)
  moreover have "\<lparr>rd_buf = b, rd_pos = 0\<rparr> = rdr [] b" for b by (simp add: rdr_def)
  ultimately show ?thesis
    using assms rd_u32_rdr [where rest = "[]"] unfolding parse_entry_def entry_body_def entry_ok_def
    by (simp add: rd_u16_rdr rd_string_rdr rd_strings_rdr rd_u32_rdr rd_u8_rdr rd_data_rdr unat_of_nat
        del: append.simps)
qed

lemma parse_entries_append:
  assumes "\<forall>e \<in> set es. entry_ok e"
  shows "parse_entries (pre @ concat (map (\<lambda>e. be_bytes 4 (of_nat (length (entry_body e)) :: u32) @ entry_body e) es))
      (length pre) acc = Inr (acc @ es)"
  using assms
proof (induction es arbitrary: pre acc)
  case Nil
  then show ?case by (simp add: parse_entries.simps)
next
  case (Cons e es)
  let ?len = "be_bytes 4 (of_nat (length (entry_body e)) :: u32)"
  let ?tail = "concat (map (\<lambda>e. be_bytes 4 (of_nat (length (entry_body e)) :: u32) @ entry_body e) es)"
  have ok: "entry_ok e" using Cons by simp
  then have "length (entry_body e) < 2 ^ 31" by (simp add: entry_ok_def)
  then have s: "sint (of_nat (length (entry_body e)) :: 32 word) = int (length (entry_body e))"
    by (simp add: signed_of_nat signed_take_bit_int_eq_self)
  have "entry_body e \<noteq> []" by (simp add: entry_body_def)
  then show ?case
    using Cons.IH [of "pre @ ?len @ entry_body e" "acc @ [e]"] Cons.prems parse_entry_body [OF ok] s
    by (subst parse_entries.simps) (simp add: from_be_bytes_be_bytes Let_def add.assoc)
qed

text \<open>
  A keytab survives the file. Parsing the encoding of any list of entries whose texts and counts
  fit the format gives the same entries, in order; key version numbers of any size come back, also
  those that do not fit the old 8-bit field, and 0.
\<close>

lemma keytab_roundtrip:
  assumes "\<forall>e \<in> set es. entry_ok e"
  shows "keytab_parse (keytab_to_bytes es) = Inr es"
  using parse_entries_append [OF assms, of "[5, 2]" "[]"]
  by (simp add: keytab_parse_def keytab_to_bytes_def numeral_2_eq_2)

lemma keytab_roundtrip_example:
  "keytab_parse (keytab_to_bytes [\<lparr>kt_realm = ''X.LO'', kt_components = [''nfs'', ''h''], kt_name_type = 3,
      kt_timestamp = 7, kt_kvno = 300, kt_enctype = 18, kt_key = [1, 2]\<rparr>]) =
    Inr [\<lparr>kt_realm = ''X.LO'', kt_components = [''nfs'', ''h''], kt_name_type = 3,
      kt_timestamp = 7, kt_kvno = 300, kt_enctype = 18, kt_key = [1, 2]\<rparr>]"
  by (rule keytab_roundtrip)
    (simp add: entry_ok_def text_ok_def entry_body_def put_string_def string_bytes_def utf8_tail_def)

end
