(* ===== verification/AttrCodec.thy ===== *)
theory AttrCodec
  imports Xdr Keytab FileAttrs "HOL-Library.Sublist"
begin

text \<open>
  The wire form of file attributes (\<open>proto/src/utils.rs\<close>): attribute masks as bitmaps, attribute
  values as opaque bytes, and \<open>fattr4\<close>. The value decoder works with an offset into the opaque bytes
  and stops at the first attribute it cannot read. Strings are their UTF-8 bytes.
\<close>

section \<open>Bitmaps\<close>

text \<open>
  \<open>file_attrs_to_bitmap\<close>: a word is finished when an attribute of a later word comes. The
  comparison is done on 16-bit signed integers.
\<close>

fun bitmap_words :: "u32 list \<Rightarrow> u32 list \<Rightarrow> u32 \<Rightarrow> u32 list" where
  "bitmap_words [] attrs segment = attrs @ [segment]"
| "bitmap_words (idx # idxs) attrs segment =
    (if sint (of_nat ((unat idx + 30) div 31) :: 16 word) - 1 > sint (of_nat (length attrs) :: 16 word)
     then bitmap_words idxs (attrs @ [segment]) (2 ^ (unat idx mod 32))
     else bitmap_words idxs attrs (segment + 2 ^ (unat idx mod 32)))"

definition file_attrs_to_bitmap :: "file_attr list \<Rightarrow> u32 list" where
  "file_attrs_to_bitmap attrs = bitmap_words (map file_attr_num attrs) [] 0"

definition segment_attrs :: "nat \<Rightarrow> u32 \<Rightarrow> file_attr list" where
  "segment_attrs idx segment =
    List.map_filter (\<lambda>n. file_attr_of_num (of_nat (idx * 32 + n))) (filter (bit segment) [0..<32])"

definition attrs_from_u32 :: "u32 list \<Rightarrow> file_attr list" where
  "attrs_from_u32 raw = concat (map (\<lambda>(idx, segment). segment_attrs idx segment) (enumerate 0 raw))"

section \<open>Values to bytes\<close>

definition put_text :: "string \<Rightarrow> bytes" where
  "put_text s = be_bytes 4 (of_nat (length s) :: u32) @ string_bytes s @ replicate (xdr_pad (length s)) 0"

definition put_bool :: "bool \<Rightarrow> bytes" where
  "put_bool b = be_bytes 4 (of_bool b :: u32)"

definition put_time :: "nfstime4 \<Rightarrow> bytes" where
  "put_time t = be_bytes 8 (nfstime4_seconds t) @ be_bytes 4 (nfstime4_nseconds t)"

definition put_ace :: "nfsace4 \<Rightarrow> bytes" where
  "put_ace ace = be_bytes 4 (nfsace4_acetype ace) @ be_bytes 4 (nfsace4_flag ace) @
     be_bytes 4 (nfsace4_access_mask ace) @ put_text (nfsace4_who ace)"

definition put_list :: "('a \<Rightarrow> bytes) \<Rightarrow> 'a list \<Rightarrow> bytes" where
  "put_list f xs = be_bytes 4 (of_nat (length xs) :: u32) @ concat (map f xs)"

definition write_pathname4 :: "string list \<Rightarrow> bytes" where
  "write_pathname4 path = put_list put_text path"

definition put_location :: "fs_location4 \<Rightarrow> bytes" where
  "put_location loc = write_pathname4 (fs_location4_server loc) @ write_pathname4 (fs_location4_rootpath loc)"

primrec ftype_num :: "nfs_ftype4 \<Rightarrow> u32" where
  "ftype_num Nf4Undef = 0"
| "ftype_num Nf4reg = 1"
| "ftype_num Nf4dir = 2"
| "ftype_num Nf4blk = 3"
| "ftype_num Nf4chr = 4"
| "ftype_num Nf4lnk = 5"
| "ftype_num Nf4sock = 6"
| "ftype_num Nf4fifo = 7"
| "ftype_num Nf4attrdir = 8"
| "ftype_num Nf4namedattr = 9"

text \<open>One arm of \<open>to_bytes\<close>; an attribute without an arm gives no bytes.\<close>

definition value_bytes :: "file_attr_value \<Rightarrow> bytes" where
  "value_bytes val = (case val of
     FV_Type v \<Rightarrow> be_bytes 4 (ftype_num v)
   | FV_LeaseTime v \<Rightarrow> be_bytes 4 v
   | FV_SupportedAttrs v \<Rightarrow> put_list (be_bytes 4) (file_attrs_to_bitmap v)
   | FV_FhExpireType v \<Rightarrow> be_bytes 4 v
   | FV_Change v \<Rightarrow> be_bytes 8 v
   | FV_Size v \<Rightarrow> be_bytes 8 v
   | FV_LinkSupport v \<Rightarrow> put_bool v
   | FV_SymlinkSupport v \<Rightarrow> put_bool v
   | FV_NamedAttr v \<Rightarrow> put_bool v
   | FV_Fsid v \<Rightarrow> be_bytes 8 (fsid4_major v) @ be_bytes 8 (fsid4_minor v)
   | FV_UniqueHandles v \<Rightarrow> put_bool v
   | FV_RdattrError v \<Rightarrow> be_bytes 4 (nfs_stat4_num v)
   | FV_Fileid v \<Rightarrow> be_bytes 8 v
   | FV_Acl aces \<Rightarrow> put_list put_ace aces
   | FV_AclSupport v \<Rightarrow> be_bytes 4 v
   | FV_Mode v \<Rightarrow> be_bytes 4 v
   | FV_TimeAccess v \<Rightarrow> put_time v
   | FV_TimeModify v \<Rightarrow> put_time v
   | FV_TimeMetadata v \<Rightarrow> put_time v
   | FV_MountedOnFileid v \<Rightarrow> be_bytes 8 v
   | FV_Owner v \<Rightarrow> put_text v
   | FV_OwnerGroup v \<Rightarrow> put_text v
   | FV_QuotaAvailHard v \<Rightarrow> be_bytes 8 v
   | FV_QuotaAvailSoft v \<Rightarrow> be_bytes 8 v
   | FV_QuotaUsed v \<Rightarrow> be_bytes 8 v
   | FV_SpaceAvail v \<Rightarrow> be_bytes 8 v
   | FV_SpaceFree v \<Rightarrow> be_bytes 8 v
   | FV_SpaceTotal v \<Rightarrow> be_bytes 8 v
   | FV_SpaceUsed v \<Rightarrow> be_bytes 8 v
   | FV_Numlinks v \<Rightarrow> be_bytes 4 v
   | FV_Maxfilesize v \<Rightarrow> be_bytes 8 v
   | FV_Maxread v \<Rightarrow> be_bytes 8 v
   | FV_Maxwrite v \<Rightarrow> be_bytes 8 v
   | FV_Maxlink v \<Rightarrow> be_bytes 4 v
   | FV_Maxname v \<Rightarrow> be_bytes 4 v
   | FV_Homogeneous v \<Rightarrow> put_bool v
   | FV_NoTrunc v \<Rightarrow> put_bool v
   | FV_Cansettime v \<Rightarrow> put_bool v
   | FV_CaseInsensitive v \<Rightarrow> put_bool v
   | FV_CasePreserving v \<Rightarrow> put_bool v
   | FV_ChownRestricted v \<Rightarrow> put_bool v
   | FV_FilesAvail v \<Rightarrow> be_bytes 8 v
   | FV_FilesFree v \<Rightarrow> be_bytes 8 v
   | FV_FilesTotal v \<Rightarrow> be_bytes 8 v
   | FV_FsLocations v \<Rightarrow> write_pathname4 (fs_locations4_fs_root v) @ put_list put_location (fs_locations4_locations v)
   | FV_TimeCreate v \<Rightarrow> put_time v
   | FV_TimeDelta v \<Rightarrow> put_time v
   | _ \<Rightarrow> [])"

definition attr_values_to_bytes :: "file_attr_value list \<Rightarrow> bytes" where
  "attr_values_to_bytes vals = concat (map value_bytes vals)"

section \<open>Bytes to values\<close>

text \<open>A reader at an offset of a buffer: the value and the offset after it, \<open>None\<close> where the loop breaks.\<close>

type_synonym 'a at_reader = "bytes \<Rightarrow> nat \<Rightarrow> ('a \<times> nat) option"

definition at_u32 :: "u32 at_reader" where
  "at_u32 buf off = (if off + 4 > length buf then None else Some (from_be_bytes (take 4 (drop off buf)), off + 4))"

definition at_u64 :: "u64 at_reader" where
  "at_u64 buf off = (if off + 8 > length buf then None else Some (from_be_bytes (take 8 (drop off buf)), off + 8))"

definition at_time :: "nfstime4 at_reader" where
  "at_time buf off = (if off + 12 > length buf then None
     else Some (\<lparr>nfstime4_seconds = from_be_bytes (take 8 (drop off buf)),
                 nfstime4_nseconds = from_be_bytes (take 4 (drop (off + 8) buf))\<rparr>, off + 12))"

definition at_then :: "'a at_reader \<Rightarrow> ('a \<Rightarrow> 'b at_reader) \<Rightarrow> 'b at_reader" where
  "at_then rd f buf off = (case rd buf off of None \<Rightarrow> None | Some (x, off) \<Rightarrow> f x buf off)"

definition at_return :: "'a \<Rightarrow> 'a at_reader" where
  "at_return x buf off = Some (x, off)"

text \<open>A counted string; the padding is skipped whether or not the buffer has it.\<close>

definition at_text :: "string at_reader" where
  "at_text = at_then at_u32 (\<lambda>len buf off. if off + unat len > length buf then None
     else Some (string_lossy (take (unat len) (drop off buf)), off + unat len + xdr_pad (unat len)))"

text \<open>A component of a path; here the padding has to be there.\<close>

definition at_component :: "string at_reader" where
  "at_component = at_then at_u32 (\<lambda>slen buf off.
     let padded = (unat slen + 3) div 4 * 4
     in if off + padded > length buf then None
        else Some (string_lossy (take (unat slen) (drop off buf)), off + padded))"

primrec at_many :: "'a at_reader \<Rightarrow> nat \<Rightarrow> 'a list at_reader" where
  "at_many rd 0 = at_return []"
| "at_many rd (Suc n) = at_then rd (\<lambda>x. at_then (at_many rd n) (\<lambda>xs. at_return (x # xs)))"

definition read_pathname4 :: "string list at_reader" where
  "read_pathname4 = at_then at_u32 (\<lambda>count. at_many at_component (unat count))"

definition at_location :: "fs_location4 at_reader" where
  "at_location = at_then read_pathname4 (\<lambda>server. at_then read_pathname4 (\<lambda>rootpath.
     at_return \<lparr>fs_location4_server = server, fs_location4_rootpath = rootpath\<rparr>))"

definition at_fs_locations :: "fs_locations4 at_reader" where
  "at_fs_locations = at_then read_pathname4 (\<lambda>fs_root. at_then at_u32 (\<lambda>loc_count.
     at_then (at_many at_location (unat loc_count)) (\<lambda>locations.
       at_return \<lparr>fs_locations4_fs_root = fs_root, fs_locations4_locations = locations\<rparr>)))"

text \<open>
  The entries of an ACL: the loop leaves at the first entry that does not fit, keeps the entries
  before it and the offset it had reached.
\<close>

primrec read_aces :: "nat \<Rightarrow> bytes \<Rightarrow> nat \<Rightarrow> nfsace4 list \<times> nat" where
  "read_aces 0 buf off = ([], off)"
| "read_aces (Suc n) buf off =
    (if off + 12 > length buf then ([], off)
     else let acetype = from_be_bytes (take 4 (drop off buf));
              flag = from_be_bytes (take 4 (drop (off + 4) buf));
              access_mask = from_be_bytes (take 4 (drop (off + 8) buf));
              off = off + 12
          in case at_u32 buf off of
               None \<Rightarrow> ([], off)
             | Some (who_len, off) \<Rightarrow>
                 if off + unat who_len > length buf then ([], off)
                 else let who = string_lossy (take (unat who_len) (drop off buf));
                          ace = \<lparr>nfsace4_acetype = acetype, nfsace4_flag = flag, nfsace4_access_mask = access_mask,
                                 nfsace4_who = who\<rparr>
                      in apfst (Cons ace) (read_aces n buf (off + unat who_len + xdr_pad (unat who_len))))"

definition at_acl :: "nfsace4 list at_reader" where
  "at_acl = at_then at_u32 (\<lambda>count buf off. Some (read_aces (unat count) buf off))"

definition ftype_of_num :: "u32 \<Rightarrow> nfs_ftype4" where
  "ftype_of_num val =
    (if val = 1 then Nf4reg else if val = 2 then Nf4dir else if val = 3 then Nf4blk else if val = 4 then Nf4chr
     else if val = 5 then Nf4lnk else if val = 6 then Nf4sock else if val = 7 then Nf4fifo
     else if val = 8 then Nf4attrdir else if val = 9 then Nf4namedattr else Nf4Undef)"

definition at_map :: "('a \<Rightarrow> 'b) \<Rightarrow> 'a at_reader \<Rightarrow> 'b at_reader" where
  "at_map f rd = at_then rd (\<lambda>x. at_return (f x))"

text \<open>One arm of \<open>attrvalues_from_bytes\<close>.\<close>

definition read_attr_value :: "file_attr \<Rightarrow> file_attr_value at_reader" where
  "read_attr_value attr = (case attr of
     FA_Type \<Rightarrow> at_map (\<lambda>n. FV_Type (ftype_of_num n)) at_u32
   | FA_Change \<Rightarrow> at_map FV_Change at_u64
   | FA_Size \<Rightarrow> at_map FV_Size at_u64
   | FA_Mode \<Rightarrow> at_map FV_Mode at_u32
   | FA_Numlinks \<Rightarrow> at_map FV_Numlinks at_u32
   | FA_QuotaAvailHard \<Rightarrow> at_map FV_QuotaAvailHard at_u64
   | FA_QuotaAvailSoft \<Rightarrow> at_map FV_QuotaAvailSoft at_u64
   | FA_QuotaUsed \<Rightarrow> at_map FV_QuotaUsed at_u64
   | FA_SpaceAvail \<Rightarrow> at_map FV_SpaceAvail at_u64
   | FA_SpaceFree \<Rightarrow> at_map FV_SpaceFree at_u64
   | FA_SpaceTotal \<Rightarrow> at_map FV_SpaceTotal at_u64
   | FA_SpaceUsed \<Rightarrow> at_map FV_SpaceUsed at_u64
   | FA_MountedOnFileid \<Rightarrow> at_map FV_MountedOnFileid at_u64
   | FA_FilesAvail \<Rightarrow> at_map FV_FilesAvail at_u64
   | FA_FilesFree \<Rightarrow> at_map FV_FilesFree at_u64
   | FA_FilesTotal \<Rightarrow> at_map FV_FilesTotal at_u64
   | FA_FsLocations \<Rightarrow> at_map FV_FsLocations at_fs_locations
   | FA_CaseInsensitive \<Rightarrow> at_map (\<lambda>n. FV_CaseInsensitive (n \<noteq> 0)) at_u32
   | FA_CasePreserving \<Rightarrow> at_map (\<lambda>n. FV_CasePreserving (n \<noteq> 0)) at_u32
   | FA_TimeCreate \<Rightarrow> at_map FV_TimeCreate at_time
   | FA_TimeDelta \<Rightarrow> at_map FV_TimeDelta at_time
   | FA_TimeAccess \<Rightarrow> at_map FV_TimeAccess at_time
   | FA_TimeModify \<Rightarrow> at_map FV_TimeModify at_time
   | FA_TimeMetadata \<Rightarrow> at_map FV_TimeMetadata at_time
   | FA_Owner \<Rightarrow> at_map FV_Owner at_text
   | FA_OwnerGroup \<Rightarrow> at_map FV_OwnerGroup at_text
   | FA_Acl \<Rightarrow> at_map FV_Acl at_acl
   | _ \<Rightarrow> (\<lambda>buf off. None))"

fun attrvalues_from :: "bytes \<Rightarrow> nat \<Rightarrow> file_attr list \<Rightarrow> file_attr_value list" where
  "attrvalues_from buf off [] = []"
| "attrvalues_from buf off (attr # attrs) =
    (if off > length buf then []
     else case read_attr_value attr buf off of
            None \<Rightarrow> []
          | Some (v, off) \<Rightarrow> v # attrvalues_from buf off attrs)"

definition attrvalues_from_bytes :: "bytes \<Rightarrow> file_attr list \<Rightarrow> file_attr_value list" where
  "attrvalues_from_bytes buf attrs = attrvalues_from buf 0 attrs"

section \<open>The \<open>fattr4\<close> type\<close>

text \<open>\<open>FattrRaw\<close>, the mask and the opaque values, on the XDR codec.\<close>

definition fattr_raw_type :: xdr_type where
  "fattr_raw_type = T_tuple [T_seq T_u32, T_bytes]"

definition fattr4_serialize :: "fattr4 \<Rightarrow> xdr_value" where
  "fattr4_serialize f = V_tuple [V_seq (map V_u32 (file_attrs_to_bitmap (fattr4_attrmask f))),
     V_bytes (attr_values_to_bytes (fattr4_attr_vals f))]"

definition fattr4_deserialize :: "xdr_value \<Rightarrow> fattr4 option" where
  "fattr4_deserialize v = (case v of
     V_tuple [V_seq ws, V_bytes b] \<Rightarrow>
       let attrmask = attrs_from_u32 (map (\<lambda>w. case w of V_u32 x \<Rightarrow> x | _ \<Rightarrow> 0) ws)
       in Some \<lparr>fattr4_attrmask = attrmask, fattr4_attr_vals = attrvalues_from_bytes b attrmask\<rparr>
   | _ \<Rightarrow> None)"

section \<open>Bitmaps are read back\<close>

text \<open>The bits of a word that has been filled with the attributes of \<open>ns\<close>.\<close>

definition word_of :: "nat list \<Rightarrow> u32" where
  "word_of ns = foldl (\<lambda>w n. w + 2 ^ (n mod 32)) 0 ns"

lemma bit_add_power:
  fixes w :: u32
  assumes "\<not> bit w n" and "n < 32"
  shows "bit (w + 2 ^ n) m \<longleftrightarrow> bit w m \<or> m = n"
proof -
  have "w AND 2 ^ n = 0"
    using assms(1) by (auto intro!: bit_eqI simp: bit_and_iff bit_exp_iff)
  then have "w + 2 ^ n = w OR 2 ^ n"
    by (rule disjunctive_add_eq_or)
  with assms(2) show ?thesis
    by (auto simp: bit_or_iff bit_exp_iff)
qed

lemma bit_word_of:
  assumes "distinct (map (\<lambda>n. n mod 32) ns)"
  shows "bit (word_of ns) m \<longleftrightarrow> m \<in> (\<lambda>n. n mod 32) ` set ns"
  using assms
proof (induction ns arbitrary: m rule: rev_induct)
  case (snoc n ns)
  then have "\<not> bit (word_of ns) (n mod 32)"
    by auto
  then have "bit (word_of ns + 2 ^ (n mod 32)) m \<longleftrightarrow> bit (word_of ns) m \<or> m = n mod 32" for m
    by (rule bit_add_power) simp
  with snoc show ?case
    by (auto simp: word_of_def)
qed (simp add: word_of_def)

lemma filter_upt_sorted:
  assumes "sorted_wrt (<) ns" and "\<forall>n\<in>set ns. n < b"
  shows "filter (\<lambda>m. m \<in> set ns) [0..<b] = (ns :: nat list)"
  by (rule sorted_distinct_set_unique) (use assms in \<open>auto simp: strict_sorted_iff sorted_wrt_filter\<close>)

lemma map_filter_inverse:
  assumes "\<And>a. a \<in> set xs \<Longrightarrow> f (g a) = Some a"
  shows "List.map_filter f (map g xs) = xs"
  using assms by (induction xs) simp_all

lemma segment_attrs_word_of:
  assumes sorted: "sorted_wrt (<) (map (\<lambda>a. unat (file_attr_num a)) attrs)"
    and range: "\<forall>a\<in>set attrs. 32 * i \<le> unat (file_attr_num a) \<and> unat (file_attr_num a) < 32 * i + 32"
  shows "segment_attrs i (word_of (map (\<lambda>a. unat (file_attr_num a)) attrs)) = attrs"
proof -
  let ?num = "\<lambda>a. unat (file_attr_num a)" and ?low = "\<lambda>a. unat (file_attr_num a) - 32 * i"
  have low: "?num a mod 32 = ?low a" "?low a < 32" "i * 32 + ?low a = ?num a" if "a \<in> set attrs" for a
    using range that by (auto simp: mod_eq_nat1E intro!: mod_nat_eqI)
  have "sorted_wrt (\<lambda>a b. ?num a < ?num b) attrs"
    using sorted by (simp add: sorted_wrt_map)
  then have lows: "sorted_wrt (<) (map ?low attrs)"
    unfolding sorted_wrt_map by (rule sorted_wrt_mono_rel[rotated]) (use range in auto)
  have mods: "map (\<lambda>n. n mod 32) (map ?num attrs) = map ?low attrs"
    using low(1) by simp
  have "bit (word_of (map ?num attrs)) m \<longleftrightarrow> m \<in> set (map ?low attrs)" for m
    using bit_word_of[of "map ?num attrs" m] lows unfolding mods
    by (metis (no_types) list.set_map mods strict_sorted_iff)
  then have "bit (word_of (map ?num attrs)) = (\<lambda>m. m \<in> set (map ?low attrs))"
    by blast
  then have "filter (bit (word_of (map ?num attrs))) [0..<32] = map ?low attrs"
    using filter_upt_sorted[OF lows, of 32] low(2) by simp
  then show ?thesis
    using map_filter_inverse[of attrs "\<lambda>n. file_attr_of_num (of_nat (i * 32 + n))" ?low] low(3)
    by (simp add: segment_attrs_def file_attr_of_num_num)
qed

lemma file_attr_num_less: "unat (file_attr_num a) < 56"
  by (cases a) simp_all

text \<open>The test of the encoder, for attributes of the first and of the second word.\<close>

lemma bitmap_words_first:
  assumes "\<forall>n\<in>set ns. unat n < 32"
  shows "bitmap_words (ns @ rest) [] w = bitmap_words rest [] (foldl (\<lambda>w n. w + 2 ^ (unat n mod 32)) w ns)"
  using assms
proof (induction ns arbitrary: w)
  case (Cons n ns)
  then have "(unat n + 30) div 31 = 0 \<or> (unat n + 30) div 31 = 1"
    by auto
  with Cons show ?case
    by auto
qed simp

lemma bitmap_words_second:
  assumes "\<forall>n\<in>set ns. 32 \<le> unat n \<and> unat n < 56"
  shows "bitmap_words ns [u] w = [u, foldl (\<lambda>w n. w + 2 ^ (unat n mod 32)) w ns]"
  using assms
proof (induction ns arbitrary: w)
  case (Cons n ns)
  then have "(unat n + 30) div 31 = 2"
    by auto
  with Cons show ?case
    by auto
qed simp

lemma foldl_word_of: "foldl (\<lambda>w n. w + 2 ^ (unat n mod 32)) 0 (map file_attr_num attrs) =
    word_of (map (\<lambda>a. unat (file_attr_num a)) attrs)"
  by (simp add: word_of_def foldl_map)

lemma bitmap_of_parts:
  assumes "\<forall>a\<in>set lo. unat (file_attr_num a) < 32" and "\<forall>a\<in>set hi. 32 \<le> unat (file_attr_num a)"
  shows "file_attrs_to_bitmap (lo @ hi) = word_of (map (\<lambda>a. unat (file_attr_num a)) lo) #
    (if hi = [] then [] else [word_of (map (\<lambda>a. unat (file_attr_num a)) hi)])"
proof -
  have first: "file_attrs_to_bitmap (lo @ hi) =
      bitmap_words (map file_attr_num hi) [] (word_of (map (\<lambda>a. unat (file_attr_num a)) lo))"
    using bitmap_words_first[of "map file_attr_num lo"] assms(1)
    by (simp add: file_attrs_to_bitmap_def flip: foldl_word_of)
  show ?thesis
  proof (cases hi)
    case (Cons a rest)
    with assms(2) have "(unat (file_attr_num a) + 30) div 31 = 2"
      using file_attr_num_less[of a] by auto
    moreover have "bitmap_words (map file_attr_num rest) [u] w =
        [u, foldl (\<lambda>w n. w + 2 ^ (unat n mod 32)) w (map file_attr_num rest)]" for u w
      using assms(2) Cons by (intro bitmap_words_second) (simp add: file_attr_num_less)
    ultimately show ?thesis
      using Cons by (simp add: first[unfolded Cons] word_of_def foldl_map)
  qed (use first in simp)
qed

lemma sorted_parts:
  assumes "sorted_wrt (<) (map f xs)"
  shows "xs = filter (\<lambda>x. f x < (k :: nat)) xs @ filter (\<lambda>x. k \<le> f x) xs"
  using assms
proof (induction xs)
  case (Cons x xs)
  then have "k \<le> f x \<Longrightarrow> filter (\<lambda>x. f x < k) xs = []"
    by (auto simp: filter_empty_conv)
  with Cons show ?case
    by auto
qed simp

lemma bitmap_decoded:
  assumes sorted: "sorted_wrt (<) (map (\<lambda>a. unat (file_attr_num a)) attrs)"
  shows "attrs_from_u32 (file_attrs_to_bitmap attrs) = attrs"
proof -
  let ?num = "\<lambda>a. unat (file_attr_num a)"
  let ?lo = "filter (\<lambda>a. ?num a < 32) attrs" and ?hi = "filter (\<lambda>a. 32 \<le> ?num a) attrs"
  have parts: "sorted_wrt (<) (map ?num ?lo)" "sorted_wrt (<) (map ?num ?hi)"
    using sorted by (simp_all add: sorted_wrt_map sorted_wrt_filter)
  have "segment_attrs 0 (word_of (map ?num ?lo)) = ?lo" "segment_attrs 1 (word_of (map ?num ?hi)) = ?hi"
    by (rule segment_attrs_word_of; use parts file_attr_num_less in \<open>force intro: less_trans\<close>)+
  moreover have "file_attrs_to_bitmap (?lo @ ?hi) = word_of (map ?num ?lo) #
      (if ?hi = [] then [] else [word_of (map ?num ?hi)])"
    by (rule bitmap_of_parts) simp_all
  ultimately have "attrs_from_u32 (file_attrs_to_bitmap (?lo @ ?hi)) = ?lo @ ?hi"
    by (simp add: attrs_from_u32_def)
  then show ?thesis
    using sorted_parts[OF sorted, of 32] by simp
qed

section \<open>Values are read back\<close>

text \<open>\<open>finds rd b x\<close>: wherever \<open>b\<close> stands in a buffer, the reader at its offset returns \<open>x\<close> and moves behind it.\<close>

definition finds :: "'a at_reader \<Rightarrow> bytes \<Rightarrow> 'a \<Rightarrow> bool" where
  "finds rd b x \<longleftrightarrow> (\<forall>pre rest. rd (pre @ b @ rest) (length pre) = Some (x, length pre + length b))"

named_theorems finds_intros \<open>encodings that are found\<close>

lemma finds_then:
  assumes "finds rd b x" and "finds (f x) c y"
  shows "finds (at_then rd f) (b @ c) y"
  unfolding finds_def
proof (intro allI)
  fix pre rest
  have "rd (pre @ b @ c @ rest) (length pre) = Some (x, length pre + length b)"
    using assms(1) by (simp add: finds_def)
  moreover have "f x ((pre @ b) @ c @ rest) (length (pre @ b)) = Some (y, length (pre @ b) + length c)"
    using assms(2) unfolding finds_def by blast
  ultimately show "at_then rd f (pre @ (b @ c) @ rest) (length pre) = Some (y, length pre + length (b @ c))"
    by (simp add: at_then_def)
qed

lemma finds_return [finds_intros]: "finds (at_return x) [] x"
  by (simp add: finds_def at_return_def)

lemma finds_map [finds_intros]: "finds rd b x \<Longrightarrow> f x = y \<Longrightarrow> finds (at_map f rd) b y"
  by (auto simp: finds_def at_map_def at_then_def at_return_def)

lemma finds_u32 [finds_intros]: "finds at_u32 (be_bytes 4 v) v"
  by (simp add: finds_def at_u32_def from_be_bytes_be_bytes)

lemma finds_u64 [finds_intros]: "finds at_u64 (be_bytes 8 v) v"
  by (simp add: finds_def at_u64_def from_be_bytes_be_bytes)

lemma finds_time [finds_intros]: "finds at_time (put_time t) t"
  by (simp add: finds_def at_time_def put_time_def from_be_bytes_be_bytes)

text \<open>Strings that survive the wire: well-formed UTF-8 of at most \<open>2 ^ 32 - 1\<close> bytes.\<close>

definition wire_text :: "string \<Rightarrow> bool" where
  "wire_text s \<longleftrightarrow> length s < 2 ^ 32 \<and> utf8_lossy (string_bytes s) = string_bytes s"

lemma wire_text_len: "wire_text s \<Longrightarrow> unat (of_nat (length s) :: u32) = length s"
  by (simp add: wire_text_def unat_of_nat take_bit_nat_eq_self)

lemma finds_text [finds_intros]:
  assumes "wire_text s"
  shows "finds at_text (put_text s) s"
  unfolding at_text_def put_text_def
  by (rule finds_then[OF finds_u32])
    (use assms wire_text_len[OF assms] in \<open>simp add: finds_def string_lossy_def wire_text_def\<close>)

lemma xdr_pad_div: "(n + 3) div 4 * 4 = n + xdr_pad n"
proof -
  obtain q r where n: "n = 4 * q + r" "r < 4"
    by (metis mod_less_divisor mult_div_mod_eq zero_less_numeral)
  then have m: "n mod 4 = r"
    by simp
  consider "r = 0" | "r = 1" | "r = 2" | "r = 3"
    using n(2) by linarith
  then show ?thesis
    by cases (simp_all add: xdr_pad_def m, simp_all add: n(1))
qed

lemma finds_component [finds_intros]:
  assumes "wire_text s"
  shows "finds at_component (put_text s) s"
  unfolding at_component_def put_text_def
  by (rule finds_then[OF finds_u32])
    (use assms wire_text_len[OF assms] in \<open>simp add: finds_def string_lossy_def wire_text_def xdr_pad_div Let_def\<close>)

lemma finds_many:
  assumes "\<forall>x\<in>set xs. finds rd (f x) x"
  shows "finds (at_many rd (length xs)) (concat (map f xs)) xs"
  using assms
proof (induction xs)
  case (Cons x xs)
  have "finds (at_then (at_many rd (length xs)) (\<lambda>xs. at_return (x # xs))) (concat (map f xs) @ []) (x # xs)"
    by (rule finds_then[OF _ finds_return]) (use Cons in simp)
  with Cons show ?case
    by (auto intro: finds_then)
qed (simp add: finds_return)

lemma finds_list:
  assumes "length xs < 2 ^ 32" and "\<forall>x\<in>set xs. finds rd (f x) x"
  shows "finds (at_then at_u32 (\<lambda>n. at_many rd (unat n))) (put_list f xs) xs"
  unfolding put_list_def
  by (rule finds_then[OF finds_u32]) (use assms finds_many[OF assms(2)] in \<open>simp add: unat_of_length\<close>)

definition wire_path :: "string list \<Rightarrow> bool" where
  "wire_path p \<longleftrightarrow> length p < 2 ^ 32 \<and> (\<forall>s\<in>set p. wire_text s)"

lemma finds_pathname [finds_intros]: "wire_path p \<Longrightarrow> finds read_pathname4 (write_pathname4 p) p"
  unfolding read_pathname4_def write_pathname4_def
  by (rule finds_list) (auto simp: wire_path_def intro: finds_component)

definition wire_location :: "fs_location4 \<Rightarrow> bool" where
  "wire_location l \<longleftrightarrow> wire_path (fs_location4_server l) \<and> wire_path (fs_location4_rootpath l)"

lemma finds_location [finds_intros]:
  assumes "wire_location l"
  shows "finds at_location (put_location l) l"
proof -
  have "finds at_location (write_pathname4 (fs_location4_server l) @ write_pathname4 (fs_location4_rootpath l) @ [])
      \<lparr>fs_location4_server = fs_location4_server l, fs_location4_rootpath = fs_location4_rootpath l\<rparr>"
    unfolding at_location_def
    by (rule finds_then[OF finds_pathname finds_then[OF finds_pathname finds_return]])
      (use assms in \<open>simp_all add: wire_location_def\<close>)
  then show ?thesis
    by (cases l) (simp add: put_location_def)
qed

lemma finds_fs_locations [finds_intros]:
  assumes "wire_path (fs_locations4_fs_root v)" and "length (fs_locations4_locations v) < 2 ^ 32"
    and "\<forall>l\<in>set (fs_locations4_locations v). wire_location l"
  shows "finds at_fs_locations (write_pathname4 (fs_locations4_fs_root v) @ put_list put_location (fs_locations4_locations v)) v"
proof -
  have "finds (at_many at_location (unat (of_nat (length (fs_locations4_locations v)) :: u32)))
      (concat (map put_location (fs_locations4_locations v))) (fs_locations4_locations v)"
    using finds_many[of "fs_locations4_locations v" at_location put_location] assms
    by (simp add: unat_of_length finds_location)
  then have "finds at_fs_locations (write_pathname4 (fs_locations4_fs_root v) @
      be_bytes 4 (of_nat (length (fs_locations4_locations v)) :: u32) @
      concat (map put_location (fs_locations4_locations v)) @ [])
      \<lparr>fs_locations4_fs_root = fs_locations4_fs_root v, fs_locations4_locations = fs_locations4_locations v\<rparr>"
    unfolding at_fs_locations_def
    by (rule finds_then[OF finds_pathname[OF assms(1)] finds_then[OF finds_u32 finds_then[OF _ finds_return]]])
  then show ?thesis
    by (cases v) (simp add: put_list_def)
qed

lemma read_aces_found:
  assumes "\<forall>a\<in>set aces. wire_text (nfsace4_who a)"
  shows "read_aces (length aces) (pre @ concat (map put_ace aces) @ rest) (length pre) =
    (aces, length pre + length (concat (map put_ace aces)))"
  using assms
proof (induction aces arbitrary: pre)
  case (Cons a aces)
  let ?tail = "concat (map put_ace aces) @ rest"
  have who: "wire_text (nfsace4_who a)"
    using Cons.prems by simp
  have len: "at_u32 (pre @ put_ace a @ ?tail) (length pre + 12) =
      Some (of_nat (length (nfsace4_who a)), length pre + 16)"
    by (simp add: at_u32_def put_ace_def put_text_def from_be_bytes_be_bytes)
  have who_text: "string_lossy (take (length (nfsace4_who a)) (drop (length pre + 16) (pre @ put_ace a @ ?tail))) =
      nfsace4_who a"
    using who by (simp add: put_ace_def put_text_def string_lossy_def wire_text_def)
  have size: "length (put_ace a) = 16 + length (nfsace4_who a) + xdr_pad (length (nfsace4_who a))"
    by (simp add: put_ace_def put_text_def)
  have "read_aces (length aces) ((pre @ put_ace a) @ ?tail) (length (pre @ put_ace a)) =
      (aces, length (pre @ put_ace a) + length (concat (map put_ace aces)))"
    by (rule Cons.IH) (use Cons.prems in simp)
  then show ?case
    using len who_text size wire_text_len[OF who]
    by (simp add: Let_def add.assoc) (simp add: put_ace_def from_be_bytes_be_bytes)
qed simp

lemma finds_acl [finds_intros]:
  assumes "length aces < 2 ^ 32" and "\<forall>a\<in>set aces. wire_text (nfsace4_who a)"
  shows "finds at_acl (put_list put_ace aces) aces"
  unfolding at_acl_def put_list_def
  by (rule finds_then[OF finds_u32]) (use assms read_aces_found in \<open>simp add: finds_def unat_of_length\<close>)

section \<open>Attributes on the wire\<close>

text \<open>The attributes the decoder knows, and the values of them that the wire can carry.\<close>

definition decoded_attr :: "file_attr \<Rightarrow> bool" where
  "decoded_attr a \<longleftrightarrow> a \<in> {FA_Type, FA_Change, FA_Size, FA_Mode, FA_Numlinks, FA_QuotaAvailHard, FA_QuotaAvailSoft,
     FA_QuotaUsed, FA_SpaceAvail, FA_SpaceFree, FA_SpaceTotal, FA_SpaceUsed, FA_MountedOnFileid, FA_FilesAvail,
     FA_FilesFree, FA_FilesTotal, FA_FsLocations, FA_CaseInsensitive, FA_CasePreserving, FA_TimeCreate, FA_TimeDelta,
     FA_TimeAccess, FA_TimeModify, FA_TimeMetadata, FA_Owner, FA_OwnerGroup, FA_Acl}"

definition wire_value :: "file_attr_value \<Rightarrow> bool" where
  "wire_value v \<longleftrightarrow> decoded_attr (fv_attr v) \<and> (case v of
     FV_Owner s \<Rightarrow> wire_text s
   | FV_OwnerGroup s \<Rightarrow> wire_text s
   | FV_Acl aces \<Rightarrow> length aces < 2 ^ 32 \<and> (\<forall>a\<in>set aces. wire_text (nfsace4_who a))
   | FV_FsLocations l \<Rightarrow> wire_path (fs_locations4_fs_root l) \<and> length (fs_locations4_locations l) < 2 ^ 32 \<and>
       (\<forall>x\<in>set (fs_locations4_locations l). wire_location x)
   | _ \<Rightarrow> True)"

lemma ftype_of_num_num: "ftype_of_num (ftype_num t) = t"
  by (cases t) (simp_all add: ftype_of_num_def)

lemma value_found: "wire_value v \<Longrightarrow> finds (read_attr_value (fv_attr v)) (value_bytes v) v"
  by (cases v) (auto simp: wire_value_def decoded_attr_def read_attr_value_def value_bytes_def put_bool_def
      ftype_of_num_num intro!: finds_intros)

lemma attrvalues_found:
  assumes "\<forall>v\<in>set vs. wire_value v"
  shows "attrvalues_from (pre @ concat (map value_bytes vs)) (length pre) (map fv_attr vs) = vs"
  using assms
proof (induction vs arbitrary: pre)
  case (Cons v vs)
  have "read_attr_value (fv_attr v) (pre @ value_bytes v @ concat (map value_bytes vs)) (length pre) =
      Some (v, length pre + length (value_bytes v))"
    using value_found[of v] Cons.prems by (simp add: finds_def)
  moreover have "attrvalues_from ((pre @ value_bytes v) @ concat (map value_bytes vs)) (length (pre @ value_bytes v))
      (map fv_attr vs) = vs"
    by (rule Cons.IH) (use Cons.prems in simp)
  ultimately show ?case
    by simp
qed simp

lemma length_bitmap: "sorted_wrt (<) (map (\<lambda>a. unat (file_attr_num a)) attrs) \<Longrightarrow> length (file_attrs_to_bitmap attrs) \<le> 2"
  using bitmap_of_parts[of "filter (\<lambda>a. unat (file_attr_num a) < 32) attrs" "filter (\<lambda>a. 32 \<le> unat (file_attr_num a)) attrs"]
    sorted_parts[of "\<lambda>a. unat (file_attr_num a)" attrs 32]
  by simp

text \<open>
  C23: A set of attributes is read back from its wire form. Let the values be of attributes the
  decoder knows, each given once and in the order of their numbers, with strings of well-formed
  UTF-8, in less than \<open>2^32\<close> bytes: then the mask and the values that the server writes for a \<open>fattr4\<close>
  decode to the same mask and the same values. The times a client sets are not among the attributes
  the decoder knows.
\<close>

theorem fattr4_roundtrip:
  assumes "sorted_wrt (<) (map (\<lambda>a. unat (file_attr_num a)) (fattr4_attrmask f))"
    and "fattr4_attrmask f = map fv_attr (fattr4_attr_vals f)" and "\<forall>v\<in>set (fattr4_attr_vals f). wire_value v"
    and "length (attr_values_to_bytes (fattr4_attr_vals f)) < 2 ^ 32"
  shows "\<exists>b v. to_xdr (fattr4_serialize f) = Some b \<and> (\<forall>rest. from_xdr fattr_raw_type (b @ rest) = Some (v, rest)) \<and>
    fattr4_deserialize v = Some f"
proof -
  have "typed fattr_raw_type (fattr4_serialize f)"
    using length_bitmap[OF assms(1)] assms(4) by (simp add: fattr_raw_type_def fattr4_serialize_def list_all_iff)
  from typed_codes[OF this] obtain b where b: "to_xdr (fattr4_serialize f) = Some b"
      "\<forall>rest. from_xdr fattr_raw_type (b @ rest) = Some (fattr4_serialize f, rest)"
    by (auto simp: codes_def reads_def)
  have "attrvalues_from_bytes (attr_values_to_bytes (fattr4_attr_vals f)) (fattr4_attrmask f) = fattr4_attr_vals f"
    using attrvalues_found[of "fattr4_attr_vals f" "[]"] assms(2,3)
    by (simp add: attrvalues_from_bytes_def attr_values_to_bytes_def)
  then have "fattr4_deserialize (fattr4_serialize f) = Some f"
    using bitmap_decoded[OF assms(1)]
    by (simp add: fattr4_deserialize_def fattr4_serialize_def comp_def Let_def)
  with b show ?thesis
    by blast
qed

lemma read_attr_value_attr: "read_attr_value a buf off = Some (v, off') \<Longrightarrow> fv_attr v = a \<and> decoded_attr a"
  by (cases a) (auto simp: read_attr_value_def at_map_def at_then_def at_return_def decoded_attr_def split: option.splits)

lemma attrvalues_prefix:
  "\<exists>k. map fv_attr (attrvalues_from buf off attrs) = take k (takeWhile decoded_attr attrs)"
proof (induction buf off attrs rule: attrvalues_from.induct)
  case (2 buf off a attrs)
  show ?case
  proof (cases "off > length buf \<or> read_attr_value a buf off = None")
    case True
    then show ?thesis
      by (auto intro: exI[of _ 0])
  next
    case False
    then obtain v off' where v: "\<not> off > length buf" "read_attr_value a buf off = Some (v, off')"
      by auto
    from 2[OF v] obtain k where "map fv_attr (attrvalues_from buf off' attrs) = take k (takeWhile decoded_attr attrs)"
      by blast
    with v read_attr_value_attr[OF v(2)] show ?thesis
      by (auto intro!: exI[of _ "Suc k"])
  qed
qed simp

text \<open>
  C38: Which attributes of a request are set. The values decoded from a \<open>fattr4\<close>, whatever its bytes,
  belong to an initial part of its mask, and that part ends before the first attribute the decoder
  does not know. In particular a client's time (\<open>TimeAccessSet\<close>, \<open>TimeModifySet\<close>) never reaches
  SETATTR, nor does any attribute that follows it in the mask.
\<close>

theorem decoded_values_are_a_prefix:
  assumes "fattr4_deserialize v = Some f"
  shows "\<exists>k. map fv_attr (fattr4_attr_vals f) = take k (takeWhile decoded_attr (fattr4_attrmask f)) \<and>
    FA_TimeAccessSet \<notin> fv_attr ` set (fattr4_attr_vals f) \<and> FA_TimeModifySet \<notin> fv_attr ` set (fattr4_attr_vals f)"
proof -
  obtain buf where "fattr4_attr_vals f = attrvalues_from buf 0 (fattr4_attrmask f)"
    using assms
    by (auto simp: fattr4_deserialize_def attrvalues_from_bytes_def Let_def split: xdr_value.splits list.splits)
  then obtain k where k: "map fv_attr (fattr4_attr_vals f) = take k (takeWhile decoded_attr (fattr4_attrmask f))"
    using attrvalues_prefix[of buf 0 "fattr4_attrmask f"] by auto
  have "decoded_attr a" if "a \<in> fv_attr ` set (fattr4_attr_vals f)" for a
  proof -
    have "a \<in> set (map fv_attr (fattr4_attr_vals f))"
      using that by simp
    then show ?thesis
      unfolding k by (auto dest: in_set_takeD set_takeWhileD)
  qed
  then have "FA_TimeAccessSet \<notin> fv_attr ` set (fattr4_attr_vals f)" "FA_TimeModifySet \<notin> fv_attr ` set (fattr4_attr_vals f)"
    by (auto simp: decoded_attr_def)
  with k show ?thesis
    by blast
qed

section \<open>Requested masks\<close>

lemma file_attr_of_num_Some: "file_attr_of_num n = Some a \<Longrightarrow> file_attr_num a = n"
  by (auto simp: file_attr_of_num_def find_Some_iff)

lemma map_filter_nums:
  assumes "\<And>n. n \<in> set ns \<Longrightarrow> unat (of_nat (k + n) :: u32) = k + n"
  shows "subseq (map (\<lambda>a. unat (file_attr_num a)) (List.map_filter (\<lambda>n. file_attr_of_num (of_nat (k + n))) ns))
    (map ((+) k) ns)"
  using assms
  by (induction ns) (auto dest!: file_attr_of_num_Some split: option.split intro: list_emb.intros)

lemma segment_attrs_nums:
  assumes "idx < 2 ^ 27"
  shows "subseq (map (\<lambda>a. unat (file_attr_num a)) (segment_attrs idx w)) [idx * 32..<idx * 32 + 32]"
proof -
  have "unat (of_nat (idx * 32 + n) :: u32) = idx * 32 + n" if "n < 32" for n
    using assms that by (simp only: unat_of_nat) (simp add: take_bit_nat_eq_self)
  then have "subseq (map (\<lambda>a. unat (file_attr_num a)) (segment_attrs idx w))
      (map ((+) (idx * 32)) (filter (bit w) [0..<32]))"
    unfolding segment_attrs_def by (intro map_filter_nums) auto
  also have "subseq \<dots> (map ((+) (idx * 32)) [0..<32])"
    by (intro subseq_map subseq_filter_left)
  also have "map ((+) (idx * 32)) [0..<32] = [idx * 32..<32 + idx * 32]"
    by (subst map_add_upt[symmetric]) (rule map_cong, simp_all only: add.commute)
  finally show ?thesis
    by (simp only: add.commute)
qed

lemma attrs_from_u32_nums:
  assumes "i + length raw \<le> 2 ^ 27"
  shows "subseq (map (\<lambda>a. unat (file_attr_num a)) (concat (map (\<lambda>(idx, w). segment_attrs idx w) (enumerate i raw))))
    [i * 32..<(i + length raw) * 32]"
  using assms
proof (induction raw arbitrary: i)
  case (Cons w raw)
  have "[i * 32..<(i + length (w # raw)) * 32] =
      [i * 32..<i * 32 + 32] @ [Suc i * 32..<(Suc i + length raw) * 32]"
    using upt_add_eq_append[of "i * 32" "i * 32 + 32" "length raw * 32"] by (simp add: algebra_simps)
  then show ?case
    using segment_attrs_nums[of i w] Cons.IH[of "Suc i"] Cons.prems by (simp add: list_emb_append_mono)
qed simp

lemma sorted_wrt_subseq: "subseq xs ys \<Longrightarrow> sorted_wrt R ys \<Longrightarrow> sorted_wrt R xs"
  by (induction rule: list_emb.induct) (auto dest: list_emb_set)

text \<open>A requested mask lists its attributes in the order of their numbers, each once.\<close>

lemma attrs_from_u32_sorted:
  assumes "length raw \<le> 2 ^ 27"
  shows "sorted_wrt (<) (map (\<lambda>a. unat (file_attr_num a)) (attrs_from_u32 raw))"
proof (rule sorted_wrt_subseq)
  show "subseq (map (\<lambda>a. unat (file_attr_num a)) (attrs_from_u32 raw)) [0..<length raw * 32]"
    using attrs_from_u32_nums[of 0 raw] assms by (simp add: attrs_from_u32_def)
qed simp

section \<open>Examples\<close>

definition ex_fattr :: fattr4 where
  "ex_fattr = \<lparr>fattr4_attrmask = [FA_Size, FA_Acl, FA_Mode, FA_Owner],
     fattr4_attr_vals = [FV_Size 5, FV_Acl [\<lparr>nfsace4_acetype = 0, nfsace4_flag = 0, nfsace4_access_mask = 3,
       nfsace4_who = ''amy''\<rparr>], FV_Mode 0x1A4, FV_Owner ''bob'']\<rparr>"

lemma ex_wire_text: "wire_text ''bob''" "wire_text ''amy''"
  by (simp_all add: wire_text_def string_bytes_def utf8_tail_def Let_def)

theorem fattr4_roundtrip_witness:
  "\<exists>b v. to_xdr (fattr4_serialize ex_fattr) = Some b \<and> (\<forall>rest. from_xdr fattr_raw_type (b @ rest) = Some (v, rest)) \<and>
    fattr4_deserialize v = Some ex_fattr"
  by (rule fattr4_roundtrip)
    (simp_all add: ex_fattr_def wire_value_def decoded_attr_def ex_wire_text attr_values_to_bytes_def value_bytes_def
      put_list_def put_ace_def put_text_def xdr_pad_def)

text \<open>A mask of \<open>Mode\<close>, \<open>TimeModifySet\<close> and \<open>MountedOnFileid\<close>: only the mode is decoded.\<close>

definition ex_touch :: xdr_value where
  "ex_touch = V_tuple [V_seq [V_u32 0, V_u32 0xC00002], V_bytes ([0, 0, 1, 0xA4, 0, 0, 0, 0] @ replicate 8 7)]"

theorem decoded_values_are_a_prefix_witness:
  "\<exists>f. fattr4_deserialize ex_touch = Some f \<and> fattr4_attrmask f = [FA_Mode, FA_TimeModifySet, FA_MountedOnFileid] \<and>
    fattr4_attr_vals f \<noteq> [] \<and> FA_TimeModifySet \<notin> fv_attr ` set (fattr4_attr_vals f)"
proof -
  have f: "fattr4_deserialize ex_touch = Some \<lparr>fattr4_attrmask = [FA_Mode, FA_TimeModifySet, FA_MountedOnFileid],
      fattr4_attr_vals = [FV_Mode 0x1A4]\<rparr>"
  proof -
    have "file_attrs_to_bitmap [FA_Mode, FA_TimeModifySet, FA_MountedOnFileid] = [0, 0xC00002]"
      by (simp add: file_attrs_to_bitmap_def)
    then have "attrs_from_u32 [0, 0xC00002] = [FA_Mode, FA_TimeModifySet, FA_MountedOnFileid]"
      using bitmap_decoded[of "[FA_Mode, FA_TimeModifySet, FA_MountedOnFileid]"] by simp
    then show ?thesis
      by (simp add: fattr4_deserialize_def ex_touch_def attrvalues_from_bytes_def read_attr_value_def at_map_def
          at_then_def at_u32_def at_return_def from_be_bytes_def Let_def)
  qed
  from decoded_values_are_a_prefix[OF this] f show ?thesis
    by auto
qed

end
