(* ===== verification/OpProps.thy ===== *)
theory OpProps
  imports CompoundSafety AttrCodec
begin

text \<open>
  Properties of single operations: the listing of the pseudo-root, the READDIR cookie verifier,
  CREATE of an existing name, the operations the pseudo-root cannot answer, and the bound of COPY.
\<close>

section \<open>READDIR\<close>

lemma length_filter_enumerate_mod:
  assumes "0 < k"
  shows "length (filter (\<lambda>(i, _). i mod k = 0) (List.enumerate 0 xs)) = (length xs + k - 1) div k"
proof (induction xs rule: rev_induct)
  case Nil
  then show ?case using assms by simp
next
  case (snoc x xs)
  have "(length xs + k) div k = (length xs + k - 1) div k + (if length xs mod k = 0 then 1 else 0)"
  proof (cases "length xs mod k = 0")
    case True
    then obtain q where "length xs = k * q" by (auto simp: dvd_def mod_eq_0_iff_dvd)
    moreover have "(k * q + k - 1) div k = q"
      using assms by (intro div_nat_eqI) auto
    ultimately show ?thesis using assms by simp
  next
    case False
    define q r where "q = length xs div k" and "r = length xs mod k"
    have "length xs = k * q + r" "0 < r" "r < k"
      using False assms by (simp_all add: q_def r_def)
    moreover have "(k * q + r + k) div k = q + 1" "(k * q + r + k - 1) div k = q + 1"
      using \<open>0 < r\<close> \<open>r < k\<close> by (auto intro!: div_nat_eqI)
    ultimately show ?thesis using assms False by simp
  qed
  then show ?case
    using snoc by (simp add: enumerate_append_eq)
qed

lemma length_step_by: "0 < k \<Longrightarrow> length (step_by k xs) = (length xs + k - 1) div k"
  by (simp add: step_by_def length_filter_enumerate_mod)

lemma length_cookie_verifier:
  fixes names
  defines "n \<equiv> length (concat names)"
  shows "length (cookie_verifier names) \<le> 8" and "length (cookie_verifier names) = 8 \<longleftrightarrow> 7 < n div 8 + n mod 8"
proof -
  define q r where "q = n div 8" and "r = n mod 8"
  have n: "n = 8 * q + r" "r < 8"
    by (simp_all add: q_def r_def)
  have len: "length (cookie_verifier names) = (n + q) div (q + 1)"
    by (simp add: cookie_verifier_def Let_def length_step_by n_def[symmetric] q_def)
  have "n + q < 9 * (q + 1)"
    using n by simp
  then have "(n + q) div (q + 1) < 9"
    by (rule less_mult_imp_div_less)
  then show "length (cookie_verifier names) \<le> 8"
    by (simp add: len)
  moreover have "8 \<le> (n + q) div (q + 1) \<longleftrightarrow> 8 * (q + 1) \<le> n + q"
    by (simp add: less_eq_div_iff_mult_less_eq)
  moreover have "8 * (q + 1) \<le> n + q \<longleftrightarrow> 7 < q + r"
    using n by (simp; arith)
  ultimately show "length (cookie_verifier names) = 8 \<longleftrightarrow> 7 < n div 8 + n mod 8"
    unfolding len q_def[symmetric] r_def[symmetric] by linarith
qed

lemma pad_verifier_same: "length v \<le> 8 \<Longrightarrow> v = pad_verifier v \<longleftrightarrow> length v = 8"
  by (auto simp: pad_verifier_def dest: arg_cong[of _ _ length])

text \<open>
  C37: A client that continues a READDIR with the cookie verifier the server gave it is refused
  with NOT\_SAME when the names of the directory are short. The verifier is computed from the
  \<open>n\<close> bytes of the names and compared before it is padded to the 8 bytes that are sent, and it has 8
  bytes itself only if \<open>n div 8 + n mod 8 > 7\<close>: with fewer bytes no verifier the
  server can send is accepted, with more (always from 57 bytes on) the one it sends is.
\<close>

theorem readdir_continuation:
  assumes "\<not> is_pseudo_root rq" and "rq_filehandle rq = Some dir"
    and "vio_read_dir (fh_io E sv dir) (sv_world sv) (fh_file dir) = Some entries"
    and "readdir_collect E (rq_cached_fmanager rq) args
           (map (\<lambda>p. (p, vio_filename (fh_io E sv dir) p)) entries) 0 0 128 sv = Some (Inr (names, fhs), sv')"
    and "readdir4args_cookie args \<noteq> 0" and "readdir4args_cookieverf args = pad_verifier (cookie_verifier names)"
  shows "op_readdir E args rq sv = reply rq None Nfs4errNotSame sv' \<longleftrightarrow>
    length (concat names) div 8 + length (concat names) mod 8 \<le> 7"
proof -
  let ?same = "cookie_verifier names = pad_verifier (cookie_verifier names)"
  have same: "?same \<longleftrightarrow> 7 < length (concat names) div 8 + length (concat names) mod 8"
    using length_cookie_verifier[of names] by (simp add: pad_verifier_same)
  have ok: "\<And>x y. reply rq (readdir_res x y z) Nfs4Ok sv' \<noteq> reply rq None Nfs4errNotSame sv'" for z
    by (simp add: reply_def respond_def)
  have fault: "reply rq None Nfs4errServerfault sv' \<noteq> reply rq None Nfs4errNotSame sv'"
    by (simp add: reply_def respond_def)
  have "op_readdir E args rq sv = reply rq None Nfs4errNotSame sv' \<longleftrightarrow> \<not> ?same"
    using assms ok fault
    by (auto simp: op_readdir_def Let_def with_file_manager_def reply_def split: option.splits)
  then show ?thesis
    using same by linarith
qed

section \<open>The pseudo-root\<close>

lemma filter_concat_map: "filter P (concat (map f xs)) = concat (map (\<lambda>x. filter P (f x)) xs)"
  by (induction xs) simp_all

text \<open>
  The listing of the pseudo-root shows a client exactly the exports that admit its address, in
  the order of the table, and a listing continued from a cookie is the rest of the whole listing:
  no entry is lost or repeated.
\<close>

lemma pseudo_readdir_continues:
  assumes "length (list_exports (sv_exports sv)) < 2 ^ 64 - 3"
  shows "map fst (pseudo_readdir E sv addr req 0) =
      map ei_name (filter (\<lambda>e. case em_objs (sv_exports sv) (ei_export_id e) of
        Some ob \<Rightarrow> check_client (eo_access_control ob) addr | None \<Rightarrow> False) (list_exports (sv_exports sv))) \<and>
    pseudo_readdir E sv addr req c = filter (\<lambda>(_, k, _). c < k) (pseudo_readdir E sv addr req 0)"
proof -
  let ?es = "List.enumerate 0 (list_exports (sv_exports sv))"
  let ?vis = "\<lambda>e. case em_objs (sv_exports sv) (ei_export_id e) of
        Some ob \<Rightarrow> check_client (eo_access_control ob) addr | None \<Rightarrow> False"
  have pos: "(of_nat (i + 3) :: u64) \<noteq> 0" if "(i, e) \<in> set ?es" for i e
  proof -
    have "\<not> (2 ^ 64 :: nat) dvd i + 3"
      using that assms by (intro nat_dvd_not_less) (auto simp: in_set_enumerate_eq)
    then show ?thesis
      by (simp add: word_of_nat_eq_0_iff del: of_nat_add)
  qed
  have all: "pseudo_readdir E sv addr req 0 = concat (map (\<lambda>(i, e). if ?vis e then [(ei_name e, of_nat (i + 3),
      fattr_of (pseudo_export_entry_attrs (os_time (se_pseudo_fs E) (sv_world sv)) req (ei_export_id e)))] else []) ?es)"
    unfolding pseudo_readdir_def using pos by (intro arg_cong[of _ _ concat] map_cong refl) (auto simp: Let_def)
  have "map fst (concat (map (\<lambda>(i, e). if ?vis e then [(ei_name e, g i e)] else []) (List.enumerate k xs))) =
      map ei_name (filter ?vis xs)" for g :: "nat \<Rightarrow> export_info \<Rightarrow> u64 \<times> fattr4" and k xs
    by (induction xs arbitrary: k) simp_all
  moreover have "pseudo_readdir E sv addr req c = filter (\<lambda>(_, k, _). c < k) (pseudo_readdir E sv addr req 0)"
    unfolding all filter_concat_map unfolding pseudo_readdir_def
    by (intro arg_cong[of _ _ concat] map_cong refl) (auto simp: Let_def)
  ultimately show ?thesis
    unfolding all by simp
qed

lemma fh_fs_pseudo_root [simp]: "fh_fs E sv (pseudo_root_filehandle fs w pseudo_root_fh) = se_pseudo_fs E"
  by (simp add: fh_fs_def fh_export_root_def pseudo_root_filehandle_def Let_def pseudo_root_fh_def is_pseudo_root_fh_def)

text \<open>
  C40: An operation that needs a file manager brings the connection's task down when the
  current filehandle is the pseudo-root: with no export or several, \<open>PUTROOTFH; REMOVE\<close> of any name
  ends in the \<open>expect\<close> of \<open>request.file_manager()\<close>, although every check before it is passed.
\<close>

theorem remove_at_pseudo_root_panics:
  assumes "length (list_exports (sv_exports sv)) \<noteq> 1" and "rq_objs rq = None" and "rq_sec_flavor rq = Sys"
    and "\<not> rq_read_only rq" and "\<not> sv_in_grace sv"
    and "vfs_join (se_pseudo_fs E) (fh_file (pseudo_root_filehandle (se_pseudo_fs E) (sv_world sv) pseudo_root_fh))
           (remove4args_target args) \<noteq> None"
  shows "compound_ops E [A_Opputrootfh (), A_Opremove args] rq sv = None"
proof -
  let ?rq = "enter_pseudo_root E sv pseudo_root_fh rq"
  have at_root: "rq_current_export_id ?rq = Some PSEUDO_ROOT_EXPORT_ID" "rq_cached_fmanager ?rq = None"
    "rq_objs ?rq = None" "\<not> rq_read_only ?rq" "rq_sec_flavor ?rq = Sys"
    "rq_filehandle ?rq = Some (pseudo_root_filehandle (se_pseudo_fs E) (sv_world sv) pseudo_root_fh)"
    using assms(3) by (simp_all add: enter_pseudo_root_def set_export_def set_filehandle_def Let_def)
  have "put_root_filehandle E rq sv = reply ?rq putrootfh_ok Nfs4Ok sv"
    using assms(1) by (auto simp: put_root_filehandle_def split: list.split)
  then have "execute_op E (A_Opputrootfh ()) n rq sv = Some (respond ?rq putrootfh_ok Nfs4Ok, sv)" for n
    using at_root by (simp add: execute_op_def run_op_def reply_def creates_object_def enforce_clients_def enforce_sec_def
        check_client_access_def sec_allowed_def rq_access_control_def rq_objects_def count_op_def rq_update_objs_def
        respond_def Let_def)
  moreover have "op_remove E args ?rq sv = None"
    using assms(6) at_root
    by (auto simp: op_remove_def with_file_manager_def)
  moreover have "refusal E (A_Opputrootfh ()) rq sv = None" "refusal E (A_Opremove args) ?rq sv = None"
    using assms(2-5) at_root
    by (auto simp: refusal_def sec_allowed_def rq_access_control_def rq_objects_def check_op_def check_op_on_def
        is_pseudo_root_def is_mutating_def grace_denied_def split: option.split)
  ultimately show ?thesis
    using assms(2) at_root
    by (simp add: rate_limited_def rq_objects_def putrootfh_ok_def execute_op_def[of _ "A_Opremove args"] run_op_def)
qed

section \<open>CREATE\<close>

text \<open>
  CREATE of a directory does not look at whether the directory was created: when the name exists,
  \<open>create_dir\<close> fails, and the operation still succeeds with the handle of what is there.
\<close>

lemma create_existing_succeeds:
  assumes "rq_filehandle rq = Some fh" and "rq_cached_fmanager rq = Some h" and "create4args_objname args \<noteq> []"
    and "rq_quota_ok sv rq 0" and "create4args_objtype args = CT_Nf4dir"
    and "vfs_join (fh_fs E sv fh) (create_dir_of E sv fh) (create4args_objname args) = Some new"
    and "vfs_create_dir (fh_fs E sv fh) (sv_world sv) new = (False, w)"
    and "get_filehandle_for_path E h new (fmh_touch_file E h (fh_id fh) (sv\<lparr>sv_world := w\<rparr>)) = (Inr old, sv')"
  shows "\<exists>resp. op_create E args rq sv = Some (resp, sv') \<and> rs_status resp = Nfs4Ok \<and>
    rs_request resp = set_filehandle old rq"
  using assms by (simp add: op_create_def create_finish_def with_file_manager_def reply_def Let_def)

section \<open>COPY\<close>

lemma copy_loop_within:
  assumes "\<forall>w p off n b. vio_read sio w p off n = Some b \<longrightarrow> length b \<le> n"
    and "copy_loop sio spath soff dio dpath doff copy_count copied w = (Some m, w')"
    and "copied \<le> copy_count"
  shows "copied \<le> m \<and> m \<le> copy_count"
  using assms
proof (induction sio spath soff dio dpath doff copy_count copied w rule: copy_loop.induct)
  case (1 sio spath soff dio dpath doff copy_count copied w)
  note loop = 1(3)[unfolded copy_loop.simps[of sio spath soff dio dpath doff copy_count copied w]]
  show ?case
  proof (cases "copy_count \<le> copied")
    case True
    then show ?thesis
      using loop 1(4) by simp
  next
    case False
    let ?n = "min (copy_count - copied) COPY_CHUNK"
    obtain buf where buf: "vio_read sio w spath (soff + of_nat copied) ?n = Some buf"
      using loop False by (auto simp: Let_def split: option.splits)
    then have len: "length buf \<le> copy_count - copied"
      using 1(2) by fastforce
    then have more: "copied + length buf \<le> copy_count"
      using False by simp
    show ?thesis
    proof (cases "buf = []")
      case True
      then show ?thesis
        using loop False buf 1(4) by (simp add: Let_def)
    next
      case buf': False
      then obtain w1 where w1: "vio_write_all dio w dpath (doff + of_nat copied) buf = (True, w1)"
        using loop False buf by (auto simp: Let_def split: prod.splits bool.splits)
      then have "copy_loop sio spath soff dio dpath doff copy_count (copied + length buf) w1 = (Some m, w')"
        using loop False buf buf' by (simp add: Let_def)
      then show ?thesis
        using 1(1)[OF False refl buf buf' w1[symmetric] refl 1(2)] more by simp
    qed
  qed
qed

section \<open>GETATTR\<close>

text \<open>
  C24: The attributes a GETATTR returns can be told apart by the client. Whatever bitmap the client
  asked for, the bitmap of the reply decodes to exactly the attributes that were answered, all of
  them requested, and the values follow in the order of that bitmap.
\<close>

theorem getattr_reply_decodes:
  assumes "length raw \<le> 2 ^ 27"
    and "fmh_filehandle_attrs E h (attrs_from_u32 raw) fh quota sv = Some (attrs, vals)"
  shows "attrs_from_u32 (file_attrs_to_bitmap attrs) = attrs \<and> map fv_attr vals = attrs \<and>
    set attrs \<subseteq> set (attrs_from_u32 raw)"
proof -
  obtain f where f: "answer_attrs f (attrs_from_u32 raw) = (attrs, vals)" "\<And>a v. f a = Some v \<Longrightarrow> fv_attr v = a"
    using assms(2) handle_attr_value_attr by (fastforce simp: fmh_filehandle_attrs_def Let_def)
  then have attrs: "attrs = filter (\<lambda>a. f a \<noteq> None) (attrs_from_u32 raw)"
    using answer_attrs_mask[of f "attrs_from_u32 raw"] by simp
  then have "sorted_wrt (<) (map (\<lambda>a. unat (file_attr_num a)) attrs)"
    using attrs_from_u32_sorted[OF assms(1)] by (simp add: sorted_wrt_map sorted_wrt_filter)
  then have "attrs_from_u32 (file_attrs_to_bitmap attrs) = attrs"
    by (rule bitmap_decoded)
  moreover have "map fv_attr vals = attrs"
    using answer_attrs_attr[of f "attrs_from_u32 raw", OF f(2)] f(1) by simp
  ultimately show ?thesis
    using attrs by auto
qed

section \<open>Examples\<close>

definition ex_readdir :: readdir4args where
  "ex_readdir = \<lparr>readdir4args_cookie = 3, readdir4args_cookieverf = replicate 8 0, readdir4args_dircount = 0,
     readdir4args_maxcount = 0, readdir4args_attr_request = []\<rparr>"

definition ex_dir_request :: nfs_request where
  "ex_dir_request = ex_request\<lparr>rq_filehandle := Some (ex_export_handle\<lparr>fh_file := []\<rparr>)\<rparr>"

theorem readdir_continuation_witness:
  "op_readdir ex_env ex_readdir ex_dir_request ex_server = reply ex_dir_request None Nfs4errNotSame ex_server"
proof -
  have io: "fh_io ex_env ex_server fh = mem_io" for fh
    by (simp add: fh_io_def ex_env_def split: option.split)
  have dir: "vio_read_dir mem_io (sv_world ex_server) [] = Some []"
    by (simp add: mem_io_def ex_server_simps mem_fs_simps)
  have "op_readdir ex_env ex_readdir ex_dir_request ex_server = reply ex_dir_request None Nfs4errNotSame ex_server
      \<longleftrightarrow> length (concat ([] :: string list)) div 8 + length (concat ([] :: string list)) mod 8 \<le> 7"
    by (rule readdir_continuation[where dir = "ex_export_handle\<lparr>fh_file := []\<rparr>" and entries = "[]" and fhs = "[]"])
      (simp_all add: ex_dir_request_def ex_readdir_def io dir ex_request_def pad_verifier_def
        cookie_verifier_def step_by_def request_new_def is_pseudo_root_def PSEUDO_ROOT_EXPORT_ID_def)
  then show ?thesis by simp
qed

lemma pseudo_readdir_continues_example:
  "map fst (pseudo_readdir ex_env (ex_site Sys) ''10.0.0.1:700'' [] 0) = [''data''] \<and>
   pseudo_readdir ex_env (ex_site Sys) ''10.0.0.1:700'' [] 3 = []"
proof -
  have es: "list_exports (sv_exports (ex_site Sys)) =
      [\<lparr>ei_export_id = 1, ei_name = ''data'', ei_path = ''/'', ei_read_only = False\<rparr>]"
    by (simp add: ex_site_def ex_server_def ex_em1_def em_handle_message_def add_export_def mem_export_env_def
      export_manager_new_def list_exports_def Let_def)
  then have "length (list_exports (sv_exports (ex_site Sys))) < 2 ^ 64 - 3" by simp
  from pseudo_readdir_continues[OF this, of ex_env "''10.0.0.1:700''" "[]" 3]
  show ?thesis
    by (simp add: es ex_call_export ex_objects_access)
      (simp add: pseudo_readdir_def es ex_call_export ex_objects_access Let_def)
qed

definition ex_two_exports :: "(filehandle list, locking_state list) export_manager" where
  "ex_two_exports = snd (em_handle_message mem_export_env list_fh_db list_lock_db mem_empty ex_em1
     (AddExport ''other'' ''/'' False))"

theorem remove_at_pseudo_root_panics_witness:
  "compound_ops ex_env [A_Opputrootfh (), A_Opremove \<lparr>remove4args_target = ''data''\<rparr>] ex_request
     (ex_server\<lparr>sv_exports := ex_two_exports\<rparr>) = None"
  by (rule remove_at_pseudo_root_panics)
    (simp_all add: ex_server_simps request_new_def mem_fs_def ex_two_exports_def ex_em1_def em_handle_message_def
      add_export_def export_manager_new_def list_exports_def Let_def)

theorem getattr_reply_decodes_witness:
  "\<exists>vals. fmh_filehandle_attrs ex_env \<lparr>fmh_export = 1, fmh_export_root = ''/''\<rparr> (attrs_from_u32 [0x2000018]) ex_handle None
      ex_server = Some ([FA_Change, FA_Size], vals) \<and> map fv_attr vals = [FA_Change, FA_Size]"
proof -
  have "file_attrs_to_bitmap [FA_Change, FA_Size, FA_Hidden] = [0x2000018]"
    by (simp add: file_attrs_to_bitmap_def)
  then have "attrs_from_u32 [0x2000018] = [FA_Change, FA_Size, FA_Hidden]"
    using bitmap_decoded[of "[FA_Change, FA_Size, FA_Hidden]"] by simp
  then obtain vals where run: "fmh_filehandle_attrs ex_env \<lparr>fmh_export = 1, fmh_export_root = ''/''\<rparr>
      (attrs_from_u32 [0x2000018]) ex_handle None ex_server = Some ([FA_Change, FA_Size], vals)"
    by (simp add: fmh_filehandle_attrs_def handle_attr_value_def Let_def)
  from getattr_reply_decodes[OF _ run] run show ?thesis
    by simp
qed

end
