(* ===== verification/Krb5Laws.thy ===== *)
theory Krb5Laws
  imports Krb5Crypto
begin

text \<open>
  What the Kerberos encryption types promise: decryption undoes encryption for every encryption
  type, key and message, and n-fold computes the ones' complement sum of RFC 3961.
\<close>

section \<open>Blocks\<close>

lemma length_xor16 [simp]: "length (xor16 a b) = length a"
  by (induction a b rule: xor16.induct) simp_all

lemma xor16_cancel: "length b \<le> length a \<Longrightarrow> take (length b) (xor16 (xor16 a b) a) = b"
proof (induction a b rule: xor16.induct)
  case (1 x xs y ys)
  have "(x XOR y) XOR x = y" by (rule bit_eqI) (auto simp: bit_xor_iff)
  with 1 show ?case by simp
qed simp_all

lemma xor16_drop: "drop (length b) (xor16 a b) = drop (length b) a"
  by (induction a b rule: xor16.induct) simp_all

lemma xor16_cancel_full: "length b = length a \<Longrightarrow> xor16 (xor16 a b) a = b"
  using xor16_cancel [of b a] by simp

lemma xor16_zero: "length b = n \<Longrightarrow> xor16 (replicate n 0) b = b"
  by (induction b arbitrary: n) auto

lemma chunks16_short: "bs \<noteq> [] \<Longrightarrow> length bs \<le> 16 \<Longrightarrow> chunks16 bs = [bs]"
  by (subst chunks16.simps) (simp add: chunks16.simps [of "[]"])

lemma chunks16_append: "length b = 16 \<Longrightarrow> chunks16 (b @ bs) = b # chunks16 bs"
proof -
  assume b: "length b = 16"
  then have "b @ bs \<noteq> []" by auto
  with b show ?thesis by (subst chunks16.simps) simp
qed

lemma chunks16_concat:
  "\<forall>b \<in> set cs. length b = 16 \<Longrightarrow> chunks16 (concat cs @ bs) = cs @ chunks16 bs"
  by (induction cs) (simp_all add: chunks16_append)

lemma length_concat16: "\<forall>b \<in> set cs. length b = 16 \<Longrightarrow> length (concat cs) = 16 * length cs"
  by (induction cs) simp_all

text \<open>Every input of two blocks or more is full blocks, one more full block and a non-empty tail.\<close>

lemma split_blocks:
  assumes "16 < length input"
  obtains cs c' c where "input = concat cs @ c' @ c" "\<forall>b \<in> set cs. length b = 16"
    "length c' = 16" "c \<noteq> []" "length c \<le> 16"
  using assms
proof (induction "length input" arbitrary: input thesis rule: less_induct)
  case less
  show ?case
  proof (cases "length input \<le> 32")
    case True
    with less.prems(2) show ?thesis
      by (intro less.prems(1) [of "[]" "take 16 input" "drop 16 input"]) simp_all
  next
    case False
    then have "length (drop 16 input) < length input" "16 < length (drop 16 input)" by simp_all
    from less.hyps [OF this(1) _ this(2)] obtain cs c' c where
      d: "drop 16 input = concat cs @ c' @ c" "\<forall>b \<in> set cs. length b = 16"
         "length c' = 16" "c \<noteq> []" "length c \<le> 16" by blast
    then have "input = concat (take 16 input # cs) @ c' @ c"
      using append_take_drop_id [of 16 input] by simp
    with d False show ?thesis by (intro less.prems(1) [of "take 16 input # cs" c' c]) simp_all
  qed
qed

section \<open>Cipher block chaining\<close>

lemma length_cbc_encrypt [simp]: "length (cbc_encrypt enc prev cs) = length cs"
  by (induction cs arbitrary: prev) (simp_all add: Let_def)

lemma cbc_encrypt_append:
  "cbc_encrypt enc prev (cs @ ds) =
    cbc_encrypt enc prev cs @ cbc_encrypt enc (last (prev # cbc_encrypt enc prev cs)) ds"
  by (induction cs arbitrary: prev) (simp_all add: Let_def)

lemma cbc_encrypt_blocks:
  "(\<And>b. length (enc b) = 16) \<Longrightarrow> \<forall>b \<in> set (cbc_encrypt enc prev cs). length b = 16"
  by (induction cs arbitrary: prev) (simp_all add: Let_def)

lemma cbc_decrypt_encrypt:
  assumes "\<And>b. length b = 16 \<Longrightarrow> dec (enc b) = b"
    and "length prev = 16" "\<forall>b \<in> set cs. length b = 16" "\<And>b. length (enc b) = 16"
  shows "cbc_decrypt dec prev (cbc_encrypt enc prev cs) =
    (concat cs, last (prev # cbc_encrypt enc prev cs))"
  using assms(2,3)
proof (induction cs arbitrary: prev)
  case (Cons c cs)
  then show ?case using assms(1) [of "xor16 prev c"] assms(4) [of "xor16 prev c"]
    by (simp add: Let_def xor16_cancel_full)
qed simp

lemma aes_decrypt_encrypt:
  assumes "crypto_laws P" "aes_key_new key = Inr aes" "length b = 16"
  shows "aes_decrypt P aes (aes_encrypt P aes b) = b"
  using assms
  by (auto simp: crypto_laws_def aes_key_new_def aes_encrypt_def aes_decrypt_def block16_id split: if_splits)

lemma length_aes_encrypt [simp]: "length (aes_encrypt P aes b) = 16"
  by (simp add: aes_encrypt_def)

lemma length_aes_decrypt [simp]: "length (aes_decrypt P aes b) = 16"
  by (simp add: aes_decrypt_def)

lemma div_ceil_blocks: "0 < k \<Longrightarrow> k \<le> 16 \<Longrightarrow> div_ceil (16 * m + k) 16 = Suc m"
proof -
  assume "0 < k" "k \<le> 16"
  then show ?thesis unfolding div_ceil_def by presburger
qed

lemma cts_single:
  assumes "crypto_laws P" "aes_key_new key = Inr aes" "length input = 16"
  shows "\<exists>out. cts_encrypt P key input = Inr out \<and> length out = 16 \<and> cts_decrypt P key out = Inr input"
proof -
  have "div_ceil 16 16 = 1" using div_ceil_blocks [of 16 0] by simp
  moreover have "chunks16 input = [input]" using assms(3) by (intro chunks16_short) auto
  ultimately show ?thesis
    using assms(2,3) aes_decrypt_encrypt [OF assms(1,2), of input]
    by (simp add: cts_encrypt_def cts_decrypt_def Let_def xor16_zero split_beta)
qed

lemma cts_many:
  assumes "crypto_laws P" "aes_key_new key = Inr aes" "16 < length input"
  shows "\<exists>out. cts_encrypt P key input = Inr out \<and> length out = length input \<and>
    cts_decrypt P key out = Inr input"
proof -
  obtain cs c' c where i: "input = concat cs @ c' @ c" and cs: "\<forall>b \<in> set cs. length b = 16"
    and c': "length c' = 16" and c: "c \<noteq> []" "length c \<le> 16"
    using split_blocks [OF assms(3)] by metis
  let ?E = "aes_encrypt P aes" and ?D = "aes_decrypt P aes" and ?z = "replicate 16 (0 :: u8)"
  let ?B = "cbc_encrypt ?E ?z cs"
  let ?prev = "last (?z # ?B)"
  let ?b' = "?E (xor16 ?prev c')"
  let ?b = "?E (xor16 ?b' c)"
  let ?m = "length cs" and ?l = "length c"
  have DE: "length b = 16 \<Longrightarrow> ?D (?E b) = b" for b by (rule aes_decrypt_encrypt [OF assms(1,2)])
  have B: "\<forall>b \<in> set ?B. length b = 16" by (rule cbc_encrypt_blocks) simp
  then have prev: "length ?prev = 16" by (metis last_in_set length_replicate last.simps list.discI)
  have n: "div_ceil (16 * ?m + 16 + ?l) 16 = ?m + 2"
    using div_ceil_blocks [of ?l "Suc ?m"] c by (simp add: algebra_simps)
  have len: "length input = 16 * ?m + 16 + ?l" using i cs c' by (simp add: length_concat16)
  have chunks: "chunks16 input = cs @ [c', c]"
    using i cs c' c by (simp add: chunks16_concat chunks16_append chunks16_short)
  have "cbc_encrypt ?E ?z (chunks16 input) = ?B @ [?b', ?b]"
    by (simp only: chunks cbc_encrypt_append cbc_encrypt.simps Let_def)
  then have out: "cts_encrypt P key input = Inr (concat ?B @ ?b @ take ?l ?b')"
    using assms(2,3) by (simp add: cts_encrypt_def len n nth_append)
  let ?out = "concat ?B @ ?b @ take ?l ?b'"
  have lout: "length ?out = 16 * ?m + 16 + ?l" using B c(2) by (simp add: length_concat16)
  have "take ?l e \<noteq> []" "length (take ?l e) \<le> 16" if "length e = 16" for e :: bytes
    using c that by auto
  from chunks16_short [OF this] have "chunks16 (take ?l ?b') = [take ?l ?b']" by simp
  then have "chunks16 ?out = ?B @ [?b, take ?l ?b']"
    by (simp only: chunks16_concat [OF B] chunks16_append [OF length_aes_encrypt])
  then have "cbc_decrypt ?D ?z (take ?m (chunks16 ?out)) = (concat cs, ?prev)"
    using cbc_decrypt_encrypt [of ?D ?E ?z cs] DE cs by simp
  moreover have "take 16 (drop (16 * ?m) ?out) = ?b" "drop (16 * ?m + 16) ?out = take ?l ?b'"
    using B by (simp_all add: length_concat16)
  moreover have "?D ?b = xor16 ?b' c" by (intro DE) simp
  moreover have "take ?l ?b' @ drop ?l (xor16 ?b' c) = ?b'" by (simp add: xor16_drop)
  moreover have "take ?l (xor16 (xor16 ?b' c) ?b') = c" using c(2) by (intro xor16_cancel) simp
  moreover have "xor16 (?D ?b') ?prev = c'"
    using DE [of "xor16 ?prev c'"] prev c' xor16_cancel_full [of c' ?prev] by simp
  ultimately have "cts_decrypt P key ?out = Inr (concat cs @ c' @ c)"
    unfolding cts_decrypt_def lout n Let_def using assms(2) by simp
  with out i lout len show ?thesis by auto
qed

lemma cts_decrypt_encrypt:
  assumes "crypto_laws P" "aes_key_new key = Inr aes" "16 \<le> length input"
  shows "\<exists>out. cts_encrypt P key input = Inr out \<and> length out = length input \<and>
    cts_decrypt P key out = Inr input"
  using cts_single [OF assms(1,2), of input] cts_many [OF assms(1,2), of input] assms(3)
  by (cases "length input = 16") auto

section \<open>Decryption undoes encryption\<close>

lemma ct_eq_iff [simp]: "ct_eq a b \<longleftrightarrow> a = b"
proof -
  have "foldl (\<lambda>d (x, y). d OR (x XOR y)) d (zip a b) = 0 \<longleftrightarrow> d = 0 \<and> a = b"
    if "length a = length b" for d :: u8
    using that
  proof (induction a b arbitrary: d rule: list_induct2)
    case (Cons x xs y ys)
    have "x XOR y = 0 \<longleftrightarrow> x = y" by (auto simp: bit_eq_iff bit_xor_iff)
    moreover have "u OR v = 0 \<longleftrightarrow> u = 0 \<and> v = 0" for u v :: u8
      by (auto simp: bit_eq_iff bit_or_iff)
    ultimately show ?case using Cons by auto
  qed simp
  then show ?thesis by (auto simp: ct_eq_def)
qed

lemma hmac_len_le: "crypto_laws P \<Longrightarrow> hmac_len e \<le> length (hmac P e k parts)"
  by (cases e) (simp_all add: crypto_laws_def hmac_def hmac_len_def)

lemma dk_loop_length: "n \<le> length (dk_loop enc n block out)"
  by (induction enc n block out rule: dk_loop.induct) (subst dk_loop.simps, simp add: Let_def)

lemma length_kdf:
  "crypto_laws P \<Longrightarrow> is_rfc8009 e \<Longrightarrow> length (kdf_hmac_sha2 P e k l (of_nat (key_len e * 8))) = key_len e"
  by (cases e) (simp_all add: is_rfc8009_def kdf_hmac_sha2_def key_len_def hmac_def crypto_laws_def)

lemma derive_enc_key:
  assumes "crypto_laws P" "length base = key_len e"
  obtains ke aes where "derive P e base usage 0xAA = Inr ke" "aes_key_new ke = Inr aes"
proof -
  have "\<exists>aes. aes_key_new k = Inr aes" if "length k = key_len e" for k
    using that by (cases e) (simp_all add: aes_key_new_def key_len_def)
  moreover have "\<exists>ke. derive P e base usage 0xAA = Inr ke \<and> length ke = key_len e"
    using assms length_kdf [OF assms(1)] \<open>\<And>k. length k = key_len e \<Longrightarrow> \<exists>aes. aes_key_new k = Inr aes\<close> [of base]
    by (auto simp: derive_def dk_def Let_def min_absorb2 dk_loop_length)
  ultimately show ?thesis using that by blast
qed

lemma derive_mac_key:
  assumes "length base = key_len e"
  obtains ki where "derive P e base usage tag = Inr ki"
proof -
  have "\<exists>aes. aes_key_new base = Inr aes"
    using assms by (cases e) (simp_all add: aes_key_new_def key_len_def)
  then have "\<exists>ki. derive P e base usage tag = Inr ki" using assms by (auto simp: derive_def dk_def Let_def)
  then show ?thesis using that by blast
qed

text \<open>
  Decryption undoes encryption. For each of the four encryption types, every key of its length
  and every 16-byte confounder, encryption succeeds, the ciphertext is the confounder, the message
  and the truncated HMAC long, and decrypting it under the same key and usage gives the message
  back.
\<close>

lemma decrypt_encrypt:
  assumes "crypto_laws P" "length base = key_len e" "length conf = 16"
  shows "\<exists>c. encrypt P (Some conf) e base usage plain = Inr c \<and>
    length c = 16 + length plain + hmac_len e \<and> decrypt P e base usage c = Inr plain"
proof -
  obtain ke aes where ke: "derive P e base usage 0xAA = Inr ke" "aes_key_new ke = Inr aes"
    by (rule derive_enc_key [OF assms(1,2)])
  obtain ki where ki: "derive P e base usage 0x55 = Inr ki" by (rule derive_mac_key [OF assms(2)])
  obtain out where out: "cts_encrypt P ke (conf @ plain) = Inr out" "length out = 16 + length plain"
      "cts_decrypt P ke out = Inr (conf @ plain)"
    using cts_decrypt_encrypt [OF assms(1) ke(2), of "conf @ plain"] assms(3) by auto
  let ?mac = "hmac P e ki (if is_rfc8009 e then [replicate 16 0, out] else [conf @ plain])"
  have "encrypt P (Some conf) e base usage plain = Inr (out @ take (hmac_len e) ?mac)"
    by (simp add: encrypt_def encrypt_with_confounder_def ke ki out Let_def)
  moreover have "length (take (hmac_len e) ?mac) = hmac_len e"
    using hmac_len_le [OF assms(1), of e] by (simp add: min_absorb2)
  moreover from this have "decrypt P e base usage (out @ take (hmac_len e) ?mac) = Inr plain"
    using assms(3) by (simp add: decrypt_def ke ki out Let_def)
  ultimately show ?thesis using out(2) by auto
qed

text \<open>Primitives with these laws exist: a block cipher that adds the key, and constant digests.\<close>

definition xor_prims :: crypto_prims where
  "xor_prims = \<lparr>aes128_encrypt_block = (\<lambda>k b. xor16 b k), aes128_decrypt_block = (\<lambda>k b. xor16 b k),
     aes256_encrypt_block = (\<lambda>k b. xor16 b k), aes256_decrypt_block = (\<lambda>k b. xor16 b k),
     prim_hmac_sha1 = (\<lambda>k m. replicate 20 0), prim_hmac_sha256 = (\<lambda>k m. replicate 32 0),
     prim_hmac_sha384 = (\<lambda>k m. replicate 48 0), prim_pbkdf2 = (\<lambda>e p s i n. Inr (replicate n 0))\<rparr>"

lemma xor16_twice: "xor16 (xor16 a k) k = a"
proof (induction a k rule: xor16.induct)
  case (1 x xs y ys)
  have "(x XOR y) XOR y = x" by (rule bit_eqI) (auto simp: bit_xor_iff)
  with 1 show ?case by simp
qed simp_all

lemma xor_prims_laws: "crypto_laws xor_prims"
  by (simp add: crypto_laws_def xor_prims_def xor16_twice)

lemma decrypt_encrypt_example:
  "\<exists>c. encrypt xor_prims (Some (replicate 16 7)) Aes256CtsHmacSha1_96 (replicate 32 1) 22 [1, 2, 3] = Inr c \<and>
    length c = 31 \<and> decrypt xor_prims Aes256CtsHmacSha1_96 (replicate 32 1) 22 c = Inr [1, 2, 3]"
  using decrypt_encrypt [OF xor_prims_laws, of "replicate 32 1" Aes256CtsHmacSha1_96 "replicate 16 7" 22 "[1, 2, 3]"]
  by (simp add: key_len_def hmac_len_def)

section \<open>n-fold\<close>

lemma gcd_usize_gcd: "gcd_usize a b = gcd a b"
  by (induction a b rule: gcd_usize.induct) (subst gcd_usize.simps, simp add: gcd_red_nat [symmetric])

lemma length_fold_acc [simp]: "length (fold_acc input m n) = m"
  by (induction n) (simp_all add: fold_acc_def)

lemma unat_byte: "unat (b :: u8) \<le> 255" "unat (ucast b :: u32) = unat b"
  using unsigned_less [of b, where ?'a = nat] by (simp_all add: unsigned_ucast_eq take_bit_nat_eq_self)

text \<open>As long as it stays below \<open>2^32\<close> the accumulators hold the exact sums.\<close>

lemma fold_acc_exact:
  assumes "0 < m" and "255 * n < 2 ^ 32"
  shows "fold_sum (fold_acc input m n) \<le> 255 * n \<and>
    fold_value (fold_acc input m n) = (\<Sum>i<n. unat (byte_at input i) * 256 ^ (m - 1 - i mod m))"
  using assms(2)
proof (induction n)
  case 0
  have "acc_value (replicate m 0) = 0" by (induction m) simp_all
  then show ?case by (simp add: fold_acc_def sum_list_replicate)
next
  case (Suc n)
  let ?acc = "fold_acc input m n" and ?j = "n mod m" and ?b = "byte_at input n"
  have j: "?j < m" using assms(1) by simp
  have IH: "fold_sum ?acc \<le> 255 * n"
      "fold_value ?acc = (\<Sum>i<n. unat (byte_at input i) * 256 ^ (m - 1 - i mod m))"
    using Suc by simp_all
  have le: "unat (?acc ! ?j) \<le> fold_sum ?acc"
    using elem_le_sum_list [of ?j "map unat ?acc"] j by simp
  then have "unat (?acc ! ?j + ucast ?b) = unat (?acc ! ?j) + unat ?b"
    using IH(1) unat_byte [of ?b] Suc.prems by (subst unat_add_exact) simp_all
  then have step: "map unat (fold_acc input m (Suc n)) = (map unat ?acc)[?j := map unat ?acc ! ?j + unat ?b]"
    using j by (simp add: fold_acc_def [of _ _ "Suc n"] fold_acc_def [symmetric] map_update)
  show ?case
    unfolding step
    using acc_value_add [of ?j "map unat ?acc" "unat ?b"] IH le j unat_byte(1) [of ?b] by (simp add: sum_list_update)
qed

text \<open>Adding the carry back at the end changes the value by a multiple of \<open>256 ^ n - 1\<close>.\<close>

lemma carry_loop_value:
  assumes "fold_sum as < 2 ^ 32"
  shows "length (carry_loop as) = length as \<and> (\<forall>a \<in> set (carry_loop as). unat a < 256) \<and>
    fold_value (carry_loop as) mod (256 ^ length as - 1) = fold_value as mod (256 ^ length as - 1) \<and>
    (fold_value (carry_loop as) = 0 \<longleftrightarrow> fold_value as = 0)"
  using assms
proof (induction as rule: carry_loop.induct)
  case (1 as)
  define as' c where "as' = fst (carry_pass as)" and "c = snd (carry_pass as)"
  then have p: "carry_pass as = (as', c)" by simp
  have e: "fold_value as' + unat c * 256 ^ length as = fold_value as" "fold_sum as' + unat c \<le> fold_sum as"
    using carry_pass_exact [OF 1(2)] p by simp_all
  show ?case
  proof (cases "c = 0")
    case True
    then show ?thesis
      using e carry_pass_small(2) [of as] length_carry_pass [of as] p by (simp add: carry_loop.simps [of as])
  next
    case False
    from False p have "as \<noteq> []" by auto
    note r = end_around_value [OF p this]
    have "fold_value as = fold_value (end_around as' c) + unat c * (256 ^ length as - 1)"
      using e(1) r(1) by (simp add: diff_mult_distrib2)
    moreover have "fold_value (end_around as' c) = 0 \<longleftrightarrow> fold_value as = 0"
      using e(1) r(1) by auto
    moreover have "fold_sum (end_around as' c) < 2 ^ 32" using r(2) e(2) 1(2) by simp
    moreover have "carry_loop as = carry_loop (end_around as' c)" by (simp add: carry_loop.simps [of as] p False)
    ultimately show ?thesis using 1(1) [OF p [symmetric] refl False] r(3) by simp
  qed
qed

lemma from_be_nat_map: "\<forall>a \<in> set as. unat a < 256 \<Longrightarrow> from_be_nat (map ucast as) = fold_value as" for as :: "u32 list"
  by (induction as) (simp_all add: unsigned_ucast_eq take_bit_nat_eq_self)

lemma acc_value_bound: "\<forall>a \<in> set as. a < 256 \<Longrightarrow> acc_value as < 256 ^ length as"
proof (induction as)
  case (Cons a as)
  then have "acc_value (a # as) < (a + 1) * 256 ^ length as" by simp
  also have "\<dots> \<le> 256 * 256 ^ length as" using Cons.prems by (intro mult_right_mono) auto
  finally show ?case by simp
qed simp

text \<open>Ones' complement representation: zero only for zero, else between 1 and the modulus.\<close>

lemma ones_complement_unique:
  fixes r s m :: nat
  assumes "r mod m = s mod m" "r = 0 \<longleftrightarrow> s = 0" "r \<le> m" "0 < m"
  shows "r = (if s = 0 then 0 else (s - 1) mod m + 1)"
proof (cases "s = 0")
  case False
  with assms(2) have "0 < r" "0 < s" by auto
  then have "int m dvd int (r - 1) - int (s - 1)"
    using assms(1) by (simp add: of_nat_diff mod_eq_dvd_iff [symmetric] zmod_int [symmetric])
  then have "(r - 1) mod m = (s - 1) mod m" by (simp add: mod_eq_dvd_iff [symmetric] zmod_int [symmetric])
  moreover have "r - 1 < m" using assms(3) \<open>0 < r\<close> by simp
  ultimately show ?thesis using False \<open>0 < r\<close> by simp
qed (use assms(2) in simp)

section \<open>n-fold as RFC 3961 describes it\<close>

text \<open>
  The specification works on bits, most significant first: the copies of the input, the \<open>k\<close>-th one
  rotated to the right by \<open>13 * k\<close> bits, are put one after the other until both lengths divide the
  length, and the blocks of \<open>n\<close> bytes are added.
\<close>

definition byte_bits :: "u8 \<Rightarrow> bool list" where
  "byte_bits b = rev (map (bit b) [0..<8])"

definition bits_of :: "bytes \<Rightarrow> bool list" where
  "bits_of bs = concat (map byte_bits bs)"

definition bits_value :: "bool list \<Rightarrow> nat" where
  "bits_value bs = horner_sum of_bool 2 (rev bs)"

definition rotate_bits_right :: "nat \<Rightarrow> bool list \<Rightarrow> bool list" where
  "rotate_bits_right r xs = (let k = length xs - r mod length xs in drop k xs @ take k xs)"

definition rotated_copies :: "bytes \<Rightarrow> nat \<Rightarrow> bool list" where
  "rotated_copies input len = concat (map (\<lambda>k. rotate_bits_right (13 * k) (bits_of input)) [0..<len div length input])"

definition n_fold_sum :: "bytes \<Rightarrow> nat \<Rightarrow> nat" where
  "n_fold_sum input n = (let len = lcm (length input) n; bits = rotated_copies input len
     in \<Sum>j<len div n. bits_value (take (8 * n) (drop (8 * n * j) bits)))"

lemma length_byte_bits [simp]: "length (byte_bits b) = 8"
  by (simp add: byte_bits_def)

lemma byte_bits_nth: "j < 8 \<Longrightarrow> byte_bits b ! j = bit b (7 - j)"
  by (simp add: byte_bits_def rev_nth)

lemma length_concat_uniform: "\<forall>x \<in> set xs. length x = l \<Longrightarrow> length (concat xs) = length xs * l"
  by (induction xs) simp_all

lemma nth_concat_uniform:
  "\<forall>x \<in> set xs. length x = l \<Longrightarrow> p < length xs * l \<Longrightarrow> concat xs ! p = xs ! (p div l) ! (p mod l)"
proof (induction xs arbitrary: p)
  case (Cons x xs)
  show ?case
  proof (cases "p < l")
    case True
    then show ?thesis using Cons.prems by (simp add: nth_append)
  next
    case False
    moreover have "0 < l" using Cons.prems by (cases l) auto
    ultimately have "p div l = Suc ((p - l) div l)" "p mod l = (p - l) mod l"
      by (simp_all add: div_if mod_if)
    then show ?thesis using Cons.IH [of "p - l"] Cons.prems False by (simp add: nth_append)
  qed
qed simp

lemma length_bits_of [simp]: "length (bits_of bs) = length bs * 8"
  by (simp add: bits_of_def length_concat_uniform [where l = 8])

lemma bits_of_nth: "p < length bs * 8 \<Longrightarrow> bits_of bs ! p = bit (bs ! (p div 8)) (7 - p mod 8)"
  unfolding bits_of_def using less_mult_imp_div_less [of p "length bs" 8]
  by (subst nth_concat_uniform [where l = 8]) (simp_all add: byte_bits_nth)

lemma length_rotate_bits_right [simp]: "length (rotate_bits_right r xs) = length xs"
  by (simp add: rotate_bits_right_def Let_def)

lemma rotate_bits_right_nth:
  assumes "q < length xs"
  shows "rotate_bits_right r xs ! q = xs ! ((q + length xs - r mod length xs) mod length xs)"
proof -
  have r: "r mod length xs < length xs" using assms by (intro mod_less_divisor) linarith
  show ?thesis
  proof (cases "q < r mod length xs")
    case True
    with r have "(q + length xs - r mod length xs) mod length xs = length xs - r mod length xs + q" by simp
    then show ?thesis using True r by (simp add: rotate_bits_right_def Let_def nth_append)
  next
    case False
    then have "q + length xs - r mod length xs = q - r mod length xs + length xs" by simp
    moreover have "q - r mod length xs < length xs" using assms by linarith
    ultimately have "(q + length xs - r mod length xs) mod length xs = q - r mod length xs"
      by (simp only: mod_add_self2 mod_less)
    then show ?thesis using False r assms by (simp add: rotate_bits_right_def Let_def nth_append)
  qed
qed

text \<open>The bits the code shifts into a byte, and the byte stream it adds.\<close>

lemma bit_shift_one:
  "m < 8 \<Longrightarrow> bit (push_bit 1 a OR of_bool b) m \<longleftrightarrow> (case m of 0 \<Rightarrow> b | Suc k \<Rightarrow> bit a k)" for a :: u8
  by (cases m) (simp_all add: bit_or_iff bit_push_bit_iff bit_of_bool_iff del: push_bit_Suc)

lemma bit_shift_in: "m < 8 \<Longrightarrow> bit (foldl (\<lambda>acc j. push_bit 1 acc OR of_bool (f j)) (0 :: u8) [0..<n]) m \<longleftrightarrow> m < n \<and> f (n - 1 - m)"
proof (induction n arbitrary: m)
  case (Suc n)
  show ?case
    using Suc.IH [of "m - 1"] Suc.prems
    by (simp only: upt_Suc_append foldl_append foldl.simps le0 bit_shift_one) (auto split: nat.split)
qed simp

lemma fold_bit_rotated:
  assumes "b < length input * 8"
  shows "fold_bit input (r mod (length input * 8)) b = of_bool (rotate_bits_right r (bits_of input) ! b)"
proof -
  let ?src = "(b + length input * 8 - r mod (length input * 8)) mod (length input * 8)"
  have "?src < length input * 8" using assms by (intro mod_less_divisor) linarith
  then have "rotate_bits_right r (bits_of input) ! b = bit (input ! (?src div 8)) (7 - ?src mod 8)"
    using rotate_bits_right_nth [of b "bits_of input" r] assms bits_of_nth [of ?src input] by simp
  then show ?thesis
    by (simp add: fold_bit_def Let_def and_one_eq odd_iff_mod_2_eq_one bit_iff_odd_drop_bit)
qed

lemma byte_at_bits:
  assumes "input \<noteq> []" "j < 8"
  shows "byte_bits (byte_at input i) ! j =
    rotate_bits_right (13 * (i div length input)) (bits_of input) ! (i mod length input * 8 + j)"
proof -
  let ?f = "\<lambda>j. rotate_bits_right (13 * (i div length input)) (bits_of input) ! (i mod length input * 8 + j)"
  have "i mod length input < length input" using assms(1) by simp
  then have "fold_bit input (13 * (i div length input) mod (length input * 8)) (i mod length input * 8 + k) = of_bool (?f k)"
    if "k < 8" for k
    using that by (intro fold_bit_rotated) linarith
  then have "byte_at input i = foldl (\<lambda>acc j. push_bit 1 acc OR of_bool (?f j)) 0 [0..<8]"
    unfolding byte_at_def Let_def by (intro foldl_cong) auto
  then show ?thesis
    using assms(2) bit_shift_in [of "7 - j" ?f 8] by (simp only: byte_bits_nth) force
qed

lemma rotated_copies_bytes:
  assumes "length input dvd len"
  shows "rotated_copies input len = concat (map (\<lambda>i. byte_bits (byte_at input i)) [0..<len])"
proof (cases "input = []")
  case True
  with assms show ?thesis by (simp add: rotated_copies_def)
next
  case False
  then have l: "0 < length input" by simp
  have len: "len div length input * (length input * 8) = len * 8"
    using assms by (metis dvd_div_mult_self mult.assoc)
  show ?thesis
  proof (rule nth_equalityI)
    show "length (rotated_copies input len) = length (concat (map (\<lambda>i. byte_bits (byte_at input i)) [0..<len]))"
      using len by (simp add: rotated_copies_def length_concat_uniform [where l = 8] length_concat_uniform [where l = "length input * 8"])
  next
    fix p assume "p < length (rotated_copies input len)"
    then have p: "p < len * 8"
      using len by (simp add: rotated_copies_def length_concat_uniform [where l = "length input * 8"])
    then have "rotated_copies input len ! p =
        rotate_bits_right (13 * (p div (length input * 8))) (bits_of input) ! (p mod (length input * 8))"
      unfolding rotated_copies_def
      using l len by (subst nth_concat_uniform [where l = "length input * 8"])
        (simp_all add: less_mult_imp_div_less)
    moreover have "p div (length input * 8) = p div 8 div length input"
      by (metis div_mult2_eq mult.commute)
    moreover have "p mod (length input * 8) = p div 8 mod length input * 8 + p mod 8"
      using mod_mult2_eq [of p 8 "length input"] by (simp only: mult.commute)
    moreover have "concat (map (\<lambda>i. byte_bits (byte_at input i)) [0..<len]) ! p = byte_bits (byte_at input (p div 8)) ! (p mod 8)"
      using p by (subst nth_concat_uniform [where l = 8]) (simp_all add: less_mult_imp_div_less)
    ultimately show "rotated_copies input len ! p = concat (map (\<lambda>i. byte_bits (byte_at input i)) [0..<len]) ! p"
      using byte_at_bits [OF False, of "p mod 8" "p div 8"] by simp
  qed
qed

lemma bits_value_bytes: "bits_value (byte_bits b) = unat b"
proof -
  have "map (bit b) [0..<8] = map (bit (unat b)) [0..<8]" by (simp add: bit_unsigned_iff)
  then have "bits_value (byte_bits b) = take_bit 8 (unat b)"
    by (simp only: bits_value_def byte_bits_def rev_rev_ident horner_sum_bit_eq_take_bit)
  also have "\<dots> = unat b" using unsigned_less [of b, where ?'a = nat] by (intro take_bit_nat_eq_self) simp
  finally show ?thesis .
qed

lemma bits_value_append: "bits_value (xs @ ys) = bits_value xs * 2 ^ length ys + bits_value ys"
  by (simp add: bits_value_def horner_sum_append)

lemma bits_value_block:
  "bits_value (concat (map (\<lambda>i. byte_bits (h i)) [a..<a + n])) = (\<Sum>t<n. unat (h (a + t)) * 256 ^ (n - 1 - t))"
proof (induction n)
  case (Suc n)
  have "bits_value (concat (map (\<lambda>i. byte_bits (h i)) [a..<a + Suc n])) =
      (\<Sum>t<n. unat (h (a + t)) * 256 ^ (n - 1 - t)) * 256 + unat (h (a + n))"
    using Suc by (simp add: bits_value_append bits_value_bytes)
  also have "(\<Sum>t<n. unat (h (a + t)) * 256 ^ (n - 1 - t)) * 256 = (\<Sum>t<n. unat (h (a + t)) * 256 ^ (n - t))"
    unfolding sum_distrib_right
  proof (intro sum.cong refl)
    fix t assume "t \<in> {..<n}"
    then have "n - t = Suc (n - 1 - t)" by auto
    then show "unat (h (a + t)) * 256 ^ (n - 1 - t) * 256 = unat (h (a + t)) * 256 ^ (n - t)" by simp
  qed
  finally show ?case by simp
qed (simp add: bits_value_def)

lemma take_drop_block:
  assumes "n * j + n \<le> len"
  shows "take (8 * n) (drop (8 * n * j) (concat (map (\<lambda>i. byte_bits (h i)) [0..<len]))) =
    concat (map (\<lambda>i. byte_bits (h i)) [n * j..<n * j + n])"
proof -
  have "[0..<len] = [0..<n * j] @ [n * j..<n * j + n] @ [n * j + n..<len]"
    using upt_add_eq_append [of 0 "n * j" "len - n * j"] upt_add_eq_append [of "n * j" "n * j + n" "len - (n * j + n)"] assms
    by simp
  moreover have "length (concat (map (\<lambda>i. byte_bits (h i)) [u..<v])) = (v - u) * 8" for u v
    by (simp add: length_concat_uniform [where l = 8])
  ultimately show ?thesis by simp
qed

lemma n_fold_sum_bytes:
  assumes "0 < n"
  shows "n_fold_sum input n = (\<Sum>i<lcm (length input) n. unat (byte_at input i) * 256 ^ (n - 1 - i mod n))"
proof -
  let ?l = "lcm (length input) n" and ?g = "\<lambda>i. unat (byte_at input i) * 256 ^ (n - 1 - i mod n)"
  have l: "?l div n * n = ?l" by simp
  have "bits_value (take (8 * n) (drop (8 * n * j) (rotated_copies input ?l))) = sum ?g {j * n..<j * n + n}"
    if "j < ?l div n" for j
  proof -
    have "Suc j * n \<le> ?l div n * n" using that by (intro mult_right_mono) auto
    then have "n * j + n \<le> ?l" using l by (simp add: mult.commute)
    then have "bits_value (take (8 * n) (drop (8 * n * j) (rotated_copies input ?l))) =
        (\<Sum>t<n. unat (byte_at input (n * j + t)) * 256 ^ (n - 1 - t))"
      using take_drop_block [of n j ?l "byte_at input"] bits_value_block [of "byte_at input" "n * j" n]
      by (simp add: rotated_copies_bytes)
    also have "\<dots> = (\<Sum>t<n. ?g (j * n + t))" by (intro sum.cong) (simp_all add: mult.commute)
    also have "\<dots> = sum ?g {j * n..<j * n + n}"
      using sum.shift_bounds_nat_ivl [of ?g 0 "j * n" n] by (simp add: lessThan_atLeast0 add.commute)
    finally show ?thesis .
  qed
  then have "n_fold_sum input n = (\<Sum>j<?l div n. sum ?g {j * n..<j * n + n})"
    by (simp add: n_fold_sum_def Let_def)
  also have "\<dots> = sum ?g {..<?l div n * n}" by (rule sum.nat_group)
  finally show ?thesis by (simp only: l)
qed

text \<open>
  C29: n-fold ends and computes what RFC 3961 asks for. The carry loop ends for every input. If 255 times
  the least common multiple of both lengths is less than \<open>2^32\<close>, so that no accumulator overflows,
  the result has the wanted length, and read as a number it is exactly the ones' complement sum
  of the \<open>n\<close>-byte blocks of \<open>n_fold_sum\<close>: the copies of the input's bits, the \<open>k\<close>-th rotated right by
  \<open>13 * k\<close>, one after the other. The sum is zero only if all blocks are zero, and otherwise is
  reduced to the range from 1 to \<open>256^n - 1\<close>.
\<close>

theorem n_fold_ones_complement:
  assumes "0 < n" and "255 * lcm (length input) n < 2 ^ 32"
  shows "\<exists>bs. n_fold input n = Some bs \<and> length bs = n \<and>
    from_be_nat bs = (if n_fold_sum input n = 0 then 0 else (n_fold_sum input n - 1) mod (256 ^ n - 1) + 1)"
proof -
  let ?as = "fold_acc input n (lcm (length input) n)"
  have "length input div gcd (length input) n * n = lcm (length input) n"
    by (simp add: lcm_nat_def dvd_div_mult)
  moreover have "gcd (length input) n \<noteq> 0" using assms(1) by simp
  ultimately have fold: "n_fold input n = Some (map ucast (carry_loop ?as))"
    by (simp add: n_fold_def gcd_usize_gcd Let_def)
  note e = fold_acc_exact [OF assms, of input]
  have "fold_sum ?as < 2 ^ 32" using e assms(2) by linarith
  note c = carry_loop_value [OF this, simplified]
  have "fold_value (carry_loop ?as) < 256 ^ n"
    using acc_value_bound [of "map unat (carry_loop ?as)"] c by simp
  moreover have "1 < (256 :: nat) ^ n" using assms(1) one_less_power [of "256 :: nat" n] by simp
  ultimately have "fold_value (carry_loop ?as) =
      (if fold_value ?as = 0 then 0 else (fold_value ?as - 1) mod (256 ^ n - 1) + 1)"
    using c by (intro ones_complement_unique) simp_all
  with fold c e n_fold_sum_bytes [OF assms(1), of input] show ?thesis
    by (simp add: from_be_nat_map)
qed

theorem n_fold_ones_complement_witness:
  "\<exists>bs. n_fold (ascii ''kerberos'') 16 = Some bs \<and> length bs = 16 \<and>
    from_be_nat bs = (if n_fold_sum (ascii ''kerberos'') 16 = 0 then 0
      else (n_fold_sum (ascii ''kerberos'') 16 - 1) mod (256 ^ 16 - 1) + 1)"
proof -
  have "length (ascii ''kerberos'') = 8" by (simp add: ascii_def)
  moreover have "lcm 8 (16 :: nat) = 16" by code_simp
  ultimately show ?thesis
    using n_fold_ones_complement [of 16 "ascii ''kerberos''"] by simp
qed

text \<open>The test vector of RFC 3961 for folding to 128 bits.\<close>

lemma n_fold_kerberos:
  "n_fold (ascii ''kerberos'') 16 =
    Some [0x6b, 0x65, 0x72, 0x62, 0x65, 0x72, 0x6f, 0x73, 0x7b, 0x9b, 0x5b, 0x2b, 0x93, 0x13, 0x2b, 0x93]"
  by code_simp

end
