(* ===== verification/Cfx.thy ===== *)
theory Cfx
  imports Krb5Laws
begin

text \<open>
  The per-message tokens of RFC 4121 (\<open>krb5/src/cfx.rs\<close>), MIC and Wrap, and the framing of
  context tokens (\<open>krb5/src/token.rs\<close>), with the round trips between the two sides of a context.
\<close>

section \<open>Context keys\<close>

record context_key =
  ck_enctype :: enctype
  ck_key :: bytes
  ck_acceptor_subkey :: bool

datatype sender = Initiator | Acceptor

definition FLAG_SENT_BY_ACCEPTOR :: u8 where "FLAG_SENT_BY_ACCEPTOR = 0x01"
definition FLAG_SEALED :: u8 where "FLAG_SEALED = 0x02"
definition FLAG_ACCEPTOR_SUBKEY :: u8 where "FLAG_ACCEPTOR_SUBKEY = 0x04"

definition TOK_MIC :: bytes where "TOK_MIC = [0x04, 0x04]"
definition TOK_WRAP :: bytes where "TOK_WRAP = [0x05, 0x04]"

definition sender_flag :: "sender \<Rightarrow> u8" where
  "sender_flag s = (case s of Acceptor \<Rightarrow> FLAG_SENT_BY_ACCEPTOR | Initiator \<Rightarrow> 0)"

definition sign_usage :: "sender \<Rightarrow> u32" where
  "sign_usage s = (case s of Acceptor \<Rightarrow> 23 | Initiator \<Rightarrow> 25)"

definition seal_usage :: "sender \<Rightarrow> u32" where
  "seal_usage s = (case s of Acceptor \<Rightarrow> 22 | Initiator \<Rightarrow> 24)"

definition ck_flags :: "context_key \<Rightarrow> sender \<Rightarrow> u8" where
  "ck_flags k s = sender_flag s OR (if ck_acceptor_subkey k then FLAG_ACCEPTOR_SUBKEY else 0)"

definition check_flags :: "context_key \<Rightarrow> u8 \<Rightarrow> sender \<Rightarrow> (unit, krb5_error) result" where
  "check_flags k flags s =
    (if flags AND FLAG_SENT_BY_ACCEPTOR \<noteq> sender_flag s then
       Inl (Krb5_Token ''token sent in the wrong direction'')
     else if (flags AND FLAG_ACCEPTOR_SUBKEY \<noteq> 0) \<noteq> ck_acceptor_subkey k then
       Inl (Krb5_Token ''AcceptorSubkey flag does not match the context'')
     else Inr ())"

section \<open>MIC tokens\<close>

definition get_mic ::
  "crypto_prims \<Rightarrow> context_key \<Rightarrow> sender \<Rightarrow> u64 \<Rightarrow> bytes \<Rightarrow> (bytes, krb5_error) result" where
  "get_mic P k s seq message =
    (let header = TOK_MIC @ [ck_flags k s] @ replicate 5 0xff @ be_bytes 8 seq
     in and_then (checksum P (ck_enctype k) (ck_key k) (sign_usage s) [message, header])
          (\<lambda>cksum. Inr (header @ cksum)))"

definition verify_mic ::
  "crypto_prims \<Rightarrow> context_key \<Rightarrow> sender \<Rightarrow> bytes \<Rightarrow> bytes \<Rightarrow> (u64, krb5_error) result" where
  "verify_mic P k s message token =
    (if length token < 16 \<or> take 2 token \<noteq> TOK_MIC \<or> take 5 (drop 3 token) \<noteq> replicate 5 0xff then
       Inl (Krb5_Token ''not a MIC token'')
     else and_then (check_flags k (token ! 2) s) (\<lambda>_.
       let header = take 16 token; cksum = drop 16 token in
       and_then (checksum P (ck_enctype k) (ck_key k) (sign_usage s) [message, header]) (\<lambda>want.
         if \<not> ct_eq want cksum then Inl Krb5_Integrity
         else Inr (from_be_bytes (drop 8 header)))))"

section \<open>Wrap tokens\<close>

definition wrap_header :: "u8 \<Rightarrow> u16 \<Rightarrow> u16 \<Rightarrow> u64 \<Rightarrow> bytes" where
  "wrap_header flags ec rrc seq = TOK_WRAP @ [flags, 0xff] @ be_bytes 2 ec @ be_bytes 2 rrc @ be_bytes 8 seq"

definition wrap ::
  "crypto_prims \<Rightarrow> bytes option \<Rightarrow> context_key \<Rightarrow> sender \<Rightarrow> u64 \<Rightarrow> bool \<Rightarrow> bytes \<Rightarrow> (bytes, krb5_error) result"
  where
  "wrap P rnd k s seq sealed message =
    (let flags = ck_flags k s OR (if sealed then FLAG_SEALED else 0);
         header = wrap_header flags 0 0 seq
     in if sealed then
          and_then (encrypt P rnd (ck_enctype k) (ck_key k) (seal_usage s) (message @ header))
            (\<lambda>body. Inr (header @ body))
        else
          and_then (checksum P (ck_enctype k) (ck_key k) (seal_usage s) [message, header])
            (\<lambda>cksum. Inr (wrap_header flags (of_nat (length cksum)) 0 seq @ message @ cksum)))"

definition unwrap ::
  "crypto_prims \<Rightarrow> context_key \<Rightarrow> sender \<Rightarrow> bytes \<Rightarrow> (bytes \<times> bool \<times> u64, krb5_error) result" where
  "unwrap P k s token =
    (if length token < 16 \<or> take 2 token \<noteq> TOK_WRAP \<or> token ! 3 \<noteq> 0xff then
       Inl (Krb5_Token ''not a Wrap token'')
     else
       let flags = token ! 2 in
       and_then (check_flags k flags s) (\<lambda>_.
         let sealed = (flags AND FLAG_SEALED \<noteq> 0);
             ec = unat (from_be_bytes (take 2 (drop 4 token)) :: u16);
             rrc = unat (from_be_bytes (take 2 (drop 6 token)) :: u16);
             seq = from_be_bytes (take 8 (drop 8 token));
             rest = drop 16 token;
             dat = (if rest = [] then []
                    else let r = rrc mod length rest in drop r rest @ take r rest);
             header = take 6 token @ [0, 0] @ take 8 (drop 8 token)
         in if sealed then
              and_then (decrypt P (ck_enctype k) (ck_key k) (seal_usage s) dat) (\<lambda>plain.
                if length plain < 16 + ec then Inl (Krb5_Token ''sealed Wrap token too short'')
                else
                  let inner = drop (length plain - 16) plain; plain' = take (length plain - 16) plain
                  in if \<not> ct_eq inner header then Inl Krb5_Integrity
                     else Inr (take (length plain' - ec) plain', True, seq))
            else
              let h = hmac_len (ck_enctype k) in
              if ec \<noteq> h \<or> length dat < h then Inl (Krb5_Token ''bad Wrap checksum length'')
              else
                let message = take (length dat - h) dat; cksum = drop (length dat - h) dat;
                    header' = take 4 header @ [0, 0] @ drop 6 header
                in and_then (checksum P (ck_enctype k) (ck_key k) (seal_usage s) [message, header'])
                     (\<lambda>want. if \<not> ct_eq want cksum then Inl Krb5_Integrity
                        else Inr (message, False, seq))))"

section \<open>Round trips\<close>

lemma checksum_ok:
  assumes "crypto_laws P" "length key = key_len e"
  obtains c where "checksum P e key usage parts = Inr c" "length c = hmac_len e"
proof -
  obtain kc where kc: "derive P e key usage 0x99 = Inr kc" by (rule derive_mac_key [OF assms(2)])
  show ?thesis
    by (rule that [of "take (hmac_len e) (hmac P e kc parts)"])
      (use hmac_len_le [OF assms(1), of e kc parts] in \<open>simp_all add: checksum_def kc\<close>)
qed

lemma check_flags_own [simp]: "check_flags k (ck_flags k s) s = Inr ()"
  "check_flags k (ck_flags k s OR FLAG_SEALED) s = Inr ()"
  "ck_flags k s OR FLAG_SEALED = ck_flags k s \<longleftrightarrow> False"
  "ck_flags k s AND FLAG_SEALED = 0"
  "FLAG_SEALED \<noteq> 0"
  by (cases s; simp add: check_flags_def ck_flags_def sender_flag_def FLAG_SENT_BY_ACCEPTOR_def
        FLAG_SEALED_def FLAG_ACCEPTOR_SUBKEY_def)+

lemma check_flags_reflected:
  "s' \<noteq> s \<Longrightarrow> check_flags k (ck_flags k s OR x) s' = Inl (Krb5_Token ''token sent in the wrong direction'')"
  if "x = 0 \<or> x = FLAG_SEALED"
  using that by (cases s; cases s'; auto simp: check_flags_def ck_flags_def sender_flag_def
      FLAG_SENT_BY_ACCEPTOR_def FLAG_SEALED_def FLAG_ACCEPTOR_SUBKEY_def)

lemma verify_get_mic:
  assumes "crypto_laws P" "length (ck_key k) = key_len (ck_enctype k)"
  shows "\<exists>tok. get_mic P k s seq msg = Inr tok \<and> verify_mic P k s msg tok = Inr seq"
proof -
  let ?h = "TOK_MIC @ [ck_flags k s] @ replicate 5 0xff @ be_bytes 8 seq"
  obtain c where c: "checksum P (ck_enctype k) (ck_key k) (sign_usage s) [msg, ?h] = Inr c"
    by (rule checksum_ok [OF assms])
  define tok where "tok = ?h @ c"
  have "take 2 tok = TOK_MIC" "take 5 (drop 3 tok) = replicate 5 0xff" "tok ! 2 = ck_flags k s"
    "take 16 tok = ?h" "drop 16 tok = c" "drop 8 ?h = be_bytes 8 seq" "\<not> length tok < 16"
    by (simp_all add: tok_def TOK_MIC_def numeral_eq_Suc)
  with c have "verify_mic P k s msg tok = Inr seq"
    by (simp add: verify_mic_def Let_def from_be_bytes_be_bytes)
  moreover have "get_mic P k s seq msg = Inr tok" using c by (simp add: get_mic_def Let_def tok_def)
  ultimately show ?thesis by blast
qed

text \<open>
  A peer may rotate the body of a Wrap token to the right by any count, which it then writes
  into the header.
\<close>

definition rotate_right :: "nat \<Rightarrow> 'a list \<Rightarrow> 'a list" where
  "rotate_right n xs = rotate (length xs - n mod length xs) xs"

definition rotated_token :: "u16 \<Rightarrow> bytes \<Rightarrow> bytes" where
  "rotated_token rrc tok = take 6 tok @ be_bytes 2 rrc @ take 8 (drop 8 tok) @ rotate_right (unat rrc) (drop 16 tok)"

lemma unrotate:
  assumes "xs \<noteq> []"
  shows "drop (n mod length xs) (rotate_right n xs) @ take (n mod length xs) (rotate_right n xs) = xs"
proof -
  have "n mod length xs < length xs" using assms by simp
  then have "rotate (n mod length xs) (rotate_right n xs) = rotate (length xs) xs"
    by (simp add: rotate_right_def rotate_rotate)
  moreover have "rotate (n mod length xs) ys = drop (n mod length xs) ys @ take (n mod length xs) ys"
    if "length ys = length xs" for ys :: "'a list"
    using that by (simp add: rotate_drop_take)
  ultimately show ?thesis by (simp add: rotate_right_def)
qed

lemma length_rotate_right [simp]: "length (rotate_right n xs) = length xs"
  by (simp add: rotate_right_def)

lemma wrap_header_fields:
  "length (wrap_header f ec rrc seq) = 16" "take 2 (wrap_header f ec rrc seq) = TOK_WRAP"
  "wrap_header f ec rrc seq ! 2 = f" "wrap_header f ec rrc seq ! 3 = 0xff"
  "take 6 (wrap_header f ec rrc seq) = TOK_WRAP @ [f, 0xff] @ be_bytes 2 ec"
  "take 4 (wrap_header f ec rrc seq) = TOK_WRAP @ [f, 0xff]"
  "take 2 (drop 4 (wrap_header f ec rrc seq)) = be_bytes 2 ec"
  "take 2 (drop 6 (wrap_header f ec rrc seq)) = be_bytes 2 rrc"
  "drop 6 (wrap_header f ec rrc seq) = be_bytes 2 rrc @ be_bytes 8 seq"
  "take 8 (drop 8 (wrap_header f ec rrc seq)) = be_bytes 8 seq"
  by (simp_all add: wrap_header_def TOK_WRAP_def numeral_eq_Suc)

lemma rotated_wrap:
  "rotated_token rrc (wrap_header f ec 0 seq @ body) = wrap_header f ec rrc seq @ rotate_right (unat rrc) body"
  by (simp add: rotated_token_def wrap_header_fields) (simp add: wrap_header_def)

text \<open>\<open>unwrap\<close> sees the body and the header without the rotation.\<close>

lemma unwrap_rotated:
  assumes "body \<noteq> []" "check_flags k f s = Inr ()"
  shows "unwrap P k s (wrap_header f ec rrc seq @ rotate_right (unat rrc) body) =
    (if f AND FLAG_SEALED \<noteq> 0 then
       and_then (decrypt P (ck_enctype k) (ck_key k) (seal_usage s) body) (\<lambda>plain.
         if length plain < 16 + unat ec then Inl (Krb5_Token ''sealed Wrap token too short'')
         else if drop (length plain - 16) plain \<noteq> wrap_header f ec 0 seq then Inl Krb5_Integrity
         else Inr (take (length plain - 16 - unat ec) plain, True, seq))
     else if unat ec \<noteq> hmac_len (ck_enctype k) \<or> length body < hmac_len (ck_enctype k) then
       Inl (Krb5_Token ''bad Wrap checksum length'')
     else
       let h = hmac_len (ck_enctype k); message = take (length body - h) body in
       and_then (checksum P (ck_enctype k) (ck_key k) (seal_usage s) [message, wrap_header f 0 0 seq])
         (\<lambda>want. if want \<noteq> drop (length body - h) body then Inl Krb5_Integrity
            else Inr (message, False, seq)))"
proof -
  define tok where "tok = wrap_header f ec rrc seq @ rotate_right (unat rrc) body"
  have l: "length (wrap_header f ec rrc seq) = 16" by (rule wrap_header_fields)
  have "take 2 tok = TOK_WRAP" "tok ! 3 = 0xff" "tok ! 2 = f" "\<not> length tok < 16"
    "take 2 (drop 4 tok) = be_bytes 2 ec" "take 2 (drop 6 tok) = be_bytes 2 rrc"
    "take 8 (drop 8 tok) = be_bytes 8 seq" "drop 16 tok = rotate_right (unat rrc) body"
    using l by (simp_all add: tok_def wrap_header_fields nth_append)
  moreover have "rotate_right (unat rrc) body \<noteq> []" using assms(1) by (metis length_0_conv length_rotate_right)
  moreover have h: "take 6 tok @ [0, 0] @ be_bytes 8 seq = wrap_header f ec 0 seq"
    by (simp add: tok_def wrap_header_fields) (simp add: wrap_header_def numeral_eq_Suc)
  moreover have "take 4 (wrap_header f ec 0 seq) @ [0, 0] @ drop 6 (wrap_header f ec 0 seq) = wrap_header f 0 0 seq"
    by (simp add: wrap_header_fields) (simp add: wrap_header_def numeral_eq_Suc)
  moreover have "drop (unat rrc mod length body) (rotate_right (unat rrc) body) @
      take (unat rrc mod length body) (rotate_right (unat rrc) body) = body"
    by (rule unrotate [OF assms(1)])
  ultimately show ?thesis
    unfolding tok_def [symmetric] unwrap_def
    by (cases "decrypt P (ck_enctype k) (ck_key k) (seal_usage s) body")
      (simp_all add: Let_def assms(2) from_be_bytes_be_bytes del: append_assoc append_Cons)
qed

text \<open>
  C28: Wrap tokens. With a key of the right length both kinds of token, sealed and integrity-only,
  are produced, and however the peer rotates the body the other side recovers the message, the
  kind of protection and the sequence number. A token reflected to its sender is refused.
\<close>

theorem unwrap_wrap:
  assumes "crypto_laws P" "length (ck_key k) = key_len (ck_enctype k)" "length conf = 16"
  shows "\<exists>tok. wrap P (Some conf) k s seq sealed msg = Inr tok \<and>
    (\<forall>rrc. unwrap P k s (rotated_token rrc tok) = Inr (msg, sealed, seq)) \<and>
    (\<forall>rrc s'. s' \<noteq> s \<longrightarrow> unwrap P k s' (rotated_token rrc tok) =
       Inl (Krb5_Token ''token sent in the wrong direction''))"
proof -
  let ?f = "ck_flags k s OR (if sealed then FLAG_SEALED else 0)" and ?e = "ck_enctype k"
  let ?h = "wrap_header ?f 0 0 seq"
  have "\<exists>ec body. wrap P (Some conf) k s seq sealed msg = Inr (wrap_header ?f ec 0 seq @ body) \<and> body \<noteq> [] \<and>
    (\<forall>rrc. unwrap P k s (wrap_header ?f ec rrc seq @ rotate_right (unat rrc) body) = Inr (msg, sealed, seq))"
  proof (cases sealed)
    case True
    obtain body where b: "encrypt P (Some conf) ?e (ck_key k) (seal_usage s) (msg @ ?h) = Inr body"
      "decrypt P ?e (ck_key k) (seal_usage s) body = Inr (msg @ ?h)" "length body = 16 + length (msg @ ?h) + hmac_len ?e"
      using decrypt_encrypt [OF assms] by blast
    then have "body \<noteq> []" by auto
    with b True show ?thesis
      by (intro exI [of _ 0] exI [of _ body]) (simp add: wrap_def Let_def unwrap_rotated wrap_header_fields)
  next
    case False
    obtain c where c: "checksum P ?e (ck_key k) (seal_usage s) [msg, ?h] = Inr c" "length c = hmac_len ?e"
      by (rule checksum_ok [OF assms(1,2)])
    have h: "0 < hmac_len ?e" "unat (of_nat (hmac_len ?e) :: u16) = hmac_len ?e"
      by (cases ?e; simp add: hmac_len_def)+
    with c(2) have "msg @ c \<noteq> []" by auto
    with c h False show ?thesis
      by (intro exI [of _ "of_nat (hmac_len ?e)"] exI [of _ "msg @ c"])
        (simp add: wrap_def Let_def unwrap_rotated)
  qed
  then obtain ec body where w: "wrap P (Some conf) k s seq sealed msg = Inr (wrap_header ?f ec 0 seq @ body)"
    "\<forall>rrc. unwrap P k s (wrap_header ?f ec rrc seq @ rotate_right (unat rrc) body) = Inr (msg, sealed, seq)" by blast
  have r: "unwrap P k s' (wrap_header ?f ec rrc seq @ rotate_right (unat rrc) body) =
      Inl (Krb5_Token ''token sent in the wrong direction'')" if "s' \<noteq> s" for s' rrc
    using check_flags_reflected [of "if sealed then FLAG_SEALED else 0" s' s k] that
    by (simp add: unwrap_def wrap_header_fields nth_append Let_def)
  show ?thesis
    by (intro exI [of _ "wrap_header ?f ec 0 seq @ body"] conjI allI impI)
      (simp_all only: rotated_wrap w r not_False_eq_True)
qed

theorem unwrap_wrap_witness:
  "\<exists>tok. wrap xor_prims (Some (replicate 16 7)) \<lparr>ck_enctype = Aes128CtsHmacSha256_128, ck_key = replicate 16 1,
      ck_acceptor_subkey = False\<rparr> Initiator 5 True [1, 2, 3] = Inr tok \<and>
    unwrap xor_prims \<lparr>ck_enctype = Aes128CtsHmacSha256_128, ck_key = replicate 16 1,
      ck_acceptor_subkey = False\<rparr> Initiator (rotated_token 28 tok) = Inr ([1, 2, 3], True, 5)"
  using unwrap_wrap [OF xor_prims_laws, of "\<lparr>ck_enctype = Aes128CtsHmacSha256_128, ck_key = replicate 16 1,
      ck_acceptor_subkey = False\<rparr>" "replicate 16 7" Initiator 5 True "[1, 2, 3]"]
  by (auto simp: key_len_def)

end
