(* ===== verification/Krb5Acceptor.thy ===== *)
theory Krb5Acceptor
  imports Cfx Keytab "HOL-Library.AList"
begin

text \<open>
  Accepting a Kerberos context (\<open>krb5/src/acceptor.rs\<close>): the framing of context tokens
  (\<open>krb5/src/token.rs\<close>), the replay cache, and the checks of an AP-REQ. The DER codec and the
  message types are those of the \<open>rasn-kerberos\<close> crate: the types below have the fields the code
  reads, and the codec is the record \<open>der_ops\<close>. Times are seconds since the epoch, as
  \<open>timestamp()\<close> gives them; the replay cache's clock is monotonic and counts nanoseconds.
\<close>

section \<open>Token framing\<close>

definition GSS_MECH_OID :: bytes where
  "GSS_MECH_OID = [0x06, 0x09, 0x2a, 0x86, 0x48, 0x86, 0xf7, 0x12, 0x01, 0x02, 0x02]"

definition TOK_ID_AP_REQ :: bytes where "TOK_ID_AP_REQ = [0x01, 0x00]"
definition TOK_ID_AP_REP :: bytes where "TOK_ID_AP_REP = [0x02, 0x00]"

definition read_len :: "bytes \<Rightarrow> nat \<Rightarrow> (nat \<times> nat, krb5_error) result" where
  "read_len buf pos =
    (if length buf \<le> pos then Inl (Krb5_Token ''truncated'')
     else
       let first = buf ! pos; pos' = pos + 1 in
       if first AND 0x80 = 0 then Inr (unat first, pos')
       else
         let n = unat (first AND 0x7f) in
         if n = 0 \<or> 4 < n then Inl (Krb5_Token ''bad length'')
         else if length buf < pos' + n then Inl (Krb5_Token ''truncated'')
         else Inr (foldl (\<lambda>acc b. acc * 256 + unat b) 0 (take n (drop pos' buf)), pos' + n))"

definition write_len :: "nat \<Rightarrow> bytes" where
  "write_len len =
    (if len < 0x80 then [of_nat len]
     else
       let bs = be_bytes 4 (of_nat len :: u32); skip = length (takeWhile (\<lambda>b. b = 0) bs)
       in (0x80 OR of_nat (4 - skip)) # drop skip bs)"

definition token_parse :: "bytes \<Rightarrow> (bytes \<times> bytes, krb5_error) result" where
  "token_parse buf =
    (if buf = [] \<or> hd buf \<noteq> 0x60 then Inl (Krb5_Token ''not a GSS initial context token'')
     else and_then (read_len buf 1) (\<lambda>(len, pos).
       if length buf < pos + len then Inl (Krb5_Token ''truncated'')
       else
         let body = take len (drop pos buf) in
         if take (length GSS_MECH_OID) body \<noteq> GSS_MECH_OID then
           Inl (Krb5_Token ''not the Kerberos V5 mechanism'')
         else
           let inner = drop (length GSS_MECH_OID) body in
           if length inner < 2 then Inl (Krb5_Token ''truncated'')
           else Inr (take 2 inner, drop 2 inner)))"

definition token_build :: "bytes \<Rightarrow> bytes \<Rightarrow> bytes" where
  "token_build tok_id message =
    [0x60] @ write_len (length GSS_MECH_OID + 2 + length message) @ GSS_MECH_OID @ tok_id @ message"

section \<open>Messages\<close>

type_synonym general_string = bytes

record principal_name =
  pn_type :: int
  pn_string :: "general_string list"

record encrypted_data =
  ed_etype :: int
  ed_kvno :: "u32 option"
  ed_cipher :: bytes

record ticket =
  tkt_realm :: general_string
  tkt_sname :: principal_name
  tkt_enc_part :: encrypted_data

record ap_req =
  ar_ticket :: ticket
  ar_authenticator :: encrypted_data

record encryption_key =
  ek_type :: int
  ek_value :: bytes

record enc_ticket_part =
  etp_key :: encryption_key
  etp_crealm :: general_string
  etp_cname :: principal_name
  etp_auth_time :: int
  etp_start_time :: "int option"
  etp_end_time :: int

record authenticator =
  ath_crealm :: general_string
  ath_cname :: principal_name
  ath_cksum :: "(int \<times> bytes) option"
  ath_cusec :: int
  ath_ctime :: int
  ath_subkey :: "encryption_key option"
  ath_seq_number :: "u32 option"

record enc_ap_rep_part =
  earp_ctime :: int
  earp_cusec :: int
  earp_subkey :: "encryption_key option"
  earp_seq_number :: "u32 option"

record ap_rep =
  arp_pvno :: int
  arp_msg_type :: int
  arp_enc_part :: encrypted_data

record der_ops =
  der_ap_req :: "bytes \<Rightarrow> (ap_req, string) result"
  der_enc_ticket_part :: "bytes \<Rightarrow> (enc_ticket_part, string) result"
  der_authenticator :: "bytes \<Rightarrow> (authenticator, string) result"
  der_put_enc_ap_rep_part :: "enc_ap_rep_part \<Rightarrow> (bytes, string) result"
  der_put_ap_rep :: "ap_rep \<Rightarrow> (bytes, string) result"

definition map_asn1 :: "('a, string) result \<Rightarrow> ('a, krb5_error) result" where
  "map_asn1 r = (case r of Inl e \<Rightarrow> Inl (Krb5_Asn1 e) | Inr v \<Rightarrow> Inr v)"

record accepted =
  acc_client :: string
  acc_service :: string
  acc_key :: context_key
  acc_flags :: u32
  acc_initiator_seq :: u64
  acc_acceptor_seq :: u64
  acc_expires :: int
  acc_output_token :: "bytes option"

definition principal_string :: "principal_name \<Rightarrow> general_string \<Rightarrow> string" where
  "principal_string name realm = join ''/'' (map string_lossy (pn_string name)) @ ''@'' @ string_lossy realm"

section \<open>The replay cache\<close>

definition CLOCK_SKEW_SECS :: int where "CLOCK_SKEW_SECS = 300"

definition replay_ttl :: nat where "replay_ttl = 2 * 300 * 10 ^ 9"

text \<open>
  The map of seen authenticators, as an association list with distinct keys; time differences
  saturate at zero.
\<close>

type_synonym replay_cache = "(bytes \<times> nat) list"

definition check_and_insert :: "nat \<Rightarrow> bytes \<Rightarrow> replay_cache \<Rightarrow> bool \<times> replay_cache" where
  "check_and_insert now key seen =
    (let seen' = (if 1024 < length seen then filter (\<lambda>(k, t). now - t < replay_ttl) seen else seen)
     in case map_of seen' key of
          Some t \<Rightarrow> if now - t < replay_ttl then (False, seen') else (True, AList.update key now seen')
        | None \<Rightarrow> (True, AList.update key now seen'))"

section \<open>The acceptor\<close>

definition GSS_CHECKSUM_TYPE :: int where "GSS_CHECKSUM_TYPE = 0x8003"
definition GSS_C_MUTUAL_FLAG :: u32 where "GSS_C_MUTUAL_FLAG = 2"
definition KU_TICKET :: u32 where "KU_TICKET = 2"
definition KU_AP_REQ_AUTH :: u32 where "KU_AP_REQ_AUTH = 11"
definition KU_AP_REP_ENCPART :: u32 where "KU_AP_REP_ENCPART = 12"

record acceptor =
  acp_keytab :: "keytab_entry list"
  acp_replay :: replay_cache

definition acceptor_new :: "keytab_entry list \<Rightarrow> acceptor" where
  "acceptor_new keytab = \<lparr>acp_keytab = keytab, acp_replay = []\<rparr>"

text \<open>
  The service keys to try, in order: \<open>sort_by_key\<close> is stable, entries with the ticket's key
  version come first, then higher versions before lower ones.
\<close>

definition ticket_keys :: "keytab_entry list \<Rightarrow> ticket \<Rightarrow> enctype \<Rightarrow> keytab_entry list" where
  "ticket_keys keytab tk etype =
    (let sname = map string_lossy (pn_string (tkt_sname tk)); realm = string_lossy (tkt_realm tk);
         kvno = ed_kvno (tkt_enc_part tk);
         rank = (\<lambda>e. (if Some (kt_kvno e) \<noteq> kvno then 2 ^ 32 else 0) - uint (kt_kvno e))
     in sort_key rank (filter (\<lambda>e. kt_realm e = realm \<and> kt_components e = sname \<and>
          kt_enctype e = enctype_number etype) keytab))"

fun first_ok :: "('a \<Rightarrow> ('b, 'e) result) \<Rightarrow> 'a list \<Rightarrow> 'b option" where
  "first_ok f [] = None"
| "first_ok f (x # xs) = (case f x of Inr v \<Rightarrow> Some v | Inl _ \<Rightarrow> first_ok f xs)"

definition require :: "bool \<Rightarrow> krb5_error \<Rightarrow> (unit, krb5_error) result" where
  "require b e = (if b then Inr () else Inl e)"

definition ok_or :: "'a option \<Rightarrow> 'e \<Rightarrow> ('a, 'e) result" where
  "ok_or x e = (case x of Some v \<Rightarrow> Inr v | None \<Rightarrow> Inl e)"

text \<open>The ticket and authenticator checks of \<open>accept_at\<close>, up to the replay cache.\<close>

definition check_ap_req ::
  "crypto_prims \<Rightarrow> der_ops \<Rightarrow> keytab_entry list \<Rightarrow> int \<Rightarrow> bytes \<Rightarrow>
    (enc_ticket_part \<times> enctype \<times> bytes \<times> authenticator \<times> u32 \<times> string, krb5_error) result" where
  "check_ap_req P D keytab now inp =
    and_then (token_parse inp) (\<lambda>(tok_id, msg).
    and_then (require (tok_id = TOK_ID_AP_REQ) (Krb5_Token ''expected an AP-REQ'')) (\<lambda>_.
    and_then (map_asn1 (der_ap_req D msg)) (\<lambda>req.
    let tk = ar_ticket req; service = principal_string (tkt_sname tk) (tkt_realm tk); et = ed_etype (tkt_enc_part tk) in
    and_then (ok_or (enctype_from_i32 et) (Krb5_UnsupportedEnctype et)) (\<lambda>tkt_etype.
    let candidates = ticket_keys keytab tk tkt_etype in
    and_then (require (candidates \<noteq> []) (Krb5_NoKey (service @ '' ('' @ enctype_debug tkt_etype @ '')''))) (\<lambda>_.
    and_then (ok_or (first_ok (\<lambda>e. decrypt P tkt_etype (kt_key e) KU_TICKET (ed_cipher (tkt_enc_part tk))) candidates)
               Krb5_Integrity) (\<lambda>enc_ticket.
    and_then (map_asn1 (der_enc_ticket_part D enc_ticket)) (\<lambda>tkt.
    let start = (case etp_start_time tkt of Some t \<Rightarrow> t | None \<Rightarrow> etp_auth_time tkt); fin = etp_end_time tkt in
    and_then (require (\<not> start - CLOCK_SKEW_SECS > now) (Krb5_Rejected ''ticket not yet valid'')) (\<lambda>_.
    and_then (require (\<not> fin + CLOCK_SKEW_SECS < now) (Krb5_Rejected ''ticket expired'')) (\<lambda>_.
    and_then (ok_or (enctype_from_i32 (ek_type (etp_key tkt))) (Krb5_UnsupportedEnctype (ek_type (etp_key tkt)))) (\<lambda>sess_etype.
    and_then (decrypt P sess_etype (ek_value (etp_key tkt)) KU_AP_REQ_AUTH (ed_cipher (ar_authenticator req))) (\<lambda>auth_bytes.
    and_then (map_asn1 (der_authenticator D auth_bytes)) (\<lambda>auth.
    and_then (require (ath_crealm auth = etp_crealm tkt \<and> ath_cname auth = etp_cname tkt)
               (Krb5_Rejected ''authenticator does not match the ticket'')) (\<lambda>_.
    and_then (require (\<not> \<bar>ath_ctime auth - now\<bar> > CLOCK_SKEW_SECS) (Krb5_Rejected ''clock skew too great'')) (\<lambda>_.
    and_then (ok_or (ath_cksum auth) (Krb5_Rejected ''no GSS checksum in the authenticator'')) (\<lambda>(ctype, c).
    and_then (require (ctype = GSS_CHECKSUM_TYPE \<and> 24 \<le> length c) (Krb5_Rejected ''malformed GSS checksum'')) (\<lambda>_.
      Inr (tkt, sess_etype, auth_bytes, auth, from_be_bytes (rev (take 4 (drop 20 c))), service)))))))))))))))))"

text \<open>The rest of \<open>accept_at\<close>: the context key and the reply.\<close>

definition context_reply ::
  "crypto_prims \<Rightarrow> der_ops \<Rightarrow> bytes option \<Rightarrow> bytes option \<Rightarrow>
    enc_ticket_part \<times> enctype \<times> bytes \<times> authenticator \<times> u32 \<times> string \<Rightarrow> (accepted, krb5_error) result" where
  "context_reply P D rnd_seq rnd_conf = (\<lambda>(tkt, sess_etype, auth_bytes, auth, flags, service).
    let sess_key = ek_value (etp_key tkt) in
    and_then (case ath_subkey auth of
        Some sk \<Rightarrow> and_then (ok_or (enctype_from_i32 (ek_type sk)) (Krb5_UnsupportedEnctype (ek_type sk)))
          (\<lambda>e. Inr \<lparr>ck_enctype = e, ck_key = ek_value sk, ck_acceptor_subkey = False\<rparr>)
      | None \<Rightarrow> Inr \<lparr>ck_enctype = sess_etype, ck_key = sess_key, ck_acceptor_subkey = False\<rparr>) (\<lambda>key.
    and_then (require (length (ck_key key) = key_len (ck_enctype key))
               (Krb5_Rejected ''subkey length does not match its enctype'')) (\<lambda>_.
    let initiator_seq = ucast (case ath_seq_number auth of Some n \<Rightarrow> n | None \<Rightarrow> 0) in
    and_then
      (if flags AND GSS_C_MUTUAL_FLAG \<noteq> 0 then
         and_then (ok_or rnd_seq (Krb5_Crypto ''getrandom'')) (\<lambda>r.
         let seq = from_be_bytes r AND (0x3fffffff :: u32) in
         and_then (map_asn1 (der_put_enc_ap_rep_part D \<lparr>earp_ctime = ath_ctime auth, earp_cusec = ath_cusec auth,
             earp_subkey = None, earp_seq_number = Some seq\<rparr>)) (\<lambda>part.
         and_then (encrypt P rnd_conf sess_etype sess_key KU_AP_REP_ENCPART part) (\<lambda>cipher.
         and_then (map_asn1 (der_put_ap_rep D \<lparr>arp_pvno = 5, arp_msg_type = 15,
             arp_enc_part = \<lparr>ed_etype = enctype_number sess_etype, ed_kvno = None, ed_cipher = cipher\<rparr>\<rparr>)) (\<lambda>rep.
           Inr (ucast seq, Some (token_build TOK_ID_AP_REP rep))))))
       else Inr (initiator_seq, None)) (\<lambda>(acceptor_seq, output_token).
    Inr \<lparr>acc_client = principal_string (etp_cname tkt) (etp_crealm tkt), acc_service = service, acc_key = key,
         acc_flags = flags, acc_initiator_seq = initiator_seq, acc_acceptor_seq = acceptor_seq,
         acc_expires = etp_end_time tkt, acc_output_token = output_token\<rparr>))))"

definition replay_key :: "enc_ticket_part \<Rightarrow> bytes \<Rightarrow> bytes" where
  "replay_key tkt auth_bytes =
    string_bytes (principal_string (etp_cname tkt) (etp_crealm tkt)) @ [0] @ auth_bytes"

definition accept_at ::
  "crypto_prims \<Rightarrow> der_ops \<Rightarrow> bytes option \<Rightarrow> bytes option \<Rightarrow> nat \<Rightarrow> int \<Rightarrow> acceptor \<Rightarrow> bytes \<Rightarrow>
    (accepted, krb5_error) result \<times> acceptor" where
  "accept_at P D rnd_seq rnd_conf instant now a inp =
    (case check_ap_req P D (acp_keytab a) now inp of
       Inl e \<Rightarrow> (Inl e, a)
     | Inr (tkt, sess_etype, auth_bytes, auth, flags, service) \<Rightarrow>
         let (fresh, seen) = check_and_insert instant (replay_key tkt auth_bytes) (acp_replay a);
             a' = a\<lparr>acp_replay := seen\<rparr>
         in if \<not> fresh then (Inl (Krb5_Rejected ''authenticator replayed''), a')
            else (context_reply P D rnd_seq rnd_conf (tkt, sess_etype, auth_bytes, auth, flags, service), a'))"

section \<open>Replays are refused\<close>

text \<open>A run of the acceptor: calls with the random bytes, both clocks and the token of each.\<close>

type_synonym accept_call = "bytes option \<times> bytes option \<times> nat \<times> int \<times> bytes"

fun accept_run :: "crypto_prims \<Rightarrow> der_ops \<Rightarrow> accept_call list \<Rightarrow> acceptor \<Rightarrow> acceptor" where
  "accept_run P D [] a = a"
| "accept_run P D ((r1, r2, instant, now, inp) # cs) a =
    accept_run P D cs (snd (accept_at P D r1 r2 instant now a inp))"

lemma map_of_filter_kept:
  assumes "distinct (map fst xs)" "map_of xs k = Some t" "p (k, t)"
  shows "map_of (filter p xs) k = Some t"
  using assms by (induction xs) (auto split: if_splits simp: image_iff dest: map_of_SomeD)

lemma check_and_insert_distinct:
  "distinct (map fst seen) \<Longrightarrow> distinct (map fst (snd (check_and_insert now key seen)))"
  by (simp add: check_and_insert_def Let_def distinct_update distinct_map_filter split: option.split)

lemma check_and_insert_fresh:
  "fst (check_and_insert now key seen) \<Longrightarrow> map_of (snd (check_and_insert now key seen)) key = Some now"
  by (auto simp: check_and_insert_def Let_def update_conv' split: option.splits if_splits)

text \<open>An entry younger than the time to live stays, and is refused.\<close>

lemma check_and_insert_young:
  assumes "distinct (map fst seen)" "map_of seen key = Some t" "now - t < replay_ttl"
  shows "map_of (snd (check_and_insert now k seen)) key = Some t"
    and "\<not> fst (check_and_insert now key seen)"
proof -
  define pruned where "pruned = (if 1024 < length seen then filter (\<lambda>(k, t). now - t < replay_ttl) seen else seen)"
  have m: "map_of pruned key = Some t"
    using map_of_filter_kept [OF assms(1,2), of "\<lambda>(k, t). now - t < replay_ttl"] assms(2,3)
    by (simp add: pruned_def)
  have c: "check_and_insert now k seen = (case map_of pruned k of
      Some t \<Rightarrow> if now - t < replay_ttl then (False, pruned) else (True, AList.update k now pruned)
    | None \<Rightarrow> (True, AList.update k now pruned))" for k
    unfolding check_and_insert_def Let_def pruned_def [symmetric] ..
  from m assms(3) show "\<not> fst (check_and_insert now key seen)" by (simp add: c)
  from m assms(3) show "map_of (snd (check_and_insert now k seen)) key = Some t"
    by (cases "k = key") (simp_all add: c update_conv' split: option.splits)
qed

lemma accept_at_replay:
  "acp_replay (snd (accept_at P D r1 r2 instant now a inp)) = acp_replay a \<or>
   (\<exists>key. acp_replay (snd (accept_at P D r1 r2 instant now a inp)) =
      snd (check_and_insert instant key (acp_replay a)))"
  by (auto simp: accept_at_def Let_def split_beta split: sum.splits)

lemma accept_at_keytab: "acp_keytab (snd (accept_at P D r1 r2 instant now a inp)) = acp_keytab a"
  by (auto simp: accept_at_def Let_def split_beta split: sum.splits)

lemma accept_run_young:
  assumes "distinct (map fst (acp_replay a))" "map_of (acp_replay a) key = Some t"
    and "\<forall>(r1, r2, instant, now, inp) \<in> set cs. instant - t < replay_ttl"
  shows "distinct (map fst (acp_replay (accept_run P D cs a))) \<and>
    map_of (acp_replay (accept_run P D cs a)) key = Some t \<and>
    acp_keytab (accept_run P D cs a) = acp_keytab a"
  using assms
proof (induction cs arbitrary: a)
  case (Cons c cs)
  obtain r1 r2 instant now inp where c: "c = (r1, r2, instant, now, inp)" by (cases c)
  let ?a = "snd (accept_at P D r1 r2 instant now a inp)"
  have "distinct (map fst (acp_replay ?a)) \<and> map_of (acp_replay ?a) key = Some t"
    using accept_at_replay [of P D r1 r2 instant now a inp] Cons.prems c
      check_and_insert_distinct check_and_insert_young(1) [OF Cons.prems(1,2)] by fastforce
  with Cons.IH [of ?a] Cons.prems(3) c show ?case by (simp add: accept_at_keytab)
qed simp

lemma check_ap_req_determined:
  assumes "check_ap_req P D kt now inp = Inr (tkt, e, ab, ath, fl, sv)"
    and "check_ap_req P D kt now' inp = Inr (tkt', e', ab', ath', fl', sv')"
  shows "tkt' = tkt \<and> ab' = ab"
  using assms unfolding check_ap_req_def Let_def
  by (auto simp: and_then_eq_Inr split: prod.splits)

text \<open>
  C10: a captured AP-REQ cannot be used twice. After a token is accepted at monotonic time \<open>t\<close>, the
  same token is refused at every later time within ten minutes, whatever tokens were presented in
  between and whatever the wall clock says.
\<close>

theorem authenticator_not_replayed:
  assumes "distinct (map fst (acp_replay a))"
    and "accept_at P D r1 r2 t now a inp = (Inr acc, a1)"
    and "\<forall>(r1, r2, instant, now, inp) \<in> set cs. instant - t < replay_ttl"
    and "t' - t < replay_ttl"
  shows "\<exists>e. fst (accept_at P D r1' r2' t' now' (accept_run P D cs a1) inp) = Inl e"
proof -
  from assms(2) obtain tkt se ab ath fl sv where
    c: "check_ap_req P D (acp_keytab a) now inp = Inr (tkt, se, ab, ath, fl, sv)" and
    f: "fst (check_and_insert t (replay_key tkt ab) (acp_replay a))" and
    a1: "acp_replay a1 = snd (check_and_insert t (replay_key tkt ab) (acp_replay a))"
      "acp_keytab a1 = acp_keytab a"
    by (auto simp: accept_at_def Let_def split_beta split: sum.splits if_splits)
  let ?a2 = "accept_run P D cs a1"
  have a2: "distinct (map fst (acp_replay ?a2)) \<and> map_of (acp_replay ?a2) (replay_key tkt ab) = Some t \<and>
      acp_keytab ?a2 = acp_keytab a"
    using accept_run_young [of a1 "replay_key tkt ab" t cs P D] a1 assms(1,3)
      check_and_insert_distinct check_and_insert_fresh [OF f] by simp
  show ?thesis
  proof (cases "check_ap_req P D (acp_keytab ?a2) now' inp")
    case (Inl e)
    then show ?thesis by (simp add: accept_at_def)
  next
    case (Inr x)
    obtain tkt' se' ab' ath' fl' sv' where x: "x = (tkt', se', ab', ath', fl', sv')" by (cases x)
    have "tkt' = tkt \<and> ab' = ab"
      using check_ap_req_determined [OF c, of now' tkt' se' ab' ath' fl' sv'] Inr x a2 by simp
    then have "\<not> fst (check_and_insert t' (replay_key tkt' ab') (acp_replay ?a2))"
      using check_and_insert_young(2) [of "acp_replay ?a2" "replay_key tkt ab" t t'] a2 assms(4) by simp
    with Inr x show ?thesis by (simp add: accept_at_def Let_def split_beta)
  qed
qed

definition ex_ticket :: ticket where
  "ex_ticket = \<lparr>tkt_realm = [88], tkt_sname = \<lparr>pn_type = 2, pn_string = [[110]]\<rparr>,
     tkt_enc_part = \<lparr>ed_etype = 19, ed_kvno = Some 1, ed_cipher = replicate 32 0\<rparr>\<rparr>"

definition ex_der :: der_ops where
  "ex_der = \<lparr>
     der_ap_req = (\<lambda>_. Inr \<lparr>ar_ticket = ex_ticket,
       ar_authenticator = \<lparr>ed_etype = 19, ed_kvno = None, ed_cipher = replicate 32 0\<rparr>\<rparr>),
     der_enc_ticket_part = (\<lambda>_. Inr \<lparr>etp_key = \<lparr>ek_type = 19, ek_value = replicate 16 2\<rparr>, etp_crealm = [88],
       etp_cname = \<lparr>pn_type = 1, pn_string = [[117]]\<rparr>, etp_auth_time = 90, etp_start_time = None, etp_end_time = 500\<rparr>),
     der_authenticator = (\<lambda>_. Inr \<lparr>ath_crealm = [88], ath_cname = \<lparr>pn_type = 1, pn_string = [[117]]\<rparr>,
       ath_cksum = Some (0x8003, replicate 24 0), ath_cusec = 0, ath_ctime = 100, ath_subkey = None,
       ath_seq_number = None\<rparr>),
     der_put_enc_ap_rep_part = (\<lambda>_. Inr []), der_put_ap_rep = (\<lambda>_. Inr [])\<rparr>"

definition ex_keytab :: "keytab_entry list" where
  "ex_keytab = [\<lparr>kt_realm = ''X'', kt_components = [''n''], kt_name_type = 1, kt_timestamp = 0, kt_kvno = 1,
     kt_enctype = 19, kt_key = replicate 16 1\<rparr>]"

lemma ex_token: "token_parse (token_build TOK_ID_AP_REQ []) = Inr (TOK_ID_AP_REQ, [])"
  by code_simp

lemma ex_keys: "ticket_keys ex_keytab ex_ticket Aes128CtsHmacSha256_128 = ex_keytab"
  by code_simp

lemma ex_decrypt:
  "decrypt xor_prims Aes128CtsHmacSha256_128 (replicate 16 1) 2 (replicate 32 0) = Inr []"
  "decrypt xor_prims Aes128CtsHmacSha256_128 (replicate 16 2) 11 (replicate 32 0) = Inr []"
  by code_simp+

lemma ex_accepted:
  "\<exists>acc a. accept_at xor_prims ex_der None None 5 100 (acceptor_new ex_keytab) (token_build TOK_ID_AP_REQ []) =
    (Inr acc, a)"
proof -
  have e: "enctype_from_i32 19 = Some Aes128CtsHmacSha256_128" by code_simp
  have z: "from_be_nat (replicate n 0) = 0" for n by (induction n) simp_all
  have k: "map kt_key ex_keytab = [replicate 16 1]" "ex_keytab \<noteq> []" by (simp_all add: ex_keytab_def)
  then obtain kt where kt: "ex_keytab = [kt]" "kt_key kt = replicate 16 1" by auto
  have x: "ed_etype (tkt_enc_part ex_ticket) = 19" "ed_cipher (tkt_enc_part ex_ticket) = replicate 32 0"
    by (simp_all add: ex_ticket_def)
  show ?thesis
    by (simp only: accept_at_def acceptor_new_def check_ap_req_def ex_token and_then_simps split_conv)
      (simp add: ex_der_def ex_keys [unfolded kt(1)] ex_decrypt e kt x map_asn1_def require_def ok_or_def Let_def check_and_insert_def
        CLOCK_SKEW_SECS_def GSS_CHECKSUM_TYPE_def KU_TICKET_def KU_AP_REQ_AUTH_def context_reply_def key_len_def
        from_be_bytes_def split_beta z)
qed

theorem authenticator_not_replayed_witness:
  "\<exists>acc a e. accept_at xor_prims ex_der None None 5 100 (acceptor_new ex_keytab) (token_build TOK_ID_AP_REQ []) =
     (Inr acc, a) \<and>
   fst (accept_at xor_prims ex_der None None 7 101 a (token_build TOK_ID_AP_REQ [])) = Inl e"
proof -
  obtain acc a where a: "accept_at xor_prims ex_der None None 5 100 (acceptor_new ex_keytab)
      (token_build TOK_ID_AP_REQ []) = (Inr acc, a)" using ex_accepted by blast
  from authenticator_not_replayed [OF _ a, of "[]" 7 None None 101] show ?thesis
    using a by (auto simp: acceptor_new_def replay_ttl_def)
qed

end
