(* ===== verification/Gss.thy ===== *)
theory Gss
  imports Krb5Acceptor Rpc AccessControl
begin

text \<open>
  The server side of RPCSEC\_GSS (\<open>server/gss.rs\<close>): principals and identities, the window of
  sequence numbers, context creation, the verification of calls and the protection of replies.

  A context is shared between the table and the replies under way (\<open>Arc\<close>): contexts live in the
  list \<open>gs_ctxs\<close>, the table maps handles to positions in it, and a reply keeps its position. The
  files \<open>passwd\<close> and \<open>group\<close>, the clocks and the random bytes are fields of the environment, and
  so are the XDR codecs of COMPOUND arguments and results (\<open>proto/src/lib.rs\<close>).
\<close>

section \<open>Identities\<close>

type_synonym identity = "(u32 \<times> u32 \<times> u32 list) option"

record principal_mapping =
  pm_principal :: string
  pm_uid :: u32
  pm_gid :: u32
  pm_gids :: "u32 list"

record id_map =
  im_explicit :: "string \<rightharpoonup> u32 \<times> u32 \<times> u32 list"
  im_local_realms :: "string list"

definition id_map_new :: "principal_mapping list \<Rightarrow> string list \<Rightarrow> id_map" where
  "id_map_new mappings local_realms =
    \<lparr>im_explicit = map_of (rev (map (\<lambda>m. (pm_principal m, (pm_uid m, pm_gid m, pm_gids m))) mappings)),
     im_local_realms = local_realms\<rparr>"

text \<open>Rust's \<open>split\<close>, \<open>lines\<close> and \<open>rsplit_once\<close>.\<close>

fun split_on :: "char \<Rightarrow> string \<Rightarrow> string list" where
  "split_on c [] = [[]]"
| "split_on c (x # xs) =
    (if x = c then [] # split_on c xs
     else case split_on c xs of [] \<Rightarrow> [[x]] | s # ss \<Rightarrow> (x # s) # ss)"

definition text_lines :: "string \<Rightarrow> string list" where
  "text_lines s =
    (let ls = split_on (CHR 0x0A) s
     in map (\<lambda>l. if l \<noteq> [] \<and> last l = CHR 0x0D then butlast l else l) (butlast ls)
        @ (if last ls = [] then [] else [last ls]))"

definition rsplit_once :: "char \<Rightarrow> string \<Rightarrow> (string \<times> string) option" where
  "rsplit_once c s =
    (if c \<in> set s
     then Some (rev (tl (dropWhile (\<lambda>x. x \<noteq> c) (rev s))), rev (takeWhile (\<lambda>x. x \<noteq> c) (rev s)))
     else None)"

definition passwd_line :: "string \<Rightarrow> string \<Rightarrow> (u32 \<times> u32) option" where
  "passwd_line user line =
    (let f = split_on (CHR '':'') line
     in if 4 \<le> length f \<and> f ! 0 = user
        then (case (parse_u32 (f ! 2), parse_u32 (f ! 3)) of (Some u, Some g) \<Rightarrow> Some (u, g) | _ \<Rightarrow> None)
        else None)"

definition group_line :: "string \<Rightarrow> u32 \<Rightarrow> u32 list \<Rightarrow> string \<Rightarrow> u32 list" where
  "group_line user gid gids line =
    (let f = split_on (CHR '':'') line
     in if 4 \<le> length f \<and> user \<in> set (split_on (CHR '','') (f ! 3))
        then (case parse_u32 (f ! 2) of
                Some g \<Rightarrow> if g \<noteq> gid \<and> g \<notin> set gids then gids @ [g] else gids
              | None \<Rightarrow> gids)
        else gids)"

definition find_map :: "('a \<Rightarrow> 'b option) \<Rightarrow> 'a list \<Rightarrow> 'b option" where
  "find_map f xs = (case find (\<lambda>x. f x \<noteq> None) xs of Some x \<Rightarrow> f x | None \<Rightarrow> None)"

definition idmap_passwd :: "string option \<Rightarrow> string option \<Rightarrow> string \<Rightarrow> identity" where
  "idmap_passwd passwd grp user = (case passwd of
     None \<Rightarrow> None
   | Some text \<Rightarrow> (case find_map (passwd_line user) (text_lines text) of
       None \<Rightarrow> None
     | Some (uid, gid) \<Rightarrow>
         Some (uid, gid, case grp of
           Some g \<Rightarrow> foldl (group_line user gid) [] (text_lines g)
         | None \<Rightarrow> [])))"

definition idmap_identity :: "string option \<Rightarrow> string option \<Rightarrow> id_map \<Rightarrow> string \<Rightarrow> identity" where
  "idmap_identity passwd grp m prin = (case im_explicit m prin of
     Some i \<Rightarrow> Some i
   | None \<Rightarrow> (case rsplit_once (CHR ''@'') prin of
       None \<Rightarrow> None
     | Some (name, realm) \<Rightarrow>
         if realm \<notin> set (im_local_realms m) then None
         else (case split_on (CHR ''/'') name of
                 [service, host] \<Rightarrow>
                   if service \<in> {''nfs'', ''host'', ''root''} then Some (0, 0, []) else None
               | [user] \<Rightarrow> idmap_passwd passwd grp user
               | _ \<Rightarrow> None)))"

section \<open>The sequence window\<close>

definition SEQ_WINDOW :: u32 where "SEQ_WINDOW = 128"
definition MAXSEQ :: u32 where "MAXSEQ = 0x80000000"
definition MAX_CONTEXTS :: nat where "MAX_CONTEXTS = 16384"

record seq_window =
  sw_started :: bool
  sw_max :: u32
  sw_seen :: u128

definition seq_window_default :: seq_window where
  "seq_window_default = \<lparr>sw_started = False, sw_max = 0, sw_seen = 0\<rparr>"

definition seq_accept :: "u32 \<Rightarrow> seq_window \<Rightarrow> bool \<times> seq_window" where
  "seq_accept seq w =
    (if \<not> sw_started w then (True, \<lparr>sw_started = True, sw_max = seq, sw_seen = 1\<rparr>)
     else if seq > sw_max w then
       let shift = seq - sw_max w;
           seen = (if shift \<ge> 128 then 0 else push_bit (unat shift) (sw_seen w))
       in (True, w\<lparr>sw_seen := seen OR 1, sw_max := seq\<rparr>)
     else
       let d = sw_max w - seq
       in if d \<ge> SEQ_WINDOW \<or> sw_seen w AND push_bit (unat d) 1 \<noteq> 0 then (False, w)
          else (True, w\<lparr>sw_seen := sw_seen w OR push_bit (unat d) 1\<rparr>))"

section \<open>Contexts and calls\<close>

record gss_context =
  gx_key :: context_key
  gx_principal :: string
  gx_identity :: identity
  gx_expires :: int
  gx_created :: nat
  gx_window :: seq_window
  gx_send_seq :: u64

record gss_reply =
  gr_ctx :: nat
  gr_seq :: u32
  gr_service :: u32
  gr_proc :: u32
  gr_flavor :: sec_flavor

datatype (plugins only: code size) gss_call =
    Gss_Reply rpc_reply_msg
  | Gss_Drop
  | Gss_Proceed rpc_call_msg gss_reply

record gss_server =
  gs_acceptor :: acceptor
  gs_idmap :: id_map
  gs_ctxs :: "gss_context list"
  gs_contexts :: "(bytes \<times> nat) list"

record gss_env =
  ge_prims :: crypto_prims
  ge_der :: der_ops
  ge_passwd :: "string option"
  ge_group :: "string option"
  ge_now :: int
  ge_instant :: nat
  ge_rnd_seq :: "bytes option"
  ge_rnd_conf :: "bytes option"
  ge_rnd_handle :: "bytes option"
  ge_decode_args :: "bytes \<Rightarrow> compound4args option"
  ge_encode_res :: "compound4res \<Rightarrow> bytes option"

definition gss_server_new :: "keytab_entry list \<Rightarrow> principal_mapping list \<Rightarrow> gss_server" where
  "gss_server_new keytab mappings =
    \<lparr>gs_acceptor = acceptor_new keytab, gs_idmap = id_map_new mappings (map kt_realm keytab),
     gs_ctxs = [], gs_contexts = []\<rparr>"

definition gss_denied :: "u32 \<Rightarrow> auth_stat \<Rightarrow> rpc_reply_msg" where
  "gss_denied xid stat = \<lparr>rrm_xid = xid, rrm_body = Reply (MsgDenied (AuthError stat))\<rparr>"

definition gss_accepted :: "u32 \<Rightarrow> opaque_auth \<Rightarrow> accept_body \<Rightarrow> rpc_reply_msg" where
  "gss_accepted xid verf dat =
    \<lparr>rrm_xid = xid, rrm_body = Reply (MsgAccepted \<lparr>ar_verf = verf, ar_reply_data = dat\<rparr>)\<rparr>"

definition update_ctx :: "nat \<Rightarrow> (gss_context \<Rightarrow> gss_context) \<Rightarrow> gss_server \<Rightarrow> gss_server" where
  "update_ctx c f s = s\<lparr>gs_ctxs := (gs_ctxs s)[c := f (gs_ctxs s ! c)]\<rparr>"

text \<open>\<open>fetch_add\<close> on the context's send counter.\<close>

definition next_send_seq :: "nat \<Rightarrow> gss_server \<Rightarrow> u64 \<times> gss_server" where
  "next_send_seq c s =
    (gx_send_seq (gs_ctxs s ! c), update_ctx c (\<lambda>x. x\<lparr>gx_send_seq := gx_send_seq x + 1\<rparr>) s)"

definition ctx_mic :: "gss_env \<Rightarrow> nat \<Rightarrow> bytes \<Rightarrow> gss_server \<Rightarrow> bytes \<times> gss_server" where
  "ctx_mic E c dat s =
    (let (seq, s') = next_send_seq c s
     in (case get_mic (ge_prims E) (gx_key (gs_ctxs s ! c)) Acceptor seq dat of Inr m \<Rightarrow> m | Inl _ \<Rightarrow> [], s'))"

section \<open>Context creation\<close>

definition RPCSEC_GSS_DATA :: u32 where "RPCSEC_GSS_DATA = 0"
definition RPCSEC_GSS_INIT :: u32 where "RPCSEC_GSS_INIT = 1"
definition RPCSEC_GSS_CONTINUE_INIT :: u32 where "RPCSEC_GSS_CONTINUE_INIT = 2"
definition RPCSEC_GSS_DESTROY :: u32 where "RPCSEC_GSS_DESTROY = 3"
definition RPC_GSS_SVC_NONE :: u32 where "RPC_GSS_SVC_NONE = 1"
definition RPC_GSS_SVC_INTEGRITY :: u32 where "RPC_GSS_SVC_INTEGRITY = 2"
definition RPC_GSS_SVC_PRIVACY :: u32 where "RPC_GSS_SVC_PRIVACY = 3"

definition GSS_S_NO_CONTEXT :: u32 where "GSS_S_NO_CONTEXT = push_bit 16 8"
definition GSS_S_DEFECTIVE_TOKEN :: u32 where "GSS_S_DEFECTIVE_TOKEN = push_bit 16 9"
definition GSS_S_DEFECTIVE_CREDENTIAL :: u32 where "GSS_S_DEFECTIVE_CREDENTIAL = push_bit 16 10"
definition GSS_S_CREDENTIALS_EXPIRED :: u32 where "GSS_S_CREDENTIALS_EXPIRED = push_bit 16 11"
definition GSS_S_FAILURE :: u32 where "GSS_S_FAILURE = push_bit 16 13"

definition init_res :: "bytes \<Rightarrow> u32 \<Rightarrow> u32 \<Rightarrow> bytes \<Rightarrow> bytes" where
  "init_res handle major window token =
    put_opaque handle @ be_bytes 4 major @ be_bytes 4 (0 :: u32) @ be_bytes 4 window @ put_opaque token"

definition init_fail :: "u32 \<Rightarrow> u32 \<Rightarrow> rpc_reply_msg" where
  "init_fail xid major = gss_accepted xid (AuthNull []) (SuccessRaw (init_res [] major 0 []))"

definition major_of_error :: "krb5_error \<Rightarrow> u32" where
  "major_of_error e = (case e of
     Krb5_Token _ \<Rightarrow> GSS_S_DEFECTIVE_TOKEN
   | Krb5_Asn1 _ \<Rightarrow> GSS_S_DEFECTIVE_TOKEN
   | Krb5_Rejected m \<Rightarrow> if m = ''ticket expired'' then GSS_S_CREDENTIALS_EXPIRED else GSS_S_FAILURE
   | Krb5_Integrity \<Rightarrow> GSS_S_DEFECTIVE_CREDENTIAL
   | Krb5_NoKey _ \<Rightarrow> GSS_S_DEFECTIVE_CREDENTIAL
   | _ \<Rightarrow> GSS_S_FAILURE)"

text \<open>The loop that drops the oldest contexts while the table is full.\<close>

function drop_oldest :: "gss_context list \<Rightarrow> (bytes \<times> nat) list \<Rightarrow> (bytes \<times> nat) list" where
  "drop_oldest ctxs table =
    (if length table \<ge> MAX_CONTEXTS \<and> table \<noteq> []
     then drop_oldest ctxs (remove1 (arg_min_list (\<lambda>(k, c). gx_created (ctxs ! c)) table) table)
     else table)"
  by pat_completeness auto
termination
  by (relation "measure (\<lambda>(ctxs, table). length table)") (auto simp: length_remove1 arg_min_list_in)

declare drop_oldest.simps [simp del]

definition make_room :: "int \<Rightarrow> gss_context list \<Rightarrow> (bytes \<times> nat) list \<Rightarrow> (bytes \<times> nat) list" where
  "make_room now ctxs table =
    (if length table \<ge> MAX_CONTEXTS
     then drop_oldest ctxs (filter (\<lambda>(k, c). gx_expires (ctxs ! c) > now) table)
     else table)"

definition gss_init ::
  "gss_env \<Rightarrow> u32 \<Rightarrow> call_body \<Rightarrow> rpc_sec_gss_cred \<Rightarrow> bytes \<Rightarrow> gss_server \<Rightarrow> rpc_reply_msg \<times> gss_server" where
  "gss_init E xid call cred args s =
    (if cb_proc call \<noteq> 0 then (gss_denied xid AuthBadCred, s)
     else if gc_gss_proc cred = RPCSEC_GSS_CONTINUE_INIT then (init_fail xid GSS_S_NO_CONTEXT, s)
     else (case take_opaque args of
       None \<Rightarrow> (gss_accepted xid (AuthNull []) GarbageArgs, s)
     | Some (token, _) \<Rightarrow>
         let (r, acceptor') = accept_at (ge_prims E) (ge_der E) (ge_rnd_seq E) (ge_rnd_conf E) (ge_instant E)
               (ge_now E) (gs_acceptor s) token;
             s1 = s\<lparr>gs_acceptor := acceptor'\<rparr>
         in case r of
              Inl e \<Rightarrow> (init_fail xid (major_of_error e), s1)
            | Inr acc \<Rightarrow> (case ge_rnd_handle E of
                None \<Rightarrow> (init_fail xid GSS_S_FAILURE, s1)
              | Some handle \<Rightarrow>
                  let ctx = \<lparr>gx_key = acc_key acc, gx_principal = acc_client acc,
                        gx_identity = idmap_identity (ge_passwd E) (ge_group E) (gs_idmap s1) (acc_client acc),
                        gx_expires = acc_expires acc, gx_created = ge_instant E,
                        gx_window = seq_window_default, gx_send_seq = acc_acceptor_seq acc\<rparr>;
                      c = length (gs_ctxs s1);
                      s2 = s1\<lparr>gs_ctxs := gs_ctxs s1 @ [ctx]\<rparr>;
                      (mic, s3) = ctx_mic E c (be_bytes 4 SEQ_WINDOW) s2;
                      table = make_room (ge_now E) (gs_ctxs s3) (gs_contexts s3);
                      s4 = s3\<lparr>gs_contexts := AList.update handle c table\<rparr>;
                      output = (case acc_output_token acc of Some t \<Rightarrow> t | None \<Rightarrow> [])
                  in (gss_accepted xid (GssVerf mic) (SuccessRaw (init_res handle 0 SEQ_WINDOW output)), s4))))"

section \<open>Data calls\<close>

definition remove_context :: "bytes \<Rightarrow> gss_server \<Rightarrow> gss_server" where
  "remove_context handle s = s\<lparr>gs_contexts := AList.delete handle (gs_contexts s)\<rparr>"

definition seq_verf_reply :: "gss_env \<Rightarrow> u32 \<Rightarrow> nat \<Rightarrow> u32 \<Rightarrow> accept_body \<Rightarrow> gss_server \<Rightarrow> gss_call \<times> gss_server" where
  "seq_verf_reply E xid c seq dat s =
    (let (mic, s') = ctx_mic E c (be_bytes 4 seq) s in (Gss_Reply (gss_accepted xid (GssVerf mic) dat), s'))"

text \<open>
  The arguments as the call's service protects them, with the sequence number in front stripped;
  \<open>None\<close> where the code answers GARBAGE\_ARGS.
\<close>

definition unprotect_args :: "gss_env \<Rightarrow> context_key \<Rightarrow> rpc_sec_gss_cred \<Rightarrow> bytes \<Rightarrow> bytes option" where
  "unprotect_args E key cred raw =
    (let strip = (\<lambda>args. if 4 \<le> length args \<and> (from_be_bytes (take 4 args) :: u32) = gc_seq_num cred
                        then Some (drop 4 args) else None)
     in if gc_service cred = RPC_GSS_SVC_NONE then Some raw
        else if gc_service cred = RPC_GSS_SVC_INTEGRITY then
          (case take_opaque raw of
             None \<Rightarrow> None
           | Some (body, rest) \<Rightarrow> (case take_opaque rest of
               None \<Rightarrow> None
             | Some (cksum, _) \<Rightarrow> (case verify_mic (ge_prims E) key Initiator body cksum of
                 Inl _ \<Rightarrow> None
               | Inr _ \<Rightarrow> strip body)))
        else
          (case take_opaque raw of
             None \<Rightarrow> None
           | Some (tok, _) \<Rightarrow> (case unwrap (ge_prims E) key Initiator tok of
               Inr (plain, True, _) \<Rightarrow> strip plain
             | _ \<Rightarrow> None)))"

definition identity_cred :: "gss_context \<Rightarrow> opaque_auth" where
  "identity_cred ctx = (case gx_identity ctx of
     Some (uid, gid, gids) \<Rightarrow> AuthUnix \<lparr>au_stamp = 0, au_machinename = gx_principal ctx,
       au_uid = uid, au_gid = gid, au_gids = gids\<rparr>
   | None \<Rightarrow> AuthNull [])"

text \<open>\<open>data\<close> after the sequence number is accepted.\<close>

definition gss_data_args ::
  "gss_env \<Rightarrow> u32 \<Rightarrow> call_body \<Rightarrow> rpc_sec_gss_cred \<Rightarrow> gss_call_data \<Rightarrow> nat \<Rightarrow> gss_server \<Rightarrow>
    gss_call \<times> gss_server" where
  "gss_data_args E xid call cred raw c s =
    (if gc_gss_proc cred = RPCSEC_GSS_DESTROY then
       seq_verf_reply E xid c (gc_seq_num cred) (SuccessRaw []) (remove_context (gc_handle cred) s)
     else (case from_gss_service (gc_service cred) of
       None \<Rightarrow> (Gss_Reply (gss_denied xid AuthBadCred), s)
     | Some flavor \<Rightarrow>
         let ctx = gs_ctxs s ! c; garbage = seq_verf_reply E xid c (gc_seq_num cred) GarbageArgs s
         in case unprotect_args E (gx_key ctx) cred (gd_args raw) of
              None \<Rightarrow> garbage
            | Some args \<Rightarrow>
                let proceed = (\<lambda>call. (Gss_Proceed \<lparr>rcm_xid = xid, rcm_body = Call (call\<lparr>cb_cred := identity_cred ctx\<rparr>)\<rparr>
                      \<lparr>gr_ctx = c, gr_seq = gc_seq_num cred, gr_service = gc_service cred,
                       gr_proc = cb_proc call, gr_flavor = flavor\<rparr>, s))
                in if cb_proc call = 1 \<and> cb_prog call = 100003 then
                     (case ge_decode_args E args of
                        Some a \<Rightarrow> proceed (call\<lparr>cb_args := Some a\<rparr>)
                      | None \<Rightarrow> garbage)
                   else proceed call))"

definition header_verified :: "gss_env \<Rightarrow> context_key \<Rightarrow> opaque_auth \<Rightarrow> bytes \<Rightarrow> bool" where
  "header_verified E key verf header = (case verf of
     GssVerf tok \<Rightarrow> (case verify_mic (ge_prims E) key Initiator header tok of Inr _ \<Rightarrow> True | Inl _ \<Rightarrow> False)
   | _ \<Rightarrow> False)"

definition gss_data ::
  "gss_env \<Rightarrow> u32 \<Rightarrow> call_body \<Rightarrow> rpc_sec_gss_cred \<Rightarrow> gss_call_data \<Rightarrow> gss_server \<Rightarrow> gss_call \<times> gss_server" where
  "gss_data E xid call cred raw s = (case map_of (gs_contexts s) (gc_handle cred) of
     None \<Rightarrow> (Gss_Reply (gss_denied xid RpcsecGssCredProblem), s)
   | Some c \<Rightarrow>
       let ctx = gs_ctxs s ! c
       in if gx_expires ctx < ge_now E then
            (Gss_Reply (gss_denied xid RpcsecGssCtxProblem), remove_context (gc_handle cred) s)
          else if \<not> header_verified E (gx_key ctx) (cb_verf call) (gd_header raw) then
            (Gss_Reply (gss_denied xid RpcsecGssCredProblem), s)
          else if gc_seq_num cred \<ge> MAXSEQ then
            (Gss_Reply (gss_denied xid RpcsecGssCtxProblem), remove_context (gc_handle cred) s)
          else
            let (fresh, w) = seq_accept (gc_seq_num cred) (gx_window ctx);
                s1 = update_ctx c (\<lambda>x. x\<lparr>gx_window := w\<rparr>) s
            in if \<not> fresh then (Gss_Drop, s1)
               else gss_data_args E xid call cred raw c s1)"

definition gss_handle :: "gss_env \<Rightarrow> rpc_call_msg \<Rightarrow> gss_server \<Rightarrow> gss_call \<times> gss_server" where
  "gss_handle E msg s = (case rcm_body msg of
     Call call \<Rightarrow> (case cb_cred call of
       AuthGss cred \<Rightarrow>
         if gc_version cred \<noteq> 1 then (Gss_Reply (gss_denied (rcm_xid msg) AuthBadCred), s)
         else
           let raw = (case cb_gss call of Some r \<Rightarrow> r | None \<Rightarrow> \<lparr>gd_header = [], gd_args = []\<rparr>);
               call' = call\<lparr>cb_gss := None\<rparr>
           in if gc_gss_proc cred = RPCSEC_GSS_INIT \<or> gc_gss_proc cred = RPCSEC_GSS_CONTINUE_INIT then
                (let (r, s') = gss_init E (rcm_xid msg) call' cred (gd_args raw) s in (Gss_Reply r, s'))
              else if gc_gss_proc cred = RPCSEC_GSS_DATA \<or> gc_gss_proc cred = RPCSEC_GSS_DESTROY then
                gss_data E (rcm_xid msg) call' cred raw s
              else (Gss_Reply (gss_denied (rcm_xid msg) AuthBadCred), s)
     | _ \<Rightarrow> (Gss_Reply (gss_denied (rcm_xid msg) AuthBadCred), s))
   | _ \<Rightarrow> (Gss_Drop, s))"

section \<open>Replies\<close>

definition wrap_results ::
  "gss_env \<Rightarrow> bytes option \<Rightarrow> gss_reply \<Rightarrow> bytes \<Rightarrow> gss_server \<Rightarrow> bytes option \<times> gss_server" where
  "wrap_results E rnd info results s =
    (let body = be_bytes 4 (gr_seq info) @ results
     in if gr_service info = RPC_GSS_SVC_INTEGRITY then
          (let (mic, s') = ctx_mic E (gr_ctx info) body s in (Some (put_opaque body @ put_opaque mic), s'))
        else if gr_service info = RPC_GSS_SVC_PRIVACY then
          (let (seq, s') = next_send_seq (gr_ctx info) s
           in (case wrap (ge_prims E) rnd (gx_key (gs_ctxs s ! gr_ctx info)) Acceptor seq True body of
                 Inr tok \<Rightarrow> Some (put_opaque tok) | Inl _ \<Rightarrow> None, s'))
        else (Some [], s))"

definition wrap_reply ::
  "gss_env \<Rightarrow> bytes option \<Rightarrow> rpc_reply_msg \<Rightarrow> gss_reply \<Rightarrow> gss_server \<Rightarrow> rpc_reply_msg \<times> gss_server" where
  "wrap_reply E rnd reply info s = (case rrm_body reply of
     Reply (MsgAccepted acc) \<Rightarrow>
       let (mic, s1) = ctx_mic E (gr_ctx info) (be_bytes 4 (gr_seq info)) s;
           answer = (\<lambda>dat. reply\<lparr>rrm_body := Reply (MsgAccepted \<lparr>ar_verf = GssVerf mic, ar_reply_data = dat\<rparr>)\<rparr>);
           wrapped = (\<lambda>results. case wrap_results E rnd info results s1 of
               (Some out, s2) \<Rightarrow> (answer (SuccessRaw out), s2)
             | (None, s2) \<Rightarrow> (answer GarbageArgs, s2))
       in if gr_service info = RPC_GSS_SVC_NONE then (answer (ar_reply_data acc), s1)
          else (case ar_reply_data acc of
              Success res \<Rightarrow>
                if gr_proc info = 0 then wrapped []
                else (case ge_encode_res E res of
                        Some b \<Rightarrow> wrapped b
                      | None \<Rightarrow> (answer GarbageArgs, s1))
            | SuccessRaw b \<Rightarrow> wrapped b
            | dat \<Rightarrow> (answer dat, s1))
   | _ \<Rightarrow> (reply, s))"

end
