(* ===== verification/GssSafety.thy ===== *)
theory GssSafety
  imports Gss
begin

text \<open>
  What the RPCSEC\_GSS server guarantees: its sequence window implements the set of numbers
  accepted so far, no call of a context is run twice, and only calls that the context's key
  authenticates are run, under the identity of the context's principal.
\<close>

section \<open>The sequence window refines the set of accepted numbers\<close>

text \<open>The specification: RFC 2203's window over the set of numbers accepted so far.\<close>

definition spec_accept :: "u32 \<Rightarrow> u32 set \<Rightarrow> bool \<times> u32 set" where
  "spec_accept seq S =
    (if S = {} \<or> seq > Max S \<or> (unat (Max S) - unat seq < 128 \<and> seq \<notin> S)
     then (True, insert seq S) else (False, S))"

lemma spec_accept_new:
  "finite S \<Longrightarrow> fst (spec_accept n S) \<Longrightarrow> n \<notin> S \<and> n \<in> snd (spec_accept n S)"
  using Max_ge [of S n] by (auto simp: spec_accept_def leD split: if_splits)

text \<open>The simulation relation: bit \<open>i\<close> of the window says whether \<open>max - i\<close> was accepted.\<close>

definition window_repr :: "u32 set \<Rightarrow> seq_window \<Rightarrow> bool" where
  "window_repr S w \<longleftrightarrow> finite S \<and> (sw_started w \<longleftrightarrow> S \<noteq> {}) \<and>
    (S \<noteq> {} \<longrightarrow> sw_max w = Max S \<and>
      (\<forall>i < 128. bit (sw_seen w) i \<longleftrightarrow> (\<exists>x \<in> S. unat x + i = unat (sw_max w))))"

lemma window_repr_default: "window_repr {} seq_window_default"
  by (simp add: window_repr_def seq_window_default_def)

lemma window_first: "window_repr {seq} \<lparr>sw_started = True, sw_max = seq, sw_seen = 1\<rparr>"
  by (auto simp: window_repr_def bit_1_iff)

lemma window_advance:
  assumes "window_repr S w" "S \<noteq> {}" "sw_max w < seq"
  shows "window_repr (insert seq S) (snd (seq_accept seq w))"
proof -
  let ?d = "seq - sw_max w"
  have d: "unat ?d = unat seq - unat (sw_max w)" "unat (sw_max w) < unat seq"
    using assms(3) by (simp_all add: unat_sub less_imp_le word_less_nat_alt [symmetric])
  have S: "finite S" "sw_started w" "sw_max w = Max S"
    and b: "\<And>i. i < 128 \<Longrightarrow> bit (sw_seen w) i \<longleftrightarrow> (\<exists>x \<in> S. unat x + i = unat (sw_max w))"
    using assms(1,2) by (auto simp: window_repr_def)
  have le: "unat x \<le> unat (sw_max w)" if "x \<in> S" for x
    using S that by (auto simp: word_le_nat_alt [symmetric])
  have Max: "Max (insert seq S) = seq"
    using S(1,3) assms(2,3) by (metis Max_insert max.absorb1 less_imp_le)
  have bits: "bit ((if ?d \<ge> 128 then 0 else push_bit (unat ?d) (sw_seen w)) OR 1) i \<longleftrightarrow>
      (\<exists>x \<in> insert seq S. unat x + i = unat seq)" if "i < 128" for i
  proof (cases "i = 0")
    case False
    have ge: "?d \<ge> 128 \<longleftrightarrow> 128 \<le> unat ?d" by (simp add: word_le_nat_alt)
    have "bit ((if ?d \<ge> 128 then 0 else push_bit (unat ?d) (sw_seen w)) OR 1) i \<longleftrightarrow>
        unat ?d \<le> i \<and> bit (sw_seen w) (i - unat ?d)"
      using False that ge by (auto simp: bit_or_iff bit_1_iff bit_push_bit_iff)
    also have "\<dots> \<longleftrightarrow> unat ?d \<le> i \<and> (\<exists>x \<in> S. unat x + (i - unat ?d) = unat (sw_max w))"
      using b [of "i - unat ?d"] that by auto
    also have "\<dots> \<longleftrightarrow> (\<exists>x \<in> S. unat ?d \<le> i \<and> unat x + (i - unat ?d) = unat (sw_max w))" by blast
    also have "\<dots> \<longleftrightarrow> (\<exists>x \<in> S. unat x + i = unat seq)"
    proof (rule bex_cong [OF refl])
      show "unat ?d \<le> i \<and> unat x + (i - unat ?d) = unat (sw_max w) \<longleftrightarrow> unat x + i = unat seq" if "x \<in> S" for x
        using d le [OF that] by linarith
    qed
    also have "\<dots> \<longleftrightarrow> (\<exists>x \<in> insert seq S. unat x + i = unat seq)" using False by auto
    finally show ?thesis .
  qed (auto simp: bit_or_iff bit_1_iff)
  show ?thesis
    using S assms(3) bits Max by (auto simp: window_repr_def seq_accept_def Let_def)
qed

lemma and_exp_iff_bit: "w AND 2 ^ n = 0 \<longleftrightarrow> \<not> bit w n" for w :: "'a::len word"
  by (auto simp: bit_eq_iff [of "w AND 2 ^ n"] bit_and_iff bit_exp_iff dest: bit_imp_le_length)

lemma window_behind:
  assumes "window_repr S w" "S \<noteq> {}" "\<not> sw_max w < seq"
  shows "fst (seq_accept seq w) \<longleftrightarrow> unat (Max S) - unat seq < 128 \<and> seq \<notin> S"
    and "window_repr (if fst (seq_accept seq w) then insert seq S else S) (snd (seq_accept seq w))"
proof -
  let ?d = "sw_max w - seq"
  have le: "unat seq \<le> unat (sw_max w)" using assms(3) by (simp add: word_less_nat_alt)
  then have d: "unat ?d = unat (sw_max w) - unat seq" by (simp add: unat_sub word_le_nat_alt)
  have S: "finite S" "sw_started w" "sw_max w = Max S"
    and b: "\<And>i. i < 128 \<Longrightarrow> bit (sw_seen w) i \<longleftrightarrow> (\<exists>x \<in> S. unat x + i = unat (sw_max w))"
    using assms(1,2) by (auto simp: window_repr_def)
  have ge: "?d \<ge> SEQ_WINDOW \<longleftrightarrow> \<not> unat ?d < 128" by (simp add: SEQ_WINDOW_def word_le_nat_alt not_less)
  have mem: "bit (sw_seen w) (unat ?d) \<longleftrightarrow> seq \<in> S" if "unat ?d < 128"
  proof -
    have "unat x + unat ?d = unat (sw_max w) \<longleftrightarrow> x = seq" for x
      using d le by (auto simp: word_eq_iff_unsigned [where ?'a = nat])
    then show ?thesis using b [OF that] by auto
  qed
  have acc: "fst (seq_accept seq w) \<longleftrightarrow> unat ?d < 128 \<and> seq \<notin> S"
    using S assms(3) ge mem by (auto simp: seq_accept_def Let_def and_exp_iff_bit)
  then show "fst (seq_accept seq w) \<longleftrightarrow> unat (Max S) - unat seq < 128 \<and> seq \<notin> S"
    using d S(3) by simp
  show "window_repr (if fst (seq_accept seq w) then insert seq S else S) (snd (seq_accept seq w))"
  proof (cases "fst (seq_accept seq w)")
    case False
    then have "snd (seq_accept seq w) = w"
      using S assms(3) by (auto simp: seq_accept_def Let_def split: if_splits)
    with False assms(1) show ?thesis by simp
  next
    case True
    with acc have lt: "unat ?d < 128" by simp
    from True have w': "snd (seq_accept seq w) = w\<lparr>sw_seen := sw_seen w OR push_bit (unat ?d) 1\<rparr>"
      using S assms(3) by (auto simp: seq_accept_def Let_def split: if_splits)
    have "bit (sw_seen w OR push_bit (unat ?d) 1) i \<longleftrightarrow> (\<exists>x \<in> insert seq S. unat x + i = unat (sw_max w))"
      if "i < 128" for i
      using b [OF that] that lt d le by (auto simp: bit_or_iff bit_exp_iff)
    moreover have "Max (insert seq S) = sw_max w"
      using S(1,3) assms(2,3) by (metis Max_insert max.absorb2 not_less)
    ultimately show ?thesis using True S w' by (auto simp: window_repr_def)
  qed
qed

lemma seq_accept_refines:
  assumes "window_repr S w"
  shows "fst (seq_accept seq w) = fst (spec_accept seq S) \<and>
    window_repr (snd (spec_accept seq S)) (snd (seq_accept seq w))"
proof (cases "S = {}")
  case True
  with assms window_first [of seq] show ?thesis
    by (simp add: window_repr_def spec_accept_def seq_accept_def)
next
  case False
  then have m: "sw_max w = Max S" "sw_started w" using assms by (auto simp: window_repr_def)
  show ?thesis
  proof (cases "sw_max w < seq")
    case True
    with m window_advance [OF assms False True] show ?thesis
      by (simp add: spec_accept_def seq_accept_def Let_def)
  next
    case behind: False
    from window_behind [OF assms False behind] m behind False show ?thesis
      by (auto simp: spec_accept_def split: if_splits)
  qed
qed

fun seq_run :: "u32 list \<Rightarrow> seq_window \<Rightarrow> bool list" where
  "seq_run [] w = []"
| "seq_run (n # ns) w = (let (b, w') = seq_accept n w in b # seq_run ns w')"

fun spec_run :: "u32 list \<Rightarrow> u32 set \<Rightarrow> bool list" where
  "spec_run [] S = []"
| "spec_run (n # ns) S = (let (b, S') = spec_accept n S in b # spec_run ns S')"

lemma seq_run_spec_run: "window_repr S w \<Longrightarrow> seq_run ns w = spec_run ns S"
proof (induction ns arbitrary: S w)
  case (Cons n ns)
  from seq_accept_refines [OF Cons.prems, of n] Cons.IH show ?case
    by (auto simp: split_beta Let_def)
qed simp

text \<open>
  C12: the 128-bit sequence window implements its specification. Over every sequence of numbers the
  window accepts exactly those the set of all numbers accepted before admits: the first one, every
  number above the largest, and every number less than 128 behind it that is not in the set.
\<close>

theorem seq_window_refines_set: "seq_run ns seq_window_default = spec_run ns {}"
  by (rule seq_run_spec_run [OF window_repr_default])

section \<open>Every call is run at most once\<close>

text \<open>
  The server's steps: a message handled, or a reply of an earlier call wrapped. \<open>gss_run\<close> collects
  the context and sequence number of every call that was let through.
\<close>

datatype (plugins only: code size) gss_step =
    Handle gss_env rpc_call_msg
  | Wrap_Reply gss_env "bytes option" rpc_reply_msg gss_reply

definition proceeded :: "gss_call \<Rightarrow> (nat \<times> u32) list" where
  "proceeded r = (case r of Gss_Proceed _ info \<Rightarrow> [(gr_ctx info, gr_seq info)] | _ \<Rightarrow> [])"

fun gss_run :: "gss_step list \<Rightarrow> gss_server \<Rightarrow> (nat \<times> u32) list" where
  "gss_run [] s = []"
| "gss_run (Handle E msg # steps) s =
    (let (r, s') = gss_handle E msg s in proceeded r @ gss_run steps s')"
| "gss_run (Wrap_Reply E rnd reply info # steps) s = gss_run steps (snd (wrap_reply E rnd reply info s))"

text \<open>The invariant: \<open>H c\<close> is the set of numbers context \<open>c\<close> has accepted.\<close>

definition gss_inv :: "(nat \<Rightarrow> u32 set) \<Rightarrow> gss_server \<Rightarrow> bool" where
  "gss_inv H s \<longleftrightarrow>
    (\<forall>c < length (gs_ctxs s). window_repr (H c) (gx_window (gs_ctxs s ! c))) \<and>
    (\<forall>c \<ge> length (gs_ctxs s). H c = {}) \<and> (\<forall>(k, c) \<in> set (gs_contexts s). c < length (gs_ctxs s))"

lemma gss_inv_new: "gss_inv (\<lambda>_. {}) (gss_server_new keytab mappings)"
  by (simp add: gss_inv_def gss_server_new_def)

lemma gss_inv_update_send:
  "gss_inv H s \<Longrightarrow> gss_inv H (update_ctx c (\<lambda>x. x\<lparr>gx_send_seq := v x\<rparr>) s)"
  by (cases "c < length (gs_ctxs s)") (auto simp: gss_inv_def update_ctx_def nth_list_update)

lemma gss_inv_ctx_mic: "gss_inv H s \<Longrightarrow> gss_inv H (snd (ctx_mic E c d s))"
  by (simp add: ctx_mic_def next_send_seq_def gss_inv_update_send)

lemma gss_inv_table:
  "gss_inv H s \<Longrightarrow> set t \<subseteq> set (gs_contexts s) \<Longrightarrow> gss_inv H (s\<lparr>gs_contexts := t\<rparr>)"
  by (auto simp: gss_inv_def)

lemma set_delete: "set (AList.delete k t) \<subseteq> set t"
  by (auto simp: AList.delete_eq)

lemma gss_inv_remove: "gss_inv H s \<Longrightarrow> gss_inv H (remove_context k s)"
  unfolding remove_context_def by (intro gss_inv_table set_delete)

lemma set_drop_oldest: "set (drop_oldest ctxs t) \<subseteq> set t"
proof (induction ctxs t rule: drop_oldest.induct)
  case (1 ctxs t)
  show ?case
  proof (cases "length t \<ge> MAX_CONTEXTS \<and> t \<noteq> []")
    case True
    with 1 set_remove1_subset show ?thesis by (subst drop_oldest.simps) fastforce
  qed (subst drop_oldest.simps, auto)
qed

lemma set_make_room: "set (make_room now ctxs t) \<subseteq> set t"
  using set_drop_oldest [of ctxs "filter (\<lambda>(k, c). gx_expires (ctxs ! c) > now) t"]
  by (auto simp: make_room_def)

lemma gss_inv_add:
  assumes "gss_inv H s" "gx_window ctx = seq_window_default"
  shows "gss_inv H (s\<lparr>gs_ctxs := gs_ctxs s @ [ctx]\<rparr>)"
  using assms window_repr_default by (fastforce simp: gss_inv_def nth_append less_Suc_eq)

lemma gss_inv_insert:
  assumes "gss_inv H s" "c < length (gs_ctxs s)" "set t \<subseteq> set (gs_contexts s)"
  shows "gss_inv H (s\<lparr>gs_contexts := AList.update k c t\<rparr>)"
proof -
  have "set (AList.update k c t) \<subseteq> insert (k, c) (set t)" by (induction t) auto
  with assms show ?thesis by (auto simp: gss_inv_def)
qed

lemma gss_inv_init: "gss_inv H s \<Longrightarrow> gss_inv H (snd (gss_init E xid call cred args s))"
proof -
  assume inv: "gss_inv H s"
  then have a: "gss_inv H (s\<lparr>gs_acceptor := a\<rparr>)" for a by (simp add: gss_inv_def)
  have add: "gss_inv H (s3\<lparr>gs_contexts := AList.update h (length (gs_ctxs s)) (make_room n (gs_ctxs s3) (gs_contexts s3))\<rparr>)"
    if "s3 = snd (ctx_mic E (length (gs_ctxs s)) d (s\<lparr>gs_acceptor := a, gs_ctxs := gs_ctxs s @ [ctx]\<rparr>))"
      "gx_window ctx = seq_window_default" for s3 d a ctx h n
  proof (rule gss_inv_insert [OF _ _ set_make_room])
    show "gss_inv H s3"
      unfolding that(1) using gss_inv_add [OF a [of a] that(2)] by (intro gss_inv_ctx_mic) simp
    show "length (gs_ctxs s) < length (gs_ctxs s3)"
      unfolding that(1) by (simp add: ctx_mic_def next_send_seq_def update_ctx_def)
  qed
  show ?thesis
    unfolding gss_init_def Let_def split_beta
    using inv a add [OF refl] by (simp split: option.split sum.split prod.split)
qed

text \<open>The ways \<open>data\<close> and \<open>handle\<close> go.\<close>

definition call_raw :: "call_body \<Rightarrow> gss_call_data" where
  "call_raw call = (case cb_gss call of Some r \<Rightarrow> r | None \<Rightarrow> \<lparr>gd_header = [], gd_args = []\<rparr>)"

definition after_seq :: "nat \<Rightarrow> u32 \<Rightarrow> gss_server \<Rightarrow> gss_server" where
  "after_seq c n s = update_ctx c (\<lambda>x. x\<lparr>gx_window := snd (seq_accept n (gx_window (gs_ctxs s ! c)))\<rparr>) s"

lemma after_seq_ctx:
  "gx_key (gs_ctxs (after_seq c n s) ! c) = gx_key (gs_ctxs s ! c)"
  "identity_cred (gs_ctxs (after_seq c n s) ! c) = identity_cred (gs_ctxs s ! c)"
proof -
  have "gs_ctxs (after_seq c n s) ! c = gs_ctxs s ! c \<or>
      (\<exists>w. gs_ctxs (after_seq c n s) ! c = (gs_ctxs s ! c)\<lparr>gx_window := w\<rparr>)"
    by (cases "c < length (gs_ctxs s)") (auto simp: after_seq_def update_ctx_def list_update_beyond)
  moreover have "identity_cred (x\<lparr>gx_window := w\<rparr>) = identity_cred x" for x w
    by (simp add: identity_cred_def split: option.split)
  ultimately show "gx_key (gs_ctxs (after_seq c n s) ! c) = gx_key (gs_ctxs s ! c)"
    "identity_cred (gs_ctxs (after_seq c n s) ! c) = identity_cred (gs_ctxs s ! c)"
    by auto
qed

lemma gss_data_cases:
  assumes "map_of (gs_contexts s) (gc_handle cred) = Some c"
  obtains (kept) x where "gss_data E xid call cred raw s = (Gss_Reply x, s)"
    | (removed) x where "gss_data E xid call cred raw s = (Gss_Reply x, remove_context (gc_handle cred) s)"
    | (dropped) "gss_data E xid call cred raw s = (Gss_Drop, after_seq c (gc_seq_num cred) s)"
    | (fresh) "fst (seq_accept (gc_seq_num cred) (gx_window (gs_ctxs s ! c)))"
      "ge_now E \<le> gx_expires (gs_ctxs s ! c)" "gc_seq_num cred < MAXSEQ"
      "header_verified E (gx_key (gs_ctxs s ! c)) (cb_verf call) (gd_header raw)"
      "gss_data E xid call cred raw s = gss_data_args E xid call cred raw c (after_seq c (gc_seq_num cred) s)"
proof -
  consider "gx_expires (gs_ctxs s ! c) < ge_now E"
    | "\<not> gx_expires (gs_ctxs s ! c) < ge_now E"
      "\<not> header_verified E (gx_key (gs_ctxs s ! c)) (cb_verf call) (gd_header raw)"
    | "\<not> gx_expires (gs_ctxs s ! c) < ge_now E"
      "header_verified E (gx_key (gs_ctxs s ! c)) (cb_verf call) (gd_header raw)" "gc_seq_num cred \<ge> MAXSEQ"
    | "\<not> gx_expires (gs_ctxs s ! c) < ge_now E"
      "header_verified E (gx_key (gs_ctxs s ! c)) (cb_verf call) (gd_header raw)" "\<not> gc_seq_num cred \<ge> MAXSEQ"
    by blast
  then show ?thesis
  proof cases
    case 1
    with assms show ?thesis by (intro removed) (simp add: gss_data_def)
  next
    case 2
    with assms show ?thesis by (intro kept) (simp add: gss_data_def)
  next
    case 3
    with assms show ?thesis by (intro removed) (simp add: gss_data_def)
  next
    case 4
    then have "gss_data E xid call cred raw s =
        (if \<not> fst (seq_accept (gc_seq_num cred) (gx_window (gs_ctxs s ! c)))
         then (Gss_Drop, after_seq c (gc_seq_num cred) s)
         else gss_data_args E xid call cred raw c (after_seq c (gc_seq_num cred) s))"
      using assms by (simp add: gss_data_def Let_def split_beta after_seq_def)
    with 4 dropped fresh show ?thesis by (metis not_less)
  qed
qed

lemma gss_handle_cases:
  obtains (answered) r where "gss_handle E msg s = (r, s)" "proceeded r = []"
    | (init) call cred where "gss_handle E msg s =
        (Gss_Reply (fst (gss_init E (rcm_xid msg) (call\<lparr>cb_gss := None\<rparr>) cred (gd_args (call_raw call)) s)),
         snd (gss_init E (rcm_xid msg) (call\<lparr>cb_gss := None\<rparr>) cred (gd_args (call_raw call)) s))"
    | (data) call cred where "rcm_body msg = Call call" "cb_cred call = AuthGss cred"
      "gss_handle E msg s = gss_data E (rcm_xid msg) (call\<lparr>cb_gss := None\<rparr>) cred (call_raw call) s"
proof (cases "rcm_body msg")
  case (Call call)
  show ?thesis
  proof (cases "cb_cred call")
    case (AuthGss cred)
    consider "gc_version cred \<noteq> 1"
      | "gc_version cred = 1" "gc_gss_proc cred = RPCSEC_GSS_INIT \<or> gc_gss_proc cred = RPCSEC_GSS_CONTINUE_INIT"
      | "gc_version cred = 1" "\<not> (gc_gss_proc cred = RPCSEC_GSS_INIT \<or> gc_gss_proc cred = RPCSEC_GSS_CONTINUE_INIT)"
        "gc_gss_proc cred = RPCSEC_GSS_DATA \<or> gc_gss_proc cred = RPCSEC_GSS_DESTROY"
      | "gc_version cred = 1" "\<not> (gc_gss_proc cred = RPCSEC_GSS_INIT \<or> gc_gss_proc cred = RPCSEC_GSS_CONTINUE_INIT)"
        "\<not> (gc_gss_proc cred = RPCSEC_GSS_DATA \<or> gc_gss_proc cred = RPCSEC_GSS_DESTROY)"
      by blast
    then show ?thesis
    proof cases
      case 1
      with Call AuthGss show ?thesis
        by (intro answered [of "Gss_Reply (gss_denied (rcm_xid msg) AuthBadCred)"])
          (simp_all add: gss_handle_def Let_def proceeded_def)
    next
      case 2
      with Call AuthGss show ?thesis
        by (intro init [of call cred]) (simp add: gss_handle_def Let_def split_beta call_raw_def)
    next
      case 3
      with Call AuthGss show ?thesis
        by (intro data [of call cred]) (simp_all add: gss_handle_def Let_def call_raw_def)
    next
      case 4
      with Call AuthGss show ?thesis
        by (intro answered [of "Gss_Reply (gss_denied (rcm_xid msg) AuthBadCred)"])
          (simp_all add: gss_handle_def Let_def proceeded_def)
    qed
  qed (rule answered, simp add: gss_handle_def Call, simp add: proceeded_def)+
qed (rule answered, simp add: gss_handle_def, simp add: proceeded_def)+

text \<open>One message: the history grows, and a call let through is new in it.\<close>

lemma gss_data_step:
  assumes "gss_inv H s"
  shows "\<exists>H'. gss_inv H' (snd (gss_data E xid call cred raw s)) \<and> (\<forall>c. H c \<subseteq> H' c) \<and>
    (\<forall>(c, n) \<in> set (proceeded (fst (gss_data E xid call cred raw s))). n \<notin> H c \<and> n \<in> H' c)"
proof (cases "map_of (gs_contexts s) (gc_handle cred)")
  case None
  with assms show ?thesis by (intro exI [of _ H]) (simp add: gss_data_def proceeded_def)
next
  case (Some c)
  then have c: "c < length (gs_ctxs s)" using assms by (force simp: gss_inv_def dest: map_of_SomeD)
  let ?w = "seq_accept (gc_seq_num cred) (gx_window (gs_ctxs s ! c))"
  let ?s = "after_seq c (gc_seq_num cred) s"
  let ?H = "H(c := snd (spec_accept (gc_seq_num cred) (H c)))"
  have r: "fst ?w = fst (spec_accept (gc_seq_num cred) (H c)) \<and>
      window_repr (snd (spec_accept (gc_seq_num cred) (H c))) (snd ?w)"
    using assms c by (intro seq_accept_refines) (simp add: gss_inv_def)
  have inv: "gss_inv ?H ?s" using assms c r by (auto simp: gss_inv_def after_seq_def update_ctx_def nth_list_update)
  have grow: "H x \<subseteq> ?H x" for x by (simp add: spec_accept_def subset_insertI)
  have new: "fst ?w \<Longrightarrow> gc_seq_num cred \<notin> H c \<and> gc_seq_num cred \<in> ?H c"
    using r assms c spec_accept_new [of "H c" "gc_seq_num cred"] by (simp add: gss_inv_def window_repr_def)
  have args: "gss_inv ?H (snd (gss_data_args E xid call cred raw c ?s)) \<and>
      set (proceeded (fst (gss_data_args E xid call cred raw c ?s))) \<subseteq> {(c, gc_seq_num cred)}"
    unfolding gss_data_args_def Let_def seq_verf_reply_def split_beta
    using inv by (simp add: proceeded_def gss_inv_ctx_mic gss_inv_remove split: option.split)
  from Some show ?thesis
  proof (cases rule: gss_data_cases [where E = E and xid = xid and call = call and raw = raw])
    case kept
    with assms show ?thesis by (intro exI [of _ H]) (simp add: proceeded_def)
  next
    case removed
    with assms show ?thesis by (intro exI [of _ H]) (simp add: proceeded_def gss_inv_remove)
  next
    case dropped
    with inv grow show ?thesis by (intro exI [of _ ?H]) (simp add: proceeded_def)
  next
    case fresh
    with args grow new show ?thesis by (intro exI [of _ ?H]) (auto simp del: fun_upd_apply)
  qed
qed

lemma gss_handle_step:
  assumes "gss_inv H s"
  shows "\<exists>H'. gss_inv H' (snd (gss_handle E msg s)) \<and> (\<forall>c. H c \<subseteq> H' c) \<and>
    (\<forall>(c, n) \<in> set (proceeded (fst (gss_handle E msg s))). n \<notin> H c \<and> n \<in> H' c)"
proof (cases rule: gss_handle_cases [of E msg s])
  case answered
  with assms show ?thesis by (intro exI [of _ H]) simp
next
  case init
  with gss_inv_init [OF assms] show ?thesis by (intro exI [of _ H]) (simp add: proceeded_def)
next
  case data
  with gss_data_step [OF assms] show ?thesis by simp
qed

lemma gss_inv_wrap_reply: "gss_inv H s \<Longrightarrow> gss_inv H (snd (wrap_reply E rnd reply info s))"
proof -
  assume inv: "gss_inv H s"
  have w: "gss_inv H (snd (wrap_results E rnd info b s))" if "gss_inv H s" for b s
    unfolding wrap_results_def Let_def split_beta
    using that by (simp add: gss_inv_ctx_mic next_send_seq_def gss_inv_update_send)
  show ?thesis
    unfolding wrap_reply_def Let_def split_beta
    using inv w [OF gss_inv_ctx_mic [OF inv]]
    by (simp add: gss_inv_ctx_mic split: msg_type.split reply_body.split accept_body.split option.split)
qed

lemma gss_run_new:
  assumes "gss_inv H s"
  shows "distinct (gss_run steps s) \<and> (\<forall>(c, n) \<in> set (gss_run steps s). n \<notin> H c)"
  using assms
proof (induction steps arbitrary: H s)
  case (Cons st steps)
  show ?case
  proof (cases st)
    case (Handle E msg)
    let ?r = "fst (gss_handle E msg s)" and ?s = "snd (gss_handle E msg s)"
    obtain H' where H': "gss_inv H' ?s" "\<And>c. H c \<subseteq> H' c"
        "\<forall>(c, n) \<in> set (proceeded ?r). n \<notin> H c \<and> n \<in> H' c"
      using gss_handle_step [OF Cons.prems] by blast
    have "distinct (proceeded ?r)" by (simp add: proceeded_def split: gss_call.split)
    with Cons.IH [OF H'(1)] H'(2,3) Handle show ?thesis
      by (auto simp: split_beta Let_def)
  next
    case (Wrap_Reply E rnd reply info)
    with Cons.IH [OF gss_inv_wrap_reply [OF Cons.prems]] show ?thesis by simp
  qed
qed simp

text \<open>
  C5: an RPCSEC\_GSS call is run at most once. Over every run of a new server, with calls of any
  clients on any number of contexts interleaved with replies, no two calls that are let through
  have the same context and the same sequence number.
\<close>

theorem gss_calls_run_once: "distinct (gss_run steps (gss_server_new keytab mappings))"
  using gss_run_new [OF gss_inv_new] by blast

section \<open>Only authenticated calls are run\<close>

lemma gss_data_args_proceed:
  assumes "gss_data_args E xid call cred raw c s = (Gss_Proceed msg' info, s')"
  shows "\<exists>args call'. unprotect_args E (gx_key (gs_ctxs s ! c)) cred (gd_args raw) = Some args \<and>
    gr_ctx info = c \<and> gr_seq info = gc_seq_num cred \<and> from_gss_service (gc_service cred) = Some (gr_flavor info) \<and>
    rcm_xid msg' = xid \<and> rcm_body msg' = Call call' \<and> cb_cred call' = identity_cred (gs_ctxs s ! c) \<and>
    cb_proc call' = cb_proc call \<and> cb_prog call' = cb_prog call \<and>
    (cb_proc call = 1 \<and> cb_prog call = 100003 \<longrightarrow> cb_args call' = ge_decode_args E args)"
proof -
  have nr: "seq_verf_reply E xid c n d s \<noteq> (Gss_Proceed msg' info, s')" for n d s
    by (simp add: seq_verf_reply_def split_beta)
  from assms nr have d: "gc_gss_proc cred \<noteq> RPCSEC_GSS_DESTROY"
    by (auto simp: gss_data_args_def)
  from d assms obtain flavor where f: "from_gss_service (gc_service cred) = Some flavor"
    by (cases "from_gss_service (gc_service cred)") (simp_all add: gss_data_args_def)
  from d f assms nr obtain args where
    a: "unprotect_args E (gx_key (gs_ctxs s ! c)) cred (gd_args raw) = Some args"
    by (cases "unprotect_args E (gx_key (gs_ctxs s ! c)) cred (gd_args raw)")
      (simp_all add: gss_data_args_def Let_def)
  show ?thesis
  proof (cases "cb_proc call = 1 \<and> cb_prog call = 100003")
    case True
    with d f a assms nr obtain b where b: "ge_decode_args E args = Some b"
      by (cases "ge_decode_args E args") (simp_all add: gss_data_args_def Let_def)
    show ?thesis
      by (rule exI [of _ args], rule exI [of _ "call\<lparr>cb_args := Some b, cb_cred := identity_cred (gs_ctxs s ! c)\<rparr>"])
        (use True d f a b assms in \<open>auto simp: gss_data_args_def Let_def\<close>)
  next
    case False
    show ?thesis
      by (rule exI [of _ args], rule exI [of _ "call\<lparr>cb_cred := identity_cred (gs_ctxs s ! c)\<rparr>"])
        (use False d f a assms in \<open>auto simp: gss_data_args_def Let_def\<close>)
  qed
qed

text \<open>
  A call that is let through named an established context that has not expired and a sequence number
  below the limit; its header carries a valid MIC under the context's key and, with the integrity or
  privacy service, so do its arguments; and it runs under the identity of the context's principal,
  never under a credential the client chose.
\<close>

lemma gss_proceed_authentic:
  assumes "gss_handle E msg s = (Gss_Proceed msg' info, s')"
  shows "\<exists>call cred ctx args. rcm_body msg = Call call \<and> cb_cred call = AuthGss cred \<and>
    map_of (gs_contexts s) (gc_handle cred) = Some (gr_ctx info) \<and> ctx = gs_ctxs s ! gr_ctx info \<and>
    ge_now E \<le> gx_expires ctx \<and> gc_seq_num cred < MAXSEQ \<and> gr_seq info = gc_seq_num cred \<and>
    from_gss_service (gc_service cred) = Some (gr_flavor info) \<and> rcm_xid msg' = rcm_xid msg \<and>
    (\<exists>tok seq. cb_verf call = GssVerf tok \<and>
       verify_mic (ge_prims E) (gx_key ctx) Initiator
         (case cb_gss call of Some r \<Rightarrow> gd_header r | None \<Rightarrow> []) tok = Inr seq) \<and>
    unprotect_args E (gx_key ctx) cred (case cb_gss call of Some r \<Rightarrow> gd_args r | None \<Rightarrow> []) = Some args \<and>
    (\<exists>call'. rcm_body msg' = Call call' \<and> cb_cred call' = identity_cred ctx \<and>
       cb_proc call' = cb_proc call \<and> cb_prog call' = cb_prog call \<and>
       (cb_proc call = 1 \<and> cb_prog call = 100003 \<longrightarrow> cb_args call' = ge_decode_args E args))"
proof (cases rule: gss_handle_cases [of E msg s])
  case answered
  with assms show ?thesis by (simp add: proceeded_def)
next
  case init
  with assms show ?thesis by simp
next
  case (data call cred)
  show ?thesis
  proof (cases "map_of (gs_contexts s) (gc_handle cred)")
    case None
    with data assms show ?thesis by (simp add: gss_data_def)
  next
    case (Some c)
    then show ?thesis
    proof (cases rule: gss_data_cases [where E = E and xid = "rcm_xid msg" and call = "call\<lparr>cb_gss := None\<rparr>"
          and raw = "call_raw call"])
      case fresh
      let ?s = "after_seq c (gc_seq_num cred) s"
      note key = after_seq_ctx [of c "gc_seq_num cred" s]
      from fresh data assms have
        p: "gss_data_args E (rcm_xid msg) (call\<lparr>cb_gss := None\<rparr>) cred (call_raw call) c ?s = (Gss_Proceed msg' info, s')"
        by simp
      obtain tok seq where v: "cb_verf call = GssVerf tok"
          "verify_mic (ge_prims E) (gx_key (gs_ctxs s ! c)) Initiator (gd_header (call_raw call)) tok = Inr seq"
        using fresh(4) by (auto simp: header_verified_def split: opaque_auth.splits sum.splits)
      have raw: "gd_header (call_raw call) = (case cb_gss call of Some r \<Rightarrow> gd_header r | None \<Rightarrow> [])"
        "gd_args (call_raw call) = (case cb_gss call of Some r \<Rightarrow> gd_args r | None \<Rightarrow> [])"
        by (simp_all add: call_raw_def split: option.split)
      from gss_data_args_proceed [OF p, unfolded key raw] obtain args call' where
        "unprotect_args E (gx_key (gs_ctxs s ! c)) cred (case cb_gss call of Some r \<Rightarrow> gd_args r | None \<Rightarrow> []) = Some args"
        "gr_ctx info = c" "gr_seq info = gc_seq_num cred" "from_gss_service (gc_service cred) = Some (gr_flavor info)"
        "rcm_xid msg' = rcm_xid msg" "rcm_body msg' = Call call'"
        "cb_cred call' = identity_cred (gs_ctxs s ! c)" "cb_proc call' = cb_proc call" "cb_prog call' = cb_prog call"
        "cb_proc call = 1 \<and> cb_prog call = 100003 \<longrightarrow> cb_args call' = ge_decode_args E args" by auto
      with Some data(1,2) fresh(2,3) v [unfolded raw] show ?thesis by blast
    qed (use data assms in simp_all)
  qed
qed

text \<open>A context, and a NULL call on it with the krb5 service.\<close>

definition ex_key :: context_key where
  "ex_key = \<lparr>ck_enctype = Aes128CtsHmacSha256_128, ck_key = replicate 16 2, ck_acceptor_subkey = False\<rparr>"

definition ex_krb_env :: gss_env where
  "ex_krb_env = \<lparr>ge_prims = xor_prims, ge_der = ex_der, ge_passwd = None, ge_group = None, ge_now = 100,
     ge_instant = 5, ge_rnd_seq = None, ge_rnd_conf = None, ge_rnd_handle = None,
     ge_decode_args = (\<lambda>_. None), ge_encode_res = (\<lambda>_. None)\<rparr>"

definition ex_krb_server :: gss_server where
  "ex_krb_server = \<lparr>gs_acceptor = acceptor_new ex_keytab, gs_idmap = id_map_new [] [],
     gs_ctxs = [\<lparr>gx_key = ex_key, gx_principal = ''u@X'', gx_identity = Some (7, 7, []), gx_expires = 500,
       gx_created = 1, gx_window = seq_window_default, gx_send_seq = 0\<rparr>],
     gs_contexts = [([9], 0)]\<rparr>"

definition ex_mic :: bytes where
  "ex_mic = TOK_MIC @ [0] @ replicate 5 0xff @ be_bytes 8 (3 :: u64) @ replicate 16 0"

definition ex_msg :: rpc_call_msg where
  "ex_msg = \<lparr>rcm_xid = 1, rcm_body = Call \<lparr>cb_rpcvers = 2, cb_prog = 100003, cb_vers = 4, cb_proc = 0,
     cb_cred = AuthGss \<lparr>gc_version = 1, gc_gss_proc = 0, gc_seq_num = 1, gc_service = 1, gc_handle = [9]\<rparr>,
     cb_verf = GssVerf ex_mic, cb_args = None, cb_gss = Some \<lparr>gd_header = [1, 2], gd_args = []\<rparr>\<rparr>\<rparr>"

lemma ex_mic_ok: "header_verified ex_krb_env ex_key (GssVerf ex_mic) [1, 2]"
proof -
  have "checksum xor_prims Aes128CtsHmacSha256_128 (replicate 16 2) 25 m = Inr (replicate 16 0)" for m
    by (simp add: checksum_def derive_def key_len_def is_rfc8009_def hmac_def xor_prims_def hmac_len_def)
  then show ?thesis
    by (simp add: header_verified_def verify_mic_def ex_mic_def ex_key_def ex_krb_env_def TOK_MIC_def Let_def
        check_flags_def sender_flag_def FLAG_SENT_BY_ACCEPTOR_def FLAG_ACCEPTOR_SUBKEY_def sign_usage_def numeral_eq_Suc)
qed

lemma ex_proceeds: "\<exists>msg' info s'. gss_handle ex_krb_env ex_msg ex_krb_server = (Gss_Proceed msg' info, s')"
proof -
  have "fst (seq_accept 1 seq_window_default)" by (simp add: seq_accept_def seq_window_default_def)
  then obtain w where w: "seq_accept 1 seq_window_default = (True, w)" by (metis prod.collapse)
  have "from_gss_service 1 = Some Krb5" by (simp add: from_gss_service_def)
  moreover have "\<not> MAXSEQ \<le> 1" by (simp add: MAXSEQ_def word_le_nat_alt)
  ultimately show ?thesis using w ex_mic_ok
    by (simp add: gss_handle_def ex_msg_def ex_krb_server_def gss_data_def gss_data_args_def update_ctx_def unprotect_args_def
        RPCSEC_GSS_INIT_def RPCSEC_GSS_CONTINUE_INIT_def RPCSEC_GSS_DATA_def RPCSEC_GSS_DESTROY_def
        RPC_GSS_SVC_NONE_def Let_def) (simp add: ex_krb_env_def)
qed

end
