(* ===== verification/Framing.thy ===== *)
theory Framing
  imports Xdr
begin

text \<open>
  Records on a TCP connection and the header of a call (\<open>proto/src/lib.rs\<close>): the record marking of
  \<open>XDRProtoCodec\<close> and the parser of the RPC header. The arguments of a COMPOUND are decoded by
  derived code, the parameter \<open>decode_args\<close>. The reason in a \<open>ParseError\<close> is only logged.
\<close>

section \<open>Record marking\<close>

definition MAX_RECORD :: nat where "MAX_RECORD = 8 * 1024 * 1024"

datatype record_result = Incomplete | Too_large nat | Record bytes

text \<open>The loop of \<open>decode\<close>: what it has assembled and the bytes it leaves in the buffer.\<close>

function assemble :: "bytes \<Rightarrow> bytes \<Rightarrow> record_result \<times> bytes" where
  "assemble message_data src =
    (if length src < 4 then (Incomplete, src)
     else
       let fragment_header = from_be_bytes (take 4 src) :: u32;
           is_last = bit fragment_header 31;
           len = unat (fragment_header AND 0x7FFFFFFF)
       in if MAX_RECORD < len then (Too_large len, src)
          else if length src < 4 + len then (Incomplete, src)
          else
            let fragment = take len (drop 4 src); src = drop (4 + len) src; message_data = message_data @ fragment
            in if is_last then (Record message_data, src) else assemble message_data src)"
  by pat_completeness auto
termination by (relation "measure (\<lambda>(m, src). length src)") auto

declare assemble.simps [simp del]

section \<open>The header of a call\<close>

definition read_opaque :: "bytes reader" where
  "read_opaque b = (case read_u32 b of
     None \<Rightarrow> None
   | Some (len, b) \<Rightarrow>
       if length b < unat len then None
       else (case read_exact (unat len) b of
         None \<Rightarrow> None
       | Some (dat, b) \<Rightarrow> map_option (\<lambda>(_, b). (dat, b)) (read_exact (xdr_pad (unat len)) b)))"

definition AUTH_UNIX_TYPE :: xdr_type where
  "AUTH_UNIX_TYPE = T_tuple [T_u32, T_str, T_u32, T_u32, T_seq T_u32]"

definition auth_unix_of :: "xdr_value \<Rightarrow> auth_unix option" where
  "auth_unix_of v = (case v of
     V_tuple [V_u32 stamp, V_str name, V_u32 uid, V_u32 gid, V_seq gids] \<Rightarrow>
       Some \<lparr>au_stamp = stamp, au_machinename = map (\<lambda>b. char_of (unat b)) name, au_uid = uid, au_gid = gid,
             au_gids = map (\<lambda>g. case g of V_u32 n \<Rightarrow> n | _ \<Rightarrow> 0) gids\<rparr>
   | _ \<Rightarrow> None)"

definition read_opaque_auth :: "bool \<Rightarrow> opaque_auth reader" where
  "read_opaque_auth is_cred b = (case read_u32 b of
     None \<Rightarrow> None
   | Some (flavor, b) \<Rightarrow> (case read_opaque b of
       None \<Rightarrow> None
     | Some (body, b) \<Rightarrow>
         if flavor = 0 then Some (AuthNull body, b)
         else if flavor = 1 then
           Option.bind (from_xdr AUTH_UNIX_TYPE body) (\<lambda>(v, _). map_option (\<lambda>a. (AuthUnix a, b)) (auth_unix_of v))
         else if flavor = 6 \<and> is_cred then map_option (\<lambda>c. (AuthGss c, b)) (gss_cred_parse body)
         else if flavor = 6 then Some (GssVerf body, b)
         else Some (AuthNull body, b)))"

record call_header =
  ch_xid :: u32
  ch_rpcvers :: u32
  ch_prog :: u32
  ch_vers :: u32
  ch_proc :: u32

definition read_call_header :: "call_header reader" where
  "read_call_header b = (case read_fields (replicate 6 read_u32) b of
     Some ([xid, msg_type, rpcvers, prog, vers, proc], b) \<Rightarrow>
       if msg_type \<noteq> 0 then None
       else Some (\<lparr>ch_xid = xid, ch_rpcvers = rpcvers, ch_prog = prog, ch_vers = vers, ch_proc = proc\<rparr>, b)
   | _ \<Rightarrow> None)"

definition call_of :: "call_header \<Rightarrow> opaque_auth \<Rightarrow> opaque_auth \<Rightarrow> compound4args option \<Rightarrow> gss_call_data option \<Rightarrow> rpc_call_msg" where
  "call_of h cred verf args gss = \<lparr>rcm_xid = ch_xid h, rcm_body = Call \<lparr>cb_rpcvers = ch_rpcvers h, cb_prog = ch_prog h,
     cb_vers = ch_vers h, cb_proc = ch_proc h, cb_cred = cred, cb_verf = verf, cb_args = args, cb_gss = gss\<rparr>\<rparr>"

definition rpc_from_bytes :: "(bytes \<Rightarrow> compound4args option) \<Rightarrow> bytes \<Rightarrow> rpc_call_msg option" where
  "rpc_from_bytes decode_args buffer = (case read_call_header buffer of
     None \<Rightarrow> None
   | Some (h, b1) \<Rightarrow> (case read_opaque_auth True b1 of
       None \<Rightarrow> None
     | Some (cred, b2) \<Rightarrow> (case read_opaque_auth False b2 of
         None \<Rightarrow> None
       | Some (verf, b3) \<Rightarrow>
           if (case cred of AuthGss _ \<Rightarrow> True | _ \<Rightarrow> False)
           then Some (call_of h cred verf None
                  (Some \<lparr>gd_header = take (length buffer - length b2) buffer, gd_args = b3\<rparr>))
           else if ch_proc h = 0 \<or> ch_prog h \<noteq> 100003 then Some (call_of h cred verf None None)
           else (case decode_args b3 of
             Some args \<Rightarrow> Some (call_of h cred verf (Some args) None)
           | None \<Rightarrow> Some \<lparr>rcm_xid = ch_xid h, rcm_body = ParseError ''compound deserialization failed''\<rparr>))))"

section \<open>The codec\<close>

text \<open>\<open>Inl\<close> is an I/O error, which ends the stream; \<open>Inr None\<close> waits for more bytes.\<close>

definition codec_decode ::
  "(bytes \<Rightarrow> compound4args option) \<Rightarrow> bytes \<Rightarrow> (rpc_call_msg option, nat) result \<times> bytes" where
  "codec_decode decode_args src = (case assemble [] src of
     (Incomplete, src) \<Rightarrow> (Inr None, src)
   | (Too_large n, src) \<Rightarrow> (Inl n, src)
   | (Record message_data, src) \<Rightarrow> (Inr (Some (case rpc_from_bytes decode_args message_data of
       Some msg \<Rightarrow> msg
     | None \<Rightarrow> \<lparr>rcm_xid = 0, rcm_body = ParseError ''RPC parse error''\<rparr>)), src))"

definition codec_decode_eof ::
  "(bytes \<Rightarrow> compound4args option) \<Rightarrow> bytes \<Rightarrow> (rpc_call_msg option, nat) result \<times> bytes" where
  "codec_decode_eof decode_args buf = (case codec_decode decode_args buf of
     (Inr None, _) \<Rightarrow> (Inr None, []) | r \<Rightarrow> r)"

definition codec_encode :: "bytes \<Rightarrow> bytes" where
  "codec_encode buffer_message = be_bytes 4 (of_nat (length buffer_message) + 0x80000000 :: u32) @ buffer_message"

section \<open>Reassembly\<close>

text \<open>A fragment on the wire, and a record sent as a list of fragments.\<close>

definition fragment :: "bool \<Rightarrow> bytes \<Rightarrow> bytes" where
  "fragment fin b = be_bytes 4 (of_nat (length b) OR (if fin then 0x80000000 else 0) :: u32) @ b"

fun record_frames :: "bytes list \<Rightarrow> bytes" where
  "record_frames [] = []"
| "record_frames [b] = fragment True b"
| "record_frames (b # bs) = fragment False b @ record_frames bs"

definition header_of :: "bool \<Rightarrow> nat \<Rightarrow> u32" where
  "header_of fin n = of_nat n OR (if fin then 0x80000000 else 0)"

lemma header_parts:
  assumes "n \<le> MAX_RECORD"
  shows "bit (header_of fin n) 31 = fin" and "unat (header_of fin n AND 0x7FFFFFFF) = n"
proof -
  have n: "n < 2 ^ 31" using assms by (simp add: MAX_RECORD_def)
  have small: "take_bit 31 (of_nat n :: u32) = of_nat n"
    using n by (simp add: take_bit_of_nat take_bit_nat_eq_self)
  then have "\<not> bit (of_nat n :: u32) 31"
    by (metis bit_take_bit_iff less_irrefl)
  then show "bit (header_of fin n) 31 = fin"
    by (simp add: header_of_def bit_or_iff bit_numeral_rec)
  have "header_of fin n AND mask 31 = take_bit 31 (of_nat n)"
    by (simp add: header_of_def take_bit_or flip: take_bit_eq_mask)
  then have "header_of fin n AND 0x7FFFFFFF = of_nat n"
    using small by (simp add: mask_eq_exp_minus_1)
  then show "unat (header_of fin n AND 0x7FFFFFFF) = n"
    using n by (simp add: unat_of_nat take_bit_nat_eq_self)
qed

lemma fragment_header: "fragment fin b = be_bytes 4 (header_of fin (length b)) @ b"
  by (simp add: fragment_def header_of_def)

text \<open>One round of the loop on a whole fragment.\<close>

lemma assemble_fragment:
  assumes "length b \<le> MAX_RECORD"
  shows "assemble acc (fragment fin b @ rest) = (if fin then (Record (acc @ b), rest) else assemble (acc @ b) rest)"
  by (subst assemble.simps) (simp add: header_parts[OF assms] fragment_header from_be_bytes_be_bytes leD[OF assms] Let_def)

lemma assemble_partial:
  assumes "length b \<le> MAX_RECORD" and "fragment fin b = part @ tail" and "tail \<noteq> []"
  shows "assemble acc part = (Incomplete, part)"
proof (cases "length part < 4")
  case True
  then show ?thesis by (simp add: assemble.simps)
next
  case False
  have "take 4 (fragment fin b) = take 4 part"
    using False by (simp add: assms(2))
  then have "from_be_bytes (take 4 part) = header_of fin (length b)"
    by (simp add: fragment_header from_be_bytes_be_bytes flip: \<open>take 4 (fragment fin b) = take 4 part\<close>)
  moreover have "length part < 4 + length b"
    using arg_cong[OF assms(2), of length] assms(3) by (simp add: fragment_header)
  ultimately show ?thesis
    using False header_parts[OF assms(1), of fin] assms(1) by (simp add: assemble.simps[of acc part] Let_def)
qed

text \<open>
  C34: A record that is in the buffer is assembled whole, however the client cut it into fragments,
  and exactly its bytes are taken off the buffer; the record the encoder writes is the case of one fragment.
\<close>

theorem record_assembled:
  assumes "bs \<noteq> []" and "list_all (\<lambda>b. length b \<le> MAX_RECORD) bs"
  shows "assemble [] (record_frames bs @ rest) = (Record (concat bs), rest) \<and>
    (length b \<le> MAX_RECORD \<longrightarrow> assemble [] (codec_encode b @ rest) = (Record b, rest))"
proof -
  have "assemble acc (record_frames bs @ rest) = (Record (acc @ concat bs), rest)" for acc
    using assms by (induction bs arbitrary: acc rule: record_frames.induct) (simp_all add: assemble_fragment)
  moreover have "codec_encode b = fragment True b" if "length b \<le> MAX_RECORD"
  proof -
    have "\<not> bit (of_nat (length b) :: u32) 31"
      using header_parts(1)[OF that, of False] by (simp add: header_of_def)
    moreover have "bit (2 ^ 31 :: u32) n \<longleftrightarrow> n = 31" for n
      by (simp only: bit_exp_iff) auto
    ultimately have "(of_nat (length b) :: u32) AND 2 ^ 31 = 0"
      by (intro bit_eqI) (simp only: bit_and_iff bit_0_eq, auto)
    then have "(of_nat (length b) :: u32) AND 0x80000000 = 0"
      by simp
    then show ?thesis by (simp add: codec_encode_def fragment_def disjunctive_add_eq_or)
  qed
  ultimately show ?thesis
    using assemble_fragment[of b "[]" True rest] by simp
qed

text \<open>
  C39: A record in several fragments that does not arrive at once is torn: when the buffer holds a
  whole first fragment and only part of the next one, \<open>decode\<close> takes the first fragment off the buffer,
  finds the second incomplete, and returns without it. When the rest has come, the record it
  delivers is the last fragment alone.
\<close>

theorem split_record_loses_fragment:
  assumes "length a \<le> MAX_RECORD" and "length b \<le> MAX_RECORD" and "fragment True b = part @ tail" and "tail \<noteq> []"
  shows "assemble [] (fragment False a @ part) = (Incomplete, part) \<and> assemble [] (part @ tail) = (Record b, [])"
proof -
  have "assemble ([] @ a) part = (Incomplete, part)"
    using assms(2-4) by (rule assemble_partial)
  moreover have "assemble [] ((part @ tail) @ []) = (Record b, [])"
    unfolding assms(3)[symmetric] using assms(2) by (simp add: assemble_fragment del: append_Nil2)
  ultimately show ?thesis
    using assms(1) by (simp add: assemble_fragment)
qed

section \<open>What the parser keeps\<close>

text \<open>A reader takes a prefix off its input.\<close>

definition takes_prefix :: "'a reader \<Rightarrow> bool" where
  "takes_prefix rd \<longleftrightarrow> (\<forall>b x r. rd b = Some (x, r) \<longrightarrow> (\<exists>p. b = p @ r))"

lemma takes_prefixD: "takes_prefix rd \<Longrightarrow> rd b = Some (x, r) \<Longrightarrow> \<exists>p. b = p @ r"
  by (simp add: takes_prefix_def)

lemma takes_prefix_exact: "takes_prefix (read_exact n)"
  by (auto simp: takes_prefix_def read_exact_def split: if_splits) (metis append_take_drop_id)

lemma takes_prefix_u32: "takes_prefix read_u32"
  using takes_prefix_exact[of 4] by (auto simp: takes_prefix_def read_u32_def)

lemma takes_prefix_fields: "list_all takes_prefix rds \<Longrightarrow> takes_prefix (read_fields rds)"
proof (induction rds)
  case (Cons rd rds)
  then have "takes_prefix rd" "takes_prefix (read_fields rds)" by simp_all
  then show ?case
    unfolding takes_prefix_def by (auto split: option.splits) (metis append_assoc)
qed (simp add: takes_prefix_def)

lemma takes_prefix_opaque: "takes_prefix read_opaque"
  unfolding takes_prefix_def read_opaque_def
  by (auto dest!: takes_prefixD[OF takes_prefix_u32] takes_prefixD[OF takes_prefix_exact]
      split: option.splits if_splits)

lemma takes_prefix_auth: "takes_prefix (read_opaque_auth c)"
  unfolding takes_prefix_def read_opaque_auth_def
  by (auto simp: bind_eq_Some_conv dest!: takes_prefixD[OF takes_prefix_u32] takes_prefixD[OF takes_prefix_opaque]
      split: option.splits if_splits)

lemma takes_prefix_header: "takes_prefix read_call_header"
  using takes_prefix_fields[of "replicate 6 read_u32"] takes_prefix_u32
  unfolding takes_prefix_def read_call_header_def
  by (auto simp: list_all_iff split: option.splits list.splits if_splits)

text \<open>
  The header an RPCSEC\_GSS verifier is checked against is what the client sent: in a parsed
  call with a GSS credential, the kept header and arguments are the beginning and the end of the
  record, with only the verifier between them, and no COMPOUND argument has been decoded yet.
\<close>

lemma gss_call_keeps_bytes:
  assumes "rpc_from_bytes decode_args buffer = Some msg" and "rcm_body msg = Call cb" and "cb_gss cb = Some d"
  shows "cb_args cb = None \<and> (\<exists>verf. buffer = gd_header d @ verf @ gd_args d \<and>
    read_opaque_auth False (verf @ gd_args d) = Some (cb_verf cb, gd_args d))"
proof -
  obtain h b1 b2 where run: "read_call_header buffer = Some (h, b1)" "read_opaque_auth True b1 = Some (cb_cred cb, b2)"
      "read_opaque_auth False b2 = Some (cb_verf cb, gd_args d)"
    and d: "gd_header d = take (length buffer - length b2) buffer" and args: "cb_args cb = None"
    using assms by (auto simp: rpc_from_bytes_def call_of_def split: option.splits if_splits)
  obtain p1 p2 p3 where "buffer = p1 @ b1" "b1 = p2 @ b2" "b2 = p3 @ gd_args d"
    using takes_prefixD[OF takes_prefix_header run(1)] takes_prefixD[OF takes_prefix_auth run(2)]
      takes_prefixD[OF takes_prefix_auth run(3)] by blast
  then show ?thesis
    using run(3) d args by (auto intro!: exI[of _ p3])
qed

section \<open>Examples\<close>

theorem record_assembled_witness:
  "assemble [] (record_frames [[1, 2], [3]] @ [9]) = (Record [1, 2, 3], [9]) \<and>
   assemble [] (codec_encode [7] @ []) = (Record [7], [])"
  using record_assembled[of "[[1, 2], [3]]" "[9]" "[7]"] record_assembled[of "[[7]]" "[]" "[7]"]
  by (simp add: MAX_RECORD_def)

theorem split_record_loses_fragment_witness:
  "assemble [] (fragment False [1, 2] @ [0x80]) = (Incomplete, [0x80]) \<and>
   assemble [] ([0x80] @ [0, 0, 1, 3]) = (Record [3], [])"
  using split_record_loses_fragment[of "[1, 2]" "[3]" "[0x80]" "[0, 0, 1, 3]"]
  by (simp add: MAX_RECORD_def fragment_def be_bytes_word)

text \<open>A DATA call with a GSS credential: handle 7, a verifier of two bytes, and two words of arguments.\<close>

definition ex_gss_header :: bytes where
  "ex_gss_header = [0, 0, 0, 5, 0, 0, 0, 0, 0, 0, 0, 2, 0, 1, 0x86, 0xA3, 0, 0, 0, 4, 0, 0, 0, 1,
     0, 0, 0, 6, 0, 0, 0, 24, 0, 0, 0, 1, 0, 0, 0, 0, 0, 0, 0, 1, 0, 0, 0, 2, 0, 0, 0, 1, 7, 0, 0, 0]"

definition ex_gss_record :: bytes where
  "ex_gss_record = ex_gss_header @ [0, 0, 0, 6, 0, 0, 0, 2, 1, 2, 0, 0] @ [0, 0, 0, 8, 0, 0, 0, 9]"

definition ex_gss_call :: rpc_call_msg where
  "ex_gss_call = call_of \<lparr>ch_xid = 5, ch_rpcvers = 2, ch_prog = 100003, ch_vers = 4, ch_proc = 1\<rparr>
     (AuthGss \<lparr>gc_version = 1, gc_gss_proc = 0, gc_seq_num = 1, gc_service = 2, gc_handle = [7]\<rparr>) (GssVerf [1, 2]) None
     (Some \<lparr>gd_header = ex_gss_header, gd_args = [0, 0, 0, 8, 0, 0, 0, 9]\<rparr>)"

lemma replicate_6: "replicate 6 x = [x, x, x, x, x, x]"
  by (simp add: numeral_eq_Suc)

lemma ex_gss_parse: "rpc_from_bytes (\<lambda>_. None) ex_gss_record = Some ex_gss_call"
  by (simp add: rpc_from_bytes_def ex_gss_record_def ex_gss_header_def ex_gss_call_def read_call_header_def
      read_opaque_auth_def read_opaque_def read_u32_def read_exact_def from_be_bytes_def gss_cred_parse_def get_u32_def
      get_slice_def xdr_pad_def replicate_6)

lemma gss_call_keeps_bytes_example:
  "rpc_from_bytes (\<lambda>_. None) ex_gss_record = Some ex_gss_call \<and>
   (\<exists>verf. ex_gss_record = ex_gss_header @ verf @ [0, 0, 0, 8, 0, 0, 0, 9])"
proof -
  let ?d = "\<lparr>gd_header = ex_gss_header, gd_args = [0, 0, 0, 8, 0, 0, 0, 9]\<rparr>"
  obtain cb where cb: "rcm_body ex_gss_call = Call cb" "cb_gss cb = Some ?d"
    by (simp add: ex_gss_call_def call_of_def)
  from gss_call_keeps_bytes[OF ex_gss_parse cb] ex_gss_parse show ?thesis
    by auto
qed

end
