(* ===== verification/RpcCodec.thy ===== *)
theory RpcCodec
  imports Framing Keytab
begin

text \<open>
  Credentials and verifiers on the wire (\<open>proto/src/utils.rs\<close>): the \<open>Serialize\<close> and \<open>Deserialize\<close>
  implementations of \<open>OpaqueAuth\<close>, and their agreement with the hand-written header parser of
  \<open>proto/src/lib.rs\<close>; and the encoding of a reply (\<open>proto/src/rpc_proto.rs\<close>) around the results of
  a COMPOUND, whose derived encoder is a parameter.
\<close>

definition auth_unix_value :: "auth_unix \<Rightarrow> xdr_value" where
  "auth_unix_value a = V_tuple [V_u32 (au_stamp a), V_str (string_bytes (au_machinename a)), V_u32 (au_uid a),
     V_u32 (au_gid a), V_seq (map V_u32 (au_gids a))]"

definition auth_flavor :: "opaque_auth \<Rightarrow> u32" where
  "auth_flavor a = (case a of
     AuthNull _ \<Rightarrow> 0 | AuthUnix _ \<Rightarrow> 1 | AuthShort \<Rightarrow> 2 | AuthDes \<Rightarrow> 3 | AuthGss _ \<Rightarrow> 6 | GssVerf _ \<Rightarrow> 6)"

text \<open>\<open>None\<close> is an error of the inner encoder.\<close>

definition auth_body :: "opaque_auth \<Rightarrow> bytes option" where
  "auth_body a = (case a of
     AuthNull dat \<Rightarrow> Some dat
   | AuthUnix auth \<Rightarrow> to_xdr (auth_unix_value auth)
   | AuthShort \<Rightarrow> Some []
   | AuthDes \<Rightarrow> Some []
   | AuthGss gss \<Rightarrow> Some (gss_cred_encode gss)
   | GssVerf token \<Rightarrow> Some token)"

definition opaque_auth_serialize :: "opaque_auth \<Rightarrow> xdr_value option" where
  "opaque_auth_serialize a = map_option (\<lambda>body. V_tuple [V_u32 (auth_flavor a), V_bytes body]) (auth_body a)"

definition OPAQUE_AUTH_TYPE :: xdr_type where
  "OPAQUE_AUTH_TYPE = T_tuple [T_u32, T_bytes]"

definition opaque_auth_deserialize :: "xdr_value \<Rightarrow> opaque_auth option" where
  "opaque_auth_deserialize v = (case v of
     V_tuple [V_u32 flavor, V_bytes body] \<Rightarrow>
       if flavor = 0 then Some (AuthNull body)
       else if flavor = 1 then
         Option.bind (from_xdr AUTH_UNIX_TYPE body) (\<lambda>(v, _). map_option AuthUnix (auth_unix_of v))
       else if flavor = 6 then
         Some (case gss_cred_parse body of Some cred \<Rightarrow> AuthGss cred | None \<Rightarrow> GssVerf body)
       else Some (AuthNull body)
   | _ \<Rightarrow> None)"

section \<open>Replies\<close>

primrec auth_stat_num :: "auth_stat \<Rightarrow> u32" where
  "auth_stat_num UndefAuthCred = 0"
| "auth_stat_num AuthBadCred = 1"
| "auth_stat_num AuthRejectedCred = 2"
| "auth_stat_num AuthBadverf = 3"
| "auth_stat_num AuthRejectedverf = 4"
| "auth_stat_num AuthTooWeak = 5"
| "auth_stat_num RpcsecGssCredProblem = 13"
| "auth_stat_num RpcsecGssCtxProblem = 14"

definition auth_stat_of_num :: "u32 \<Rightarrow> auth_stat option" where
  "auth_stat_of_num n =
    (if n = 0 then Some UndefAuthCred else if n = 1 then Some AuthBadCred else if n = 2 then Some AuthRejectedCred
     else if n = 3 then Some AuthBadverf else if n = 4 then Some AuthRejectedverf else if n = 5 then Some AuthTooWeak
     else if n = 13 then Some RpcsecGssCredProblem else if n = 14 then Some RpcsecGssCtxProblem else None)"

lemma auth_stat_roundtrip: "auth_stat_of_num (auth_stat_num x) = Some x"
  by (cases x) (simp_all add: auth_stat_of_num_def)

definition mismatch_value :: "mismatch_info \<Rightarrow> xdr_value" where
  "mismatch_value m = V_tuple [V_u32 (mi_low m), V_u32 (mi_high m)]"

text \<open>Results that are encoded already go out as they are, word by word; \<open>None\<close> is an encoding error.\<close>

definition accept_body_value :: "(compound4res \<Rightarrow> xdr_value) \<Rightarrow> accept_body \<Rightarrow> xdr_value option" where
  "accept_body_value enc body = (case body of
     Success res \<Rightarrow> Some (V_tuple [V_u32 0, enc res])
   | SuccessRaw b \<Rightarrow>
       if length b mod 4 \<noteq> 0 then None else Some (V_tuple [V_u32 0, V_tuple (map V_u32 (opaque_blocks b))])
   | ProgUnavail \<Rightarrow> Some (V_tuple [V_u32 1])
   | ProgMismatch m \<Rightarrow> Some (V_tuple [V_u32 2, mismatch_value m])
   | ProcUnavail \<Rightarrow> Some (V_tuple [V_u32 3])
   | GarbageArgs \<Rightarrow> Some (V_tuple [V_u32 4]))"

definition reply_body_value :: "(compound4res \<Rightarrow> xdr_value) \<Rightarrow> reply_body \<Rightarrow> xdr_value option" where
  "reply_body_value enc body = (case body of
     MsgAccepted acc \<Rightarrow> (case (opaque_auth_serialize (ar_verf acc), accept_body_value enc (ar_reply_data acc)) of
         (Some verf, Some dat) \<Rightarrow> Some (V_variant 0 (V_tuple [verf, dat]))
       | _ \<Rightarrow> None)
   | MsgDenied (RpcMismatch m) \<Rightarrow> Some (V_variant 1 (V_variant 0 (mismatch_value m)))
   | MsgDenied (AuthError stat) \<Rightarrow> Some (V_variant 1 (V_variant 1 (V_u32 (auth_stat_num stat)))))"

text \<open>No code puts a call into a reply message, and a \<open>ParseError\<close> is refused by its serialiser.\<close>

definition rpc_reply_value :: "(compound4res \<Rightarrow> xdr_value) \<Rightarrow> rpc_reply_msg \<Rightarrow> xdr_value option" where
  "rpc_reply_value enc m = (case rrm_body m of
     Reply body \<Rightarrow> map_option (\<lambda>v. V_tuple [V_u32 (rrm_xid m), V_variant 1 v]) (reply_body_value enc body)
   | _ \<Rightarrow> None)"

lemma raw_results_verbatim:
  assumes "length b mod 4 = 0"
  shows "to_xdr (V_tuple (map V_u32 (opaque_blocks b))) = Some b"
  using assms
proof (induction b rule: opaque_blocks.induct)
  case (2 x bs)
  then obtain y z w rest where bs: "bs = y # z # w # rest" "length rest mod 4 = 0"
    by (cases bs; cases "tl bs"; cases "tl (tl bs)") (auto simp: mod_Suc split: if_splits)
  with 2 have "to_xdr (V_tuple (map V_u32 (opaque_blocks rest))) = Some rest"
    by simp
  moreover have "put_u32 (from_be_bytes [x, y, z, w]) = [x, y, z, w]"
    using be_bytes_from_be_bytes[of "[x, y, z, w]"] by (simp add: put_u32_def)
  ultimately show ?case
    by (simp add: bs xdr_concat_def)
qed (simp add: xdr_concat_def)

section \<open>Credentials are read back\<close>

text \<open>The credentials the wire can carry.\<close>

definition wire_auth :: "opaque_auth \<Rightarrow> bool" where
  "wire_auth a \<longleftrightarrow> (case a of
     AuthNull dat \<Rightarrow> True
   | AuthUnix u \<Rightarrow> valid_utf8 (string_bytes (au_machinename u)) \<and> length (au_machinename u) < 2 ^ 32 \<and>
       length (au_gids u) < 2 ^ 32
   | AuthGss c \<Rightarrow> length (gc_handle c) < 2 ^ 32
   | _ \<Rightarrow> False) \<and> (\<forall>b. auth_body a = Some b \<longrightarrow> length b < 2 ^ 32)"

lemma auth_unix_of_value: "auth_unix_of (auth_unix_value u) = Some u"
proof -
  have "map (\<lambda>g. case g of V_u32 n \<Rightarrow> n | _ \<Rightarrow> 0) (map V_u32 gs) = gs" for gs
    by (induction gs) simp_all
  then show ?thesis
    using bytes_string_bytes[of "au_machinename u"]
    by (cases u) (simp add: auth_unix_of_def auth_unix_value_def bytes_string_def)
qed

lemma auth_unix_body:
  assumes "wire_auth (AuthUnix u)"
  obtains b where "to_xdr (auth_unix_value u) = Some b" "from_xdr AUTH_UNIX_TYPE b = Some (auth_unix_value u, [])"
proof -
  have "typed AUTH_UNIX_TYPE (auth_unix_value u)"
    using assms by (simp add: AUTH_UNIX_TYPE_def auth_unix_value_def wire_auth_def list_all_iff)
  from typed_codes[OF this] that show ?thesis
    by (auto simp: codes_def reads_def) (metis append_Nil2)
qed

lemma read_opaque_get: "read_opaque b = get_opaque b"
  by (auto simp: read_opaque_def get_opaque_def read_exact_def split: option.split)

text \<open>The two decoders on a flavour and a body.\<close>

lemma decoders_agree:
  assumes "to_xdr (V_tuple [V_u32 flavor, V_bytes body]) = Some b" and "flavor = 6 \<longrightarrow> gss_cred_parse body \<noteq> None"
  shows "read_opaque_auth True (b @ rest) =
    map_option (\<lambda>a. (a, rest)) (opaque_auth_deserialize (V_tuple [V_u32 flavor, V_bytes body]))"
proof -
  obtain c where c: "xdr_put_opaque body = Some c" "b = put_u32 flavor @ c"
    using assms(1) by (auto simp: xdr_concat_def split: option.splits)
  have "read_opaque (c @ rest) = Some (body, rest)"
    using reads_opaque[OF c(1)] by (simp add: read_opaque_get reads_def)
  moreover have "read_u32 (b @ rest) = Some (flavor, c @ rest)"
    using reads_u32[of flavor] by (simp add: reads_def c(2))
  ultimately show ?thesis
    using assms(2)
    by (auto simp: read_opaque_auth_def opaque_auth_deserialize_def map_option_case split: option.splits bind_splits)
qed

text \<open>
  C35: A credential is read back from its wire form. For AUTH\_NULL, AUTH\_SYS and RPCSEC\_GSS
  credentials, what the serializer writes is taken off the front of any input, exactly, by the
  header parser of the server, which returns the same credential; and serde's deserializer agrees.
\<close>

theorem credential_roundtrip:
  assumes "wire_auth a"
  shows "\<exists>v b. opaque_auth_serialize a = Some v \<and> to_xdr v = Some b \<and> opaque_auth_deserialize v = Some a \<and>
    (\<forall>rest. read_opaque_auth True (b @ rest) = Some (a, rest))"
proof -
  have "\<exists>body. auth_body a = Some body \<and> length body < 2 ^ 32 \<and>
      opaque_auth_deserialize (V_tuple [V_u32 (auth_flavor a), V_bytes body]) = Some a \<and>
      (auth_flavor a = 6 \<longrightarrow> gss_cred_parse body \<noteq> None)"
  proof (cases a)
    case (AuthUnix u)
    with assms obtain b where "to_xdr (auth_unix_value u) = Some b"
        "from_xdr AUTH_UNIX_TYPE b = Some (auth_unix_value u, [])"
      using auth_unix_body by blast
    with assms AuthUnix show ?thesis
      by (simp add: auth_body_def auth_flavor_def opaque_auth_deserialize_def auth_unix_of_value wire_auth_def)
  next
    case (AuthGss c)
    with assms have "gss_cred_parse (gss_cred_encode c) = Some c"
      using gss_cred_roundtrip[of c "[]"] by (simp add: wire_auth_def)
    with assms AuthGss show ?thesis
      by (simp add: auth_body_def auth_flavor_def opaque_auth_deserialize_def wire_auth_def)
  qed (use assms in \<open>simp_all add: wire_auth_def auth_body_def auth_flavor_def opaque_auth_deserialize_def\<close>)
  then obtain body where body: "auth_body a = Some body" "length body < 2 ^ 32"
      "opaque_auth_deserialize (V_tuple [V_u32 (auth_flavor a), V_bytes body]) = Some a"
      "auth_flavor a = 6 \<longrightarrow> gss_cred_parse body \<noteq> None"
    by blast
  let ?v = "V_tuple [V_u32 (auth_flavor a), V_bytes body]"
  obtain b where b: "to_xdr ?v = Some b"
    using body(2) by (auto simp: xdr_put_opaque_def length_u32_def xdr_concat_def)
  from decoders_agree[OF b body(4)] body(1,3) b show ?thesis
    by (auto simp: opaque_auth_serialize_def)
qed

theorem credential_roundtrip_witness:
  "\<exists>v b. opaque_auth_serialize (AuthUnix \<lparr>au_stamp = 1, au_machinename = ''host'', au_uid = 5, au_gid = 6, au_gids = [7]\<rparr>)
      = Some v \<and> to_xdr v = Some b \<and>
    (\<forall>rest. read_opaque_auth True (b @ rest) =
      Some (AuthUnix \<lparr>au_stamp = 1, au_machinename = ''host'', au_uid = 5, au_gid = 6, au_gids = [7]\<rparr>, rest))"
proof -
  let ?a = "AuthUnix \<lparr>au_stamp = 1, au_machinename = ''host'', au_uid = 5, au_gid = 6, au_gids = [7]\<rparr>"
  have "valid_utf8 (string_bytes ''host'')"
    by (simp add: string_bytes_def)
  then have "wire_auth ?a"
    by (auto simp: wire_auth_def auth_body_def auth_unix_value_def xdr_concat_def xdr_put_opaque_def length_u32_def
        put_u32_def string_bytes_def xdr_pad_def)
  from credential_roundtrip[OF this] show ?thesis
    by blast
qed

end
