(* ===== verification/Connection.thy ===== *)
theory Connection
  imports OpProps GssSafety RpcCodec "HOL-Library.Sublist"
begin

text \<open>
  A client's connection (\<open>nfs/src/lib.rs\<close>, \<open>handle_connection\<close>): every record is answered in turn.
  RPCSEC\_GSS is handled around the service; the filehandle cache lives as long as the connection.
  The theorems: replies carry the identifiers of their calls, in order, and an operation runs on an
  export that refuses AUTH\_SYS only inside an authenticated call. The socket is I/O.
\<close>

record ('w, 'f, 'l, 'c) connection =
  cn_cache :: "(nfs_fh4 \<times> nat \<times> filehandle) list"
  cn_gss :: "gss_server option"
  cn_server :: "('w, 'f, 'l, 'c) server"

record connection_context =
  cc_addr :: string
  cc_dfm :: "fm_handle option"
  cc_boot_time :: u64

text \<open>The file manager every request starts with: the one of the first export.\<close>

definition default_fm :: "('f, 'l) export_manager \<Rightarrow> fm_handle option" where
  "default_fm em = (case list_exports em of
     [] \<Rightarrow> None
   | first # _ \<Rightarrow> map_option (\<lambda>info. \<lparr>fmh_export = ei_export_id info, fmh_export_root = ei_path info\<rparr>)
       (get_export_by_id em (ei_export_id first)))"

definition connection_request ::
  "connection_context \<Rightarrow> (nfs_fh4 \<times> nat \<times> filehandle) list \<Rightarrow> gss_reply option \<Rightarrow> nfs_request" where
  "connection_request cc cache info =
    (let rq = request_new (cc_addr cc) (cc_dfm cc) (cc_boot_time cc) (Some cache) True
     in case info of Some i \<Rightarrow> rq\<lparr>rq_sec_flavor := gr_flavor i\<rparr> | None \<Rightarrow> rq)"

text \<open>The call of the service and the protection of its reply; \<open>None\<close> is a panic.\<close>

definition connection_call ::
  "('w, 'f, 'l, 'c) server_env \<Rightarrow> gss_env \<Rightarrow> bytes option \<Rightarrow> connection_context \<Rightarrow> rpc_call_msg \<Rightarrow> gss_reply option
    \<Rightarrow> ('w, 'f, 'l, 'c) connection \<Rightarrow> (rpc_reply_msg \<times> ('w, 'f, 'l, 'c) connection) option" where
  "connection_call E G rnd cc msg info cn =
    (case service_call E msg (connection_request cc (cn_cache cn) info) (cn_server cn) of
       None \<Rightarrow> None
     | Some (resp, rq, sv) \<Rightarrow>
         let cn = cn\<lparr>cn_cache := (case rq_filehandle_cache rq of Some c \<Rightarrow> c | None \<Rightarrow> []), cn_server := sv\<rparr>
         in Some (case (cn_gss cn, info) of
              (Some g, Some i) \<Rightarrow> let (resp, g) = wrap_reply G rnd resp i g in (resp, cn\<lparr>cn_gss := Some g\<rparr>)
            | _ \<Rightarrow> (resp, cn)))"

definition is_gss_call :: "rpc_call_msg \<Rightarrow> bool" where
  "is_gss_call msg = (case rcm_body msg of
     Call c \<Rightarrow> (case cb_cred c of AuthGss _ \<Rightarrow> True | _ \<Rightarrow> False) | _ \<Rightarrow> False)"

text \<open>One message of the loop: the reply that is sent, if any, and the connection after it.\<close>

definition connection_step ::
  "('w, 'f, 'l, 'c) server_env \<Rightarrow> gss_env \<Rightarrow> bytes option \<Rightarrow> connection_context \<Rightarrow> rpc_call_msg
    \<Rightarrow> ('w, 'f, 'l, 'c) connection \<Rightarrow> (rpc_reply_msg option \<times> ('w, 'f, 'l, 'c) connection) option" where
  "connection_step E G rnd cc msg cn = (case rcm_body msg of
     ParseError _ \<Rightarrow> Some (Some \<lparr>rrm_xid = rcm_xid msg, rrm_body = Reply (accepted GarbageArgs)\<rparr>, cn)
   | _ \<Rightarrow> (case (is_gss_call msg, cn_gss cn) of
       (True, Some g) \<Rightarrow> (case gss_handle G msg g of
           (Gss_Reply r, g) \<Rightarrow> Some (Some r, cn\<lparr>cn_gss := Some g\<rparr>)
         | (Gss_Drop, g) \<Rightarrow> Some (None, cn\<lparr>cn_gss := Some g\<rparr>)
         | (Gss_Proceed m info, g) \<Rightarrow>
             map_option (apfst Some) (connection_call E G rnd cc m (Some info) (cn\<lparr>cn_gss := Some g\<rparr>)))
     | _ \<Rightarrow> map_option (apfst Some) (connection_call E G rnd cc msg None cn)))"

text \<open>The loop: the replies that are sent, in order. The clocks and the random source change between messages.\<close>

fun connection_run ::
  "connection_context \<Rightarrow> (('w, 'f, 'l, 'c) server_env \<times> gss_env \<times> bytes option \<times> rpc_call_msg) list
    \<Rightarrow> ('w, 'f, 'l, 'c) connection \<Rightarrow> (rpc_reply_msg list \<times> ('w, 'f, 'l, 'c) connection) option" where
  "connection_run cc [] cn = Some ([], cn)"
| "connection_run cc ((E, G, rnd, msg) # rest) cn = (case connection_step E G rnd cc msg cn of
     None \<Rightarrow> None
   | Some (r, cn) \<Rightarrow> map_option (apfst ((@) (case r of Some x \<Rightarrow> [x] | None \<Rightarrow> []))) (connection_run cc rest cn))"

section \<open>Replies answer their calls\<close>

text \<open>
  \<open>answers xid r\<close>: the reply carries the identifier of the call and can be sent. Its verifier is one
  that needs no further encoding, and results that are encoded already are whole words.
\<close>

definition answers :: "u32 \<Rightarrow> rpc_reply_msg \<Rightarrow> bool" where
  "answers xid r \<longleftrightarrow> rrm_xid r = xid \<and> (case rrm_body r of
     Reply (MsgAccepted acc) \<Rightarrow> (case ar_verf acc of AuthNull _ \<Rightarrow> True | GssVerf _ \<Rightarrow> True | _ \<Rightarrow> False) \<and>
       (\<forall>b. ar_reply_data acc = SuccessRaw b \<longrightarrow> length b mod 4 = 0)
   | Reply (MsgDenied _) \<Rightarrow> True
   | _ \<Rightarrow> False)"

text \<open>What the encoders below a reply have to manage: the results of the COMPOUND and the length of the verifier.\<close>

definition reply_fits :: "(compound4res \<Rightarrow> xdr_value) \<Rightarrow> rpc_reply_msg \<Rightarrow> bool" where
  "reply_fits enc r \<longleftrightarrow> (\<forall>acc. rrm_body r = Reply (MsgAccepted acc) \<longrightarrow>
     (\<forall>res. ar_reply_data acc = Success res \<longrightarrow> to_xdr (enc res) \<noteq> None) \<and>
     (\<forall>dat. auth_body (ar_verf acc) = Some dat \<longrightarrow> length dat < 2 ^ 32))"

lemma xdr_concat_simps [simp]:
  "xdr_concat [] = Some []"
  "xdr_concat (Some x # bs) = map_option ((@) x) (xdr_concat bs)"
  by (simp_all add: xdr_concat_def split: option.split)

lemma accept_body_encodes:
  assumes "\<forall>b. body = SuccessRaw b \<longrightarrow> length b mod 4 = 0"
  shows "\<exists>v. accept_body_value enc body = Some v \<and>
    ((\<forall>res. body = Success res \<longrightarrow> to_xdr (enc res) \<noteq> None) \<longrightarrow> to_xdr v \<noteq> None)"
proof (cases body)
  case (SuccessRaw b)
  with assms raw_results_verbatim[of b] show ?thesis
    by (simp add: accept_body_value_def)
qed (auto simp: accept_body_value_def mismatch_value_def)

lemma verf_encodes:
  assumes "case a of AuthNull _ \<Rightarrow> True | GssVerf _ \<Rightarrow> True | _ \<Rightarrow> False"
  shows "\<exists>v dat. opaque_auth_serialize a = Some v \<and> auth_body a = Some dat \<and> (length dat < 2 ^ 32 \<longrightarrow> to_xdr v \<noteq> None)"
  using assms by (cases a) (auto simp: opaque_auth_serialize_def auth_body_def xdr_put_opaque_def length_u32_def)

lemma answers_encodes:
  assumes "answers xid r"
  shows "\<exists>v. rpc_reply_value enc r = Some v \<and> (reply_fits enc r \<longrightarrow> (\<exists>bs. to_xdr v = Some bs))"
proof -
  consider acc where "rrm_body r = Reply (MsgAccepted acc)" | rej where "rrm_body r = Reply (MsgDenied rej)"
    using assms by (auto simp: answers_def split: msg_type.splits reply_body.splits)
  then show ?thesis
  proof cases
    case 1
    obtain v dat w where v: "opaque_auth_serialize (ar_verf acc) = Some v" "auth_body (ar_verf acc) = Some dat"
        "length dat < 2 ^ 32 \<longrightarrow> to_xdr v \<noteq> None" "accept_body_value enc (ar_reply_data acc) = Some w"
        "(\<forall>res. ar_reply_data acc = Success res \<longrightarrow> to_xdr (enc res) \<noteq> None) \<longrightarrow> to_xdr w \<noteq> None"
      using verf_encodes[of "ar_verf acc"] accept_body_encodes[of "ar_reply_data acc" enc] assms
      unfolding answers_def 1 msg_type.case reply_body.case by blast
    then show ?thesis
      by (auto simp: rpc_reply_value_def reply_body_value_def 1 reply_fits_def)
  next
    case 2
    then show ?thesis
      by (cases rej) (simp_all add: rpc_reply_value_def reply_body_value_def mismatch_value_def)
  qed
qed

lemma put_opaque_words: "length (put_opaque dat) mod 4 = 0"
  using xdr_pad_mod[of "length dat"] by (simp add: put_opaque_def)

lemma init_res_words: "length (init_res handle major window token) mod 4 = 0"
  using put_opaque_words[of handle] put_opaque_words[of token] by (simp add: init_res_def) presburger

lemma answers_accepted [simp]: "answers xid \<lparr>rrm_xid = xid, rrm_body = Reply (accepted body)\<rparr> \<longleftrightarrow>
    (\<forall>b. body = SuccessRaw b \<longrightarrow> length b mod 4 = 0)"
  by (simp add: answers_def accepted_def)

lemma answers_gss [simp]:
  "answers xid (gss_denied xid stat)"
  "answers xid (gss_accepted xid (GssVerf mic) body) \<longleftrightarrow> (\<forall>b. body = SuccessRaw b \<longrightarrow> length b mod 4 = 0)"
  "answers xid (gss_accepted xid (AuthNull dat) body) \<longleftrightarrow> (\<forall>b. body = SuccessRaw b \<longrightarrow> length b mod 4 = 0)"
  by (simp_all add: answers_def gss_denied_def gss_accepted_def)

lemma gss_init_answers: "answers xid (fst (gss_init E xid call cred args s))"
  by (simp add: gss_init_def init_fail_def init_res_words Let_def split_beta split: option.split sum.split)

lemma seq_verf_reply_answers:
  "fst (seq_verf_reply E xid c n d s) = Gss_Reply r \<Longrightarrow> \<forall>b. d = SuccessRaw b \<longrightarrow> length b mod 4 = 0 \<Longrightarrow> answers xid r"
  by (auto simp: seq_verf_reply_def split_beta)

lemma gss_data_args_answers:
  assumes "fst (gss_data_args E xid call cred raw c s) = Gss_Reply r"
  shows "answers xid r"
  using assms
  by (auto simp: gss_data_args_def Let_def dest: seq_verf_reply_answers split: if_splits option.splits)

lemma gss_data_answers:
  assumes "gss_data E xid call cred raw s = (Gss_Reply r, s')"
  shows "answers xid r"
  using arg_cong[OF assms, of fst]
  by (auto simp: gss_data_def Let_def split_beta dest: gss_data_args_answers split: if_splits option.splits)

lemma gss_handle_answers: "gss_handle E msg s = (Gss_Reply r, s') \<Longrightarrow> answers (rcm_xid msg) r"
  by (auto simp: gss_handle_def Let_def split_beta gss_init_answers
      dest: gss_data_answers split: msg_type.splits opaque_auth.splits if_splits)

lemma wrap_results_words:
  assumes "fst (wrap_results E rnd info results s) = Some out"
  shows "length out mod 4 = 0"
proof -
  have "length (put_opaque b @ put_opaque c) mod 4 = 0" for b c
    using put_opaque_words[of b] put_opaque_words[of c] by (simp only: length_append) presburger
  with assms put_opaque_words show ?thesis
    by (auto simp: wrap_results_def Let_def split_beta split: if_splits sum.splits)
qed

lemma wrap_reply_answers:
  assumes "answers xid r"
  shows "answers xid (fst (wrap_reply E rnd r info s))"
  using assms wrap_results_words
  by (auto simp: wrap_reply_def answers_def Let_def split_beta
      split: msg_type.splits reply_body.splits accept_body.splits option.splits)

lemma compound_accepted: "compound E msg rq sv = Some (rq', body, sv') \<Longrightarrow> \<exists>res. body = accepted (Success res)"
  by (auto simp: compound_def compound_reply_def accepted_def split: option.splits if_splits)

lemma service_call_answers: "service_call E msg rq sv = Some (r, rq', sv') \<Longrightarrow> answers (rcm_xid msg) r"
  by (auto simp: service_call_def nfs_null_def compound_reply_def Let_def answers_def[of _ "\<lparr>rrm_xid = _, rrm_body = Reply (MsgDenied _)\<rparr>"]
      dest!: compound_accepted split: msg_type.splits if_splits)

lemma connection_call_answers:
  "connection_call E G rnd cc msg info cn = Some (r, cn') \<Longrightarrow> answers (rcm_xid msg) r"
  using wrap_reply_answers
  by (auto simp: connection_call_def Let_def split_beta dest!: service_call_answers split: option.splits)

lemma connection_step_answers:
  assumes "connection_step E G rnd cc msg cn = Some (r, cn')"
  shows "case r of Some x \<Rightarrow> answers (rcm_xid msg) x | None \<Rightarrow> is_gss_call msg"
proof (cases "\<exists>e. rcm_body msg = ParseError e")
  case True
  with assms show ?thesis
    by (auto simp: connection_step_def)
next
  case False
  then have step: "connection_step E G rnd cc msg cn = (case (is_gss_call msg, cn_gss cn) of
       (True, Some g) \<Rightarrow> (case gss_handle G msg g of
           (Gss_Reply r, g) \<Rightarrow> Some (Some r, cn\<lparr>cn_gss := Some g\<rparr>)
         | (Gss_Drop, g) \<Rightarrow> Some (None, cn\<lparr>cn_gss := Some g\<rparr>)
         | (Gss_Proceed m info, g) \<Rightarrow>
             map_option (apfst Some) (connection_call E G rnd cc m (Some info) (cn\<lparr>cn_gss := Some g\<rparr>)))
     | _ \<Rightarrow> map_option (apfst Some) (connection_call E G rnd cc msg None cn))"
    by (cases "rcm_body msg") (simp_all add: connection_step_def)
  show ?thesis
  proof (cases "is_gss_call msg \<and> cn_gss cn \<noteq> None")
    case True
    then obtain g where g: "is_gss_call msg" "cn_gss cn = Some g"
      by auto
    show ?thesis
    proof (cases "gss_handle G msg g")
      case (Pair q g')
      then show ?thesis
      proof (cases q)
        case (Gss_Proceed m info)
        with Pair have "rcm_xid m = rcm_xid msg"
          using gss_proceed_authentic[of G msg g m info g'] by blast
        with assms g Pair Gss_Proceed show ?thesis
          by (auto simp: step dest: connection_call_answers)
      qed (use assms g Pair in \<open>auto simp: step dest: gss_handle_answers\<close>)
    qed
  next
    case False
    with assms show ?thesis
      by (auto simp: step dest: connection_call_answers split: option.splits bool.splits)
  qed
qed

text \<open>The call a message leads to, and the request it is served with.\<close>

definition served ::
  "gss_env \<Rightarrow> connection_context \<Rightarrow> rpc_call_msg \<Rightarrow> ('w, 'f, 'l, 'c) connection
    \<Rightarrow> (rpc_call_msg \<times> nfs_request) option" where
  "served G cc msg cn = (case (is_gss_call msg, cn_gss cn) of
     (True, Some g) \<Rightarrow> (case gss_handle G msg g of
         (Gss_Proceed m info, _) \<Rightarrow> Some (m, connection_request cc (cn_cache cn) (Some info))
       | _ \<Rightarrow> None)
   | _ \<Rightarrow> Some (msg, connection_request cc (cn_cache cn) None))"

text \<open>A message fails only in the service, in a COMPOUND that panics.\<close>

definition panics_in ::
  "('w, 'f, 'l, 'c) server_env \<Rightarrow> gss_env \<Rightarrow> connection_context \<Rightarrow> rpc_call_msg \<Rightarrow> ('w, 'f, 'l, 'c) connection \<Rightarrow> bool" where
  "panics_in E G cc msg cn \<longleftrightarrow> (\<exists>m rq call. served G cc msg cn = Some (m, rq) \<and> rcm_body m = Call call \<and>
     cb_proc call = 1 \<and> compound E call rq (cn_server cn) = None)"

lemma service_call_None:
  "service_call E m rq sv = None \<Longrightarrow> \<exists>call. rcm_body m = Call call \<and> cb_proc call = 1 \<and> compound E call rq sv = None"
  by (auto simp: service_call_def Let_def split: msg_type.splits if_splits option.splits)

lemma connection_call_None:
  "connection_call E G rnd cc msg info cn = None \<Longrightarrow>
    service_call E msg (connection_request cc (cn_cache cn) info) (cn_server cn) = None"
  by (auto simp: connection_call_def Let_def split: option.splits prod.splits)

lemma connection_step_None:
  assumes "connection_step E G rnd cc msg cn = None"
  shows "panics_in E G cc msg cn"
proof -
  have "\<exists>m rq. served G cc msg cn = Some (m, rq) \<and> service_call E m rq (cn_server cn) = None"
    using assms
    by (cases "rcm_body msg"; cases "is_gss_call msg"; cases "cn_gss cn")
      (auto simp: connection_step_def served_def dest!: connection_call_None split: prod.splits gss_call.splits)
  then show ?thesis
    unfolding panics_in_def using service_call_None by blast
qed

lemma connection_run_None:
  assumes "connection_run cc steps cn = None"
  shows "\<exists>pre E G rnd msg post replies cn1. steps = pre @ (E, G, rnd, msg) # post \<and>
    connection_run cc pre cn = Some (replies, cn1) \<and> panics_in E G cc msg cn1"
  using assms
proof (induction cc steps cn rule: connection_run.induct)
  case (2 cc E G rnd msg rest cn)
  show ?case
  proof (cases "connection_step E G rnd cc msg cn")
    case None
    from connection_step_None[OF this] show ?thesis
      by (intro exI[of _ "[]"] exI[of _ E]) auto
  next
    case (Some p)
    obtain r cn1 where p: "p = (r, cn1)" by fastforce
    with 2 Some obtain pre E' G' rnd' msg' post replies cn2 where
      "rest = pre @ (E', G', rnd', msg') # post" "connection_run cc pre cn1 = Some (replies, cn2)"
      "panics_in E' G' cc msg' cn2"
      by fastforce
    then show ?thesis
      using Some p by (intro exI[of _ "(E, G, rnd, msg) # pre"] exI[of _ E'] exI[of _ G'] exI[of _ rnd'] exI[of _ msg']
          exI[of _ post] exI[of _ "(case r of Some x \<Rightarrow> [x] | None \<Rightarrow> []) @ replies"] exI[of _ cn2]) simp
  qed
qed simp

lemma connection_run_answers:
  assumes "connection_run cc steps cn = Some (replies, cn')"
  shows "subseq (map rrm_xid replies) (map (\<lambda>(E, G, rnd, msg). rcm_xid msg) steps) \<and>
    subseq (map (\<lambda>(E, G, rnd, msg). rcm_xid msg) (filter (\<lambda>(E, G, rnd, msg). \<not> is_gss_call msg) steps))
      (map rrm_xid replies) \<and>
    (\<forall>r \<in> set replies. \<exists>xid. answers xid r)"
  using assms
proof (induction cc steps cn arbitrary: replies rule: connection_run.induct)
  case (2 cc E G rnd msg rest cn)
  then obtain r cn1 rs where step: "connection_step E G rnd cc msg cn = Some (r, cn1)"
      "connection_run cc rest cn1 = Some (rs, cn')" "replies = (case r of Some x \<Rightarrow> [x] | None \<Rightarrow> []) @ rs"
    by (auto split: option.splits)
  with 2(1)[OF step(1) refl step(2)] connection_step_answers[OF step(1)] show ?case
    by (cases r) (auto intro: list_emb.intros(2) simp: answers_def[THEN iffD1, THEN conjunct1])
qed simp

text \<open>
  C16: A connection answers its calls in the order they arrive. If the run does not panic, the replies
  carry the transaction identifiers of their calls, in order; only an RPCSEC\_GSS call can be left
  without a reply (its sequence number was used before or is too old), so every
  other call is answered exactly once; and each reply is a value of its XDR type, which encodes to
  bytes if the results of its COMPOUND do and its verifier is shorter than \<open>2^32\<close> bytes. If the run
  does not get through, there is a first message it stops at: what came before was
  answered like this, and serving the message calls a COMPOUND that panics, which is the only way
  the loop can fail.
\<close>

theorem connection_answers_in_order:
  "case connection_run cc steps cn of
     Some (replies, cn') \<Rightarrow> subseq (map rrm_xid replies) (map (\<lambda>(E, G, rnd, msg). rcm_xid msg) steps) \<and>
       subseq (map (\<lambda>(E, G, rnd, msg). rcm_xid msg) (filter (\<lambda>(E, G, rnd, msg). \<not> is_gss_call msg) steps))
         (map rrm_xid replies) \<and>
       (\<forall>r enc. r \<in> set replies \<longrightarrow> (\<exists>v. rpc_reply_value enc r = Some v \<and>
          (reply_fits enc r \<longrightarrow> (\<exists>bs. to_xdr v = Some bs))))
   | None \<Rightarrow> \<exists>pre E G rnd msg post replies cn1. steps = pre @ (E, G, rnd, msg) # post \<and>
       connection_run cc pre cn = Some (replies, cn1) \<and> panics_in E G cc msg cn1"
proof (cases "connection_run cc steps cn")
  case None
  then show ?thesis
    using connection_run_None[OF None] by simp
next
  case (Some p)
  obtain replies cn' where p: "p = (replies, cn')" by fastforce
  note run = connection_run_answers[OF Some[unfolded p]]
  then have "\<exists>v. rpc_reply_value enc r = Some v \<and> (reply_fits enc r \<longrightarrow> (\<exists>bs. to_xdr v = Some bs))"
    if "r \<in> set replies" for r enc
    using that answers_encodes by blast
  with run show ?thesis
    by (simp add: Some p)
qed

section \<open>Exports that require Kerberos\<close>

text \<open>
  \<open>step_runs E G cc msg cn a rq sv\<close>: in answering \<open>msg\<close> the connection calls the handler of the operation
  \<open>a\<close>, in the request state \<open>rq\<close> and the server state \<open>sv\<close>.
\<close>

definition step_runs ::
  "('w, 'f, 'l, 'c) server_env \<Rightarrow> gss_env \<Rightarrow> connection_context \<Rightarrow> rpc_call_msg \<Rightarrow> ('w, 'f, 'l, 'c) connection
    \<Rightarrow> nfs_arg_op \<Rightarrow> nfs_request \<Rightarrow> ('w, 'f, 'l, 'c) server \<Rightarrow> bool" where
  "step_runs E G cc msg cn a rq' sv' \<longleftrightarrow> (\<exists>m rq cb args k. served G cc msg cn = Some (m, rq) \<and>
     rcm_body m = Call cb \<and> (\<forall>cred. cb_cred cb \<noteq> AuthGss cred) \<and> cb_args cb = Some args \<and>
     a = compound4args_argarray args ! k \<and>
     dispatched E (compound4args_argarray args) (rq\<lparr>rq_auth_cred := Some (cb_cred cb)\<rparr>) (cn_server cn) k rq' sv')"

text \<open>The step hands exactly the served call to the service, and nothing otherwise.\<close>

lemma connection_step_served:
  assumes "connection_step E G rnd cc msg cn = Some (r, cn')" and "\<And>e. rcm_body msg \<noteq> ParseError e"
  shows "case served G cc msg cn of
     None \<Rightarrow> cn_server cn' = cn_server cn
   | Some (m, rq) \<Rightarrow> \<exists>resp rq'. service_call E m rq (cn_server cn) = Some (resp, rq', cn_server cn')"
  using assms
  by (cases "rcm_body msg"; cases "is_gss_call msg"; cases "cn_gss cn")
    (auto simp: connection_step_def served_def connection_call_def Let_def split_beta
      split: prod.splits gss_call.splits option.splits)

lemma connection_request_start:
  "rq_current_export_id (connection_request cc cache info) = None"
  "rq_sec_flavor (connection_request cc cache info) = (case info of Some i \<Rightarrow> gr_flavor i | None \<Rightarrow> Sys)"
  "rq_client_addr (connection_request cc cache info) = cc_addr cc"
  by (simp_all add: connection_request_def request_new_def Let_def split: option.split)

text \<open>
  C3: An export whose flavours do not include AUTH\_SYS serves authenticated callers only. If, while
  the current filehandle is on such an export, an operation is run that is not exempt from the check
  of the flavour (exempt are PUTFH, PUTROOTFH, PUTPUBFH, RESTOREFH, LOOKUP, LOOKUPP, SECINFO and
  SECINFO\_NO\_NAME, which do run under AUTH\_SYS; operations run with no current export are not
  covered), then the message it came in is an RPCSEC\_GSS call on an established context that has not
  expired, its header carries a valid MIC under the context's key, its service is one of the export's
  flavours, the client's address is on the export's list, and the caller whose permissions are
  checked is the identity of the context's principal.
\<close>

theorem kerberos_export_needs_context:
  assumes run: "step_runs E G cc msg cn a rq' sv'"
    and "rq_current_export_id rq' = Some e" and "e \<noteq> PSEUDO_ROOT_EXPORT_ID"
    and "get_export_by_id (sv_exports (cn_server cn)) e = Some info"
    and "em_objs (sv_exports (cn_server cn)) (ei_export_id info) = Some ob"
    and sys: "\<not> allows_flavor (eo_access_control ob) Sys" and op: "\<not> wrongsec_exempt (op_code a)"
  shows "\<exists>g call cred c flavor tok seq. cn_gss cn = Some g \<and> rcm_body msg = Call call \<and> cb_cred call = AuthGss cred \<and>
    map_of (gs_contexts g) (gc_handle cred) = Some c \<and> ge_now G \<le> gx_expires (gs_ctxs g ! c) \<and>
    cb_verf call = GssVerf tok \<and>
    verify_mic (ge_prims G) (gx_key (gs_ctxs g ! c)) Initiator
      (case cb_gss call of Some r \<Rightarrow> gd_header r | None \<Rightarrow> []) tok = Inr seq \<and>
    from_gss_service (gc_service cred) = Some flavor \<and> allows_flavor (eo_access_control ob) flavor \<and>
    check_client (eo_access_control ob) (cc_addr cc) \<and>
    check_op E sv' a rq' (caller_new (Some (identity_cred (gs_ctxs g ! c))) (Some (eo_access_control ob))) = Inr ()"
proof -
  obtain m rq cb args k where m: "served G cc msg cn = Some (m, rq)" "rcm_body m = Call cb"
      "\<forall>cred. cb_cred cb \<noteq> AuthGss cred" "a = compound4args_argarray args ! k" "cb_args cb = Some args"
    and d: "dispatched E (compound4args_argarray args) (rq\<lparr>rq_auth_cred := Some (cb_cred cb)\<rparr>) (cn_server cn) k rq' sv'"
    using run unfolding step_runs_def by blast
  let ?rq = "rq\<lparr>rq_auth_cred := Some (cb_cred cb)\<rparr>"
  obtain i where rq: "rq = connection_request cc (cn_cache cn) i"
    using m(1) by (auto simp: served_def split: option.splits prod.splits bool.splits gss_call.splits)
  have "rq_current_export_id ?rq = None"
    by (simp add: rq connection_request_start)
  note on = dispatched_on_export[OF d this assms(2-5)]
  note adm = dispatched_admitted[OF on(1,4)]
  have ok: "check_client (eo_access_control ob) (cc_addr cc)" "allows_flavor (eo_access_control ob) (rq_sec_flavor rq)"
      "check_op E sv' a rq' (caller_new (Some (cb_cred cb)) (Some (eo_access_control ob))) = Inr ()"
    using on(3,5) op by (auto simp: refusal_def adm rq connection_request_start m(4) split: if_splits sum.splits)
  have "rq \<noteq> connection_request cc (cn_cache cn) None"
    using ok(2) sys by (auto simp: connection_request_start)
  then obtain g i g' where g: "cn_gss cn = Some g" "gss_handle G msg g = (Gss_Proceed m i, g')"
      "rq = connection_request cc (cn_cache cn) (Some i)"
    using m(1) by (auto simp: served_def split: option.splits prod.splits bool.splits gss_call.splits)
  then show ?thesis
    using gss_proceed_authentic[OF g(2)] ok m(2) by (fastforce simp: connection_request_start)
qed

section \<open>Examples\<close>

definition ex_context :: connection_context where
  "ex_context = \<lparr>cc_addr = ''10.0.0.1:700'', cc_dfm = None, cc_boot_time = 0\<rparr>"

definition ex_null :: rpc_call_msg where
  "ex_null = \<lparr>rcm_xid = 7, rcm_body = Call \<lparr>cb_rpcvers = 2, cb_prog = 100003, cb_vers = 4, cb_proc = 0,
     cb_cred = AuthNull [], cb_verf = AuthNull [], cb_args = None, cb_gss = None\<rparr>\<rparr>"

theorem connection_answers_in_order_witness:
  "\<exists>replies cn'. connection_run ex_context
      [(ex_env, ex_krb_env, None, ex_null),
       (ex_env, ex_krb_env, None, \<lparr>rcm_xid = 9, rcm_body = ParseError ''bad''\<rparr>)]
      \<lparr>cn_cache = [], cn_gss = None, cn_server = ex_server\<rparr> = Some (replies, cn') \<and>
    subseq (map rrm_xid replies) [7, 9] \<and> subseq [7, 9] (map rrm_xid replies) \<and>
    list_all (\<lambda>r. \<exists>v. rpc_reply_value (\<lambda>_. V_tuple []) r = Some v) replies"
proof -
  let ?steps = "[(ex_env, ex_krb_env, None, ex_null),
       (ex_env, ex_krb_env, None, \<lparr>rcm_xid = 9, rcm_body = ParseError ''bad''\<rparr>)]"
  let ?cn = "\<lparr>cn_cache = [], cn_gss = None, cn_server = ex_server\<rparr>"
  have "\<exists>replies cn'. connection_run ex_context ?steps ?cn = Some (replies, cn')"
    by (simp add: connection_step_def ex_null_def is_gss_call_def connection_call_def service_call_def
        NFS_PROGRAM_def Let_def)
  then obtain replies cn' where run: "connection_run ex_context ?steps ?cn = Some (replies, cn')"
    by blast
  from connection_answers_in_order[of ?steps ex_context ?cn] run show ?thesis
    unfolding run by (auto simp: ex_null_def is_gss_call_def list_all_iff)
qed

text \<open>The COMPOUND of the earlier example, on an export that accepts krb5 only, over a Kerberos context.\<close>

definition ex_gss_env :: gss_env where
  "ex_gss_env = ex_krb_env\<lparr>ge_decode_args := (\<lambda>_. Some \<lparr>compound4args_tag = [],
     compound4args_minor_version = 1, compound4args_argarray = ex_call_ops\<rparr>)\<rparr>"

definition ex_gss_server :: gss_server where
  "ex_gss_server = ex_krb_server\<lparr>gs_ctxs := [\<lparr>gx_key = ex_key, gx_principal = ''u@X'',
     gx_identity = Some (5, 5, []), gx_expires = 500, gx_created = 1, gx_window = seq_window_default, gx_send_seq = 0\<rparr>]\<rparr>"

definition ex_krb_call :: call_body where
  "ex_krb_call = \<lparr>cb_rpcvers = 2, cb_prog = 100003, cb_vers = 4, cb_proc = 1,
     cb_cred = AuthGss \<lparr>gc_version = 1, gc_gss_proc = 0, gc_seq_num = 1, gc_service = 1, gc_handle = [9]\<rparr>,
     cb_verf = GssVerf ex_mic, cb_args = None, cb_gss = Some \<lparr>gd_header = [1, 2], gd_args = []\<rparr>\<rparr>"

definition ex_gss_connection :: "(mem_world, filehandle list, locking_state list, client_entry list) connection" where
  "ex_gss_connection = \<lparr>cn_cache = [(fh_id ex_export_handle, 0, ex_export_handle)], cn_gss = Some ex_gss_server,
     cn_server = ex_site Krb5\<rparr>"

lemma ex_gss_proceeds:
  "\<exists>g'. gss_handle ex_gss_env \<lparr>rcm_xid = 1, rcm_body = Call ex_krb_call\<rparr> ex_gss_server =
    (Gss_Proceed \<lparr>rcm_xid = 1, rcm_body = Call (ex_krb_call\<lparr>cb_gss := None, cb_cred := ex_cred ''u@X'',
        cb_args := Some \<lparr>compound4args_tag = [], compound4args_minor_version = 1, compound4args_argarray = ex_call_ops\<rparr>\<rparr>)\<rparr>
      \<lparr>gr_ctx = 0, gr_seq = 1, gr_service = 1, gr_proc = 1, gr_flavor = Krb5\<rparr>, g')"
proof -
  have "fst (seq_accept 1 seq_window_default)" by (simp add: seq_accept_def seq_window_default_def)
  then obtain w where w: "seq_accept 1 seq_window_default = (True, w)" by (metis prod.collapse)
  have "from_gss_service 1 = Some Krb5" by (simp add: from_gss_service_def)
  moreover have "\<not> MAXSEQ \<le> 1" by (simp add: MAXSEQ_def word_le_nat_alt)
  moreover have "header_verified ex_gss_env ex_key (GssVerf ex_mic) [1, 2]"
    using ex_mic_ok by (simp add: header_verified_def ex_gss_env_def)
  ultimately show ?thesis using w
    by (simp add: gss_handle_def ex_krb_call_def ex_gss_server_def ex_krb_server_def gss_data_def gss_data_args_def
        update_ctx_def unprotect_args_def identity_cred_def ex_cred_def RPCSEC_GSS_INIT_def RPCSEC_GSS_CONTINUE_INIT_def
        RPCSEC_GSS_DATA_def RPCSEC_GSS_DESTROY_def RPC_GSS_SVC_NONE_def Let_def)
      (simp add: ex_gss_env_def ex_krb_env_def)
qed

theorem kerberos_export_needs_context_witness:
  "\<exists>sv' g c. step_runs ex_env ex_gss_env ex_context \<lparr>rcm_xid = 1, rcm_body = Call ex_krb_call\<rparr>
      ex_gss_connection ex_write (ex_entered Krb5 ''u@X'') sv' \<and>
    cn_gss ex_gss_connection = Some g \<and> map_of (gs_contexts g) [9] = Some c \<and> 100 \<le> gx_expires (gs_ctxs g ! c) \<and>
    check_op ex_env sv' ex_write (ex_entered Krb5 ''u@X'')
      (caller_new (Some (identity_cred (gs_ctxs g ! c))) (Some (eo_access_control (ex_objs Krb5)))) = Inr ()"
proof -
  let ?msg = "\<lparr>rcm_xid = 1, rcm_body = Call ex_krb_call\<rparr>"
  obtain sv' where d: "dispatched ex_env ex_call_ops (ex_call_request Krb5 ''u@X'') (ex_site Krb5) 1
      (ex_entered Krb5 ''u@X'') sv'"
    using ex_call_dispatched ..
  have "\<exists>m rq cb args. served ex_gss_env ex_context ?msg ex_gss_connection = Some (m, rq) \<and> rcm_body m = Call cb \<and>
      cb_args cb = Some args \<and> compound4args_argarray args = ex_call_ops \<and> cb_cred cb = ex_cred ''u@X'' \<and>
      rq\<lparr>rq_auth_cred := Some (cb_cred cb)\<rparr> = ex_call_request Krb5 ''u@X''"
    using ex_gss_proceeds
    by (auto simp: served_def is_gss_call_def ex_krb_call_def ex_gss_connection_def connection_request_def
        ex_call_request_def request_new_def ex_context_def)
  moreover have "ex_call_ops ! 1 = ex_write" by (simp add: ex_call_ops_def)
  ultimately have run: "step_runs ex_env ex_gss_env ex_context ?msg ex_gss_connection ex_write
      (ex_entered Krb5 ''u@X'') sv'"
    using d unfolding step_runs_def
    by (metis ex_cred_def ex_gss_connection_def connection.select_convs(3) opaque_auth.distinct)
  have "\<not> allows_flavor (eo_access_control (ex_objs Krb5)) Sys" and "\<not> wrongsec_exempt (op_code ex_write)"
    by (simp_all add: allows_flavor_def ex_objs_def access_control_new_def wrongsec_exempt_def ex_write_def
        moves_filehandle_def OP_PUTFH_def OP_PUTPUBFH_def OP_PUTROOTFH_def OP_RESTOREFH_def OP_LOOKUP_def
        OP_LOOKUPP_def OP_SECINFO_def OP_SECINFO_NO_NAME_def)
  from kerberos_export_needs_context[OF run ex_entered_parts(2) _ _ _ this] ex_call_export run
  show ?thesis
    by (simp add: ex_gss_connection_def PSEUDO_ROOT_EXPORT_ID_def ex_krb_call_def ex_gss_env_def ex_krb_env_def)
      blast
qed

end
