(* ===== verification/StateRecovery.thy ===== *)
theory StateRecovery
  imports ClientRecords
begin

text \<open>
  The state file that lets a restarted server know its clients (\<open>server/state_recovery.rs\<close>, and
  its use in \<open>nfs/src/lib.rs\<close>). The JSON codec is the \<open>serde_json\<close> crate: its printer and parser are
  parameters. A file is its contents; the outcome of each I/O call is a parameter.
\<close>

section \<open>Snapshots\<close>

record lock_snapshot =
  ls_stateid :: bytes
  ls_seqid :: u32
  ls_client_id :: u64
  ls_owner :: bytes
  ls_lock_type :: string
  ls_filehandle_id :: bytes
  ls_start :: "u64 option"
  ls_length :: "u64 option"
  ls_share_access :: "u32 option"
  ls_share_deny :: "u32 option"
  ls_nfs_lock_type :: "string option"

record state_snapshot =
  ss_version :: u32
  ss_boot_time :: u64
  ss_written_at :: u64
  ss_clients :: "client_snapshot list"
  ss_locks :: "lock_snapshot list"

definition state_snapshot_new :: "u64 \<Rightarrow> u64 \<Rightarrow> state_snapshot" where
  "state_snapshot_new boot_time now =
    \<lparr>ss_version = 1, ss_boot_time = boot_time, ss_written_at = now, ss_clients = [], ss_locks = []\<rparr>"

definition lock_type_to_string :: "nfs_lock_type4 \<Rightarrow> string" where
  "lock_type_to_string lt = (case lt of
     ReadLt \<Rightarrow> ''ReadLt'' | WriteLt \<Rightarrow> ''WriteLt'' | ReadwLt \<Rightarrow> ''ReadwLt'' | WritewLt \<Rightarrow> ''WritewLt'')"

definition string_to_lock_type :: "string \<Rightarrow> nfs_lock_type4 option" where
  "string_to_lock_type s =
    (if s = ''ReadLt'' then Some ReadLt else if s = ''WriteLt'' then Some WriteLt
     else if s = ''ReadwLt'' then Some ReadwLt else if s = ''WritewLt'' then Some WritewLt else None)"

lemma lock_type_roundtrip: "string_to_lock_type (lock_type_to_string lt) = Some lt"
  by (cases lt) (simp_all add: lock_type_to_string_def string_to_lock_type_def)

section \<open>The state file\<close>

datatype recovery_error =
    Serialize_failed
  | Write_failed
  | Rename_failed
  | No_state_file
  | Read_failed
  | Parse_failed
  | Unsupported_version u32
  | Stale_state u64

record 'j state_files =
  sf_state :: "'j option"
  sf_tmp :: "'j option"

text \<open>A write that fails leaves the temporary file in some state, \<open>torn\<close>.\<close>

definition save_state ::
  "(state_snapshot \<Rightarrow> 'j option) \<Rightarrow> bool \<Rightarrow> 'j option \<Rightarrow> bool \<Rightarrow> state_snapshot \<Rightarrow> 'j state_files
    \<Rightarrow> (unit, recovery_error) result \<times> 'j state_files" where
  "save_state to_json write_ok torn rename_ok snapshot sf = (case to_json snapshot of
     None \<Rightarrow> (Inl Serialize_failed, sf)
   | Some json \<Rightarrow>
       if \<not> write_ok then (Inl Write_failed, sf\<lparr>sf_tmp := torn\<rparr>)
       else if \<not> rename_ok then (Inl Rename_failed, sf\<lparr>sf_tmp := Some json\<rparr>)
       else (Inr (), sf\<lparr>sf_state := Some json, sf_tmp := None\<rparr>))"

definition load_state ::
  "('j \<Rightarrow> state_snapshot option) \<Rightarrow> bool \<Rightarrow> u64 \<Rightarrow> 'j state_files \<Rightarrow> (state_snapshot, recovery_error) result" where
  "load_state from_json read_ok now sf = (case sf_state sf of
     None \<Rightarrow> Inl No_state_file
   | Some json \<Rightarrow>
       if \<not> read_ok then Inl Read_failed
       else (case from_json json of
         None \<Rightarrow> Inl Parse_failed
       | Some snapshot \<Rightarrow>
           if ss_version snapshot \<noteq> 1 then Inl (Unsupported_version (ss_version snapshot))
           else let age = saturating_sub now (ss_written_at snapshot)
                in if age > 300 then Inl (Stale_state age) else Inr snapshot))"

definition clear_state :: "bool \<Rightarrow> 'j state_files \<Rightarrow> 'j state_files" where
  "clear_state removed sf = (if removed then sf\<lparr>sf_state := None\<rparr> else sf)"

section \<open>Saving and restarting\<close>

definition client_snapshot_of :: "client_entry \<Rightarrow> client_snapshot" where
  "client_snapshot_of c =
    \<lparr>csn_principal = ce_principal c, csn_verifier = ce_verifier c, csn_id = ce_id c, csn_clientid = ce_clientid c,
     csn_callback_program = cb_program (ce_callback c), csn_callback_rnetid = cb_rnetid (ce_callback c),
     csn_callback_raddr = cb_raddr (ce_callback c), csn_callback_ident = cb_callback_ident (ce_callback c),
     csn_confirmed = ce_confirmed c\<rparr>"

text \<open>One tick of the periodic save; the clients come from \<open>GetAllClients\<close>.\<close>

definition take_snapshot :: "'db client_db_ops \<Rightarrow> u64 \<Rightarrow> u64 \<Rightarrow> 'db client_manager \<Rightarrow> state_snapshot" where
  "take_snapshot C boot_time now cm =
    (state_snapshot_new boot_time now)\<lparr>ss_clients := map client_snapshot_of (filter ce_confirmed (cdb_iter C (cm_db cm)))\<rparr>"

text \<open>The start of the server: the client manager with the clients of the state file, and the files after it.\<close>

definition recover_state ::
  "('j \<Rightarrow> state_snapshot option) \<Rightarrow> bool \<Rightarrow> bool \<Rightarrow> u64 \<Rightarrow> nat \<Rightarrow> (nat \<Rightarrow> bytes) \<Rightarrow> 'db client_db_ops
    \<Rightarrow> 'j state_files \<Rightarrow> 'db client_manager \<times> 'j state_files" where
  "recover_state from_json read_ok removed now instant tokens C sf =
    (case load_state from_json read_ok now sf of
       Inr snapshot \<Rightarrow>
         (snd (restore_clients C instant tokens (ss_clients snapshot) (client_manager_new C) 0), clear_state removed sf)
     | Inl _ \<Rightarrow> (client_manager_new C, sf))"

section \<open>Restored records\<close>

context client_db
begin

text \<open>With fresh tokens the restored records are exactly the confirmed ones of the snapshot.\<close>

lemma restore_records:
  assumes "inv (cm_db cm)" and "inj_on tokens {n..<n + length (filter csn_confirmed snaps)}"
    and "\<forall>e\<in>records ops cm. \<forall>i\<in>{n..<n + length (filter csn_confirmed snaps)}. ce_setclientid_confirm e \<noteq> tokens i"
  shows "\<exists>cm'. restore_clients ops now tokens snaps cm n = (Some (n + length (filter csn_confirmed snaps)), cm') \<and>
    records ops cm' = records ops cm \<union> {snapshot_entry now (tokens (n + i)) (filter csn_confirmed snaps ! i) |
      i. i < length (filter csn_confirmed snaps)}"
  using assms
proof (induction snaps arbitrary: cm n)
  case (Cons s snaps)
  let ?k = "length (filter csn_confirmed snaps)" and ?e = "snapshot_entry now (tokens n) s"
  show ?case
  proof (cases "csn_confirmed s")
    case True
    define cm1 where "cm1 = (if csn_clientid s \<ge> cm_client_id_seq cm
      then cm\<lparr>cm_client_id_seq := csn_clientid s + 1\<rparr> else cm)"
    have db: "cm_db cm1 = cm_db cm"
      by (simp add: cm1_def)
    have "\<forall>x\<in>set (cdb_iter ops (cm_db cm)). \<not> ce_clash x ?e"
      using Cons.prems(3) True by (fastforce simp: records_def ce_clash_def snapshot_entry_def)
    then obtain db' where ins: "cdb_insert ops (cm_db cm) ?e = Some db'" "inv db'"
        "set (cdb_iter ops db') = insert ?e (set (cdb_iter ops (cm_db cm)))"
      using tok.insert_fresh[OF Cons.prems(1)] by blast
    let ?cm2 = "cm1\<lparr>cm_db := db'\<rparr>"
    have recs: "records ops ?cm2 = insert ?e (records ops cm)"
      using ins(3) by (simp add: records_def)
    have inj: "inj_on tokens {Suc n..<Suc n + ?k}"
      using Cons.prems(2) True by (auto elim: inj_on_subset)
    have far: "tokens n \<noteq> tokens i" if "Suc n \<le> i" "i < Suc n + ?k" for i
      using Cons.prems(2) True that by (auto dest: inj_onD[where x = n and y = i])
    have "\<forall>e\<in>records ops ?cm2. \<forall>i\<in>{Suc n..<Suc n + ?k}. ce_setclientid_confirm e \<noteq> tokens i"
      using Cons.prems(3) True far unfolding recs by (auto simp: snapshot_entry_def)
    with Cons.IH[of ?cm2 "Suc n"] inj ins(2) obtain cm' where
      cm': "restore_clients ops now tokens snaps ?cm2 (Suc n) = (Some (Suc n + ?k), cm')"
        "records ops cm' = insert ?e (records ops cm) \<union>
          {snapshot_entry now (tokens (Suc n + i)) (filter csn_confirmed snaps ! i) | i. i < ?k}"
      unfolding recs by auto
    have "{snapshot_entry now (tokens (n + i)) ((s # filter csn_confirmed snaps) ! i) | i. i < Suc ?k} =
        insert ?e {snapshot_entry now (tokens (Suc n + i)) (filter csn_confirmed snaps ! i) | i. i < ?k}"
      by (auto simp: less_Suc_eq_0_disj) (metis nth_Cons_0 add_0_right nth_Cons_Suc add_Suc_right)+
    with cm' ins(1) True show ?thesis
      by (auto simp: cm1_def[symmetric] Let_def db)
  qed (use Cons in auto)
qed simp

lemma restore_seq:
  assumes "\<forall>s\<in>set snaps. csn_confirmed s \<longrightarrow> csn_clientid s < - 1"
    and "\<forall>e\<in>records ops cm. ce_clientid e < cm_client_id_seq cm" and "inv (cm_db cm)"
  shows "\<forall>e\<in>records ops (snd (restore_clients ops now tokens snaps cm n)).
    ce_clientid e < cm_client_id_seq (snd (restore_clients ops now tokens snaps cm n))"
  using assms
proof (induction snaps arbitrary: cm n)
  case (Cons s snaps)
  show ?case
  proof (cases "csn_confirmed s")
    case True
    define cm1 where "cm1 = (if csn_clientid s \<ge> cm_client_id_seq cm
      then cm\<lparr>cm_client_id_seq := csn_clientid s + 1\<rparr> else cm)"
    have seq: "cm_client_id_seq cm \<le> cm_client_id_seq cm1" "csn_clientid s < cm_client_id_seq cm1"
      using Cons.prems(1) True word_less_Suc[of "csn_clientid s"] by (auto simp: cm1_def)
    have db: "cm_db cm1 = cm_db cm"
      by (simp add: cm1_def)
    show ?thesis
    proof (cases "cdb_insert ops (cm_db cm1) (snapshot_entry now (tokens n) s)")
      case None
      then show ?thesis
        using True Cons.prems(2) seq(1) by (auto simp: cm1_def[symmetric] Let_def records_def db)
    next
      case (Some db')
      note ins = tok.insert_SomeD(1,2)[OF Cons.prems(3) Some[unfolded db]]
      have "\<forall>e\<in>records ops (cm1\<lparr>cm_db := db'\<rparr>). ce_clientid e < cm_client_id_seq (cm1\<lparr>cm_db := db'\<rparr>)"
        using ins(2) Cons.prems(2) seq by (auto simp: records_def snapshot_entry_def)
      from Cons.IH[OF _ this, of "n + 1"] show ?thesis
        using Some True Cons.prems(1) ins(1) by (simp add: cm1_def[symmetric] Let_def)
    qed
  qed (use Cons in auto)
qed simp

end

section \<open>Properties\<close>

text \<open>Whatever fails while saving, the state file holds the old or the new snapshot, never a part of one.\<close>

lemma save_state_atomic:
  "sf_state (snd (save_state to_json write_ok torn rename_ok snapshot sf)) \<in> {sf_state sf, to_json snapshot}"
  by (simp add: save_state_def split: option.split)

lemma load_state_Inr:
  "load_state from_json read_ok now sf = Inr snapshot \<longleftrightarrow> read_ok \<and>
    (\<exists>json. sf_state sf = Some json \<and> from_json json = Some snapshot) \<and> ss_version snapshot = 1 \<and>
    unat now \<le> unat (ss_written_at snapshot) + 300"
proof -
  have age: "saturating_sub now w > 300 \<longleftrightarrow> unat w + 300 < unat now" for w
  proof -
    have "unat (300 :: u64) = 300" by simp
    then show ?thesis
      unfolding word_less_nat_alt unat_saturating_sub by linarith
  qed
  show ?thesis
  proof (cases "sf_state sf")
    case (Some json)
    then show ?thesis
      by (cases "from_json json") (auto simp: load_state_def Let_def age)
  qed (simp add: load_state_def)
qed

definition client_data :: "client_entry \<Rightarrow> string \<times> u64 \<times> string option \<times> bytes \<times> client_callback" where
  "client_data e = (ce_id e, ce_clientid e, ce_principal e, ce_verifier e, ce_callback e)"

lemma snapshot_entry_of:
  "client_data (snapshot_entry now token (client_snapshot_of e)) = client_data e"
  by (simp add: client_data_def snapshot_entry_def client_snapshot_of_def)

lemma take_snapshot_clients:
  "filter csn_confirmed (ss_clients (take_snapshot C boot now cm)) =
    map client_snapshot_of (filter ce_confirmed (cdb_iter C (cm_db cm)))"
  by (simp add: take_snapshot_def filter_map comp_def client_snapshot_of_def)

lemma cm_new_empty:
  assumes "client_db C cinv"
  shows "cm_inv C cinv (client_manager_new C)" "records C (client_manager_new C) = {}"
  using client_db.cm_inv_new[OF assms] multi_index.iter_empty[of cinv "cdb_iter C" "cdb_default C"] assms
  by (auto simp: records_def client_manager_new_def client_db_def unique_index_def)

lemma reachable_client_ids:
  assumes C: "client_db C cinv" and run: "cm_run C (client_manager_new C) n cm" "n < 2 ^ 64 - 1" and e: "e \<in> records C cm"
  shows "ce_clientid e < - 1"
proof -
  have "cm_inv C cinv cm" "unat (cm_client_id_seq cm) \<le> n"
    using cm_run_inv[OF C run(1) cm_new_empty(1)[OF C]] run(2) by (simp_all add: client_manager_new_def)
  moreover from this have "ce_clientid e \<le> cm_client_id_seq cm"
    using e by (auto simp: cm_inv_def recs_ok_def)
  ultimately show ?thesis
    using run(2) by (simp add: word_le_nat_alt word_less_nat_alt unsigned_minus_1_eq_mask mask_eq_exp_minus_1)
qed

text \<open>
  C13: A restart keeps the clients. Let a snapshot of a running client manager have been saved, and
  let the server start again at most 300 seconds later with that file: then the new client manager
  has a record for exactly the clients that were confirmed, with the same id string, client id,
  principal, verifier and callback, each of them confirmed with a fresh lease, and the client ids it
  will issue next are new. It relies on the JSON parser reading back what the printer wrote, and
  on the random tokens of the records being distinct.
\<close>

theorem restart_keeps_clients:
  assumes C: "client_db C cinv" and json: "\<And>s j. to_json s = Some j \<Longrightarrow> from_json j = Some s"
    and run: "cm_run C (client_manager_new C) n cm" "n < 2 ^ 64 - 1"
    and saved: "save_state to_json write_ok torn rename_ok (take_snapshot C boot t cm) sf = (Inr (), sf')"
    and recent: "unat now \<le> unat t + 300" and tokens: "inj_on tokens {..<length (cdb_iter C (cm_db cm))}"
    and restart: "recover_state from_json True removed now instant tokens C sf' = (cm', sf'')"
  shows "client_data ` records C cm' = client_data ` {e \<in> records C cm. ce_confirmed e} \<and>
    (\<forall>e\<in>records C cm'. ce_confirmed e \<and> \<not> ce_courtesy e \<and> ce_last_renewed e = instant \<and>
      ce_clientid e < cm_client_id_seq cm')"
proof -
  let ?new = "client_manager_new C" and ?snap = "take_snapshot C boot t cm"
  let ?cs = "filter ce_confirmed (cdb_iter C (cm_db cm))"
  note new = cm_new_empty[OF C] and ids = reachable_client_ids[OF C run]
  have "load_state from_json True now sf' = Inr ?snap"
    using saved json recent
    by (auto simp: load_state_Inr save_state_def take_snapshot_def state_snapshot_new_def split: option.splits if_splits)
  then have cm': "cm' = snd (restore_clients C instant tokens (ss_clients ?snap) ?new 0)"
    using restart by (simp add: recover_state_def)
  have "inj_on tokens {0..<0 + length (filter csn_confirmed (ss_clients ?snap))}"
    using length_filter_le[of ce_confirmed "cdb_iter C (cm_db cm)"] unfolding take_snapshot_clients
    by (intro inj_on_subset[OF tokens]) (use order.strict_trans2 in fastforce)
  with client_db.restore_records[OF C, of ?new tokens 0 "ss_clients ?snap" instant] new
  have "records C cm' = {snapshot_entry instant (tokens i) (map client_snapshot_of ?cs ! i) | i. i < length ?cs}"
    unfolding take_snapshot_clients cm' by (auto simp: cm_inv_def simp del: nth_map)
  also have "\<dots> = {snapshot_entry instant (tokens i) (client_snapshot_of (?cs ! i)) | i. i < length ?cs}"
    by (rule Collect_cong) (metis nth_map)
  finally have recs: "records C cm' = \<dots>" .
  have "client_data ` records C cm' = {client_data (?cs ! i) | i. i < length ?cs}"
    unfolding recs by (auto simp: image_iff snapshot_entry_of) (metis snapshot_entry_of)+
  also have "\<dots> = client_data ` set ?cs"
    by (auto simp: set_conv_nth)
  finally have dat: "client_data ` records C cm' = client_data ` {e \<in> records C cm. ce_confirmed e}"
    by (simp add: records_def)
  have "\<forall>e\<in>records C cm'. ce_clientid e < cm_client_id_seq cm'"
    unfolding cm' by (rule client_db.restore_seq[OF C])
      (use ids new in \<open>auto simp: take_snapshot_def client_snapshot_of_def records_def cm_inv_def\<close>)
  moreover have "\<forall>e\<in>records C cm'. ce_confirmed e \<and> \<not> ce_courtesy e \<and> ce_last_renewed e = instant"
    unfolding recs by (auto simp: snapshot_entry_def)
  ultimately show ?thesis
    using dat by blast
qed

text \<open>
  A client that was registered and confirmed; the server is started again a minute later. Here a
  file holds the snapshot itself.
\<close>

theorem restart_keeps_clients_witness:
  "\<exists>cm' sf''. recover_state Some True True 1060 7 (\<lambda>i. [of_nat i]) list_client_db
      \<lparr>sf_state = Some (take_snapshot list_client_db 1 1000 ex_cm2), sf_tmp = None\<rparr> = (cm', sf'') \<and>
    client_data ` records list_client_db cm' = {client_data ex_c}"
proof -
  have "cm_handle_message list_client_db 0 (\<lambda>_. []) ex_cm1 (ConfirmClient 1 [1, 2, 3, 4, 5, 6, 7, 8] None) =
      (Some (Client_entry (Inr (ex_c\<lparr>ce_confirmed := True\<rparr>))), ex_cm2)"
    by (simp add: cm_handle_message_def confirm_client_def list_client_db_simps ex_cm1_def ex_cm2_def ex_c_def
        new_client_def Let_def)
  from cm_run.step[OF ex_cm_run _ this] have run: "cm_run list_client_db (client_manager_new list_client_db) 2 ex_cm2"
    by (simp add: numeral_2_eq_2)
  obtain cm' sf'' where restart: "recover_state Some True True 1060 7 (\<lambda>i. [of_nat i]) list_client_db
      \<lparr>sf_state = Some (take_snapshot list_client_db 1 1000 ex_cm2), sf_tmp = None\<rparr> = (cm', sf'')"
    by fastforce
  have tokens: "inj_on (\<lambda>i. [of_nat i :: u8]) {..<length (cdb_iter list_client_db (cm_db ex_cm2))}"
    by (simp add: ex_cm2_def list_client_db_def lessThan_Suc)
  have "client_data ` records list_client_db cm' = client_data ` {e \<in> records list_client_db ex_cm2. ce_confirmed e}"
    using restart_keeps_clients[OF lcdb.client_db_axioms _ run _ _ _ tokens restart, where to_json = Some
        and boot = 1 and t = 1000 and write_ok = True and rename_ok = True and sf = "\<lparr>sf_state = None, sf_tmp = None\<rparr>"]
    by (simp add: save_state_def)
  with restart show ?thesis
    by (auto simp: records_def ex_cm2_def list_client_db_simps client_data_def)
qed

end
