(* ===== verification/Rdma.thy ===== *)
theory Rdma
  imports Decimal Xdr
begin

text \<open>
  The framing of RPC over RDMA (\<open>server/rdma.rs\<close>): the fixed header and the segment descriptors, with
  their parsers. The server has no RDMA listener; this framing is all there is of the transport. The
  lemmas: a parser accepts exactly what the printer writes, of the version it knows, and never panics
  on its slices.
\<close>

section \<open>Headers and segments\<close>

definition RPCRDMA_VERSION :: u32 where "RPCRDMA_VERSION = 1"
definition DEFAULT_INLINE_THRESHOLD :: u32 where "DEFAULT_INLINE_THRESHOLD = 4096"

datatype rdma_proc = RdmaMsg | RdmaNoMsg | RdmaMsgP | RdmaDone | RdmaErrorMsg

primrec rdma_proc_num :: "rdma_proc \<Rightarrow> u32" where
  "rdma_proc_num RdmaMsg = 0"
| "rdma_proc_num RdmaNoMsg = 1"
| "rdma_proc_num RdmaMsgP = 2"
| "rdma_proc_num RdmaDone = 3"
| "rdma_proc_num RdmaErrorMsg = 4"

definition rdma_proc_try_from :: "u32 \<Rightarrow> (rdma_proc, u32) result" where
  "rdma_proc_try_from v =
    (if v = 0 then Inr RdmaMsg else if v = 1 then Inr RdmaNoMsg else if v = 2 then Inr RdmaMsgP
     else if v = 3 then Inr RdmaDone else if v = 4 then Inr RdmaErrorMsg else Inl v)"

text \<open>An I/O error is kept as its message.\<close>

datatype rdma_error =
    ShortHeader nat
  | UnknownProc u32
  | VersionMismatch u32
  | DeviceNotFound string
  | MemoryRegistration string
  | QueuePairError string
  | RdmaIo string

primrec rdma_error_display :: "rdma_error \<Rightarrow> string" where
  "rdma_error_display (ShortHeader len) = ''RDMA header too short: '' @ dec_string len @ '' bytes''"
| "rdma_error_display (UnknownProc v) = ''unknown RDMA proc type: '' @ dec_string (unat v)"
| "rdma_error_display (VersionMismatch v) = ''RDMA version mismatch: '' @ dec_string (unat v) @
     '' (expected '' @ dec_string (unat RPCRDMA_VERSION) @ '')''"
| "rdma_error_display (DeviceNotFound d) = ''RDMA device not found: '' @ d"
| "rdma_error_display (MemoryRegistration e) = ''RDMA memory registration failed: '' @ e"
| "rdma_error_display (QueuePairError e) = ''RDMA queue pair error: '' @ e"
| "rdma_error_display (RdmaIo e) = ''RDMA I/O error: '' @ e"

record rdma_header =
  rh_xid :: u32
  rh_vers :: u32
  rh_credits :: u32
  rh_proc_type :: rdma_proc

definition rdma_header_to_bytes :: "rdma_header \<Rightarrow> bytes" where
  "rdma_header_to_bytes h =
    be_bytes 4 (rh_xid h) @ be_bytes 4 (rh_vers h) @ be_bytes 4 (rh_credits h) @
    be_bytes 4 (rdma_proc_num (rh_proc_type h))"

text \<open>\<open>word_at buf i n\<close>: the big-endian integer of the \<open>n\<close> bytes from \<open>i\<close>, which the callers know are there.\<close>

definition word_at :: "bytes \<Rightarrow> nat \<Rightarrow> nat \<Rightarrow> 'a::len word" where
  "word_at buf i n = from_be_bytes (take n (drop i buf))"

definition rdma_header_from_bytes :: "bytes \<Rightarrow> (rdma_header, rdma_error) result" where
  "rdma_header_from_bytes buf =
    (if length buf < 16 then Inl (ShortHeader (length buf))
     else
       let xid = word_at buf 0 4; vers = word_at buf 4 4; credits = word_at buf 8 4; proc_val = word_at buf 12 4
       in case rdma_proc_try_from proc_val of
            Inl v \<Rightarrow> Inl (UnknownProc v)
          | Inr proc_type \<Rightarrow>
              if vers \<noteq> RPCRDMA_VERSION then Inl (VersionMismatch vers)
              else Inr \<lparr>rh_xid = xid, rh_vers = vers, rh_credits = credits, rh_proc_type = proc_type\<rparr>)"

record rdma_segment =
  rs_handle :: u32
  rs_length :: u32
  rs_offset :: u64

definition rdma_segment_to_bytes :: "rdma_segment \<Rightarrow> bytes" where
  "rdma_segment_to_bytes s = be_bytes 4 (rs_handle s) @ be_bytes 4 (rs_length s) @ be_bytes 8 (rs_offset s)"

definition rdma_segment_from_bytes :: "bytes \<Rightarrow> (rdma_segment, rdma_error) result" where
  "rdma_segment_from_bytes buf =
    (if length buf < 16 then Inl (ShortHeader (length buf))
     else Inr \<lparr>rs_handle = word_at buf 0 4, rs_length = word_at buf 4 4, rs_offset = word_at buf 8 8\<rparr>)"

record read_chunk =
  rc_position :: u32
  rc_target :: rdma_segment

record write_chunk =
  wc_targets :: "rdma_segment list"

record rdma_config =
  rdc_device :: string
  rdc_port :: u8
  rdc_gid_index :: u32
  rdc_inline_threshold :: u32
  rdc_send_queue_depth :: u32
  rdc_recv_queue_depth :: u32
  rdc_max_sge :: u32

definition rdma_config_default :: rdma_config where
  "rdma_config_default = \<lparr>rdc_device = [], rdc_port = 1, rdc_gid_index = 0,
     rdc_inline_threshold = DEFAULT_INLINE_THRESHOLD, rdc_send_queue_depth = 128, rdc_recv_queue_depth = 128,
     rdc_max_sge = 4\<rparr>"

section \<open>The parsers invert the printers\<close>

lemma rdma_proc_roundtrip: "rdma_proc_try_from (rdma_proc_num p) = Inr p"
  by (cases p) (simp_all add: rdma_proc_try_from_def)

lemma rdma_proc_try_from_eq: "rdma_proc_try_from v = Inr p \<longleftrightarrow> v = rdma_proc_num p"
  using rdma_proc_roundtrip[of p] by (auto simp: rdma_proc_try_from_def split: if_splits)

lemma rdma_header_parts:
  "word_at (rdma_header_to_bytes h @ rest) 0 4 = rh_xid h"
  "word_at (rdma_header_to_bytes h @ rest) 4 4 = rh_vers h"
  "word_at (rdma_header_to_bytes h @ rest) 8 4 = rh_credits h"
  "word_at (rdma_header_to_bytes h @ rest) 12 4 = rdma_proc_num (rh_proc_type h)"
  by (simp_all add: word_at_def rdma_header_to_bytes_def from_be_bytes_be_bytes del: be_bytes.simps)

lemma rdma_header_roundtrip:
  "rdma_header_from_bytes (rdma_header_to_bytes h @ rest) =
    (if rh_vers h = RPCRDMA_VERSION then Inr h else Inl (VersionMismatch (rh_vers h)))"
proof -
  have "\<not> length (rdma_header_to_bytes h @ rest) < 16"
    by (simp add: rdma_header_to_bytes_def)
  then show ?thesis
    by (simp add: rdma_header_from_bytes_def rdma_header_parts rdma_proc_roundtrip Let_def del: length_append)
qed

lemma word_at_bytes: "i + 4 \<le> length buf \<Longrightarrow> be_bytes 4 (word_at buf i 4 :: u32) = take 4 (drop i buf)"
  by (simp add: word_at_def be_bytes_from_be_bytes)

text \<open>Nothing else is accepted: a parsed header is the print of the first sixteen bytes.\<close>

lemma rdma_header_from_bytes_sound:
  assumes "rdma_header_from_bytes buf = Inr h"
  shows "rh_vers h = RPCRDMA_VERSION \<and> rdma_header_to_bytes h = take 16 buf"
proof -
  have "take 4 buf @ take 4 (drop 4 buf) @ take 4 (drop 8 buf) @ take 4 (drop 12 buf) = take 16 buf"
    using take_add[of 4 4 buf] take_add[of 8 4 buf] take_add[of 12 4 buf] by simp
  with assms show ?thesis
    using word_at_bytes[of 0 buf] word_at_bytes[of 4 buf] word_at_bytes[of 8 buf] word_at_bytes[of 12 buf]
    by (auto simp: rdma_header_from_bytes_def rdma_header_to_bytes_def Let_def rdma_proc_try_from_eq
        simp del: be_bytes.simps split: if_splits sum.splits)
qed

lemma rdma_segment_roundtrip: "rdma_segment_from_bytes (rdma_segment_to_bytes s @ rest) = Inr s"
proof -
  have "word_at (rdma_segment_to_bytes s @ rest) 0 4 = rs_handle s"
      "word_at (rdma_segment_to_bytes s @ rest) 4 4 = rs_length s"
      "word_at (rdma_segment_to_bytes s @ rest) 8 8 = rs_offset s"
    by (simp_all add: word_at_def rdma_segment_to_bytes_def from_be_bytes_be_bytes del: be_bytes.simps)
  moreover have "\<not> length (rdma_segment_to_bytes s @ rest) < 16"
    by (simp add: rdma_segment_to_bytes_def)
  ultimately show ?thesis
    by (simp add: rdma_segment_from_bytes_def del: length_append)
qed

end
