(* ===== verification/Krb5Initiator.thy ===== *)
theory Krb5Initiator
  imports Gss Krb5Laws "HOL-Library.Sublist"
begin

text \<open>
  The client's half of a Kerberos context (\<open>krb5/src/initiator.rs\<close>): issuing a ticket from the
  service's key, building the AP-REQ and checking the AP-REP. The theorem: the acceptor establishes
  a context with every such initiator, and both ends then have the same key and sequence numbers.

  The messages are those of the \<open>rasn-kerberos\<close> crate; the records below extend the ones the acceptor
  reads by the fields that only the initiator writes (optional fields that are always absent are left
  out). The crate's codec is the record \<open>initiator_ops\<close>. \<open>None\<close> is a panic of an \<open>expect\<close>.
\<close>

section \<open>Messages\<close>

record issued_ticket_part = enc_ticket_part +
  etp_flags :: "bool list"
  etp_transited :: "int \<times> bytes"

record issued_ticket = ticket +
  tkt_vno :: int

record sent_authenticator = authenticator +
  ath_vno :: int

record sent_ap_req =
  sar_pvno :: int
  sar_msg_type :: int
  sar_ap_options :: "bool list"
  sar_ticket :: issued_ticket
  sar_authenticator :: encrypted_data

text \<open>
  \<open>io_general\<close> and \<open>io_time\<close> say which bytes make a \<open>GeneralString\<close> and which times can be
  represented; the encoders give \<open>None\<close> where the crate reports an error.
\<close>

record initiator_ops =
  io_general :: "bytes \<Rightarrow> bool"
  io_time :: "int \<Rightarrow> bool"
  io_put_ticket_part :: "issued_ticket_part \<Rightarrow> bytes option"
  io_put_authenticator :: "sent_authenticator \<Rightarrow> bytes option"
  io_put_ap_req :: "sent_ap_req \<Rightarrow> bytes option"
  io_ap_rep :: "bytes \<Rightarrow> (ap_rep, string) result"
  io_enc_ap_rep_part :: "bytes \<Rightarrow> (enc_ap_rep_part, string) result"

text \<open>DER is an encoding: what one side encodes the other side decodes.\<close>

definition der_laws :: "der_ops \<Rightarrow> initiator_ops \<Rightarrow> bool" where
  "der_laws D I \<longleftrightarrow>
    (\<forall>p b. io_put_ticket_part I p = Some b \<longrightarrow> der_enc_ticket_part D b = Inr (enc_ticket_part.truncate p)) \<and>
    (\<forall>a b. io_put_authenticator I a = Some b \<longrightarrow> der_authenticator D b = Inr (authenticator.truncate a)) \<and>
    (\<forall>r b. io_put_ap_req I r = Some b \<longrightarrow> der_ap_req D b =
      Inr \<lparr>ar_ticket = ticket.truncate (sar_ticket r), ar_authenticator = sar_authenticator r\<rparr>) \<and>
    (\<forall>p b. der_put_enc_ap_rep_part D p = Inr b \<longrightarrow> io_enc_ap_rep_part I b = Inr p) \<and>
    (\<forall>r b. der_put_ap_rep D r = Inr b \<longrightarrow> io_ap_rep I b = Inr r)"

section \<open>Tickets\<close>

definition gs :: "initiator_ops \<Rightarrow> string \<Rightarrow> general_string option" where
  "gs I s = (if io_general I (string_bytes s) then Some (string_bytes s) else None)"

definition principal :: "initiator_ops \<Rightarrow> string \<Rightarrow> principal_name option" where
  "principal I name =
    (let parts = split_on (CHR ''/'') name
     in map_option (\<lambda>ps. \<lparr>pn_type = (if 1 < length parts then 2 else 1), pn_string = ps\<rparr>) (those (map (gs I) parts)))"

definition kerberos_time :: "initiator_ops \<Rightarrow> int \<Rightarrow> int option" where
  "kerberos_time I secs = (if io_time I secs then Some secs else None)"

record credential =
  crd_client :: string
  crd_client_realm :: string
  crd_ticket :: issued_ticket
  crd_session_enctype :: enctype
  crd_session_key :: bytes

text \<open>A step that may return an error (the \<open>?\<close> of Rust) in a function that may panic.\<close>

definition attempt :: "('a, 'e) result \<Rightarrow> ('a \<Rightarrow> ('b, 'e) result option) \<Rightarrow> ('b, 'e) result option" where
  "attempt x f = (case x of Inl e \<Rightarrow> Some (Inl e) | Inr v \<Rightarrow> f v)"

definition random_bytes :: "bytes option \<Rightarrow> (bytes, krb5_error) result" where
  "random_bytes rnd = ok_or rnd (Krb5_Crypto ''getrandom'')"

definition ticket_part_of ::
  "enctype \<Rightarrow> bytes \<Rightarrow> general_string \<Rightarrow> principal_name \<Rightarrow> int \<Rightarrow> int \<Rightarrow> issued_ticket_part" where
  "ticket_part_of session_enctype session_key realm cname start fin =
    \<lparr>etp_key = \<lparr>ek_type = enctype_number session_enctype, ek_value = session_key\<rparr>, etp_crealm = realm,
     etp_cname = cname, etp_auth_time = start, etp_start_time = Some start, etp_end_time = fin,
     etp_flags = replicate 32 False, etp_transited = (1, [])\<rparr>"

definition ticket_of ::
  "keytab_entry \<Rightarrow> enctype \<Rightarrow> general_string \<Rightarrow> general_string list \<Rightarrow> bytes \<Rightarrow> issued_ticket" where
  "ticket_of sk etype realm sname cipher =
    \<lparr>tkt_realm = realm, tkt_sname = \<lparr>pn_type = sint (kt_name_type sk), pn_string = sname\<rparr>,
     tkt_enc_part = \<lparr>ed_etype = enctype_number etype, ed_kvno = Some (kt_kvno sk), ed_cipher = cipher\<rparr>,
     tkt_vno = 5\<rparr>"

definition issue_ticket ::
  "crypto_prims \<Rightarrow> initiator_ops \<Rightarrow> bytes option \<Rightarrow> bytes option \<Rightarrow> keytab_entry \<Rightarrow> string \<Rightarrow> enctype \<Rightarrow> int \<Rightarrow> int
    \<Rightarrow> (credential, krb5_error) result option" where
  "issue_ticket P I rnd_key rnd_conf sk client session_enctype start fin =
    attempt (ok_or (enctype_from_i32 (kt_enctype sk)) (Krb5_UnsupportedEnctype (kt_enctype sk))) (\<lambda>etype.
    attempt (random_bytes rnd_key) (\<lambda>session_key.
    Option.bind (gs I (kt_realm sk)) (\<lambda>realm.
    Option.bind (principal I client) (\<lambda>cname.
    Option.bind (kerberos_time I start) (\<lambda>start.
    Option.bind (kerberos_time I fin) (\<lambda>fin.
    Option.bind (io_put_ticket_part I (ticket_part_of session_enctype session_key realm cname start fin)) (\<lambda>part.
    attempt (encrypt P rnd_conf etype (kt_key sk) KU_TICKET part) (\<lambda>cipher.
    Option.bind (those (map (gs I) (kt_components sk))) (\<lambda>sname.
      Some (Inr \<lparr>crd_client = client, crd_client_realm = kt_realm sk,
        crd_ticket = ticket_of sk etype realm sname cipher,
        crd_session_enctype = session_enctype, crd_session_key = session_key\<rparr>))))))))))"

section \<open>The initiator\<close>

record initiator =
  ini_key :: context_key
  ini_seq :: u64
  ini_ctime :: int
  ini_session_enctype :: enctype
  ini_session_key :: bytes

definition gss_checksum :: "u32 \<Rightarrow> bytes" where
  "gss_checksum flags = rev (be_bytes 4 (16 :: u32)) @ replicate 16 0 @ rev (be_bytes 4 flags)"

definition context_key_of :: "credential \<Rightarrow> enctype option \<Rightarrow> bytes option \<Rightarrow> (context_key, krb5_error) result" where
  "context_key_of cred subkey rnd = (case subkey of
     Some e \<Rightarrow> and_then (random_bytes rnd) (\<lambda>k. Inr \<lparr>ck_enctype = e, ck_key = k, ck_acceptor_subkey = False\<rparr>)
   | None \<Rightarrow> Inr \<lparr>ck_enctype = crd_session_enctype cred, ck_key = crd_session_key cred, ck_acceptor_subkey = False\<rparr>)"

definition authenticator_of ::
  "general_string \<Rightarrow> principal_name \<Rightarrow> u32 \<Rightarrow> int \<Rightarrow> context_key \<Rightarrow> enctype option \<Rightarrow> u32 \<Rightarrow> sent_authenticator" where
  "authenticator_of crealm cname flags ctime key subkey seq =
    \<lparr>ath_crealm = crealm, ath_cname = cname, ath_cksum = Some (0x8003, gss_checksum flags), ath_cusec = 123456,
     ath_ctime = ctime,
     ath_subkey = map_option (\<lambda>_. \<lparr>ek_type = enctype_number (ck_enctype key), ek_value = ck_key key\<rparr>) subkey,
     ath_seq_number = Some seq, ath_vno = 5\<rparr>"

definition ap_req_of :: "credential \<Rightarrow> u32 \<Rightarrow> bytes \<Rightarrow> sent_ap_req" where
  "ap_req_of cred flags cipher =
    \<lparr>sar_pvno = 5, sar_msg_type = 14,
     sar_ap_options = (if flags AND GSS_C_MUTUAL_FLAG \<noteq> 0 then (replicate 32 False)[2 := True] else replicate 32 False),
     sar_ticket = crd_ticket cred,
     sar_authenticator = \<lparr>ed_etype = enctype_number (crd_session_enctype cred), ed_kvno = None, ed_cipher = cipher\<rparr>\<rparr>"

definition initiator_start ::
  "crypto_prims \<Rightarrow> initiator_ops \<Rightarrow> bytes option \<Rightarrow> bytes option \<Rightarrow> bytes option \<Rightarrow> credential \<Rightarrow> u32 \<Rightarrow> enctype option
    \<Rightarrow> int \<Rightarrow> (initiator \<times> bytes, krb5_error) result option" where
  "initiator_start P I rnd_key rnd_seq rnd_conf cred flags subkey ctime =
    attempt (context_key_of cred subkey rnd_key) (\<lambda>key.
    attempt (random_bytes rnd_seq) (\<lambda>r.
    let seq = from_be_bytes r AND (0x3fffffff :: u32) in
    Option.bind (gs I (crd_client_realm cred)) (\<lambda>crealm.
    Option.bind (principal I (crd_client cred)) (\<lambda>cname.
    Option.bind (kerberos_time I ctime) (\<lambda>time.
    Option.bind (io_put_authenticator I (authenticator_of crealm cname flags time key subkey seq)) (\<lambda>auth.
    attempt (encrypt P rnd_conf (crd_session_enctype cred) (crd_session_key cred) KU_AP_REQ_AUTH auth) (\<lambda>cipher.
    Option.bind (io_put_ap_req I (ap_req_of cred flags cipher)) (\<lambda>req.
      Some (Inr (\<lparr>ini_key = key, ini_seq = ucast seq, ini_ctime = ctime,
          ini_session_enctype = crd_session_enctype cred, ini_session_key = crd_session_key cred\<rparr>,
        token_build TOK_ID_AP_REQ req))))))))))"

definition initiator_finish ::
  "crypto_prims \<Rightarrow> initiator_ops \<Rightarrow> initiator \<Rightarrow> bytes \<Rightarrow> (u64 \<times> initiator, krb5_error) result" where
  "initiator_finish P I ini tok =
    and_then (token_parse tok) (\<lambda>(tok_id, msg).
    and_then (require (tok_id = TOK_ID_AP_REP) (Krb5_Token ''expected an AP-REP'')) (\<lambda>_.
    and_then (map_asn1 (io_ap_rep I msg)) (\<lambda>rep.
    and_then (decrypt P (ini_session_enctype ini) (ini_session_key ini) KU_AP_REP_ENCPART
               (ed_cipher (arp_enc_part rep))) (\<lambda>plain.
    and_then (map_asn1 (io_enc_ap_rep_part I plain)) (\<lambda>part.
    and_then (require (earp_ctime part = ini_ctime ini)
               (Krb5_Rejected ''AP-REP ctime does not echo the authenticator'')) (\<lambda>_.
    let seq = ucast (case earp_seq_number part of Some n \<Rightarrow> n | None \<Rightarrow> 0) in
    case earp_subkey part of
      None \<Rightarrow> Inr (seq, ini)
    | Some sk \<Rightarrow>
        and_then (ok_or (enctype_from_i32 (ek_type sk)) (Krb5_UnsupportedEnctype (ek_type sk))) (\<lambda>e.
          Inr (seq, ini\<lparr>ini_key := \<lparr>ck_enctype = e, ck_key = ek_value sk, ck_acceptor_subkey = True\<rparr>\<rparr>))))))))"

section \<open>Tokens are read back\<close>

lemma foldl_be: "foldl (\<lambda>acc b. acc * 256 + unat b) a bs = a * 256 ^ length bs + from_be_nat bs"
  by (induction bs arbitrary: a) (simp_all add: algebra_simps)

lemma from_be_nat_zeros: "from_be_nat (drop (length (takeWhile (\<lambda>b. b = 0) bs)) bs) = from_be_nat bs"
  by (induction bs) simp_all

lemma takeWhile_all: "length (takeWhile p xs) = length xs \<Longrightarrow> \<forall>x \<in> set xs. p x"
  by (induction xs) (auto split: if_splits)

lemma zeros_from_be_nat: "\<forall>b \<in> set bs. b = 0 \<Longrightarrow> from_be_nat bs = 0"
  by (induction bs) simp_all

lemma short_length_byte:
  assumes "n < 128"
  shows "(of_nat n :: u8) AND 0x80 = 0" "unat (of_nat n :: u8) = n"
proof -
  have "\<not> bit n 7"
    using assms by (simp add: bit_iff_odd)
  then have "\<not> bit (of_nat n :: u8) 7"
    by (simp only: bit_of_nat_iff) simp
  then show "(of_nat n :: u8) AND 0x80 = 0"
    using and_exp_eq_0_iff_not_bit[of "of_nat n :: u8" 7] by simp
  show "unat (of_nat n :: u8) = n"
    using assms by (simp add: unat_of_nat take_bit_nat_eq_self)
qed

lemma long_length_byte:
  assumes "0 < k" "k \<le> 4"
  shows "(0x80 OR of_nat k :: u8) AND 0x80 \<noteq> 0" "unat ((0x80 OR of_nat k :: u8) AND 0x7f) = k"
proof -
  have "k \<in> {1, 2, 3, 4}" using assms by auto
  then show "(0x80 OR of_nat k :: u8) AND 0x80 \<noteq> 0" "unat ((0x80 OR of_nat k :: u8) AND 0x7f) = k"
    by auto
qed

lemma read_write_len:
  assumes "n < 2 ^ 32"
  shows "read_len (x # write_len n @ rest) 1 = Inr (n, 1 + length (write_len n))"
proof (cases "n < 0x80")
  case True
  then show ?thesis
    using short_length_byte[of n] by (simp add: read_len_def write_len_def)
next
  case False
  define bs where "bs = be_bytes 4 (of_nat n :: u32)"
  define z where "z = length (takeWhile (\<lambda>b. b = 0) bs)"
  have n: "from_be_nat bs = n" and l: "length bs = 4"
    using assms by (simp_all add: bs_def from_be_nat_be_bytes unat_of_nat take_bit_nat_eq_self)
  have "z \<noteq> 4"
    using n l False takeWhile_all[of "\<lambda>b. b = 0" bs] zeros_from_be_nat[of bs] by (auto simp: z_def)
  then have z: "z < 4"
    using l length_takeWhile_le[of "\<lambda>b. b = 0" bs] by (simp add: z_def)
  have "foldl (\<lambda>acc b. acc * 256 + unat b) 0 (drop z bs) = n"
    using n from_be_nat_zeros[of bs] by (simp add: foldl_be z_def)
  moreover have "write_len n = (0x80 OR of_nat (4 - z)) # drop z bs"
    using False by (simp add: write_len_def Let_def bs_def z_def)
  ultimately show ?thesis
    using long_length_byte[of "4 - z"] z l by (simp add: read_len_def Let_def) arith
qed

lemma token_roundtrip:
  assumes "length tok_id = 2" "length (token_build tok_id msg) < 2 ^ 32"
  shows "token_parse (token_build tok_id msg) = Inr (tok_id, msg)"
proof -
  let ?body = "GSS_MECH_OID @ tok_id @ msg"
  let ?n = "length GSS_MECH_OID + 2 + length msg"
  have tok: "token_build tok_id msg = 0x60 # write_len ?n @ ?body"
    by (simp add: token_build_def)
  have n: "length ?body = ?n"
    using assms(1) by simp
  have "?n < 2 ^ 32"
    using assms by (simp add: tok)
  note len = read_write_len[OF this, of "0x60" ?body]
  have "take (length ?body) (drop (1 + length (write_len ?n)) (0x60 # write_len ?n @ ?body)) = ?body"
    by simp
  with len n assms(1) show ?thesis
    unfolding token_parse_def tok by (simp add: Let_def)
qed

section \<open>Names\<close>

text \<open>A Rust string is valid UTF-8, so reading its bytes back loses nothing.\<close>

definition utf8 :: "string \<Rightarrow> bool" where
  "utf8 s \<longleftrightarrow> utf8_lossy (string_bytes s) = string_bytes s"

lemma string_lossy_utf8: "utf8 s \<Longrightarrow> string_lossy (string_bytes s) = s"
  by (simp add: utf8_def string_lossy_def)

lemma those_gs: "those (map (gs I) xs) = Some ys \<Longrightarrow> ys = map string_bytes xs"
  by (induction xs arbitrary: ys) (auto simp: gs_def split: if_splits)

lemma principal_parts: "principal I name = Some p \<Longrightarrow> pn_string p = map string_bytes (split_on (CHR ''/'') name)"
  by (auto simp: principal_def Let_def dest: those_gs)

lemma map_lossy: "\<forall>s \<in> set ss. utf8 s \<Longrightarrow> map string_lossy (map string_bytes ss) = ss"
  by (simp add: string_lossy_utf8 map_idI)

lemma split_on_not_Nil: "split_on c s \<noteq> []"
  by (induction s) (auto split: list.split)

lemma join_split: "join [c] (split_on c s) = s"
proof (induction s)
  case (Cons x s)
  then show ?case
    by (cases "split_on c s") (auto simp: join_def split_on_not_Nil)
qed (simp add: join_def)

lemma principal_string_principal:
  assumes "principal I name = Some p" "\<forall>s \<in> set (split_on (CHR ''/'') name). utf8 s" "utf8 realm"
  shows "principal_string p (string_bytes realm) = name @ ''@'' @ realm"
  using assms by (simp add: principal_string_def principal_parts map_lossy join_split string_lossy_utf8 del: map_map)

lemma enctype_of_number: "enctype_from_i32 (enctype_number e) = Some e"
  by (cases e) (simp_all add: enctype_from_i32_def enctype_all_def enctype_number_def)

lemma enctype_number_of: "enctype_from_i32 n = Some e \<Longrightarrow> n = enctype_number e"
  by (auto simp: enctype_from_i32_def find_Some_iff)

section \<open>The service key\<close>

text \<open>The first key the acceptor tries is the one the ticket was issued under.\<close>

definition same_version :: "keytab_entry \<Rightarrow> keytab_entry \<Rightarrow> bool" where
  "same_version e sk \<longleftrightarrow> kt_realm e = kt_realm sk \<and> kt_components e = kt_components sk \<and>
     kt_enctype e = kt_enctype sk \<and> kt_kvno e = kt_kvno sk"

lemma ticket_keys_first:
  assumes "sk \<in> set keytab" "\<forall>e \<in> set keytab. same_version e sk \<longrightarrow> kt_key e = kt_key sk"
    and "kt_enctype sk = enctype_number etype" "utf8 (kt_realm sk)" "\<forall>s \<in> set (kt_components sk). utf8 s"
    and tk: "tkt_realm tk = string_bytes (kt_realm sk)" "pn_string (tkt_sname tk) = map string_bytes (kt_components sk)"
      "ed_kvno (tkt_enc_part tk) = Some (kt_kvno sk)"
  obtains e es where "ticket_keys keytab tk etype = e # es" "kt_key e = kt_key sk"
proof -
  define rank where "rank = (\<lambda>e :: keytab_entry. (if Some (kt_kvno e) \<noteq> Some (kt_kvno sk) then 2 ^ 32 else 0) - uint (kt_kvno e))"
  define fl where "fl = filter (\<lambda>e. kt_realm e = kt_realm sk \<and> kt_components e = kt_components sk \<and>
    kt_enctype e = enctype_number etype) keytab"
  have keys: "ticket_keys keytab tk etype = sort_key rank fl"
    using assms(4,5) by (simp add: ticket_keys_def Let_def tk map_lossy string_lossy_utf8 rank_def fl_def del: map_map)
  have "sk \<in> set fl"
    using assms(1,3) by (simp add: fl_def)
  then obtain e es where e: "sort_key rank fl = e # es" "sk \<in> set (e # es)" "e \<in> set fl"
    by (metis list.set_intros(1) neq_Nil_conv set_sort empty_iff empty_set)
  have "rank e \<le> rank sk"
    using sorted_sort_key[of rank fl] e by auto
  moreover have "rank sk \<le> 0" "kt_kvno e \<noteq> kt_kvno sk \<Longrightarrow> 0 < rank e"
    using uint_bounded[of "kt_kvno e"] by (simp_all add: rank_def)
  ultimately have "kt_kvno e = kt_kvno sk"
    by force
  with e(3) assms(2,3) have "kt_key e = kt_key sk"
    by (auto simp: fl_def same_version_def)
  with e(1) that keys show ?thesis by simp
qed

section \<open>Both ends agree\<close>

lemma attempt_Inr: "attempt x f = Some (Inr v) \<longleftrightarrow> (\<exists>u. x = Inr u \<and> f u = Some (Inr v))"
  by (auto simp: attempt_def split: sum.split)

lemma random_bytes_Inr: "random_bytes r = Inr b \<longleftrightarrow> r = Some b"
  by (auto simp: random_bytes_def ok_or_def split: option.split)

lemma ok_or_Inr: "ok_or x e = Inr v \<longleftrightarrow> x = Some v"
  by (auto simp: ok_or_def split: option.split)

lemma kerberos_time_Some: "kerberos_time I t = Some t' \<Longrightarrow> t' = t"
  by (auto simp: kerberos_time_def split: if_splits)

lemma gs_Some: "gs I s = Some b \<Longrightarrow> b = string_bytes s"
  by (auto simp: gs_def split: if_splits)

lemmas issue_intros = attempt_Inr random_bytes_Inr ok_or_Inr bind_eq_Some_conv

lemma issue_ticketE:
  assumes "issue_ticket P I (Some k) (Some c1) sk client se start fin = Some (Inr cred)"
  obtains etype cname pb cipher where "enctype_from_i32 (kt_enctype sk) = Some etype" "principal I client = Some cname"
    "io_put_ticket_part I (ticket_part_of se k (string_bytes (kt_realm sk)) cname start fin) = Some pb"
    "encrypt P (Some c1) etype (kt_key sk) KU_TICKET pb = Inr cipher"
    "cred = \<lparr>crd_client = client, crd_client_realm = kt_realm sk,
      crd_ticket = ticket_of sk etype (string_bytes (kt_realm sk)) (map string_bytes (kt_components sk)) cipher,
      crd_session_enctype = se, crd_session_key = k\<rparr>"
  using assms unfolding issue_ticket_def
  by (auto simp: issue_intros dest!: kerberos_time_Some gs_Some those_gs)

lemma initiator_startE:
  assumes "initiator_start P I (Some k) (Some r) (Some c) cred flags subkey ctime = Some (Inr (ini, tok))"
  obtains cname ab cipher req where "context_key_of cred subkey (Some k) = Inr (ini_key ini)"
    "principal I (crd_client cred) = Some cname"
    "io_put_authenticator I (authenticator_of (string_bytes (crd_client_realm cred)) cname flags ctime (ini_key ini) subkey
      (from_be_bytes r AND 0x3fffffff)) = Some ab"
    "encrypt P (Some c) (crd_session_enctype cred) (crd_session_key cred) KU_AP_REQ_AUTH ab = Inr cipher"
    "io_put_ap_req I (ap_req_of cred flags cipher) = Some req"
    "ini = \<lparr>ini_key = ini_key ini, ini_seq = ucast (from_be_bytes r AND 0x3fffffff :: u32), ini_ctime = ctime,
      ini_session_enctype = crd_session_enctype cred, ini_session_key = crd_session_key cred\<rparr>"
    "tok = token_build TOK_ID_AP_REQ req"
  using assms unfolding initiator_start_def Let_def
  by (auto simp: issue_intros dest!: kerberos_time_Some gs_Some)

lemma checksum_flags: "length (gss_checksum flags) = 24" "from_be_bytes (rev (drop 20 (gss_checksum flags))) = flags"
  by (simp_all add: gss_checksum_def from_be_bytes_be_bytes del: be_bytes.simps)

lemma decrypts_encrypted:
  assumes "crypto_laws P" "length base = key_len e" "length conf = 16" "encrypt P (Some conf) e base usage plain = Inr c"
  shows "decrypt P e base usage c = Inr plain"
  using decrypt_encrypt[OF assms(1-3), of usage plain] assms(4) by auto

text \<open>
  The service: \<open>sk\<close> is in the keytab, its key fits its encryption type and no other entry of the same
  version has another key; its names and the client's are text.
\<close>

definition service_entry :: "keytab_entry list \<Rightarrow> keytab_entry \<Rightarrow> string \<Rightarrow> bool" where
  "service_entry keytab sk client \<longleftrightarrow> sk \<in> set keytab \<and>
    (\<forall>e \<in> set keytab. same_version e sk \<longrightarrow> kt_key e = kt_key sk) \<and>
    (\<forall>e. enctype_from_i32 (kt_enctype sk) = Some e \<longrightarrow> length (kt_key sk) = key_len e) \<and>
    (\<forall>s \<in> set (kt_realm sk # kt_components sk @ split_on (CHR ''/'') client). utf8 s)"

lemmas message_defs = ticket_part_of_def ticket_of_def authenticator_of_def ap_req_of_def
  enc_ticket_part.truncate_def authenticator.truncate_def ticket.truncate_def

text \<open>What the acceptor finds in the initiator's token.\<close>

lemma check_ap_req_of_start:
  assumes laws: "crypto_laws P" "der_laws D I" and sk: "service_entry keytab sk client"
    and issue: "issue_ticket P I (Some k) (Some c1) sk client se start fin = Some (Inr cred)"
    and init: "initiator_start P I (Some k2) (Some r) (Some c2) cred flags subkey ctime = Some (Inr (ini, tok))"
    and len: "length k = key_len se" "length c1 = 16" "length c2 = 16" "length tok < 2 ^ 32"
    and time: "start - CLOCK_SKEW_SECS \<le> now" "now \<le> fin + CLOCK_SKEW_SECS" "\<bar>ctime - now\<bar> \<le> CLOCK_SKEW_SECS"
  obtains cname ab service where "principal I client = Some cname"
    "check_ap_req P D keytab now tok = Inr (
       enc_ticket_part.truncate (ticket_part_of se k (string_bytes (kt_realm sk)) cname start fin), se, ab,
       authenticator.truncate (authenticator_of (string_bytes (kt_realm sk)) cname flags ctime (ini_key ini) subkey
         (from_be_bytes r AND 0x3fffffff)), flags, service)"
proof -
  obtain etype cname pb cipher where i: "enctype_from_i32 (kt_enctype sk) = Some etype" "principal I client = Some cname"
      "io_put_ticket_part I (ticket_part_of se k (string_bytes (kt_realm sk)) cname start fin) = Some pb"
      "encrypt P (Some c1) etype (kt_key sk) KU_TICKET pb = Inr cipher"
      "cred = \<lparr>crd_client = client, crd_client_realm = kt_realm sk,
        crd_ticket = ticket_of sk etype (string_bytes (kt_realm sk)) (map string_bytes (kt_components sk)) cipher,
        crd_session_enctype = se, crd_session_key = k\<rparr>"
    by (rule issue_ticketE[OF issue])
  obtain ab ac req where s:
      "io_put_authenticator I (authenticator_of (string_bytes (kt_realm sk)) cname flags ctime (ini_key ini) subkey
        (from_be_bytes r AND 0x3fffffff)) = Some ab"
      "encrypt P (Some c2) se k KU_AP_REQ_AUTH ab = Inr ac"
      "io_put_ap_req I (ap_req_of cred flags ac) = Some req" "tok = token_build TOK_ID_AP_REQ req"
    by (rule initiator_startE[OF init]) (simp add: i(5,2))
  let ?tk = "ticket.truncate (crd_ticket cred)"
  obtain e es where keys: "ticket_keys keytab ?tk etype = e # es" "kt_key e = kt_key sk"
    using ticket_keys_first[of sk keytab etype ?tk] sk enctype_number_of[OF i(1)]
    by (auto simp: message_defs i(5) service_entry_def)
  have "token_parse tok = Inr (TOK_ID_AP_REQ, req)"
    using token_roundtrip[of TOK_ID_AP_REQ req] len(4) by (simp add: s(4) TOK_ID_AP_REQ_def)
  moreover have "decrypt P etype (kt_key e) KU_TICKET cipher = Inr pb"
    using decrypts_encrypted[OF laws(1) _ len(2) i(4)] keys(2) sk i(1) by (simp add: service_entry_def)
  moreover have "decrypt P se k KU_AP_REQ_AUTH ac = Inr ab"
    using decrypts_encrypted[OF laws(1) len(1,3) s(2)] .
  moreover note laws(2)[unfolded der_laws_def] i(3) s(1,3)
  ultimately have "check_ap_req P D keytab now tok = Inr (
       enc_ticket_part.truncate (ticket_part_of se k (string_bytes (kt_realm sk)) cname start fin), se, ab,
       authenticator.truncate (authenticator_of (string_bytes (kt_realm sk)) cname flags ctime (ini_key ini) subkey
         (from_be_bytes r AND 0x3fffffff)), flags, principal_string (tkt_sname ?tk) (tkt_realm ?tk))"
    using time keys unfolding check_ap_req_def
    by (simp add: map_asn1_def require_def ok_or_def Let_def enctype_of_number GSS_CHECKSUM_TYPE_def checksum_flags
        message_defs i(5))
  with i(2) that show ?thesis by blast
qed

text \<open>The AP-REP can be encoded: nothing in it but the sequence number and the ciphertext varies.\<close>

definition ap_rep_encodable :: "der_ops \<Rightarrow> enctype \<Rightarrow> int \<Rightarrow> bool" where
  "ap_rep_encodable D se ctime \<longleftrightarrow>
    (\<forall>n. \<exists>b. der_put_enc_ap_rep_part D \<lparr>earp_ctime = ctime, earp_cusec = 123456, earp_subkey = None,
       earp_seq_number = Some n\<rparr> = Inr b) \<and>
    (\<forall>c. \<exists>b. der_put_ap_rep D \<lparr>arp_pvno = 5, arp_msg_type = 15,
       arp_enc_part = \<lparr>ed_etype = enctype_number se, ed_kvno = None, ed_cipher = c\<rparr>\<rparr> = Inr b)"

text \<open>The reply: the acceptor's key is the initiator's, and the initiator accepts the AP-REP.\<close>

lemma context_reply_of_start:
  assumes laws: "crypto_laws P" "der_laws D I" "ap_rep_encodable D se ctime" and len: "length k = key_len se" "length rc = 16"
    and key: "length (ck_key (ini_key ini)) = key_len (ck_enctype (ini_key ini))" "\<not> ck_acceptor_subkey (ini_key ini)"
      "subkey = None \<longrightarrow> ck_enctype (ini_key ini) = se \<and> ck_key (ini_key ini) = k"
    and ini: "ini_ctime ini = ctime" "ini_session_enctype ini = se" "ini_session_key ini = k"
  obtains acc where "context_reply P D (Some rs) (Some rc) (
       enc_ticket_part.truncate (ticket_part_of se k realm cname start fin), se, ab,
       authenticator.truncate (authenticator_of realm cname flags ctime (ini_key ini) subkey n), flags, service) = Inr acc"
    "acc_client acc = principal_string cname realm" "acc_key acc = ini_key ini" "acc_initiator_seq acc = ucast n"
    "acc_flags acc = flags" "acc_expires acc = fin" "flags AND GSS_C_MUTUAL_FLAG \<noteq> 0 \<longleftrightarrow> acc_output_token acc \<noteq> None"
    "\<forall>rep. acc_output_token acc = Some rep \<and> length rep < 2 ^ 32 \<longrightarrow>
       initiator_finish P I ini rep = Inr (acc_acceptor_seq acc, ini)"
proof -
  define seq where "seq = (from_be_bytes rs AND 0x3fffffff :: u32)"
  obtain part where part: "der_put_enc_ap_rep_part D \<lparr>earp_ctime = ctime, earp_cusec = 123456, earp_subkey = None,
      earp_seq_number = Some seq\<rparr> = Inr part"
    using laws(3) by (auto simp: ap_rep_encodable_def)
  obtain c where c: "encrypt P (Some rc) se k KU_AP_REP_ENCPART part = Inr c" "decrypt P se k KU_AP_REP_ENCPART c = Inr part"
    using decrypt_encrypt[OF laws(1) len] by blast
  obtain rep where rep: "der_put_ap_rep D \<lparr>arp_pvno = 5, arp_msg_type = 15,
      arp_enc_part = \<lparr>ed_etype = enctype_number se, ed_kvno = None, ed_cipher = c\<rparr>\<rparr> = Inr rep"
    using laws(3) by (auto simp: ap_rep_encodable_def)
  have fin: "initiator_finish P I ini (token_build TOK_ID_AP_REP rep) = Inr (ucast seq, ini)"
    if "length (token_build TOK_ID_AP_REP rep) < 2 ^ 32"
    using token_roundtrip[OF _ that] laws(2) part rep c(2)
    by (simp add: initiator_finish_def TOK_ID_AP_REP_def require_def map_asn1_def der_laws_def ini)
  have ck: "\<lparr>ck_enctype = ck_enctype (ini_key ini), ck_key = ck_key (ini_key ini), ck_acceptor_subkey = False\<rparr> = ini_key ini"
    using key(2) by (cases "ini_key ini") simp
  let ?mutual = "flags AND GSS_C_MUTUAL_FLAG \<noteq> 0"
  let ?acc = "\<lparr>acc_client = principal_string cname realm, acc_service = service, acc_key = ini_key ini, acc_flags = flags,
    acc_initiator_seq = ucast n, acc_acceptor_seq = (if ?mutual then ucast seq else ucast n), acc_expires = fin,
    acc_output_token = (if ?mutual then Some (token_build TOK_ID_AP_REP rep) else None)\<rparr>"
  have "context_reply P D (Some rs) (Some rc) (
       enc_ticket_part.truncate (ticket_part_of se k realm cname start fin), se, ab,
       authenticator.truncate (authenticator_of realm cname flags ctime (ini_key ini) subkey n), flags, service) = Inr ?acc"
    using key len(1) ck
    by (cases subkey) (simp_all add: context_reply_def message_defs enctype_of_number ok_or_def require_def map_asn1_def
        seq_def[symmetric] part c rep Let_def)
  then show ?thesis
    by (rule that) (use fin in \<open>simp_all split: if_splits\<close>)
qed

text \<open>What the initiator keeps.\<close>

lemma initiator_state:
  assumes issue: "issue_ticket P I (Some k) (Some c1) sk client se start fin = Some (Inr cred)"
    and init: "initiator_start P I (Some k2) (Some r) (Some c2) cred flags subkey ctime = Some (Inr (ini, tok))"
    and len: "length k = key_len se" "\<forall>e. subkey = Some e \<longrightarrow> length k2 = key_len e"
  shows "length (ck_key (ini_key ini)) = key_len (ck_enctype (ini_key ini))" "\<not> ck_acceptor_subkey (ini_key ini)"
    "subkey = None \<longrightarrow> ck_enctype (ini_key ini) = se \<and> ck_key (ini_key ini) = k"
    "ini_ctime ini = ctime" "ini_session_enctype ini = se" "ini_session_key ini = k"
    "ini_seq ini = ucast (from_be_bytes r AND 0x3fffffff :: u32)"
proof -
  have cred: "crd_session_enctype cred = se" "crd_session_key cred = k"
    by (rule issue_ticketE[OF issue]; simp)+
  have key: "context_key_of cred subkey (Some k2) = Inr (ini_key ini)"
    by (rule initiator_startE[OF init])
  then have "ini_key ini = (case subkey of None \<Rightarrow> \<lparr>ck_enctype = se, ck_key = k, ck_acceptor_subkey = False\<rparr>
      | Some e \<Rightarrow> \<lparr>ck_enctype = e, ck_key = k2, ck_acceptor_subkey = False\<rparr>)"
    by (auto simp: context_key_of_def cred random_bytes_def ok_or_def split: option.splits)
  with len show "length (ck_key (ini_key ini)) = key_len (ck_enctype (ini_key ini))" "\<not> ck_acceptor_subkey (ini_key ini)"
      "subkey = None \<longrightarrow> ck_enctype (ini_key ini) = se \<and> ck_key (ini_key ini) = k"
    by (simp_all split: option.splits)
  have "ini = \<lparr>ini_key = ini_key ini, ini_seq = ucast (from_be_bytes r AND 0x3fffffff :: u32), ini_ctime = ctime,
      ini_session_enctype = se, ini_session_key = k\<rparr>"
    by (rule initiator_startE[OF init]) (simp add: cred)
  then show "ini_ctime ini = ctime" "ini_session_enctype ini = se" "ini_session_key ini = k"
      "ini_seq ini = ucast (from_be_bytes r AND 0x3fffffff :: u32)"
    by (metis initiator.select_convs)+
qed

lemma check_and_insert_new:
  assumes "\<And>t. (key, t) \<in> set seen \<Longrightarrow> replay_ttl \<le> now - t"
  shows "fst (check_and_insert now key seen)"
  using assms by (force simp: check_and_insert_def Let_def dest!: map_of_SomeD split: option.splits if_splits)

text \<open>
  C15: A client that holds a ticket for the service gets a context. For a ticket issued under a key of
  the keytab and an AP-REQ built from it, within the lifetime of the ticket and the clock skew, the
  acceptor accepts the token unless it accepted this client within the last ten minutes; the context
  is the client's, under the client's full name, with the flags it asked for and the lifetime of the
  ticket. Both ends then have the same key and the initiator's first sequence number, and
  if mutual authentication was asked for, the initiator accepts the acceptor's answer and learns the
  acceptor's first sequence number from it.
\<close>

theorem handshake_agrees:
  assumes "crypto_laws P" "der_laws D I" "ap_rep_encodable D se ctime" "service_entry (acp_keytab a) sk client"
    and "issue_ticket P I (Some k) (Some c1) sk client se start fin = Some (Inr cred)"
    and "initiator_start P I (Some k2) (Some r) (Some c2) cred flags subkey ctime = Some (Inr (ini, tok))"
    and "length k = key_len se" "\<forall>e. subkey = Some e \<longrightarrow> length k2 = key_len e" "length c1 = 16" "length c2 = 16"
    and "length rc = 16" "length tok < 2 ^ 32"
    and "start - CLOCK_SKEW_SECS \<le> now" "now \<le> fin + CLOCK_SKEW_SECS" "\<bar>ctime - now\<bar> \<le> CLOCK_SKEW_SECS"
    and replay: "\<And>x t. (x, t) \<in> set (acp_replay a) \<Longrightarrow> prefix (string_bytes (client @ ''@'' @ kt_realm sk) @ [0]) x \<Longrightarrow>
      replay_ttl \<le> instant - t"
  shows "\<exists>acc a'. accept_at P D (Some rs) (Some rc) instant now a tok = (Inr acc, a') \<and>
    acc_client acc = client @ ''@'' @ kt_realm sk \<and> acc_flags acc = flags \<and> acc_expires acc = fin \<and>
    acc_key acc = ini_key ini \<and> acc_initiator_seq acc = ini_seq ini \<and>
    (flags AND GSS_C_MUTUAL_FLAG \<noteq> 0 \<longleftrightarrow> acc_output_token acc \<noteq> None) \<and>
    (\<forall>rep. acc_output_token acc = Some rep \<and> length rep < 2 ^ 32 \<longrightarrow>
      initiator_finish P I ini rep = Inr (acc_acceptor_seq acc, ini))"
proof -
  note st = initiator_state[OF assms(5-8)]
  obtain cname ab service where chk: "principal I client = Some cname"
    "check_ap_req P D (acp_keytab a) now tok = Inr (
       enc_ticket_part.truncate (ticket_part_of se k (string_bytes (kt_realm sk)) cname start fin), se, ab,
       authenticator.truncate (authenticator_of (string_bytes (kt_realm sk)) cname flags ctime (ini_key ini) subkey
         (from_be_bytes r AND 0x3fffffff)), flags, service)"
    by (rule check_ap_req_of_start[OF assms(1,2,4-7,9,10,12-15)])
  have name: "principal_string cname (string_bytes (kt_realm sk)) = client @ ''@'' @ kt_realm sk"
    using principal_string_principal[OF chk(1)] assms(4) by (simp add: service_entry_def)
  let ?key = "replay_key (enc_ticket_part.truncate (ticket_part_of se k (string_bytes (kt_realm sk)) cname start fin)) ab"
  have "prefix (string_bytes (client @ ''@'' @ kt_realm sk) @ [0]) ?key"
    using name by (simp add: replay_key_def message_defs string_bytes_def)
  then have fresh: "fst (check_and_insert instant ?key (acp_replay a))"
    using replay by (blast intro: check_and_insert_new)
  obtain acc where "context_reply P D (Some rs) (Some rc) (
       enc_ticket_part.truncate (ticket_part_of se k (string_bytes (kt_realm sk)) cname start fin), se, ab,
       authenticator.truncate (authenticator_of (string_bytes (kt_realm sk)) cname flags ctime (ini_key ini) subkey
         (from_be_bytes r AND 0x3fffffff)), flags, service) = Inr acc"
    and acc: "acc_client acc = principal_string cname (string_bytes (kt_realm sk))" "acc_key acc = ini_key ini"
      "acc_initiator_seq acc = ucast (from_be_bytes r AND 0x3fffffff :: u32)"
      "acc_flags acc = flags" "acc_expires acc = fin" "flags AND GSS_C_MUTUAL_FLAG \<noteq> 0 \<longleftrightarrow> acc_output_token acc \<noteq> None"
      "\<forall>rep. acc_output_token acc = Some rep \<and> length rep < 2 ^ 32 \<longrightarrow>
         initiator_finish P I ini rep = Inr (acc_acceptor_seq acc, ini)"
    by (rule context_reply_of_start[OF assms(1-3,7,11) st(1-6)])
  with chk(2) fresh have "\<exists>a'. accept_at P D (Some rs) (Some rc) instant now a tok = (Inr acc, a')"
    by (simp add: accept_at_def Let_def split_beta)
  with acc name st(7) show ?thesis by auto
qed

section \<open>Example\<close>

text \<open>A codec for the messages of one client of one service, in which only the variable parts are sent.\<close>

definition ex_cname :: principal_name where
  "ex_cname = \<lparr>pn_type = 1, pn_string = [[117]]\<rparr>"

definition ex_part :: issued_ticket_part where
  "ex_part = ticket_part_of Aes128CtsHmacSha256_128 (replicate 16 2) [88] ex_cname 90 500"

definition ex_auth :: sent_authenticator where
  "ex_auth = authenticator_of [88] ex_cname 2 100
     \<lparr>ck_enctype = Aes128CtsHmacSha256_128, ck_key = replicate 16 2, ck_acceptor_subkey = False\<rparr> None 7"

definition ex_sent_ticket :: "bytes \<Rightarrow> ticket" where
  "ex_sent_ticket c = \<lparr>tkt_realm = [88], tkt_sname = \<lparr>pn_type = 1, pn_string = [[110]]\<rparr>,
     tkt_enc_part = \<lparr>ed_etype = 19, ed_kvno = Some 1, ed_cipher = c\<rparr>\<rparr>"

definition ex_data :: "bytes \<Rightarrow> encrypted_data" where
  "ex_data c = \<lparr>ed_etype = 19, ed_kvno = None, ed_cipher = c\<rparr>"

definition ex_rep_part :: "u32 \<Rightarrow> enc_ap_rep_part" where
  "ex_rep_part n = \<lparr>earp_ctime = 100, earp_cusec = 123456, earp_subkey = None, earp_seq_number = Some n\<rparr>"

definition ex_rep :: "bytes \<Rightarrow> ap_rep" where
  "ex_rep c = \<lparr>arp_pvno = 5, arp_msg_type = 15, arp_enc_part = ex_data c\<rparr>"

definition ex_codec :: der_ops where
  "ex_codec = \<lparr>
     der_ap_req = (\<lambda>b. Inr \<lparr>ar_ticket = ex_sent_ticket (take 33 b), ar_authenticator = ex_data (drop 33 b)\<rparr>),
     der_enc_ticket_part = (\<lambda>_. Inr (enc_ticket_part.truncate ex_part)),
     der_authenticator = (\<lambda>_. Inr (authenticator.truncate ex_auth)),
     der_put_enc_ap_rep_part = (\<lambda>p. case earp_seq_number p of
         Some n \<Rightarrow> if p = ex_rep_part n then Inr (be_bytes 4 n) else Inl ''not sent here''
       | None \<Rightarrow> Inl ''not sent here''),
     der_put_ap_rep = (\<lambda>r. if r = ex_rep (ed_cipher (arp_enc_part r)) then Inr (ed_cipher (arp_enc_part r))
       else Inl ''not sent here'')\<rparr>"

definition ex_ini_ops :: initiator_ops where
  "ex_ini_ops = \<lparr>io_general = (\<lambda>_. True), io_time = (\<lambda>_. True),
     io_put_ticket_part = (\<lambda>p. if p = ex_part then Some [1] else None),
     io_put_authenticator = (\<lambda>a. if a = ex_auth then Some [2] else None),
     io_put_ap_req = (\<lambda>r. let c = ed_cipher (tkt_enc_part (sar_ticket r)); d = ed_cipher (sar_authenticator r)
       in if ticket.truncate (sar_ticket r) = ex_sent_ticket c \<and> sar_authenticator r = ex_data d \<and> length c = 33
          then Some (c @ d) else None),
     io_ap_rep = (\<lambda>b. Inr (ex_rep b)),
     io_enc_ap_rep_part = (\<lambda>b. Inr (ex_rep_part (from_be_bytes b)))\<rparr>"

lemma ex_der_laws: "der_laws ex_codec ex_ini_ops"
  by (auto simp: der_laws_def ex_codec_def ex_ini_ops_def Let_def from_be_bytes_be_bytes
      simp del: be_bytes.simps split: if_splits option.splits)

lemma ex_encodable: "ap_rep_encodable ex_codec Aes128CtsHmacSha256_128 100"
  by (simp add: ap_rep_encodable_def ex_codec_def ex_rep_part_def ex_rep_def ex_data_def enctype_number_def)

definition ex_sk :: keytab_entry where
  "ex_sk = \<lparr>kt_realm = ''X'', kt_components = [''n''], kt_name_type = 1, kt_timestamp = 0, kt_kvno = 1,
     kt_enctype = 19, kt_key = replicate 16 1\<rparr>"

lemma ex_enctype: "enctype_from_i32 19 = Some Aes128CtsHmacSha256_128"
  using enctype_of_number[of Aes128CtsHmacSha256_128] by (simp add: enctype_number_def)

lemma ex_service: "service_entry (acp_keytab (acceptor_new ex_keytab)) ex_sk ''u''"
proof -
  have "utf8 ''X''" "utf8 ''n''" "utf8 ''u''"
    by (simp_all add: utf8_def string_bytes_def utf8_tail_def Let_def)
  then show ?thesis
    by (simp add: service_entry_def key_len_def ex_enctype ex_keytab_def ex_sk_def acceptor_new_def)
qed

lemma ex_issued:
  "\<exists>c. issue_ticket xor_prims ex_ini_ops (Some (replicate 16 2)) (Some (replicate 16 3)) ex_sk ''u''
      Aes128CtsHmacSha256_128 90 500 = Some (Inr \<lparr>crd_client = ''u'', crd_client_realm = ''X'',
      crd_ticket = ticket_of ex_sk Aes128CtsHmacSha256_128 [88] [[110]] c,
      crd_session_enctype = Aes128CtsHmacSha256_128, crd_session_key = replicate 16 2\<rparr>) \<and> length c = 33"
proof -
  obtain c where c: "encrypt xor_prims (Some (replicate 16 3)) Aes128CtsHmacSha256_128 (replicate 16 1) KU_TICKET [1] = Inr c"
      "length c = 33"
    using decrypt_encrypt[OF xor_prims_laws, of "replicate 16 1" Aes128CtsHmacSha256_128 "replicate 16 3" KU_TICKET "[1]"]
    by (auto simp: key_len_def hmac_len_def)
  then show ?thesis
    by (simp add: issue_ticket_def ex_sk_def ex_enctype ok_or_def attempt_def random_bytes_def gs_def principal_def
        kerberos_time_def ex_ini_ops_def ex_part_def ex_cname_def string_bytes_def ticket_of_def)
qed

lemma ex_started:
  assumes "length c = 33"
  shows "\<exists>ini tok. initiator_start xor_prims ex_ini_ops (Some []) (Some [0, 0, 0, 7]) (Some (replicate 16 4))
      \<lparr>crd_client = ''u'', crd_client_realm = ''X'', crd_ticket = ticket_of ex_sk Aes128CtsHmacSha256_128 [88] [[110]] c,
       crd_session_enctype = Aes128CtsHmacSha256_128, crd_session_key = replicate 16 2\<rparr> 2 None 100 =
      Some (Inr (ini, tok)) \<and> length tok < 2 ^ 32"
proof -
  obtain d where d: "encrypt xor_prims (Some (replicate 16 4)) Aes128CtsHmacSha256_128 (replicate 16 2) KU_AP_REQ_AUTH [2]
      = Inr d" "length d = 33"
    using decrypt_encrypt[OF xor_prims_laws, of "replicate 16 2" Aes128CtsHmacSha256_128 "replicate 16 4" KU_AP_REQ_AUTH "[2]"]
    by (auto simp: key_len_def hmac_len_def)
  have "length (token_build TOK_ID_AP_REQ (c @ d)) < 2 ^ 32"
    using assms d(2) by (simp add: token_build_def write_len_def GSS_MECH_OID_def TOK_ID_AP_REQ_def)
  then show ?thesis
    using assms d
    by (simp add: initiator_start_def context_key_of_def attempt_def random_bytes_def ok_or_def gs_def principal_def
        kerberos_time_def ex_ini_ops_def ex_auth_def ex_cname_def string_bytes_def from_be_bytes_def ap_req_of_def
        ticket_of_def ticket.truncate_def ex_sent_ticket_def ex_sk_def ex_data_def enctype_number_def)
qed

theorem handshake_agrees_witness:
  "\<exists>cred ini tok acc a. issue_ticket xor_prims ex_ini_ops (Some (replicate 16 2)) (Some (replicate 16 3)) ex_sk ''u''
      Aes128CtsHmacSha256_128 90 500 = Some (Inr cred) \<and>
    initiator_start xor_prims ex_ini_ops (Some []) (Some [0, 0, 0, 7]) (Some (replicate 16 4)) cred 2 None 100 =
      Some (Inr (ini, tok)) \<and>
    accept_at xor_prims ex_codec (Some [0, 0, 0, 9]) (Some (replicate 16 5)) 5 100 (acceptor_new ex_keytab) tok = (Inr acc, a) \<and>
    acc_client acc = ''u@X'' \<and> acc_key acc = ini_key ini \<and> acc_output_token acc \<noteq> None"
proof -
  obtain c where c: "issue_ticket xor_prims ex_ini_ops (Some (replicate 16 2)) (Some (replicate 16 3)) ex_sk ''u''
      Aes128CtsHmacSha256_128 90 500 = Some (Inr \<lparr>crd_client = ''u'', crd_client_realm = ''X'',
      crd_ticket = ticket_of ex_sk Aes128CtsHmacSha256_128 [88] [[110]] c,
      crd_session_enctype = Aes128CtsHmacSha256_128, crd_session_key = replicate 16 2\<rparr>)" "length c = 33"
    using ex_issued by blast
  from ex_started[OF c(2)] obtain ini tok where t: "initiator_start xor_prims ex_ini_ops (Some []) (Some [0, 0, 0, 7])
      (Some (replicate 16 4))
      \<lparr>crd_client = ''u'', crd_client_realm = ''X'', crd_ticket = ticket_of ex_sk Aes128CtsHmacSha256_128 [88] [[110]] c,
       crd_session_enctype = Aes128CtsHmacSha256_128, crd_session_key = replicate 16 2\<rparr> 2 None 100 =
      Some (Inr (ini, tok))" "length tok < 2 ^ 32"
    by blast
  have "kt_realm ex_sk = ''X''" "(2 :: u32) AND GSS_C_MUTUAL_FLAG \<noteq> 0"
    by (simp_all add: ex_sk_def GSS_C_MUTUAL_FLAG_def)
  with handshake_agrees[OF xor_prims_laws ex_der_laws ex_encodable ex_service c(1) t(1) _ _ _ _ _ t(2),
      of "replicate 16 5" 100 5 "[0, 0, 0, 9]"] c t
  show ?thesis
    by (simp add: key_len_def CLOCK_SKEW_SECS_def acceptor_new_def) blast
qed

end
