(* ===== verification/Startup.thy ===== *)
theory Startup
  imports ExportTables Gss
begin

text \<open>
  The server program: the configuration (\<open>src/config.rs\<close>), the start of the server up to the moment it
  listens (\<open>run_server\<close> in \<open>src/main.rs\<close>) and the HTTP interface that manages exports while it runs
  (\<open>src/api.rs\<close>). The theorem: the exports of a server that has started are those of its
  configuration, each behind the access control its entry asks for, and no request to the HTTP interface
  changes that. Reading files, the TOML parser and the HTTP framework are parameters or left out; log
  messages and HTML pages are not modelled.
\<close>

section \<open>Configuration\<close>

record krb5_map =
  km_principal :: string
  km_uid :: u32
  km_gid :: u32
  km_gids :: "u32 list"

record server_config =
  sc_listen :: string
  sc_api_listen :: string
  sc_state_dir :: "string option"
  sc_tls_cert :: "string option"
  sc_tls_key :: "string option"
  sc_rdma_device :: "string option"
  sc_rdma_port :: "u16 option"
  sc_krb5_keytab :: "string option"
  sc_krb5_map :: "krb5_map list"

record export_config =
  xc_path :: string
  xc_read_only :: bool

record export_entry =
  xe_name :: string
  xe_path :: string
  xe_read_only :: bool
  xe_max_ops_per_sec :: u64
  xe_max_bytes_per_sec :: u64
  xe_clients :: "string list"
  xe_squash :: string
  xe_anon_uid :: u32
  xe_anon_gid :: u32
  xe_sec :: "string list"

record config =
  cfg_server :: server_config
  cfg_export :: "export_config option"
  cfg_exports :: "export_entry list"

definition default_listen :: string where "default_listen = ''0.0.0.0:2049''"
definition default_api_listen :: string where "default_api_listen = ''0.0.0.0:8080''"
definition default_export_path :: string where "default_export_path = ''/export''"

definition server_config_default :: server_config where
  "server_config_default = \<lparr>sc_listen = default_listen, sc_api_listen = default_api_listen, sc_state_dir = None,
     sc_tls_cert = None, sc_tls_key = None, sc_rdma_device = None, sc_rdma_port = None, sc_krb5_keytab = None,
     sc_krb5_map = []\<rparr>"

definition export_config_default :: export_config where
  "export_config_default = \<lparr>xc_path = default_export_path, xc_read_only = False\<rparr>"

text \<open>
  \<open>Path::file_name\<close>: the last component of the path, if it is a name. Empty components and \<open>.\<close> are
  no components.
\<close>

definition path_file_name :: "string \<Rightarrow> string option" where
  "path_file_name p =
    (let cs = filter (\<lambda>c. c \<noteq> [] \<and> c \<noteq> ''.'') (split_on (CHR ''/'') p)
     in if cs = [] \<or> last cs = ''..'' then None else Some (last cs))"

text \<open>An entry with the defaults: what a single path is exported as.\<close>

definition plain_entry :: "string \<Rightarrow> bool \<Rightarrow> string \<Rightarrow> export_entry" where
  "plain_entry path read_only squash =
    \<lparr>xe_name = (case path_file_name path of Some n \<Rightarrow> n | None \<Rightarrow> ''export''), xe_path = path, xe_read_only = read_only,
     xe_max_ops_per_sec = 0, xe_max_bytes_per_sec = 0, xe_clients = [], xe_squash = squash, xe_anon_uid = 65534,
     xe_anon_gid = 65534, xe_sec = []\<rparr>"

definition resolved_exports :: "config \<Rightarrow> export_entry list" where
  "resolved_exports cfg = (case cfg_export cfg of
     Some single \<Rightarrow>
       if list_ex (\<lambda>e. xe_path e = xc_path single) (cfg_exports cfg) then cfg_exports cfg
       else plain_entry (xc_path single) (xc_read_only single) [] # cfg_exports cfg
   | None \<Rightarrow> cfg_exports cfg)"

section \<open>The start of the server\<close>

text \<open>Reading the configuration and the keytab, and creating a directory.\<close>

record 'w startup_ops =
  su_load :: "'w \<Rightarrow> string \<Rightarrow> (config, string) result"
  su_create_dir_all :: "'w \<Rightarrow> string \<Rightarrow> bool \<times> 'w"
  su_read :: "'w \<Rightarrow> string \<Rightarrow> (bytes, string) result"

text \<open>The arguments of \<open>run_server\<close>, and what it works with once the configuration is merged in.\<close>

record start_args =
  sa_export_path :: string
  sa_listen :: string
  sa_api_listen :: string
  sa_config_path :: "string option"
  sa_squash :: string

record settings =
  se_exports :: "export_entry list"
  se_listen :: string
  se_api_listen :: string
  se_state_dir :: "string option"
  se_tls_cert :: "string option"
  se_tls_key :: "string option"
  se_krb5_keytab :: "string option"
  se_krb5_map :: "krb5_map list"

text \<open>The reasons for which the program exits.\<close>

datatype startup_error =
    Config_unreadable string
  | Unknown_flavour string string
  | Keytab_not_set string
  | Export_path_missing string
  | Export_not_a_directory string
  | Unknown_squash string string
  | Export_refused string export_error
  | State_dir_failed string
  | Keytab_unreadable krb5_error
  | Keytab_without_keys string

definition merge_settings :: "'w startup_ops \<Rightarrow> 'w \<Rightarrow> start_args \<Rightarrow> (settings, startup_error) result" where
  "merge_settings S w args = (case sa_config_path args of
     Some path \<Rightarrow> (case su_load S w path of
         Inl e \<Rightarrow> Inl (Config_unreadable e)
       | Inr cfg \<Rightarrow>
           let sc = cfg_server cfg; resolved = resolved_exports cfg
           in Inr \<lparr>se_exports = (if resolved = [] then [plain_entry (sa_export_path args) False (sa_squash args)] else resolved),
                se_listen = (if sa_listen args \<noteq> default_listen then sa_listen args else sc_listen sc),
                se_api_listen = (if sa_api_listen args \<noteq> default_api_listen then sa_api_listen args else sc_api_listen sc),
                se_state_dir = sc_state_dir sc, se_tls_cert = sc_tls_cert sc, se_tls_key = sc_tls_key sc,
                se_krb5_keytab = sc_krb5_keytab sc, se_krb5_map = sc_krb5_map sc\<rparr>)
   | None \<Rightarrow> Inr \<lparr>se_exports = [plain_entry (sa_export_path args) False (sa_squash args)], se_listen = sa_listen args,
       se_api_listen = sa_api_listen args, se_state_dir = None, se_tls_cert = None, se_tls_key = None,
       se_krb5_keytab = None, se_krb5_map = []\<rparr>)"

text \<open>The security flavours of an entry, and of all entries.\<close>

fun parse_flavors :: "string \<Rightarrow> string list \<Rightarrow> (sec_flavor list, startup_error) result" where
  "parse_flavors name [] = Inr []"
| "parse_flavors name (s # ss) = (case sec_flavor_parse s of
     None \<Rightarrow> Inl (Unknown_flavour name s)
   | Some f \<Rightarrow> and_then (parse_flavors name ss) (\<lambda>fs. Inr (f # fs)))"

definition entry_flavors :: "string option \<Rightarrow> export_entry \<Rightarrow> (sec_flavor list, startup_error) result" where
  "entry_flavors keytab entry =
    and_then (parse_flavors (xe_name entry) (xe_sec entry)) (\<lambda>fs.
      let flavors = (if fs = [] then [Sys] else fs)
      in if list_ex is_kerberos flavors \<and> keytab = None then Inl (Keytab_not_set (xe_name entry)) else Inr flavors)"

fun exports_flavors :: "string option \<Rightarrow> export_entry list \<Rightarrow> (sec_flavor list list, startup_error) result" where
  "exports_flavors keytab [] = Inr []"
| "exports_flavors keytab (e # es) =
    and_then (entry_flavors keytab e) (\<lambda>fs. and_then (exports_flavors keytab es) (\<lambda>fss. Inr (fs # fss)))"

definition squash_of :: "string \<Rightarrow> squash_mode option" where
  "squash_of s =
    (if s = [] \<or> s = ''root_squash'' then Some RootSquash
     else if s = ''all_squash'' then Some AllSquash
     else if s = ''none'' \<or> s = ''no_root_squash'' then Some Squash_None
     else None)"

definition entry_access :: "export_entry \<Rightarrow> squash_mode \<Rightarrow> sec_flavor list \<Rightarrow> access_config" where
  "entry_access entry squash sec = \<lparr>ac_clients = xe_clients entry, ac_squash = squash, ac_anon_uid = xe_anon_uid entry,
     ac_anon_gid = xe_anon_gid entry, ac_sec = sec\<rparr>"

text \<open>The loop that registers the exports. The results of the two settings are ignored, as in the source.\<close>

definition apply_qos ::
  "'w export_env \<Rightarrow> 'f fh_db_ops \<Rightarrow> 'l lock_db_ops \<Rightarrow> 'w \<Rightarrow> export_entry \<Rightarrow> ('f, 'l) export_manager
    \<Rightarrow> ('f, 'l) export_manager" where
  "apply_qos E F L w entry em =
    (if 0 < xe_max_ops_per_sec entry \<or> 0 < xe_max_bytes_per_sec entry
     then snd (em_handle_message E F L w em (SetQos (xe_name entry)
       \<lparr>max_ops_per_sec = xe_max_ops_per_sec entry, max_bytes_per_sec = xe_max_bytes_per_sec entry\<rparr>))
     else em)"

definition register_export ::
  "'w export_env \<Rightarrow> 'f fh_db_ops \<Rightarrow> 'l lock_db_ops \<Rightarrow> 'w \<Rightarrow> export_entry \<Rightarrow> sec_flavor list \<Rightarrow> ('f, 'l) export_manager
    \<Rightarrow> (('f, 'l) export_manager, startup_error) result" where
  "register_export E F L w entry sec em = (case ee_canonicalize E w (xe_path entry) of
     None \<Rightarrow> Inl (Export_path_missing (xe_path entry))
   | Some canonical \<Rightarrow>
       if \<not> ee_is_dir E w canonical then Inl (Export_not_a_directory canonical)
       else (case add_export E F L w em (xe_name entry) canonical (xe_read_only entry) of
           (Inl e, _) \<Rightarrow> Inl (Export_refused (xe_name entry) e)
         | (Inr info, em) \<Rightarrow> (case squash_of (xe_squash entry) of
               None \<Rightarrow> Inl (Unknown_squash (xe_name entry) (xe_squash entry))
             | Some squash \<Rightarrow> Inr (snd (em_handle_message E F L w (apply_qos E F L w entry em)
                 (SetAccess (xe_name entry) (entry_access entry squash sec)))))))"

fun register_exports ::
  "'w export_env \<Rightarrow> 'f fh_db_ops \<Rightarrow> 'l lock_db_ops \<Rightarrow> 'w \<Rightarrow> (export_entry \<times> sec_flavor list) list \<Rightarrow> ('f, 'l) export_manager
    \<Rightarrow> (('f, 'l) export_manager, startup_error) result" where
  "register_exports E F L w [] em = Inr em"
| "register_exports E F L w ((entry, sec) # rest) em =
    and_then (register_export E F L w entry sec em) (register_exports E F L w rest)"

definition keytab_load :: "'w startup_ops \<Rightarrow> 'w \<Rightarrow> string \<Rightarrow> (keytab_entry list, krb5_error) result" where
  "keytab_load S w path = (case su_read S w path of
     Inl e \<Rightarrow> Inl (Krb5_Keytab (path @ '': '' @ e))
   | Inr bs \<Rightarrow> keytab_parse bs)"

definition start_gss :: "'w startup_ops \<Rightarrow> 'w \<Rightarrow> settings \<Rightarrow> (gss_server option, startup_error) result" where
  "start_gss S w se = (case se_krb5_keytab se of
     None \<Rightarrow> Inr None
   | Some path \<Rightarrow> (case keytab_load S w path of
         Inl e \<Rightarrow> Inl (Keytab_unreadable e)
       | Inr keytab \<Rightarrow>
           if filter (\<lambda>e. enctype_from_i32 (kt_enctype e) \<noteq> None) keytab = [] then Inl (Keytab_without_keys path)
           else Inr (Some (gss_server_new keytab
                  (map (\<lambda>m. \<lparr>pm_principal = km_principal m, pm_uid = km_uid m, pm_gid = km_gid m, pm_gids = km_gids m\<rparr>)
                    (se_krb5_map se))))))"

record ('f, 'l) started =
  std_exports :: "('f, 'l) export_manager"
  std_listen :: string
  std_api_listen :: string
  std_state_dir :: "string option"
  std_tls :: "(string \<times> string) option"
  std_gss :: "gss_server option"

definition run_server ::
  "'w startup_ops \<Rightarrow> 'w export_env \<Rightarrow> 'f fh_db_ops \<Rightarrow> 'l lock_db_ops \<Rightarrow> start_args \<Rightarrow> 'w
    \<Rightarrow> (('f, 'l) started, startup_error) result \<times> 'w" where
  "run_server S E F L args w = (case merge_settings S w args of
     Inl e \<Rightarrow> (Inl e, w)
   | Inr se \<Rightarrow> (case exports_flavors (se_krb5_keytab se) (se_exports se) of
       Inl e \<Rightarrow> (Inl e, w)
     | Inr secs \<Rightarrow> (case register_exports E F L w (zip (se_exports se) secs) export_manager_new of
         Inl e \<Rightarrow> (Inl e, w)
       | Inr em \<Rightarrow>
           let (ok, w) = (case se_state_dir se of Some d \<Rightarrow> su_create_dir_all S w d | None \<Rightarrow> (True, w))
           in if \<not> ok then (Inl (State_dir_failed (case se_state_dir se of Some d \<Rightarrow> d | None \<Rightarrow> [])), w)
              else (case start_gss S w se of
                  Inl e \<Rightarrow> (Inl e, w)
                | Inr gss \<Rightarrow> (Inr \<lparr>std_exports = em, std_listen = se_listen se, std_api_listen = se_api_listen se,
                    std_state_dir = se_state_dir se,
                    std_tls = (case (se_tls_cert se, se_tls_key se) of (Some c, Some k) \<Rightarrow> Some (c, k) | _ \<Rightarrow> None),
                    std_gss = gss\<rparr>, w)))))"

section \<open>The HTTP interface\<close>

datatype (plugins only: code size) api_request =
    Health
  | List_exports
  | Add_export string string bool
  | Remove_export string
  | Server_stats
  | Export_stats_of string
  | Get_qos string
  | Set_qos string qos_config

record export_response =
  er_info :: export_info
  er_stats :: export_stats

record stats_response =
  sr_total_reads :: u64
  sr_total_writes :: u64
  sr_total_bytes_read :: u64
  sr_total_bytes_written :: u64
  sr_total_ops :: u64
  sr_exports :: "export_response list"

text \<open>The answers, by status: OK, CREATED, NO CONTENT, BAD REQUEST and NOT FOUND.\<close>

datatype (plugins only: code size) api_reply =
    Ok_health string nat
  | Ok_exports "export_response list"
  | Created export_info
  | No_content
  | Ok_stats stats_response
  | Ok_export export_response
  | Ok_qos qos_config
  | Ok_done
  | Bad_request export_error
  | Not_found export_error

definition export_response_of :: "('f, 'l) export_manager \<Rightarrow> export_info \<Rightarrow> export_response" where
  "export_response_of em info = \<lparr>er_info = info, er_stats =
     (case em_objs em (ei_export_id info) of Some ob \<Rightarrow> eo_stats ob | None \<Rightarrow> export_stats_new)\<rparr>"

definition server_stats :: "('f, 'l) export_manager \<Rightarrow> stats_response" where
  "server_stats em =
    (let es = map (export_response_of em) (list_exports em); total = (\<lambda>f. sum_list (map (\<lambda>e. f (er_stats e)) es))
     in \<lparr>sr_total_reads = total st_reads, sr_total_writes = total st_writes, sr_total_bytes_read = total st_bytes_read,
         sr_total_bytes_written = total st_bytes_written, sr_total_ops = total st_ops, sr_exports = es\<rparr>)"

definition api_handle ::
  "'w export_env \<Rightarrow> 'f fh_db_ops \<Rightarrow> 'l lock_db_ops \<Rightarrow> 'w \<Rightarrow> api_request \<Rightarrow> ('f, 'l) export_manager
    \<Rightarrow> api_reply \<times> ('f, 'l) export_manager" where
  "api_handle E F L w req em = (case req of
     Health \<Rightarrow> (Ok_health ''ok'' (length (list_exports em)), em)
   | List_exports \<Rightarrow> (Ok_exports (map (export_response_of em) (list_exports em)), em)
   | Add_export name path read_only \<Rightarrow> (case em_handle_message E F L w em (AddExport name path read_only) of
       (Export_added (Inr info), em) \<Rightarrow> (Created info, em)
     | (Export_added (Inl e), em) \<Rightarrow> (Bad_request e, em)
     | (_, em) \<Rightarrow> (Ok_done, em))
   | Remove_export name \<Rightarrow> (case em_handle_message E F L w em (RemoveExport name) of
       (Export_done (Inl e), em) \<Rightarrow> (Not_found e, em)
     | (_, em) \<Rightarrow> (No_content, em))
   | Server_stats \<Rightarrow> (Ok_stats (server_stats em), em)
   | Export_stats_of name \<Rightarrow> (case find (\<lambda>e. ei_name e = name) (list_exports em) of
       Some e \<Rightarrow> (Ok_export (export_response_of em e), em)
     | None \<Rightarrow> (Not_found (Export_not_found name), em))
   | Get_qos name \<Rightarrow> (case em_handle_message E F L w em (GetQos name) of
       (Export_qos (Some c), em) \<Rightarrow> (Ok_qos c, em)
     | (_, em) \<Rightarrow> (Not_found (Export_not_found name), em))
   | Set_qos name c \<Rightarrow> (case em_handle_message E F L w em (SetQos name c) of
       (Export_done (Inl e), em) \<Rightarrow> (Not_found e, em)
     | (_, em) \<Rightarrow> (Ok_done, em)))"

text \<open>Requests in the order they are handled; the operating system moves on between them.\<close>

fun api_run ::
  "'w export_env \<Rightarrow> 'f fh_db_ops \<Rightarrow> 'l lock_db_ops \<Rightarrow> ('w \<times> api_request) list \<Rightarrow> ('f, 'l) export_manager
    \<Rightarrow> ('f, 'l) export_manager" where
  "api_run E F L [] em = em"
| "api_run E F L ((w, req) # reqs) em = api_run E F L reqs (snd (api_handle E F L w req em))"

section \<open>The configuration is enforced\<close>

text \<open>The access control of the export with an id, also of one that has been removed: ids are not given out again.\<close>

definition access_of :: "('f, 'l) export_manager \<Rightarrow> u8 \<Rightarrow> access_control option" where
  "access_of em i = map_option eo_access_control (em_objs em i)"

text \<open>The export of an entry: its name, its directory, its read-only flag and its access control.\<close>

definition registered ::
  "'w export_env \<Rightarrow> 'w \<Rightarrow> ('f, 'l) export_manager \<Rightarrow> export_entry \<Rightarrow> sec_flavor list \<Rightarrow> bool" where
  "registered E w em entry sec \<longleftrightarrow> (\<exists>info p squash. get_export_by_name em (xe_name entry) = Some info \<and>
     ee_canonicalize E w (xe_path entry) = Some p \<and> ee_canonicalize E w p = Some (ei_path info) \<and>
     ei_read_only info = xe_read_only entry \<and> squash_of (xe_squash entry) = Some squash \<and>
     access_of em (ei_export_id info) = Some (access_control_new (entry_access entry squash sec)))"

lemma access_update_new: "access_update_config ac c = access_control_new c"
  by (cases ac) (simp add: access_update_config_def access_control_new_def)

lemma set_messages:
  "snd (em_handle_message E F L w em (SetAccess n a)) =
    snd (set_by_name em n (\<lambda>ob. ob\<lparr>eo_access_control := access_control_new a\<rparr>))"
  "snd (em_handle_message E F L w em (SetQos n q)) =
    snd (set_by_name em n (\<lambda>ob. ob\<lparr>eo_rate_limiter := qos_update_config (ee_instant E w) q (eo_rate_limiter ob)\<rparr>))"
  by (simp_all add: em_handle_message_def access_update_new split_beta)

lemma set_by_name_objs:
  "map_of (em_exports em) n = Some info \<Longrightarrow>
    em_objs (snd (set_by_name em n f)) = (em_objs em)(ei_export_id info := map_option f (em_objs em (ei_export_id info)))"
  by (simp add: set_by_name_def update_objs_def)

text \<open>What registering an entry keeps: the exports that are there, and their access control.\<close>

definition grows :: "('f, 'l) export_manager \<Rightarrow> ('f, 'l) export_manager \<Rightarrow> bool" where
  "grows em em' \<longleftrightarrow> (\<forall>n info. map_of (em_exports em) n = Some info \<longrightarrow> map_of (em_exports em') n = Some info) \<and>
     (\<forall>i ac. access_of em i = Some ac \<longrightarrow> access_of em' i = Some ac)"

lemma grows_trans: "grows em em1 \<Longrightarrow> grows em1 em2 \<Longrightarrow> grows em em2"
  by (simp add: grows_def)

lemma registered_grows: "grows em em' \<Longrightarrow> registered E w em entry sec \<Longrightarrow> registered E w em' entry sec"
  unfolding registered_def grows_def get_export_by_name_def by blast

lemma apply_qos_keeps:
  "em_exports (apply_qos E F L w entry em) = em_exports em" "access_of (apply_qos E F L w entry em) i = access_of em i"
  "em_inv em \<Longrightarrow> em_inv (apply_qos E F L w entry em)"
  by (auto simp: apply_qos_def set_messages(2) access_of_def set_by_name_def update_objs_def option.map_comp comp_def
      em_inv_set_by_name[unfolded set_by_name_def] em_inv_update_objs split: option.split)

lemma set_access_effect:
  assumes "map_of (em_exports em) n = Some info" "em_objs em (ei_export_id info) \<noteq> None"
  shows "access_of (snd (em_handle_message E F L w em (SetAccess n a))) =
    (access_of em)(ei_export_id info \<mapsto> access_control_new a)"
  using assms by (auto simp: set_messages(1) access_of_def set_by_name_objs)

lemma register_export_registers:
  assumes inv: "em_inv em" and reg: "register_export E F L w entry sec em = Inr em'"
  shows "em_inv em'" "grows em em'" "registered E w em' entry sec"
    "map fst (em_exports em') = xe_name entry # map fst (em_exports em)"
proof -
  obtain p info em1 squash where p: "ee_canonicalize E w (xe_path entry) = Some p"
    and add: "add_export E F L w em (xe_name entry) p (xe_read_only entry) = (Inr info, em1)"
    and sq: "squash_of (xe_squash entry) = Some squash"
    and em': "em' = snd (em_handle_message E F L w (apply_qos E F L w entry em1)
      (SetAccess (xe_name entry) (entry_access entry squash sec)))"
    using reg by (auto simp: register_export_def split: option.splits if_splits prod.splits sum.splits)
  have new: "map_of (em_exports em) (xe_name entry) = None" "ei_export_id info = em_next_export_id em"
      "ee_canonicalize E w p = Some (ei_path info)" "ei_read_only info = xe_read_only entry"
      "em_exports em1 = (xe_name entry, info) # em_exports em"
      "em_objs em1 = (em_objs em)(ei_export_id info \<mapsto> export_objs_new (ee_instant E w))"
    using add by (auto simp: add_export_def Let_def split: option.splits if_splits)
  have inv1: "em_inv em1"
    using em_inv_add[OF inv, of E F L w "xe_name entry" p "xe_read_only entry"] add by simp
  let ?em2 = "apply_qos E F L w entry em1"
  have "em_objs ?em2 (ei_export_id info) \<noteq> None"
    using apply_qos_keeps(2)[of E F L w entry em1 "ei_export_id info"] new(6) by (auto simp: access_of_def)
  then have acc: "access_of em' = (access_of em1)(ei_export_id info \<mapsto> access_control_new (entry_access entry squash sec))"
    unfolding em' by (subst set_access_effect[of _ _ info]) (simp_all add: apply_qos_keeps new(5) fun_eq_iff)
  have ex: "em_exports em' = (xe_name entry, info) # em_exports em"
    by (simp add: em' set_messages(1) apply_qos_keeps new(5))
  show "em_inv em'"
    by (simp add: em' em_inv_message apply_qos_keeps(3) inv1)
  have "em_objs em (ei_export_id info) = None"
    using inv new(2) by (auto simp: em_inv_def)
  then show "grows em em'"
    using new(1,6) by (auto simp: grows_def ex acc access_of_def)
  show "registered E w em' entry sec"
    using p sq new(3,4) by (auto simp: registered_def get_export_by_name_def ex acc)
  show "map fst (em_exports em') = xe_name entry # map fst (em_exports em)"
    by (simp add: ex)
qed

lemma register_exports_registers:
  assumes "em_inv em" "register_exports E F L w entries em = Inr em'"
  shows "em_inv em' \<and> grows em em' \<and> (\<forall>(entry, sec) \<in> set entries. registered E w em' entry sec) \<and>
    map fst (em_exports em') = rev (map (xe_name \<circ> fst) entries) @ map fst (em_exports em)"
  using assms
proof (induction entries arbitrary: em)
  case Nil
  then show ?case by (simp add: grows_def)
next
  case (Cons x entries)
  obtain entry sec where x: "x = (entry, sec)" by (cases x)
  with Cons.prems obtain em1 where em1: "register_export E F L w entry sec em = Inr em1"
      "register_exports E F L w entries em1 = Inr em'"
    by (auto simp: and_then_eq_Inr)
  note r = register_export_registers[OF Cons.prems(1) em1(1)]
  from Cons.IH[OF r(1) em1(2)] r x show ?case
    by (auto intro: grows_trans registered_grows)
qed

text \<open>The HTTP interface adds and removes exports, but the access control of an export stays.\<close>

lemma api_handle_state:
  "snd (api_handle E F L w req em) = (case req of
     Add_export n p ro \<Rightarrow> snd (add_export E F L w em n p ro)
   | Remove_export n \<Rightarrow> snd (remove_export em n)
   | Set_qos n c \<Rightarrow> snd (em_handle_message E F L w em (SetQos n c))
   | _ \<Rightarrow> em)"
  by (simp add: api_handle_def em_handle_message_def split_beta Let_def
      split: api_request.split option.split sum.split)

lemma add_export_access:
  assumes "em_inv em" "access_of em i = Some ac"
  shows "access_of (snd (add_export E F L w em n p ro)) i = Some ac"
proof (cases rule: add_export_cases[of E F L w em n p ro])
  case (added canonical em')
  have "em_objs em (em_next_export_id em) = None"
    using assms(1) by (auto simp: em_inv_def)
  with assms(2) added show ?thesis
    by (auto simp: access_of_def)
qed (use assms in simp)

lemma api_handle_keeps:
  assumes "em_inv em"
  shows "em_inv (snd (api_handle E F L w req em))"
    "access_of em i = Some ac \<Longrightarrow> access_of (snd (api_handle E F L w req em)) i = Some ac"
proof -
  have "access_of (snd (set_by_name em n (\<lambda>ob. ob\<lparr>eo_rate_limiter := g ob\<rparr>))) i = access_of em i" for n g
    by (auto simp: access_of_def set_by_name_def update_objs_def option.map_comp comp_def split: option.split)
  moreover have "access_of (snd (remove_export em n)) i = access_of em i" for n
    by (auto simp: access_of_def remove_export_def split: option.split)
  ultimately show "access_of em i = Some ac \<Longrightarrow> access_of (snd (api_handle E F L w req em)) i = Some ac"
    by (simp add: api_handle_state set_messages(2) add_export_access[OF assms] split: api_request.split)
qed (simp add: api_handle_state em_inv_add em_inv_remove em_inv_message assms split: api_request.split)

lemma api_run_keeps:
  assumes "em_inv em" "access_of em i = Some ac"
  shows "access_of (api_run E F L reqs em) i = Some ac"
  using assms by (induction E F L reqs em rule: api_run.induct) (simp_all add: api_handle_keeps)

lemma entry_flavors_Inr:
  "entry_flavors keytab entry = Inr sec \<Longrightarrow> sec \<noteq> [] \<and> (list_ex is_kerberos sec \<longrightarrow> keytab \<noteq> None)"
  by (auto simp: entry_flavors_def and_then_eq_Inr Let_def split: if_splits)

lemma exports_flavors_Inr:
  "exports_flavors keytab es = Inr secs \<Longrightarrow> list_all2 (\<lambda>e sec. entry_flavors keytab e = Inr sec) es secs"
  by (induction es arbitrary: secs) (auto simp: and_then_eq_Inr)

lemma start_gss_Inr: "start_gss S w se = Inr g \<Longrightarrow> se_krb5_keytab se \<noteq> None \<Longrightarrow> g \<noteq> None"
  by (auto simp: start_gss_def split: option.splits sum.splits if_splits)

lemma list_exports_names: "em_inv em \<Longrightarrow> map ei_name (list_exports em) = map fst (em_exports em)"
  by (auto simp: list_exports_def em_inv_def)

lemma run_serverE:
  assumes "run_server S E F L args w = (Inr st, w')"
  obtains se secs w1 where "merge_settings S w args = Inr se" "exports_flavors (se_krb5_keytab se) (se_exports se) = Inr secs"
    "register_exports E F L w (zip (se_exports se) secs) export_manager_new = Inr (std_exports st)"
    "start_gss S w1 se = Inr (std_gss st)"
  using assms by (auto simp: run_server_def Let_def split: sum.splits prod.splits if_splits)

text \<open>
  C14: A server that has started serves exactly the exports of its configuration, each under the name
  of its entry, in the entry's directory, read-only if the entry says so, and behind the access control
  of the entry: its client list, squash mode, anonymous ids and security flavours (AUTH\_SYS if it names
  none). No export is left behind the permissive defaults, a Kerberos flavour is accepted only if
  RPCSEC\_GSS is served, and no sequence of requests to the HTTP interface changes the access control of
  a configured export. An export is identified by its id: if it is removed over HTTP and one of the same name is added,
  that is a new export, with the default access control.
\<close>

theorem startup_enforces_configuration:
  assumes "run_server S E F L args w = (Inr st, w')"
  shows "\<exists>se secs. merge_settings S w args = Inr se \<and>
    map ei_name (list_exports (std_exports st)) = rev (map xe_name (se_exports se)) \<and>
    list_all2 (\<lambda>entry sec. entry_flavors (se_krb5_keytab se) entry = Inr sec \<and> sec \<noteq> [] \<and>
      (list_ex is_kerberos sec \<longrightarrow> std_gss st \<noteq> None) \<and>
      (\<exists>info p squash. get_export_by_name (std_exports st) (xe_name entry) = Some info \<and>
         ee_canonicalize E w (xe_path entry) = Some p \<and> ee_canonicalize E w p = Some (ei_path info) \<and>
         ei_read_only info = xe_read_only entry \<and> squash_of (xe_squash entry) = Some squash \<and>
         (\<forall>reqs. access_of (api_run E F L reqs (std_exports st)) (ei_export_id info) =
            Some (access_control_new (entry_access entry squash sec)))))
      (se_exports se) secs"
proof -
  obtain se secs w1 where r: "merge_settings S w args = Inr se"
      "exports_flavors (se_krb5_keytab se) (se_exports se) = Inr secs"
      "register_exports E F L w (zip (se_exports se) secs) export_manager_new = Inr (std_exports st)"
      "start_gss S w1 se = Inr (std_gss st)"
    by (rule run_serverE[OF assms])
  note f = exports_flavors_Inr[OF r(2)]
  have reg: "em_inv (std_exports st)" "\<forall>(entry, sec) \<in> set (zip (se_exports se) secs). registered E w (std_exports st) entry sec"
      "map fst (em_exports (std_exports st)) = rev (map (xe_name \<circ> fst) (zip (se_exports se) secs))"
    using register_exports_registers[OF em_inv_new r(3)] by (simp_all add: export_manager_new_def)
  have "map (xe_name \<circ> fst) (zip (se_exports se) secs) = map xe_name (se_exports se)"
    using list_all2_lengthD[OF f] by (metis map_fst_zip map_map)
  then have names: "map ei_name (list_exports (std_exports st)) = rev (map xe_name (se_exports se))"
    by (simp add: list_exports_names reg(1,3))
  let ?Q = "\<lambda>entry sec. entry_flavors (se_krb5_keytab se) entry = Inr sec \<and> sec \<noteq> [] \<and>
      (list_ex is_kerberos sec \<longrightarrow> std_gss st \<noteq> None) \<and>
      (\<exists>info p squash. get_export_by_name (std_exports st) (xe_name entry) = Some info \<and>
         ee_canonicalize E w (xe_path entry) = Some p \<and> ee_canonicalize E w p = Some (ei_path info) \<and>
         ei_read_only info = xe_read_only entry \<and> squash_of (xe_squash entry) = Some squash \<and>
         (\<forall>reqs. access_of (api_run E F L reqs (std_exports st)) (ei_export_id info) =
            Some (access_control_new (entry_access entry squash sec))))"
  have "?Q entry sec" if "(entry, sec) \<in> set (zip (se_exports se) secs)" for entry sec
  proof -
    have e: "entry_flavors (se_krb5_keytab se) entry = Inr sec"
      using f that by (auto simp: list_all2_iff)
    have "registered E w (std_exports st) entry sec"
      using reg(2) that by blast
    then show ?thesis
      using e entry_flavors_Inr[OF e] start_gss_Inr[OF r(4)] api_run_keeps[OF reg(1)] unfolding registered_def by blast
  qed
  then have "list_all2 ?Q (se_exports se) secs"
    using list_all2_lengthD[OF f] by (intro list_all2I) auto
  with r(1) names show ?thesis by blast
qed

section \<open>Example\<close>

definition ex_entry :: export_entry where
  "ex_entry = \<lparr>xe_name = ''data'', xe_path = ''/data'', xe_read_only = True, xe_max_ops_per_sec = 100,
     xe_max_bytes_per_sec = 0, xe_clients = [''10.0.0.0/8''], xe_squash = ''all_squash'', xe_anon_uid = 99,
     xe_anon_gid = 99, xe_sec = [''sys'']\<rparr>"

definition ex_startup :: "mem_world startup_ops" where
  "ex_startup = \<lparr>su_load = (\<lambda>w p. Inr \<lparr>cfg_server = server_config_default, cfg_export = None, cfg_exports = [ex_entry]\<rparr>),
     su_create_dir_all = (\<lambda>w p. (True, w)), su_read = (\<lambda>w p. Inl ''no such file'')\<rparr>"

definition ex_start_args :: start_args where
  "ex_start_args = \<lparr>sa_export_path = default_export_path, sa_listen = default_listen, sa_api_listen = default_api_listen,
     sa_config_path = Some ''nextnfs.toml'', sa_squash = []\<rparr>"

lemma ex_settings:
  "merge_settings ex_startup w ex_start_args = Inr \<lparr>se_exports = [ex_entry], se_listen = default_listen,
     se_api_listen = default_api_listen, se_state_dir = None, se_tls_cert = None, se_tls_key = None,
     se_krb5_keytab = None, se_krb5_map = []\<rparr>"
  by (simp add: merge_settings_def ex_startup_def ex_start_args_def server_config_default_def resolved_exports_def Let_def)

lemma ex_entry_flavors: "entry_flavors None ex_entry = Inr [Sys]"
  by (simp add: entry_flavors_def ex_entry_def sec_flavor_parse_def is_kerberos_def)

lemma ex_run_server:
  "\<exists>st. run_server ex_startup mem_export_env list_fh_db list_lock_db ex_start_args mem_empty = (Inr st, mem_empty)"
proof -
  have "\<exists>em. register_export mem_export_env list_fh_db list_lock_db mem_empty ex_entry [Sys] export_manager_new = Inr em"
    by (simp add: register_export_def mem_export_env_def ex_entry_def add_export_def export_manager_new_def squash_of_def Let_def)
  then show ?thesis
    by (auto simp: run_server_def ex_settings ex_entry_flavors start_gss_def)
qed

theorem startup_enforces_configuration_witness:
  "\<exists>st info. run_server ex_startup mem_export_env list_fh_db list_lock_db ex_start_args mem_empty = (Inr st, mem_empty) \<and>
    map ei_name (list_exports (std_exports st)) = [''data''] \<and>
    get_export_by_name (std_exports st) ''data'' = Some info \<and> ei_read_only info \<and>
    access_of (api_run mem_export_env list_fh_db list_lock_db
        [(mem_empty, Remove_export ''data''), (mem_empty, Add_export ''x'' ''/x'' False)] (std_exports st)) (ei_export_id info) =
      Some (access_control_new \<lparr>ac_clients = [''10.0.0.0/8''], ac_squash = AllSquash, ac_anon_uid = 99, ac_anon_gid = 99,
        ac_sec = [Sys]\<rparr>)"
proof -
  obtain st where st: "run_server ex_startup mem_export_env list_fh_db list_lock_db ex_start_args mem_empty = (Inr st, mem_empty)"
    using ex_run_server ..
  have "xe_name ex_entry = ''data''" "xe_read_only ex_entry" "squash_of (xe_squash ex_entry) = Some AllSquash"
      "entry_access ex_entry AllSquash [Sys] = \<lparr>ac_clients = [''10.0.0.0/8''], ac_squash = AllSquash, ac_anon_uid = 99,
        ac_anon_gid = 99, ac_sec = [Sys]\<rparr>"
    by (simp_all add: ex_entry_def squash_of_def entry_access_def)
  with startup_enforces_configuration[OF st] st show ?thesis
    by (auto simp: ex_settings ex_entry_flavors list_all2_Cons1 simp del: api_run.simps)
qed

end
