(* ===== verification/Spec2Isabelle.thy ===== *)
theory Spec2Isabelle
  imports Connection StateRecovery HandleTable ExportTables Rdma Krb5Initiator Startup
begin

text \<open>
  A verification of nextnfs, an NFSv4 server in Rust: the path of a call from the bytes of a
  connection to the answers of its operations, the state the server keeps, and the checks that stand
  between a client and a file.

  \<^bold>\<open>The program.\<close> A connection (\<open>nfs/src/lib.rs\<close>) reads records off a socket, decodes the RPC header
  of each, lets the RPCSEC\_GSS server authenticate it, and hands it to the service
  (\<open>server/mod.rs\<close>, \<open>server/nfs40.rs\<close>), which runs the operations of the COMPOUND one by one on a
  request context. The operations (\<open>server/nfs40/op_*.rs\<close>) talk to actors: one file manager and one
  write cache per export, the export manager and the client manager; the sessions are a shared table.
  An actor handles one message at a time, so its handlers are functions on its state. The \<open>krb5\<close>
  crate holds the cryptography, keytabs and context tokens that RPCSEC\_GSS uses. A restarted server
  reads its clients back from a state file. The program around it (\<open>src/\<close>) reads a configuration,
  registers the exports and serves an HTTP interface that manages them.

  \<^bold>\<open>The theories\<close>, from the bottom up.

  \<^item> Shared vocabulary. \<open>Prelude\<close>: machine integers as words, big-endian bytes, saturating
    arithmetic, results. \<open>Decimal\<close>, \<open>NetAddr\<close>: the formatting and parsing of the standard library
    that the code uses. \<open>MultiIndex\<close>: the interface of the multi-index map crate as locales, with a list
    implementation as their instance.

  \<^item> Protocol types (\<open>proto/src/nfs4_proto.rs\<close>, \<open>rpc_proto.rs\<close>). \<open>Nfs4_Types\<close>, \<open>Nfs4_Args\<close>,
    \<open>Nfs4_Res\<close>, \<open>Rpc\<close>: every type with its constructors.

  \<^item> The wire (\<open>proto/src/xdr.rs\<close>, \<open>utils.rs\<close>, \<open>lib.rs\<close>). \<open>Xdr\<close>: serializer and deserializer for
    serde's data model; the decoder inverts the encoder and yields values of the type asked for.
    \<open>AttrCodec\<close>: bitmaps and attribute values, their round trip, and what the decoder drops.
    \<open>Framing\<close>: record marking and the RPC header. \<open>RpcCodec\<close>: credentials, verifiers and replies.
    \<open>Rdma\<close>: the headers and segments of RPC over RDMA (\<open>server/rdma.rs\<close>).

  \<^item> Files (\<open>server/filemanager\<close>). \<open>Filehandle\<close>, \<open>FileAttrs\<close>, \<open>Locking\<close>: handles, attributes and lock
    state. \<open>FileManager\<close>, \<open>FileManagerActor\<close>: the tables and every message of the actor.
    \<open>LockSafety\<close>: in every reachable state no two conflicting locks are held, and no message panics.
    \<open>HandleTable\<close>: every handle a file manager makes names its export and is registered under its file's
    path; open files are removed late.
    \<open>MemFs\<close>: an in-memory filesystem, the instance of the filesystem parameter.

  \<^item> Clients, exports, sessions. \<open>ClientManager\<close>, \<open>ClientRecords\<close>: client identifiers, leases and the
    invariant of the records. \<open>AccessControl\<close>, \<open>Qos\<close>, \<open>ExportManager\<close>, \<open>ExportTables\<close>: client lists and
    flavours, rate limits and quotas, the two export tables and the finite map they implement.
    \<open>Sessions\<close>: the session table. \<open>StateRecovery\<close>: the state file and what a restart keeps.
    \<open>Startup\<close>: the configuration, the start of the server and the HTTP interface; the exports that are
    served are those of the configuration, behind the access control it asks for.

  \<^item> Authentication. \<open>Krb5Crypto\<close>, \<open>Krb5Laws\<close>, \<open>Cfx\<close>, \<open>Keytab\<close>, \<open>Krb5Acceptor\<close>: the \<open>krb5\<close> crate;
    decryption inverts encryption, n-fold ends and computes the sum of RFC 3961, tokens unwrap, an AP-REQ is
    accepted once. \<open>Krb5Initiator\<close>: the client's half; acceptor and initiator agree on key, sequence
    numbers and names. \<open>Gss\<close>, \<open>GssSafety\<close>: \<open>server/gss.rs\<close>; the sequence window implements the
    set of numbers seen, and only authenticated calls proceed, each once.

  \<^item> Requests and operations. \<open>Request\<close>, \<open>Perm\<close>, \<open>PermSafety\<close>, \<open>Handles\<close>: the request context, the
    permission checks and the handles of the actors. \<open>OpsFh\<close>, \<open>OpsState\<close>, \<open>OpsFile\<close>, \<open>OpsDir\<close>: one definition
    per operation. \<open>Compound\<close>: the dispatcher and the service. \<open>Frames\<close>, \<open>OpFrames\<close>, \<open>OpAnswers\<close>: what an
    operation leaves alone and the type of its answer. \<open>CompoundSafety\<close>: while the current
    filehandle is on an export an operation runs only if address, flavour (but for the operations that are
    exempt from it), read-only flag and permissions admit it; a COMPOUND stops at the first error, with
    its status; results match operations. \<open>OpProps\<close>: single operations. \<open>Connection\<close>: the loop of a
    connection, and what an export that requires Kerberos is sure of.

  \<^bold>\<open>Conventions.\<close> Records and datatypes have the fields and constructors of the sources; a shared,
  locked or actor-owned value is passed as state. \<open>Inl\<close> is an \<open>Err\<close> and \<open>None\<close> a panic or an \<open>Option\<close>,
  as the text at each definition says. Integers keep their width where the code computes with them. Every
  function terminates, so no definition has fuel: the loops that are not structural have a measure.
  Clocks, random bytes and hash values are arguments. Hash maps whose order no code depends on are
  association lists with distinct keys.

  \<^bold>\<open>Parameters.\<close> Code outside the repository is an argument with named laws, which an instance
  satisfies: the filesystem and the operating system (\<open>fs_ops\<close>, \<open>io_ops\<close>, \<open>std_ops\<close>, \<open>export_env\<close>; \<open>MemFs\<close>), the multi-index
  maps (the locales of \<open>MultiIndex\<close>), the primitives of the cryptography crates (\<open>crypto_prims\<close> with
  \<open>crypto_laws\<close>; \<open>xor_prims\<close>), the ASN.1 codec (\<open>der_ops\<close>,
  \<open>initiator_ops\<close> with \<open>der_laws\<close>), the TOML parser (\<open>startup_ops\<close>), serde\_json's parser and printer, the user and
  group databases, and the COMPOUND codec that serde's macros derive.

  \<^bold>\<open>Interfaces.\<close> Where a component relies on another, the contract is a locale and its client's lemmas
  are proved inside it; the interpretations on the definitions of the model are in the theory
  that provides them.

  \<^bold>\<open>Not modelled.\<close> The serializers that derive macros generate (there is no source for them; the codec
  they call is in \<open>Xdr\<close>). The constants of NFSv4.2, which no code uses (its operations are in
  \<open>OpsFile\<close>). Of the server program: the command line parser, log messages, the client of the HTTP
  interface (\<open>cli.rs\<close>) and the HTML pages (\<open>web.rs\<close>), which are formatting and I/O over third-party
  frameworks. The test and load tools (\<open>nfstest\<close>, \<open>stress\<close>, \<open>tests\<close>), which are clients of the
  server. Sockets, timers and the scheduling of actors: a theorem on reachable states holds for every
  sequence of messages.
\<close>

end
